(* ===== verification/Prelude.thy ===== *)
theory Prelude
  imports
    "HOL-Library.Word"
    "HOL-Library.Multiset"
    "HOL-Library.Sublist"
    "HOL-Library.Char_ord"
    "HOL-Library.List_Lexorder"
begin

section \<open>Shared vocabulary of the development\<close>

text \<open>
  Types, collections of rewrite rules and generic lemmas that every component uses:
  \<^item> fixed-width integers under the names the Go sources give them;
  \<^item> \<open>sort_slice\<close>, the model of \<^verbatim>\<open>sort.Slice\<close> and \<^verbatim>\<open>sort.Strings\<close> as a sort by a
    strict comparison function, with the interface locale \<open>slice_order\<close> that the
    comparison functions of the sources satisfy;
  \<^item> association lists as the model of Go maps that are filled and then iterated.
\<close>

unbundle bit_operations_syntax

type_synonym u8 = "8 word"
type_synonym u16 = "16 word"
type_synonym u32 = "32 word"
type_synonym u64 = "64 word"

named_theorems sort_facts \<open>facts about sort_slice\<close>

subsection \<open>Results\<close>

text \<open>A Go pair \<^verbatim>\<open>(T, error)\<close> is a value of the sum type, \<open>Inl\<close> the error.\<close>

definition is_ok :: "'e + 'a \<Rightarrow> bool" where
  "is_ok r = (case r of Inl _ \<Rightarrow> False | Inr _ \<Rightarrow> True)"

lemma is_ok_simps [simp]: "is_ok (Inl e) = False" "is_ok (Inr a) = True"
  by (simp_all add: is_ok_def)

lemma is_ok_iff: "is_ok r \<longleftrightarrow> (\<exists>a. r = Inr a)"
  by (cases r) auto

subsection \<open>Sorting by a comparison function\<close>

text \<open>
  \<^verbatim>\<open>sort.Slice\<close> is not stable: on elements that the comparison does not tell apart it may leave any order. \<open>sort_slice\<close> is a
  stable insertion sort, one of the results that Go may give. The locale \<open>slice_order\<close> states when the result
  does not depend on the choice (\<open>tie_free\<close>); where a list may have ties, as in \<^verbatim>\<open>sortFeedEntries\<close>, the model
  fixes the order of the tied elements.
\<close>

fun insert_by :: "('a \<Rightarrow> 'a \<Rightarrow> bool) \<Rightarrow> 'a \<Rightarrow> 'a list \<Rightarrow> 'a list" where
  "insert_by lt x [] = [x]"
| "insert_by lt x (y # ys) = (if lt y x then y # insert_by lt x ys else x # y # ys)"

fun sort_slice :: "('a \<Rightarrow> 'a \<Rightarrow> bool) \<Rightarrow> 'a list \<Rightarrow> 'a list" where
  "sort_slice lt [] = []"
| "sort_slice lt (x # xs) = insert_by lt x (sort_slice lt xs)"

lemma mset_insert_by [simp]: "mset (insert_by lt x xs) = add_mset x (mset xs)"
  by (induction xs) auto

lemma mset_sort_slice [simp, sort_facts]: "mset (sort_slice lt xs) = mset xs"
  by (induction xs) auto

lemma set_sort_slice [simp, sort_facts]: "set (sort_slice lt xs) = set xs"
  by (metis mset_sort_slice set_mset_mset)

lemma length_sort_slice [simp, sort_facts]: "length (sort_slice lt xs) = length xs"
  by (metis mset_sort_slice size_mset)

lemma length_filter_sort_slice [sort_facts]:
  "length (filter P (sort_slice lt xs)) = length (filter P xs)"
  by (metis mset_filter mset_sort_slice size_mset)

lemma sort_slice_eq_Nil [simp]: "sort_slice lt xs = [] \<longleftrightarrow> xs = []"
  by (metis length_0_conv length_sort_slice)

lemma distinct_map_mset_cong:
  assumes "mset xs = mset ys"
  shows "distinct (map f xs) = distinct (map f ys)"
  using assms by (metis mset_map mset_eq_imp_distinct_iff)

lemma distinct_map_sort_slice [simp, sort_facts]:
  "distinct (map f (sort_slice lt xs)) = distinct (map f xs)"
  by (rule distinct_map_mset_cong) simp

text \<open>
  The contract of a comparison function passed to \<^verbatim>\<open>sort.Slice\<close>: a strict weak order.
  Under it the sorted list is ordered, sorting is idempotent, and the result does not
  depend on the order of the input as long as no two different elements tie.
\<close>

locale slice_order =
  fixes lt :: "'a \<Rightarrow> 'a \<Rightarrow> bool"
  assumes lt_asym: "lt x y \<Longrightarrow> \<not> lt y x"
    and lt_negtrans: "\<not> lt x y \<Longrightarrow> \<not> lt y z \<Longrightarrow> \<not> lt x z"
begin

definition in_order :: "'a list \<Rightarrow> bool" where
  "in_order = sorted_wrt (\<lambda>x y. \<not> lt y x)"

lemma in_order_Cons: "in_order (x # xs) \<longleftrightarrow> (\<forall>y\<in>set xs. \<not> lt y x) \<and> in_order xs"
  by (simp add: in_order_def)

lemma set_insert_by: "set (insert_by lt x xs) = insert x (set xs)"
  by (metis mset_insert_by set_mset_add_mset_insert set_mset_mset)

lemma in_order_insert_by:
  assumes "in_order xs"
  shows "in_order (insert_by lt x xs)"
  using assms
proof (induction xs)
  case Nil
  then show ?case by (simp add: in_order_def)
next
  case (Cons y ys)
  then show ?case
    by (auto simp: in_order_Cons set_insert_by dest: lt_asym lt_negtrans)
qed

lemma in_order_sort_slice: "in_order (sort_slice lt xs)"
  by (induction xs) (simp_all add: in_order_insert_by, simp add: in_order_def)

lemma insert_by_in_order: "in_order (x # xs) \<Longrightarrow> insert_by lt x xs = x # xs"
  by (cases xs) (auto simp: in_order_Cons)

lemma sort_slice_in_order: "in_order xs \<Longrightarrow> sort_slice lt xs = xs"
  by (induction xs) (auto simp: insert_by_in_order in_order_Cons)

lemma sort_slice_idem: "sort_slice lt (sort_slice lt xs) = sort_slice lt xs"
  by (rule sort_slice_in_order) (rule in_order_sort_slice)

text \<open>Two different elements never compare as equal: the list has one sorted form.\<close>

definition tie_free :: "'a list \<Rightarrow> bool" where
  "tie_free xs \<longleftrightarrow> (\<forall>x\<in>set xs. \<forall>y\<in>set xs. \<not> lt x y \<longrightarrow> \<not> lt y x \<longrightarrow> x = y)"

lemma in_order_unique:
  assumes "in_order xs" and "in_order ys" and "mset xs = mset ys" and "tie_free xs"
  shows "xs = ys"
  using assms
proof (induction xs arbitrary: ys)
  case Nil
  then show ?case by simp
next
  case (Cons x xs)
  from Cons.prems(3) obtain y ys' where ys: "ys = y # ys'"
    by (cases ys) auto
  have sets: "insert x (set xs) = insert y (set ys')"
    using Cons.prems(3) ys by (metis mset.simps(2) set_mset_add_mset_insert set_mset_mset)
  have "\<not> lt y x"
    using Cons.prems(1) sets lt_asym by (metis in_order_Cons insertE insertI1)
  moreover have "\<not> lt x y"
    using Cons.prems(2) sets lt_asym by (metis in_order_Cons insertE insertI1 ys)
  ultimately have "x = y"
    using Cons.prems(4) sets by (metis insertI1 list.simps(15) tie_free_def)
  moreover have "xs = ys'"
    using Cons.prems Cons.IH [of ys'] \<open>x = y\<close> by (auto simp: ys in_order_Cons tie_free_def)
  ultimately show ?case by (simp add: ys)
qed

lemma sort_slice_perm:
  assumes "mset xs = mset ys" and "tie_free xs"
  shows "sort_slice lt xs = sort_slice lt ys"
proof (rule in_order_unique)
  show "tie_free (sort_slice lt xs)"
    using assms(2) by (simp add: tie_free_def)
qed (simp_all add: in_order_sort_slice assms(1))

end

text \<open>
  The comparison functions of the sources compare one key after another; the two rules
  below build their \<open>slice_order\<close> instances key by key.
\<close>

lemma slice_order_key: "slice_order (\<lambda>a b. f a < (f b :: 'k :: linorder))"
  by unfold_locales auto

lemma slice_order_lex:
  assumes "slice_order lt"
  shows "slice_order (\<lambda>a b. if f a \<noteq> f b then f a < (f b :: 'k :: linorder) else lt a b)"
proof -
  note asym = slice_order.lt_asym [OF assms] and neg = slice_order.lt_negtrans [OF assms]
  show ?thesis
  proof unfold_locales
    fix x y z
    assume xy: "\<not> (if f x \<noteq> f y then f x < f y else lt x y)"
      and yz: "\<not> (if f y \<noteq> f z then f y < f z else lt y z)"
    from xy yz have "f y \<le> f x" and "f z \<le> f y" by (auto split: if_splits)
    then show "\<not> (if f x \<noteq> f z then f x < f z else lt x z)"
      using xy yz neg [of x y z] by (auto split: if_splits)
  qed (auto split: if_splits dest: asym)
qed

interpretation key_order: slice_order "(<) :: 'k :: linorder \<Rightarrow> 'k \<Rightarrow> bool"
  by unfold_locales auto

lemma key_tie_free [simp]: "key_order.tie_free xs"
  by (auto simp: key_order.tie_free_def)

subsection \<open>Association lists as maps\<close>

text \<open>A write \<^verbatim>\<open>m[k] = v\<close> to a Go map that is later iterated.\<close>

fun upd :: "'k \<Rightarrow> 'v \<Rightarrow> ('k \<times> 'v) list \<Rightarrow> ('k \<times> 'v) list" where
  "upd k v [] = [(k, v)]"
| "upd k v ((k', v') # m) = (if k = k' then (k, v) # m else (k', v') # upd k v m)"

lemma map_of_upd [simp]: "map_of (upd k v m) = (map_of m)(k \<mapsto> v)"
  by (induction k v m rule: upd.induct) (auto simp: fun_eq_iff)

lemma fst_set_upd [simp]: "fst ` set (upd k v m) = insert k (fst ` set m)"
  by (induction k v m rule: upd.induct) auto

lemma distinct_upd [simp]: "distinct (map fst m) \<Longrightarrow> distinct (map fst (upd k v m))"
proof (induction k v m rule: upd.induct)
  case (2 k v k' v' m)
  have "set (map fst (upd k v m)) = insert k (set (map fst m))" by simp
  with 2 show ?case by (simp del: fst_set_upd set_map)
qed simp

lemma set_upd_subset: "set (upd k v m) \<subseteq> insert (k, v) (set m)"
  by (induction k v m rule: upd.induct) auto

lemma dom_map_of_fst: "dom (map_of m) = fst ` set m"
  by (rule dom_map_of_conv_image_fst)

end
