(* ===== verification/GoText.thy ===== *)
theory GoText
  imports Prelude
begin

section \<open>Go strings\<close>

text \<open>
  A Go string is a sequence of bytes, here a \<open>string\<close>. This theory holds the functions of
  the package \<^verbatim>\<open>strings\<close> and the decimal printing and parsing of \<^verbatim>\<open>fmt\<close> and \<^verbatim>\<open>strconv\<close>
  that the sources use, and the lemmas about them that the components share.
\<close>

subsection \<open>Trimming white space\<close>

text \<open>
  \<^verbatim>\<open>strings.TrimSpace\<close> removes the code points of \<^verbatim>\<open>unicode.IsSpace\<close> from both ends: six
  ASCII bytes and the UTF-8 encodings of the other white space code points.
\<close>

definition space_seqs :: "string list" where
  "space_seqs =
    [[CHR 0x20], [CHR 0x09], [CHR 0x0A], [CHR 0x0B], [CHR 0x0C], [CHR 0x0D],
     [CHR 0xC2, CHR 0x85], [CHR 0xC2, CHR 0xA0],
     [CHR 0xE1, CHR 0x9A, CHR 0x80],
     [CHR 0xE2, CHR 0x80, CHR 0x80], [CHR 0xE2, CHR 0x80, CHR 0x81],
     [CHR 0xE2, CHR 0x80, CHR 0x82], [CHR 0xE2, CHR 0x80, CHR 0x83],
     [CHR 0xE2, CHR 0x80, CHR 0x84], [CHR 0xE2, CHR 0x80, CHR 0x85],
     [CHR 0xE2, CHR 0x80, CHR 0x86], [CHR 0xE2, CHR 0x80, CHR 0x87],
     [CHR 0xE2, CHR 0x80, CHR 0x88], [CHR 0xE2, CHR 0x80, CHR 0x89],
     [CHR 0xE2, CHR 0x80, CHR 0x8A],
     [CHR 0xE2, CHR 0x80, CHR 0xA8], [CHR 0xE2, CHR 0x80, CHR 0xA9],
     [CHR 0xE2, CHR 0x80, CHR 0xAF], [CHR 0xE2, CHR 0x81, CHR 0x9F],
     [CHR 0xE3, CHR 0x80, CHR 0x80]]"

function strip :: "string list \<Rightarrow> string \<Rightarrow> string" where
  "strip seqs s =
     (case find (\<lambda>p. p \<noteq> [] \<and> prefix p s) seqs of
        None \<Rightarrow> s
      | Some p \<Rightarrow> strip seqs (drop (length p) s))"
  by pat_completeness auto
termination
  by (relation "measure (\<lambda>(seqs, s). length s)")
    (auto simp: find_Some_iff prefix_def)

declare strip.simps [simp del]

definition TrimSpace :: "string \<Rightarrow> string" where
  "TrimSpace s = rev (strip (map rev space_seqs) (rev (strip space_seqs s)))"

text \<open>Bytes that occur in no white space sequence: text made of them is left alone.\<close>

definition plain_char :: "char \<Rightarrow> bool" where
  "plain_char c \<longleftrightarrow> list_all (\<lambda>p. c \<notin> set p) space_seqs"

lemma strip_plain:
  assumes "\<forall>p\<in>set seqs. \<forall>c\<in>set s. c \<notin> set p"
  shows "strip seqs s = s"
proof -
  have "find (\<lambda>p. p \<noteq> [] \<and> prefix p s) seqs = None"
    unfolding find_None_iff
    using assms by (auto simp: prefix_def neq_Nil_conv)
  then show ?thesis by (simp add: strip.simps)
qed

lemma TrimSpace_plain:
  assumes "\<forall>c\<in>set s. plain_char c"
  shows "TrimSpace s = s"
proof -
  have a: "\<forall>p\<in>set space_seqs. \<forall>c\<in>set s. c \<notin> set p"
    using assms by (auto simp: plain_char_def list_all_iff)
  then have b: "\<forall>p\<in>set (map rev space_seqs). \<forall>c\<in>set (rev s). c \<notin> set p"
    by auto
  show ?thesis
    by (simp only: TrimSpace_def strip_plain [OF a] strip_plain [OF b] rev_rev_ident)
qed

lemma TrimSpace_Nil [simp]: "TrimSpace [] = []"
  by (rule TrimSpace_plain) simp

lemma strip_no_prefix: "p \<in> set seqs \<Longrightarrow> p \<noteq> [] \<Longrightarrow> \<not> prefix p (strip seqs s)"
proof (induction seqs s rule: strip.induct)
  case (1 seqs s)
  show ?case
  proof (cases "find (\<lambda>p. p \<noteq> [] \<and> prefix p s) seqs")
    case None
    then have "strip seqs s = s" by (subst strip.simps) simp
    then show ?thesis using None 1(2,3) by (auto simp: find_None_iff)
  next
    case (Some q)
    then show ?thesis using 1 by (subst strip.simps) auto
  qed
qed

lemma strip_id: "\<forall>p\<in>set seqs. p \<noteq> [] \<longrightarrow> \<not> prefix p s \<Longrightarrow> strip seqs s = s"
  by (subst strip.simps) (simp split: option.split add: find_Some_iff, metis nth_mem)

lemma strip_suffix: "suffix (strip seqs s) s"
proof (induction seqs s rule: strip.induct)
  case (1 seqs s)
  show ?case
    by (subst strip.simps) (auto split: option.split dest: 1 intro: suffix_order.trans suffix_drop)
qed

lemma TrimSpace_idem [simp]: "TrimSpace (TrimSpace s) = TrimSpace s"
proof -
  let ?l = "strip space_seqs s" and ?r = "map rev space_seqs"
  have pre: "prefix (TrimSpace s) ?l"
    using strip_suffix [of ?r "rev ?l"] by (simp add: TrimSpace_def suffix_to_prefix)
  have "strip space_seqs (TrimSpace s) = TrimSpace s"
    using strip_no_prefix [of _ space_seqs s] pre by (intro strip_id) (blast intro: prefix_order.trans)
  moreover have "strip ?r (rev (TrimSpace s)) = rev (TrimSpace s)"
    using strip_no_prefix [of _ ?r "rev ?l"] by (intro strip_id) (simp add: TrimSpace_def)
  ultimately show ?thesis by (subst TrimSpace_def) simp
qed

subsection \<open>Lower case\<close>

text \<open>
  \<^verbatim>\<open>strings.ToLower\<close> on the bytes of ASCII letters, and on the two code points outside ASCII
  whose lower case is an ASCII letter (U+0130 and U+212A). The sources compare the result
  with ASCII literals only, for which the spelling of other code points does not matter;
  they are left as they are.
\<close>

definition lower_char :: "char \<Rightarrow> char" where
  "lower_char c =
     (if 65 \<le> (of_char c :: nat) \<and> (of_char c :: nat) \<le> 90 then char_of (of_char c + 32 :: nat) else c)"

fun ToLower :: "string \<Rightarrow> string" where
  "ToLower [] = []"
| "ToLower [c] = [lower_char c]"
| "ToLower [c, d] =
     (if c = CHR 0xC4 \<and> d = CHR 0xB0 then ''i'' else [lower_char c, lower_char d])"
| "ToLower (c # d # e # s) =
     (if c = CHR 0xC4 \<and> d = CHR 0xB0 then CHR ''i'' # ToLower (e # s)
      else if c = CHR 0xE2 \<and> d = CHR 0x84 \<and> e = CHR 0xAA then CHR ''k'' # ToLower s
      else lower_char c # ToLower (d # e # s))"

subsection \<open>Decimal numbers\<close>

definition digit :: "nat \<Rightarrow> char" where
  "digit n = char_of (48 + n)"

definition is_digit :: "char \<Rightarrow> bool" where
  "is_digit c \<longleftrightarrow> 48 \<le> (of_char c :: nat) \<and> (of_char c :: nat) \<le> 57"

definition digit_val :: "char \<Rightarrow> nat" where
  "digit_val c = of_char c - 48"

text \<open>\<^verbatim>\<open>fmt.Sprint\<close>, \<^verbatim>\<open>%d\<close> and \<^verbatim>\<open>strconv.FormatUint(_, 10)\<close> on an unsigned value.\<close>

fun dec :: "nat \<Rightarrow> string" where
  "dec n = (if n < 10 then [digit n] else dec (n div 10) @ [digit (n mod 10)])"

declare dec.simps [simp del]

lemma of_char_digit: "n < 10 \<Longrightarrow> (of_char (digit n) :: nat) = 48 + n"
  by (simp add: digit_def)

lemma is_digit_digit [simp]: "n < 10 \<Longrightarrow> is_digit (digit n)"
  by (simp add: is_digit_def of_char_digit)

lemma digit_val_digit [simp]: "n < 10 \<Longrightarrow> digit_val (digit n) = n"
  by (simp add: digit_val_def of_char_digit)

lemma digit_eq_iff: "m < 10 \<Longrightarrow> n < 10 \<Longrightarrow> digit m = digit n \<longleftrightarrow> m = n"
  by (metis digit_val_digit)

text \<open>Evaluation of \<open>dec\<close> on machine words, in binary.\<close>

function dec_int :: "int \<Rightarrow> string" where
  "dec_int i = (if i < 10 then [digit (nat i)] else dec_int (i div 10) @ [digit (nat (i mod 10))])"
  by auto
termination
  by (relation "measure nat") auto

declare dec_int.simps [simp del]

lemma dec_nat: "0 \<le> i \<Longrightarrow> dec (nat i) = dec_int i"
proof (induction i rule: dec_int.induct)
  case (1 i)
  then show ?case
    by (subst dec.simps, subst dec_int.simps) (auto simp: nat_div_distrib nat_mod_distrib)
qed

lemma dec_word [code_unfold]: "dec (Word.the_nat w) = dec_int (uint (w :: 'w :: len word))"
  using dec_nat [of "uint w"] by (simp add: Word.the_nat_def)

lemma dec_nonempty [simp]: "dec n \<noteq> []"
  by (subst dec.simps) simp

lemma dec_digits: "\<forall>c\<in>set (dec n). is_digit c"
proof (induction n rule: dec.induct)
  case (1 n)
  then show ?case by (subst dec.simps) (auto simp: Ball_def)
qed

text \<open>\<^verbatim>\<open>%d\<close> of a signed integer.\<close>

definition dec_signed :: "int \<Rightarrow> string" where
  "dec_signed i = (if i < 0 then CHR ''-'' # dec (nat (- i)) else dec (nat i))"

text \<open>Reading decimal digits, most significant first.\<close>

definition dec_val :: "string \<Rightarrow> nat" where
  "dec_val s = foldl (\<lambda>v c. 10 * v + digit_val c) 0 s"

lemma dec_val_snoc: "dec_val (s @ [c]) = 10 * dec_val s + digit_val c"
  by (simp add: dec_val_def)

lemma dec_val_dec [simp]: "dec_val (dec n) = n"
proof (induction n rule: dec.induct)
  case (1 n)
  show ?case
  proof (cases "n < 10")
    case True
    then show ?thesis by (subst dec.simps) (simp add: dec_val_def)
  next
    case False
    then show ?thesis using 1 by (subst dec.simps) (simp add: dec_val_snoc)
  qed
qed

lemma dec_inj [simp]: "dec m = dec n \<longleftrightarrow> m = n"
  by (metis dec_val_dec)

lemma dec_1: "n < 10 \<Longrightarrow> dec n = [digit n]"
  by (subst dec.simps) simp

lemma dec_2: "10 \<le> n \<Longrightarrow> n < 100 \<Longrightarrow> dec n = [digit (n div 10), digit (n mod 10)]"
  by (subst dec.simps) (simp add: dec_1)

lemma dec_3:
  "100 \<le> n \<Longrightarrow> n < 1000 \<Longrightarrow> dec n = [digit (n div 100), digit (n div 10 mod 10), digit (n mod 10)]"
  by (subst dec.simps) (simp add: dec_2 div_mult2_eq [symmetric])

lemma is_digit_plain: "is_digit c \<Longrightarrow> plain_char c"
  by (auto simp: is_digit_def plain_char_def space_seqs_def)

lemma plain_punct [simp]: "plain_char CHR ''.''" "plain_char CHR ''/''" "plain_char CHR '':''"
  by (simp_all add: plain_char_def space_seqs_def)

lemma dec_plain: "c \<in> set (dec n) \<Longrightarrow> plain_char c"
  using dec_digits is_digit_plain by blast

lemma punct_not_digit [simp]:
  "\<not> is_digit CHR ''.''" "\<not> is_digit CHR ''/''" "\<not> is_digit CHR '':''"
  by (simp_all add: is_digit_def)

text \<open>Numbers joined by a separator that is no digit can be read back.\<close>

lemma split_at_sep:
  assumes "c \<notin> set xs" and "c \<notin> set xs'" and "xs @ c # ys = xs' @ c # ys'"
  shows "xs = xs' \<and> ys = ys'"
  using assms
proof (induction xs arbitrary: xs')
  case Nil
  then show ?case by (cases xs') auto
next
  case (Cons x xs)
  then show ?case by (cases xs') auto
qed

lemma dec_sep_inj:
  assumes "\<not> is_digit c"
  shows "dec m @ c # s = dec n @ c # t \<longleftrightarrow> m = n \<and> s = t"
proof -
  have "c \<notin> set (dec m)" "c \<notin> set (dec n)"
    using assms dec_digits by blast+
  then show ?thesis
    using split_at_sep [of c "dec m" "dec n" s t] by auto
qed

end
