(* ===== verification/Netaddr.thy ===== *)
theory Netaddr
  imports GoText
begin

section \<open>Addresses: the parts of net, net/netip and encoding/binary in use\<close>

text \<open>
  IPv4 addresses as 32-bit words in network order (\<open>a.b.c.d\<close> is \<open>a*2^24 + \<dots>\<close>), IPv4
  prefixes, hardware addresses as byte lists, and their textual forms. IPv6 text is
  rejected by every caller in the sources, so the parsers here return \<open>None\<close> for it, as
  they do for text that is no address at all.
\<close>

subsection \<open>Bytes of an address\<close>

definition As4 :: "u32 \<Rightarrow> u8 \<times> u8 \<times> u8 \<times> u8" where
  "As4 a = (ucast (drop_bit 24 a), ucast (drop_bit 16 a), ucast (drop_bit 8 a), ucast a)"

definition AddrFrom4 :: "u8 \<times> u8 \<times> u8 \<times> u8 \<Rightarrow> u32" where
  "AddrFrom4 b = (case b of (b0, b1, b2, b3) \<Rightarrow>
     push_bit 24 (ucast b0) OR push_bit 16 (ucast b1) OR push_bit 8 (ucast b2) OR ucast b3)"

definition LittleEndian_Uint32 :: "u8 \<times> u8 \<times> u8 \<times> u8 \<Rightarrow> u32" where
  "LittleEndian_Uint32 b = (case b of (b0, b1, b2, b3) \<Rightarrow>
     ucast b0 OR push_bit 8 (ucast b1) OR push_bit 16 (ucast b2) OR push_bit 24 (ucast b3))"

lemma bit_u32: "bit (a :: u32) n \<Longrightarrow> n < 32"
  using bit_imp_le_length [of a n] by simp

lemma bit_u8: "bit (b :: u8) n \<Longrightarrow> n < 8"
  using bit_imp_le_length [of b n] by simp

lemma bit_AddrFrom4:
  "bit (AddrFrom4 (b0, b1, b2, b3)) n \<longleftrightarrow>
     (if n < 8 then bit b3 n else if n < 16 then bit b2 (n - 8)
      else if n < 24 then bit b1 (n - 16) else n < 32 \<and> bit b0 (n - 24))"
  using bit_u8 [of b3 n] bit_u8 [of b2 "n - 8"] bit_u8 [of b1 "n - 16"] bit_u8 [of b0 "n - 24"]
  by (auto simp: AddrFrom4_def bit_simps)

lemma bit_LittleEndian:
  "bit (LittleEndian_Uint32 (b0, b1, b2, b3)) n \<longleftrightarrow>
     (if n < 8 then bit b0 n else if n < 16 then bit b1 (n - 8)
      else if n < 24 then bit b2 (n - 16) else n < 32 \<and> bit b3 (n - 24))"
  using bit_u8 [of b0 n] bit_u8 [of b1 "n - 8"] bit_u8 [of b2 "n - 16"] bit_u8 [of b3 "n - 24"]
  by (auto simp: LittleEndian_Uint32_def bit_simps)

lemma bit_ucast_u8: "bit (ucast (a :: u32) :: u8) n \<longleftrightarrow> n < 8 \<and> bit a n"
  by (auto simp: bit_simps)

lemma AddrFrom4_As4 [simp]: "AddrFrom4 (As4 a) = a"
  by (rule bit_word_eqI) (auto simp: As4_def bit_AddrFrom4 bit_ucast_u8 bit_drop_bit_eq)

lemma As4_AddrFrom4 [simp]: "As4 (AddrFrom4 b) = b"
proof -
  obtain b0 b1 b2 b3 where b: "b = (b0, b1, b2, b3)" by (cases b)
  have "ucast (drop_bit 24 (AddrFrom4 b)) = b0" "ucast (drop_bit 16 (AddrFrom4 b)) = b1"
    "ucast (drop_bit 8 (AddrFrom4 b)) = b2" "ucast (AddrFrom4 b) = b3"
    unfolding b by (rule bit_word_eqI; simp add: bit_AddrFrom4 bit_ucast_u8 bit_drop_bit_eq)+
  then show ?thesis by (simp add: As4_def b)
qed

lemma LittleEndian_twice: "LittleEndian_Uint32 (As4 (LittleEndian_Uint32 (As4 a))) = a"
  by (rule bit_word_eqI) (auto simp: As4_def bit_LittleEndian bit_ucast_u8 bit_drop_bit_eq)

lemma unat_u8_le: "unat (b :: u8) \<le> 255"
proof -
  have "unat b < 2 ^ 8" using unsigned_less [where w = b and 'a = nat] by simp
  then show ?thesis by simp
qed

lemma LittleEndian_As4_inj: "LittleEndian_Uint32 (As4 a) = LittleEndian_Uint32 (As4 b) \<longleftrightarrow> a = b"
  by (metis LittleEndian_twice)

subsection \<open>Dotted decimal\<close>

definition Addr_String :: "u32 \<Rightarrow> string" where
  "Addr_String a = (case As4 a of (b0, b1, b2, b3) \<Rightarrow>
     dec (unat b0) @ ''.'' @ dec (unat b1) @ ''.'' @ dec (unat b2) @ ''.'' @ dec (unat b3))"

text \<open>
  \<^verbatim>\<open>netip.parseIPv4Fields\<close>: \<open>val\<close> is the octet being read, \<open>digLen\<close> the number of its digits,
  \<open>fields\<close> the octets already closed by a dot.
\<close>

fun parseIPv4Fields :: "string \<Rightarrow> nat \<Rightarrow> nat \<Rightarrow> nat list \<Rightarrow> nat list option" where
  "parseIPv4Fields [] val digLen fields =
     (if length fields < 3 then None else Some (fields @ [val]))"
| "parseIPv4Fields (c # s) val digLen fields =
     (if is_digit c then
        if digLen = 1 \<and> val = 0 then None
        else let v = 10 * val + digit_val c in
          if 255 < v then None else parseIPv4Fields s v (Suc digLen) fields
      else if c = CHR ''.'' then
        if digLen = 0 \<or> s = [] then None
        else if length fields = 3 then None
        else parseIPv4Fields s 0 0 (fields @ [val])
      else None)"

definition ParseAddr4 :: "string \<Rightarrow> u32 option" where
  "ParseAddr4 s = (case parseIPv4Fields s 0 0 [] of
      Some [a, b, c, d] \<Rightarrow> Some (AddrFrom4 (of_nat a, of_nat b, of_nat c, of_nat d))
    | _ \<Rightarrow> None)"

lemma three_digits: "10 * (n div 100) + n div 10 mod 10 = n div (10 :: nat)"
  using mult_div_mod_eq [of 10 "n div 10"] by (simp add: div_mult2_eq [of n 10 10, simplified])

lemma parseIPv4Fields_dec:
  assumes "n \<le> 255"
  shows "\<exists>k>0. parseIPv4Fields (dec n @ s) 0 0 fs = parseIPv4Fields s n k fs"
proof -
  consider "n < 10" | "10 \<le> n" "n < 100" | "100 \<le> n" "n < 1000"
    using assms by linarith
  then show ?thesis
  proof cases
    case 1
    then show ?thesis using assms by (auto simp: dec_1 Let_def)
  next
    case 2
    then show ?thesis using assms by (auto simp: dec_2 Let_def)
  next
    case 3
    then have pos: "n div 100 \<noteq> 0" and lt: "n div 100 < 10" by auto
    then show ?thesis using assms 3 by (auto simp: dec_3 Let_def three_digits)
  qed
qed

lemma parseIPv4Fields_dec_dot:
  assumes "n \<le> 255" and "length fs < 3" and "s \<noteq> []"
  shows "parseIPv4Fields (dec n @ CHR ''.'' # s) 0 0 fs = parseIPv4Fields s 0 0 (fs @ [n])"
  using parseIPv4Fields_dec [OF assms(1), of "CHR ''.'' # s" fs] assms(2,3) by auto

lemma parseIPv4Fields_dec_end:
  "n \<le> 255 \<Longrightarrow> length fs = 3 \<Longrightarrow> parseIPv4Fields (dec n) 0 0 fs = Some (fs @ [n])"
  using parseIPv4Fields_dec [of n "[]" fs] by auto

lemma ParseAddr4_Addr_String [simp]: "ParseAddr4 (Addr_String a) = Some a"
proof -
  obtain b0 b1 b2 b3 where b: "As4 a = (b0, b1, b2, b3)" by (cases "As4 a")
  have "parseIPv4Fields (Addr_String a) 0 0 [] = Some [unat b0, unat b1, unat b2, unat b3]"
    by (simp add: Addr_String_def b parseIPv4Fields_dec_dot parseIPv4Fields_dec_end unat_u8_le)
  moreover have "AddrFrom4 (b0, b1, b2, b3) = a"
    using AddrFrom4_As4 [of a] by (simp add: b)
  ultimately show ?thesis by (simp add: ParseAddr4_def)
qed

lemma Addr_String_inj [simp]: "Addr_String a = Addr_String b \<longleftrightarrow> a = b"
  by (metis ParseAddr4_Addr_String option.inject)

lemma Addr_String_chars: "c \<in> set (Addr_String a) \<Longrightarrow> is_digit c \<or> c = CHR ''.''"
  using dec_digits by (fastforce simp: Addr_String_def split: prod.splits)

lemma Addr_String_nonempty [simp]: "Addr_String a \<noteq> []"
  by (simp add: Addr_String_def split: prod.split)

lemma TrimSpace_Addr_String [simp]: "TrimSpace (Addr_String a) = Addr_String a"
  by (rule TrimSpace_plain) (auto dest: Addr_String_chars is_digit_plain)

subsection \<open>Prefixes\<close>

record prefix4 =
  pfx_addr :: u32
  pfx_bits :: nat

definition Masked :: "prefix4 \<Rightarrow> prefix4" where
  "Masked p = p\<lparr>pfx_addr := pfx_addr p AND NOT (mask (32 - pfx_bits p))\<rparr>"

definition Contains :: "prefix4 \<Rightarrow> u32 \<Rightarrow> bool" where
  "Contains p a \<longleftrightarrow> drop_bit (32 - pfx_bits p) (pfx_addr p XOR a) = 0"

definition Prefix_String :: "prefix4 \<Rightarrow> string" where
  "Prefix_String p = Addr_String (pfx_addr p) @ ''/'' @ dec (pfx_bits p)"

definition parse_bits :: "string \<Rightarrow> nat option" where
  "parse_bits s =
     (if s = [] \<or> \<not> list_all is_digit s \<or> (1 < length s \<and> hd s = CHR ''0'') then None
      else if dec_val s \<le> 32 then Some (dec_val s) else None)"

text \<open>\<^verbatim>\<open>netip.ParsePrefix\<close> splits at the last slash.\<close>

definition ParsePrefix4 :: "string \<Rightarrow> prefix4 option" where
  "ParsePrefix4 s =
     (let r = rev s; bits = rev (takeWhile (\<lambda>c. c \<noteq> CHR ''/'') r);
          rest = dropWhile (\<lambda>c. c \<noteq> CHR ''/'') r
      in if rest = [] then None
         else case ParseAddr4 (rev (tl rest)) of
            None \<Rightarrow> None
          | Some a \<Rightarrow> (case parse_bits bits of
               None \<Rightarrow> None
             | Some n \<Rightarrow> Some \<lparr>pfx_addr = a, pfx_bits = n\<rparr>))"

lemma list_all_dec: "list_all is_digit (dec n)"
  using dec_digits by (simp add: list_all_iff)

lemma parse_bits_dec: "n \<le> 32 \<Longrightarrow> parse_bits (dec n) = Some n"
proof -
  assume n: "n \<le> 32"
  have "\<not> (1 < length (dec n) \<and> hd (dec n) = CHR ''0'')"
  proof (cases "n < 10")
    case True
    then show ?thesis by (simp add: dec_1)
  next
    case False
    have "n div 10 < 10" "n div 10 \<noteq> 0" using n False by auto
    then have "hd (dec n) = digit (n div 10)" "digit (n div 10) \<noteq> digit 0"
      using n False digit_eq_iff [of "n div 10" 0] by (simp_all add: dec_2)
    moreover have "digit 0 = CHR ''0''" by code_simp
    ultimately show ?thesis by simp
  qed
  then show ?thesis using n by (simp add: parse_bits_def list_all_dec)
qed

lemma takeWhile_dropWhile_rev_sep:
  assumes "c \<notin> set ys"
  shows "takeWhile (\<lambda>d. d \<noteq> c) (rev ys @ c # rev xs) = rev ys"
    and "dropWhile (\<lambda>d. d \<noteq> c) (rev ys @ c # rev xs) = c # rev xs"
proof -
  have *: "\<forall>d\<in>set (rev ys). d \<noteq> c" using assms by auto
  show "takeWhile (\<lambda>d. d \<noteq> c) (rev ys @ c # rev xs) = rev ys"
    using * by (subst takeWhile_append2) auto
  show "dropWhile (\<lambda>d. d \<noteq> c) (rev ys @ c # rev xs) = c # rev xs"
    using * by (subst dropWhile_append2) auto
qed

lemma slash_notin_dec: "CHR ''/'' \<notin> set (dec n)"
  using dec_digits by fastforce

lemma ParsePrefix4_Prefix_String [simp]:
  assumes "pfx_bits p \<le> 32"
  shows "ParsePrefix4 (Prefix_String p) = Some p"
proof -
  have r: "rev (Prefix_String p) = rev (dec (pfx_bits p)) @ CHR ''/'' # rev (Addr_String (pfx_addr p))"
    by (simp add: Prefix_String_def)
  show ?thesis
    by (simp add: ParsePrefix4_def r takeWhile_dropWhile_rev_sep [OF slash_notin_dec]
        parse_bits_dec [OF assms])
qed

lemma ParsePrefix4_bits: "ParsePrefix4 s = Some p \<Longrightarrow> pfx_bits p \<le> 32"
  by (auto simp: ParsePrefix4_def parse_bits_def Let_def split: option.splits if_splits)

lemma Prefix_String_inj:
  assumes "Prefix_String p = Prefix_String q"
  shows "p = q"
proof -
  have "CHR ''/'' \<notin> set (Addr_String a)" for a
    using Addr_String_chars [of "CHR ''/''" a] by auto
  then have "Addr_String (pfx_addr p) = Addr_String (pfx_addr q) \<and> dec (pfx_bits p) = dec (pfx_bits q)"
    using assms split_at_sep [of "CHR ''/''" "Addr_String (pfx_addr p)" "Addr_String (pfx_addr q)"
        "dec (pfx_bits p)" "dec (pfx_bits q)"]
    by (simp add: Prefix_String_def)
  then show ?thesis by (simp add: prefix4.equality)
qed

lemma Prefix_String_plain: "c \<in> set (Prefix_String p) \<Longrightarrow> plain_char c"
  by (auto simp: Prefix_String_def dest: Addr_String_chars is_digit_plain dec_plain)

lemma TrimSpace_Prefix_String [simp]: "TrimSpace (Prefix_String p) = Prefix_String p"
  by (rule TrimSpace_plain) (auto dest: Prefix_String_plain)

subsection \<open>The addresses of a prefix\<close>

lemma Contains_iff_bits:
  "Contains p a \<longleftrightarrow> (\<forall>i. 32 - pfx_bits p \<le> i \<and> i < 32 \<longrightarrow> bit (pfx_addr p) i = bit a i)"
proof -
  have "Contains p a \<longleftrightarrow> (\<forall>j. \<not> bit (drop_bit (32 - pfx_bits p) (pfx_addr p XOR a)) j)"
    unfolding Contains_def by (metis bit_0_eq bot_apply bot_bool_def bit_eqI)
  also have "\<dots> \<longleftrightarrow> (\<forall>j. bit (pfx_addr p) (32 - pfx_bits p + j) = bit a (32 - pfx_bits p + j))"
    by (auto simp: bit_simps)
  also have "\<dots> \<longleftrightarrow> (\<forall>i. 32 - pfx_bits p \<le> i \<longrightarrow> bit (pfx_addr p) i = bit a i)"
    by (metis le_add1 le_add_diff_inverse)
  also have "\<dots> \<longleftrightarrow> (\<forall>i. 32 - pfx_bits p \<le> i \<and> i < 32 \<longrightarrow> bit (pfx_addr p) i = bit a i)"
    by (metis bit_u32)
  finally show ?thesis .
qed

lemma bits_Masked [simp]: "pfx_bits (Masked p) = pfx_bits p"
  by (simp add: Masked_def)

lemma bit_Masked:
  "bit (pfx_addr (Masked p)) i \<longleftrightarrow> 32 - pfx_bits p \<le> i \<and> bit (pfx_addr p) i"
  using bit_imp_le_length [of "pfx_addr p" i] by (auto simp: Masked_def bit_simps)

lemma Masked_idem [simp]: "Masked (Masked p) = Masked p"
  by (auto simp: Masked_def)

lemma Contains_Masked [simp]: "Contains (Masked p) a = Contains p a"
  by (auto simp: Contains_iff_bits bit_Masked)

lemma Contains_self [simp]: "Contains p (pfx_addr p)"
  by (simp add: Contains_def)

text \<open>Masked prefixes are determined by their length and the addresses they contain.\<close>

lemma Masked_eq_iff:
  "Masked p = Masked q \<longleftrightarrow> pfx_bits p = pfx_bits q \<and> Contains p (pfx_addr q)"
proof -
  have "Masked p = Masked q \<longleftrightarrow>
      pfx_bits p = pfx_bits q \<and> (\<forall>i. bit (pfx_addr (Masked p)) i = bit (pfx_addr (Masked q)) i)"
    by (metis (full_types) bit_eq_iff bits_Masked old.unit.exhaust prefix4.surjective)
  also have "\<dots> \<longleftrightarrow> pfx_bits p = pfx_bits q \<and> Contains p (pfx_addr q)"
  proof -
    have "(\<forall>i. bit (pfx_addr (Masked p)) i = bit (pfx_addr (Masked q)) i) \<longleftrightarrow> Contains p (pfx_addr q)"
      if "pfx_bits p = pfx_bits q"
      unfolding bit_Masked Contains_iff_bits that by (metis bit_u32)
    then show ?thesis by blast
  qed
  finally show ?thesis .
qed

subsection \<open>Hardware addresses\<close>

definition hex_val :: "char \<Rightarrow> nat option" where
  "hex_val c = (let n = of_char c :: nat in
     if 48 \<le> n \<and> n \<le> 57 then Some (n - 48)
     else if 97 \<le> n \<and> n \<le> 102 then Some (n - 87)
     else if 65 \<le> n \<and> n \<le> 70 then Some (n - 55)
     else None)"

definition hex_byte :: "char \<Rightarrow> char \<Rightarrow> u8 option" where
  "hex_byte a b = (case (hex_val a, hex_val b) of
     (Some h, Some l) \<Rightarrow> Some (of_nat (16 * h + l)) | _ \<Rightarrow> None)"

text \<open>The byte loops of \<^verbatim>\<open>net.ParseMAC\<close>: pairs with a separator, and groups of two pairs.\<close>

fun mac_pairs :: "char \<Rightarrow> string \<Rightarrow> u8 list option" where
  "mac_pairs sep [a, b] = map_option (\<lambda>x. [x]) (hex_byte a b)"
| "mac_pairs sep (a # b # c # s) =
     (if c \<noteq> sep then None
      else case (hex_byte a b, mac_pairs sep s) of
        (Some x, Some xs) \<Rightarrow> Some (x # xs) | _ \<Rightarrow> None)"
| "mac_pairs sep _ = None"

fun mac_quads :: "string \<Rightarrow> u8 list option" where
  "mac_quads [a, b, c, d] = (case (hex_byte a b, hex_byte c d) of
     (Some x, Some y) \<Rightarrow> Some [x, y] | _ \<Rightarrow> None)"
| "mac_quads (a # b # c # d # e # s) =
     (if e \<noteq> CHR ''.'' then None
      else case (hex_byte a b, hex_byte c d, mac_quads s) of
        (Some x, Some y, Some xs) \<Rightarrow> Some (x # y # xs) | _ \<Rightarrow> None)"
| "mac_quads _ = None"

definition ParseMAC :: "string \<Rightarrow> u8 list option" where
  "ParseMAC s =
     (if length s < 14 then None
      else if s ! 2 = CHR '':'' \<or> s ! 2 = CHR ''-'' then
        if (length s + 1) mod 3 \<noteq> 0 \<or> (length s + 1) div 3 \<notin> {6, 8, 20} then None
        else mac_pairs (s ! 2) s
      else if s ! 4 = CHR ''.'' then
        if (length s + 1) mod 5 \<noteq> 0 \<or> 2 * (length s + 1) div 5 \<notin> {6, 8, 20} then None
        else mac_quads s
      else None)"

definition hex_digit :: "nat \<Rightarrow> char" where
  "hex_digit n = char_of (if n < 10 then 48 + n else 87 + n)"

definition hex_pair :: "u8 \<Rightarrow> string" where
  "hex_pair b = [hex_digit (unat b div 16), hex_digit (unat b mod 16)]"

fun MAC_String :: "u8 list \<Rightarrow> string" where
  "MAC_String [] = []"
| "MAC_String [b] = hex_pair b"
| "MAC_String (b # bs) = hex_pair b @ '':'' @ MAC_String bs"

lemma hex_val_digit: "n < 16 \<Longrightarrow> hex_val (hex_digit n) = Some n"
  by (auto simp: hex_val_def hex_digit_def Let_def)

lemma hex_byte_pair: "hex_byte (hex_digit (unat b div 16)) (hex_digit (unat b mod 16)) = Some b"
proof -
  have "unat b div 16 < 16" using unat_u8_le [of b] by simp
  then show ?thesis by (simp add: hex_byte_def hex_val_digit)
qed

lemma mac_pairs_String: "bs \<noteq> [] \<Longrightarrow> mac_pairs CHR '':'' (MAC_String bs) = Some bs"
  by (induction bs rule: MAC_String.induct) (simp_all add: hex_pair_def hex_byte_pair)

lemma length_MAC_String: "bs \<noteq> [] \<Longrightarrow> length (MAC_String bs) + 1 = 3 * length bs"
  by (induction bs rule: MAC_String.induct) (simp_all add: hex_pair_def)

lemma MAC_String_colon: "MAC_String (a # b # bs) ! 2 = CHR '':''"
  by (simp add: hex_pair_def)

lemma ParseMAC_MAC_String:
  assumes "length bs = 6"
  shows "ParseMAC (MAC_String bs) = Some bs"
proof -
  from assms obtain a b cs where bs: "bs = a # b # cs"
    by (cases bs; cases "tl bs") auto
  have "length (MAC_String bs) = 17" using length_MAC_String [of bs] assms by (simp add: bs)
  moreover have "MAC_String bs ! 2 = CHR '':''" unfolding bs by (rule MAC_String_colon)
  ultimately show ?thesis
    using mac_pairs_String [of bs] by (simp add: ParseMAC_def bs)
qed

lemma plain_hex_digit: "n < 16 \<Longrightarrow> plain_char (hex_digit n)"
proof -
  assume "n < 16"
  then have "(of_char (hex_digit n) :: nat) = (if n < 10 then 48 + n else 87 + n)"
    by (simp add: hex_digit_def)
  then show ?thesis using \<open>n < 16\<close>
    by (auto simp: plain_char_def space_seqs_def split: if_splits)
qed

lemma MAC_String_plain: "c \<in> set (MAC_String bs) \<Longrightarrow> plain_char c"
proof (induction bs rule: MAC_String.induct)
  case 1
  then show ?case by simp
next
  case (2 b)
  have "unat b div 16 < 16" using unat_u8_le [of b] by simp
  with 2 show ?case by (auto simp: hex_pair_def plain_hex_digit)
next
  case (3 b v va)
  have "unat b div 16 < 16" using unat_u8_le [of b] by simp
  with 3 show ?case by (auto simp: hex_pair_def plain_hex_digit)
qed

lemma TrimSpace_MAC_String [simp]: "TrimSpace (MAC_String bs) = MAC_String bs"
  by (rule TrimSpace_plain) (auto dest: MAC_String_plain)

end
