(* ===== verification/Contract.thy ===== *)
theory Contract
  imports Netaddr
begin

section \<open>The contract between the agent and the XDP program\<close>

text \<open>
  \<^verbatim>\<open>internal/agent/contract.go\<close>: the numeric constants and the key and value structs of the
  BPF maps, field by field; \<^verbatim>\<open>internal/agent/contracts_bpf.go\<close>: the table of maps the loaded
  object must have (\<open>ExpectedMaps\<close>), its check and the pinning of the maps.
\<close>

subsection \<open>Constants\<close>

definition actionPass :: u32 where "actionPass = 0"
definition actionDrop :: u32 where "actionDrop = 1"
definition actionRedirect :: u32 where "actionRedirect = 6"
definition reasonNone :: u32 where "reasonNone = 0"
definition reasonNotAllowedService :: u32 where "reasonNotAllowedService = 4"
definition reasonRedirectError :: u32 where "reasonRedirectError = 8"
definition reasonNeighborUnresolved :: u32 where "reasonNeighborUnresolved = 9"
definition l4ICMP :: u8 where "l4ICMP = 1"
definition l4TCP :: u8 where "l4TCP = 6"
definition l4UDP :: u8 where "l4UDP = 17"
definition policyScopeGlobal :: u32 where "policyScopeGlobal = 0"
definition policyScopeService :: u32 where "policyScopeService = 1"
definition neighborUnresolved :: u32 where "neighborUnresolved = 0"
definition neighborResolved :: u32 where "neighborResolved = 1"
definition maxEventSampleDenom :: u32 where "maxEventSampleDenom = 1000000"

lemmas contract_consts =
  actionPass_def actionDrop_def actionRedirect_def reasonNone_def reasonNotAllowedService_def
  reasonRedirectError_def reasonNeighborUnresolved_def l4ICMP_def l4TCP_def l4UDP_def
  policyScopeGlobal_def policyScopeService_def neighborUnresolved_def neighborResolved_def
  maxEventSampleDenom_def

subsection \<open>Keys and values of the maps\<close>

record RuntimeConfigValue =
  rc_ActiveSlot :: u32
  rc_PolicyVersion :: u32
  rc_MalformedPolicy :: u32
  rc_SampleDenom :: u32
  rc_UpdatedAtUnixNano :: u64

record LPMV4Key =
  lpm_PrefixLen :: u32
  lpm_Addr :: u32

record ServiceLPMV4Key =
  slpm_PrefixLen :: u32
  slpm_ServiceID :: u32
  slpm_Addr :: u32

record CIDRPolicyValue =
  cv_EntryID :: u32
  cv_Priority :: u32
  cv_Action :: u32
  cv_SourceType :: u32
  cv_Scope :: u32
  cv_ServiceID :: u32
  cv_Score :: u32
  cv_RuleID :: u32
  cv_ExpiresAtUnixNS :: u64

record UDPSourcePortBlockValue =
  uv_EntryID :: u32
  uv_Port :: u32
  uv_Scope :: u32
  uv_ServiceID :: u32
  uv_ExpiresAtUnixNS :: u64

record ServiceUDPSourcePortKey =
  sup_ServiceID :: u32
  sup_Port :: u32

record ServiceKey =
  sk_DstV4 :: u32
  sk_DstPort :: u16
  sk_Proto :: u8
  sk_Pad :: u8

record ServiceValue =
  sv_ServiceID :: u32
  sv_ForwardingPolicyID :: u32
  sv_Action :: u32
  sv_Priority :: u32
  sv_DefaultRuleID :: u32
  sv_OutputIfindex :: u32
  sv_DevmapKey :: u32
  sv_NeighborStatus :: u32
  sv_DstMAC :: "u8 list"
  sv_SrcMAC :: "u8 list"
  sv_Pad :: u16
  sv_TailPad :: u16

record RuleValue =
  rv_RuleID :: u32
  rv_Priority :: u32
  rv_Action :: u32
  rv_Mode :: u32
  rv_ServiceID :: u32
  rv_Dimension :: u32
  rv_ThresholdPPS :: u32
  rv_ThresholdBPS :: u32
  rv_ThresholdCPS :: u32
  rv_BurstPackets :: u32
  rv_BurstBytes :: u32
  rv_SampleDenom :: u32
  rv_Pad :: u32
  rv_TailPad :: u32
  rv_ExpiresAtUnixNS :: u64

record CounterKey =
  ck_Reason :: u32
  ck_RuleID :: u32
  ck_ServiceID :: u32
  ck_Proto :: u8
  ck_Action :: u8
  ck_TCPSyn :: u8
  ck_Pad :: u8

record CounterValue =
  cnt_Packets :: u64
  cnt_Bytes :: u64

record EventRecord =
  ev_TsMonoNS :: u64
  ev_PolicyVersion :: u32
  ev_SrcV4 :: u32
  ev_DstV4 :: u32
  ev_SrcPort :: u16
  ev_DstPort :: u16
  ev_Proto :: u8
  ev_TCPFlags :: u8
  ev_Action :: u8
  ev_Reason :: u8
  ev_ServiceID :: u32
  ev_RuleID :: u32
  ev_PktLen :: u32

text \<open>\<^verbatim>\<open>unsafe.Sizeof\<close> of the structs above: their fields are laid out without padding.\<close>

definition sizeof_uint32 :: u64 where "sizeof_uint32 = 4"
definition sizeof_LPMV4Key :: u64 where "sizeof_LPMV4Key = 4 + 4"
definition sizeof_ServiceLPMV4Key :: u64 where "sizeof_ServiceLPMV4Key = 4 + 4 + 4"
definition sizeof_CIDRPolicyValue :: u64 where "sizeof_CIDRPolicyValue = 8 * 4 + 8"
definition sizeof_UDPSourcePortBlockValue :: u64 where
  "sizeof_UDPSourcePortBlockValue = 4 * 4 + 8"
definition sizeof_ServiceUDPSourcePortKey :: u64 where "sizeof_ServiceUDPSourcePortKey = 4 + 4"
definition sizeof_ServiceKey :: u64 where "sizeof_ServiceKey = 4 + 2 + 1 + 1"
definition sizeof_ServiceValue :: u64 where "sizeof_ServiceValue = 8 * 4 + 6 + 6 + 2 + 2"
definition sizeof_RuleValue :: u64 where "sizeof_RuleValue = 14 * 4 + 8"

subsection \<open>The expected maps\<close>

datatype MapType =
  LPMTrie | Hash | LRUHash | DevMap | Array | PerCPUHash | RingBuf | ProgramArray | OtherMapType nat

record MapExpectation =
  me_Type :: MapType
  me_MaxEntries :: u32

definition ExpectedMaps :: "(string \<times> MapExpectation) list" where
  "ExpectedMaps =
    [(''whitelist_v4_a'', \<lparr>me_Type = LPMTrie, me_MaxEntries = 65536\<rparr>),
     (''whitelist_v4_b'', \<lparr>me_Type = LPMTrie, me_MaxEntries = 65536\<rparr>),
     (''whitelist_service_v4_a'', \<lparr>me_Type = LPMTrie, me_MaxEntries = 65536\<rparr>),
     (''whitelist_service_v4_b'', \<lparr>me_Type = LPMTrie, me_MaxEntries = 65536\<rparr>),
     (''blacklist_v4_a'', \<lparr>me_Type = LPMTrie, me_MaxEntries = 1000000\<rparr>),
     (''blacklist_v4_b'', \<lparr>me_Type = LPMTrie, me_MaxEntries = 1000000\<rparr>),
     (''blacklist_service_v4_a'', \<lparr>me_Type = LPMTrie, me_MaxEntries = 65536\<rparr>),
     (''blacklist_service_v4_b'', \<lparr>me_Type = LPMTrie, me_MaxEntries = 65536\<rparr>),
     (''udp_src_port_blocks_a'', \<lparr>me_Type = Hash, me_MaxEntries = 4096\<rparr>),
     (''udp_src_port_blocks_b'', \<lparr>me_Type = Hash, me_MaxEntries = 4096\<rparr>),
     (''udp_src_port_service_blocks_a'', \<lparr>me_Type = Hash, me_MaxEntries = 16384\<rparr>),
     (''udp_src_port_service_blocks_b'', \<lparr>me_Type = Hash, me_MaxEntries = 16384\<rparr>),
     (''service_allowlist_a'', \<lparr>me_Type = Hash, me_MaxEntries = 16384\<rparr>),
     (''service_allowlist_b'', \<lparr>me_Type = Hash, me_MaxEntries = 16384\<rparr>),
     (''tx_devmap'', \<lparr>me_Type = DevMap, me_MaxEntries = 128\<rparr>),
     (''rate_state'', \<lparr>me_Type = LRUHash, me_MaxEntries = 2000000\<rparr>),
     (''rate_state_v2'', \<lparr>me_Type = Hash, me_MaxEntries = 2000000\<rparr>),
     (''rule_config_a'', \<lparr>me_Type = Array, me_MaxEntries = 4096\<rparr>),
     (''rule_config_b'', \<lparr>me_Type = Array, me_MaxEntries = 4096\<rparr>),
     (''drop_counters'', \<lparr>me_Type = PerCPUHash, me_MaxEntries = 262144\<rparr>),
     (''events'', \<lparr>me_Type = RingBuf, me_MaxEntries = 64 * 1024 * 1024\<rparr>),
     (''runtime_config'', \<lparr>me_Type = Array, me_MaxEntries = 1\<rparr>),
     (''prog_array'', \<lparr>me_Type = ProgramArray, me_MaxEntries = 16\<rparr>)]"

text \<open>A lookup \<^verbatim>\<open>ExpectedMaps[name].MaxEntries\<close>; a missing key reads the zero value.\<close>

definition expected_max :: "string \<Rightarrow> u32" where
  "expected_max name = (case map_of ExpectedMaps name of None \<Rightarrow> 0 | Some e \<Rightarrow> me_MaxEntries e)"

lemma expected_max_simps [simp]:
  "expected_max ''whitelist_v4_a'' = 65536"
  "expected_max ''whitelist_service_v4_a'' = 65536"
  "expected_max ''blacklist_v4_a'' = 1000000"
  "expected_max ''blacklist_service_v4_a'' = 65536"
  "expected_max ''udp_src_port_blocks_a'' = 4096"
  "expected_max ''udp_src_port_service_blocks_a'' = 16384"
  "expected_max ''service_allowlist_a'' = 16384"
  "expected_max ''rule_config_a'' = 4096"
  "expected_max ''tx_devmap'' = 128"
  by (simp_all add: expected_max_def ExpectedMaps_def)

subsection \<open>Checking and pinning a loaded object\<close>

datatype Pinning = PinNone | PinByName

record MapSpec =
  ms_Type :: MapType
  ms_MaxEntries :: u32
  ms_Pinning :: Pinning

record CollectionSpec =
  cs_Programs :: "string list"
  cs_Maps :: "string \<rightharpoonup> MapSpec"

datatype spec_error =
  NilSpec | MissingProgram | MissingMap string | WrongType string MapType MapType
| WrongMaxEntries string u32 u32

text \<open>The loop of \<^verbatim>\<open>ValidateCollectionSpec\<close> over the expected maps.\<close>

fun check_maps :: "(string \<rightharpoonup> MapSpec) \<Rightarrow> (string \<times> MapExpectation) list \<Rightarrow> spec_error option" where
  "check_maps maps [] = None"
| "check_maps maps ((name, expected) # rest) =
     (case maps name of
        None \<Rightarrow> Some (MissingMap name)
      | Some spec \<Rightarrow>
          if ms_Type spec \<noteq> me_Type expected
          then Some (WrongType name (me_Type expected) (ms_Type spec))
          else if ms_MaxEntries spec \<noteq> me_MaxEntries expected
          then Some (WrongMaxEntries name (me_MaxEntries expected) (ms_MaxEntries spec))
          else check_maps maps rest)"

definition ValidateCollectionSpec :: "CollectionSpec option \<Rightarrow> spec_error option" where
  "ValidateCollectionSpec spec =
     (case spec of
        None \<Rightarrow> Some NilSpec
      | Some s \<Rightarrow> if ''xdp_entry'' \<notin> set (cs_Programs s) then Some MissingProgram
                  else check_maps (cs_Maps s) ExpectedMaps)"

definition EnableMapPinning :: "CollectionSpec \<Rightarrow> CollectionSpec" where
  "EnableMapPinning s = s\<lparr>cs_Maps := (\<lambda>name.
     if name \<in> fst ` set ExpectedMaps
     then map_option (\<lambda>m. m\<lparr>ms_Pinning := PinByName\<rparr>) (cs_Maps s name)
     else cs_Maps s name)\<rparr>"

lemma check_maps_None_iff:
  "check_maps maps es = None \<longleftrightarrow>
     (\<forall>(name, e)\<in>set es. \<exists>m. maps name = Some m \<and> ms_Type m = me_Type e \<and>
        ms_MaxEntries m = me_MaxEntries e)"
  by (induction maps es rule: check_maps.induct) (auto split: option.splits)

lemma distinct_ExpectedMaps: "distinct (map fst ExpectedMaps)"
  by (simp add: ExpectedMaps_def)

end
