(* ===== verification/PolicySnapshot.thy ===== *)
theory PolicySnapshot
  imports Contract
begin

section \<open>Policy snapshots: canonical form, checksum, verification\<close>

text \<open>
  \<^verbatim>\<open>internal/agent/policy_snapshot.go\<close>. A snapshot is the whole policy of one node. This
  theory models its data, the normalisation behind the canonical checksum, signing, the
  verification that a snapshot must pass before it reaches a BPF map, and the translation of
  its entries to map keys and values.

  The digest (hex of SHA-256 over the JSON encoding of the canonical form) is a parameter
  \<open>digest\<close> of the functions that use it. Verification errors are collected in a list in the
  order of the source; the empty list is the \<^verbatim>\<open>nil\<close> error.
\<close>

subsection \<open>Data\<close>

record PolicyRuntimeConfig =
  prc_MalformedPolicy :: u32
  prc_SampleDenom :: u32

record PolicyCIDREntry =
  ce_EntryID :: u32
  ce_CIDR :: string
  ce_Priority :: u32
  ce_Action :: u32
  ce_SourceType :: u32
  ce_Scope :: u32
  ce_ServiceID :: u32
  ce_Score :: u32
  ce_RuleID :: u32
  ce_ExpiresAtUnixNS :: u64

record PolicyUDPSourcePortBlock =
  ub_EntryID :: u32
  ub_Port :: u16
  ub_Scope :: u32
  ub_ServiceID :: u32
  ub_ExpiresAtUnixNS :: u64

record PolicyService =
  ps_ServiceID :: u32
  ps_ForwardingPolicyID :: u32
  ps_DstV4 :: string
  ps_DstPort :: u16
  ps_Proto :: u8
  ps_Action :: u32
  ps_Priority :: u32
  ps_DefaultRuleID :: u32
  ps_OutputInterface :: string
  ps_OutputIfindex :: u32
  ps_DevmapKey :: u32
  ps_NeighborStatus :: u32
  ps_DstMAC :: string
  ps_SrcMAC :: string

record PolicyRule =
  pr_RuleID :: u32
  pr_ScopeType :: string
  pr_Priority :: u32
  pr_Action :: u32
  pr_Mode :: u32
  pr_ServiceID :: u32
  pr_Dimension :: u32
  pr_ThresholdPPS :: u32
  pr_ThresholdBPS :: u32
  pr_ThresholdCPS :: u32
  pr_BurstPackets :: u32
  pr_BurstBytes :: u32
  pr_SampleDenom :: u32
  pr_ExpiresAtUnixNS :: u64

record PolicySnapshot =
  snap_SchemaVersion :: int
  snap_Version :: u32
  snap_Checksum :: string
  snap_ObjectChecksum :: string
  snap_FeatureFlags :: "string list"
  snap_Runtime :: PolicyRuntimeConfig
  snap_WhitelistV4 :: "PolicyCIDREntry list"
  snap_BlacklistV4 :: "PolicyCIDREntry list"
  snap_UDPSourcePortBlocks :: "PolicyUDPSourcePortBlock list"
  snap_Services :: "PolicyService list"
  snap_Rules :: "PolicyRule list"

record canonicalPolicySnapshot =
  canon_SchemaVersion :: int
  canon_Version :: u32
  canon_ObjectChecksum :: string
  canon_FeatureFlags :: "string list"
  canon_Runtime :: PolicyRuntimeConfig
  canon_WhitelistV4 :: "PolicyCIDREntry list"
  canon_BlacklistV4 :: "PolicyCIDREntry list"
  canon_UDPSourcePortBlocks :: "PolicyUDPSourcePortBlock list"
  canon_Services :: "PolicyService list"
  canon_Rules :: "PolicyRule list"

text \<open>\<open>vo_Now\<close> is the Unix time in nanoseconds, \<open>None\<close> the zero \<^verbatim>\<open>time.Time\<close>.\<close>

record PolicySnapshotVerifyOptions =
  vo_CurrentVersion :: u32
  vo_ObjectChecksum :: string
  vo_Now :: "int option"
  vo_CapacityOverrides :: "string \<rightharpoonup> u32"
  vo_MemoryBudgetBytes :: u64
  vo_AllowUnresolvedServices :: bool

record PolicyMapStat =
  stat_Entries :: u32
  stat_Capacity :: u32
  stat_EstimatedMemoryBytes :: u64

record PolicySnapshotStats =
  stats_Maps :: "(string \<times> PolicyMapStat) list"
  stats_EstimatedMemoryBytes :: u64

subsection \<open>Normal form and checksum\<close>

definition cidrEntryLess :: "PolicyCIDREntry \<Rightarrow> PolicyCIDREntry \<Rightarrow> bool" where
  "cidrEntryLess left right =
     (if ce_CIDR left \<noteq> ce_CIDR right then ce_CIDR left < ce_CIDR right
      else if ce_Scope left \<noteq> ce_Scope right then ce_Scope left < ce_Scope right
      else if ce_ServiceID left \<noteq> ce_ServiceID right then ce_ServiceID left < ce_ServiceID right
      else ce_EntryID left < ce_EntryID right)"

text \<open>The three comparison functions written inline in \<^verbatim>\<open>normalizePolicySnapshot\<close>.\<close>

definition udpBlockLess :: "PolicyUDPSourcePortBlock \<Rightarrow> PolicyUDPSourcePortBlock \<Rightarrow> bool" where
  "udpBlockLess left right =
     (if ub_Port left \<noteq> ub_Port right then ub_Port left < ub_Port right
      else if ub_Scope left \<noteq> ub_Scope right then ub_Scope left < ub_Scope right
      else if ub_ServiceID left \<noteq> ub_ServiceID right then ub_ServiceID left < ub_ServiceID right
      else ub_EntryID left < ub_EntryID right)"

definition serviceLess :: "PolicyService \<Rightarrow> PolicyService \<Rightarrow> bool" where
  "serviceLess left right =
     (if ps_DstV4 left \<noteq> ps_DstV4 right then ps_DstV4 left < ps_DstV4 right
      else if ps_Proto left \<noteq> ps_Proto right then ps_Proto left < ps_Proto right
      else if ps_DstPort left \<noteq> ps_DstPort right then ps_DstPort left < ps_DstPort right
      else ps_ServiceID left < ps_ServiceID right)"

definition ruleLess :: "PolicyRule \<Rightarrow> PolicyRule \<Rightarrow> bool" where
  "ruleLess left right =
     (if pr_RuleID left \<noteq> pr_RuleID right then pr_RuleID left < pr_RuleID right
      else pr_Priority left < pr_Priority right)"

definition normalizePolicySnapshot :: "PolicySnapshot \<Rightarrow> PolicySnapshot" where
  "normalizePolicySnapshot s = s\<lparr>
     snap_Checksum := [],
     snap_Runtime := (if prc_MalformedPolicy (snap_Runtime s) = 0
                      then (snap_Runtime s)\<lparr>prc_MalformedPolicy := actionDrop\<rparr>
                      else snap_Runtime s),
     snap_FeatureFlags := sort_slice (<) (snap_FeatureFlags s),
     snap_WhitelistV4 := sort_slice cidrEntryLess (snap_WhitelistV4 s),
     snap_BlacklistV4 := sort_slice cidrEntryLess (snap_BlacklistV4 s),
     snap_UDPSourcePortBlocks := sort_slice udpBlockLess (snap_UDPSourcePortBlocks s),
     snap_Services := sort_slice serviceLess (snap_Services s),
     snap_Rules := sort_slice ruleLess (snap_Rules s)\<rparr>"

definition canonicalizePolicySnapshot :: "PolicySnapshot \<Rightarrow> canonicalPolicySnapshot" where
  "canonicalizePolicySnapshot s0 = (let s = normalizePolicySnapshot s0 in
     \<lparr>canon_SchemaVersion = snap_SchemaVersion s,
      canon_Version = snap_Version s,
      canon_ObjectChecksum = snap_ObjectChecksum s,
      canon_FeatureFlags = snap_FeatureFlags s,
      canon_Runtime = snap_Runtime s,
      canon_WhitelistV4 = snap_WhitelistV4 s,
      canon_BlacklistV4 = snap_BlacklistV4 s,
      canon_UDPSourcePortBlocks = snap_UDPSourcePortBlocks s,
      canon_Services = snap_Services s,
      canon_Rules = snap_Rules s\<rparr>)"

type_synonym digest = "canonicalPolicySnapshot \<Rightarrow> string"

definition CanonicalPolicyChecksum :: "digest \<Rightarrow> PolicySnapshot \<Rightarrow> string" where
  "CanonicalPolicyChecksum digest s = digest (canonicalizePolicySnapshot s)"

definition SignPolicySnapshot :: "digest \<Rightarrow> PolicySnapshot \<Rightarrow> PolicySnapshot" where
  "SignPolicySnapshot digest s =
     (normalizePolicySnapshot s)\<lparr>snap_Checksum := CanonicalPolicyChecksum digest s\<rparr>"

subsection \<open>Textual fields\<close>

datatype addr_error = CIDRRequired | NotIPv4 string
datatype mac_error = MACSyntax string | MACLength nat | MACZero

definition parseV4Addr :: "string \<Rightarrow> addr_error + u32" where
  "parseV4Addr value = (case ParseAddr4 (TrimSpace value) of
     None \<Rightarrow> Inl (NotIPv4 value) | Some a \<Rightarrow> Inr a)"

definition parseV4Prefix :: "string \<Rightarrow> addr_error + prefix4" where
  "parseV4Prefix value0 = (let value = TrimSpace value0 in
     if value = [] then Inl CIDRRequired
     else if CHR ''/'' \<notin> set value then
       (case parseV4Addr value of
          Inl e \<Rightarrow> Inl e
        | Inr addr \<Rightarrow> Inr \<lparr>pfx_addr = addr, pfx_bits = 32\<rparr>)
     else (case ParsePrefix4 value of
          None \<Rightarrow> Inl (NotIPv4 value)
        | Some p \<Rightarrow> Inr (Masked p)))"

definition parsePolicyMAC :: "string \<Rightarrow> mac_error + u8 list" where
  "parsePolicyMAC value = (case ParseMAC (TrimSpace value) of
     None \<Rightarrow> Inl (MACSyntax value)
   | Some parsed \<Rightarrow>
       if length parsed \<noteq> 6 then Inl (MACLength (length parsed))
       else if parsed = replicate 6 0 then Inl MACZero
       else Inr parsed)"

subsection \<open>Map keys and values of the entries\<close>

datatype key_error = KeyAddr addr_error | KeyServiceRequired

definition cidrPolicyKey :: "PolicyCIDREntry \<Rightarrow> key_error + LPMV4Key" where
  "cidrPolicyKey entry = (case parseV4Prefix (ce_CIDR entry) of
     Inl e \<Rightarrow> Inl (KeyAddr e)
   | Inr pfx \<Rightarrow> Inr \<lparr>lpm_PrefixLen = of_nat (pfx_bits pfx),
       lpm_Addr = LittleEndian_Uint32 (As4 (pfx_addr (Masked pfx)))\<rparr>)"

definition serviceCIDRPolicyKey :: "PolicyCIDREntry \<Rightarrow> key_error + ServiceLPMV4Key" where
  "serviceCIDRPolicyKey entry =
     (if ce_ServiceID entry = 0 then Inl KeyServiceRequired
      else case parseV4Prefix (ce_CIDR entry) of
        Inl e \<Rightarrow> Inl (KeyAddr e)
      | Inr pfx \<Rightarrow> Inr \<lparr>slpm_PrefixLen = of_nat (32 + pfx_bits pfx),
          slpm_ServiceID = ce_ServiceID entry,
          slpm_Addr = LittleEndian_Uint32 (As4 (pfx_addr (Masked pfx)))\<rparr>)"

definition cidrPolicyValue :: "PolicyCIDREntry \<Rightarrow> CIDRPolicyValue" where
  "cidrPolicyValue entry =
     \<lparr>cv_EntryID = ce_EntryID entry, cv_Priority = ce_Priority entry, cv_Action = ce_Action entry,
      cv_SourceType = ce_SourceType entry, cv_Scope = ce_Scope entry,
      cv_ServiceID = ce_ServiceID entry, cv_Score = ce_Score entry, cv_RuleID = ce_RuleID entry,
      cv_ExpiresAtUnixNS = ce_ExpiresAtUnixNS entry\<rparr>"

definition udpBlockValue :: "PolicyUDPSourcePortBlock \<Rightarrow> UDPSourcePortBlockValue" where
  "udpBlockValue entry =
     \<lparr>uv_EntryID = ub_EntryID entry, uv_Port = ucast (ub_Port entry), uv_Scope = ub_Scope entry,
      uv_ServiceID = ub_ServiceID entry, uv_ExpiresAtUnixNS = ub_ExpiresAtUnixNS entry\<rparr>"

definition udpSourcePortBlockMapEntry ::
    "PolicyUDPSourcePortBlock \<Rightarrow> u32 \<times> UDPSourcePortBlockValue" where
  "udpSourcePortBlockMapEntry entry = (ucast (ub_Port entry), udpBlockValue entry)"

definition udpSourcePortServiceBlockMapEntry ::
    "PolicyUDPSourcePortBlock \<Rightarrow> ServiceUDPSourcePortKey \<times> UDPSourcePortBlockValue" where
  "udpSourcePortServiceBlockMapEntry entry =
     (\<lparr>sup_ServiceID = ub_ServiceID entry, sup_Port = ucast (ub_Port entry)\<rparr>, udpBlockValue entry)"

definition serviceNeedsResolution :: "PolicyService \<Rightarrow> bool" where
  "serviceNeedsResolution service \<longleftrightarrow>
     ps_OutputIfindex service = 0 \<or> ps_NeighborStatus service \<noteq> neighborResolved \<or>
     TrimSpace (ps_DstMAC service) = [] \<or> TrimSpace (ps_SrcMAC service) = []"

datatype service_error =
  ServiceAddr addr_error | ServiceIDZero | ServiceAction | ServicePortZero | ServiceICMPPort
| ServiceProto u8 | ServiceIfindexZero | ServiceNeighbor | ServiceDstMAC mac_error
| ServiceSrcMAC mac_error

text \<open>The guard on protocol and port, as in \<^verbatim>\<open>serviceMapKey\<close> and \<^verbatim>\<open>validateResolveRequest\<close>.\<close>

definition protoPortError :: "u8 \<Rightarrow> u16 \<Rightarrow> service_error option" where
  "protoPortError proto port =
     (if proto = l4TCP \<or> proto = l4UDP then (if port = 0 then Some ServicePortZero else None)
      else if proto = l4ICMP then (if port \<noteq> 0 then Some ServiceICMPPort else None)
      else Some (ServiceProto proto))"

definition serviceMapKey :: "PolicyService \<Rightarrow> service_error + ServiceKey" where
  "serviceMapKey service = (case parseV4Addr (ps_DstV4 service) of
     Inl e \<Rightarrow> Inl (ServiceAddr e)
   | Inr addr \<Rightarrow>
       if ps_ServiceID service = 0 then Inl ServiceIDZero
       else if ps_Action service \<noteq> actionRedirect then Inl ServiceAction
       else (case protoPortError (ps_Proto service) (ps_DstPort service) of
         Some e \<Rightarrow> Inl e
       | None \<Rightarrow> Inr \<lparr>sk_DstV4 = LittleEndian_Uint32 (As4 addr), sk_DstPort = ps_DstPort service,
           sk_Proto = ps_Proto service, sk_Pad = 0\<rparr>))"

definition serviceMapEntry :: "PolicyService \<Rightarrow> service_error + (ServiceKey \<times> ServiceValue)" where
  "serviceMapEntry service = (case serviceMapKey service of
     Inl e \<Rightarrow> Inl e
   | Inr key \<Rightarrow>
       if ps_OutputIfindex service = 0 then Inl ServiceIfindexZero
       else if ps_NeighborStatus service \<noteq> neighborResolved then Inl ServiceNeighbor
       else (case parsePolicyMAC (ps_DstMAC service) of
         Inl e \<Rightarrow> Inl (ServiceDstMAC e)
       | Inr dstMAC \<Rightarrow> (case parsePolicyMAC (ps_SrcMAC service) of
           Inl e \<Rightarrow> Inl (ServiceSrcMAC e)
         | Inr srcMAC \<Rightarrow> Inr (key,
             \<lparr>sv_ServiceID = ps_ServiceID service,
              sv_ForwardingPolicyID = ps_ForwardingPolicyID service,
              sv_Action = ps_Action service, sv_Priority = ps_Priority service,
              sv_DefaultRuleID = ps_DefaultRuleID service,
              sv_OutputIfindex = ps_OutputIfindex service, sv_DevmapKey = ps_DevmapKey service,
              sv_NeighborStatus = ps_NeighborStatus service, sv_DstMAC = dstMAC,
              sv_SrcMAC = srcMAC, sv_Pad = 0, sv_TailPad = 0\<rparr>))))"

definition ruleMapEntry :: "PolicyRule \<Rightarrow> u32 \<times> RuleValue" where
  "ruleMapEntry rule = (pr_RuleID rule,
     \<lparr>rv_RuleID = pr_RuleID rule, rv_Priority = pr_Priority rule, rv_Action = pr_Action rule,
      rv_Mode = pr_Mode rule, rv_ServiceID = pr_ServiceID rule, rv_Dimension = pr_Dimension rule,
      rv_ThresholdPPS = pr_ThresholdPPS rule, rv_ThresholdBPS = pr_ThresholdBPS rule,
      rv_ThresholdCPS = pr_ThresholdCPS rule, rv_BurstPackets = pr_BurstPackets rule,
      rv_BurstBytes = pr_BurstBytes rule, rv_SampleDenom = pr_SampleDenom rule,
      rv_Pad = 0, rv_TailPad = 0, rv_ExpiresAtUnixNS = pr_ExpiresAtUnixNS rule\<rparr>)"

subsection \<open>Verification\<close>

datatype cidr_table = WhitelistTable | BlacklistTable

datatype policy_error =
  UnsupportedSchemaVersion int | VersionZero | ObjectChecksumRequired
| VersionNotNewer u32 u32 | ObjectChecksumMismatch string string
| ChecksumRequired | ChecksumMismatch string string
| MalformedPolicyNotDrop | RuntimeSampleDenom | UnsupportedFeatureFlag string
| EntriesExceedCapacity string u32 u32
| CIDRExpired cidr_table u32 | CIDRKey cidr_table u32 key_error
| CIDRDuplicateGlobal cidr_table string | CIDRDuplicateService cidr_table u32 string
| CIDRScope cidr_table u32 u32
| UDPExpired u32 | UDPDuplicateGlobal u16 | UDPServiceRequired u32
| UDPDuplicateService u32 u16 | UDPScope u32 u32
| ServiceInvalid u32 service_error | ServiceDuplicate string u8 u16
| DevmapKeyExceeds u32 u32 u32 | OutputInterfaceRequired u32
| DevmapConflict u32 u32 u32
| RuleIndex u32 u32 | RuleExpired u32 | RuleSampleDenom u32 | RuleDuplicate u32
| MemoryBudget u64 u64

definition supportedPolicyFeatureFlags :: "string list" where
  "supportedPolicyFeatureFlags =
     [''policy_snapshot_v1'', ''ipv4'', ''ab_policy_maps'', ''tx_devmap'', ''udp_src_port_block'',
      ''service_scoped_whitelist_v4'', ''service_scoped_blacklist_v4'',
      ''service_scoped_udp_src_port_block'']"

text \<open>The closure \<^verbatim>\<open>capacity\<close> of \<^verbatim>\<open>validatePolicyEntries\<close>.\<close>

definition policy_capacity :: "(string \<rightharpoonup> u32) \<Rightarrow> string \<Rightarrow> u32" where
  "policy_capacity overrides name = (case overrides name of
     Some value \<Rightarrow> value
   | None \<Rightarrow>
       if name = ''whitelist_v4'' then expected_max ''whitelist_v4_a''
       else if name = ''whitelist_service_v4'' then expected_max ''whitelist_service_v4_a''
       else if name = ''blacklist_v4'' then expected_max ''blacklist_v4_a''
       else if name = ''blacklist_service_v4'' then expected_max ''blacklist_service_v4_a''
       else if name = ''udp_source_port_blocks'' then expected_max ''udp_src_port_blocks_a''
       else if name = ''udp_source_port_service_blocks'' then expected_max ''udp_src_port_service_blocks_a''
       else if name = ''service_allowlist'' then expected_max ''service_allowlist_a''
       else if name = ''rule_config'' then expected_max ''rule_config_a''
       else if name = ''tx_devmap'' then expected_max ''tx_devmap''
       else 0)"

text \<open>The closure \<^verbatim>\<open>addStat\<close>: it records a map's use and reports an overfull map.\<close>

definition addStat ::
    "(string \<rightharpoonup> u32) \<Rightarrow> string \<Rightarrow> u32 \<Rightarrow> u64 \<Rightarrow> u64 \<Rightarrow>
     PolicySnapshotStats \<times> policy_error list \<Rightarrow> PolicySnapshotStats \<times> policy_error list" where
  "addStat overrides name entries keySize valueSize acc = (case acc of (stats, errs) \<Rightarrow>
     let cap = policy_capacity overrides name;
         estimate = ucast entries * (keySize + valueSize)
     in (stats\<lparr>
           stats_Maps := upd name \<lparr>stat_Entries = entries, stat_Capacity = cap,
             stat_EstimatedMemoryBytes = estimate\<rparr> (stats_Maps stats),
           stats_EstimatedMemoryBytes := stats_EstimatedMemoryBytes stats + estimate\<rparr>,
         if cap < entries then errs @ [EntriesExceedCapacity name entries cap] else errs))"

definition entry_expired :: "u64 \<Rightarrow> u64 \<Rightarrow> bool" where
  "entry_expired nowNS expires \<longleftrightarrow> expires \<noteq> 0 \<and> expires \<le> nowNS"

definition globalMapKey :: "LPMV4Key \<Rightarrow> string" where
  "globalMapKey key = dec (unat (lpm_PrefixLen key)) @ '':'' @ dec (unat (lpm_Addr key))"

definition serviceCIDRMapKey :: "ServiceLPMV4Key \<Rightarrow> string" where
  "serviceCIDRMapKey key = dec (unat (slpm_ServiceID key)) @ '':'' @
     dec (unat (slpm_PrefixLen key)) @ '':'' @ dec (unat (slpm_Addr key))"

text \<open>
  The loop over the whitelist, and the same loop over the blacklist: the key sets seen so far
  are arguments; the result is the errors, the number of global and of service entries.
\<close>

fun cidr_loop ::
    "cidr_table \<Rightarrow> u64 \<Rightarrow> string list \<Rightarrow> string list \<Rightarrow> PolicyCIDREntry list \<Rightarrow>
     policy_error list \<times> u32 \<times> u32" where
  "cidr_loop t nowNS globalKeys serviceKeys [] = ([], 0, 0)"
| "cidr_loop t nowNS globalKeys serviceKeys (entry # rest) =
     (let expired = (if entry_expired nowNS (ce_ExpiresAtUnixNS entry)
                     then [CIDRExpired t (ce_EntryID entry)] else [])
      in if ce_Scope entry = policyScopeGlobal then
           (case cidrPolicyKey entry of
              Inl e \<Rightarrow>
                (case cidr_loop t nowNS globalKeys serviceKeys rest of
                   (errs, g, s) \<Rightarrow> (expired @ CIDRKey t (ce_EntryID entry) e # errs, g, s))
            | Inr key \<Rightarrow>
                (case cidr_loop t nowNS (globalMapKey key # globalKeys) serviceKeys rest of
                   (errs, g, s) \<Rightarrow>
                     (expired @ (if globalMapKey key \<in> set globalKeys
                                 then [CIDRDuplicateGlobal t (ce_CIDR entry)] else []) @ errs,
                      g + 1, s)))
         else if ce_Scope entry = policyScopeService then
           (case serviceCIDRPolicyKey entry of
              Inl e \<Rightarrow>
                (case cidr_loop t nowNS globalKeys serviceKeys rest of
                   (errs, g, s) \<Rightarrow> (expired @ CIDRKey t (ce_EntryID entry) e # errs, g, s))
            | Inr key \<Rightarrow>
                (case cidr_loop t nowNS globalKeys (serviceCIDRMapKey key # serviceKeys) rest of
                   (errs, g, s) \<Rightarrow>
                     (expired @ (if serviceCIDRMapKey key \<in> set serviceKeys
                                 then [CIDRDuplicateService t (ce_ServiceID entry) (ce_CIDR entry)]
                                 else []) @ errs,
                      g, s + 1)))
         else
           (case cidr_loop t nowNS globalKeys serviceKeys rest of
              (errs, g, s) \<Rightarrow>
                (expired @ CIDRScope t (ce_EntryID entry) (ce_Scope entry) # errs, g, s)))"

definition whitelist_loop :: "u64 \<Rightarrow> PolicyCIDREntry list \<Rightarrow> policy_error list \<times> u32 \<times> u32" where
  "whitelist_loop nowNS = cidr_loop WhitelistTable nowNS [] []"

definition blacklist_loop :: "u64 \<Rightarrow> PolicyCIDREntry list \<Rightarrow> policy_error list \<times> u32 \<times> u32" where
  "blacklist_loop nowNS = cidr_loop BlacklistTable nowNS [] []"

fun udp_loop ::
    "u64 \<Rightarrow> u16 list \<Rightarrow> ServiceUDPSourcePortKey list \<Rightarrow> PolicyUDPSourcePortBlock list \<Rightarrow>
     policy_error list \<times> u32 \<times> u32" where
  "udp_loop nowNS portKeys serviceKeys [] = ([], 0, 0)"
| "udp_loop nowNS portKeys serviceKeys (entry # rest) =
     (let expired = (if entry_expired nowNS (ub_ExpiresAtUnixNS entry)
                     then [UDPExpired (ub_EntryID entry)] else [])
      in if ub_Scope entry = policyScopeGlobal then
           (case udp_loop nowNS (ub_Port entry # portKeys) serviceKeys rest of
              (errs, g, s) \<Rightarrow>
                (expired @ (if ub_Port entry \<in> set portKeys
                            then [UDPDuplicateGlobal (ub_Port entry)] else []) @ errs, g + 1, s))
         else if ub_Scope entry = policyScopeService then
           if ub_ServiceID entry = 0 then
             (case udp_loop nowNS portKeys serviceKeys rest of
                (errs, g, s) \<Rightarrow> (expired @ UDPServiceRequired (ub_EntryID entry) # errs, g, s))
           else let key = \<lparr>sup_ServiceID = ub_ServiceID entry, sup_Port = ucast (ub_Port entry)\<rparr>
             in (case udp_loop nowNS portKeys (key # serviceKeys) rest of
                (errs, g, s) \<Rightarrow>
                  (expired @ (if key \<in> set serviceKeys
                              then [UDPDuplicateService (ub_ServiceID entry) (ub_Port entry)]
                              else []) @ errs, g, s + 1))
         else
           (case udp_loop nowNS portKeys serviceKeys rest of
              (errs, g, s) \<Rightarrow>
                (expired @ UDPScope (ub_EntryID entry) (ub_Scope entry) # errs, g, s)))"

text \<open>
  The loop over the services: the service keys seen, the targets of the devmap keys
  (\<open>targets\<close>) and the devmap keys in use; the result is the errors and the keys in use.
\<close>

fun service_loop ::
    "u32 \<Rightarrow> bool \<Rightarrow> ServiceKey list \<Rightarrow> (u32 \<rightharpoonup> u32) \<Rightarrow> u32 list \<Rightarrow> PolicyService list \<Rightarrow>
     policy_error list \<times> u32 list" where
  "service_loop devmapCap allow seen targets keys [] = ([], keys)"
| "service_loop devmapCap allow seen targets keys (service # rest) =
     (case serviceMapKey service of
        Inl e \<Rightarrow>
          (case service_loop devmapCap allow seen targets keys rest of
             (errs, ks) \<Rightarrow> (ServiceInvalid (ps_ServiceID service) e # errs, ks))
      | Inr key \<Rightarrow>
          (let dup = (if key \<in> set seen
                      then [ServiceDuplicate (ps_DstV4 service) (ps_Proto service) (ps_DstPort service)]
                      else []);
               range = (if 0 < devmapCap \<and> devmapCap \<le> ps_DevmapKey service
                        then [DevmapKeyExceeds (ps_ServiceID service) (ps_DevmapKey service) devmapCap]
                        else []);
               keys' = List.insert (ps_DevmapKey service) keys
           in if serviceNeedsResolution service then
                let here = (if \<not> allow then
                              (case serviceMapEntry service of
                                 Inl e \<Rightarrow> [ServiceInvalid (ps_ServiceID service) e]
                               | Inr _ \<Rightarrow> [])
                            else if TrimSpace (ps_OutputInterface service) = []
                              then [OutputInterfaceRequired (ps_ServiceID service)]
                            else [])
                in (case service_loop devmapCap allow (key # seen) targets keys' rest of
                      (errs, ks) \<Rightarrow> (dup @ range @ here @ errs, ks))
              else
                (case serviceMapEntry service of
                   Inl e \<Rightarrow>
                     (case service_loop devmapCap allow (key # seen) targets keys' rest of
                        (errs, ks) \<Rightarrow>
                          (dup @ range @ ServiceInvalid (ps_ServiceID service) e # errs, ks))
                 | Inr (_, value) \<Rightarrow>
                     (let conflict = (case targets (sv_DevmapKey value) of
                            None \<Rightarrow> []
                          | Some existing \<Rightarrow>
                              if existing \<noteq> sv_OutputIfindex value
                              then [DevmapConflict (sv_DevmapKey value) existing (sv_OutputIfindex value)]
                              else [])
                      in (case service_loop devmapCap allow (key # seen)
                                (targets(sv_DevmapKey value \<mapsto> sv_OutputIfindex value)) keys' rest of
                            (errs, ks) \<Rightarrow> (dup @ range @ conflict @ errs, ks))))))"

fun rule_loop :: "u32 \<Rightarrow> u64 \<Rightarrow> u32 list \<Rightarrow> PolicyRule list \<Rightarrow> policy_error list" where
  "rule_loop ruleCap nowNS seen [] = []"
| "rule_loop ruleCap nowNS seen (rule # rest) =
     (if 0 < ruleCap \<and> ruleCap \<le> pr_RuleID rule then [RuleIndex (pr_RuleID rule) (ruleCap - 1)] else [])
     @ (if entry_expired nowNS (pr_ExpiresAtUnixNS rule) then [RuleExpired (pr_RuleID rule)] else [])
     @ (if maxEventSampleDenom < pr_SampleDenom rule then [RuleSampleDenom (pr_RuleID rule)] else [])
     @ (if pr_RuleID rule \<in> set seen then [RuleDuplicate (pr_RuleID rule)] else [])
     @ rule_loop ruleCap nowNS (pr_RuleID rule # seen) rest"

definition add_errs ::
    "policy_error list \<Rightarrow> PolicySnapshotStats \<times> policy_error list \<Rightarrow>
     PolicySnapshotStats \<times> policy_error list" where
  "add_errs es acc = (case acc of (stats, errs) \<Rightarrow> (stats, errs @ es))"

definition validatePolicyEntries ::
    "PolicySnapshot \<Rightarrow> PolicySnapshotVerifyOptions \<Rightarrow> u64 \<Rightarrow> PolicySnapshotStats \<times> policy_error list" where
  "validatePolicyEntries s opts nowNS =
     (let ov = vo_CapacityOverrides opts;
          st0 = (\<lparr>stats_Maps = [], stats_EstimatedMemoryBytes = 0\<rparr>, []);
          (werrs, wg, ws) = whitelist_loop nowNS (snap_WhitelistV4 s);
          st1 = addStat ov ''whitelist_service_v4'' ws sizeof_ServiceLPMV4Key sizeof_CIDRPolicyValue
                 (addStat ov ''whitelist_v4'' wg sizeof_LPMV4Key sizeof_CIDRPolicyValue
                   (add_errs werrs st0));
          (berrs, bg, bs) = blacklist_loop nowNS (snap_BlacklistV4 s);
          st2 = addStat ov ''blacklist_service_v4'' bs sizeof_ServiceLPMV4Key sizeof_CIDRPolicyValue
                 (addStat ov ''blacklist_v4'' bg sizeof_LPMV4Key sizeof_CIDRPolicyValue
                   (add_errs berrs st1));
          (uerrs, ug, us) = udp_loop nowNS [] [] (snap_UDPSourcePortBlocks s);
          st3 = addStat ov ''udp_source_port_service_blocks'' us
                  sizeof_ServiceUDPSourcePortKey sizeof_UDPSourcePortBlockValue
                 (addStat ov ''udp_source_port_blocks'' ug sizeof_uint32 sizeof_UDPSourcePortBlockValue
                   (add_errs uerrs st2));
          (serrs, devmapKeys) = service_loop (policy_capacity ov ''tx_devmap'')
                  (vo_AllowUnresolvedServices opts) [] Map.empty [] (snap_Services s);
          st4 = addStat ov ''tx_devmap'' (of_nat (length devmapKeys)) sizeof_uint32 sizeof_uint32
                 (addStat ov ''service_allowlist'' (of_nat (length (snap_Services s)))
                   sizeof_ServiceKey sizeof_ServiceValue (add_errs serrs st3));
          st5 = addStat ov ''rule_config'' (of_nat (length (snap_Rules s))) sizeof_uint32 sizeof_RuleValue
                 (add_errs (rule_loop (policy_capacity ov ''rule_config'') nowNS [] (snap_Rules s)) st4);
          used = stats_EstimatedMemoryBytes (fst st5)
      in if 0 < vo_MemoryBudgetBytes opts \<and> vo_MemoryBudgetBytes opts < used
         then add_errs [MemoryBudget used (vo_MemoryBudgetBytes opts)] st5
         else st5)"

definition verify_header ::
    "digest \<Rightarrow> PolicySnapshot \<Rightarrow> PolicySnapshotVerifyOptions \<Rightarrow> policy_error list" where
  "verify_header digest s opts =
     (if snap_SchemaVersion s \<noteq> 1 then [UnsupportedSchemaVersion (snap_SchemaVersion s)] else [])
   @ (if snap_Version s = 0 then [VersionZero] else [])
   @ (if TrimSpace (snap_ObjectChecksum s) = [] then [ObjectChecksumRequired] else [])
   @ (if vo_CurrentVersion opts \<noteq> 0 \<and> snap_Version s \<le> vo_CurrentVersion opts
      then [VersionNotNewer (snap_Version s) (vo_CurrentVersion opts)] else [])
   @ (if vo_ObjectChecksum opts \<noteq> [] \<and> snap_ObjectChecksum s \<noteq> [] \<and>
         snap_ObjectChecksum s \<noteq> vo_ObjectChecksum opts
      then [ObjectChecksumMismatch (vo_ObjectChecksum opts) (snap_ObjectChecksum s)] else [])
   @ (if snap_Checksum s = [] then [ChecksumRequired]
      else let expected = CanonicalPolicyChecksum digest s in
        if expected \<noteq> snap_Checksum s then [ChecksumMismatch expected (snap_Checksum s)] else [])
   @ (if prc_MalformedPolicy (snap_Runtime s) \<noteq> actionDrop then [MalformedPolicyNotDrop] else [])
   @ (if maxEventSampleDenom < prc_SampleDenom (snap_Runtime s) then [RuntimeSampleDenom] else [])
   @ map UnsupportedFeatureFlag
       (filter (\<lambda>flag. flag \<notin> set supportedPolicyFeatureFlags) (snap_FeatureFlags s))"

text \<open>\<open>clock\<close> is what \<^verbatim>\<open>time.Now()\<close> returns when the caller passes no time.\<close>

definition VerifyPolicySnapshot ::
    "digest \<Rightarrow> int \<Rightarrow> PolicySnapshot \<Rightarrow> PolicySnapshotVerifyOptions \<Rightarrow>
     PolicySnapshotStats \<times> policy_error list" where
  "VerifyPolicySnapshot digest clock s0 opts =
     (let s = (normalizePolicySnapshot s0)\<lparr>snap_Checksum := snap_Checksum s0\<rparr>;
          now = (case vo_Now opts of None \<Rightarrow> clock | Some t \<Rightarrow> t);
          header = verify_header digest s opts;
          (stats, errs) = validatePolicyEntries s opts (word_of_int now)
      in (stats, header @ errs))"

end
