(* ===== verification/SnapshotVerify.thy ===== *)
theory SnapshotVerify
  imports PolicySnapshot
begin

section \<open>What verification guarantees\<close>

text \<open>
  Facts about \<^verbatim>\<open>internal/agent/policy_snapshot.go\<close>: the comparison functions are strict weak
  orders, so the normal form is canonical; signing satisfies the checksum test; a snapshot that
  verification accepts has well-formed, unexpired, pairwise different map keys, fits the maps,
  and has one canonical form whatever the order of its entries.
\<close>

subsection \<open>The comparison functions\<close>

interpretation cidr_order: slice_order cidrEntryLess
  unfolding cidrEntryLess_def [abs_def] by (intro slice_order_lex slice_order_key)

interpretation udp_order: slice_order udpBlockLess
  unfolding udpBlockLess_def [abs_def] by (intro slice_order_lex slice_order_key)

interpretation service_order: slice_order serviceLess
  unfolding serviceLess_def [abs_def] by (intro slice_order_lex slice_order_key)

interpretation rule_order: slice_order ruleLess
  unfolding ruleLess_def [abs_def] by (intro slice_order_lex slice_order_key)

lemma cidr_tie: "\<not> cidrEntryLess x y \<Longrightarrow> \<not> cidrEntryLess y x \<Longrightarrow>
    ce_CIDR x = ce_CIDR y \<and> ce_Scope x = ce_Scope y \<and> ce_ServiceID x = ce_ServiceID y"
  by (auto simp: cidrEntryLess_def split: if_splits)

lemma udp_tie: "\<not> udpBlockLess x y \<Longrightarrow> \<not> udpBlockLess y x \<Longrightarrow>
    ub_Port x = ub_Port y \<and> ub_Scope x = ub_Scope y \<and> ub_ServiceID x = ub_ServiceID y"
  by (auto simp: udpBlockLess_def split: if_splits)

lemma service_tie: "\<not> serviceLess x y \<Longrightarrow> \<not> serviceLess y x \<Longrightarrow>
    ps_DstV4 x = ps_DstV4 y \<and> ps_Proto x = ps_Proto y \<and> ps_DstPort x = ps_DstPort y"
  by (auto simp: serviceLess_def split: if_splits)

lemma rule_tie: "\<not> ruleLess x y \<Longrightarrow> \<not> ruleLess y x \<Longrightarrow> pr_RuleID x = pr_RuleID y"
  by (auto simp: ruleLess_def split: if_splits)

subsection \<open>Normal form\<close>

lemmas sort_idem =
  key_order.sort_slice_idem cidr_order.sort_slice_idem udp_order.sort_slice_idem
  service_order.sort_slice_idem rule_order.sort_slice_idem

lemma normalize_checksum_update [simp]:
  "normalizePolicySnapshot (s\<lparr>snap_Checksum := c\<rparr>) = normalizePolicySnapshot s"
  by (simp add: normalizePolicySnapshot_def)

lemma normalize_idem [simp]:
  "normalizePolicySnapshot (normalizePolicySnapshot s) = normalizePolicySnapshot s"
  by (simp add: normalizePolicySnapshot_def sort_idem actionDrop_def)

lemma normalize_sel [simp]:
  "snap_SchemaVersion (normalizePolicySnapshot s) = snap_SchemaVersion s"
  "snap_Version (normalizePolicySnapshot s) = snap_Version s"
  "snap_ObjectChecksum (normalizePolicySnapshot s) = snap_ObjectChecksum s"
  "snap_FeatureFlags (normalizePolicySnapshot s) = sort_slice (<) (snap_FeatureFlags s)"
  "snap_WhitelistV4 (normalizePolicySnapshot s) = sort_slice cidrEntryLess (snap_WhitelistV4 s)"
  "snap_BlacklistV4 (normalizePolicySnapshot s) = sort_slice cidrEntryLess (snap_BlacklistV4 s)"
  "snap_UDPSourcePortBlocks (normalizePolicySnapshot s) = sort_slice udpBlockLess (snap_UDPSourcePortBlocks s)"
  "snap_Services (normalizePolicySnapshot s) = sort_slice serviceLess (snap_Services s)"
  "snap_Rules (normalizePolicySnapshot s) = sort_slice ruleLess (snap_Rules s)"
  by (simp_all add: normalizePolicySnapshot_def)

lemma canonicalize_normalize [simp]:
  "canonicalizePolicySnapshot (normalizePolicySnapshot s) = canonicalizePolicySnapshot s"
  by (simp add: canonicalizePolicySnapshot_def)

lemma canonicalize_checksum_update [simp]:
  "canonicalizePolicySnapshot (s\<lparr>snap_Checksum := c\<rparr>) = canonicalizePolicySnapshot s"
  by (simp add: canonicalizePolicySnapshot_def)

lemma CanonicalPolicyChecksum_simps [simp]:
  "CanonicalPolicyChecksum digest (normalizePolicySnapshot s) = CanonicalPolicyChecksum digest s"
  "CanonicalPolicyChecksum digest (s\<lparr>snap_Checksum := c\<rparr>) = CanonicalPolicyChecksum digest s"
  by (simp_all add: CanonicalPolicyChecksum_def)

lemma normalize_Sign [simp]:
  "normalizePolicySnapshot (SignPolicySnapshot digest s) = normalizePolicySnapshot s"
  by (simp add: SignPolicySnapshot_def)

lemma Sign_checksum [simp]:
  "snap_Checksum (SignPolicySnapshot digest s) = CanonicalPolicyChecksum digest s"
  by (simp add: SignPolicySnapshot_def)

subsection \<open>Signing\<close>

definition checksum_error :: "policy_error \<Rightarrow> bool" where
  "checksum_error e = (case e of ChecksumRequired \<Rightarrow> True | ChecksumMismatch _ _ \<Rightarrow> True | _ \<Rightarrow> False)"

lemma checksum_error_simps [simp]:
  "checksum_error ChecksumRequired" "checksum_error (ChecksumMismatch a b)"
  "\<not> checksum_error (UnsupportedSchemaVersion i)" "\<not> checksum_error VersionZero"
  "\<not> checksum_error ObjectChecksumRequired" "\<not> checksum_error (VersionNotNewer v w)"
  "\<not> checksum_error (ObjectChecksumMismatch a b)" "\<not> checksum_error MalformedPolicyNotDrop"
  "\<not> checksum_error RuntimeSampleDenom" "\<not> checksum_error (UnsupportedFeatureFlag a)"
  "\<not> checksum_error (EntriesExceedCapacity a v w)" "\<not> checksum_error (MemoryBudget m n)"
  "\<not> checksum_error (CIDRExpired t v)" "\<not> checksum_error (CIDRKey t v ke)"
  "\<not> checksum_error (CIDRDuplicateGlobal t a)" "\<not> checksum_error (CIDRDuplicateService t v a)"
  "\<not> checksum_error (CIDRScope t v w)" "\<not> checksum_error (UDPExpired v)"
  "\<not> checksum_error (UDPDuplicateGlobal p)" "\<not> checksum_error (UDPServiceRequired v)"
  "\<not> checksum_error (UDPDuplicateService v p)" "\<not> checksum_error (UDPScope v w)"
  "\<not> checksum_error (ServiceInvalid v se)" "\<not> checksum_error (ServiceDuplicate a pr p)"
  "\<not> checksum_error (DevmapKeyExceeds v w x)" "\<not> checksum_error (OutputInterfaceRequired v)"
  "\<not> checksum_error (DevmapConflict v w x)" "\<not> checksum_error (RuleIndex v w)"
  "\<not> checksum_error (RuleExpired v)" "\<not> checksum_error (RuleSampleDenom v)"
  "\<not> checksum_error (RuleDuplicate v)"
  by (simp_all add: checksum_error_def)

lemma cidr_loop_no_checksum: "e \<in> set (fst (cidr_loop t now gk sk es)) \<Longrightarrow> \<not> checksum_error e"
  by (induction es arbitrary: gk sk)
    (auto simp: Let_def case_prod_beta split: sum.splits if_splits)

lemma udp_loop_no_checksum: "e \<in> set (fst (udp_loop now pk sk es)) \<Longrightarrow> \<not> checksum_error e"
  by (induction es arbitrary: pk sk) (auto simp: Let_def case_prod_beta split: if_splits)

lemma service_loop_no_checksum:
  "e \<in> set (fst (service_loop cap allow seen targets keys ss)) \<Longrightarrow> \<not> checksum_error e"
  by (induction ss arbitrary: seen targets keys)
    (auto simp: Let_def case_prod_beta split: sum.splits if_splits option.splits)

lemma rule_loop_no_checksum: "e \<in> set (rule_loop cap now seen rs) \<Longrightarrow> \<not> checksum_error e"
  by (induction cap now seen rs rule: rule_loop.induct) (auto split: if_splits)

text \<open>The error list of \<open>validatePolicyEntries\<close>, spelled out.\<close>

definition cap_err :: "(string \<rightharpoonup> u32) \<Rightarrow> string \<Rightarrow> u32 \<Rightarrow> policy_error list" where
  "cap_err ov name n = (if policy_capacity ov name < n
     then [EntriesExceedCapacity name n (policy_capacity ov name)] else [])"

lemma cap_err_Nil [simp]: "cap_err ov name n = [] \<longleftrightarrow> n \<le> policy_capacity ov name"
  by (auto simp: cap_err_def)

lemma cap_err_no_checksum: "e \<in> set (cap_err ov name n) \<Longrightarrow> \<not> checksum_error e"
  by (auto simp: cap_err_def split: if_splits)

lemma snd_addStat: "snd (addStat ov name n k v acc) = snd acc @ cap_err ov name n"
  by (simp add: addStat_def cap_err_def Let_def split: prod.split)

lemma add_errs_simps: "snd (add_errs es acc) = snd acc @ es" "fst (add_errs es acc) = fst acc"
  by (simp_all add: add_errs_def split: prod.split)

abbreviation "budget_err opts used \<equiv>
  (if 0 < vo_MemoryBudgetBytes opts \<and> vo_MemoryBudgetBytes opts < used
   then [MemoryBudget used (vo_MemoryBudgetBytes opts)] else [])"

abbreviation "run_services s opts \<equiv>
  service_loop (policy_capacity (vo_CapacityOverrides opts) ''tx_devmap'')
    (vo_AllowUnresolvedServices opts) [] Map.empty [] (snap_Services s)"

lemma validate_errs:
  "snd (validatePolicyEntries s opts now) =
     (let ov = vo_CapacityOverrides opts;
          w = whitelist_loop now (snap_WhitelistV4 s); b = blacklist_loop now (snap_BlacklistV4 s);
          u = udp_loop now [] [] (snap_UDPSourcePortBlocks s); v = run_services s opts
      in fst w @ cap_err ov ''whitelist_v4'' (fst (snd w)) @ cap_err ov ''whitelist_service_v4'' (snd (snd w))
       @ fst b @ cap_err ov ''blacklist_v4'' (fst (snd b)) @ cap_err ov ''blacklist_service_v4'' (snd (snd b))
       @ fst u @ cap_err ov ''udp_source_port_blocks'' (fst (snd u))
       @ cap_err ov ''udp_source_port_service_blocks'' (snd (snd u))
       @ fst v @ cap_err ov ''service_allowlist'' (of_nat (length (snap_Services s)))
       @ cap_err ov ''tx_devmap'' (of_nat (length (snd v)))
       @ rule_loop (policy_capacity ov ''rule_config'') now [] (snap_Rules s)
       @ cap_err ov ''rule_config'' (of_nat (length (snap_Rules s)))
       @ budget_err opts (stats_EstimatedMemoryBytes (fst (validatePolicyEntries s opts now))))"
  unfolding validatePolicyEntries_def Let_def case_prod_beta
  by (simp only: snd_addStat add_errs_simps if_distrib [of snd] if_distrib [of fst] fst_conv snd_conv
      append_assoc append_Nil append_Nil2 if_cancel split: if_split) simp

lemma validate_no_checksum:
  "e \<in> set (snd (validatePolicyEntries s opts now)) \<Longrightarrow> \<not> checksum_error e"
  unfolding validate_errs Let_def whitelist_loop_def blacklist_loop_def
  by (auto split: if_splits dest: cidr_loop_no_checksum udp_loop_no_checksum
      service_loop_no_checksum rule_loop_no_checksum cap_err_no_checksum)

lemma snd_Verify:
  "snd (VerifyPolicySnapshot digest clock s opts) =
     (let s' = (normalizePolicySnapshot s)\<lparr>snap_Checksum := snap_Checksum s\<rparr>
      in verify_header digest s' opts @
         snd (validatePolicyEntries s' opts
           (word_of_int (case vo_Now opts of None \<Rightarrow> clock | Some t \<Rightarrow> t))))"
  by (simp add: VerifyPolicySnapshot_def Let_def case_prod_beta)

lemma validate_checksum_update:
  "validatePolicyEntries (s\<lparr>snap_Checksum := c\<rparr>) opts now = validatePolicyEntries s opts now"
  by (simp add: validatePolicyEntries_def)

lemma filter_validate_no_checksum:
  "filter (\<lambda>e. \<not> checksum_error e) (snd (validatePolicyEntries s opts now)) =
     snd (validatePolicyEntries s opts now)"
  by (simp add: filter_id_conv validate_no_checksum)

text \<open>
  Signing removes the checksum errors of verification and nothing else: for every
  snapshot, verifying the signed snapshot reports exactly what verifying the original reports
  without the missing-checksum and checksum-mismatch errors. The digest is a hex string, so
  it is never empty.
\<close>

lemma sign_verify:
  assumes "\<And>c. digest c \<noteq> []"
  shows "snd (VerifyPolicySnapshot digest clock (SignPolicySnapshot digest s) opts) =
    filter (\<lambda>e. \<not> checksum_error e) (snd (VerifyPolicySnapshot digest clock s opts))"
proof -
  have ne: "CanonicalPolicyChecksum digest s \<noteq> []" for s
    using assms by (simp add: CanonicalPolicyChecksum_def)
  show ?thesis
    unfolding snd_Verify Let_def filter_append filter_validate_no_checksum
    by (simp add: verify_header_def Let_def ne validate_checksum_update filter_id_conv)
qed

subsection \<open>Map slots\<close>

text \<open>
  The map key an entry occupies: \<open>Inl\<close> in the global map, \<open>Inr\<close> in the service-scoped map,
  \<open>None\<close> when the entry has no valid key.
\<close>

definition cidr_slot :: "PolicyCIDREntry \<Rightarrow> (LPMV4Key + ServiceLPMV4Key) option" where
  "cidr_slot e =
     (if ce_Scope e = policyScopeGlobal then
        (case cidrPolicyKey e of Inl _ \<Rightarrow> None | Inr k \<Rightarrow> Some (Inl k))
      else if ce_Scope e = policyScopeService then
        (case serviceCIDRPolicyKey e of Inl _ \<Rightarrow> None | Inr k \<Rightarrow> Some (Inr k))
      else None)"

definition udp_slot :: "PolicyUDPSourcePortBlock \<Rightarrow> (u32 + ServiceUDPSourcePortKey) option" where
  "udp_slot e =
     (if ub_Scope e = policyScopeGlobal then Some (Inl (fst (udpSourcePortBlockMapEntry e)))
      else if ub_Scope e = policyScopeService \<and> ub_ServiceID e \<noteq> 0
      then Some (Inr (fst (udpSourcePortServiceBlockMapEntry e)))
      else None)"

lemma scopes_differ [simp]: "policyScopeService \<noteq> policyScopeGlobal" "policyScopeGlobal \<noteq> policyScopeService"
  by (simp_all add: contract_consts)

lemma globalMapKey_inj: "globalMapKey k = globalMapKey k' \<longleftrightarrow> k = k'"
  by (auto simp: globalMapKey_def dec_sep_inj simp flip: word_unat_eq_iff intro: LPMV4Key.equality)

lemma serviceCIDRMapKey_inj: "serviceCIDRMapKey k = serviceCIDRMapKey k' \<longleftrightarrow> k = k'"
  by (auto simp: serviceCIDRMapKey_def dec_sep_inj simp flip: word_unat_eq_iff
      intro: ServiceLPMV4Key.equality)

lemma ucast_port_inj [simp]: "(ucast (p :: u16) :: u32) = ucast q \<longleftrightarrow> p = q"
proof
  assume eq: "(ucast p :: u32) = ucast q"
  have "bit (ucast r :: u32) n = bit r n" if "n < 16" for n and r :: u16
    using that by (simp add: bit_simps)
  then have "bit p n = bit q n" if "n < 16" for n
    using that eq by metis
  then show "p = q" by (intro bit_word_eqI) simp
qed simp

lemma cidr_loop_ok:
  assumes "fst (cidr_loop t now gk sk es) = []"
  shows "(\<forall>e\<in>set es. cidr_slot e \<noteq> None \<and> \<not> entry_expired now (ce_ExpiresAtUnixNS e)) \<and>
    distinct (map cidr_slot es) \<and>
    (\<forall>e\<in>set es. \<forall>k. cidr_slot e = Some (Inl k) \<longrightarrow> globalMapKey k \<notin> set gk) \<and>
    (\<forall>e\<in>set es. \<forall>k. cidr_slot e = Some (Inr k) \<longrightarrow> serviceCIDRMapKey k \<notin> set sk)"
  using assms
proof (induction es arbitrary: gk sk)
  case Nil
  then show ?case by simp
next
  case (Cons e es)
  from Cons.prems consider
      (glob) k where "cidr_slot e = Some (Inl k)" "globalMapKey k \<notin> set gk"
        "fst (cidr_loop t now (globalMapKey k # gk) sk es) = []"
        "\<not> entry_expired now (ce_ExpiresAtUnixNS e)"
    | (serv) k where "cidr_slot e = Some (Inr k)" "serviceCIDRMapKey k \<notin> set sk"
        "fst (cidr_loop t now gk (serviceCIDRMapKey k # sk) es) = []"
        "\<not> entry_expired now (ce_ExpiresAtUnixNS e)"
    by (auto simp: Let_def case_prod_beta cidr_slot_def split: if_splits sum.splits)
  then show ?case
  proof cases
    case glob
    then show ?thesis using Cons.IH [OF glob(3)] by (auto simp: globalMapKey_inj) metis
  next
    case serv
    then show ?thesis using Cons.IH [OF serv(3)] by (auto simp: serviceCIDRMapKey_inj) metis
  qed
qed

lemma udp_loop_ok:
  assumes "fst (udp_loop now pk sk es) = []"
  shows "(\<forall>e\<in>set es. udp_slot e \<noteq> None \<and> \<not> entry_expired now (ub_ExpiresAtUnixNS e)) \<and>
    distinct (map udp_slot es) \<and>
    (\<forall>e\<in>set es. ub_Scope e = policyScopeGlobal \<longrightarrow> ub_Port e \<notin> set pk) \<and>
    (\<forall>e\<in>set es. \<forall>k. udp_slot e = Some (Inr k) \<longrightarrow> k \<notin> set sk)"
  using assms
proof (induction es arbitrary: pk sk)
  case Nil
  then show ?case by simp
next
  case (Cons e es)
  from Cons.prems consider
      (glob) "ub_Scope e = policyScopeGlobal" "ub_Port e \<notin> set pk"
        "fst (udp_loop now (ub_Port e # pk) sk es) = []"
        "\<not> entry_expired now (ub_ExpiresAtUnixNS e)"
    | (serv) k where "udp_slot e = Some (Inr k)" "k \<notin> set sk"
        "fst (udp_loop now pk (k # sk) es) = []" "ub_Scope e \<noteq> policyScopeGlobal"
        "\<not> entry_expired now (ub_ExpiresAtUnixNS e)"
    by (auto simp: Let_def case_prod_beta udp_slot_def udpSourcePortServiceBlockMapEntry_def split: if_splits)
  then show ?case
  proof cases
    case glob
    then show ?thesis using Cons.IH [OF glob(3)]
      by (auto simp: udp_slot_def udpSourcePortBlockMapEntry_def split: if_splits)
  next
    case serv
    have "udp_slot e \<notin> set (map udp_slot es)"
      using Cons.IH [OF serv(3)] serv(1) by fastforce
    then show ?thesis using Cons.IH [OF serv(3)] serv by auto
  qed
qed

lemma rule_loop_ok:
  assumes "rule_loop cap now seen rs = []"
  shows "distinct (map pr_RuleID rs) \<and> (\<forall>r\<in>set rs. pr_RuleID r \<notin> set seen) \<and>
    (\<forall>r\<in>set rs. (0 < cap \<longrightarrow> pr_RuleID r < cap) \<and> \<not> entry_expired now (pr_ExpiresAtUnixNS r))"
  using assms by (induction rs arbitrary: seen) (fastforce split: if_splits)+

subsection \<open>Services\<close>

lemma ParseMAC_Nil [simp]: "ParseMAC [] = None"
  by (simp add: ParseMAC_def)

text \<open>A service whose forwarding data is incomplete has no map entry.\<close>

lemma needs_resolution_no_entry: "serviceNeedsResolution s \<Longrightarrow> \<not> is_ok (serviceMapEntry s)"
  by (auto simp: serviceNeedsResolution_def serviceMapEntry_def parsePolicyMAC_def is_ok_iff
      split: sum.splits if_splits)

lemma serviceMapEntry_OK:
  assumes "serviceMapEntry s = Inr (k, v)"
  shows "serviceMapKey s = Inr k" and "sv_DevmapKey v = ps_DevmapKey s"
    and "sv_OutputIfindex v = ps_OutputIfindex s" and "ps_OutputIfindex s \<noteq> 0"
  using assms by (auto simp: serviceMapEntry_def split: sum.splits if_splits)

definition devmap_consistent :: "PolicyService list \<Rightarrow> bool" where
  "devmap_consistent ss \<longleftrightarrow> list_all (\<lambda>s. list_all (\<lambda>s'.
     ps_DevmapKey s = ps_DevmapKey s' \<longrightarrow> ps_OutputIfindex s = ps_OutputIfindex s') ss) ss"

lemma service_loop_ok:
  assumes "fst (service_loop cap False seen targets keys ss) = []"
  shows "(\<forall>s\<in>set ss. is_ok (serviceMapEntry s) \<and> (0 < cap \<longrightarrow> ps_DevmapKey s < cap)) \<and>
    distinct (map serviceMapKey ss) \<and> (\<forall>s\<in>set ss. \<forall>k. serviceMapKey s = Inr k \<longrightarrow> k \<notin> set seen) \<and>
    (\<forall>s\<in>set ss. \<forall>i. targets (ps_DevmapKey s) = Some i \<longrightarrow> i = ps_OutputIfindex s) \<and>
    devmap_consistent ss"
  using assms
proof (induction ss arbitrary: seen targets keys)
  case Nil
  then show ?case by (simp add: devmap_consistent_def)
next
  case (Cons s ss)
  from Cons.prems obtain k v where
      entry: "serviceMapEntry s = Inr (k, v)" and key: "serviceMapKey s = Inr k" and "k \<notin> set seen"
      and cap: "0 < cap \<longrightarrow> ps_DevmapKey s < cap"
      and target: "\<forall>i. targets (ps_DevmapKey s) = Some i \<longrightarrow> i = ps_OutputIfindex s"
      and rest: "fst (service_loop cap False (k # seen)
        (targets(ps_DevmapKey s \<mapsto> ps_OutputIfindex s)) (List.insert (ps_DevmapKey s) keys) ss) = []"
    using needs_resolution_no_entry [of s]
    by (auto simp: Let_def case_prod_beta serviceMapEntry_OK not_le
        split: if_splits sum.splits option.splits)
  note IH = Cons.IH [OF rest]
  have same: "\<forall>s'\<in>set ss. ps_DevmapKey s' = ps_DevmapKey s \<longrightarrow> ps_OutputIfindex s' = ps_OutputIfindex s"
    using IH by (metis fun_upd_same)
  have "devmap_consistent ss" using IH by blast
  then have "devmap_consistent (s # ss)"
    using same unfolding devmap_consistent_def list_all_iff by (metis set_ConsD)
  moreover have "\<forall>s'\<in>set ss. \<forall>i. targets (ps_DevmapKey s') = Some i \<longrightarrow> i = ps_OutputIfindex s'"
    using IH target by (metis fun_upd_apply)
  moreover have "serviceMapKey s \<notin> set (map serviceMapKey ss)"
    using IH [THEN conjunct2, THEN conjunct2, THEN conjunct1] key
    by (metis (no_types, lifting) imageE list.set_intros(1) set_map)
  moreover have "\<forall>s'\<in>set (s # ss). is_ok (serviceMapEntry s') \<and> (0 < cap \<longrightarrow> ps_DevmapKey s' < cap)"
    using IH [THEN conjunct1] entry cap by (simp add: is_ok_iff)
  moreover have "\<forall>s'\<in>set (s # ss). \<forall>k. serviceMapKey s' = Inr k \<longrightarrow> k \<notin> set seen"
    using IH [THEN conjunct2, THEN conjunct2, THEN conjunct1] key \<open>k \<notin> set seen\<close> by simp
  ultimately show ?case
    using IH target unfolding list.map distinct.simps list.set ball_simps insert_iff by blast
qed

subsection \<open>Accepted snapshots\<close>

text \<open>
  What the agent may install: every entry has a key of its own in its map, nothing is expired,
  every service has complete forwarding data and equal devmap keys lead to the same interface.
\<close>

definition installable :: "u64 \<Rightarrow> PolicySnapshot \<Rightarrow> bool" where
  "installable now s \<longleftrightarrow>
     (\<forall>e\<in>set (snap_WhitelistV4 s) \<union> set (snap_BlacklistV4 s).
        cidr_slot e \<noteq> None \<and> \<not> entry_expired now (ce_ExpiresAtUnixNS e)) \<and>
     distinct (map cidr_slot (snap_WhitelistV4 s)) \<and> distinct (map cidr_slot (snap_BlacklistV4 s)) \<and>
     (\<forall>e\<in>set (snap_UDPSourcePortBlocks s).
        udp_slot e \<noteq> None \<and> \<not> entry_expired now (ub_ExpiresAtUnixNS e)) \<and>
     distinct (map udp_slot (snap_UDPSourcePortBlocks s)) \<and>
     (\<forall>v\<in>set (snap_Services s). is_ok (serviceMapEntry v)) \<and>
     distinct (map serviceMapKey (snap_Services s)) \<and> devmap_consistent (snap_Services s) \<and>
     (\<forall>r\<in>set (snap_Rules s). \<not> entry_expired now (pr_ExpiresAtUnixNS r)) \<and>
     distinct (map pr_RuleID (snap_Rules s))"

lemma devmap_consistent_set_cong:
  "set ss = set ss' \<Longrightarrow> devmap_consistent ss = devmap_consistent ss'"
  by (simp add: devmap_consistent_def list_all_iff)

lemma installable_normalize [simp]: "installable now (normalizePolicySnapshot s) = installable now s"
  unfolding installable_def normalize_sel set_sort_slice distinct_map_sort_slice
  by (simp add: devmap_consistent_set_cong [of "sort_slice serviceLess (snap_Services s)" "snap_Services s"])

lemma installable_checksum_update [simp]:
  "installable now (s\<lparr>snap_Checksum := c\<rparr>) = installable now s"
  by (simp add: installable_def)

lemma validate_installable:
  assumes "snd (validatePolicyEntries s opts now) = []" and "\<not> vo_AllowUnresolvedServices opts"
  shows "installable now s"
proof -
  from assms have
    w: "fst (cidr_loop WhitelistTable now [] [] (snap_WhitelistV4 s)) = []" and
    b: "fst (cidr_loop BlacklistTable now [] [] (snap_BlacklistV4 s)) = []" and
    u: "fst (udp_loop now [] [] (snap_UDPSourcePortBlocks s)) = []" and
    v: "fst (service_loop (policy_capacity (vo_CapacityOverrides opts) ''tx_devmap'') False [] Map.empty []
          (snap_Services s)) = []" and
    r: "rule_loop (policy_capacity (vo_CapacityOverrides opts) ''rule_config'') now [] (snap_Rules s) = []"
    by (simp_all add: validate_errs Let_def whitelist_loop_def blacklist_loop_def)
  note services = service_loop_ok [OF v]
  show ?thesis
    unfolding installable_def ball_Un
    using cidr_loop_ok [OF w, THEN conjunct1] cidr_loop_ok [OF b, THEN conjunct1]
      cidr_loop_ok [OF w, THEN conjunct2, THEN conjunct1]
      cidr_loop_ok [OF b, THEN conjunct2, THEN conjunct1]
      udp_loop_ok [OF u, THEN conjunct1] udp_loop_ok [OF u, THEN conjunct2, THEN conjunct1]
      services [THEN conjunct1] services [THEN conjunct2, THEN conjunct1]
      services [THEN conjunct2, THEN conjunct2, THEN conjunct2, THEN conjunct2]
      rule_loop_ok [OF r, THEN conjunct1] rule_loop_ok [OF r, THEN conjunct2, THEN conjunct2]
    by simp
qed

abbreviation verify_now :: "int \<Rightarrow> PolicySnapshotVerifyOptions \<Rightarrow> u64" where
  "verify_now clock opts \<equiv> word_of_int (case vo_Now opts of None \<Rightarrow> clock | Some t \<Rightarrow> t)"

lemma accepted_installable:
  assumes "snd (VerifyPolicySnapshot digest clock s opts) = []"
    and "\<not> vo_AllowUnresolvedServices opts"
  shows "installable (verify_now clock opts) s"
  using assms validate_installable [of _ opts "verify_now clock opts"]
  by (fastforce simp: snd_Verify Let_def)

lemma accepted_header:
  assumes "snd (VerifyPolicySnapshot digest clock s opts) = []"
  shows "snap_SchemaVersion s = 1" and "snap_Version s \<noteq> 0"
    and "vo_CurrentVersion opts \<noteq> 0 \<Longrightarrow> vo_CurrentVersion opts < snap_Version s"
    and "snap_Checksum s = CanonicalPolicyChecksum digest s"
    and "prc_MalformedPolicy (snap_Runtime s) \<in> {0, actionDrop}"
    and "prc_MalformedPolicy (snap_Runtime (normalizePolicySnapshot s)) = actionDrop"
    and "prc_SampleDenom (snap_Runtime s) \<le> maxEventSampleDenom"
    and "set (snap_FeatureFlags s) \<subseteq> set supportedPolicyFeatureFlags"
    and "vo_ObjectChecksum opts \<noteq> [] \<Longrightarrow> snap_ObjectChecksum s = vo_ObjectChecksum opts"
proof -
  have h: "verify_header digest ((normalizePolicySnapshot s)\<lparr>snap_Checksum := snap_Checksum s\<rparr>) opts = []"
    using assms by (simp add: snd_Verify Let_def)
  note d = h [unfolded verify_header_def Let_def]
  show "snap_SchemaVersion s = 1" and "snap_Version s \<noteq> 0"
    and "vo_CurrentVersion opts \<noteq> 0 \<Longrightarrow> vo_CurrentVersion opts < snap_Version s"
    and "snap_Checksum s = CanonicalPolicyChecksum digest s"
    using d by (auto split: if_splits)
  show "prc_MalformedPolicy (snap_Runtime s) \<in> {0, actionDrop}"
    and "prc_MalformedPolicy (snap_Runtime (normalizePolicySnapshot s)) = actionDrop"
    and "prc_SampleDenom (snap_Runtime s) \<le> maxEventSampleDenom"
    using d by (auto simp: normalizePolicySnapshot_def split: if_splits)
  show "set (snap_FeatureFlags s) \<subseteq> set supportedPolicyFeatureFlags"
    using d by (auto simp: filter_empty_conv split: if_splits)
  show "snap_ObjectChecksum s = vo_ObjectChecksum opts" if "vo_ObjectChecksum opts \<noteq> []"
    using d that by (auto split: if_splits)
qed

subsection \<open>One canonical form\<close>

lemma cidr_slot_cong:
  "ce_CIDR x = ce_CIDR y \<and> ce_Scope x = ce_Scope y \<and> ce_ServiceID x = ce_ServiceID y \<Longrightarrow>
    cidr_slot x = cidr_slot y"
  by (auto simp: cidr_slot_def cidrPolicyKey_def serviceCIDRPolicyKey_def split: sum.split)

lemma udp_slot_cong:
  "ub_Port x = ub_Port y \<and> ub_Scope x = ub_Scope y \<and> ub_ServiceID x = ub_ServiceID y \<Longrightarrow>
    udp_slot x = udp_slot y"
  by (simp add: udp_slot_def udpSourcePortBlockMapEntry_def udpSourcePortServiceBlockMapEntry_def)

lemma serviceMapKey_cong:
  assumes "ps_DstV4 x = ps_DstV4 y \<and> ps_Proto x = ps_Proto y \<and> ps_DstPort x = ps_DstPort y"
    and "is_ok (serviceMapEntry x)" and "is_ok (serviceMapEntry y)"
  shows "serviceMapKey x = serviceMapKey y"
  using assms unfolding is_ok_iff
  by (auto simp: serviceMapEntry_def serviceMapKey_def split: sum.splits if_splits option.splits)

lemma installable_tie_free:
  assumes "installable now s"
  shows "cidr_order.tie_free (snap_WhitelistV4 s)" "cidr_order.tie_free (snap_BlacklistV4 s)"
    "udp_order.tie_free (snap_UDPSourcePortBlocks s)" "service_order.tie_free (snap_Services s)"
    "rule_order.tie_free (snap_Rules s)"
  using assms unfolding installable_def cidr_order.tie_free_def udp_order.tie_free_def
    service_order.tie_free_def rule_order.tie_free_def distinct_map inj_on_def
  by (metis cidr_tie cidr_slot_cong, metis cidr_tie cidr_slot_cong, metis udp_tie udp_slot_cong,
      metis service_tie serviceMapKey_cong, metis rule_tie)

text \<open>Two snapshots with the same header and the same entries in any order.\<close>

definition same_entries :: "PolicySnapshot \<Rightarrow> PolicySnapshot \<Rightarrow> bool" where
  "same_entries s t \<longleftrightarrow>
     snap_SchemaVersion s = snap_SchemaVersion t \<and> snap_Version s = snap_Version t \<and>
     snap_ObjectChecksum s = snap_ObjectChecksum t \<and> snap_Runtime s = snap_Runtime t \<and>
     mset (snap_FeatureFlags s) = mset (snap_FeatureFlags t) \<and>
     mset (snap_WhitelistV4 s) = mset (snap_WhitelistV4 t) \<and>
     mset (snap_BlacklistV4 s) = mset (snap_BlacklistV4 t) \<and>
     mset (snap_UDPSourcePortBlocks s) = mset (snap_UDPSourcePortBlocks t) \<and>
     mset (snap_Services s) = mset (snap_Services t) \<and> mset (snap_Rules s) = mset (snap_Rules t)"

lemma canonical_perm:
  assumes "installable now s" and "same_entries s t"
  shows "normalizePolicySnapshot s = normalizePolicySnapshot t"
proof -
  note tf = installable_tie_free [OF assms(1)] and same = assms(2) [unfolded same_entries_def]
  have "sort_slice (<) (snap_FeatureFlags s) = sort_slice (<) (snap_FeatureFlags t)"
    "sort_slice cidrEntryLess (snap_WhitelistV4 s) = sort_slice cidrEntryLess (snap_WhitelistV4 t)"
    "sort_slice cidrEntryLess (snap_BlacklistV4 s) = sort_slice cidrEntryLess (snap_BlacklistV4 t)"
    "sort_slice udpBlockLess (snap_UDPSourcePortBlocks s) = sort_slice udpBlockLess (snap_UDPSourcePortBlocks t)"
    "sort_slice serviceLess (snap_Services s) = sort_slice serviceLess (snap_Services t)"
    "sort_slice ruleLess (snap_Rules s) = sort_slice ruleLess (snap_Rules t)"
    using same tf by (auto intro: key_order.sort_slice_perm cidr_order.sort_slice_perm
        udp_order.sort_slice_perm service_order.sort_slice_perm rule_order.sort_slice_perm)
  with same show ?thesis by (simp add: normalizePolicySnapshot_def)
qed

text \<open>Verification reads a snapshot only through its normal form and its checksum.\<close>

lemma Verify_cong:
  assumes "normalizePolicySnapshot s = normalizePolicySnapshot t" and "snap_Checksum s = snap_Checksum t"
  shows "VerifyPolicySnapshot digest clock s opts = VerifyPolicySnapshot digest clock t opts"
  using assms by (simp add: VerifyPolicySnapshot_def)

text \<open>
  C7. An accepted snapshot may list its entries in any order: a snapshot with the same header
  and checksum and a permutation of the entries has the same canonical checksum and the same
  verification result, statistics included.
\<close>

theorem entry_order_irrelevant:
  assumes "snd (VerifyPolicySnapshot digest clock s opts) = []"
    and "\<not> vo_AllowUnresolvedServices opts"
    and "same_entries s t" and "snap_Checksum t = snap_Checksum s"
  shows "CanonicalPolicyChecksum digest t = CanonicalPolicyChecksum digest s \<and>
    VerifyPolicySnapshot digest clock t opts = VerifyPolicySnapshot digest clock s opts"
proof -
  have "normalizePolicySnapshot t = normalizePolicySnapshot s"
    using canonical_perm [OF accepted_installable [OF assms(1,2)] assms(3)] by simp
  then show ?thesis
    using Verify_cong [of t s] assms(4)
    by (simp add: CanonicalPolicyChecksum_def canonicalizePolicySnapshot_def)
qed

lemma canonicalize_inj:
  assumes "canonicalizePolicySnapshot s = canonicalizePolicySnapshot t"
  shows "normalizePolicySnapshot s = normalizePolicySnapshot t"
proof (rule PolicySnapshot.PolicySnapshot.equality)
  show "snap_Checksum (normalizePolicySnapshot s) = snap_Checksum (normalizePolicySnapshot t)"
    by (simp add: normalizePolicySnapshot_def)
qed (use assms in \<open>simp_all del: normalize_sel add: canonicalizePolicySnapshot_def Let_def\<close>)

text \<open>
  C6. The checksum binds the content: when two accepted snapshots carry the same checksum and
  the digest does not collide on their two canonical forms, the snapshots have the same normal
  form, so every field of every entry agrees. Tampering with an entry is detected.
\<close>

theorem checksum_binds_content:
  assumes "snd (VerifyPolicySnapshot digest clock s opts) = []"
    and "snd (VerifyPolicySnapshot digest clock' t opts') = []"
    and "snap_Checksum s = snap_Checksum t"
    and "inj_on digest {canonicalizePolicySnapshot s, canonicalizePolicySnapshot t}"
  shows "normalizePolicySnapshot s = normalizePolicySnapshot t"
proof (rule canonicalize_inj)
  have "digest (canonicalizePolicySnapshot s) = digest (canonicalizePolicySnapshot t)"
    using accepted_header(4) [OF assms(1)] accepted_header(4) [OF assms(2)] assms(3)
    by (simp add: CanonicalPolicyChecksum_def)
  then show "canonicalizePolicySnapshot s = canonicalizePolicySnapshot t"
    by (rule inj_onD [OF assms(4)]) simp_all
qed

subsection \<open>Capacity\<close>

abbreviation "global_entries es \<equiv> filter (\<lambda>e. ce_Scope e = policyScopeGlobal) es"
abbreviation "service_entries es \<equiv> filter (\<lambda>e. ce_Scope e = policyScopeService) es"
abbreviation "global_blocks es \<equiv> filter (\<lambda>e. ub_Scope e = policyScopeGlobal) es"
abbreviation "service_blocks es \<equiv> filter (\<lambda>e. ub_Scope e = policyScopeService) es"

lemma cidr_loop_count:
  "fst (cidr_loop t now gk sk es) = [] \<Longrightarrow>
    snd (cidr_loop t now gk sk es) = (of_nat (length (global_entries es)), of_nat (length (service_entries es)))"
  by (induction es arbitrary: gk sk)
    (auto simp: Let_def case_prod_beta add.commute intro: prod_eqI split: sum.splits if_splits)

lemma udp_loop_count:
  "fst (udp_loop now pk sk es) = [] \<Longrightarrow>
    snd (udp_loop now pk sk es) = (of_nat (length (global_blocks es)), of_nat (length (service_blocks es)))"
  by (induction es arbitrary: pk sk)
    (auto simp: Let_def case_prod_beta add.commute intro: prod_eqI split: if_splits)

lemma service_loop_keys:
  assumes "fst (service_loop cap allow seen targets keys ss) = []" and "distinct keys"
  shows "distinct (snd (service_loop cap allow seen targets keys ss)) \<and>
    set (snd (service_loop cap allow seen targets keys ss)) = set keys \<union> ps_DevmapKey ` set ss"
  using assms
  by (induction ss arbitrary: seen targets keys)
    (auto simp: Let_def case_prod_beta split: sum.splits if_splits option.splits)

lemma of_nat_u32_le:
  assumes "(of_nat n :: u32) \<le> c" and "n < 2 ^ 32"
  shows "n \<le> unat c"
  using assms by (simp add: word_le_nat_alt unat_of_nat)

text \<open>
  The entries of every map group fit its capacity, and rule ids and devmap keys are valid
  indices.
\<close>

definition fits_maps :: "(string \<rightharpoonup> u32) \<Rightarrow> PolicySnapshot \<Rightarrow> bool" where
  "fits_maps ov s \<longleftrightarrow>
     (let cap = \<lambda>name. unat (policy_capacity ov name) in
      length (global_entries (snap_WhitelistV4 s)) \<le> cap ''whitelist_v4'' \<and>
      length (service_entries (snap_WhitelistV4 s)) \<le> cap ''whitelist_service_v4'' \<and>
      length (global_entries (snap_BlacklistV4 s)) \<le> cap ''blacklist_v4'' \<and>
      length (service_entries (snap_BlacklistV4 s)) \<le> cap ''blacklist_service_v4'' \<and>
      length (global_blocks (snap_UDPSourcePortBlocks s)) \<le> cap ''udp_source_port_blocks'' \<and>
      length (service_blocks (snap_UDPSourcePortBlocks s)) \<le> cap ''udp_source_port_service_blocks'' \<and>
      length (snap_Services s) \<le> cap ''service_allowlist'' \<and>
      card (ps_DevmapKey ` set (snap_Services s)) \<le> cap ''tx_devmap'' \<and>
      length (snap_Rules s) \<le> cap ''rule_config'' \<and>
      (\<forall>r\<in>set (snap_Rules s). unat (pr_RuleID r) < cap ''rule_config'') \<and>
      (\<forall>v\<in>set (snap_Services s). unat (ps_DevmapKey v) < cap ''tx_devmap''))"

definition u32_sized :: "PolicySnapshot \<Rightarrow> bool" where
  "u32_sized s \<longleftrightarrow>
     length (snap_WhitelistV4 s) < 2 ^ 32 \<and> length (snap_BlacklistV4 s) < 2 ^ 32 \<and>
     length (snap_UDPSourcePortBlocks s) < 2 ^ 32 \<and> length (snap_Services s) < 2 ^ 32 \<and>
     length (snap_Rules s) < 2 ^ 32"

lemma fits_maps_normalize [simp]:
  "fits_maps ov ((normalizePolicySnapshot s)\<lparr>snap_Checksum := c\<rparr>) = fits_maps ov s"
  by (simp add: fits_maps_def length_filter_sort_slice)

lemma validate_capacity:
  assumes "snd (validatePolicyEntries s opts now) = []" and "u32_sized s"
    and "\<not> vo_AllowUnresolvedServices opts"
  shows "fits_maps (vo_CapacityOverrides opts) s"
proof -
  let ?cap = "policy_capacity (vo_CapacityOverrides opts)"
  let ?sl = "service_loop (?cap ''tx_devmap'') False [] Map.empty [] (snap_Services s)"
  note e = assms(1) [unfolded validate_errs Let_def whitelist_loop_def blacklist_loop_def
      append_is_Nil_conv cap_err_Nil]
  have w: "fst (cidr_loop WhitelistTable now [] [] (snap_WhitelistV4 s)) = []"
    and b: "fst (cidr_loop BlacklistTable now [] [] (snap_BlacklistV4 s)) = []"
    and u: "fst (udp_loop now [] [] (snap_UDPSourcePortBlocks s)) = []"
    and v: "fst ?sl = []"
    and r: "rule_loop (?cap ''rule_config'') now [] (snap_Rules s) = []"
    using e assms(3) by simp_all
  have keys: "length (snd ?sl) = card (ps_DevmapKey ` set (snap_Services s))"
    using service_loop_keys [OF v] by (metis distinct.simps(1) distinct_card empty_set sup_bot_left)
  have caps:
    "of_nat (length (global_entries (snap_WhitelistV4 s))) \<le> ?cap ''whitelist_v4''"
    "of_nat (length (service_entries (snap_WhitelistV4 s))) \<le> ?cap ''whitelist_service_v4''"
    "of_nat (length (global_entries (snap_BlacklistV4 s))) \<le> ?cap ''blacklist_v4''"
    "of_nat (length (service_entries (snap_BlacklistV4 s))) \<le> ?cap ''blacklist_service_v4''"
    "of_nat (length (global_blocks (snap_UDPSourcePortBlocks s))) \<le> ?cap ''udp_source_port_blocks''"
    "of_nat (length (service_blocks (snap_UDPSourcePortBlocks s))) \<le> ?cap ''udp_source_port_service_blocks''"
    "of_nat (length (snap_Services s)) \<le> ?cap ''service_allowlist''"
    "of_nat (card (ps_DevmapKey ` set (snap_Services s))) \<le> ?cap ''tx_devmap''"
    "of_nat (length (snap_Rules s)) \<le> ?cap ''rule_config''"
    using e assms(3) by (simp_all add: cidr_loop_count [OF w] cidr_loop_count [OF b] udp_loop_count [OF u]
        flip: keys)
  have small: "length (filter P xs) < 2 ^ 32" if "length xs < 2 ^ 32" for P and xs :: "'x list"
    using that length_filter_le le_less_trans by blast
  have "card (ps_DevmapKey ` set (snap_Services s)) < 2 ^ 32"
    using assms(2) card_length [of "map ps_DevmapKey (snap_Services s)"]
    by (simp add: u32_sized_def)
  then have card: "card (ps_DevmapKey ` set (snap_Services s)) \<le> unat (?cap ''tx_devmap'')"
    using caps(8) of_nat_u32_le by blast
  have lens: "length (snap_Services s) \<le> unat (?cap ''service_allowlist'')"
    "length (snap_Rules s) \<le> unat (?cap ''rule_config'')"
    using assms(2) caps(7,9) unfolding u32_sized_def by (blast intro: of_nat_u32_le)+
  have rules: "unat (pr_RuleID x) < unat (?cap ''rule_config'')" if "x \<in> set (snap_Rules s)" for x
  proof -
    have "0 < unat (?cap ''rule_config'')" using that lens(2) by (cases "snap_Rules s") auto
    then show ?thesis
      using rule_loop_ok [OF r] that by (simp add: word_less_nat_alt)
  qed
  have devmap: "unat (ps_DevmapKey x) < unat (?cap ''tx_devmap'')" if "x \<in> set (snap_Services s)" for x
  proof -
    have "0 < card (ps_DevmapKey ` set (snap_Services s))" using that by (auto simp: card_gt_0_iff)
    with card have "0 < unat (?cap ''tx_devmap'')" by linarith
    then show ?thesis
      using service_loop_ok [OF v, THEN conjunct1] that by (simp add: word_less_nat_alt)
  qed
  show ?thesis
    unfolding fits_maps_def Let_def
    using caps(1-6) [THEN of_nat_u32_le, OF small] assms(2) card lens rules devmap
    unfolding u32_sized_def by blast
qed

text \<open>
  C1. Verification is sound. A snapshot that verification accepts for installation has schema
  version 1 and a version newer than the installed one, carries the checksum of its own
  canonical form, names the loaded object, drops malformed packets, uses supported feature
  flags only, and its entries are installable: every entry has a map key of its own, none is
  expired, services have complete forwarding data with consistent devmap targets, and the
  entries fit the maps. The lists are assumed shorter than \<open>2 ^ 32\<close>, as the code counts in
  32 bits.
\<close>

theorem verify_sound:
  assumes "snd (VerifyPolicySnapshot digest clock s opts) = []"
    and "\<not> vo_AllowUnresolvedServices opts" and "u32_sized s"
  shows "snap_SchemaVersion s = 1 \<and> snap_Version s \<noteq> 0 \<and>
    (vo_CurrentVersion opts \<noteq> 0 \<longrightarrow> vo_CurrentVersion opts < snap_Version s) \<and>
    snap_Checksum s = CanonicalPolicyChecksum digest s \<and>
    (vo_ObjectChecksum opts \<noteq> [] \<longrightarrow> snap_ObjectChecksum s = vo_ObjectChecksum opts) \<and>
    prc_MalformedPolicy (snap_Runtime (normalizePolicySnapshot s)) = actionDrop \<and>
    set (snap_FeatureFlags s) \<subseteq> set supportedPolicyFeatureFlags \<and>
    installable (verify_now clock opts) s \<and> fits_maps (vo_CapacityOverrides opts) s"
proof -
  let ?s = "(normalizePolicySnapshot s)\<lparr>snap_Checksum := snap_Checksum s\<rparr>"
  have "snd (validatePolicyEntries ?s opts (verify_now clock opts)) = []"
    using assms(1) by (simp add: snd_Verify Let_def)
  moreover have "u32_sized ?s"
    using assms(3) by (simp add: u32_sized_def)
  ultimately have "fits_maps (vo_CapacityOverrides opts) s"
    using validate_capacity [of ?s opts] assms(2) fits_maps_normalize by simp
  then show ?thesis
    using accepted_header [OF assms(1)] accepted_installable [OF assms(1,2)] by simp
qed

subsection \<open>A concrete snapshot\<close>

definition sample_service :: PolicyService where
  "sample_service = \<lparr>ps_ServiceID = 7, ps_ForwardingPolicyID = 70, ps_DstV4 = ''203.0.113.10'',
     ps_DstPort = 443, ps_Proto = l4TCP, ps_Action = actionRedirect, ps_Priority = 1,
     ps_DefaultRuleID = 3, ps_OutputInterface = ''eth1'', ps_OutputIfindex = 5, ps_DevmapKey = 7,
     ps_NeighborStatus = neighborResolved, ps_DstMAC = ''02:00:00:00:00:01'',
     ps_SrcMAC = ''02:00:00:00:00:02''\<rparr>"

definition sample_entry :: "u32 \<Rightarrow> string \<Rightarrow> PolicyCIDREntry" where
  "sample_entry i cidr = \<lparr>ce_EntryID = i, ce_CIDR = cidr, ce_Priority = 10, ce_Action = actionDrop,
     ce_SourceType = 1, ce_Scope = policyScopeGlobal, ce_ServiceID = 0, ce_Score = 0, ce_RuleID = 0,
     ce_ExpiresAtUnixNS = 0\<rparr>"

definition sample_rule :: PolicyRule where
  "sample_rule = \<lparr>pr_RuleID = 3, pr_ScopeType = ''service'', pr_Priority = 1, pr_Action = actionDrop,
     pr_Mode = 1, pr_ServiceID = 7, pr_Dimension = 1, pr_ThresholdPPS = 1000, pr_ThresholdBPS = 0,
     pr_ThresholdCPS = 0, pr_BurstPackets = 100, pr_BurstBytes = 0, pr_SampleDenom = 0,
     pr_ExpiresAtUnixNS = 0\<rparr>"

definition sample_snapshot :: PolicySnapshot where
  "sample_snapshot = \<lparr>snap_SchemaVersion = 1, snap_Version = 5, snap_Checksum = ''c0'',
     snap_ObjectChecksum = ''0b'', snap_FeatureFlags = [],
     snap_Runtime = \<lparr>prc_MalformedPolicy = actionDrop, prc_SampleDenom = 0\<rparr>,
     snap_WhitelistV4 = [sample_entry 1 ''192.0.2.0/24''],
     snap_BlacklistV4 = [sample_entry 3 ''198.51.100.7'', sample_entry 2 ''198.51.100.0/25''],
     snap_UDPSourcePortBlocks = [\<lparr>ub_EntryID = 4, ub_Port = 53, ub_Scope = policyScopeGlobal,
       ub_ServiceID = 0, ub_ExpiresAtUnixNS = 0\<rparr>],
     snap_Services = [sample_service], snap_Rules = [sample_rule]\<rparr>"

definition sample_options :: PolicySnapshotVerifyOptions where
  "sample_options = \<lparr>vo_CurrentVersion = 4, vo_ObjectChecksum = ''0b'', vo_Now = Some 1000,
     vo_CapacityOverrides = Map.empty, vo_MemoryBudgetBytes = 0, vo_AllowUnresolvedServices = False\<rparr>"

definition sample_digest :: digest where
  "sample_digest c = ''c0''"

lemma sample_accepted: "snd (VerifyPolicySnapshot sample_digest 0 sample_snapshot sample_options) = []"
  by code_simp

lemma sample_options_sel [simp]:
  "\<not> vo_AllowUnresolvedServices sample_options" "vo_CurrentVersion sample_options = 4"
  "vo_Now sample_options = Some 1000" "vo_CapacityOverrides sample_options = Map.empty"
  by (simp_all add: sample_options_def)

lemma sample_sized: "u32_sized sample_snapshot"
  by (simp add: u32_sized_def sample_snapshot_def)

definition sample_permuted :: PolicySnapshot where
  "sample_permuted = sample_snapshot\<lparr>snap_BlacklistV4 := rev (snap_BlacklistV4 sample_snapshot)\<rparr>"

lemma sample_permuted_same: "same_entries sample_snapshot sample_permuted"
  by (simp add: same_entries_def sample_permuted_def)

theorem verify_sound_witness:
  "snap_Version sample_snapshot \<noteq> 0 \<and> 4 < snap_Version sample_snapshot \<and>
   installable 1000 sample_snapshot \<and> fits_maps Map.empty sample_snapshot"
  using verify_sound [OF sample_accepted _ sample_sized] by simp

theorem entry_order_irrelevant_witness:
  "CanonicalPolicyChecksum sample_digest sample_permuted = CanonicalPolicyChecksum sample_digest sample_snapshot \<and>
   snd (VerifyPolicySnapshot sample_digest 0 sample_permuted sample_options) = []"
  using entry_order_irrelevant [OF sample_accepted _ sample_permuted_same] sample_accepted
  by (simp add: sample_permuted_def)

text \<open>A digest without collisions on the sample: it writes out the version.\<close>

definition version_digest :: digest where
  "version_digest c = dec (unat (canon_Version c))"

lemma sample_signed_accepted:
  "snd (VerifyPolicySnapshot version_digest 0 (SignPolicySnapshot version_digest sample_snapshot)
     sample_options) = []"
  "snd (VerifyPolicySnapshot version_digest 0 (SignPolicySnapshot version_digest sample_permuted)
     sample_options) = []"
  by code_simp+

theorem checksum_binds_content_witness:
  "normalizePolicySnapshot (SignPolicySnapshot version_digest sample_snapshot) =
   normalizePolicySnapshot (SignPolicySnapshot version_digest sample_permuted)"
proof (rule checksum_binds_content [OF sample_signed_accepted])
  have c: "canonicalizePolicySnapshot (SignPolicySnapshot version_digest sample_snapshot) =
      canonicalizePolicySnapshot (SignPolicySnapshot version_digest sample_permuted)"
    by code_simp
  then show "inj_on version_digest
      {canonicalizePolicySnapshot (SignPolicySnapshot version_digest sample_snapshot),
       canonicalizePolicySnapshot (SignPolicySnapshot version_digest sample_permuted)}"
    by simp
  show "snap_Checksum (SignPolicySnapshot version_digest sample_snapshot) =
      snap_Checksum (SignPolicySnapshot version_digest sample_permuted)"
    by code_simp
qed

end
