(* ===== verification/LastValid.thy ===== *)
theory LastValid
  imports SnapshotVerify
begin

section \<open>The last-valid snapshot file\<close>

text \<open>
  \<^verbatim>\<open>internal/agent/snapshot.go\<close>: the record the agent keeps on disk to restart from, its
  checksum, its verification, and saving and loading it through a temporary file and a rename.

  The file system is a record of the files and of the faults that the calls of package
  \<^verbatim>\<open>os\<close> may meet: a failed \<^verbatim>\<open>os.WriteFile\<close> may leave partial content. JSON encoding and
  decoding and the SHA-256 digests are the parameter record \<open>json_codec\<close>.
\<close>

subsection \<open>Package os\<close>

record FileSystem =
  fs_files :: "string \<rightharpoonup> string"
  fs_read_fault :: "string \<Rightarrow> bool"
  fs_mkdir_fault :: "string \<Rightarrow> bool"
  fs_write_fault :: "string \<Rightarrow> string option option"
  fs_rename_fault :: "string \<Rightarrow> bool"

datatype fs_error = ErrNotExist | ReadFault | MkdirFault | WriteFault | RenameFault

definition os_ReadFile :: "FileSystem \<Rightarrow> string \<Rightarrow> fs_error + string" where
  "os_ReadFile fs path = (if fs_read_fault fs path then Inl ReadFault
     else case fs_files fs path of None \<Rightarrow> Inl ErrNotExist | Some raw \<Rightarrow> Inr raw)"

text \<open>
  \<open>os_WriteFile\<close> truncates and writes; \<open>Some None\<close> is a fault before the file is opened,
  \<open>Some (Some partial)\<close> one that leaves \<open>partial\<close>.
\<close>

definition os_WriteFile :: "FileSystem \<Rightarrow> string \<Rightarrow> string \<Rightarrow> FileSystem \<times> fs_error option" where
  "os_WriteFile fs path raw = (case fs_write_fault fs path of
     None \<Rightarrow> (fs\<lparr>fs_files := (fs_files fs)(path \<mapsto> raw)\<rparr>, None)
   | Some None \<Rightarrow> (fs, Some WriteFault)
   | Some (Some partial) \<Rightarrow> (fs\<lparr>fs_files := (fs_files fs)(path \<mapsto> partial)\<rparr>, Some WriteFault))"

definition os_Rename :: "FileSystem \<Rightarrow> string \<Rightarrow> string \<Rightarrow> FileSystem \<times> fs_error option" where
  "os_Rename fs old new = (if fs_rename_fault fs old then (fs, Some RenameFault)
     else case fs_files fs old of
       None \<Rightarrow> (fs, Some ErrNotExist)
     | Some raw \<Rightarrow> (fs\<lparr>fs_files := (fs_files fs)(old := None, new \<mapsto> raw)\<rparr>, None))"

subsection \<open>Data\<close>

record LastValidSnapshot =
  lv_SchemaVersion :: int
  lv_Checksum :: string
  lv_ObjectChecksum :: string
  lv_ActiveSlot :: u32
  lv_PolicyVersion :: u32
  lv_SampleDenom :: u32
  lv_SavedAtUnixNS :: int
  lv_Policy :: "PolicySnapshot option"

record json_codec =
  jc_digest :: digest
  jc_lv_digest :: "LastValidSnapshot \<Rightarrow> string"
  jc_MarshalIndent :: "LastValidSnapshot \<Rightarrow> string"
  jc_Unmarshal :: "string \<Rightarrow> LastValidSnapshot option"
  jc_DecodePolicySnapshot :: "string \<Rightarrow> PolicySnapshot option"

datatype lv_error =
  LvIO fs_error | LvJSON | LvSchemaVersion int | LvPolicyVersionZero | LvActiveSlotRange u32
| LvChecksumRequired | LvChecksumMismatch string string | LvVersionMismatch u32 u32
| LvEmbeddedPolicy "policy_error list"

subsection \<open>Operations\<close>

text \<open>\<open>clock\<close> is the value of \<^verbatim>\<open>time.Now().UnixNano()\<close>.\<close>

definition DefaultSnapshot :: "int \<Rightarrow> string \<Rightarrow> LastValidSnapshot" where
  "DefaultSnapshot clock objectChecksum =
     \<lparr>lv_SchemaVersion = 1, lv_Checksum = [], lv_ObjectChecksum = objectChecksum,
      lv_ActiveSlot = 0, lv_PolicyVersion = 1, lv_SampleDenom = 1, lv_SavedAtUnixNS = clock,
      lv_Policy = None\<rparr>"

definition ComputeChecksum :: "json_codec \<Rightarrow> LastValidSnapshot \<Rightarrow> string" where
  "ComputeChecksum jc s = jc_lv_digest jc (s\<lparr>lv_Checksum := []\<rparr>)"

definition default_verify_options :: PolicySnapshotVerifyOptions where
  "default_verify_options = \<lparr>vo_CurrentVersion = 0, vo_ObjectChecksum = [], vo_Now = None,
     vo_CapacityOverrides = Map.empty, vo_MemoryBudgetBytes = 0, vo_AllowUnresolvedServices = False\<rparr>"

definition LastValid_Verify :: "json_codec \<Rightarrow> int \<Rightarrow> LastValidSnapshot \<Rightarrow> lv_error option" where
  "LastValid_Verify jc clock s =
     (if lv_SchemaVersion s \<noteq> 1 then Some (LvSchemaVersion (lv_SchemaVersion s))
      else if lv_PolicyVersion s = 0 then Some LvPolicyVersionZero
      else if 1 < lv_ActiveSlot s then Some (LvActiveSlotRange (lv_ActiveSlot s))
      else if lv_Checksum s = [] then Some LvChecksumRequired
      else if ComputeChecksum jc s \<noteq> lv_Checksum s
      then Some (LvChecksumMismatch (ComputeChecksum jc s) (lv_Checksum s))
      else (case lv_Policy s of
        None \<Rightarrow> None
      | Some policy \<Rightarrow>
          if snap_Version policy \<noteq> lv_PolicyVersion s
          then Some (LvVersionMismatch (lv_PolicyVersion s) (snap_Version policy))
          else (case snd (VerifyPolicySnapshot (jc_digest jc) clock policy
                  (default_verify_options\<lparr>vo_ObjectChecksum := lv_ObjectChecksum s\<rparr>)) of
            [] \<Rightarrow> None
          | errs \<Rightarrow> Some (LvEmbeddedPolicy errs))))"

definition LastValidFromPolicySnapshot ::
    "PolicySnapshot \<Rightarrow> u32 \<Rightarrow> string \<Rightarrow> int \<Rightarrow> LastValidSnapshot" where
  "LastValidFromPolicySnapshot policy0 activeSlot objectChecksum now =
     (let policy = (normalizePolicySnapshot policy0)\<lparr>snap_Checksum := snap_Checksum policy0\<rparr>
      in \<lparr>lv_SchemaVersion = 1, lv_Checksum = [],
          lv_ObjectChecksum = (if objectChecksum = [] then snap_ObjectChecksum policy else objectChecksum),
          lv_ActiveSlot = activeSlot, lv_PolicyVersion = snap_Version policy,
          lv_SampleDenom = prc_SampleDenom (snap_Runtime policy), lv_SavedAtUnixNS = now,
          lv_Policy = Some policy\<rparr>)"

definition LastValid_RuntimeConfig :: "int \<Rightarrow> LastValidSnapshot \<Rightarrow> RuntimeConfigValue" where
  "LastValid_RuntimeConfig now s =
     \<lparr>rc_ActiveSlot = lv_ActiveSlot s, rc_PolicyVersion = lv_PolicyVersion s,
      rc_MalformedPolicy = (case lv_Policy s of
          None \<Rightarrow> actionDrop
        | Some policy \<Rightarrow> if prc_MalformedPolicy (snap_Runtime policy) \<noteq> 0
            then prc_MalformedPolicy (snap_Runtime policy) else actionDrop),
      rc_SampleDenom = lv_SampleDenom s, rc_UpdatedAtUnixNano = word_of_int now\<rparr>"

definition LoadLastValidSnapshot ::
    "json_codec \<Rightarrow> int \<Rightarrow> FileSystem \<Rightarrow> string \<Rightarrow> lv_error + LastValidSnapshot" where
  "LoadLastValidSnapshot jc clock fs path = (case os_ReadFile fs path of
     Inl e \<Rightarrow> Inl (LvIO e)
   | Inr raw \<Rightarrow> (case jc_Unmarshal jc raw of
       None \<Rightarrow> Inl LvJSON
     | Some snapshot \<Rightarrow> (case LastValid_Verify jc clock snapshot of
         None \<Rightarrow> Inr snapshot
       | Some err \<Rightarrow> (case jc_DecodePolicySnapshot jc raw of
           None \<Rightarrow> Inl err
         | Some policy \<Rightarrow>
             if snd (VerifyPolicySnapshot (jc_digest jc) clock policy default_verify_options) = []
             then let lastValid = LastValidFromPolicySnapshot policy 0 (snap_ObjectChecksum policy) clock
                  in Inr (lastValid\<lparr>lv_Checksum := ComputeChecksum jc lastValid\<rparr>)
             else Inl err))))"

text \<open>What \<^verbatim>\<open>SaveLastValidSnapshot\<close> writes: the policy normalised and signed, the checksum filled in.\<close>

definition saved_form :: "json_codec \<Rightarrow> LastValidSnapshot \<Rightarrow> LastValidSnapshot" where
  "saved_form jc s0 =
     (let s = (case lv_Policy s0 of
          None \<Rightarrow> s0
        | Some p \<Rightarrow> if snap_Checksum p = []
            then s0\<lparr>lv_Policy := Some (SignPolicySnapshot (jc_digest jc) p)\<rparr>
            else s0\<lparr>lv_Policy := Some ((normalizePolicySnapshot p)\<lparr>snap_Checksum := snap_Checksum p\<rparr>)\<rparr>)
      in s\<lparr>lv_Checksum := ComputeChecksum jc s\<rparr>)"

definition SaveLastValidSnapshot ::
    "json_codec \<Rightarrow> FileSystem \<Rightarrow> string \<Rightarrow> LastValidSnapshot \<Rightarrow> FileSystem \<times> lv_error option" where
  "SaveLastValidSnapshot jc fs path snapshot =
     (if fs_mkdir_fault fs path then (fs, Some (LvIO MkdirFault))
      else let raw = jc_MarshalIndent jc (saved_form jc snapshot) @ [CHR 0x0A];
               tmp = path @ ''.tmp''
           in (case os_WriteFile fs tmp raw of
                 (fs1, Some e) \<Rightarrow> (fs1, Some (LvIO e))
               | (fs1, None) \<Rightarrow> (case os_Rename fs1 tmp path of
                     (fs2, e) \<Rightarrow> (fs2, map_option LvIO e))))"

subsection \<open>Lemmas\<close>

lemma tmp_path [simp]: "path @ ''.tmp'' \<noteq> path" "path \<noteq> path @ ''.tmp''"
  by simp_all

lemma Save_cases:
  obtains (ok) "SaveLastValidSnapshot jc fs path s =
      (fs\<lparr>fs_files := (fs_files fs)(path @ ''.tmp'' := None,
        path \<mapsto> jc_MarshalIndent jc (saved_form jc s) @ [CHR 0x0A])\<rparr>, None)"
  | (fault) e fs' where "SaveLastValidSnapshot jc fs path s = (fs', Some e)"
      "\<And>p. p \<noteq> path @ ''.tmp'' \<Longrightarrow> fs_files fs' p = fs_files fs p"
proof -
  have "(SaveLastValidSnapshot jc fs path s =
      (fs\<lparr>fs_files := (fs_files fs)(path @ ''.tmp'' := None,
        path \<mapsto> jc_MarshalIndent jc (saved_form jc s) @ [CHR 0x0A])\<rparr>, None)) \<or>
    (\<exists>e fs'. SaveLastValidSnapshot jc fs path s = (fs', Some e) \<and>
      (\<forall>p. p \<noteq> path @ ''.tmp'' \<longrightarrow> fs_files fs' p = fs_files fs p))"
    by (auto simp: SaveLastValidSnapshot_def os_WriteFile_def os_Rename_def Let_def fun_upd_twist
        split: option.split)
  then show thesis using that by blast
qed

lemma ComputeChecksum_checksum [simp]:
  "ComputeChecksum jc (s\<lparr>lv_Checksum := c\<rparr>) = ComputeChecksum jc s"
  by (simp add: ComputeChecksum_def)

lemma saved_form_checksum [simp]:
  "lv_Checksum (saved_form jc s) = ComputeChecksum jc (saved_form jc s)"
  by (simp add: saved_form_def Let_def)

text \<open>
  C8. Saving is atomic: when \<^verbatim>\<open>SaveLastValidSnapshot\<close> fails, at whatever step and with
  whatever partial write, every file but the temporary one is as before, so the previous
  last-valid snapshot is still there; when it succeeds the file holds the whole new encoding and
  the temporary file is gone.
\<close>

theorem save_atomic:
  "case SaveLastValidSnapshot jc fs path s of
     (fs', None) \<Rightarrow> fs_files fs' = (fs_files fs)(path @ ''.tmp'' := None,
       path \<mapsto> jc_MarshalIndent jc (saved_form jc s) @ [CHR 0x0A])
   | (fs', Some e) \<Rightarrow> (fs_files fs')(path @ ''.tmp'' := None) = (fs_files fs)(path @ ''.tmp'' := None)"
  by (rule Save_cases [of jc fs path s]) (auto simp: fun_eq_iff)

lemma Verify_saved_form:
  assumes "\<And>x. jc_lv_digest jc x \<noteq> []" and "lv_SchemaVersion s = 1"
    and "lv_PolicyVersion s \<noteq> 0" and "lv_ActiveSlot s \<le> 1"
    and "\<And>p. lv_Policy s = Some p \<Longrightarrow> snap_Version p = lv_PolicyVersion s \<and> snap_Checksum p \<noteq> [] \<and>
      snd (VerifyPolicySnapshot (jc_digest jc) clock p
        (default_verify_options\<lparr>vo_ObjectChecksum := lv_ObjectChecksum s\<rparr>)) = []"
  shows "LastValid_Verify jc clock (saved_form jc s) = None"
proof -
  have chk: "ComputeChecksum jc x \<noteq> []" for x
    using assms(1) by (simp add: ComputeChecksum_def)
  show ?thesis
  proof (cases "lv_Policy s")
    case None
    then show ?thesis
      using assms(2,3,4) chk by (simp add: LastValid_Verify_def saved_form_def Let_def not_less)
  next
    case (Some p)
    note p = assms(5) [OF Some]
    have "VerifyPolicySnapshot (jc_digest jc) clock
        ((normalizePolicySnapshot p)\<lparr>snap_Checksum := snap_Checksum p\<rparr>) opts =
      VerifyPolicySnapshot (jc_digest jc) clock p opts" for opts
      by (rule Verify_cong) simp_all
    then show ?thesis
      using assms(2,3,4) chk Some p by (simp add: LastValid_Verify_def saved_form_def Let_def not_less)
  qed
qed

text \<open>
  C9. Saving and loading round-trips: after a successful save of a well-formed last-valid
  snapshot the file loads as the snapshot with its policy normalised and its checksum filled in,
  provided that JSON decoding inverts encoding and that the policy still verifies at the time of
  loading.
\<close>

theorem save_load:
  assumes "SaveLastValidSnapshot jc fs path s = (fs', None)" and "\<not> fs_read_fault fs path"
    and "jc_Unmarshal jc (jc_MarshalIndent jc (saved_form jc s) @ [CHR 0x0A]) = Some (saved_form jc s)"
    and "\<And>x. jc_lv_digest jc x \<noteq> []"
    and "lv_SchemaVersion s = 1" and "lv_PolicyVersion s \<noteq> 0" and "lv_ActiveSlot s \<le> 1"
    and "\<And>p. lv_Policy s = Some p \<Longrightarrow> snap_Version p = lv_PolicyVersion s \<and> snap_Checksum p \<noteq> [] \<and>
      snd (VerifyPolicySnapshot (jc_digest jc) clock p
        (default_verify_options\<lparr>vo_ObjectChecksum := lv_ObjectChecksum s\<rparr>)) = []"
  shows "LoadLastValidSnapshot jc clock fs' path = Inr (saved_form jc s)"
proof (rule Save_cases [of jc fs path s])
  assume "SaveLastValidSnapshot jc fs path s =
      (fs\<lparr>fs_files := (fs_files fs)(path @ ''.tmp'' := None,
        path \<mapsto> jc_MarshalIndent jc (saved_form jc s) @ [CHR 0x0A])\<rparr>, None)"
  then show ?thesis
    using assms(1-3) Verify_saved_form [OF assms(4-8)]
    by (auto simp: LoadLastValidSnapshot_def os_ReadFile_def)
qed (use assms(1) in auto)

subsection \<open>A concrete file\<close>

definition sample_last_valid :: LastValidSnapshot where
  "sample_last_valid = LastValidFromPolicySnapshot sample_snapshot 1 ''0b'' 1000"

definition sample_codec :: json_codec where
  "sample_codec = \<lparr>jc_digest = sample_digest, jc_lv_digest = (\<lambda>_. ''ab''),
     jc_MarshalIndent = (\<lambda>_. ''{}''), jc_Unmarshal = (\<lambda>_. Some (sample_last_valid\<lparr>lv_Checksum := ''ab''\<rparr>)),
     jc_DecodePolicySnapshot = (\<lambda>_. None)\<rparr>"

definition sample_fs :: FileSystem where
  "sample_fs = \<lparr>fs_files = Map.empty, fs_read_fault = (\<lambda>_. False), fs_mkdir_fault = (\<lambda>_. False),
     fs_write_fault = (\<lambda>_. None), fs_rename_fault = (\<lambda>_. False)\<rparr>"

lemma sample_saved_form: "saved_form sample_codec sample_last_valid = sample_last_valid\<lparr>lv_Checksum := ''ab''\<rparr>"
  by code_simp

lemma sample_Save: "SaveLastValidSnapshot sample_codec sample_fs ''lv.json'' sample_last_valid =
    (fst (SaveLastValidSnapshot sample_codec sample_fs ''lv.json'' sample_last_valid), None)"
  by (simp add: SaveLastValidSnapshot_def os_WriteFile_def os_Rename_def sample_fs_def)

lemma sample_policy_verifies:
  "list_all (\<lambda>p. snap_Version p = lv_PolicyVersion sample_last_valid \<and> snap_Checksum p \<noteq> [] \<and>
      snd (VerifyPolicySnapshot (jc_digest sample_codec) 2000 p
        (default_verify_options\<lparr>vo_ObjectChecksum := lv_ObjectChecksum sample_last_valid\<rparr>)) = [])
    (case lv_Policy sample_last_valid of None \<Rightarrow> [] | Some p \<Rightarrow> [p])"
  by code_simp

theorem save_load_witness:
  "LoadLastValidSnapshot sample_codec 2000
     (fst (SaveLastValidSnapshot sample_codec sample_fs ''lv.json'' sample_last_valid)) ''lv.json'' =
   Inr (saved_form sample_codec sample_last_valid)"
proof (rule save_load [OF sample_Save])
  show "\<not> fs_read_fault sample_fs ''lv.json''" by (simp add: sample_fs_def)
  show "jc_Unmarshal sample_codec (jc_MarshalIndent sample_codec (saved_form sample_codec sample_last_valid) @
      [CHR 0x0A]) = Some (saved_form sample_codec sample_last_valid)"
    unfolding sample_saved_form by (simp add: sample_codec_def)
  show "jc_lv_digest sample_codec x \<noteq> []" for x by (simp add: sample_codec_def)
  show "lv_SchemaVersion sample_last_valid = 1" "lv_PolicyVersion sample_last_valid \<noteq> 0"
    "lv_ActiveSlot sample_last_valid \<le> 1"
    by code_simp+
qed (use sample_policy_verifies in simp)

end
