(* ===== verification/EbpfKernel.thy ===== *)
theory EbpfKernel
  imports Contract
begin

section \<open>BPF maps\<close>

text \<open>
  The agent reaches the kernel through \<^verbatim>\<open>github.com/cilium/ebpf\<close>. Its map operations are a
  parameter of the model, the record \<open>ebpf_ops\<close> over an opaque kernel state; keys and values of
  all maps are tagged unions of the structs in \<^verbatim>\<open>contract.go\<close>. The locale \<open>ebpf_kernel\<close> states
  what the agent relies on: a successful call has its effect on one key of one map, a failed
  call has none, an iteration without error yields the keys of the map.

  \<open>sim_ops\<close> is a kernel with bounded maps of the types in \<open>ExpectedMaps\<close> and a schedule of
  injected faults; it satisfies the interface.
\<close>

subsection \<open>Operations\<close>

datatype map_key =
  KU32 u32 | KLPM LPMV4Key | KServiceLPM ServiceLPMV4Key | KServiceUDP ServiceUDPSourcePortKey
| KService ServiceKey | KCounter CounterKey

datatype map_val =
  VU32 u32 | VCIDR CIDRPolicyValue | VUDP UDPSourcePortBlockValue | VService ServiceValue
| VRule RuleValue | VRuntime RuntimeConfigValue | VCounters "CounterValue list"

datatype ebpf_error = ErrKeyNotExist | ErrMapFull | ErrNotSupported | ErrInjected

text \<open>\<open>eo_Loaded\<close> is the test \<^verbatim>\<open>maps[name] != nil\<close> on the loaded collection.\<close>

record 'k ebpf_ops =
  eo_Loaded :: "string \<Rightarrow> bool"
  eo_MaxEntries :: "string \<Rightarrow> u32"
  eo_Lookup :: "'k \<Rightarrow> string \<Rightarrow> map_key \<Rightarrow> ebpf_error + map_val"
  eo_Update :: "'k \<Rightarrow> string \<Rightarrow> map_key \<Rightarrow> map_val \<Rightarrow> 'k \<times> ebpf_error option"
  eo_Delete :: "'k \<Rightarrow> string \<Rightarrow> map_key \<Rightarrow> 'k \<times> ebpf_error option"
  eo_Iterate :: "'k \<Rightarrow> string \<Rightarrow> map_key list \<times> ebpf_error option"

type_synonym map_view = "string \<Rightarrow> map_key \<rightharpoonup> map_val"

text \<open>The steps of a function that returns at the first error.\<close>

definition bind_err :: "'k \<times> 'e option \<Rightarrow> ('k \<Rightarrow> 'k \<times> 'e option) \<Rightarrow> 'k \<times> 'e option" where
  "bind_err r f = (case r of (k, None) \<Rightarrow> f k | (k, Some e) \<Rightarrow> (k, Some e))"

declare bind_err_def [code_unfold]

lemma bind_err_simps [simp]: "bind_err (k, None) f = f k" "bind_err (k, Some e) f = (k, Some e)"
  by (simp_all add: bind_err_def)

lemma bind_err_ok:
  assumes "bind_err r f = (k', None)"
  obtains k where "r = (k, None)" "f k = (k', None)"
  using assms by (auto simp: bind_err_def split: prod.splits option.splits)

text \<open>
  Two loops the agent is built from: deleting a list of keys, where a key that is already gone
  is not an error, and writing a list of entries.
\<close>

fun delete_keys ::
    "'k ebpf_ops \<Rightarrow> string \<Rightarrow> map_key list \<Rightarrow> 'k \<Rightarrow> 'k \<times> ebpf_error option" where
  "delete_keys ops name [] k = (k, None)"
| "delete_keys ops name (key # keys) k = (case eo_Delete ops k name key of
     (k', None) \<Rightarrow> delete_keys ops name keys k'
   | (k', Some e) \<Rightarrow> if e = ErrKeyNotExist then delete_keys ops name keys k' else (k', Some e))"

fun update_all ::
    "'k ebpf_ops \<Rightarrow> (string \<times> map_key \<times> map_val) list \<Rightarrow> 'k \<Rightarrow> 'k \<times> ebpf_error option" where
  "update_all ops [] k = (k, None)"
| "update_all ops ((name, key, v) # ws) k = (case eo_Update ops k name key v of
     (k', None) \<Rightarrow> update_all ops ws k'
   | (k', Some e) \<Rightarrow> (k', Some e))"

subsection \<open>The contents after a list of writes\<close>

fun write_all :: "map_view \<Rightarrow> (string \<times> map_key \<times> map_val) list \<Rightarrow> map_view" where
  "write_all m [] = m"
| "write_all m ((name, key, v) # ws) = write_all (m(name := (m name)(key \<mapsto> v))) ws"

definition writes_of :: "string \<Rightarrow> (string \<times> map_key \<times> map_val) list \<Rightarrow> (map_key \<times> map_val) list" where
  "writes_of name ws = map snd (filter (\<lambda>w. fst w = name) ws)"

lemma write_all_at: "write_all m ws name = m name ++ map_of (rev (writes_of name ws))"
proof (induction ws arbitrary: m)
  case (Cons w ws)
  obtain n key v where w: "w = (n, key, v)" by (cases w)
  from Cons show ?case
    by (auto simp: w writes_of_def map_add_def fun_eq_iff split: option.split)
qed (simp add: writes_of_def)

lemma map_of_rev_distinct:
  assumes "distinct (map fst xs)"
  shows "map_of (rev xs) = map_of xs"
  using assms by (metis distinct_rev map_of_inject_set rev_map set_rev)

lemma write_all_empty:
  assumes "m name = Map.empty" and "distinct (map fst (writes_of name ws))"
  shows "write_all m ws name = map_of (writes_of name ws)"
  using assms by (simp add: write_all_at map_of_rev_distinct)

lemma write_all_other: "name \<notin> fst ` set ws \<Longrightarrow> write_all m ws name = m name"
proof -
  assume "name \<notin> fst ` set ws"
  then have "writes_of name ws = []" by (auto simp: writes_of_def filter_empty_conv)
  then show ?thesis by (simp add: write_all_at)
qed

subsection \<open>The interface\<close>

locale ebpf_kernel =
  fixes ops :: "'k ebpf_ops" and view :: "'k \<Rightarrow> map_view"
  assumes lookup_present: "eo_Lookup ops k name key = Inr v \<Longrightarrow> view k name key = Some v"
    and lookup_absent: "eo_Lookup ops k name key = Inl ErrKeyNotExist \<Longrightarrow> view k name key = None"
    and update_done: "eo_Update ops k name key v = (k', None) \<Longrightarrow>
      view k' = (view k)(name := (view k name)(key \<mapsto> v))"
    and update_failed: "eo_Update ops k name key v = (k', Some e) \<Longrightarrow> view k' = view k"
    and delete_done: "eo_Delete ops k name key = (k', None) \<Longrightarrow>
      view k' = (view k)(name := (view k name)(key := None))"
    and delete_failed: "eo_Delete ops k name key = (k', Some e) \<Longrightarrow> view k' = view k"
    and delete_absent: "eo_Delete ops k name key = (k', Some ErrKeyNotExist) \<Longrightarrow> view k name key = None"
    and iterate_keys: "eo_Iterate ops k name = (keys, None) \<Longrightarrow> set keys = dom (view k name)"
begin

definition same_outside :: "string set \<Rightarrow> 'k \<Rightarrow> 'k \<Rightarrow> bool" where
  "same_outside N k k' \<longleftrightarrow> (\<forall>name. name \<notin> N \<longrightarrow> view k' name = view k name)"

lemma same_outside_refl [simp]: "same_outside N k k"
  by (simp add: same_outside_def)

lemma same_outside_trans: "same_outside N k k' \<Longrightarrow> same_outside N k' k'' \<Longrightarrow> same_outside N k k''"
  by (simp add: same_outside_def)

lemma same_outside_mono: "same_outside N k k' \<Longrightarrow> N \<subseteq> M \<Longrightarrow> same_outside M k k'"
  by (auto simp: same_outside_def)

lemma update_outside: "name \<in> N \<Longrightarrow> same_outside N k (fst (eo_Update ops k name key v))"
  using update_done [of k name key v] update_failed [of k name key v]
  by (cases "eo_Update ops k name key v"; cases "snd (eo_Update ops k name key v)")
    (auto simp: same_outside_def)

lemma delete_outside: "name \<in> N \<Longrightarrow> same_outside N k (fst (eo_Delete ops k name key))"
  using delete_done [of k name key] delete_failed [of k name key]
  by (cases "eo_Delete ops k name key"; cases "snd (eo_Delete ops k name key)")
    (auto simp: same_outside_def)

lemma delete_keys_outside: "name \<in> N \<Longrightarrow> same_outside N k (fst (delete_keys ops name keys k))"
proof (induction keys arbitrary: k)
  case (Cons key keys)
  obtain k' r where d: "eo_Delete ops k name key = (k', r)" by fastforce
  have "same_outside N k k'" using delete_outside [OF Cons.prems, of k key] d by simp
  then show ?case
    using Cons d by (auto split: option.split intro: same_outside_trans)
qed simp

lemma update_all_outside:
  "fst ` set ws \<subseteq> N \<Longrightarrow> same_outside N k (fst (update_all ops ws k))"
proof (induction ws arbitrary: k)
  case (Cons w ws)
  obtain name key v where w: "w = (name, key, v)" by (cases w)
  obtain k' r where u: "eo_Update ops k name key v = (k', r)" by fastforce
  have "same_outside N k k'" using update_outside [of name N k key v] Cons.prems w u by simp
  then show ?case
    using Cons u w by (auto split: option.split intro: same_outside_trans)
qed simp

lemma delete_keys_done:
  "delete_keys ops name keys k = (k', None) \<Longrightarrow>
    view k' = (view k)(name := (view k name) |` (- set keys))"
proof (induction keys arbitrary: k)
  case (Cons key keys)
  obtain k1 r where d: "eo_Delete ops k name key = (k1, r)" by fastforce
  have v1: "view k1 = (view k)(name := (view k name)(key := None))"
  proof (cases r)
    case None
    then show ?thesis using delete_done d by simp
  next
    case (Some e)
    then have "e = ErrKeyNotExist" using Cons.prems d by (auto split: if_splits)
    then show ?thesis
      using delete_failed [of k name key k1 e] delete_absent [of k name key k1] d Some
      by (simp add: fun_upd_idem)
  qed
  have "delete_keys ops name keys k1 = (k', None)"
    using Cons.prems d by (auto split: option.splits if_splits)
  from Cons.IH [OF this] v1 show ?case
    by (auto simp: fun_eq_iff restrict_map_def)
qed (simp add: restrict_map_def)

lemma clear_done:
  assumes "eo_Iterate ops k name = (keys, None)" and "delete_keys ops name keys k = (k', None)"
  shows "view k' = (view k)(name := Map.empty)"
proof -
  have "(view k name) |` (- dom (view k name)) = Map.empty"
    by (auto simp: restrict_map_def fun_eq_iff)
  then show ?thesis
    using delete_keys_done [OF assms(2)] iterate_keys [OF assms(1)] by simp
qed

text \<open>The effect of a list of writes on the contents.\<close>

lemma update_all_done:
  "update_all ops ws k = (k', None) \<Longrightarrow>
    view k' = write_all (view k) ws"
proof (induction ws arbitrary: k)
  case (Cons w ws)
  obtain name key v where w: "w = (name, key, v)" by (cases w)
  from Cons.prems w obtain k1 where "eo_Update ops k name key v = (k1, None)"
    and "update_all ops ws k1 = (k', None)"
    by (auto split: prod.splits option.splits)
  with Cons.IH [of k1] update_done [of k name key v k1] show ?case
    by (simp only: w write_all.simps)
qed simp

end

subsection \<open>A kernel with bounded maps and injected faults\<close>

text \<open>
  The maps are association lists. The fault schedule has one entry for every write; a write
  whose entry is true fails. Array maps accept the indices below their size and cannot be
  deleted from; the other maps refuse a new key when they are full.
\<close>

record sim_kernel =
  sim_maps :: "string \<Rightarrow> (map_key \<times> map_val) list"
  sim_faults :: "bool list"

definition sim_view :: "sim_kernel \<Rightarrow> map_view" where
  "sim_view k name = map_of (sim_maps k name)"

definition sim_tick :: "sim_kernel \<Rightarrow> sim_kernel" where
  "sim_tick k = k\<lparr>sim_faults := tl (sim_faults k)\<rparr>"

definition sim_fault :: "sim_kernel \<Rightarrow> bool" where
  "sim_fault k = (case sim_faults k of [] \<Rightarrow> False | b # _ \<Rightarrow> b)"

definition sim_accepts :: "MapExpectation \<Rightarrow> (map_key \<times> map_val) list \<Rightarrow> map_key \<Rightarrow> bool" where
  "sim_accepts e m key =
     (if me_Type e = Array then (case key of KU32 i \<Rightarrow> i < me_MaxEntries e | _ \<Rightarrow> False)
      else map_of m key \<noteq> None \<or> int (length m) < uint (me_MaxEntries e))"

definition sim_Update ::
    "(string \<times> MapExpectation) list \<Rightarrow> sim_kernel \<Rightarrow> string \<Rightarrow> map_key \<Rightarrow> map_val \<Rightarrow>
     sim_kernel \<times> ebpf_error option" where
  "sim_Update spec k name key v =
     (if sim_fault k then (sim_tick k, Some ErrInjected)
      else case map_of spec name of
        None \<Rightarrow> (sim_tick k, Some ErrNotSupported)
      | Some e \<Rightarrow>
          if sim_accepts e (sim_maps k name) key
          then ((sim_tick k)\<lparr>sim_maps := (sim_maps k)(name := upd key v (sim_maps k name))\<rparr>, None)
          else (sim_tick k, Some ErrMapFull))"

definition sim_Delete ::
    "(string \<times> MapExpectation) list \<Rightarrow> sim_kernel \<Rightarrow> string \<Rightarrow> map_key \<Rightarrow>
     sim_kernel \<times> ebpf_error option" where
  "sim_Delete spec k name key =
     (if sim_fault k then (sim_tick k, Some ErrInjected)
      else case map_of spec name of
        None \<Rightarrow> (sim_tick k, Some ErrNotSupported)
      | Some e \<Rightarrow>
          if me_Type e = Array then (sim_tick k, Some ErrNotSupported)
          else if map_of (sim_maps k name) key = None then (sim_tick k, Some ErrKeyNotExist)
          else ((sim_tick k)\<lparr>sim_maps := (sim_maps k)(name :=
                  filter (\<lambda>p. fst p \<noteq> key) (sim_maps k name))\<rparr>, None))"

definition sim_ops :: "(string \<times> MapExpectation) list \<Rightarrow> sim_kernel ebpf_ops" where
  "sim_ops spec = \<lparr>
     eo_Loaded = (\<lambda>name. map_of spec name \<noteq> None),
     eo_MaxEntries = (\<lambda>name. case map_of spec name of None \<Rightarrow> 0 | Some e \<Rightarrow> me_MaxEntries e),
     eo_Lookup = (\<lambda>k name key. case map_of (sim_maps k name) key of
        None \<Rightarrow> Inl ErrKeyNotExist | Some v \<Rightarrow> Inr v),
     eo_Update = sim_Update spec, eo_Delete = sim_Delete spec,
     eo_Iterate = (\<lambda>k name. (map fst (sim_maps k name), None))\<rparr>"

lemma map_of_filter_key: "map_of (filter (\<lambda>p. fst p \<noteq> key) m) = (map_of m)(key := None)"
  by (induction m) (auto simp: fun_eq_iff)

lemma sim_tick_maps [simp]: "sim_maps (sim_tick k) = sim_maps k"
  by (simp add: sim_tick_def)

interpretation sim: ebpf_kernel "sim_ops spec" sim_view for spec
proof unfold_locales
  fix k name key v k' e
  show "eo_Update (sim_ops spec) k name key v = (k', None) \<Longrightarrow>
      sim_view k' = (sim_view k)(name := (sim_view k name)(key \<mapsto> v))"
    by (auto simp: sim_ops_def sim_Update_def sim_view_def fun_eq_iff split: if_splits option.splits)
  show "eo_Update (sim_ops spec) k name key v = (k', Some e) \<Longrightarrow> sim_view k' = sim_view k"
    by (auto simp: sim_ops_def sim_Update_def sim_view_def fun_eq_iff split: if_splits option.splits)
  show "eo_Delete (sim_ops spec) k name key = (k', None) \<Longrightarrow>
      sim_view k' = (sim_view k)(name := (sim_view k name)(key := None))"
    by (auto simp: sim_ops_def sim_Delete_def sim_view_def fun_eq_iff map_of_filter_key
        split: if_splits option.splits)
  show "eo_Delete (sim_ops spec) k name key = (k', Some e) \<Longrightarrow> sim_view k' = sim_view k"
    by (auto simp: sim_ops_def sim_Delete_def sim_view_def fun_eq_iff split: if_splits option.splits)
  show "eo_Delete (sim_ops spec) k name key = (k', Some ErrKeyNotExist) \<Longrightarrow> sim_view k name key = None"
    by (auto simp: sim_ops_def sim_Delete_def sim_view_def split: if_splits option.splits)
qed (auto simp: sim_ops_def sim_view_def dom_map_of_conv_image_fst split: option.splits)

end
