(* ===== verification/ForwardingResolver.thy ===== *)
theory ForwardingResolver
  imports SnapshotVerify
begin

section \<open>Resolving the forwarding data of a service\<close>

text \<open>
  \<^verbatim>\<open>internal/agent/forwarding_resolver.go\<close>: from the address of a service and the name of an
  output interface to the interface index, the source MAC and the MAC of the next hop.

  The netlink library and the passing of time are the parameter record \<open>netlink_client\<close> over
  an opaque state of the network: a call may change that state, so that two listings of the
  neighbours can differ. \<open>nc_CtxErr\<close> is \<^verbatim>\<open>ctx.Err() != nil\<close>; \<open>nc_Sleep\<close> waits for a timer or the
  end of a context; when the timer and the context are ready together \<open>nc_TimerFirst\<close> is the
  choice of the \<^verbatim>\<open>select\<close> statement. The wait loop takes fuel; \<open>wait_fuel\<close> is enough.
\<close>

subsection \<open>Data\<close>

record ServiceResolveRequest =
  req_ServiceID :: u32
  req_ForwardingPolicyID :: u32
  req_DstV4 :: string
  req_DstPort :: u16
  req_Proto :: u8
  req_Priority :: u32
  req_DefaultRuleID :: u32
  req_OutputInterface :: string
  req_DevmapKey :: u32

record ResolvedService =
  rs_Service :: PolicyService
  rs_OutputInterface :: string
  rs_NeighborTarget :: string
  rs_NeighborState :: string

datatype ip = IP4 u32 | IP6 "u8 list"

record LinkAttrs =
  la_Index :: int
  la_Up :: bool
  la_HardwareAddr :: "u8 list"

record Route =
  ro_LinkIndex :: int
  ro_Gw :: "ip option"

record Neigh =
  ne_IP :: "ip option"
  ne_State :: int
  ne_HardwareAddr :: "u8 list"

record 'n netlink_client =
  nc_LinkByName :: "'n \<Rightarrow> string \<Rightarrow> (string + LinkAttrs option) \<times> 'n"
  nc_RouteGet :: "'n \<Rightarrow> u32 \<Rightarrow> (string + Route list) \<times> 'n"
  nc_NeighList :: "'n \<Rightarrow> int \<Rightarrow> (string + Neigh list) \<times> 'n"
  nc_NeighSet :: "'n \<Rightarrow> int \<Rightarrow> u32 \<Rightarrow> string option \<times> 'n"
  nc_Now :: "'n \<Rightarrow> int"
  nc_CtxErr :: "'n \<Rightarrow> bool"
  nc_Sleep :: "'n \<Rightarrow> int \<Rightarrow> 'n"
  nc_TimerFirst :: "'n \<Rightarrow> bool"

record NetlinkForwardingResolver =
  nr_neighborProbeTimeout :: int
  nr_neighborProbeInterval :: int

datatype hw_error = HwLength nat | HwZero

datatype resolve_error =
  NilResolver | ResolveCancelled | ResolveAddress string | ResolveInterfaceRequired
| ResolveRequest service_error | LinkLookup string | LinkNoIfindex string | LinkIsDown string
| LinkMAC hw_error | RouteLookup string | NoRouteThrough int | NeighborLookup string
| NeighborMAC hw_error | NeighborProbe string | ProbeCancelled | NeighborUnresolved string
| WaitOutOfFuel

subsection \<open>Helpers\<close>

definition WithNeighborProbeTiming ::
    "int \<Rightarrow> int \<Rightarrow> NetlinkForwardingResolver \<Rightarrow> NetlinkForwardingResolver" where
  "WithNeighborProbeTiming timeout interval r = r\<lparr>
     nr_neighborProbeTimeout := (if timeout < 0 then 0 else timeout),
     nr_neighborProbeInterval := (if interval < 0 then 0 else interval)\<rparr>"

text \<open>Durations are in nanoseconds; a \<open>None\<close> in the option list is a nil option.\<close>

definition newNetlinkForwardingResolver ::
    "(NetlinkForwardingResolver \<Rightarrow> NetlinkForwardingResolver) option list \<Rightarrow> NetlinkForwardingResolver" where
  "newNetlinkForwardingResolver options =
     foldl (\<lambda>r opt. case opt of None \<Rightarrow> r | Some f \<Rightarrow> f r)
       \<lparr>nr_neighborProbeTimeout = 2000000000, nr_neighborProbeInterval = 100000000\<rparr> options"

definition validateResolveRequest :: "ServiceResolveRequest \<Rightarrow> service_error option" where
  "validateResolveRequest req =
     (if req_ServiceID req = 0 then Some ServiceIDZero
      else protoPortError (req_Proto req) (req_DstPort req))"

definition parseResolveV4 :: "string \<Rightarrow> u32 option" where
  "parseResolveV4 value = ParseAddr4 (TrimSpace value)"

fun selectOutputRoute :: "Route list \<Rightarrow> int \<Rightarrow> Route option" where
  "selectOutputRoute [] outputIfindex = None"
| "selectOutputRoute (route # routes) outputIfindex =
     (if ro_LinkIndex route = outputIfindex then Some route else selectOutputRoute routes outputIfindex)"

fun selectNeighbor :: "Neigh list \<Rightarrow> u32 \<Rightarrow> Neigh option" where
  "selectNeighbor [] target = None"
| "selectNeighbor (neighbor # neighs) target =
     (if ne_IP neighbor = Some (IP4 target) then Some neighbor else selectNeighbor neighs target)"

definition copyAndCompareMAC :: "u8 list \<Rightarrow> u8 list \<Rightarrow> bool" where
  "copyAndCompareMAC mac value = list_all (\<lambda>i. mac ! i = value ! i) [0..<6]"

definition validateHardwareAddr :: "u8 list \<Rightarrow> hw_error + u8 list" where
  "validateHardwareAddr mac =
     (if length mac \<noteq> 6 then Inl (HwLength (length mac))
      else if copyAndCompareMAC mac (replicate 6 0) then Inl HwZero
      else Inr mac)"

definition isResolvedNeighborState :: "int \<Rightarrow> bool" where
  "isResolvedNeighborState state \<longleftrightarrow> state = 2 \<or> state = 4 \<or> state = 8 \<or> state = 16 \<or> state = 128"

definition neighborStateName :: "int \<Rightarrow> string" where
  "neighborStateName state =
     (if state = 1 then ''incomplete'' else if state = 2 then ''reachable''
      else if state = 4 then ''stale'' else if state = 8 then ''delay''
      else if state = 16 then ''probe'' else if state = 32 then ''failed''
      else if state = 64 then ''noarp'' else if state = 128 then ''permanent''
      else ''unknown:'' @ dec_signed state)"

subsection \<open>Neighbour resolution\<close>

text \<open>\<open>Found\<close> is a resolved neighbour, \<open>NotYet\<close> carries the state name that was seen.\<close>

datatype neighbor_lookup = Found Neigh "u8 list" | NotYet string

definition lookupResolvedNeighbor ::
    "'n netlink_client \<Rightarrow> int \<Rightarrow> u32 \<Rightarrow> 'n \<Rightarrow> (resolve_error + neighbor_lookup) \<times> 'n" where
  "lookupResolvedNeighbor nc ifindex target n = (case nc_NeighList nc n ifindex of
     (Inl e, n') \<Rightarrow> (Inl (NeighborLookup e), n')
   | (Inr neighs, n') \<Rightarrow> ((case selectNeighbor neighs target of
       None \<Rightarrow> Inr (NotYet ''missing'')
     | Some neighbor \<Rightarrow>
         if \<not> isResolvedNeighborState (ne_State neighbor)
         then Inr (NotYet (neighborStateName (ne_State neighbor)))
         else (case validateHardwareAddr (ne_HardwareAddr neighbor) of
             Inl e \<Rightarrow> Inl (NeighborMAC e)
           | Inr dstMAC \<Rightarrow> Inr (Found neighbor dstMAC))), n'))"

definition probeNeighbor ::
    "'n netlink_client \<Rightarrow> int \<Rightarrow> u32 \<Rightarrow> 'n \<Rightarrow> resolve_error option \<times> 'n" where
  "probeNeighbor nc ifindex target n = (case nc_NeighSet nc n ifindex target of
     (e, n') \<Rightarrow> (map_option NeighborProbe e, n'))"

text \<open>\<open>neighborWaitError\<close> on a context that is cancelled or not; the state name appears if informative.\<close>

definition neighborWaitError :: "bool \<Rightarrow> string \<Rightarrow> resolve_error" where
  "neighborWaitError ctxErr lastState =
     (if ctxErr then ProbeCancelled
      else if lastState \<noteq> [] \<and> lastState \<noteq> ''missing'' then NeighborUnresolved lastState
      else NeighborUnresolved [])"

definition checkResolvedNeighborAfterProbe ::
    "'n netlink_client \<Rightarrow> int \<Rightarrow> u32 \<Rightarrow> 'n \<Rightarrow> (resolve_error + Neigh \<times> u8 list) \<times> 'n" where
  "checkResolvedNeighborAfterProbe nc ifindex target n =
     (if nc_CtxErr nc n then (Inl (neighborWaitError (nc_CtxErr nc n) []), n)
      else case lookupResolvedNeighbor nc ifindex target n of
        (Inl e, n') \<Rightarrow> (Inl e, n')
      | (Inr (Found neighbor dstMAC), n') \<Rightarrow> (Inr (neighbor, dstMAC), n')
      | (Inr (NotYet lastState), n') \<Rightarrow> (Inl (neighborWaitError False lastState), n'))"

text \<open>
  The loop of \<^verbatim>\<open>waitForResolvedNeighbor\<close>: \<open>deadline\<close> is the deadline of \<^verbatim>\<open>waitCtx\<close>, which ends at
  the deadline or when the parent context ends.
\<close>

fun wait_loop ::
    "'n netlink_client \<Rightarrow> int \<Rightarrow> int \<Rightarrow> int \<Rightarrow> u32 \<Rightarrow> nat \<Rightarrow> 'n \<Rightarrow>
     (resolve_error + Neigh \<times> u8 list) \<times> 'n" where
  "wait_loop nc interval deadline ifindex target 0 n = (Inl WaitOutOfFuel, n)"
| "wait_loop nc interval deadline ifindex target (Suc fuel) n =
     (if nc_CtxErr nc n \<or> deadline \<le> nc_Now nc n
      then (Inl (neighborWaitError (nc_CtxErr nc n) []), n)
      else case lookupResolvedNeighbor nc ifindex target n of
        (Inl e, n1) \<Rightarrow> (Inl e, n1)
      | (Inr (Found neighbor dstMAC), n1) \<Rightarrow> (Inr (neighbor, dstMAC), n1)
      | (Inr (NotYet lastState), n1) \<Rightarrow>
          (let start = nc_Now nc n1;
               n2 = nc_Sleep nc n1 (min interval (deadline - start));
               waitDone = (nc_CtxErr nc n2 \<or> deadline \<le> nc_Now nc n2);
               timerDone = (start + interval \<le> nc_Now nc n2)
           in if waitDone \<and> \<not> (timerDone \<and> nc_TimerFirst nc n2)
              then (Inl (neighborWaitError (nc_CtxErr nc n2) lastState), n2)
              else wait_loop nc interval deadline ifindex target fuel n2))"

definition wait_fuel :: "NetlinkForwardingResolver \<Rightarrow> nat" where
  "wait_fuel r = nat (nr_neighborProbeTimeout r div nr_neighborProbeInterval r) + 2"

definition waitForResolvedNeighbor ::
    "'n netlink_client \<Rightarrow> NetlinkForwardingResolver \<Rightarrow> int \<Rightarrow> u32 \<Rightarrow> 'n \<Rightarrow>
     (resolve_error + Neigh \<times> u8 list) \<times> 'n" where
  "waitForResolvedNeighbor nc r ifindex target n =
     (if nr_neighborProbeTimeout r \<le> 0 \<or> nr_neighborProbeInterval r \<le> 0
      then checkResolvedNeighborAfterProbe nc ifindex target n
      else wait_loop nc (nr_neighborProbeInterval r) (nc_Now nc n + nr_neighborProbeTimeout r)
             ifindex target (wait_fuel r) n)"

definition resolveNeighbor ::
    "'n netlink_client \<Rightarrow> NetlinkForwardingResolver \<Rightarrow> int \<Rightarrow> u32 \<Rightarrow> 'n \<Rightarrow>
     (resolve_error + Neigh \<times> u8 list) \<times> 'n" where
  "resolveNeighbor nc r ifindex target n =
     (case lookupResolvedNeighbor nc ifindex target n of
        (Inl e, n1) \<Rightarrow> (Inl e, n1)
      | (Inr (Found neighbor dstMAC), n1) \<Rightarrow> (Inr (neighbor, dstMAC), n1)
      | (Inr (NotYet _), n1) \<Rightarrow>
          if nc_CtxErr nc n1 then (Inl ProbeCancelled, n1)
          else (case probeNeighbor nc ifindex target n1 of
              (Some e, n2) \<Rightarrow> (Inl e, n2)
            | (None, n2) \<Rightarrow> waitForResolvedNeighbor nc r ifindex target n2))"

subsection \<open>ResolveService\<close>

text \<open>
  The part of \<^verbatim>\<open>ResolveService\<close> after the guards: route, next hop and the resolved service.
\<close>

definition resolve_via ::
    "'n netlink_client \<Rightarrow> NetlinkForwardingResolver \<Rightarrow> ServiceResolveRequest \<Rightarrow> u32 \<Rightarrow> LinkAttrs \<Rightarrow>
     u8 list \<Rightarrow> 'n \<Rightarrow> (resolve_error + ResolvedService) \<times> 'n" where
  "resolve_via nc r req dstIP attrs srcMAC n = (case nc_RouteGet nc n dstIP of
     (Inl e, n1) \<Rightarrow> (Inl (RouteLookup e), n1)
   | (Inr routes, n1) \<Rightarrow> (case selectOutputRoute routes (la_Index attrs) of
       None \<Rightarrow> (Inl (NoRouteThrough (la_Index attrs)), n1)
     | Some route \<Rightarrow>
         (let neighborIP = (case ro_Gw route of Some (IP4 gw) \<Rightarrow> gw | _ \<Rightarrow> dstIP)
          in case resolveNeighbor nc r (la_Index attrs) neighborIP n1 of
               (Inl e, n2) \<Rightarrow> (Inl e, n2)
             | (Inr (neighbor, dstMAC), n2) \<Rightarrow>
                 (Inr \<lparr>rs_Service = \<lparr>ps_ServiceID = req_ServiceID req,
                     ps_ForwardingPolicyID = req_ForwardingPolicyID req, ps_DstV4 = req_DstV4 req,
                     ps_DstPort = req_DstPort req, ps_Proto = req_Proto req,
                     ps_Action = actionRedirect, ps_Priority = req_Priority req,
                     ps_DefaultRuleID = req_DefaultRuleID req,
                     ps_OutputInterface = req_OutputInterface req,
                     ps_OutputIfindex = word_of_int (la_Index attrs),
                     ps_DevmapKey = req_DevmapKey req, ps_NeighborStatus = neighborResolved,
                     ps_DstMAC = MAC_String dstMAC, ps_SrcMAC = MAC_String srcMAC\<rparr>,
                   rs_OutputInterface = req_OutputInterface req,
                   rs_NeighborTarget = Addr_String neighborIP,
                   rs_NeighborState = neighborStateName (ne_State neighbor)\<rparr>, n2))))"

text \<open>A nil resolver or client is \<open>None\<close>.\<close>

definition ResolveService ::
    "('n netlink_client \<times> NetlinkForwardingResolver) option \<Rightarrow> ServiceResolveRequest \<Rightarrow> 'n \<Rightarrow>
     (resolve_error + ResolvedService) \<times> 'n" where
  "ResolveService res req n = (case res of
     None \<Rightarrow> (Inl NilResolver, n)
   | Some (nc, r) \<Rightarrow>
       if nc_CtxErr nc n then (Inl ResolveCancelled, n)
       else (case parseResolveV4 (req_DstV4 req) of
         None \<Rightarrow> (Inl (ResolveAddress (req_DstV4 req)), n)
       | Some dstIP \<Rightarrow>
           if TrimSpace (req_OutputInterface req) = [] then (Inl ResolveInterfaceRequired, n)
           else (case validateResolveRequest req of
             Some e \<Rightarrow> (Inl (ResolveRequest e), n)
           | None \<Rightarrow> (case nc_LinkByName nc n (req_OutputInterface req) of
               (Inl e, n1) \<Rightarrow> (Inl (LinkLookup e), n1)
             | (Inr None, n1) \<Rightarrow> (Inl (LinkNoIfindex (req_OutputInterface req)), n1)
             | (Inr (Some attrs), n1) \<Rightarrow>
                 if la_Index attrs = 0 then (Inl (LinkNoIfindex (req_OutputInterface req)), n1)
                 else if \<not> la_Up attrs then (Inl (LinkIsDown (req_OutputInterface req)), n1)
                 else (case validateHardwareAddr (la_HardwareAddr attrs) of
                     Inl e \<Rightarrow> (Inl (LinkMAC e), n1)
                   | Inr srcMAC \<Rightarrow> resolve_via nc r req dstIP attrs srcMAC n1)))))"

subsection \<open>Validated hardware addresses\<close>

lemma copyAndCompareMAC_iff: "length mac = 6 \<Longrightarrow> copyAndCompareMAC mac (replicate 6 0) \<longleftrightarrow> mac = replicate 6 0"
  by (auto simp: copyAndCompareMAC_def list_eq_iff_nth_eq list_all_iff)

lemma validateHardwareAddr_iff:
  "validateHardwareAddr mac = Inr out \<longleftrightarrow> out = mac \<and> length mac = 6 \<and> mac \<noteq> replicate 6 0"
  by (auto simp: validateHardwareAddr_def copyAndCompareMAC_iff)

lemma parsePolicyMAC_MAC_String:
  assumes "validateHardwareAddr mac = Inr out"
  shows "parsePolicyMAC (MAC_String out) = Inr out"
  using assms ParseMAC_MAC_String [of mac] by (auto simp: parsePolicyMAC_def validateHardwareAddr_iff)

lemma lookup_no_fuel_error: "fst (lookupResolvedNeighbor nc ifindex target n) \<noteq> Inl WaitOutOfFuel"
  by (auto simp: lookupResolvedNeighbor_def split: prod.split sum.split option.split)

lemma lookup_Found:
  assumes "lookupResolvedNeighbor nc ifindex target n = (Inr (Found neighbor dstMAC), n')"
  shows "validateHardwareAddr dstMAC = Inr dstMAC \<and> isResolvedNeighborState (ne_State neighbor)"
  using assms by (auto simp: lookupResolvedNeighbor_def validateHardwareAddr_iff
      split: prod.splits sum.splits option.splits if_splits)

lemma wait_loop_Found:
  assumes "wait_loop nc interval deadline ifindex target fuel n = (Inr (neighbor, dstMAC), n')"
  shows "validateHardwareAddr dstMAC = Inr dstMAC \<and> isResolvedNeighborState (ne_State neighbor)"
  using assms
proof (induction fuel arbitrary: n)
  case (Suc fuel)
  obtain res n1 where look: "lookupResolvedNeighbor nc ifindex target n = (res, n1)" by fastforce
  from Suc.prems look lookup_Found [of nc ifindex target n neighbor dstMAC n1] Suc.IH show ?case
    by (auto simp: Let_def split: if_splits sum.splits neighbor_lookup.splits)
qed simp

lemma resolveNeighbor_Found:
  assumes "resolveNeighbor nc r ifindex target n = (Inr (neighbor, dstMAC), n')"
  shows "validateHardwareAddr dstMAC = Inr dstMAC \<and> isResolvedNeighborState (ne_State neighbor)"
  using assms
  by (auto simp: resolveNeighbor_def waitForResolvedNeighbor_def checkResolvedNeighborAfterProbe_def
      split: prod.splits sum.splits neighbor_lookup.splits if_splits option.splits
      dest: lookup_Found wait_loop_Found)

subsection \<open>The netlink interface\<close>

text \<open>
  What the resolver relies on: interface indices are non-negative 32-bit values, listing
  neighbours does not turn the clock back, and a sleep that is not cut short by the end of the
  context lasts at least as long as asked.
\<close>

locale netlink_contract =
  fixes nc :: "'n netlink_client"
  assumes link_index: "nc_LinkByName nc n name = (Inr (Some attrs), n') \<Longrightarrow>
      0 \<le> la_Index attrs \<and> la_Index attrs < 2 ^ 32"
    and neigh_clock: "nc_Now nc n \<le> nc_Now nc (snd (nc_NeighList nc n ifindex))"
    and sleep_clock: "\<not> nc_CtxErr nc (nc_Sleep nc n d) \<Longrightarrow> nc_Now nc n + d \<le> nc_Now nc (nc_Sleep nc n d)"
begin

lemma lookup_clock: "nc_Now nc n \<le> nc_Now nc (snd (lookupResolvedNeighbor nc ifindex target n))"
  using neigh_clock [of n ifindex]
  by (auto simp: lookupResolvedNeighbor_def split: prod.split sum.split)

text \<open>The wait loop ends within one round per interval and two more.\<close>

lemma wait_loop_ends:
  assumes "0 < interval" and "0 < fuel"
    and "nc_Now nc n < deadline \<longrightarrow> nat ((deadline - nc_Now nc n) div interval) + 2 \<le> fuel"
  shows "fst (wait_loop nc interval deadline ifindex target fuel n) \<noteq> Inl WaitOutOfFuel"
  using assms(2,3)
proof (induction fuel arbitrary: n)
  case (Suc fuel)
  obtain res n1 where look: "lookupResolvedNeighbor nc ifindex target n = (res, n1)" by fastforce
  have n1: "nc_Now nc n \<le> nc_Now nc n1" using lookup_clock [of n ifindex target] look by simp
  let ?n2 = "nc_Sleep nc n1 (min interval (deadline - nc_Now nc n1))"
  have again: "fst (wait_loop nc interval deadline ifindex target fuel ?n2) \<noteq> Inl WaitOutOfFuel"
    if live: "nc_Now nc n < deadline" and timer: "deadline \<le> nc_Now nc ?n2 \<or> nc_Now nc n1 + interval \<le> nc_Now nc ?n2"
  proof (rule Suc.IH)
    from Suc.prems(2) live have "2 \<le> Suc fuel" by auto
    then show "0 < fuel" by simp
    show "nc_Now nc ?n2 < deadline \<longrightarrow> nat ((deadline - nc_Now nc ?n2) div interval) + 2 \<le> fuel"
    proof
      assume later: "nc_Now nc ?n2 < deadline"
      then have le: "deadline - nc_Now nc ?n2 \<le> deadline - nc_Now nc n - interval"
        using timer n1 by linarith
      have "(deadline - nc_Now nc n - interval) div interval = (deadline - nc_Now nc n) div interval - 1"
        using assms(1) div_mult_self1 [of interval "deadline - nc_Now nc n" "- 1"] by simp
      then have "(deadline - nc_Now nc ?n2) div interval \<le> (deadline - nc_Now nc n) div interval - 1"
        using zdiv_mono1 [OF le assms(1)] by simp
      moreover have "0 \<le> (deadline - nc_Now nc ?n2) div interval"
        using later assms(1) by (simp add: pos_imp_zdiv_nonneg_iff)
      ultimately show "nat ((deadline - nc_Now nc ?n2) div interval) + 2 \<le> fuel"
        using Suc.prems(2) live by simp
    qed
  qed
  show ?case
    using again sleep_clock [of n1 "min interval (deadline - nc_Now nc n1)"] look
      lookup_no_fuel_error [of nc ifindex target n]
    by (auto simp: Let_def neighborWaitError_def split: sum.split neighbor_lookup.split)
qed simp

lemma wait_ends: "fst (waitForResolvedNeighbor nc r ifindex target n) \<noteq> Inl WaitOutOfFuel"
proof -
  have "fst (wait_loop nc (nr_neighborProbeInterval r) (nc_Now nc n + nr_neighborProbeTimeout r)
      ifindex target (wait_fuel r) n) \<noteq> Inl WaitOutOfFuel"
    if "0 < nr_neighborProbeInterval r"
    by (rule wait_loop_ends [OF that]) (simp_all add: wait_fuel_def)
  then show ?thesis
    using lookup_no_fuel_error [of nc ifindex target n]
    by (auto simp: waitForResolvedNeighbor_def checkResolvedNeighborAfterProbe_def neighborWaitError_def
        split: prod.split sum.split neighbor_lookup.split)
qed

lemma resolve_neighbor_ends: "fst (resolveNeighbor nc r ifindex target n) \<noteq> Inl WaitOutOfFuel"
  using lookup_no_fuel_error [of nc ifindex target n] wait_ends
  by (auto simp: resolveNeighbor_def probeNeighbor_def
      split: prod.split sum.split neighbor_lookup.split option.split)

lemma resolve_via_service:
  assumes "resolve_via nc r req dstIP attrs srcMAC n = (Inr res, n')"
    and "validateHardwareAddr srcMAC = Inr srcMAC" and "0 < la_Index attrs" and "la_Index attrs < 2 ^ 32"
    and "parseResolveV4 (req_DstV4 req) = Some dstIP" and "validateResolveRequest req = None"
  shows "\<exists>v. serviceMapEntry (rs_Service res) =
    Inr (\<lparr>sk_DstV4 = LittleEndian_Uint32 (As4 dstIP), sk_DstPort = req_DstPort req,
      sk_Proto = req_Proto req, sk_Pad = 0\<rparr>, v) \<and> sv_OutputIfindex v = word_of_int (la_Index attrs)"
proof -
  from assms(1) obtain neighbor dstMAC target n1 where
      found: "resolveNeighbor nc r (la_Index attrs) target n1 = (Inr (neighbor, dstMAC), n')"
      and res: "ps_DstV4 (rs_Service res) = req_DstV4 req" "ps_ServiceID (rs_Service res) = req_ServiceID req"
        "ps_Action (rs_Service res) = actionRedirect" "ps_Proto (rs_Service res) = req_Proto req"
        "ps_DstPort (rs_Service res) = req_DstPort req" "ps_NeighborStatus (rs_Service res) = neighborResolved"
        "ps_OutputIfindex (rs_Service res) = word_of_int (la_Index attrs)"
        "ps_DstMAC (rs_Service res) = MAC_String dstMAC" "ps_SrcMAC (rs_Service res) = MAC_String srcMAC"
    by (auto simp: resolve_via_def Let_def split: prod.splits sum.splits option.splits)
  have "parsePolicyMAC (MAC_String dstMAC) = Inr dstMAC"
    using resolveNeighbor_Found [OF found] parsePolicyMAC_MAC_String by blast
  moreover have "(word_of_int (la_Index attrs) :: u32) \<noteq> 0"
  proof
    assume "(word_of_int (la_Index attrs) :: u32) = 0"
    then have "uint (word_of_int (la_Index attrs) :: u32) = 0" by simp
    then show False using assms(3,4) by (simp add: uint_word_of_int)
  qed
  ultimately show ?thesis
    using assms(5,6) res parsePolicyMAC_MAC_String [OF assms(2)]
    by (auto simp: serviceMapEntry_def serviceMapKey_def parseV4Addr_def parseResolveV4_def
        validateResolveRequest_def split: if_splits)
qed

lemma resolved_service:
  assumes "ResolveService (Some (nc, r)) req n = (Inr res, n')"
  shows "is_ok (serviceMapEntry (rs_Service res)) \<and> \<not> serviceNeedsResolution (rs_Service res) \<and>
    ps_ServiceID (rs_Service res) = req_ServiceID req \<and> ps_DevmapKey (rs_Service res) = req_DevmapKey req \<and>
    ps_DstV4 (rs_Service res) = req_DstV4 req"
proof -
  from assms obtain dstIP attrs srcMAC n1 where
      via: "resolve_via nc r req dstIP attrs srcMAC n1 = (Inr res, n')"
      and "validateHardwareAddr srcMAC = Inr srcMAC" and "la_Index attrs \<noteq> 0"
      and "nc_LinkByName nc n (req_OutputInterface req) = (Inr (Some attrs), n1)"
      and "parseResolveV4 (req_DstV4 req) = Some dstIP" "validateResolveRequest req = None"
    by (auto simp: ResolveService_def validateHardwareAddr_iff split: if_splits option.splits prod.splits sum.splits)
  then have "is_ok (serviceMapEntry (rs_Service res))"
    using resolve_via_service [OF via] link_index by (fastforce simp: is_ok_iff)
  moreover have "ps_ServiceID (rs_Service res) = req_ServiceID req \<and>
      ps_DevmapKey (rs_Service res) = req_DevmapKey req \<and> ps_DstV4 (rs_Service res) = req_DstV4 req"
    using via by (auto simp: resolve_via_def Let_def split: prod.splits sum.splits option.splits)
  ultimately show ?thesis using needs_resolution_no_entry by blast
qed

end

text \<open>
  C11. Waiting for a neighbour ends: whatever the network answers, the wait loop returns a
  neighbour or an error before its fuel is used up, so neighbour resolution always returns.
\<close>

theorem neighbor_wait_ends:
  assumes "netlink_contract nc"
  shows "fst (resolveNeighbor nc r ifindex target n) \<noteq> Inl WaitOutOfFuel"
  by (rule netlink_contract.resolve_neighbor_ends [OF assms])

text \<open>
  C10. A resolved service can be installed: when resolution succeeds the service has complete
  forwarding data and a valid entry for the service map, for the service id, the destination and
  the devmap key that were asked for.
\<close>

theorem resolved_service_installs:
  assumes "netlink_contract nc" and "ResolveService (Some (nc, r)) req n = (Inr res, n')"
  shows "is_ok (serviceMapEntry (rs_Service res)) \<and> \<not> serviceNeedsResolution (rs_Service res) \<and>
    ps_ServiceID (rs_Service res) = req_ServiceID req \<and> ps_DevmapKey (rs_Service res) = req_DevmapKey req \<and>
    ps_DstV4 (rs_Service res) = req_DstV4 req"
  by (rule netlink_contract.resolved_service [OF assms])

subsection \<open>A network with a clock\<close>

text \<open>
  Links and routes are tables, every neighbour entry has the time it appears at, the context may
  end at a given time, and a sleep moves the clock.
\<close>

record sim_net =
  sn_links :: "(string \<times> LinkAttrs) list"
  sn_routes :: "Route list"
  sn_neighs :: "(int \<times> Neigh) list"
  sn_now :: int
  sn_cancel_at :: "int option"

definition sim_client :: "sim_net netlink_client" where
  "sim_client = \<lparr>
     nc_LinkByName = (\<lambda>n name. (case map_of (sn_links n) name of
        None \<Rightarrow> Inl ''Link not found''
      | Some attrs \<Rightarrow> if 0 \<le> la_Index attrs \<and> la_Index attrs < 2 ^ 32 then Inr (Some attrs)
          else Inl ''invalid index'', n)),
     nc_RouteGet = (\<lambda>n _. (Inr (sn_routes n), n)),
     nc_NeighList = (\<lambda>n _. (Inr (map snd (filter (\<lambda>p. fst p \<le> sn_now n) (sn_neighs n))), n)),
     nc_NeighSet = (\<lambda>n _ _. (None, n)),
     nc_Now = sn_now,
     nc_CtxErr = (\<lambda>n. case sn_cancel_at n of None \<Rightarrow> False | Some t \<Rightarrow> t \<le> sn_now n),
     nc_Sleep = (\<lambda>n d. n\<lparr>sn_now := sn_now n + d\<rparr>),
     nc_TimerFirst = (\<lambda>_. False)\<rparr>"

interpretation sim_net: netlink_contract sim_client
  by unfold_locales (auto simp: sim_client_def split: option.splits if_splits)

definition sample_net :: sim_net where
  "sample_net = \<lparr>sn_links = [(''eth1'', \<lparr>la_Index = 5, la_Up = True, la_HardwareAddr = [2, 0, 0, 0, 0, 2]\<rparr>)],
     sn_routes = [\<lparr>ro_LinkIndex = 5, ro_Gw = None\<rparr>],
     sn_neighs = [(150000000, \<lparr>ne_IP = Some (IP4 3405803786), ne_State = 2,
       ne_HardwareAddr = [2, 0, 0, 0, 0, 1]\<rparr>)],
     sn_now = 0, sn_cancel_at = None\<rparr>"

definition sample_request :: ServiceResolveRequest where
  "sample_request = \<lparr>req_ServiceID = 7, req_ForwardingPolicyID = 70, req_DstV4 = ''203.0.113.10'',
     req_DstPort = 443, req_Proto = l4TCP, req_Priority = 1, req_DefaultRuleID = 3,
     req_OutputInterface = ''eth1'', req_DevmapKey = 7\<rparr>"

abbreviation "default_resolver \<equiv> newNetlinkForwardingResolver []"

text \<open>The neighbour appears after the probe: the second round of the wait loop finds it.\<close>

lemma sample_resolution:
  "ResolveService (Some (sim_client, default_resolver)) sample_request sample_net =
     (Inr \<lparr>rs_Service = sample_service, rs_OutputInterface = ''eth1'', rs_NeighborTarget = ''203.0.113.10'',
        rs_NeighborState = ''reachable''\<rparr>, sample_net\<lparr>sn_now := 200000000\<rparr>)"
  by code_simp

theorem neighbor_wait_ends_witness:
  "fst (resolveNeighbor sim_client default_resolver 5 1 sample_net) \<noteq> Inl WaitOutOfFuel"
  by (rule neighbor_wait_ends [OF sim_net.netlink_contract_axioms])

theorem resolved_service_installs_witness:
  "is_ok (serviceMapEntry sample_service) \<and> \<not> serviceNeedsResolution sample_service"
  using resolved_service_installs [OF sim_net.netlink_contract_axioms sample_resolution] by simp

end
