(* ===== verification/PolicyApply.thy ===== *)
theory PolicyApply
  imports LastValid EbpfKernel ForwardingResolver
begin

section \<open>Applying a policy snapshot\<close>

text \<open>
  \<^verbatim>\<open>internal/agent/policy_apply.go\<close>: the double-buffered installation of a policy. The eight
  policy maps exist twice, for slot 0 and slot 1; \<open>runtime_config\<close> names the active slot. A
  snapshot is verified, resolved, signed and verified again; the inactive slot is cleared and
  filled, the transmit devmap is extended, and one write of \<open>runtime_config\<close> flips the slots.
  Then the last-valid file is saved; when that fails the flip and the devmap are undone.

  The kernel, the resolver and the JSON codec are parameters (\<open>apply_env\<close>); the agent's own state
  is the record \<open>agent\<close>.
\<close>

subsection \<open>Data\<close>

datatype map_error =
  MapNotLoaded | MapIO ebpf_error | EntryKey key_error | EntryService service_error
| DevmapTargetConflict u32 u32 u32 | DevmapRetarget u32 u32 u32

datatype apply_error =
  NilRuntime | RuntimeConfigNotLoaded | RuntimeConfigLookup ebpf_error | InvalidActiveSlot u32
| VerifyFailed "policy_error list" | NoResolver u32 | ResolveFailed u32 resolve_error
| ClearFailed string map_error | InstallFailed map_error | FlipFailed ebpf_error
| PersistFailed lv_error

record PolicyApplyOptions =
  ao_SnapshotPath :: string
  ao_ObjectChecksum :: string
  ao_Now :: "int option"
  ao_CapacityOverrides :: "string \<rightharpoonup> u32"
  ao_MemoryBudgetBytes :: u64
  ao_Metrics :: bool

record PolicyDevmapStats =
  ds_Touched :: u32
  ds_Updated :: u32
  ds_RolledBack :: u32

record PolicyApplyResult =
  par_Version :: u32
  par_PreviousVersion :: u32
  par_Status :: string
  par_ActiveSlot :: u32
  par_MapStats :: "(string \<times> PolicyMapStat) list"
  par_DevmapStats :: PolicyDevmapStats
  par_ErrorStage :: string
  par_ErrorReason :: "apply_error option"

definition policyApplyStatusApplied :: string where "policyApplyStatusApplied = ''applied''"
definition policyApplyStatusFailed :: string where "policyApplyStatusFailed = ''failed''"

type_synonym 'n service_resolver = "ServiceResolveRequest \<Rightarrow> 'n \<Rightarrow> (resolve_error + ResolvedService) \<times> 'n"

record ('k, 'n) apply_env =
  env_ops :: "'k ebpf_ops"
  env_codec :: json_codec
  env_resolver :: "'n service_resolver option"
  env_clock :: int

record ('k, 'n) agent =
  ag_kernel :: 'k
  ag_net :: 'n
  ag_fs :: FileSystem
  ag_ObjectChecksum :: string
  ag_Snapshot :: LastValidSnapshot
  ag_snapshotVersion :: u32

subsection \<open>Map access\<close>

definition policySlotMap :: "string \<Rightarrow> u32 \<Rightarrow> string" where
  "policySlotMap logical slot = logical @ ''_'' @ (if slot = 1 then ''b'' else ''a'')"

definition readRuntimeConfig :: "'k ebpf_ops \<Rightarrow> 'k \<Rightarrow> apply_error + RuntimeConfigValue" where
  "readRuntimeConfig ops k =
     (if \<not> eo_Loaded ops ''runtime_config'' then Inl RuntimeConfigNotLoaded
      else case eo_Lookup ops k ''runtime_config'' (KU32 0) of
        Inl e \<Rightarrow> Inl (RuntimeConfigLookup e)
      | Inr (VRuntime cfg) \<Rightarrow> Inr cfg
      | Inr _ \<Rightarrow> Inl (RuntimeConfigLookup ErrNotSupported))"

definition lift_io :: "'k \<times> ebpf_error option \<Rightarrow> 'k \<times> map_error option" where
  "lift_io r = (fst r, map_option MapIO (snd r))"

text \<open>
  The five functions that empty a map by iteration differ in the Go types of key and value only:
  they collect the keys first and delete them afterwards.
\<close>

definition clear_by_iteration :: "'k ebpf_ops \<Rightarrow> string \<Rightarrow> 'k \<Rightarrow> 'k \<times> map_error option" where
  "clear_by_iteration ops name k =
     (if \<not> eo_Loaded ops name then (k, Some MapNotLoaded)
      else case eo_Iterate ops k name of
        (keys, Some e) \<Rightarrow> (k, Some (MapIO e))
      | (keys, None) \<Rightarrow> lift_io (delete_keys ops name keys k))"

definition clearCIDRPolicyMap :: "'k ebpf_ops \<Rightarrow> string \<Rightarrow> 'k \<Rightarrow> 'k \<times> map_error option" where
  "clearCIDRPolicyMap = clear_by_iteration"

definition clearServiceCIDRPolicyMap :: "'k ebpf_ops \<Rightarrow> string \<Rightarrow> 'k \<Rightarrow> 'k \<times> map_error option" where
  "clearServiceCIDRPolicyMap = clear_by_iteration"

definition clearServicePolicyMap :: "'k ebpf_ops \<Rightarrow> string \<Rightarrow> 'k \<Rightarrow> 'k \<times> map_error option" where
  "clearServicePolicyMap = clear_by_iteration"

definition clearUDPSourcePortBlockMap :: "'k ebpf_ops \<Rightarrow> string \<Rightarrow> 'k \<Rightarrow> 'k \<times> map_error option" where
  "clearUDPSourcePortBlockMap = clear_by_iteration"

definition clearUDPSourcePortServiceBlockMap :: "'k ebpf_ops \<Rightarrow> string \<Rightarrow> 'k \<Rightarrow> 'k \<times> map_error option" where
  "clearUDPSourcePortServiceBlockMap = clear_by_iteration"

definition zero_rule :: RuleValue where
  "zero_rule = \<lparr>rv_RuleID = 0, rv_Priority = 0, rv_Action = 0, rv_Mode = 0, rv_ServiceID = 0,
     rv_Dimension = 0, rv_ThresholdPPS = 0, rv_ThresholdBPS = 0, rv_ThresholdCPS = 0,
     rv_BurstPackets = 0, rv_BurstBytes = 0, rv_SampleDenom = 0, rv_Pad = 0, rv_TailPad = 0,
     rv_ExpiresAtUnixNS = 0\<rparr>"

definition clearRulePolicyMap :: "'k ebpf_ops \<Rightarrow> string \<Rightarrow> 'k \<Rightarrow> 'k \<times> map_error option" where
  "clearRulePolicyMap ops name k =
     (if \<not> eo_Loaded ops name then (k, Some MapNotLoaded)
      else lift_io (update_all ops
        (map (\<lambda>i. (name, KU32 (of_nat i), VRule zero_rule)) [0..<unat (eo_MaxEntries ops name)]) k))"

definition clear_stage ::
    "string \<Rightarrow> u32 \<Rightarrow> (string \<Rightarrow> 'k \<Rightarrow> 'k \<times> map_error option) \<Rightarrow> 'k \<Rightarrow> 'k \<times> apply_error option" where
  "clear_stage logical slot f k = (case f (policySlotMap logical slot) k of
     (k', e) \<Rightarrow> (k', map_option (ClearFailed logical) e))"

definition clearInactivePolicySlot :: "'k ebpf_ops \<Rightarrow> u32 \<Rightarrow> 'k \<Rightarrow> 'k \<times> apply_error option" where
  "clearInactivePolicySlot ops slot k0 =
     bind_err (clear_stage ''whitelist_v4'' slot (clearCIDRPolicyMap ops) k0) (\<lambda>k.
     bind_err (clear_stage ''whitelist_service_v4'' slot (clearServiceCIDRPolicyMap ops) k) (\<lambda>k.
     bind_err (clear_stage ''blacklist_v4'' slot (clearCIDRPolicyMap ops) k) (\<lambda>k.
     bind_err (clear_stage ''blacklist_service_v4'' slot (clearServiceCIDRPolicyMap ops) k) (\<lambda>k.
     bind_err (clear_stage ''udp_src_port_blocks'' slot (clearUDPSourcePortBlockMap ops) k) (\<lambda>k.
     bind_err (clear_stage ''udp_src_port_service_blocks'' slot (clearUDPSourcePortServiceBlockMap ops) k) (\<lambda>k.
     bind_err (clear_stage ''service_allowlist'' slot (clearServicePolicyMap ops) k) (\<lambda>k.
     clear_stage ''rule_config'' slot (clearRulePolicyMap ops) k)))))))"

subsection \<open>Filling the inactive slot\<close>

text \<open>One write, and the rest of a loop if it succeeds.\<close>

abbreviation write_then ::
    "'k ebpf_ops \<Rightarrow> string \<Rightarrow> map_key \<Rightarrow> map_val \<Rightarrow> 'k \<Rightarrow> ('k \<Rightarrow> 'k \<times> map_error option) \<Rightarrow>
     'k \<times> map_error option" where
  "write_then ops name key v k rest \<equiv> bind_err (lift_io (eo_Update ops k name key v)) rest"

fun populate_cidr_entries ::
    "'k ebpf_ops \<Rightarrow> string \<Rightarrow> string \<Rightarrow> PolicyCIDREntry list \<Rightarrow> 'k \<Rightarrow> 'k \<times> map_error option" where
  "populate_cidr_entries ops globalMap serviceMap [] k = (k, None)"
| "populate_cidr_entries ops globalMap serviceMap (entry # entries) k =
     (if ce_Scope entry = policyScopeService then
        (case serviceCIDRPolicyKey entry of
           Inl e \<Rightarrow> (k, Some (EntryKey e))
         | Inr key \<Rightarrow> write_then ops serviceMap (KServiceLPM key) (VCIDR (cidrPolicyValue entry)) k
             (populate_cidr_entries ops globalMap serviceMap entries))
      else
        (case cidrPolicyKey entry of
           Inl e \<Rightarrow> (k, Some (EntryKey e))
         | Inr key \<Rightarrow> write_then ops globalMap (KLPM key) (VCIDR (cidrPolicyValue entry)) k
             (populate_cidr_entries ops globalMap serviceMap entries)))"

definition populateWhitelistMaps ::
    "'k ebpf_ops \<Rightarrow> string \<Rightarrow> string \<Rightarrow> PolicyCIDREntry list \<Rightarrow> 'k \<Rightarrow> 'k \<times> map_error option" where
  "populateWhitelistMaps ops globalMap serviceMap entries k =
     (if \<not> eo_Loaded ops globalMap then (k, Some MapNotLoaded)
      else if \<not> eo_Loaded ops serviceMap then (k, Some MapNotLoaded)
      else populate_cidr_entries ops globalMap serviceMap entries k)"

definition populateBlacklistMaps ::
    "'k ebpf_ops \<Rightarrow> string \<Rightarrow> string \<Rightarrow> PolicyCIDREntry list \<Rightarrow> 'k \<Rightarrow> 'k \<times> map_error option" where
  "populateBlacklistMaps ops globalMap serviceMap entries k =
     (if \<not> eo_Loaded ops globalMap then (k, Some MapNotLoaded)
      else if \<not> eo_Loaded ops serviceMap then (k, Some MapNotLoaded)
      else populate_cidr_entries ops globalMap serviceMap entries k)"

fun populate_udp_entries ::
    "'k ebpf_ops \<Rightarrow> string \<Rightarrow> string \<Rightarrow> PolicyUDPSourcePortBlock list \<Rightarrow> 'k \<Rightarrow> 'k \<times> map_error option" where
  "populate_udp_entries ops globalMap serviceMap [] k = (k, None)"
| "populate_udp_entries ops globalMap serviceMap (entry # entries) k =
     (if ub_Scope entry = policyScopeService then
        (case udpSourcePortServiceBlockMapEntry entry of (key, value) \<Rightarrow>
           write_then ops serviceMap (KServiceUDP key) (VUDP value) k
             (populate_udp_entries ops globalMap serviceMap entries))
      else
        (case udpSourcePortBlockMapEntry entry of (key, value) \<Rightarrow>
           write_then ops globalMap (KU32 key) (VUDP value) k
             (populate_udp_entries ops globalMap serviceMap entries)))"

definition populateUDPSourcePortBlockMaps ::
    "'k ebpf_ops \<Rightarrow> string \<Rightarrow> string \<Rightarrow> PolicyUDPSourcePortBlock list \<Rightarrow> 'k \<Rightarrow> 'k \<times> map_error option" where
  "populateUDPSourcePortBlockMaps ops globalMap serviceMap entries k =
     (if \<not> eo_Loaded ops globalMap then (k, Some MapNotLoaded)
      else if \<not> eo_Loaded ops serviceMap then (k, Some MapNotLoaded)
      else populate_udp_entries ops globalMap serviceMap entries k)"

fun populate_services :: "'k ebpf_ops \<Rightarrow> string \<Rightarrow> PolicyService list \<Rightarrow> 'k \<Rightarrow> 'k \<times> map_error option" where
  "populate_services ops name [] k = (k, None)"
| "populate_services ops name (service # services) k = (case serviceMapEntry service of
     Inl e \<Rightarrow> (k, Some (EntryService e))
   | Inr (key, value) \<Rightarrow> write_then ops name (KService key) (VService value) k
       (populate_services ops name services))"

definition populateServiceMap ::
    "'k ebpf_ops \<Rightarrow> string \<Rightarrow> PolicyService list \<Rightarrow> 'k \<Rightarrow> 'k \<times> map_error option" where
  "populateServiceMap ops name services k =
     (if \<not> eo_Loaded ops name then (k, Some MapNotLoaded) else populate_services ops name services k)"

fun populate_rules :: "'k ebpf_ops \<Rightarrow> string \<Rightarrow> PolicyRule list \<Rightarrow> 'k \<Rightarrow> 'k \<times> map_error option" where
  "populate_rules ops name [] k = (k, None)"
| "populate_rules ops name (rule # rules) k = (case ruleMapEntry rule of (key, value) \<Rightarrow>
     write_then ops name (KU32 key) (VRule value) k (populate_rules ops name rules))"

definition populateRuleMap :: "'k ebpf_ops \<Rightarrow> string \<Rightarrow> PolicyRule list \<Rightarrow> 'k \<Rightarrow> 'k \<times> map_error option" where
  "populateRuleMap ops name rules k =
     (if \<not> eo_Loaded ops name then (k, Some MapNotLoaded) else populate_rules ops name rules k)"

subsection \<open>The transmit devmap\<close>

text \<open>The targets: devmap key to interface index, in order of first use.\<close>

fun devmap_targets :: "PolicyService list \<Rightarrow> (u32 \<times> u32) list \<Rightarrow> map_error + (u32 \<times> u32) list" where
  "devmap_targets [] targets = Inr targets"
| "devmap_targets (service # services) targets =
     (case map_of targets (ps_DevmapKey service) of
        Some existing \<Rightarrow>
          if existing \<noteq> ps_OutputIfindex service
          then Inl (DevmapTargetConflict (ps_DevmapKey service) existing (ps_OutputIfindex service))
          else devmap_targets services (upd (ps_DevmapKey service) (ps_OutputIfindex service) targets)
      | None \<Rightarrow> devmap_targets services (upd (ps_DevmapKey service) (ps_OutputIfindex service) targets))"

text \<open>
  The closure \<^verbatim>\<open>rollback\<close> as data: the keys updated so far with their backups, last one first.
  It returns the number of keys rolled back.
\<close>

fun run_rollback :: "'k ebpf_ops \<Rightarrow> (u32 \<times> u32 option) list \<Rightarrow> 'k \<Rightarrow> 'k \<times> u32" where
  "run_rollback ops [] k = (k, 0)"
| "run_rollback ops ((key, backup) # rest) k =
     (let (k', e) = (case backup of
            Some value \<Rightarrow> eo_Update ops k ''tx_devmap'' (KU32 key) (VU32 value)
          | None \<Rightarrow> eo_Delete ops k ''tx_devmap'' (KU32 key));
          (k'', n) = run_rollback ops rest k'
      in (k'', if e = None \<or> e = Some ErrKeyNotExist then n + 1 else n))"

text \<open>The loop over the sorted keys: state, statistics, updated keys (latest first), error.\<close>

fun devmap_loop ::
    "'k ebpf_ops \<Rightarrow> (u32 \<times> u32) list \<Rightarrow> PolicyDevmapStats \<Rightarrow> (u32 \<times> u32 option) list \<Rightarrow> 'k \<Rightarrow>
     'k \<times> PolicyDevmapStats \<times> (u32 \<times> u32 option) list \<times> map_error option" where
  "devmap_loop ops [] stats updated k = (k, stats, updated, None)"
| "devmap_loop ops ((key, desired) # rest) stats0 updated k =
     (let stats = stats0\<lparr>ds_Touched := ds_Touched stats0 + 1\<rparr>;
          continue = (\<lambda>backup. case eo_Update ops k ''tx_devmap'' (KU32 key) (VU32 desired) of
              (k', Some e) \<Rightarrow> (k', stats, updated, Some (MapIO e))
            | (k', None) \<Rightarrow> devmap_loop ops rest (stats\<lparr>ds_Updated := ds_Updated stats + 1\<rparr>)
                ((key, backup) # updated) k')
      in case eo_Lookup ops k ''tx_devmap'' (KU32 key) of
           Inr (VU32 existing) \<Rightarrow>
             if existing \<noteq> desired then (k, stats, updated, Some (DevmapRetarget key existing desired))
             else continue (Some existing)
         | Inr _ \<Rightarrow> (k, stats, updated, Some (MapIO ErrNotSupported))
         | Inl e \<Rightarrow> if e = ErrKeyNotExist then continue None
                    else (k, stats, updated, Some (MapIO e)))"

definition zero_devmap_stats :: PolicyDevmapStats where
  "zero_devmap_stats = \<lparr>ds_Touched = 0, ds_Updated = 0, ds_RolledBack = 0\<rparr>"

text \<open>The rollback is \<open>None\<close> where the source returns a nil function.\<close>

definition updateDevmapTargets ::
    "'k ebpf_ops \<Rightarrow> PolicyService list \<Rightarrow> 'k \<Rightarrow>
     'k \<times> PolicyDevmapStats \<times> (u32 \<times> u32 option) list option \<times> map_error option" where
  "updateDevmapTargets ops services k = (case devmap_targets services [] of
     Inl e \<Rightarrow> (k, zero_devmap_stats, None, Some e)
   | Inr targets \<Rightarrow>
       if targets = [] then (k, zero_devmap_stats, Some [], None)
       else if \<not> eo_Loaded ops ''tx_devmap'' then (k, zero_devmap_stats, None, Some MapNotLoaded)
       else (case devmap_loop ops (sort_slice (\<lambda>a b. fst a < fst b) targets) zero_devmap_stats [] k of
         (k', stats, updated, e) \<Rightarrow> (k', stats, Some updated, e)))"

subsection \<open>Resolving the services\<close>

definition resolve_request :: "PolicyService \<Rightarrow> ServiceResolveRequest" where
  "resolve_request service =
     \<lparr>req_ServiceID = ps_ServiceID service, req_ForwardingPolicyID = ps_ForwardingPolicyID service,
      req_DstV4 = ps_DstV4 service, req_DstPort = ps_DstPort service, req_Proto = ps_Proto service,
      req_Priority = ps_Priority service, req_DefaultRuleID = ps_DefaultRuleID service,
      req_OutputInterface = ps_OutputInterface service, req_DevmapKey = ps_DevmapKey service\<rparr>"

fun resolve_services ::
    "'n service_resolver option \<Rightarrow> PolicyService list \<Rightarrow> 'n \<Rightarrow> (apply_error + PolicyService list) \<times> 'n" where
  "resolve_services resolver [] n = (Inr [], n)"
| "resolve_services resolver (service # services) n =
     (if \<not> serviceNeedsResolution service then
        (case resolve_services resolver services n of
           (Inl e, n') \<Rightarrow> (Inl e, n') | (Inr out, n') \<Rightarrow> (Inr (service # out), n'))
      else case resolver of
        None \<Rightarrow> (Inl (NoResolver (ps_ServiceID service)), n)
      | Some resolve \<Rightarrow> (case resolve (resolve_request service) n of
          (Inl e, n1) \<Rightarrow> (Inl (ResolveFailed (ps_ServiceID service) e), n1)
        | (Inr resolved, n1) \<Rightarrow>
            (let new = (if ps_OutputInterface (rs_Service resolved) = []
                        then (rs_Service resolved)\<lparr>ps_OutputInterface := ps_OutputInterface service\<rparr>
                        else rs_Service resolved)
             in (case resolve_services resolver services n1 of
                   (Inl e, n') \<Rightarrow> (Inl e, n') | (Inr out, n') \<Rightarrow> (Inr (new # out), n')))))"

definition resolvePolicySnapshotServices ::
    "'n service_resolver option \<Rightarrow> PolicySnapshot \<Rightarrow> 'n \<Rightarrow> (apply_error + PolicySnapshot) \<times> 'n" where
  "resolvePolicySnapshotServices resolver snapshot0 n =
     (let snapshot = normalizePolicySnapshot snapshot0
      in case resolve_services resolver (snap_Services snapshot) n of
           (Inl e, n') \<Rightarrow> (Inl e, n')
         | (Inr services, n') \<Rightarrow> (Inr (snapshot\<lparr>snap_Services := services\<rparr>), n'))"

subsection \<open>ApplyPolicySnapshot\<close>

definition failPolicyApply :: "PolicyApplyResult \<Rightarrow> string \<Rightarrow> apply_error \<Rightarrow> PolicyApplyResult" where
  "failPolicyApply result stage err = result\<lparr>par_Status := policyApplyStatusFailed,
     par_ErrorStage := stage, par_ErrorReason := Some err\<rparr>"

definition populate_stage :: "string \<Rightarrow> 'k \<times> map_error option \<Rightarrow> 'k \<times> (string \<times> map_error) option" where
  "populate_stage name r = (fst r, map_option (Pair name) (snd r))"

text \<open>The five populate calls, each with the stage it reports.\<close>

definition populate_slot ::
    "'k ebpf_ops \<Rightarrow> u32 \<Rightarrow> PolicySnapshot \<Rightarrow> 'k \<Rightarrow> 'k \<times> (string \<times> map_error) option" where
  "populate_slot ops slot s k0 =
     (let m = (\<lambda>logical. policySlotMap logical slot) in
     bind_err (populate_stage ''populate_whitelist'' (populateWhitelistMaps ops (m ''whitelist_v4'')
        (m ''whitelist_service_v4'') (snap_WhitelistV4 s) k0)) (\<lambda>k.
     bind_err (populate_stage ''populate_blacklist'' (populateBlacklistMaps ops (m ''blacklist_v4'')
        (m ''blacklist_service_v4'') (snap_BlacklistV4 s) k)) (\<lambda>k.
     bind_err (populate_stage ''populate_udp_source_port_blocks'' (populateUDPSourcePortBlockMaps ops
        (m ''udp_src_port_blocks'') (m ''udp_src_port_service_blocks'') (snap_UDPSourcePortBlocks s) k)) (\<lambda>k.
     bind_err (populate_stage ''populate_services'' (populateServiceMap ops (m ''service_allowlist'')
        (snap_Services s) k)) (\<lambda>k.
     populate_stage ''populate_rules'' (populateRuleMap ops (m ''rule_config'') (snap_Rules s) k))))))"

definition rollbackInactive :: "'k ebpf_ops \<Rightarrow> u32 \<Rightarrow> 'k \<Rightarrow> 'k" where
  "rollbackInactive ops slot k = fst (clearInactivePolicySlot ops slot k)"

definition rollbackDevmap ::
    "'k ebpf_ops \<Rightarrow> (u32 \<times> u32 option) list option \<Rightarrow> 'k \<times> PolicyApplyResult \<Rightarrow> 'k \<times> PolicyApplyResult" where
  "rollbackDevmap ops rb kr = (case rb of
     None \<Rightarrow> kr
   | Some updated \<Rightarrow> (case run_rollback ops updated (fst kr) of
       (k', n) \<Rightarrow> (k', (snd kr)\<lparr>par_DevmapStats := (par_DevmapStats (snd kr))\<lparr>ds_RolledBack := n\<rparr>\<rparr>)))"

definition next_config :: "PolicySnapshot \<Rightarrow> u32 \<Rightarrow> int \<Rightarrow> RuntimeConfigValue" where
  "next_config s slot now =
     \<lparr>rc_ActiveSlot = slot, rc_PolicyVersion = snap_Version s,
      rc_MalformedPolicy = prc_MalformedPolicy (snap_Runtime s),
      rc_SampleDenom = prc_SampleDenom (snap_Runtime s), rc_UpdatedAtUnixNano = word_of_int now\<rparr>"

text \<open>A failure after the inactive slot was touched: undo the devmap if asked, clear the slot, report.\<close>

definition undo_install ::
    "'k ebpf_ops \<Rightarrow> u32 \<Rightarrow> ('k, 'n) agent \<Rightarrow> (u32 \<times> u32 option) list option \<Rightarrow> 'k \<Rightarrow> PolicyApplyResult \<Rightarrow>
     string \<Rightarrow> apply_error \<Rightarrow> ('k, 'n) agent \<times> PolicyApplyResult" where
  "undo_install ops slot ag rb k r stage e = (case rollbackDevmap ops rb (k, r) of (k', r') \<Rightarrow>
     (ag\<lparr>ag_kernel := rollbackInactive ops slot k'\<rparr>, failPolicyApply r' stage e))"

text \<open>
  From the clearing of the inactive slot on: \<open>cfg\<close> is the configuration that was read, \<open>s\<close> the
  verified snapshot, \<open>result\<close> the result so far.
\<close>

definition install_policy ::
    "('k, 'n) apply_env \<Rightarrow> RuntimeConfigValue \<Rightarrow> PolicySnapshot \<Rightarrow> PolicyApplyOptions \<Rightarrow> string \<Rightarrow> int \<Rightarrow>
     PolicyApplyResult \<Rightarrow> ('k, 'n) agent \<Rightarrow> ('k, 'n) agent \<times> PolicyApplyResult" where
  "install_policy env cfg s options objectChecksum now result ag =
     (let ops = env_ops env;
          slot = 1 - rc_ActiveSlot cfg;
          undo = undo_install ops slot ag
      in case clearInactivePolicySlot ops slot (ag_kernel ag) of
           (k1, Some e) \<Rightarrow> (ag\<lparr>ag_kernel := k1\<rparr>, failPolicyApply result ''clear_inactive'' e)
         | (k1, None) \<Rightarrow> (case populate_slot ops slot s k1 of
             (k2, Some (stage, e)) \<Rightarrow> undo None k2 result stage (InstallFailed e)
           | (k2, None) \<Rightarrow> (case updateDevmapTargets ops (snap_Services s) k2 of
               (k3, devmapStats, rb, derr) \<Rightarrow>
                 (let result = result\<lparr>par_DevmapStats := devmapStats\<rparr>
                  in case derr of
                       Some e \<Rightarrow> undo rb k3 result ''populate_tx_devmap'' (InstallFailed e)
                     | None \<Rightarrow> (case eo_Update ops k3 ''runtime_config'' (KU32 0)
                                      (VRuntime (next_config s slot now)) of
                         (k4, Some e) \<Rightarrow> undo rb k4 result ''runtime_flip'' (FlipFailed e)
                       | (k4, None) \<Rightarrow>
                           (let lastValid = LastValidFromPolicySnapshot s slot objectChecksum now;
                                (fs', serr) = (if ao_SnapshotPath options = [] then (ag_fs ag, None)
                                   else SaveLastValidSnapshot (env_codec env) (ag_fs ag)
                                          (ao_SnapshotPath options) lastValid)
                            in case serr of
                                 Some e \<Rightarrow>
                                   (case undo rb (fst (eo_Update ops k4 ''runtime_config'' (KU32 0) (VRuntime cfg)))
                                        result ''persist_last_valid'' (PersistFailed e) of
                                      (ag', r) \<Rightarrow> (ag'\<lparr>ag_fs := fs'\<rparr>, r))
                               | None \<Rightarrow>
                                   (ag\<lparr>ag_kernel := k4, ag_fs := fs', ag_Snapshot := lastValid,
                                       ag_snapshotVersion := (if ao_Metrics options then snap_Version s
                                         else ag_snapshotVersion ag)\<rparr>,
                                    result\<lparr>par_Status := policyApplyStatusApplied,
                                           par_ActiveSlot := slot\<rparr>)))))))"

definition verify_options ::
    "RuntimeConfigValue \<Rightarrow> PolicyApplyOptions \<Rightarrow> string \<Rightarrow> int \<Rightarrow> bool \<Rightarrow> PolicySnapshotVerifyOptions" where
  "verify_options cfg options objectChecksum now allow =
     \<lparr>vo_CurrentVersion = rc_PolicyVersion cfg, vo_ObjectChecksum = objectChecksum, vo_Now = Some now,
      vo_CapacityOverrides = ao_CapacityOverrides options,
      vo_MemoryBudgetBytes = ao_MemoryBudgetBytes options, vo_AllowUnresolvedServices = allow\<rparr>"

text \<open>
  \<open>loaded\<close> is \<^verbatim>\<open>runtime != nil && runtime.Collection != nil\<close>. The returned error is the
  \<open>par_ErrorReason\<close> of the result, \<open>None\<close> exactly on success.
\<close>

definition ApplyPolicySnapshot ::
    "('k, 'n) apply_env \<Rightarrow> bool \<Rightarrow> PolicySnapshot \<Rightarrow> PolicyApplyOptions \<Rightarrow> ('k, 'n) agent \<Rightarrow>
     ('k, 'n) agent \<times> PolicyApplyResult" where
  "ApplyPolicySnapshot env loaded snapshot options ag =
     (let result0 = \<lparr>par_Version = snap_Version snapshot, par_PreviousVersion = 0,
            par_Status = policyApplyStatusFailed, par_ActiveSlot = 0, par_MapStats = [],
            par_DevmapStats = zero_devmap_stats, par_ErrorStage = [], par_ErrorReason = None\<rparr>;
          now = (case ao_Now options of None \<Rightarrow> env_clock env | Some t \<Rightarrow> t);
          objectChecksum = (if ao_ObjectChecksum options = [] then ag_ObjectChecksum ag
                            else ao_ObjectChecksum options);
          digest = jc_digest (env_codec env)
      in if \<not> loaded then (ag, failPolicyApply result0 ''runtime'' NilRuntime)
         else (case readRuntimeConfig (env_ops env) (ag_kernel ag) of
           Inl e \<Rightarrow> (ag, failPolicyApply result0 ''runtime_config'' e)
         | Inr cfg \<Rightarrow>
             (let result1 = result0\<lparr>par_PreviousVersion := rc_PolicyVersion cfg,
                                    par_ActiveSlot := rc_ActiveSlot cfg\<rparr>
              in if 1 < rc_ActiveSlot cfg
                 then (ag, failPolicyApply result1 ''runtime_config'' (InvalidActiveSlot (rc_ActiveSlot cfg)))
                 else (case VerifyPolicySnapshot digest (env_clock env) snapshot
                              (verify_options cfg options objectChecksum now True) of
                   (stats, errs) \<Rightarrow>
                     (let result2 = result1\<lparr>par_MapStats := stats_Maps stats\<rparr>
                      in if errs \<noteq> [] then (ag, failPolicyApply result2 ''validate'' (VerifyFailed errs))
                         else (case resolvePolicySnapshotServices (env_resolver env) snapshot (ag_net ag) of
                           (Inl e, n) \<Rightarrow> (ag\<lparr>ag_net := n\<rparr>, failPolicyApply result2 ''resolve_forwarding'' e)
                         | (Inr resolved, n) \<Rightarrow>
                             (let signed = SignPolicySnapshot digest resolved
                              in case VerifyPolicySnapshot digest (env_clock env) signed
                                        (verify_options cfg options objectChecksum now False) of
                                   (stats', errs') \<Rightarrow>
                                     (let result3 = result2\<lparr>par_MapStats := stats_Maps stats'\<rparr>
                                      in if errs' \<noteq> []
                                         then (ag\<lparr>ag_net := n\<rparr>,
                                               failPolicyApply result3 ''validate'' (VerifyFailed errs'))
                                         else install_policy env cfg signed options objectChecksum now
                                                result3 (ag\<lparr>ag_net := n\<rparr>)))))))))"

end
