(* ===== verification/PolicyContents.thy ===== *)
theory PolicyContents
  imports PolicyInstall
begin

section \<open>What the slot holds after population\<close>

text \<open>
  The abstract contents of the eight maps of a slot for a given snapshot, and the proof that
  clearing and populating the slot establishes them.
\<close>

subsection \<open>Abstract contents\<close>

definition cidr_global :: "PolicyCIDREntry list \<Rightarrow> (map_key \<times> map_val) list" where
  "cidr_global es = concat (map (\<lambda>e. case cidr_slot e of
     Some (Inl key) \<Rightarrow> [(KLPM key, VCIDR (cidrPolicyValue e))] | _ \<Rightarrow> []) es)"

definition cidr_service :: "PolicyCIDREntry list \<Rightarrow> (map_key \<times> map_val) list" where
  "cidr_service es = concat (map (\<lambda>e. case cidr_slot e of
     Some (Inr key) \<Rightarrow> [(KServiceLPM key, VCIDR (cidrPolicyValue e))] | _ \<Rightarrow> []) es)"

definition udp_global :: "PolicyUDPSourcePortBlock list \<Rightarrow> (map_key \<times> map_val) list" where
  "udp_global es = concat (map (\<lambda>e. case udp_slot e of
     Some (Inl key) \<Rightarrow> [(KU32 key, VUDP (udpBlockValue e))] | _ \<Rightarrow> []) es)"

definition udp_service :: "PolicyUDPSourcePortBlock list \<Rightarrow> (map_key \<times> map_val) list" where
  "udp_service es = concat (map (\<lambda>e. case udp_slot e of
     Some (Inr key) \<Rightarrow> [(KServiceUDP key, VUDP (udpBlockValue e))] | _ \<Rightarrow> []) es)"

definition service_contents :: "PolicyService list \<Rightarrow> (map_key \<times> map_val) list" where
  "service_contents ss = concat (map (\<lambda>s. case serviceMapEntry s of
     Inl _ \<Rightarrow> [] | Inr (key, value) \<Rightarrow> [(KService key, VService value)]) ss)"

definition rule_contents :: "PolicyRule list \<Rightarrow> (map_key \<times> map_val) list" where
  "rule_contents rs = map (\<lambda>r. (KU32 (pr_RuleID r), VRule (snd (ruleMapEntry r)))) rs"

text \<open>The contents of the seven maps that are emptied by iteration, by logical name.\<close>

definition policy_contents :: "PolicySnapshot \<Rightarrow> (string \<times> (map_key \<times> map_val) list) list" where
  "policy_contents s =
     [(''whitelist_v4'', cidr_global (snap_WhitelistV4 s)),
      (''whitelist_service_v4'', cidr_service (snap_WhitelistV4 s)),
      (''blacklist_v4'', cidr_global (snap_BlacklistV4 s)),
      (''blacklist_service_v4'', cidr_service (snap_BlacklistV4 s)),
      (''udp_src_port_blocks'', udp_global (snap_UDPSourcePortBlocks s)),
      (''udp_src_port_service_blocks'', udp_service (snap_UDPSourcePortBlocks s)),
      (''service_allowlist'', service_contents (snap_Services s))]"

text \<open>
  The slot holds the policy: these seven maps hold exactly its entries, and the rule array holds
  every rule at its id and the zero value at every other index below its size.
\<close>

definition holds_policy :: "map_view \<Rightarrow> u32 \<Rightarrow> u32 \<Rightarrow> PolicySnapshot \<Rightarrow> bool" where
  "holds_policy v maxRules slot s \<longleftrightarrow>
     (\<forall>(logical, entries)\<in>set (policy_contents s). v (policySlotMap logical slot) = map_of entries) \<and>
     (\<forall>i. v (policySlotMap ''rule_config'' slot) (KU32 i) =
        (case map_of (rule_contents (snap_Rules s)) (KU32 i) of
           Some x \<Rightarrow> Some x
         | None \<Rightarrow> if i < maxRules then Some (VRule zero_rule)
                   else v (policySlotMap ''rule_config'' slot) (KU32 i)))"

subsection \<open>The writes, map by map\<close>

definition slot_writes :: "u32 \<Rightarrow> PolicySnapshot \<Rightarrow> (string \<times> map_key \<times> map_val) list" where
  "slot_writes slot s = (let m = (\<lambda>l. policySlotMap l slot) in
     cidr_writes (m ''whitelist_v4'') (m ''whitelist_service_v4'') (snap_WhitelistV4 s) @
     cidr_writes (m ''blacklist_v4'') (m ''blacklist_service_v4'') (snap_BlacklistV4 s) @
     udp_writes (m ''udp_src_port_blocks'') (m ''udp_src_port_service_blocks'') (snap_UDPSourcePortBlocks s) @
     service_writes (m ''service_allowlist'') (snap_Services s) @
     rule_writes (m ''rule_config'') (snap_Rules s))"

lemma write_all_append: "write_all m (ws @ ws') = write_all (write_all m ws) ws'"
  by (induction ws arbitrary: m) auto

lemma writes_of_append [simp]: "writes_of n (ws @ ws') = writes_of n ws @ writes_of n ws'"
  by (simp add: writes_of_def)

lemma writes_of_cidr:
  assumes "g \<noteq> s"
  shows "writes_of n (cidr_writes g s es) =
    (if n = g then cidr_global es else if n = s then cidr_service es else [])"
  using assms by (induction es)
    (auto simp: writes_of_def cidr_writes_def cidr_global_def cidr_service_def split: option.split sum.split)

lemma writes_of_udp:
  assumes "g \<noteq> s"
  shows "writes_of n (udp_writes g s es) =
    (if n = g then udp_global es else if n = s then udp_service es else [])"
  using assms by (induction es)
    (auto simp: writes_of_def udp_writes_def udp_global_def udp_service_def split: option.split sum.split)

lemma writes_of_services:
  "writes_of n (service_writes name ss) = (if n = name then service_contents ss else [])"
  by (induction ss) (auto simp: writes_of_def service_writes_def service_contents_def split: sum.split)

lemma writes_of_rules:
  "writes_of n (rule_writes name rs) = (if n = name then rule_contents rs else [])"
  by (induction rs) (auto simp: writes_of_def rule_writes_def rule_contents_def)

lemmas writes_of_simps = writes_of_cidr writes_of_udp writes_of_services writes_of_rules

lemma writes_of_slot:
  "(l, entries) \<in> set (policy_contents s) \<Longrightarrow> writes_of (policySlotMap l slot) (slot_writes slot s) = entries"
  unfolding policy_contents_def list.set insert_iff empty_iff prod.inject slot_writes_def Let_def writes_of_append
  by (elim disjE conjE FalseE; simp add: writes_of_simps)

lemma writes_of_slot_rules:
  "writes_of (policySlotMap ''rule_config'' slot) (slot_writes slot s) = rule_contents (snap_Rules s)"
  by (simp add: slot_writes_def Let_def writes_of_simps)

subsection \<open>Different keys\<close>

lemma distinct_concat_option:
  assumes "distinct (map slot es)" and "\<And>e. f e = [] \<or> (\<exists>k v. f e = [(k, v)] \<and> slot e = key k)"
  shows "distinct (map fst (concat (map f es)))"
  using assms(1)
proof (induction es)
  case (Cons e es)
  have "k \<notin> fst ` set (concat (map f es))" if "f e = [(k, v)]" for k v
  proof
    assume "k \<in> fst ` set (concat (map f es))"
    then obtain e' v' where "e' \<in> set es" and "(k, v') \<in> set (f e')" by auto
    then have "slot e' = key k" using assms(2) [of e'] by auto
    moreover have "slot e = key k" using that assms(2) [of e] by auto
    ultimately show False using Cons.prems \<open>e' \<in> set es\<close> by (auto simp: image_iff)
  qed
  moreover have "distinct (map fst (concat (map f es)))" using Cons by simp
  ultimately show ?case using assms(2) [of e] by (elim disjE exE conjE) simp_all
qed simp

lemma distinct_contents:
  assumes "installable now s" and "(l, entries) \<in> set (policy_contents s)"
  shows "distinct (map fst entries)"
proof -
  note d = assms(1) [unfolded installable_def]
  have c: "distinct (map fst (cidr_global es))" "distinct (map fst (cidr_service es))"
    if "distinct (map cidr_slot es)" for es
    unfolding cidr_global_def cidr_service_def
    by (rule distinct_concat_option [OF that, of _ "\<lambda>k. case k of KLPM x \<Rightarrow> Some (Inl x) | _ \<Rightarrow> None"],
        simp split: option.split sum.split,
        rule distinct_concat_option [OF that, of _ "\<lambda>k. case k of KServiceLPM x \<Rightarrow> Some (Inr x) | _ \<Rightarrow> None"],
        simp split: option.split sum.split)
  have u: "distinct (map fst (udp_global es))" "distinct (map fst (udp_service es))"
    if "distinct (map udp_slot es)" for es
    unfolding udp_global_def udp_service_def
    by (rule distinct_concat_option [OF that, of _ "\<lambda>k. case k of KU32 x \<Rightarrow> Some (Inl x) | _ \<Rightarrow> None"],
        simp split: option.split sum.split,
        rule distinct_concat_option [OF that, of _ "\<lambda>k. case k of KServiceUDP x \<Rightarrow> Some (Inr x) | _ \<Rightarrow> None"],
        simp split: option.split sum.split)
  have v: "distinct (map fst (service_contents ss))" if "distinct (map serviceMapKey ss)" for ss
    unfolding service_contents_def
    by (rule distinct_concat_option [OF that, of _ "\<lambda>k. case k of KService x \<Rightarrow> Inr x | _ \<Rightarrow> Inl ServiceIDZero"])
      (auto simp: serviceMapEntry_OK split: sum.split)
  show ?thesis
    using assms(2) c u v d by (auto simp: policy_contents_def)
qed

lemma distinct_rule_contents: "distinct (map pr_RuleID rs) \<Longrightarrow> distinct (map fst (rule_contents rs))"
  by (induction rs) (auto simp: rule_contents_def)

subsection \<open>Clearing and populating\<close>

context ebpf_kernel
begin

lemma clear_by_iteration_done:
  "clear_by_iteration ops name k = (k', None) \<Longrightarrow> view k' = (view k)(name := Map.empty)"
  by (auto simp: clear_by_iteration_def lift_io_None clear_done split: if_splits prod.splits option.splits)

lemma clear_stage_done:
  "clear_stage l slot f k = (k', None) \<longleftrightarrow> f (policySlotMap l slot) k = (k', None)"
  by (auto simp: clear_stage_def split: prod.split)

lemma clear_bind:
  "bind_err (clear_stage l slot f k) g = (k', None) \<longleftrightarrow>
    (\<exists>k1. f (policySlotMap l slot) k = (k1, None) \<and> g k1 = (k', None))"
  by (auto simp: clear_stage_def bind_err_def split: prod.splits option.splits)

lemma clearRule_done:
  assumes "clearRulePolicyMap ops name k = (k', None)"
  shows "i < eo_MaxEntries ops name \<Longrightarrow> view k' name (KU32 i) = Some (VRule zero_rule)"
    and "\<not> i < eo_MaxEntries ops name \<Longrightarrow> view k' name (KU32 i) = view k name (KU32 i)"
    and "n \<noteq> name \<Longrightarrow> view k' n = view k n"
proof -
  let ?ws = "map (\<lambda>i. (name, KU32 (of_nat i), VRule zero_rule)) [0..<unat (eo_MaxEntries ops name)]"
  have v: "view k' = write_all (view k) ?ws"
    using assms by (auto simp: clearRulePolicyMap_def lift_io_None update_all_done split: if_splits)
  have w: "writes_of name ?ws = map (\<lambda>i. (KU32 (of_nat i), VRule zero_rule)) [0..<unat (eo_MaxEntries ops name)]"
    by (simp add: writes_of_def filter_True comp_def)
  have at: "view k' name key = (case map_of (rev (writes_of name ?ws)) key of
      None \<Rightarrow> view k name key | Some x \<Rightarrow> Some x)" for key
    by (simp add: v write_all_at map_add_def)
  show "view k' name (KU32 i) = Some (VRule zero_rule)" if "i < eo_MaxEntries ops name"
  proof -
    have "(KU32 i, VRule zero_rule) \<in> set (writes_of name ?ws)"
      unfolding w using that by (auto simp: word_less_nat_alt intro!: image_eqI [of _ _ "unat i"])
    moreover have "x = VRule zero_rule" if "(KU32 i, x) \<in> set (writes_of name ?ws)" for x
      using that unfolding w by auto
    moreover have "map_of (rev (writes_of name ?ws)) (KU32 i) \<noteq> None"
      unfolding map_of_eq_None_iff using calculation(1) by force
    ultimately show ?thesis
      using map_of_SomeD [of "rev (writes_of name ?ws)" "KU32 i"] by (auto simp: at)
  qed
  show "view k' name (KU32 i) = view k name (KU32 i)" if "\<not> i < eo_MaxEntries ops name"
  proof -
    have "unat (eo_MaxEntries ops name) < 2 ^ 32"
      by (rule order_less_le_trans [OF unsigned_less]) simp
    then have "unat (of_nat j :: u32) = j" if "j < unat (eo_MaxEntries ops name)" for j
      using that by (simp add: unat_of_nat)
    then have ne: "i \<noteq> of_nat j" if "j < unat (eo_MaxEntries ops name)" for j
      using that \<open>\<not> i < eo_MaxEntries ops name\<close> by (metis word_less_nat_alt)
    have "map_of (rev (writes_of name ?ws)) (KU32 i) = None"
      unfolding w map_of_eq_None_iff using ne by (auto, blast)
    then show ?thesis by (simp add: at)
  qed
  show "view k' n = view k n" if "n \<noteq> name"
    unfolding v using that by (auto intro: write_all_other)
qed

lemma clear_slot_done:
  assumes "clearInactivePolicySlot ops slot k = (k', None)"
  shows "(l, entries) \<in> set (policy_contents s) \<Longrightarrow> view k' (policySlotMap l slot) = Map.empty"
    and "view k' (policySlotMap ''rule_config'' slot) (KU32 i) =
      (if i < eo_MaxEntries ops (policySlotMap ''rule_config'' slot) then Some (VRule zero_rule)
       else view k (policySlotMap ''rule_config'' slot) (KU32 i))"
proof -
  let ?m = "\<lambda>l. policySlotMap l slot"
  from assms obtain k1 k2 k3 k4 k5 k6 k7 where
      c: "clear_by_iteration ops (?m ''whitelist_v4'') k = (k1, None)"
        "clear_by_iteration ops (?m ''whitelist_service_v4'') k1 = (k2, None)"
        "clear_by_iteration ops (?m ''blacklist_v4'') k2 = (k3, None)"
        "clear_by_iteration ops (?m ''blacklist_service_v4'') k3 = (k4, None)"
        "clear_by_iteration ops (?m ''udp_src_port_blocks'') k4 = (k5, None)"
        "clear_by_iteration ops (?m ''udp_src_port_service_blocks'') k5 = (k6, None)"
        "clear_by_iteration ops (?m ''service_allowlist'') k6 = (k7, None)"
      and r: "clearRulePolicyMap ops (?m ''rule_config'') k7 = (k', None)"
    unfolding clearInactivePolicySlot_def clear_defs clear_bind clear_stage_done by blast
  note v7 = c [THEN clear_by_iteration_done]
  show "view k' (?m l) = Map.empty" if "(l, entries) \<in> set (policy_contents s)"
  proof -
    have "view k7 (?m l) = Map.empty"
      using that unfolding policy_contents_def list.set insert_iff empty_iff prod.inject
      by (elim disjE conjE FalseE; simp add: v7)
    moreover have "l \<noteq> ''rule_config''"
      using that unfolding policy_contents_def list.set insert_iff empty_iff prod.inject
      by (elim disjE conjE FalseE; simp)
    ultimately show ?thesis using clearRule_done(3) [OF r, of "?m l"] by simp
  qed
  show "view k' (?m ''rule_config'') (KU32 i) =
      (if i < eo_MaxEntries ops (?m ''rule_config'') then Some (VRule zero_rule)
       else view k (?m ''rule_config'') (KU32 i))"
    using clearRule_done(1,2) [OF r, of i] by (simp add: v7)
qed

lemma write_then_done:
  "write_then ops name key v k rest = (k', None) \<longleftrightarrow>
    (\<exists>k1. eo_Update ops k name key v = (k1, None) \<and> rest k1 = (k', None))"
  by (cases "eo_Update ops k name key v") (auto simp: bind_err_def lift_io_def split: option.splits)

lemma populate_cidr_done:
  assumes "populate_cidr_entries ops g s es k = (k', None)" and "\<forall>e\<in>set es. cidr_slot e \<noteq> None"
  shows "view k' = write_all (view k) (cidr_writes g s es)"
  using assms
proof (induction es arbitrary: k)
  case (Cons e es)
  have "\<exists>name key k1. eo_Update ops k name key (VCIDR (cidrPolicyValue e)) = (k1, None) \<and>
      cidr_writes g s (e # es) = (name, key, VCIDR (cidrPolicyValue e)) # cidr_writes g s es \<and>
      populate_cidr_entries ops g s es k1 = (k', None)"
    using Cons.prems by (auto simp: write_then_done cidr_slot_def cidr_writes_def split: if_splits sum.splits)
  then obtain name key k1 where u: "eo_Update ops k name key (VCIDR (cidrPolicyValue e)) = (k1, None)"
      and w: "cidr_writes g s (e # es) = (name, key, VCIDR (cidrPolicyValue e)) # cidr_writes g s es"
      and rest: "populate_cidr_entries ops g s es k1 = (k', None)" by blast
  have "\<forall>e\<in>set es. cidr_slot e \<noteq> None" using Cons.prems(2) by simp
  from Cons.IH [OF rest this] show ?case
    unfolding w write_all.simps by (simp only: update_done [OF u])
qed (simp add: cidr_writes_def)

lemma populate_udp_done:
  assumes "populate_udp_entries ops g s es k = (k', None)" and "\<forall>e\<in>set es. udp_slot e \<noteq> None"
  shows "view k' = write_all (view k) (udp_writes g s es)"
  using assms
proof (induction es arbitrary: k)
  case (Cons e es)
  have "\<exists>name key k1. eo_Update ops k name key (VUDP (udpBlockValue e)) = (k1, None) \<and>
      udp_writes g s (e # es) = (name, key, VUDP (udpBlockValue e)) # udp_writes g s es \<and>
      populate_udp_entries ops g s es k1 = (k', None)"
    using Cons.prems by (auto simp: write_then_done udp_slot_def udp_writes_def
        udpSourcePortBlockMapEntry_def udpSourcePortServiceBlockMapEntry_def split: if_splits)
  then obtain name key k1 where u: "eo_Update ops k name key (VUDP (udpBlockValue e)) = (k1, None)"
      and w: "udp_writes g s (e # es) = (name, key, VUDP (udpBlockValue e)) # udp_writes g s es"
      and rest: "populate_udp_entries ops g s es k1 = (k', None)" by blast
  have "\<forall>e\<in>set es. udp_slot e \<noteq> None" using Cons.prems(2) by simp
  from Cons.IH [OF rest this] show ?case
    unfolding w write_all.simps by (simp only: update_done [OF u])
qed (simp add: udp_writes_def)

lemma populate_services_done:
  "populate_services ops name ss k = (k', None) \<Longrightarrow> view k' = write_all (view k) (service_writes name ss)"
proof (induction ss arbitrary: k)
  case (Cons v ss)
  from Cons.prems obtain key val k1 where e: "serviceMapEntry v = Inr (key, val)"
      and u: "eo_Update ops k name (KService key) (VService val) = (k1, None)"
      and rest: "populate_services ops name ss k1 = (k', None)"
    by (auto simp: write_then_done split: sum.splits)
  have w: "service_writes name (v # ss) = (name, KService key, VService val) # service_writes name ss"
    by (simp add: service_writes_def e)
  show ?case
    unfolding w write_all.simps using Cons.IH [OF rest] by (simp only: update_done [OF u])
qed (simp add: service_writes_def)

lemma populate_rules_done:
  "populate_rules ops name rs k = (k', None) \<Longrightarrow> view k' = write_all (view k) (rule_writes name rs)"
proof (induction rs arbitrary: k)
  case (Cons r rs)
  from Cons.prems obtain k1 where
      u: "eo_Update ops k name (KU32 (pr_RuleID r)) (VRule (snd (ruleMapEntry r))) = (k1, None)"
      and rest: "populate_rules ops name rs k1 = (k', None)"
    by (auto simp: write_then_done ruleMapEntry_def)
  have w: "rule_writes name (r # rs) =
      (name, KU32 (pr_RuleID r), VRule (snd (ruleMapEntry r))) # rule_writes name rs"
    by (simp add: rule_writes_def)
  show ?case
    unfolding w write_all.simps using Cons.IH [OF rest] by (simp only: update_done [OF u])
qed (simp add: rule_writes_def)

lemma populate_stage_done:
  "bind_err (populate_stage name r) g = (k', None) \<longleftrightarrow> (\<exists>k. r = (k, None) \<and> g k = (k', None))"
  "populate_stage name r = (k', None) \<longleftrightarrow> r = (k', None)"
  by (cases r, auto simp: bind_err_def populate_stage_def split: option.splits)+

lemma populate_slot_done:
  assumes "populate_slot ops slot s k = (k', None)" and "installable now s"
  shows "view k' = write_all (view k) (slot_writes slot s)"
proof -
  let ?m = "\<lambda>l. policySlotMap l slot"
  from assms(1) obtain k1 k2 k3 k4 where
      w: "populate_cidr_entries ops (?m ''whitelist_v4'') (?m ''whitelist_service_v4'') (snap_WhitelistV4 s) k = (k1, None)"
      and b: "populate_cidr_entries ops (?m ''blacklist_v4'') (?m ''blacklist_service_v4'') (snap_BlacklistV4 s) k1 = (k2, None)"
      and u: "populate_udp_entries ops (?m ''udp_src_port_blocks'') (?m ''udp_src_port_service_blocks'')
        (snap_UDPSourcePortBlocks s) k2 = (k3, None)"
      and v: "populate_services ops (?m ''service_allowlist'') (snap_Services s) k3 = (k4, None)"
      and r: "populate_rules ops (?m ''rule_config'') (snap_Rules s) k4 = (k', None)"
    unfolding populate_slot_def Let_def populate_stage_done populateWhitelistMaps_def populateBlacklistMaps_def
      populateUDPSourcePortBlockMaps_def populateServiceMap_def populateRuleMap_def
    by (auto split: if_splits)
  have ok: "\<forall>e\<in>set (snap_WhitelistV4 s). cidr_slot e \<noteq> None" "\<forall>e\<in>set (snap_BlacklistV4 s). cidr_slot e \<noteq> None"
    "\<forall>e\<in>set (snap_UDPSourcePortBlocks s). udp_slot e \<noteq> None"
    using assms(2) by (auto simp: installable_def)
  show ?thesis
    by (simp only: slot_writes_def Let_def write_all_append populate_rules_done [OF r]
        populate_services_done [OF v] populate_udp_done [OF u ok(3)] populate_cidr_done [OF b ok(2)]
        populate_cidr_done [OF w ok(1)])
qed

text \<open>Clearing and populating the slot establishes the abstract contents.\<close>

lemma slot_filled:
  assumes "clearInactivePolicySlot ops slot k = (k1, None)" and "populate_slot ops slot s k1 = (k2, None)"
    and "installable now s"
  shows "holds_policy (view k2) (eo_MaxEntries ops (policySlotMap ''rule_config'' slot)) slot s"
  unfolding holds_policy_def
proof (intro conjI allI ballI)
  note v2 = populate_slot_done [OF assms(2,3)]
  let ?rule = "policySlotMap ''rule_config'' slot"
  fix x assume x: "x \<in> set (policy_contents s)"
  obtain l entries where "x = (l, entries)" by (cases x)
  with x show "case x of (logical, entries) \<Rightarrow> view k2 (policySlotMap logical slot) = map_of entries"
    using clear_slot_done(1) [OF assms(1)] distinct_contents [OF assms(3)] writes_of_slot [of l entries s slot]
      write_all_empty [of "view k1" "policySlotMap l slot" "slot_writes slot s"]
    by (simp add: v2)
next
  note v2 = populate_slot_done [OF assms(2,3)]
  let ?rule = "policySlotMap ''rule_config'' slot"
  fix i
  have d: "distinct (map fst (rule_contents (snap_Rules s)))"
    using assms(3) by (auto simp: installable_def intro: distinct_rule_contents)
  have at: "view k2 ?rule (KU32 i) = (case map_of (rule_contents (snap_Rules s)) (KU32 i) of
      None \<Rightarrow> view k1 ?rule (KU32 i) | Some y \<Rightarrow> Some y)"
    by (simp add: v2 write_all_at writes_of_slot_rules map_of_rev_distinct [OF d] map_add_def)
  show "view k2 ?rule (KU32 i) = (case map_of (rule_contents (snap_Rules s)) (KU32 i) of
      None \<Rightarrow> if i < eo_MaxEntries ops ?rule then Some (VRule zero_rule) else view k2 ?rule (KU32 i)
    | Some y \<Rightarrow> Some y)"
    using at clear_slot_done(2) [OF assms(1), of i] by (auto split: option.split)
qed

end

end
