(* ===== verification/ApplyOutcome.thy ===== *)
theory ApplyOutcome
  imports PolicyContents
begin

section \<open>The outcome of an apply\<close>

text \<open>
  The devmap under update and rollback, the possible ways through \<^verbatim>\<open>ApplyPolicySnapshot\<close>, and the
  properties of the whole operation: what a success establishes, what a failure leaves alone,
  and what sequences of applies preserve.
\<close>

subsection \<open>The devmap\<close>

text \<open>A backup agrees with an earlier content of the devmap.\<close>

definition backup_ok :: "(map_key \<rightharpoonup> map_val) \<Rightarrow> u32 \<times> u32 option \<Rightarrow> bool" where
  "backup_ok m p = (case m (KU32 (fst p)) of None \<Rightarrow> True | Some v \<Rightarrow> map_option VU32 (snd p) = Some v)"

text \<open>The devmap content after all backups have been put back.\<close>

fun undo_view :: "(u32 \<times> u32 option) list \<Rightarrow> (map_key \<rightharpoonup> map_val) \<Rightarrow> map_key \<rightharpoonup> map_val" where
  "undo_view [] m = m"
| "undo_view ((key, backup) # rest) m = undo_view rest (m(KU32 key := map_option VU32 backup))"

lemma undo_view_append: "undo_view (rb @ rb') m = undo_view rb' (undo_view rb m)"
  by (induction rb arbitrary: m) auto

declare devmap_loop.simps(2) [simp del]

context ebpf_kernel
begin

abbreviation devmap :: "'k \<Rightarrow> map_key \<rightharpoonup> map_val" where
  "devmap k \<equiv> view k ''tx_devmap''"

lemma update_devmap:
  "eo_Update ops k ''tx_devmap'' key v = (k', None) \<Longrightarrow> devmap k' = (devmap k)(key \<mapsto> v)"
  "eo_Update ops k ''tx_devmap'' key v = (k', Some e) \<Longrightarrow> devmap k' = devmap k"
  by (simp_all add: update_done update_failed)

lemma devmap_loop_preserves:
  assumes "devmap_loop ops ts stats rb k = (k', stats', rb', e)"
    and "m \<subseteq>\<^sub>m devmap k"
  shows "m \<subseteq>\<^sub>m devmap k' \<and> ((\<forall>p\<in>set rb. backup_ok m p) \<longrightarrow> (\<forall>p\<in>set rb'. backup_ok m p))"
  using assms
proof (induction ts arbitrary: k stats rb)
  case (Cons t ts)
  obtain key desired where t: "t = (key, desired)" by fastforce
  show ?case
  proof (rule devmap_loop_cases [of ops key desired ts stats rb k])
    fix e' assume "devmap_loop ops ((key, desired) # ts) stats rb k = (k, touch stats, rb, Some e')"
    then show ?thesis using Cons.prems t by simp
  next
    fix k1 e' assume "eo_Update ops k ''tx_devmap'' (KU32 key) (VU32 desired) = (k1, Some e')"
      and "devmap_loop ops ((key, desired) # ts) stats rb k = (k1, touch stats, rb, Some (MapIO e'))"
    then show ?thesis using Cons.prems t update_devmap(2) by simp
  next
    fix k1 assume u: "eo_Update ops k ''tx_devmap'' (KU32 key) (VU32 desired) = (k1, None)"
      and l: "eo_Lookup ops k ''tx_devmap'' (KU32 key) = Inl ErrKeyNotExist"
      and d: "devmap_loop ops ((key, desired) # ts) stats rb k =
        devmap_loop ops ts (touch_update stats) ((key, None) # rb) k1"
    have none: "m (KU32 key) = None"
      using lookup_absent [OF l] Cons.prems(2) by (metis domIff map_le_def)
    then have le: "m \<subseteq>\<^sub>m devmap k1"
      using Cons.prems(2) by (auto simp: update_devmap(1) [OF u] map_le_def dom_def)
    have run: "devmap_loop ops ts (touch_update stats) ((key, None) # rb) k1 = (k', stats', rb', e)"
      using Cons.prems(1) d t by simp
    show ?thesis
      using Cons.IH [OF run le] none by (simp add: backup_ok_def)
  next
    fix k1 assume u: "eo_Update ops k ''tx_devmap'' (KU32 key) (VU32 desired) = (k1, None)"
      and l: "eo_Lookup ops k ''tx_devmap'' (KU32 key) = Inr (VU32 desired)"
      and d: "devmap_loop ops ((key, desired) # ts) stats rb k =
        devmap_loop ops ts (touch_update stats) ((key, Some desired) # rb) k1"
    have same: "devmap k1 = devmap k"
      using lookup_present [OF l] update_devmap(1) [OF u] by (simp add: fun_upd_idem)
    have ok: "backup_ok m (key, Some desired)"
      using lookup_present [OF l] Cons.prems(2)
      by (auto simp: backup_ok_def map_le_def dom_def split: option.split)
    have run: "devmap_loop ops ts (touch_update stats) ((key, Some desired) # rb) k1 = (k', stats', rb', e)"
      using Cons.prems(1) d t by simp
    have le: "m \<subseteq>\<^sub>m devmap k1" using Cons.prems(2) unfolding same .
    have "(\<forall>p\<in>set ((key, Some desired) # rb). backup_ok m p) \<longleftrightarrow> (\<forall>p\<in>set rb. backup_ok m p)"
      using ok by simp
    with Cons.IH [OF run le] show ?thesis by blast
  qed
qed simp

lemma devmap_loop_undo:
  assumes "devmap_loop ops ts stats rb k = (k', stats', rb', e)"
  shows "\<exists>new. rb' = new @ rb \<and> undo_view new (devmap k') = devmap k \<and>
    ds_Updated stats' = ds_Updated stats + of_nat (length new) \<and> length new \<le> length ts"
  using assms
proof (induction ts arbitrary: k stats rb)
  case (Cons t ts)
  obtain key desired where t: "t = (key, desired)" by fastforce
  have continue: ?case
    if u: "eo_Update ops k ''tx_devmap'' (KU32 key) (VU32 desired) = (k1, None)"
      and before: "devmap k (KU32 key) = map_option VU32 b"
      and d: "devmap_loop ops ((key, desired) # ts) stats rb k =
        devmap_loop ops ts (touch_update stats) ((key, b) # rb) k1" for k1 b
  proof -
    have run: "devmap_loop ops ts (touch_update stats) ((key, b) # rb) k1 = (k', stats', rb', e)"
      using Cons.prems d t by simp
    from Cons.IH [OF run] obtain new where
        new: "rb' = new @ (key, b) # rb" "undo_view new (devmap k') = devmap k1"
        "ds_Updated stats' = ds_Updated stats + 1 + of_nat (length new)" "length new \<le> length ts"
      by auto
    have "undo_view (new @ [(key, b)]) (devmap k') = devmap k"
      using before by (simp add: undo_view_append new(2) update_devmap(1) [OF u] fun_upd_idem)
    then show ?thesis
      using new by (intro exI [of _ "new @ [(key, b)]"]) (simp add: algebra_simps)
  qed
  show ?case
  proof (rule devmap_loop_cases [of ops key desired ts stats rb k])
    fix e' assume "devmap_loop ops ((key, desired) # ts) stats rb k = (k, touch stats, rb, Some e')"
    then show ?thesis using Cons.prems t by auto
  next
    fix k1 e' assume "eo_Update ops k ''tx_devmap'' (KU32 key) (VU32 desired) = (k1, Some e')"
      and "devmap_loop ops ((key, desired) # ts) stats rb k = (k1, touch stats, rb, Some (MapIO e'))"
    then show ?thesis using Cons.prems t update_devmap(2) by fastforce
  next
    fix k1 assume "eo_Update ops k ''tx_devmap'' (KU32 key) (VU32 desired) = (k1, None)"
      "eo_Lookup ops k ''tx_devmap'' (KU32 key) = Inl ErrKeyNotExist"
      "devmap_loop ops ((key, desired) # ts) stats rb k =
        devmap_loop ops ts (touch_update stats) ((key, None) # rb) k1"
    then show ?thesis by (intro continue [of k1 None]) (simp_all add: lookup_absent)
  next
    fix k1 assume "eo_Update ops k ''tx_devmap'' (KU32 key) (VU32 desired) = (k1, None)"
      "eo_Lookup ops k ''tx_devmap'' (KU32 key) = Inr (VU32 desired)"
      "devmap_loop ops ((key, desired) # ts) stats rb k =
        devmap_loop ops ts (touch_update stats) ((key, Some desired) # rb) k1"
    then show ?thesis by (intro continue [of k1 "Some desired"]) (simp_all add: lookup_present)
  qed
qed simp

lemma run_rollback_preserves:
  assumes "m \<subseteq>\<^sub>m devmap k" and "\<forall>p\<in>set rb. backup_ok m p"
  shows "m \<subseteq>\<^sub>m devmap (fst (run_rollback ops rb k))"
  using assms
proof (induction rb arbitrary: k)
  case (Cons p rb)
  obtain key backup where p: "p = (key, backup)" by fastforce
  let ?r = "case backup of Some value \<Rightarrow> eo_Update ops k ''tx_devmap'' (KU32 key) (VU32 value)
      | None \<Rightarrow> eo_Delete ops k ''tx_devmap'' (KU32 key)"
  have ok: "m (KU32 key) = Some v \<Longrightarrow> map_option VU32 backup = Some v" for v
    using Cons.prems(2) p by (auto simp: backup_ok_def)
  have "devmap (fst ?r) = devmap k \<or> devmap (fst ?r) = (devmap k)(KU32 key := map_option VU32 backup)"
    using update_devmap [of k "KU32 key"] delete_done [of k "''tx_devmap''" "KU32 key"]
      delete_failed [of k "''tx_devmap''" "KU32 key"]
    by (cases backup; cases "snd ?r"; cases ?r) auto
  then have "m \<subseteq>\<^sub>m devmap (fst ?r)"
    using Cons.prems(1) ok by (auto simp: map_le_def dom_def)
  then show ?case
    using Cons.IH [of "fst ?r"] Cons.prems(2) by (simp add: p Let_def case_prod_beta)
qed simp

lemma updateDevmap_preserves:
  assumes "updateDevmapTargets ops ss k = (k', stats, rb, e)"
  shows "devmap k \<subseteq>\<^sub>m devmap k' \<and> (\<forall>p\<in>set (case rb of None \<Rightarrow> [] | Some l \<Rightarrow> l). backup_ok (devmap k) p)"
proof (cases "devmap_targets ss []")
  case (Inr targets)
  obtain k1 st updated e1 where
      run: "devmap_loop ops (sort_slice (\<lambda>a b. fst a < fst b) targets) zero_devmap_stats [] k = (k1, st, updated, e1)"
    by (metis prod_cases4)
  show ?thesis
    using assms Inr run devmap_loop_preserves [OF run, of "devmap k"]
    by (auto simp: updateDevmapTargets_def split: if_splits)
qed (use assms in \<open>auto simp: updateDevmapTargets_def\<close>)

end

subsection \<open>The ways through an installation\<close>

abbreviation inactive :: "RuntimeConfigValue \<Rightarrow> u32" where
  "inactive cfg \<equiv> 1 - rc_ActiveSlot cfg"

lemma install_cases:
  assumes "install_policy env cfg s options oc now result ag = (ag', r)"
  obtains
    (clear) e where "snd (clearInactivePolicySlot (env_ops env) (inactive cfg) (ag_kernel ag)) = Some e"
      "ag' = ag\<lparr>ag_kernel := fst (clearInactivePolicySlot (env_ops env) (inactive cfg) (ag_kernel ag))\<rparr>"
      "r = failPolicyApply result ''clear_inactive'' e"
  | (populate) k1 k2 stage e where
      "clearInactivePolicySlot (env_ops env) (inactive cfg) (ag_kernel ag) = (k1, None)"
      "populate_slot (env_ops env) (inactive cfg) s k1 = (k2, Some (stage, e))"
      "undo_install (env_ops env) (inactive cfg) ag None k2 result stage (InstallFailed e) = (ag', r)"
  | (devmap) k1 k2 k3 stats rb e where
      "clearInactivePolicySlot (env_ops env) (inactive cfg) (ag_kernel ag) = (k1, None)"
      "populate_slot (env_ops env) (inactive cfg) s k1 = (k2, None)"
      "updateDevmapTargets (env_ops env) (snap_Services s) k2 = (k3, stats, rb, Some e)"
      "undo_install (env_ops env) (inactive cfg) ag rb k3 (result\<lparr>par_DevmapStats := stats\<rparr>)
         ''populate_tx_devmap'' (InstallFailed e) = (ag', r)"
  | (flip) k1 k2 k3 k4 stats rb e where
      "clearInactivePolicySlot (env_ops env) (inactive cfg) (ag_kernel ag) = (k1, None)"
      "populate_slot (env_ops env) (inactive cfg) s k1 = (k2, None)"
      "updateDevmapTargets (env_ops env) (snap_Services s) k2 = (k3, stats, rb, None)"
      "eo_Update (env_ops env) k3 ''runtime_config'' (KU32 0) (VRuntime (next_config s (inactive cfg) now)) = (k4, Some e)"
      "undo_install (env_ops env) (inactive cfg) ag rb k4 (result\<lparr>par_DevmapStats := stats\<rparr>)
         ''runtime_flip'' (FlipFailed e) = (ag', r)"
  | (persist) k1 k2 k3 k4 stats rb fs' e ag1 where
      "clearInactivePolicySlot (env_ops env) (inactive cfg) (ag_kernel ag) = (k1, None)"
      "populate_slot (env_ops env) (inactive cfg) s k1 = (k2, None)"
      "updateDevmapTargets (env_ops env) (snap_Services s) k2 = (k3, stats, rb, None)"
      "eo_Update (env_ops env) k3 ''runtime_config'' (KU32 0) (VRuntime (next_config s (inactive cfg) now)) = (k4, None)"
      "SaveLastValidSnapshot (env_codec env) (ag_fs ag) (ao_SnapshotPath options)
         (LastValidFromPolicySnapshot s (inactive cfg) oc now) = (fs', Some e)"
      "undo_install (env_ops env) (inactive cfg) ag rb
         (fst (eo_Update (env_ops env) k4 ''runtime_config'' (KU32 0) (VRuntime cfg)))
         (result\<lparr>par_DevmapStats := stats\<rparr>) ''persist_last_valid'' (PersistFailed e) = (ag1, r)"
      "ag' = ag1\<lparr>ag_fs := fs'\<rparr>"
  | (applied) k1 k2 k3 k4 stats rb fs' where
      "clearInactivePolicySlot (env_ops env) (inactive cfg) (ag_kernel ag) = (k1, None)"
      "populate_slot (env_ops env) (inactive cfg) s k1 = (k2, None)"
      "updateDevmapTargets (env_ops env) (snap_Services s) k2 = (k3, stats, rb, None)"
      "eo_Update (env_ops env) k3 ''runtime_config'' (KU32 0) (VRuntime (next_config s (inactive cfg) now)) = (k4, None)"
      "ag' = ag\<lparr>ag_kernel := k4, ag_fs := fs', ag_Snapshot := LastValidFromPolicySnapshot s (inactive cfg) oc now,
         ag_snapshotVersion := (if ao_Metrics options then snap_Version s else ag_snapshotVersion ag)\<rparr>"
      "r = result\<lparr>par_DevmapStats := stats, par_Status := policyApplyStatusApplied, par_ActiveSlot := inactive cfg\<rparr>"
      "if ao_SnapshotPath options = [] then fs' = ag_fs ag
       else SaveLastValidSnapshot (env_codec env) (ag_fs ag) (ao_SnapshotPath options)
         (LastValidFromPolicySnapshot s (inactive cfg) oc now) = (fs', None)"
proof -
  obtain k1 e1 where c: "clearInactivePolicySlot (env_ops env) (inactive cfg) (ag_kernel ag) = (k1, e1)"
    by fastforce
  obtain k2 e2 where p: "populate_slot (env_ops env) (inactive cfg) s k1 = (k2, e2)" by fastforce
  obtain k3 stats rb e3 where d: "updateDevmapTargets (env_ops env) (snap_Services s) k2 = (k3, stats, rb, e3)"
    by (metis prod_cases4)
  obtain k4 e4 where u: "eo_Update (env_ops env) k3 ''runtime_config'' (KU32 0)
      (VRuntime (next_config s (inactive cfg) now)) = (k4, e4)" by fastforce
  obtain fs' e5 where w: "(if ao_SnapshotPath options = [] then (ag_fs ag, None)
      else SaveLastValidSnapshot (env_codec env) (ag_fs ag) (ao_SnapshotPath options)
        (LastValidFromPolicySnapshot s (inactive cfg) oc now)) = (fs', e5)" by fastforce
  note i = assms [unfolded install_policy_def Let_def c p d u w prod.case]
  show thesis
  proof (cases e1)
    case (Some e)
    then show ?thesis using i c clear by simp
  next
    case None
    note c = c [unfolded None]
    show ?thesis
    proof (cases e2)
      case (Some se)
      then show ?thesis using i c p \<open>e1 = None\<close> populate [of k1 k2 "fst se" "snd se"] by (cases se) simp
    next
      case None
      note p = p [unfolded None]
      show ?thesis
      proof (cases e3)
        case (Some e)
        then show ?thesis using i c p d \<open>e1 = None\<close> \<open>e2 = None\<close> devmap by simp
      next
        case None
        note d = d [unfolded None]
        note i = i [unfolded \<open>e1 = None\<close> \<open>e2 = None\<close> None option.case]
        show ?thesis
        proof (cases e4)
          case (Some e)
          then show ?thesis using i c p d u flip by simp
        next
          case None
          note u = u [unfolded None]
          note i = i [unfolded None option.case]
          show ?thesis
          proof (cases e5)
            case (Some e)
            then show ?thesis
              using i w persist [OF c p d u] by (auto split: if_splits prod.splits)
          next
            case None
            then show ?thesis
              using i w applied [OF c p d u] by (auto split: if_splits)
          qed
        qed
      qed
    qed
  qed
qed

end
