(* ===== verification/ApplyProps.thy ===== *)
theory ApplyProps
  imports ApplyOutcome
begin

section \<open>Properties of ApplyPolicySnapshot\<close>

text \<open>
  What a successful apply establishes, what a failed one leaves alone, and what every sequence of
  applies preserves. The lemmas are proved once for all kernels with the interface
  \<open>ebpf_kernel\<close>; the properties restate them for \<open>ApplyPolicySnapshot\<close>.
\<close>

subsection \<open>Undoing\<close>

lemma failPolicyApply_sel [simp]:
  "par_Status (failPolicyApply r stage e) = policyApplyStatusFailed"
  "par_ErrorStage (failPolicyApply r stage e) = stage"
  "par_ErrorReason (failPolicyApply r stage e) = Some e"
  "par_DevmapStats (failPolicyApply r stage e) = par_DevmapStats r"
  by (simp_all add: failPolicyApply_def)

lemma applied_not_failed [simp]:
  "policyApplyStatusApplied \<noteq> policyApplyStatusFailed" "policyApplyStatusFailed \<noteq> policyApplyStatusApplied"
  by (simp_all add: policyApplyStatusApplied_def policyApplyStatusFailed_def)

lemma populate_stage_names:
  "populate_slot ops slot s k = (k', Some (stage, e)) \<Longrightarrow> stage \<noteq> ''persist_last_valid''"
  by (auto simp: populate_slot_def Let_def bind_err_def populate_stage_def split: prod.splits option.splits)

lemma undo_sel:
  assumes "undo_install ops slot ag rb k r0 stage e = (ag', r)"
  shows "ag_fs ag' = ag_fs ag" "ag_Snapshot ag' = ag_Snapshot ag" "par_Status r = policyApplyStatusFailed"
    "par_ErrorStage r = stage" "par_ErrorReason r = Some e"
    "ag_kernel ag' = rollbackInactive ops slot (fst (rollbackDevmap ops rb (k, r0)))"
  using assms by (auto simp: undo_install_def split: prod.splits)

lemma devmap_targets_keep:
  "devmap_targets ss t = Inr t' \<Longrightarrow> map_of t key = Some v \<Longrightarrow> map_of t' key = Some v"
proof (induction ss arbitrary: t)
  case (Cons s ss)
  then have "map_of (upd (ps_DevmapKey s) (ps_OutputIfindex s) t) key = Some v"
    by (auto split: option.splits if_splits)
  then show ?case using Cons by (auto split: option.splits if_splits)
qed simp

lemma devmap_targets_service:
  "devmap_targets ss t = Inr t' \<Longrightarrow> s \<in> set ss \<Longrightarrow> map_of t' (ps_DevmapKey s) = Some (ps_OutputIfindex s)"
  by (induction ss arbitrary: t) (auto split: option.splits if_splits intro: devmap_targets_keep)

lemma install_applied_steps:
  assumes "install_policy env cfg s options oc now result ag = (ag', r)"
    and S: "par_Status r = policyApplyStatusApplied"
  obtains k1 k2 k3 k4 stats rb fs' where
      "clearInactivePolicySlot (env_ops env) (inactive cfg) (ag_kernel ag) = (k1, None)"
      "populate_slot (env_ops env) (inactive cfg) s k1 = (k2, None)"
      "updateDevmapTargets (env_ops env) (snap_Services s) k2 = (k3, stats, rb, None)"
      "eo_Update (env_ops env) k3 ''runtime_config'' (KU32 0) (VRuntime (next_config s (inactive cfg) now)) = (k4, None)"
      "ag' = ag\<lparr>ag_kernel := k4, ag_fs := fs', ag_Snapshot := LastValidFromPolicySnapshot s (inactive cfg) oc now,
         ag_snapshotVersion := (if ao_Metrics options then snap_Version s else ag_snapshotVersion ag)\<rparr>"
      "r = result\<lparr>par_DevmapStats := stats, par_Status := policyApplyStatusApplied, par_ActiveSlot := inactive cfg\<rparr>"
      "if ao_SnapshotPath options = [] then fs' = ag_fs ag
       else SaveLastValidSnapshot (env_codec env) (ag_fs ag) (ao_SnapshotPath options)
         (LastValidFromPolicySnapshot s (inactive cfg) oc now) = (fs', None)"
  using assms(1)
proof (cases rule: install_cases)
  case (clear e)
  then show ?thesis using S by simp
next
  case (populate k1 k2 stage e)
  then show ?thesis using S undo_sel(3) [OF populate(3)] by simp
next
  case (devmap k1 k2 k3 stats rb e)
  then show ?thesis using S undo_sel(3) [OF devmap(4)] by simp
next
  case (flip k1 k2 k3 k4 stats rb e)
  then show ?thesis using S undo_sel(3) [OF flip(5)] by simp
next
  case (persist k1 k2 k3 k4 stats rb fs' e ag1)
  then show ?thesis using S undo_sel(3) [OF persist(6)] by simp
next
  case (applied k1 k2 k3 k4 stats rb fs')
  then show ?thesis by (rule that)
qed

lemma save_faults:
  assumes "SaveLastValidSnapshot jc fs path s = (fs', Some e)" and "p \<noteq> path @ ''.tmp''"
  shows "fs_files fs' p = fs_files fs p"
  by (rule Save_cases [of jc fs path s]) (use assms in auto)

context ebpf_kernel
begin

abbreviation touched :: "RuntimeConfigValue \<Rightarrow> string set" where
  "touched cfg \<equiv> insert ''tx_devmap'' (slot_maps (inactive cfg))"

lemma rollbackDevmap_outside: "same_outside {''tx_devmap''} k (fst (rollbackDevmap ops rb (k, r)))"
  using run_rollback_outside by (cases rb) (auto simp: rollbackDevmap_def case_prod_beta)

lemma rollbackInactive_outside: "same_outside (slot_maps slot) k (rollbackInactive ops slot k)"
  by (simp add: rollbackInactive_def clear_slot_outside)

lemma undo_outside:
  assumes "undo_install ops (inactive cfg) ag rb k r0 stage e = (ag', r)"
  shows "same_outside (touched cfg) k (ag_kernel ag')"
  unfolding undo_sel(6) [OF assms]
  by (rule same_outside_trans [OF same_outside_mono [OF rollbackDevmap_outside]
        same_outside_mono [OF rollbackInactive_outside]]) auto

lemma undo_devmap:
  assumes "undo_install ops slot ag rb k r0 stage e = (ag', r)" and "m \<subseteq>\<^sub>m devmap k"
    and "\<forall>p\<in>set (case rb of None \<Rightarrow> [] | Some l \<Rightarrow> l). backup_ok m p"
  shows "m \<subseteq>\<^sub>m devmap (ag_kernel ag')"
proof -
  let ?k = "fst (rollbackDevmap ops rb (k, r0))"
  have "m \<subseteq>\<^sub>m devmap ?k"
    using assms(2,3) run_rollback_preserves [of m k] by (cases rb) (auto simp: rollbackDevmap_def case_prod_beta)
  moreover have "devmap (rollbackInactive ops slot ?k) = devmap ?k"
    using rollbackInactive_outside [of slot ?k] by (simp add: same_outside_def)
  ultimately show ?thesis by (simp add: undo_sel(6) [OF assms(1)])
qed

lemma install_steps_outside:
  assumes "clearInactivePolicySlot ops (inactive cfg) k = (k1, e1)"
  shows "same_outside (touched cfg) k k1"
    and "populate_slot ops (inactive cfg) s k1 = (k2, e2) \<Longrightarrow> same_outside (touched cfg) k k2"
    and "populate_slot ops (inactive cfg) s k1 = (k2, e2) \<Longrightarrow>
      updateDevmapTargets ops ss k2 = (k3, st, rb, e3) \<Longrightarrow> same_outside (touched cfg) k k3"
proof -
  have 1: "same_outside (touched cfg) k k1"
    using same_outside_mono [OF clear_slot_outside [of "inactive cfg" k], of "touched cfg"] assms by auto
  have 2: "same_outside (touched cfg) k1 k2" if "populate_slot ops (inactive cfg) s k1 = (k2, e2)"
    using same_outside_mono [OF populate_slot_outside [of "inactive cfg" k1 s], of "touched cfg"] that by auto
  have 3: "same_outside (touched cfg) k2 k3" if "updateDevmapTargets ops ss k2 = (k3, st, rb, e3)"
    using same_outside_mono [OF updateDevmap_outside [of k2 ss], of "touched cfg"] that by auto
  show "same_outside (touched cfg) k k1" by (rule 1)
  show "populate_slot ops (inactive cfg) s k1 = (k2, e2) \<Longrightarrow> same_outside (touched cfg) k k2"
    using 1 2 same_outside_trans by blast
  show "populate_slot ops (inactive cfg) s k1 = (k2, e2) \<Longrightarrow>
      updateDevmapTargets ops ss k2 = (k3, st, rb, e3) \<Longrightarrow> same_outside (touched cfg) k k3"
    using 1 2 3 same_outside_trans by blast
qed

lemma devmap_unchanged:
  assumes "same_outside (slot_maps slot) k k'"
  shows "devmap k' = devmap k"
  using assms by (simp add: same_outside_def)

lemma populate_devmap:
  assumes "clearInactivePolicySlot ops (inactive cfg) k = (k1, e1)"
    and "populate_slot ops (inactive cfg) s k1 = (k2, e2)"
  shows "devmap k2 = devmap k"
  using clear_slot_outside [of "inactive cfg" k] populate_slot_outside [of "inactive cfg" k1 s]
    assms devmap_unchanged by (metis fst_conv)

text \<open>Every way an installation fails.\<close>

definition fails_safely :: "RuntimeConfigValue \<Rightarrow> RuntimeConfigValue \<Rightarrow> string \<Rightarrow> 'k \<Rightarrow> 'k \<Rightarrow> bool" where
  "fails_safely cfg new stage k k' \<longleftrightarrow>
     same_outside (insert ''runtime_config'' (touched cfg)) k k' \<and>
     (stage \<noteq> ''persist_last_valid'' \<longrightarrow> view k' ''runtime_config'' = view k ''runtime_config'') \<and>
     view k' ''runtime_config'' \<in> {view k ''runtime_config'',
       (view k ''runtime_config'')(KU32 0 \<mapsto> VRuntime cfg), (view k ''runtime_config'')(KU32 0 \<mapsto> VRuntime new)} \<and>
     devmap k \<subseteq>\<^sub>m devmap k'"

lemma fails_safely_outside:
  "same_outside (touched cfg) k k' \<Longrightarrow> devmap k \<subseteq>\<^sub>m devmap k' \<Longrightarrow> fails_safely cfg new stage k k'"
  by (auto simp: fails_safely_def same_outside_def)

lemma persist_failed:
  assumes "clearInactivePolicySlot ops (inactive cfg) k = (k1, None)"
    and "populate_slot ops (inactive cfg) s k1 = (k2, None)"
    and "updateDevmapTargets ops (snap_Services s) k2 = (k3, stats, rb, None)"
    and "eo_Update ops k3 ''runtime_config'' (KU32 0) (VRuntime (next_config s (inactive cfg) now)) = (k4, None)"
    and "undo_install ops (inactive cfg) ag rb (fst (eo_Update ops k4 ''runtime_config'' (KU32 0) (VRuntime cfg)))
      r0 ''persist_last_valid'' e = (ag1, r)"
  shows "fails_safely cfg (next_config s (inactive cfg) now) ''persist_last_valid'' k (ag_kernel ag1)"
proof -
  note steps = assms
  let ?new = "next_config s (inactive cfg) now"
  let ?k5 = "fst (eo_Update ops k4 ''runtime_config'' (KU32 0) (VRuntime cfg))"
  have k3: "same_outside (touched cfg) k k3"
    using install_steps_outside [OF steps(1)] steps(2,3) by blast
  have k4: "view k4 = (view k3)(''runtime_config'' := (view k3 ''runtime_config'')(KU32 0 \<mapsto> VRuntime ?new))"
    by (rule update_done [OF steps(4)])
  have k5: "view ?k5 = view k4 \<or>
      view ?k5 = (view k4)(''runtime_config'' := (view k4 ''runtime_config'')(KU32 0 \<mapsto> VRuntime cfg))"
    using update_done [of k4 "''runtime_config''" "KU32 0" "VRuntime cfg" ?k5]
      update_failed [of k4 "''runtime_config''" "KU32 0" "VRuntime cfg" ?k5]
    by (metis not_None_eq prod.collapse)
  have out: "same_outside (touched cfg) ?k5 (ag_kernel ag1)" by (rule undo_outside [OF steps(5)])
  have rc: "view (ag_kernel ag1) ''runtime_config'' \<in>
      {(view k ''runtime_config'')(KU32 0 \<mapsto> VRuntime cfg),
       (view k ''runtime_config'')(KU32 0 \<mapsto> VRuntime ?new)}"
    using out k3 k4 k5 by (auto simp: same_outside_def)
  have "devmap ?k5 = devmap k3" using k4 k5 by auto
  then have dm: "devmap k \<subseteq>\<^sub>m devmap (ag_kernel ag1)"
    using undo_devmap [OF steps(5), of "devmap k"] updateDevmap_preserves [OF steps(3)]
      populate_devmap [OF steps(1,2)] by simp
  have "view (ag_kernel ag1) n = view k n"
    if "n \<notin> insert ''runtime_config'' (touched cfg)" for n
    using that out k3 k4 k5 by (auto simp: same_outside_def)
  then show "fails_safely cfg ?new ''persist_last_valid'' k (ag_kernel ag1)"
    unfolding fails_safely_def using rc dm by (auto simp: same_outside_def)
qed

lemma install_failed:
  assumes I: "install_policy env cfg s options oc now result ag = (ag', r)" and E: "env_ops env = ops"
    and S: "par_Status r = policyApplyStatusFailed"
  shows "fails_safely cfg (next_config s (inactive cfg) now) (par_ErrorStage r) (ag_kernel ag) (ag_kernel ag') \<and>
    ag_Snapshot ag' = ag_Snapshot ag \<and>
    (\<forall>p. p \<noteq> ao_SnapshotPath options @ ''.tmp'' \<longrightarrow> fs_files (ag_fs ag') p = fs_files (ag_fs ag) p)"
  using I
proof (cases rule: install_cases)
  case (clear e)
  then have "same_outside (slot_maps (inactive cfg)) (ag_kernel ag) (ag_kernel ag')"
    using clear_slot_outside [of "inactive cfg" "ag_kernel ag"] by (simp add: E)
  then show ?thesis
    using clear fails_safely_outside same_outside_mono [of "slot_maps (inactive cfg)"] devmap_unchanged
    by (auto simp: subset_insertI)
next
  case (populate k1 k2 stage e)
  note steps = populate [unfolded E]
  have k2: "same_outside (touched cfg) (ag_kernel ag) k2"
    using install_steps_outside [OF steps(1)] steps(2) by blast
  have "devmap (ag_kernel ag) \<subseteq>\<^sub>m devmap (ag_kernel ag')"
    using undo_devmap [OF steps(3), of "devmap (ag_kernel ag)"] populate_devmap [OF steps(1,2)] by simp
  moreover have "same_outside (touched cfg) (ag_kernel ag) (ag_kernel ag')"
    by (rule same_outside_trans [OF k2 undo_outside [OF steps(3)]])
  ultimately show ?thesis using undo_sel [OF steps(3)] fails_safely_outside by simp
next
  case (devmap k1 k2 k3 stats rb e)
  note steps = devmap [unfolded E]
  have k3: "same_outside (touched cfg) (ag_kernel ag) k3"
    using install_steps_outside [OF steps(1)] steps(2,3) by blast
  have "devmap (ag_kernel ag) \<subseteq>\<^sub>m devmap (ag_kernel ag')"
    using undo_devmap [OF steps(4), of "devmap (ag_kernel ag)"] updateDevmap_preserves [OF steps(3)]
      populate_devmap [OF steps(1,2)] by simp
  moreover have "same_outside (touched cfg) (ag_kernel ag) (ag_kernel ag')"
    by (rule same_outside_trans [OF k3 undo_outside [OF steps(4)]])
  ultimately show ?thesis using undo_sel [OF steps(4)] fails_safely_outside by simp
next
  case (flip k1 k2 k3 k4 stats rb e)
  note steps = flip [unfolded E]
  have k3: "same_outside (touched cfg) (ag_kernel ag) k3"
    using install_steps_outside [OF steps(1)] steps(2,3) by blast
  have k4: "view k4 = view k3" by (rule update_failed [OF steps(4)])
  have "devmap (ag_kernel ag) \<subseteq>\<^sub>m devmap (ag_kernel ag')"
    using undo_devmap [OF steps(5), of "devmap (ag_kernel ag)"] updateDevmap_preserves [OF steps(3)]
      populate_devmap [OF steps(1,2)] unfolding k4 by simp
  moreover have "same_outside (touched cfg) (ag_kernel ag) (ag_kernel ag')"
    using same_outside_trans [OF _ undo_outside [OF steps(5)], of "ag_kernel ag"] k3
    by (simp add: same_outside_def k4)
  ultimately show ?thesis using undo_sel [OF steps(5)] fails_safely_outside by simp
next
  case (persist k1 k2 k3 k4 stats rb fs' e ag1)
  note steps = persist [unfolded E]
  show ?thesis
    using persist_failed [OF steps(1-4,6)] save_faults [OF steps(5)] undo_sel [OF steps(6)] steps(7) by simp
next
  case (applied k1 k2 k3 k4 stats rb fs')
  then show ?thesis using S by simp
qed

subsection \<open>Success\<close>

lemma devmap_loop_sets:
  assumes "devmap_loop ops ts stats rb k = (k', stats', rb', None)" and "(key, desired) \<in> set ts"
  shows "devmap k' (KU32 key) = Some (VU32 desired)"
  using assms
proof (induction ts arbitrary: k stats rb)
  case (Cons t ts)
  obtain key1 desired1 where t: "t = (key1, desired1)" by fastforce
  have continue: ?case
    if u: "eo_Update ops k ''tx_devmap'' (KU32 key1) (VU32 desired1) = (k1, None)"
      and d: "devmap_loop ops ((key1, desired1) # ts) stats rb k =
        devmap_loop ops ts (touch_update stats) ((key1, b) # rb) k1" for k1 b
  proof (cases "(key, desired) \<in> set ts")
    case True
    then show ?thesis using Cons.IH Cons.prems d t by simp
  next
    case False
    then have "[KU32 key \<mapsto> VU32 desired] \<subseteq>\<^sub>m devmap k1"
      using Cons.prems t update_devmap(1) [OF u] by (simp add: map_le_def)
    then have "[KU32 key \<mapsto> VU32 desired] \<subseteq>\<^sub>m devmap k'"
      using devmap_loop_preserves [of ts "touch_update stats" "(key1, b) # rb" k1] Cons.prems d t by simp
    then show ?thesis by (simp add: map_le_def)
  qed
  show ?case
    by (rule devmap_loop_cases [of ops key1 desired1 ts stats rb k]) (use Cons.prems t continue in auto)
qed simp

lemma updateDevmap_sets:
  assumes "updateDevmapTargets ops ss k = (k', stats, rb, None)" and "v \<in> set ss"
  shows "devmap k' (KU32 (ps_DevmapKey v)) = Some (VU32 (ps_OutputIfindex v))"
proof -
  from assms(1) obtain targets where t: "devmap_targets ss [] = Inr targets"
    by (auto simp: updateDevmapTargets_def split: sum.splits)
  have mem: "(ps_DevmapKey v, ps_OutputIfindex v) \<in> set targets"
    using devmap_targets_service [OF t assms(2)] by (rule map_of_SomeD)
  obtain k1 st updated e1 where
      run: "devmap_loop ops (sort_slice (\<lambda>a b. fst a < fst b) targets) zero_devmap_stats [] k = (k1, st, updated, e1)"
    by (metis prod_cases4)
  with assms(1) t mem have "k1 = k'" "e1 = None"
    by (auto simp: updateDevmapTargets_def split: if_splits)
  with devmap_loop_sets [of _ _ _ k k'] run mem show ?thesis by simp
qed

lemma holds_policy_cong:
  assumes "\<And>n. n \<in> slot_maps slot \<Longrightarrow> v' n = v n"
  shows "holds_policy v' maxRules slot s = holds_policy v maxRules slot s"
proof -
  have rule: "v' (policySlotMap ''rule_config'' slot) = v (policySlotMap ''rule_config'' slot)"
    by (rule assms) (simp add: policy_maps_def)
  have "\<forall>p\<in>set (policy_contents s). v' (policySlotMap (fst p) slot) = v (policySlotMap (fst p) slot)"
    using assms by (simp add: policy_contents_def policy_maps_def)
  then show ?thesis
    unfolding holds_policy_def rule split_beta by simp
qed

lemma install_applied:
  assumes I: "install_policy env cfg s options oc now result ag = (ag', r)" and E: "env_ops env = ops"
    and S: "par_Status r = policyApplyStatusApplied" and A: "installable t s"
  shows "holds_policy (view (ag_kernel ag')) (eo_MaxEntries ops (policySlotMap ''rule_config'' (inactive cfg)))
      (inactive cfg) s"
    and "view (ag_kernel ag') ''runtime_config'' =
      (view (ag_kernel ag) ''runtime_config'')(KU32 0 \<mapsto> VRuntime (next_config s (inactive cfg) now))"
    and "same_outside (insert ''runtime_config'' (touched cfg)) (ag_kernel ag) (ag_kernel ag')"
    and "devmap (ag_kernel ag) \<subseteq>\<^sub>m devmap (ag_kernel ag')"
    and "\<forall>v\<in>set (snap_Services s). devmap (ag_kernel ag') (KU32 (ps_DevmapKey v)) = Some (VU32 (ps_OutputIfindex v))"
    and "ag_Snapshot ag' = LastValidFromPolicySnapshot s (inactive cfg) oc now"
    and "par_ActiveSlot r = inactive cfg"
proof -
  obtain k1 k2 k3 k4 stats rb fs' where
      steps: "clearInactivePolicySlot ops (inactive cfg) (ag_kernel ag) = (k1, None)"
      "populate_slot ops (inactive cfg) s k1 = (k2, None)"
      "updateDevmapTargets ops (snap_Services s) k2 = (k3, stats, rb, None)"
      "eo_Update ops k3 ''runtime_config'' (KU32 0) (VRuntime (next_config s (inactive cfg) now)) = (k4, None)"
      and ag': "ag' = ag\<lparr>ag_kernel := k4, ag_fs := fs', ag_Snapshot := LastValidFromPolicySnapshot s (inactive cfg) oc now,
         ag_snapshotVersion := (if ao_Metrics options then snap_Version s else ag_snapshotVersion ag)\<rparr>"
      and r: "r = result\<lparr>par_DevmapStats := stats, par_Status := policyApplyStatusApplied, par_ActiveSlot := inactive cfg\<rparr>"
    by (rule install_applied_steps [OF I S, unfolded E]) (rule that)
  have k4: "view k4 = (view k3)(''runtime_config'' := (view k3 ''runtime_config'')
      (KU32 0 \<mapsto> VRuntime (next_config s (inactive cfg) now)))"
    by (rule update_done [OF steps(4)])
  have k3: "same_outside (touched cfg) (ag_kernel ag) k3"
    using install_steps_outside [OF steps(1)] steps(2,3) by blast
  have k23: "view k4 n = view k2 n" if "n \<in> slot_maps (inactive cfg)" for n
  proof -
    from that have "n \<noteq> ''tx_devmap''" and "n \<noteq> ''runtime_config''" by auto
    then show ?thesis
      using updateDevmap_outside [of k2 "snap_Services s"] steps(3) k4 by (simp add: same_outside_def)
  qed
  show "holds_policy (view (ag_kernel ag')) (eo_MaxEntries ops (policySlotMap ''rule_config'' (inactive cfg)))
      (inactive cfg) s"
    using slot_filled [OF steps(1,2) A] holds_policy_cong [OF k23] by (simp add: ag')
  show "view (ag_kernel ag') ''runtime_config'' =
      (view (ag_kernel ag) ''runtime_config'')(KU32 0 \<mapsto> VRuntime (next_config s (inactive cfg) now))"
    using k3 by (simp add: ag' k4 same_outside_def)
  show "same_outside (insert ''runtime_config'' (touched cfg)) (ag_kernel ag) (ag_kernel ag')"
    using k3 by (simp add: ag' k4 same_outside_def)
  have dm: "devmap k4 = devmap k3" by (simp add: k4)
  show "devmap (ag_kernel ag) \<subseteq>\<^sub>m devmap (ag_kernel ag')"
    using updateDevmap_preserves [OF steps(3)] populate_devmap [OF steps(1,2)] by (simp add: ag' dm)
  show "\<forall>v\<in>set (snap_Services s). devmap (ag_kernel ag') (KU32 (ps_DevmapKey v)) = Some (VU32 (ps_OutputIfindex v))"
    using updateDevmap_sets [OF steps(3)] by (simp add: ag' dm)
  show "ag_Snapshot ag' = LastValidFromPolicySnapshot s (inactive cfg) oc now" by (simp add: ag')
  show "par_ActiveSlot r = inactive cfg" by (simp add: r)
qed

end

subsection \<open>The ways through an apply\<close>

abbreviation apply_now :: "('k, 'n) apply_env \<Rightarrow> PolicyApplyOptions \<Rightarrow> int" where
  "apply_now env options \<equiv> (case ao_Now options of None \<Rightarrow> env_clock env | Some t \<Rightarrow> t)"

abbreviation apply_checksum :: "PolicyApplyOptions \<Rightarrow> ('k, 'n) agent \<Rightarrow> string" where
  "apply_checksum options ag \<equiv>
    (if ao_ObjectChecksum options = [] then ag_ObjectChecksum ag else ao_ObjectChecksum options)"

text \<open>The snapshot that is installed: resolved, then signed.\<close>

definition installs ::
    "('k, 'n) apply_env \<Rightarrow> PolicyApplyOptions \<Rightarrow> PolicySnapshot \<Rightarrow> ('k, 'n) agent \<Rightarrow> RuntimeConfigValue \<Rightarrow>
     PolicySnapshot \<Rightarrow> bool" where
  "installs env options snapshot ag cfg s \<longleftrightarrow>
     (case fst (resolvePolicySnapshotServices (env_resolver env) snapshot (ag_net ag)) of
        Inl _ \<Rightarrow> False
      | Inr resolved \<Rightarrow> s = SignPolicySnapshot (jc_digest (env_codec env)) resolved) \<and>
     readRuntimeConfig (env_ops env) (ag_kernel ag) = Inr cfg \<and> rc_ActiveSlot cfg \<le> 1 \<and>
     snd (VerifyPolicySnapshot (jc_digest (env_codec env)) (env_clock env) s
       (verify_options cfg options (apply_checksum options ag) (apply_now env options) False)) = []"

lemma apply_cases:
  assumes "ApplyPolicySnapshot env loaded snapshot options ag = (ag', r)"
  obtains (rejected) "ag_kernel ag' = ag_kernel ag" "ag_fs ag' = ag_fs ag" "ag_Snapshot ag' = ag_Snapshot ag"
      "par_Status r = policyApplyStatusFailed" "par_ErrorStage r \<noteq> ''persist_last_valid''"
  | (installed) cfg s n result where "installs env options snapshot ag cfg s"
      "install_policy env cfg s options (apply_checksum options ag) (apply_now env options) result
        (ag\<lparr>ag_net := n\<rparr>) = (ag', r)"
proof -
  note a = assms [unfolded ApplyPolicySnapshot_def Let_def]
  show thesis
  proof (cases "loaded \<and> is_ok (readRuntimeConfig (env_ops env) (ag_kernel ag))")
    case False
    then show ?thesis
      using a rejected by (cases loaded; cases "readRuntimeConfig (env_ops env) (ag_kernel ag)") auto
  next
    case True
    then obtain cfg where cfg: "readRuntimeConfig (env_ops env) (ag_kernel ag) = Inr cfg" and loaded
      by (auto simp: is_ok_iff)
    obtain res n where res: "resolvePolicySnapshotServices (env_resolver env) snapshot (ag_net ag) = (res, n)"
      by fastforce
    note a = a [unfolded cfg res sum.case case_prod_beta fst_conv snd_conv]
    show ?thesis
    proof (cases res)
      case (Inl e)
      then show ?thesis using a \<open>loaded\<close> rejected by (auto split: if_splits)
    next
      case (Inr resolved)
      let ?s = "SignPolicySnapshot (jc_digest (env_codec env)) resolved"
      consider (no) "ag_kernel ag' = ag_kernel ag" "ag_fs ag' = ag_fs ag" "ag_Snapshot ag' = ag_Snapshot ag"
          "par_Status r = policyApplyStatusFailed" "par_ErrorStage r \<noteq> ''persist_last_valid''"
        | (yes) result where "rc_ActiveSlot cfg \<le> 1"
          "snd (VerifyPolicySnapshot (jc_digest (env_codec env)) (env_clock env) ?s
            (verify_options cfg options (apply_checksum options ag) (apply_now env options) False)) = []"
          "install_policy env cfg ?s options (apply_checksum options ag) (apply_now env options) result
            (ag\<lparr>ag_net := n\<rparr>) = (ag', r)"
        using a \<open>loaded\<close> Inr by (simp add: not_less split: if_split_asm) auto
      then show ?thesis
        using rejected installed cfg res Inr by cases (auto simp: installs_def)
    qed
  qed
qed

lemma resolved_version:
  assumes "fst (resolvePolicySnapshotServices resolver snapshot n) = Inr resolved"
  shows "snap_Version resolved = snap_Version snapshot"
  using assms by (auto simp: resolvePolicySnapshotServices_def Let_def split: prod.splits sum.splits)

lemma installs_facts:
  assumes "installs env options snapshot ag cfg s"
  shows "installable (word_of_int (apply_now env options)) s" and "snap_Version s = snap_Version snapshot"
    and "rc_PolicyVersion cfg < snap_Version s" and "rc_ActiveSlot cfg \<le> 1"
    and "readRuntimeConfig (env_ops env) (ag_kernel ag) = Inr cfg"
proof -
  have v: "snd (VerifyPolicySnapshot (jc_digest (env_codec env)) (env_clock env) s
      (verify_options cfg options (apply_checksum options ag) (apply_now env options) False)) = []"
    using assms by (simp add: installs_def)
  show "installable (word_of_int (apply_now env options)) s"
    using accepted_installable [OF v] by (simp add: verify_options_def)
  show "rc_PolicyVersion cfg < snap_Version s"
    using accepted_header(2,3) [OF v]
    by (cases "rc_PolicyVersion cfg = 0") (auto simp: verify_options_def word_neq_0_conv)
  show "snap_Version s = snap_Version snapshot"
    using assms resolved_version [of "env_resolver env" snapshot "ag_net ag"]
    by (auto simp: installs_def SignPolicySnapshot_def split: sum.splits)
qed (use assms in \<open>simp_all add: installs_def\<close>)

lemma slots_of_config:
  assumes "rc_ActiveSlot cfg \<le> 1"
  shows "slot_maps (rc_ActiveSlot cfg) \<inter> slot_maps (1 - rc_ActiveSlot cfg) = {}" and "1 - rc_ActiveSlot cfg \<le> 1"
proof -
  have "unat (rc_ActiveSlot cfg) = 0 \<or> unat (rc_ActiveSlot cfg) = 1"
    using assms by (auto simp: word_le_nat_alt)
  then have "rc_ActiveSlot cfg = 0 \<or> rc_ActiveSlot cfg = 1"
    by (simp add: word_unat_eq_iff)
  then show "slot_maps (rc_ActiveSlot cfg) \<inter> slot_maps (1 - rc_ActiveSlot cfg) = {}" "1 - rc_ActiveSlot cfg \<le> 1"
    using slot_maps_disjoint by (auto simp: Int_commute)
qed

context ebpf_kernel
begin

lemma read_config:
  assumes "readRuntimeConfig ops k = Inr cfg"
  shows "view k ''runtime_config'' (KU32 0) = Some (VRuntime cfg)"
  using assms by (auto simp: readRuntimeConfig_def split: if_splits sum.splits map_val.splits intro: lookup_present)

lemma apply_success:
  assumes A: "ApplyPolicySnapshot env loaded snapshot options ag = (ag', r)" and E: "env_ops env = ops"
    and S: "par_Status r = policyApplyStatusApplied"
  obtains cfg s where "installs env options snapshot ag cfg s"
    "view (ag_kernel ag') ''runtime_config'' =
      (view (ag_kernel ag) ''runtime_config'')(KU32 0 \<mapsto> VRuntime (next_config s (inactive cfg) (apply_now env options)))"
    "holds_policy (view (ag_kernel ag')) (eo_MaxEntries ops (policySlotMap ''rule_config'' (inactive cfg))) (inactive cfg) s"
    "\<forall>v\<in>set (snap_Services s). devmap (ag_kernel ag') (KU32 (ps_DevmapKey v)) = Some (VU32 (ps_OutputIfindex v))"
    "same_outside (insert ''runtime_config'' (touched cfg)) (ag_kernel ag) (ag_kernel ag')"
    "devmap (ag_kernel ag) \<subseteq>\<^sub>m devmap (ag_kernel ag')"
    "ag_Snapshot ag' = LastValidFromPolicySnapshot s (inactive cfg) (apply_checksum options ag) (apply_now env options)"
    "par_ActiveSlot r = inactive cfg"
  using A
proof (cases rule: apply_cases)
  case rejected
  then show ?thesis using S by simp
next
  case (installed cfg s n result)
  note i = install_applied [OF installed(2) E S installs_facts(1) [OF installed(1)]]
  show ?thesis
    by (rule that [OF installed(1)]) (use i in simp_all)
qed

lemma apply_failure:
  assumes A: "ApplyPolicySnapshot env loaded snapshot options ag = (ag', r)" and E: "env_ops env = ops"
    and S: "par_Status r = policyApplyStatusFailed"
  shows "view (ag_kernel ag') = view (ag_kernel ag) \<and> par_ErrorStage r \<noteq> ''persist_last_valid'' \<or>
    (\<exists>cfg s. installs env options snapshot ag cfg s \<and>
      fails_safely cfg (next_config s (inactive cfg) (apply_now env options)) (par_ErrorStage r)
        (ag_kernel ag) (ag_kernel ag'))"
    and "ag_Snapshot ag' = ag_Snapshot ag"
    and "p \<noteq> ao_SnapshotPath options @ ''.tmp'' \<Longrightarrow> fs_files (ag_fs ag') p = fs_files (ag_fs ag) p"
proof -
  have "(view (ag_kernel ag') = view (ag_kernel ag) \<and> par_ErrorStage r \<noteq> ''persist_last_valid'' \<or>
    (\<exists>cfg s. installs env options snapshot ag cfg s \<and>
      fails_safely cfg (next_config s (inactive cfg) (apply_now env options)) (par_ErrorStage r)
        (ag_kernel ag) (ag_kernel ag'))) \<and> ag_Snapshot ag' = ag_Snapshot ag \<and>
    (\<forall>p. p \<noteq> ao_SnapshotPath options @ ''.tmp'' \<longrightarrow> fs_files (ag_fs ag') p = fs_files (ag_fs ag) p)"
    using A
  proof (cases rule: apply_cases)
    case rejected
    then show ?thesis by simp
  next
    case (installed cfg s n result)
    then show ?thesis using install_failed [OF installed(2) E S] by auto
  qed
  then show "view (ag_kernel ag') = view (ag_kernel ag) \<and> par_ErrorStage r \<noteq> ''persist_last_valid'' \<or>
    (\<exists>cfg s. installs env options snapshot ag cfg s \<and>
      fails_safely cfg (next_config s (inactive cfg) (apply_now env options)) (par_ErrorStage r)
        (ag_kernel ag) (ag_kernel ag'))"
    and "ag_Snapshot ag' = ag_Snapshot ag"
    and "p \<noteq> ao_SnapshotPath options @ ''.tmp'' \<Longrightarrow> fs_files (ag_fs ag') p = fs_files (ag_fs ag) p"
    by blast+
qed

lemma apply_status:
  assumes A: "ApplyPolicySnapshot env loaded snapshot options ag = (ag', r)"
  shows "par_Status r = policyApplyStatusApplied \<or> par_Status r = policyApplyStatusFailed"
  using A
proof (cases rule: apply_cases)
  case (installed cfg s n result)
  from installed(2) show ?thesis by (cases rule: install_cases) (simp_all add: undo_sel(3))
qed simp

end

end
