(* ===== verification/ApplySafety.thy ===== *)
theory ApplySafety
  imports ApplyProps
begin

section \<open>Safety of policy installation\<close>

text \<open>
  The properties of \<^verbatim>\<open>ApplyPolicySnapshot\<close> stated over its model, for every kernel with the
  interface \<open>ebpf_kernel\<close>; runs of several applies as an inductive relation; and the properties
  at a concrete agent on the simulated kernel, with and without injected faults.
\<close>

subsection \<open>Runs\<close>

text \<open>A run of the agent: any sequence of applies, with any snapshots, options, clocks and resolvers.\<close>

inductive agent_run :: "'k ebpf_ops \<Rightarrow> ('k, 'n) agent \<Rightarrow> ('k, 'n) agent \<Rightarrow> bool" for ops where
  start: "agent_run ops ag ag"
| apply_step: "agent_run ops ag ag1 \<Longrightarrow> env_ops env = ops \<Longrightarrow>
    ApplyPolicySnapshot env loaded snapshot options ag1 = (ag2, r) \<Longrightarrow> agent_run ops ag ag2"

text \<open>The configuration the data plane reads: the active slot is 0 or 1.\<close>

definition live_config :: "map_view \<Rightarrow> RuntimeConfigValue \<Rightarrow> bool" where
  "live_config v cfg \<longleftrightarrow> v ''runtime_config'' (KU32 0) = Some (VRuntime cfg) \<and> rc_ActiveSlot cfg \<le> 1"

context ebpf_kernel
begin

lemma failure_config:
  assumes "ApplyPolicySnapshot env loaded snapshot options ag = (ag', r)" and "env_ops env = ops"
    and "par_Status r = policyApplyStatusFailed" and live: "live_config (view (ag_kernel ag)) cfg"
  shows "live_config (view (ag_kernel ag')) cfg \<or>
    (par_ErrorStage r = ''persist_last_valid'' \<and> (\<exists>s. installs env options snapshot ag cfg s \<and>
       live_config (view (ag_kernel ag')) (next_config s (1 - rc_ActiveSlot cfg) (apply_now env options))))"
  using apply_failure(1) [OF assms(1-3)]
proof (elim disjE exE conjE)
  assume "view (ag_kernel ag') = view (ag_kernel ag)"
  then show ?thesis using live by (simp add: live_config_def)
next
  fix cfg' s assume i: "installs env options snapshot ag cfg' s"
    and f: "fails_safely cfg' (next_config s (1 - rc_ActiveSlot cfg') (apply_now env options)) (par_ErrorStage r)
      (ag_kernel ag) (ag_kernel ag')"
  have [simp]: "cfg' = cfg"
    using read_config [of "ag_kernel ag" cfg'] installs_facts(5) [OF i] live assms(2)
    by (simp add: live_config_def)
  show ?thesis
    using f i live slots_of_config(2) [OF installs_facts(4) [OF i]]
    by (auto simp: fails_safely_def live_config_def next_config_def)
qed

lemma success_config:
  assumes "ApplyPolicySnapshot env loaded snapshot options ag = (ag', r)" and "env_ops env = ops"
    and "par_Status r = policyApplyStatusApplied"
  shows "\<exists>cfg s. installs env options snapshot ag cfg s \<and>
    live_config (view (ag_kernel ag')) (next_config s (1 - rc_ActiveSlot cfg) (apply_now env options)) \<and>
    holds_policy (view (ag_kernel ag')) (eo_MaxEntries ops (policySlotMap ''rule_config'' (1 - rc_ActiveSlot cfg)))
      (1 - rc_ActiveSlot cfg) s"
proof (rule apply_success [OF assms])
  fix cfg s
  assume i: "installs env options snapshot ag cfg s"
    and "view (ag_kernel ag') ''runtime_config'' = (view (ag_kernel ag) ''runtime_config'')
      (KU32 0 \<mapsto> VRuntime (next_config s (inactive cfg) (apply_now env options)))"
    and "holds_policy (view (ag_kernel ag')) (eo_MaxEntries ops (policySlotMap ''rule_config'' (inactive cfg))) (inactive cfg) s"
  then show ?thesis
    using slots_of_config(2) [OF installs_facts(4) [OF i]] by (auto simp: live_config_def next_config_def)
qed

lemma step_version:
  assumes A: "ApplyPolicySnapshot env loaded snapshot options ag = (ag', r)" and E: "env_ops env = ops"
    and live: "live_config (view (ag_kernel ag)) cfg"
  shows "\<exists>cfg'. live_config (view (ag_kernel ag')) cfg' \<and> rc_PolicyVersion cfg \<le> rc_PolicyVersion cfg'"
  using apply_status [OF A]
proof
  assume "par_Status r = policyApplyStatusFailed"
  from failure_config [OF A E this live] show ?thesis
    using installs_facts(3) by (fastforce simp: next_config_def intro: less_imp_le)
next
  assume "par_Status r = policyApplyStatusApplied"
  from success_config [OF A E this] obtain cfg' s where i: "installs env options snapshot ag cfg' s"
    and l: "live_config (view (ag_kernel ag')) (next_config s (1 - rc_ActiveSlot cfg') (apply_now env options))" by blast
  have "cfg' = cfg"
    using read_config [of "ag_kernel ag" cfg'] installs_facts(5) [OF i] live E by (simp add: live_config_def)
  with l installs_facts(3) [OF i] show ?thesis by (fastforce simp: next_config_def intro: less_imp_le)
qed

lemma run_version:
  assumes "agent_run ops ag ag'" and "live_config (view (ag_kernel ag)) cfg"
  shows "\<exists>cfg'. live_config (view (ag_kernel ag')) cfg' \<and> rc_PolicyVersion cfg \<le> rc_PolicyVersion cfg'"
  using assms
proof (induction rule: agent_run.induct)
  case (start ag)
  then show ?case by blast
next
  case (apply_step ag ag1 env loaded snapshot options ag2 r)
  then obtain cfg1 where c: "live_config (view (ag_kernel ag1)) cfg1" "rc_PolicyVersion cfg \<le> rc_PolicyVersion cfg1"
    by blast
  then show ?case using step_version [OF apply_step.hyps(3,2) c(1)] order_trans by blast
qed

lemma active_slot_kept:
  assumes A: "ApplyPolicySnapshot env loaded snapshot options ag = (ag', r)" and E: "env_ops env = ops"
    and live: "live_config (view (ag_kernel ag)) cfg" and n: "name \<in> slot_maps (rc_ActiveSlot cfg)"
  shows "view (ag_kernel ag') name = view (ag_kernel ag) name"
proof -
  have other: "view (ag_kernel ag') name = view (ag_kernel ag) name"
    if i: "installs env options snapshot ag cfg' s"
      and o: "same_outside (insert ''runtime_config'' (touched cfg')) (ag_kernel ag) (ag_kernel ag')" for cfg' s
  proof -
    have "cfg' = cfg"
      using read_config [of "ag_kernel ag" cfg'] installs_facts(5) [OF i] live E by (simp add: live_config_def)
    then have "name \<notin> insert ''runtime_config'' (touched cfg')"
      using n slots_of_config(1) [of cfg] live by (auto simp: live_config_def)
    then show ?thesis using o by (simp add: same_outside_def)
  qed
  from apply_status [OF A] show ?thesis
  proof
    assume "par_Status r = policyApplyStatusFailed"
    from apply_failure(1) [OF A E this] show ?thesis
      using other by (auto simp: fails_safely_def)
  next
    assume "par_Status r = policyApplyStatusApplied"
    from apply_success [OF A E this] other show ?thesis by blast
  qed
qed

lemma devmap_kept:
  assumes A: "ApplyPolicySnapshot env loaded snapshot options ag = (ag', r)" and E: "env_ops env = ops"
  shows "devmap (ag_kernel ag) \<subseteq>\<^sub>m devmap (ag_kernel ag')"
  using apply_status [OF A]
proof
  assume "par_Status r = policyApplyStatusFailed"
  from apply_failure(1) [OF A E this] show ?thesis by (auto simp: fails_safely_def)
next
  assume "par_Status r = policyApplyStatusApplied"
  from apply_success [OF A E this] show ?thesis by blast
qed

end

subsection \<open>Properties\<close>

text \<open>
  C2. A successful apply installs the policy. The installed snapshot is the resolved and signed
  one, it verifies and is newer than the one before; the data plane's configuration points to
  the slot that was inactive, and the maps of that slot hold exactly the entries of the
  snapshot, with the rule array zero elsewhere.
\<close>

theorem apply_installs_policy:
  assumes "ebpf_kernel (env_ops env) view"
    and "ApplyPolicySnapshot env loaded snapshot options ag = (ag', r)"
    and "par_Status r = policyApplyStatusApplied"
  shows "\<exists>cfg s. installs env options snapshot ag cfg s \<and>
    snap_Version s = snap_Version snapshot \<and> rc_PolicyVersion cfg < snap_Version s \<and>
    live_config (view (ag_kernel ag')) (next_config s (1 - rc_ActiveSlot cfg) (apply_now env options)) \<and>
    holds_policy (view (ag_kernel ag'))
      (eo_MaxEntries (env_ops env) (policySlotMap ''rule_config'' (1 - rc_ActiveSlot cfg)))
      (1 - rc_ActiveSlot cfg) s"
  using ebpf_kernel.success_config [OF assms(1,2) refl assms(3)] installs_facts(2,3) by blast

text \<open>
  C3. A failed apply does not disturb the running policy: whatever step fails, the maps of the
  active slot are untouched, the agent's snapshot and every file but the temporary one are
  unchanged, and the data plane's configuration is unchanged, except that after a failed save of
  the last-valid file it may already be the new configuration.
\<close>

theorem failed_apply_keeps_policy:
  assumes "ebpf_kernel (env_ops env) view"
    and "ApplyPolicySnapshot env loaded snapshot options ag = (ag', r)"
    and "par_Status r = policyApplyStatusFailed"
    and "live_config (view (ag_kernel ag)) cfg"
  shows "(\<forall>logical\<in>set policy_maps. view (ag_kernel ag') (policySlotMap logical (rc_ActiveSlot cfg)) =
        view (ag_kernel ag) (policySlotMap logical (rc_ActiveSlot cfg))) \<and>
    (par_ErrorStage r \<noteq> ''persist_last_valid'' \<longrightarrow> live_config (view (ag_kernel ag')) cfg) \<and>
    ag_Snapshot ag' = ag_Snapshot ag \<and>
    (\<forall>p. p \<noteq> ao_SnapshotPath options @ ''.tmp'' \<longrightarrow> fs_files (ag_fs ag') p = fs_files (ag_fs ag) p)"
  using ebpf_kernel.active_slot_kept [OF assms(1,2) refl assms(4)]
    ebpf_kernel.failure_config [OF assms(1,2) refl assms(3,4)]
    ebpf_kernel.apply_failure(2,3) [OF assms(1,2) refl assms(3)]
  by auto

text \<open>
  C4. No apply ever retargets or removes an entry of the transmit devmap that existed before:
  on success, and on every failure with or without rollback, even when rollback writes fail, the
  earlier entries of the devmap are all still there with their interface.
\<close>

theorem devmap_never_retargeted:
  assumes "ebpf_kernel (env_ops env) view"
    and "ApplyPolicySnapshot env loaded snapshot options ag = (ag', r)"
  shows "view (ag_kernel ag) ''tx_devmap'' \<subseteq>\<^sub>m view (ag_kernel ag') ''tx_devmap''"
  using ebpf_kernel.devmap_kept [OF assms refl] .

text \<open>
  C5. Over any run of applies the data plane always has a valid configuration (active slot 0 or
  1) and its policy version never decreases, whatever snapshots arrive and whatever calls fail.
\<close>

theorem versions_never_go_back:
  assumes "ebpf_kernel ops view" and "agent_run ops ag ag'"
    and "live_config (view (ag_kernel ag)) cfg"
  shows "\<exists>cfg'. live_config (view (ag_kernel ag')) cfg' \<and> rc_PolicyVersion cfg \<le> rc_PolicyVersion cfg'"
  by (rule ebpf_kernel.run_version [OF assms])

subsection \<open>A concrete agent\<close>

text \<open>
  The maps of \<open>ExpectedMaps\<close> that the agent writes, with a rule array of four entries to keep
  evaluation short.
\<close>

definition sample_spec :: "(string \<times> MapExpectation) list" where
  "sample_spec = map (\<lambda>(name, e). (name, if me_Type e = Array \<and> name \<noteq> ''runtime_config''
     then e\<lparr>me_MaxEntries := 4\<rparr> else e)) ExpectedMaps"

definition sample_config :: RuntimeConfigValue where
  "sample_config = \<lparr>rc_ActiveSlot = 0, rc_PolicyVersion = 4, rc_MalformedPolicy = actionDrop,
     rc_SampleDenom = 1, rc_UpdatedAtUnixNano = 0\<rparr>"

definition sample_agent :: "bool list \<Rightarrow> (string \<Rightarrow> bool) \<Rightarrow> (sim_kernel, unit) agent" where
  "sample_agent faults renameFault = \<lparr>
     ag_kernel = \<lparr>sim_maps = (\<lambda>name. if name = ''runtime_config'' then [(KU32 0, VRuntime sample_config)]
         else if name = ''tx_devmap'' then [(KU32 9, VU32 3)] else []), sim_faults = faults\<rparr>,
     ag_net = (), ag_fs = sample_fs\<lparr>fs_rename_fault := renameFault\<rparr>, ag_ObjectChecksum = ''0b'',
     ag_Snapshot = DefaultSnapshot 0 ''0b'', ag_snapshotVersion = 4\<rparr>"

definition sample_env :: "(sim_kernel, unit) apply_env" where
  "sample_env = \<lparr>env_ops = sim_ops sample_spec, env_codec = sample_codec, env_resolver = None, env_clock = 1000\<rparr>"

definition sample_apply_options :: PolicyApplyOptions where
  "sample_apply_options = \<lparr>ao_SnapshotPath = ''lv.json'', ao_ObjectChecksum = ''0b'', ao_Now = Some 1000,
     ao_CapacityOverrides = Map.empty, ao_MemoryBudgetBytes = 0, ao_Metrics = True\<rparr>"

definition sample_apply :: "bool list \<Rightarrow> (string \<Rightarrow> bool) \<Rightarrow> (sim_kernel, unit) agent \<times> PolicyApplyResult" where
  "sample_apply faults renameFault =
     ApplyPolicySnapshot sample_env True sample_snapshot sample_apply_options (sample_agent faults renameFault)"

definition outcome :: "('k, 'n) agent \<times> PolicyApplyResult \<Rightarrow> string \<times> string" where
  "outcome ar = (par_Status (snd ar), par_ErrorStage (snd ar))"

lemma sample_applied: "outcome (sample_apply [] (\<lambda>_. False)) = (policyApplyStatusApplied, [])"
  by code_simp

lemma sample_persist_failed:
  "outcome (sample_apply [] (\<lambda>_. True)) = (policyApplyStatusFailed, ''persist_last_valid'')"
  by code_simp

abbreviation "sample_ok \<equiv> sample_apply [] (\<lambda>_. False)"
abbreviation "sample_unsaved \<equiv> sample_apply [] (\<lambda>_. True)"

lemma sample_apply_run:
  "ApplyPolicySnapshot sample_env True sample_snapshot sample_apply_options (sample_agent faults renameFault) =
     (fst (sample_apply faults renameFault), snd (sample_apply faults renameFault))"
  by (simp add: sample_apply_def)

lemma sample_status:
  "par_Status (snd sample_ok) = policyApplyStatusApplied"
  "par_Status (snd sample_unsaved) = policyApplyStatusFailed"
  using sample_applied sample_persist_failed by (simp_all add: outcome_def)

lemma sample_ops [simp]: "env_ops sample_env = sim_ops sample_spec"
  by (simp add: sample_env_def)

lemma sample_kernel: "ebpf_kernel (env_ops sample_env) sim_view"
  by (simp add: sim.ebpf_kernel_axioms)

lemma sample_live: "live_config (sim_view (ag_kernel (sample_agent faults renameFault))) sample_config"
  by (simp add: live_config_def sim_view_def sample_agent_def sample_config_def)

theorem apply_installs_policy_witness:
  "\<exists>cfg s. installs sample_env sample_apply_options sample_snapshot (sample_agent [] (\<lambda>_. False)) cfg s \<and>
    snap_Version s = 5 \<and>
    holds_policy (sim_view (ag_kernel (fst sample_ok)))
      (eo_MaxEntries (sim_ops sample_spec) (policySlotMap ''rule_config'' (1 - rc_ActiveSlot cfg)))
      (1 - rc_ActiveSlot cfg) s"
proof -
  have "snap_Version sample_snapshot = 5" by (simp add: sample_snapshot_def)
  then show ?thesis
    using apply_installs_policy [OF sample_kernel sample_apply_run sample_status(1)] by auto
qed

theorem failed_apply_keeps_policy_witness:
  "sim_view (ag_kernel (fst sample_unsaved)) (policySlotMap ''whitelist_v4'' 0) =
     sim_view (ag_kernel (sample_agent [] (\<lambda>_. True))) (policySlotMap ''whitelist_v4'' 0) \<and>
   ag_Snapshot (fst sample_unsaved) = DefaultSnapshot 0 ''0b''"
  using failed_apply_keeps_policy [OF sample_kernel sample_apply_run sample_status(2) sample_live]
  by (simp add: policy_maps_def sample_config_def) (simp add: sample_agent_def)

theorem devmap_never_retargeted_witness:
  "sim_view (ag_kernel (sample_agent [] (\<lambda>_. True))) ''tx_devmap'' \<subseteq>\<^sub>m
     sim_view (ag_kernel (fst sample_unsaved)) ''tx_devmap''"
  by (rule devmap_never_retargeted [OF sample_kernel sample_apply_run])

theorem versions_never_go_back_witness:
  "\<exists>cfg'. live_config (sim_view (ag_kernel (fst sample_ok))) cfg' \<and> 4 \<le> rc_PolicyVersion cfg'"
proof -
  have "agent_run (sim_ops sample_spec) (sample_agent [] (\<lambda>_. False)) (fst sample_ok)"
    by (rule agent_run.apply_step [OF agent_run.start sample_ops sample_apply_run])
  from versions_never_go_back [OF sim.ebpf_kernel_axioms this sample_live] show ?thesis
    by (simp add: sample_config_def)
qed

subsection \<open>A failed restore\<close>

definition live_services :: "(sim_kernel, 'n) agent \<times> PolicyApplyResult \<Rightarrow> map_val option \<times> nat" where
  "live_services ar = (map_of (sim_maps (ag_kernel (fst ar)) ''runtime_config'') (KU32 0),
     length (sim_maps (ag_kernel (fst ar)) ''service_allowlist_b''))"

text \<open>
  A failed restore is not survived: the error of the write that restores the configuration
  after a failed save is ignored, and the inactive slot is cleared afterwards. When that write
  fails too, the slot that is cleared is the live one: here the data plane is left with slot 1
  of version 5 active and an empty service map.
\<close>

lemma restore_failure_clears_live_slot:
  "live_services (sample_apply (replicate 12 False @ [True]) (\<lambda>_. True)) =
     (Some (VRuntime \<lparr>rc_ActiveSlot = 1, rc_PolicyVersion = 5, rc_MalformedPolicy = actionDrop,
        rc_SampleDenom = 0, rc_UpdatedAtUnixNano = 1000\<rparr>), 0)"
  by code_simp

end
