(* ===== verification/GoJson.thy ===== *)
theory GoJson
  imports GoText
begin

section \<open>JSON validity\<close>

text \<open>
  \<^verbatim>\<open>json.Valid\<close> of \<^verbatim>\<open>encoding/json\<close>, which the input validation of the control plane calls: a
  byte-driven state machine with a stack of open containers, as the package's scanner has it.
\<close>

datatype json_open = InKey | InObject | InArray

datatype json_state =
  BeginValue | BeginValueOrEmpty | BeginString | BeginStringOrEmpty | EndValue | EndTop
| InString | InEscape | InEscapeU nat | NumNeg | NumZero | NumDigits | NumDot | NumFraction
| NumE | NumESign | NumExponent | InLiteral string

definition json_space :: "char \<Rightarrow> bool" where
  "json_space c \<longleftrightarrow> c = CHR 0x20 \<or> c = CHR 0x09 \<or> c = CHR 0x0A \<or> c = CHR 0x0D"

definition json_hex :: "char \<Rightarrow> bool" where
  "json_hex c \<longleftrightarrow> is_digit c \<or> c \<in> set ''abcdefABCDEF''"

text \<open>Nesting is limited to 10000 open containers.\<close>

definition json_push ::
    "json_open \<Rightarrow> json_open list \<Rightarrow> json_state \<Rightarrow> (json_state \<times> json_open list) option" where
  "json_push p st s = (if 10000 \<le> length st then None else Some (s, p # st))"

definition json_pop :: "json_open list \<Rightarrow> (json_state \<times> json_open list) option" where
  "json_pop st = (case tl st of [] \<Rightarrow> Some (EndTop, []) | q # r \<Rightarrow> Some (EndValue, q # r))"

definition json_end_value ::
    "json_open list \<Rightarrow> char \<Rightarrow> (json_state \<times> json_open list) option" where
  "json_end_value st c = (case st of
     [] \<Rightarrow> if json_space c then Some (EndTop, []) else None
   | p # r \<Rightarrow>
       if json_space c then Some (EndValue, st)
       else (case p of
           InKey \<Rightarrow> if c = CHR '':'' then Some (BeginValue, InObject # r) else None
         | InObject \<Rightarrow> if c = CHR '','' then Some (BeginString, InKey # r)
                       else if c = CHR ''}'' then json_pop st else None
         | InArray \<Rightarrow> if c = CHR '','' then Some (BeginValue, st)
                      else if c = CHR '']'' then json_pop st else None))"

definition json_begin_value ::
    "json_open list \<Rightarrow> char \<Rightarrow> (json_state \<times> json_open list) option" where
  "json_begin_value st c =
     (if json_space c then Some (BeginValue, st)
      else if c = CHR ''{'' then json_push InKey st BeginStringOrEmpty
      else if c = CHR ''['' then json_push InArray st BeginValueOrEmpty
      else if c = CHR 0x22 then Some (InString, st)
      else if c = CHR ''-'' then Some (NumNeg, st)
      else if c = CHR ''0'' then Some (NumZero, st)
      else if c = CHR ''t'' then Some (InLiteral ''rue'', st)
      else if c = CHR ''f'' then Some (InLiteral ''alse'', st)
      else if c = CHR ''n'' then Some (InLiteral ''ull'', st)
      else if is_digit c then Some (NumDigits, st)
      else None)"

definition json_after_int ::
    "json_open list \<Rightarrow> char \<Rightarrow> (json_state \<times> json_open list) option" where
  "json_after_int st c =
     (if c = CHR ''.'' then Some (NumDot, st)
      else if c = CHR ''e'' \<or> c = CHR ''E'' then Some (NumE, st)
      else json_end_value st c)"

definition json_begin_string ::
    "json_open list \<Rightarrow> char \<Rightarrow> json_state \<Rightarrow> (json_state \<times> json_open list) option" where
  "json_begin_string st c again =
     (if json_space c then Some (again, st)
      else if c = CHR 0x22 then Some (InString, st) else None)"

definition json_step ::
    "json_state \<Rightarrow> json_open list \<Rightarrow> char \<Rightarrow> (json_state \<times> json_open list) option" where
  "json_step s st c = (case s of
     BeginValue \<Rightarrow> json_begin_value st c
   | BeginValueOrEmpty \<Rightarrow>
       if json_space c then Some (BeginValueOrEmpty, st)
       else if c = CHR '']'' then json_end_value st c else json_begin_value st c
   | BeginStringOrEmpty \<Rightarrow>
       if c = CHR ''}'' then json_pop st else json_begin_string st c BeginStringOrEmpty
   | BeginString \<Rightarrow> json_begin_string st c BeginString
   | EndValue \<Rightarrow> json_end_value st c
   | EndTop \<Rightarrow> if json_space c then Some (EndTop, st) else None
   | InString \<Rightarrow>
       if c = CHR 0x22 then Some (EndValue, st)
       else if c = CHR 0x5C then Some (InEscape, st)
       else if (of_char c :: nat) < 32 then None else Some (InString, st)
   | InEscape \<Rightarrow>
       if c \<in> set [CHR ''b'', CHR ''f'', CHR ''n'', CHR ''r'', CHR ''t'', CHR 0x5C, CHR ''/'', CHR 0x22]
       then Some (InString, st)
       else if c = CHR ''u'' then Some (InEscapeU 3, st) else None
   | InEscapeU k \<Rightarrow>
       if json_hex c then Some (case k of 0 \<Rightarrow> InString | Suc j \<Rightarrow> InEscapeU j, st) else None
   | NumNeg \<Rightarrow>
       if c = CHR ''0'' then Some (NumZero, st)
       else if is_digit c then Some (NumDigits, st) else None
   | NumDigits \<Rightarrow> if is_digit c then Some (NumDigits, st) else json_after_int st c
   | NumZero \<Rightarrow> json_after_int st c
   | NumDot \<Rightarrow> if is_digit c then Some (NumFraction, st) else None
   | NumFraction \<Rightarrow>
       if is_digit c then Some (NumFraction, st)
       else if c = CHR ''e'' \<or> c = CHR ''E'' then Some (NumE, st) else json_end_value st c
   | NumE \<Rightarrow>
       if c = CHR ''+'' \<or> c = CHR ''-'' then Some (NumESign, st)
       else if is_digit c then Some (NumExponent, st) else None
   | NumESign \<Rightarrow> if is_digit c then Some (NumExponent, st) else None
   | NumExponent \<Rightarrow> if is_digit c then Some (NumExponent, st) else json_end_value st c
   | InLiteral w \<Rightarrow> (case w of
       [] \<Rightarrow> None
     | d # r \<Rightarrow> if c = d then Some (if r = [] then EndValue else InLiteral r, st) else None))"

text \<open>At the end of the text one more space must lead to the end of the top value.\<close>

fun json_scan :: "json_state \<Rightarrow> json_open list \<Rightarrow> string \<Rightarrow> bool" where
  "json_scan s st [] =
     (s = EndTop \<or> (case json_step s st CHR 0x20 of None \<Rightarrow> False | Some (s', _) \<Rightarrow> s' = EndTop))"
| "json_scan s st (c # cs) =
     (case json_step s st c of None \<Rightarrow> False | Some (s', st') \<Rightarrow> json_scan s' st' cs)"

definition json_Valid :: "string \<Rightarrow> bool" where
  "json_Valid = json_scan BeginValue []"

lemma json_empty_object: "json_Valid ''{}''"
  by code_simp

lemma json_samples:
  "json_Valid ''[1, -2.50e+3, {}, [], null, true]''"
  "\<not> json_Valid ''[1,]''" "\<not> json_Valid ''01''" "\<not> json_Valid ''''" "\<not> json_Valid ''{} x''"
  by code_simp+

end
