(* ===== verification/PolicyInput.thy ===== *)
theory PolicyInput
  imports GoJson PolicySnapshot
begin

section \<open>Input of the control plane\<close>

text \<open>
  The input types and constants of \<^verbatim>\<open>internal/control/types.go\<close>, and from
  \<^verbatim>\<open>internal/control/policy_store.go\<close> and \<^verbatim>\<open>policy_scope.go\<close> the functions that normalise,
  default, validate and number the fields of a policy. A validation function collects its
  errors in the order of the source; the empty list is the \<^verbatim>\<open>nil\<close> of \<^verbatim>\<open>errors.Join\<close>. A
  \<^verbatim>\<open>time.Time\<close> is its Unix time in nanoseconds, \<open>None\<close> the zero time; \<^verbatim>\<open>Confidence\<close>, a float
  that is only stored, is left out.
\<close>

subsection \<open>Constants\<close>

definition RoleAdmin :: string where "RoleAdmin = ''admin''"
definition RoleUser :: string where "RoleUser = ''user''"
definition StatusActive :: string where "StatusActive = ''active''"
definition StatusRevoked :: string where "StatusRevoked = ''revoked''"
definition ActionPass :: u32 where "ActionPass = 0"
definition ActionDrop :: u32 where "ActionDrop = 1"
definition ActionRateLimit :: u32 where "ActionRateLimit = 2"
definition ActionObserve :: u32 where "ActionObserve = 3"
definition ActionSample :: u32 where "ActionSample = 4"
definition ActionRedirect :: u32 where "ActionRedirect = 6"
definition PolicyScopeGlobal :: u32 where "PolicyScopeGlobal = 0"
definition PolicyScopeService :: u32 where "PolicyScopeService = 1"
definition ScopeTypeAdminGlobal :: string where "ScopeTypeAdminGlobal = ''admin_global''"
definition ScopeTypeUserGlobal :: string where "ScopeTypeUserGlobal = ''user_global''"
definition ScopeTypeService :: string where "ScopeTypeService = ''service''"
definition NeighborResolved :: u32 where "NeighborResolved = 1"

lemmas scope_type_defs = ScopeTypeAdminGlobal_def ScopeTypeUserGlobal_def ScopeTypeService_def

lemma scope_types_differ [simp]:
  "ScopeTypeAdminGlobal \<noteq> ScopeTypeUserGlobal" "ScopeTypeAdminGlobal \<noteq> ScopeTypeService"
  "ScopeTypeUserGlobal \<noteq> ScopeTypeService" "ScopeTypeUserGlobal \<noteq> ScopeTypeAdminGlobal"
  "ScopeTypeService \<noteq> ScopeTypeAdminGlobal" "ScopeTypeService \<noteq> ScopeTypeUserGlobal"
  "ScopeTypeAdminGlobal \<noteq> []" "ScopeTypeUserGlobal \<noteq> []" "ScopeTypeService \<noteq> []"
  by (simp_all add: scope_type_defs)

text \<open>The control plane and the agent number actions, scopes and neighbour states alike.\<close>

lemma control_agent_constants:
  "ActionPass = actionPass" "ActionDrop = actionDrop" "ActionRedirect = actionRedirect"
  "PolicyScopeGlobal = policyScopeGlobal" "PolicyScopeService = policyScopeService"
  "NeighborResolved = neighborResolved"
  by (simp_all add: ActionPass_def ActionDrop_def ActionRedirect_def actionPass_def actionDrop_def
      actionRedirect_def PolicyScopeGlobal_def PolicyScopeService_def policyScopeGlobal_def
      policyScopeService_def NeighborResolved_def neighborResolved_def)

subsection \<open>Input types\<close>

record ServiceInput =
  si_Reason :: string
  si_Name :: string
  si_Description :: string
  si_BackendCIDR :: string
  si_Protocol :: string
  si_AllowedPorts :: "u16 list"
  si_OutputInterface :: string
  si_Owner :: string
  si_Criticality :: string
  si_ProtectionMode :: string
  si_Enabled :: "bool option"
  si_Priority :: u32
  si_Tags :: "string list"
  si_ResolvedIfindex :: u32
  si_ResolvedNextHopMAC :: string
  si_ResolvedSourceMAC :: string
  si_NeighborResolutionStatus :: string

record ForwardingPolicyInput =
  fi_Reason :: string
  fi_ServiceID :: string
  fi_MatchProtocol :: string
  fi_MatchDstPort :: u16
  fi_BackendTarget :: string
  fi_OutputInterface :: string
  fi_ResolvedIfindex :: u32
  fi_ResolvedDstMAC :: string
  fi_ResolvedSrcMAC :: string
  fi_DevmapKey :: u32
  fi_Action :: string
  fi_Priority :: u32
  fi_Enabled :: "bool option"
  fi_Owner :: string

record WhitelistInput =
  wi_Reason :: string
  wi_CIDR :: string
  wi_Scope :: string
  wi_ScopeType :: string
  wi_ServiceID :: string
  wi_Label :: string
  wi_Owner :: string
  wi_Priority :: u32
  wi_ExpiresAt :: "int option"
  wi_Enabled :: "bool option"

record RuleInput =
  ri_Reason :: string
  ri_ServiceID :: string
  ri_ScopeType :: string
  ri_Name :: string
  ri_Priority :: u32
  ri_MatchExpr :: string
  ri_Action :: string
  ri_Mode :: string
  ri_ThresholdPPS :: u32
  ri_ThresholdBPS :: u32
  ri_ThresholdCPS :: u32
  ri_Dimension :: string
  ri_BurstPackets :: u32
  ri_BurstBytes :: u32
  ri_SampleDenom :: u32
  ri_TTLSeconds :: u32
  ri_ExpiresAt :: "int option"
  ri_Evidence :: string
  ri_Enabled :: "bool option"
  ri_Owner :: string

record BlacklistInput =
  bi_Reason :: string
  bi_CIDR :: string
  bi_ScopeType :: string
  bi_ServiceID :: string
  bi_Score :: u32
  bi_Action :: string
  bi_Source :: string
  bi_RuleID :: string
  bi_Owner :: string
  bi_ExpiresAt :: "int option"
  bi_Enabled :: "bool option"

record UDPSourcePortBlockInput =
  ui_Reason :: string
  ui_Port :: u16
  ui_ScopeType :: string
  ui_ServiceID :: string
  ui_Label :: string
  ui_Owner :: string
  ui_ExpiresAt :: "int option"
  ui_Enabled :: "bool option"

record FeedSourceInput =
  fsi_Reason :: string
  fsi_Name :: string
  fsi_Type :: string
  fsi_URL :: string
  fsi_CredentialRef :: "string option"
  fsi_RequiredForProduction :: bool
  fsi_Enabled :: "bool option"
  fsi_IntervalSeconds :: u32
  fsi_LicenseNote :: string
  fsi_QuotaMetadata :: string
  fsi_Status :: string

subsection \<open>Defaults and normal forms\<close>

definition mutationReason :: "string \<Rightarrow> string \<Rightarrow> string" where
  "mutationReason headerReason bodyReason =
     (if TrimSpace bodyReason \<noteq> [] then TrimSpace bodyReason else TrimSpace headerReason)"

definition boolDefault :: "bool option \<Rightarrow> bool \<Rightarrow> bool" where
  "boolDefault v fallback = (case v of None \<Rightarrow> fallback | Some b \<Rightarrow> b)"

definition defaultPriority :: "u32 \<Rightarrow> u32" where
  "defaultPriority v = (if v = 0 then 100 else v)"

definition defaultInterval :: "u32 \<Rightarrow> u32" where
  "defaultInterval v = (if v = 0 then 3600 else v)"

definition defaultString :: "string \<Rightarrow> string \<Rightarrow> string" where
  "defaultString v fallback = (if TrimSpace v = [] then fallback else TrimSpace v)"

definition defaultJSON :: "string \<Rightarrow> string" where
  "defaultJSON v = (if v = [] \<or> TrimSpace v = [] then ''{}'' else v)"

text \<open>Ports are stored as \<^verbatim>\<open>int32\<close>; reading back truncates to 16 bits.\<close>

definition int32Ports :: "u16 list \<Rightarrow> u32 list" where
  "int32Ports ports = map ucast ports"

definition uint16Ports :: "u32 list \<Rightarrow> u16 list" where
  "uint16Ports ports = map ucast ports"

definition normalizeProtocol :: "string \<Rightarrow> string" where
  "normalizeProtocol v = ToLower (TrimSpace v)"

definition normalizeMode :: "string \<Rightarrow> string" where
  "normalizeMode v = (let v = ToLower (TrimSpace v) in if v = [] then ''observe'' else v)"

definition normalizeRuleAction :: "string \<Rightarrow> string" where
  "normalizeRuleAction v = (let v = ToLower (TrimSpace v) in if v = [] then ''observe'' else v)"

definition normalizeRuleDimension :: "string \<Rightarrow> string" where
  "normalizeRuleDimension v = (let v = ToLower (TrimSpace v) in
     if v = [] \<or> v = ''source_service'' then ''source_service''
     else if v = ''src'' \<or> v = ''source_ip'' then ''source''
     else v)"

definition normalizeBlacklistAction :: "string \<Rightarrow> string" where
  "normalizeBlacklistAction v = (let v = ToLower (TrimSpace v) in if v = [] then ''drop'' else v)"

definition normalizeForwardingAction :: "string \<Rightarrow> string" where
  "normalizeForwardingAction v = (let v = ToLower (TrimSpace v) in if v = [] then ''redirect'' else v)"

definition normalizeScope :: "string \<Rightarrow> string" where
  "normalizeScope v = (let v = ToLower (TrimSpace v) in
     if v = ''service_scoped'' then ''service'' else if v = [] then ''global'' else v)"

definition neighborStatus :: "string \<Rightarrow> string" where
  "neighborStatus v = (let v = ToLower (TrimSpace v) in if v = [] then ''unresolved'' else v)"

subsection \<open>Scopes\<close>

definition normalizeScopeType :: "string \<Rightarrow> string" where
  "normalizeScopeType v = ToLower (TrimSpace v)"

definition effectiveScopeType :: "string \<Rightarrow> string \<Rightarrow> string \<Rightarrow> string" where
  "effectiveScopeType scopeType legacyScope serviceID =
     (let scopeType = normalizeScopeType scopeType in
      if scopeType \<noteq> [] then scopeType
      else if normalizeScope legacyScope = ScopeTypeService \<or> TrimSpace serviceID \<noteq> []
      then ScopeTypeService
      else ScopeTypeUserGlobal)"

definition legacyScopeForScopeType :: "string \<Rightarrow> string" where
  "legacyScopeForScopeType scopeType =
     (if scopeType = ScopeTypeService then ''service'' else ''global'')"

definition scopeTypeRank :: "string \<Rightarrow> int" where
  "scopeTypeRank scopeType =
     (let t = normalizeScopeType scopeType in
      if t = ScopeTypeService then 3
      else if t = ScopeTypeUserGlobal then 2
      else if t = ScopeTypeAdminGlobal then 1
      else 0)"

datatype scope_error = ServiceIDNotAllowed | ServiceIDRequired | ScopeTypeUnknown

definition validatePolicyScope :: "string \<Rightarrow> string \<Rightarrow> scope_error option" where
  "validatePolicyScope scopeType serviceID =
     (let scopeType = normalizeScopeType scopeType; serviceID = TrimSpace serviceID in
      if scopeType = ScopeTypeAdminGlobal \<or> scopeType = ScopeTypeUserGlobal then
        (if serviceID \<noteq> [] then Some ServiceIDNotAllowed else None)
      else if scopeType = ScopeTypeService then
        (if serviceID = [] then Some ServiceIDRequired else None)
      else Some ScopeTypeUnknown)"

subsection \<open>Addresses and numbers\<close>

definition parseCIDR :: "string \<Rightarrow> addr_error + prefix4" where
  "parseCIDR value0 = (let v = TrimSpace value0 in
     if v = [] then Inl CIDRRequired
     else if CHR ''/'' \<in> set v then
       (case ParsePrefix4 v of None \<Rightarrow> Inl (NotIPv4 v) | Some p \<Rightarrow> Inr (Masked p))
     else
       (case ParseAddr4 v of
          None \<Rightarrow> Inl (NotIPv4 v)
        | Some a \<Rightarrow> Inr \<lparr>pfx_addr = a, pfx_bits = 32\<rparr>))"

definition policyProtoNumber :: "string \<Rightarrow> string + u8" where
  "policyProtoNumber proto =
     (let p = normalizeProtocol proto in
      if p = ''icmp'' then Inr 1 else if p = ''tcp'' then Inr 6 else if p = ''udp'' then Inr 17
      else Inl proto)"

definition ruleActionNumber :: "string \<Rightarrow> u32" where
  "ruleActionNumber action =
     (let a = normalizeRuleAction action in
      if a = ''drop'' then ActionDrop
      else if a = ''rate_limit'' then ActionRateLimit
      else if a = ''sample'' then ActionSample
      else ActionObserve)"

definition ruleModeNumber :: "string \<Rightarrow> u32" where
  "ruleModeNumber mode = (if normalizeMode mode = ''enforce'' then 1 else 0)"

definition ruleDimensionNumber :: "string \<Rightarrow> u32" where
  "ruleDimensionNumber dimension =
     (let d = normalizeRuleDimension dimension in
      if d = ''source'' then 0 else if d = ''service'' then 2 else 3)"

subsection \<open>Validation\<close>

datatype input_error =
  NameRequired | BackendCIDRInvalid addr_error | PortsRequired | PortZero | ICMPPortNotZero
| ProtocolUnsupported string | OutputInterfaceMissing | OwnerRequired | ProtectionModeInvalid
| NextHopMACInvalid | SourceMACInvalid
| ServiceIDMissing | BackendTargetInvalid addr_error | MatchDstPortRequired | ForwardingActionInvalid
| CIDRInvalid addr_error | LegacyScopeInvalid | ScopeInvalid scope_error
| RuleActionUnsupported string | ModeInvalid | SampleDenomTooLarge | DimensionInvalid
| MatchExprNotJSON | EvidenceNotJSON
| BlacklistActionInvalid | SourceRequired
| FeedTypeRequired | QuotaMetadataNotJSON

abbreviation err_if :: "bool \<Rightarrow> 'e \<Rightarrow> 'e list" where
  "err_if b e \<equiv> (if b then [e] else [])"

definition cidr_errors :: "(addr_error \<Rightarrow> input_error) \<Rightarrow> string \<Rightarrow> input_error list" where
  "cidr_errors wrap v = (case parseCIDR v of Inl e \<Rightarrow> [wrap e] | Inr _ \<Rightarrow> [])"

definition scope_errors :: "string \<Rightarrow> string \<Rightarrow> input_error list" where
  "scope_errors scopeType serviceID =
     (case validatePolicyScope scopeType (TrimSpace serviceID) of
        None \<Rightarrow> [] | Some e \<Rightarrow> [ScopeInvalid e])"

definition protocol_errors :: "string \<Rightarrow> u16 list \<Rightarrow> input_error list" where
  "protocol_errors protocol ports =
     (let proto = normalizeProtocol protocol in
      if proto = ''tcp'' \<or> proto = ''udp'' then
        err_if (ports = []) PortsRequired @ concat (map (\<lambda>p. err_if (p = 0) PortZero) ports)
      else if proto = ''icmp'' then concat (map (\<lambda>p. err_if (p \<noteq> 0) ICMPPortNotZero) ports)
      else [ProtocolUnsupported protocol])"

definition validateServiceInput :: "ServiceInput \<Rightarrow> input_error list" where
  "validateServiceInput input =
     err_if (TrimSpace (si_Name input) = []) NameRequired
   @ cidr_errors BackendCIDRInvalid (si_BackendCIDR input)
   @ protocol_errors (si_Protocol input) (si_AllowedPorts input)
   @ err_if (TrimSpace (si_OutputInterface input) = []) OutputInterfaceMissing
   @ err_if (TrimSpace (si_Owner input) = []) OwnerRequired
   @ (let mode = ToLower (TrimSpace (si_ProtectionMode input)) in
      err_if (mode \<noteq> ''observe'' \<and> mode \<noteq> ''enforce'') ProtectionModeInvalid)
   @ err_if (si_ResolvedNextHopMAC input \<noteq> [] \<and> ParseMAC (si_ResolvedNextHopMAC input) = None)
       NextHopMACInvalid
   @ err_if (si_ResolvedSourceMAC input \<noteq> [] \<and> ParseMAC (si_ResolvedSourceMAC input) = None)
       SourceMACInvalid"

definition match_port_errors :: "string \<Rightarrow> u16 \<Rightarrow> input_error list" where
  "match_port_errors protocol port =
     (let proto = normalizeProtocol protocol in
      if proto = ''tcp'' \<or> proto = ''udp'' then err_if (port = 0) MatchDstPortRequired
      else if proto = ''icmp'' then err_if (port \<noteq> 0) ICMPPortNotZero
      else [ProtocolUnsupported protocol])"

definition validateForwardingPolicyInput :: "ForwardingPolicyInput \<Rightarrow> input_error list" where
  "validateForwardingPolicyInput input =
     err_if (TrimSpace (fi_ServiceID input) = []) ServiceIDMissing
   @ cidr_errors BackendTargetInvalid (fi_BackendTarget input)
   @ match_port_errors (fi_MatchProtocol input) (fi_MatchDstPort input)
   @ err_if (normalizeForwardingAction (fi_Action input) \<noteq> ''redirect'') ForwardingActionInvalid
   @ err_if (TrimSpace (fi_OutputInterface input) = []) OutputInterfaceMissing
   @ err_if (TrimSpace (fi_Owner input) = []) OwnerRequired"

definition validateWhitelistInput :: "WhitelistInput \<Rightarrow> input_error list" where
  "validateWhitelistInput input =
     cidr_errors CIDRInvalid (wi_CIDR input)
   @ (let legacyScope = normalizeScope (wi_Scope input) in
      err_if (legacyScope \<noteq> ''global'' \<and> legacyScope \<noteq> ''service'') LegacyScopeInvalid)
   @ scope_errors (effectiveScopeType (wi_ScopeType input) (wi_Scope input) (wi_ServiceID input))
       (wi_ServiceID input)"

definition validateRuleInput :: "RuleInput \<Rightarrow> input_error list" where
  "validateRuleInput input =
     err_if (TrimSpace (ri_Name input) = []) NameRequired
   @ err_if (normalizeRuleAction (ri_Action input) \<notin>
         set [''observe'', ''drop'', ''rate_limit'', ''sample'']) (RuleActionUnsupported (ri_Action input))
   @ err_if (normalizeMode (ri_Mode input) \<notin> set [''observe'', ''enforce'']) ModeInvalid
   @ err_if (1000000 < ri_SampleDenom input) SampleDenomTooLarge
   @ err_if (normalizeRuleDimension (ri_Dimension input) \<notin>
         set [''source'', ''service'', ''source_service'']) DimensionInvalid
   @ scope_errors (effectiveScopeType (ri_ScopeType input) [] (ri_ServiceID input)) (ri_ServiceID input)
   @ err_if (ri_MatchExpr input \<noteq> [] \<and> \<not> json_Valid (ri_MatchExpr input)) MatchExprNotJSON
   @ err_if (ri_Evidence input \<noteq> [] \<and> \<not> json_Valid (ri_Evidence input)) EvidenceNotJSON"

definition validateBlacklistInput :: "BlacklistInput \<Rightarrow> input_error list" where
  "validateBlacklistInput input =
     cidr_errors CIDRInvalid (bi_CIDR input)
   @ err_if (normalizeBlacklistAction (bi_Action input) \<noteq> ''drop'') BlacklistActionInvalid
   @ err_if (TrimSpace (bi_Source input) = []) SourceRequired
   @ scope_errors (effectiveScopeType (bi_ScopeType input) [] (bi_ServiceID input)) (bi_ServiceID input)"

definition validateUDPSourcePortBlockInput :: "UDPSourcePortBlockInput \<Rightarrow> input_error list" where
  "validateUDPSourcePortBlockInput input =
     scope_errors (effectiveScopeType (ui_ScopeType input) [] (ui_ServiceID input)) (ui_ServiceID input)"

definition validateFeedSourceInput :: "FeedSourceInput \<Rightarrow> input_error list" where
  "validateFeedSourceInput input =
     err_if (TrimSpace (fsi_Name input) = []) NameRequired
   @ err_if (TrimSpace (fsi_Type input) = []) FeedTypeRequired
   @ err_if (fsi_QuotaMetadata input \<noteq> [] \<and> \<not> json_Valid (fsi_QuotaMetadata input)) QuotaMetadataNotJSON"

end
