(* ===== verification/ControlDB.thy ===== *)
theory ControlDB
  imports PolicyInput
begin

section \<open>The control plane's database\<close>

text \<open>
  The tables of \<^verbatim>\<open>internal/control/migrations.go\<close> (after its last migration) that the control plane
  reads and writes, as lists of rows, and transactions on them. A column that Go scans
  into an unsigned integer is an \<open>int\<close> here and the scan fails outside the range of the target
  type. \<^verbatim>\<open>timestamptz\<close> values are Unix times in nanoseconds. Identifiers are the canonical text of a
  \<^verbatim>\<open>uuid\<close>, JSON columns the text that was written. Left out are columns that are only stored (the
  confidence of a rule, metadata of agents, the images in the audit log) and keys that no query reads.

  A transaction works on a copy of the tables together with the setting
  \<^verbatim>\<open>anti_ddos.owner_user_id\<close>; the copy replaces the tables at commit and is dropped otherwise. The
  environment \<open>store_env\<close> says which database calls fail (\<open>se_fails\<close>, per call and per value of
  the setting), and holds the database's \<^verbatim>\<open>now()\<close>, the clock of the process, the digest of the XDP
  object, the codec of the stored snapshots, the values of \<^verbatim>\<open>newUUID()\<close> in the order of the calls,
  the value of the next identity column (\<open>se_identity\<close>), and the database's conversion of text to
  \<^verbatim>\<open>inet\<close> and back to text (\<open>se_inet\<close>, \<open>None\<close> when it rejects the text).
\<close>

subsection \<open>Rows\<close>

record user_row =
  usr_id :: string
  usr_username :: string
  usr_role :: string
  usr_status :: string
  usr_password_hash :: string
  usr_force_password_change :: bool
  usr_last_login_at :: "int option"

record session_row =
  us_user_id :: string
  us_token_hash :: string
  us_expires_at :: int
  us_revoked_at :: "int option"
  us_view_owner_user_id :: "string option"

record backend_service_row =
  bs_id :: string
  bs_ebpf_id :: int
  bs_owner_user_id :: string
  bs_name :: string
  bs_backend_cidr :: string
  bs_protocol :: string
  bs_allowed_ports :: "int list"
  bs_output_interface :: string
  bs_enabled :: bool
  bs_priority :: int
  bs_resolved_ifindex :: int
  bs_resolved_next_hop_mac :: string
  bs_resolved_src_mac :: string
  bs_deleted_at :: "int option"
  bs_description :: string
  bs_owner :: string
  bs_criticality :: string
  bs_protection_mode :: string
  bs_tags :: "string list"
  bs_sync_status :: string
  bs_neighbor_resolution_status :: string
  bs_created_at :: int
  bs_updated_at :: int

record forwarding_policy_row =
  fp_id :: string
  fp_ebpf_id :: int
  fp_owner_user_id :: string
  fp_service_id :: string
  fp_match_protocol :: string
  fp_match_dst_port :: int
  fp_backend_target :: string
  fp_output_interface :: string
  fp_resolved_ifindex :: int
  fp_resolved_dst_mac :: string
  fp_resolved_src_mac :: string
  fp_devmap_key :: int
  fp_priority :: int
  fp_enabled :: bool
  fp_action :: string
  fp_owner :: string
  fp_created_at :: int
  fp_updated_at :: int

record whitelist_row =
  wl_id :: string
  wl_ebpf_id :: int
  wl_owner_user_id :: string
  wl_ip_or_cidr :: string
  wl_scope_type :: string
  wl_service_id :: "string option"
  wl_priority :: int
  wl_expires_at :: "int option"
  wl_enabled :: bool
  wl_scope :: string
  wl_label :: string
  wl_reason :: string
  wl_owner :: string
  wl_created_at :: int
  wl_updated_at :: int

record blacklist_row =
  bl_id :: string
  bl_ebpf_id :: int
  bl_owner_user_id :: string
  bl_ip_or_cidr :: string
  bl_scope_type :: string
  bl_service_id :: "string option"
  bl_rule_id :: "string option"
  bl_score :: int
  bl_expires_at :: "int option"
  bl_enabled :: bool
  bl_action :: string
  bl_source :: string
  bl_reason :: string
  bl_owner :: string
  bl_created_at :: int
  bl_updated_at :: int

record udp_block_row =
  ubr_id :: string
  ubr_ebpf_id :: int
  ubr_owner_user_id :: string
  ubr_port :: int
  ubr_scope_type :: string
  ubr_service_id :: "string option"
  ubr_expires_at :: "int option"
  ubr_enabled :: bool
  ubr_label :: string
  ubr_reason :: string
  ubr_owner :: string
  ubr_created_at :: int
  ubr_updated_at :: int

record rule_row =
  rl_id :: string
  rl_ebpf_id :: int
  rl_owner_user_id :: string
  rl_service_id :: "string option"
  rl_scope_type :: string
  rl_priority :: int
  rl_action :: string
  rl_mode :: string
  rl_dimension :: string
  rl_threshold_pps :: int
  rl_threshold_bps :: int
  rl_threshold_cps :: int
  rl_burst_packets :: int
  rl_burst_bytes :: int
  rl_sample_denom :: int
  rl_expires_at :: "int option"
  rl_enabled :: bool
  rl_name :: string
  rl_match_expr :: string
  rl_ttl_seconds :: int
  rl_evidence :: string
  rl_owner :: string
  rl_created_at :: int
  rl_updated_at :: int

record feed_source_row =
  fs_id :: string
  fs_owner_user_id :: "string option"
  fs_enabled :: bool
  fs_name :: string
  fs_type :: string
  fs_url :: string
  fs_credential_ref :: string
  fs_required_for_production :: bool
  fs_interval_seconds :: int
  fs_license_note :: string
  fs_quota_metadata :: string
  fs_status :: string
  fs_last_success_at :: "int option"
  fs_last_error_at :: "int option"
  fs_last_error :: string
  fs_next_run_at :: "int option"
  fs_active_entries :: int
  fs_conflict_count :: int
  fs_parse_error_count :: int

record reputation_row =
  re_ebpf_id :: int
  re_source_id :: string
  re_owner_user_id :: "string option"
  re_ip_or_cidr :: string
  re_score :: int
  re_action :: string
  re_status :: string
  re_expires_at :: "int option"
  re_id :: string
  re_reason :: string
  re_ttl_seconds :: int
  re_metadata :: string
  re_first_seen_at :: int
  re_last_seen_at :: int

record feed_run_row =
  frr_id :: string
  frr_source_id :: string
  frr_started_at :: int
  frr_finished_at :: "int option"
  frr_status :: string
  frr_items_fetched :: int
  frr_items_valid :: int
  frr_parse_errors :: int
  frr_error :: string
  frr_snapshot_version :: int

record feed_conflict_row =
  fc_id :: string
  fc_owner_user_id :: string
  fc_source_id :: string
  fc_reputation_id :: string
  fc_whitelist_id :: string
  fc_status :: string
  fc_detected_at :: int
  fc_resolved_at :: "int option"

record agent_row =
  ag_id :: string
  ag_owner_user_id :: string
  ag_hostname :: string
  ag_kernel_version :: string
  ag_ubuntu_version :: string
  ag_xdp_mode :: string
  ag_devmap_support :: bool
  ag_agent_version :: string
  ag_status :: string
  ag_active_policy_version :: int
  ag_last_seen_at :: "int option"

record agent_interface_row =
  ai_owner_user_id :: string
  ai_agent_id :: string
  ai_name :: string
  ai_ifindex :: int
  ai_mac :: string
  ai_role :: string
  ai_link_speed_bps :: int

record apply_status_row =
  as_owner_user_id :: string
  as_agent_id :: string
  as_policy_version :: int
  as_status :: string
  as_error_stage :: string
  as_error_reason :: string
  as_map_stats :: string
  as_devmap_stats :: string
  as_reported_at :: int

record telegram_config_row =
  tc_owner_user_id :: string
  tc_bot_token_ref :: string
  tc_chat_id :: string
  tc_parse_mode :: string
  tc_enabled :: bool

text \<open>
  The rows of \<^verbatim>\<open>alert_policies\<close> with channel \<^verbatim>\<open>telegram\<close>, the only channel the program reads; the column \<^verbatim>\<open>channel\<close> is left out.
\<close>

record alert_policy_row =
  ap_owner_user_id :: string
  ap_alert_type :: string
  ap_severity :: string
  ap_rate_limit_seconds :: int
  ap_max_attempts :: int
  ap_template :: string
  ap_enabled :: bool

record alert_row =
  al_id :: string
  al_owner_user_id :: string
  al_severity :: string
  al_type :: string
  al_dedupe_key :: string
  al_service_id :: "string option"
  al_affected_service :: string
  al_vector :: string
  al_evidence :: string
  al_recommended_action :: string
  al_status :: string
  al_created_by :: "string option"
  al_created_at :: int

record alert_delivery_row =
  ad_id :: string
  ad_owner_user_id :: string
  ad_alert_id :: string
  ad_channel :: string
  ad_status :: string
  ad_attempt :: int
  ad_error :: string
  ad_response :: string
  ad_created_at :: int
  ad_sent_at :: "int option"

record security_event_row =
  ser_owner_user_id :: string
  ser_event_time :: int
  ser_agent_id :: string
  ser_mono_ts_ns :: int
  ser_policy_version :: int
  ser_src_ip :: string
  ser_src_prefix24 :: string
  ser_dst_ip :: string
  ser_src_port :: int
  ser_dst_port :: int
  ser_protocol :: int
  ser_tcp_flags :: int
  ser_action :: int
  ser_reason :: int
  ser_service_id :: int
  ser_rule_id :: int
  ser_pkt_len :: int
  ser_sample_rate :: int
  ser_metadata :: string

record policy_snapshot_row =
  psr_owner_user_id :: string
  psr_version :: int
  psr_checksum :: string
  psr_object_checksum :: string
  psr_snapshot :: string
  psr_rollback_from :: "int option"
  psr_created_by :: "string option"

record audit_row =
  au_owner_user_id :: "string option"
  au_actor_id :: "string option"
  au_actor_username :: string
  au_action :: string
  au_entity_type :: string
  au_entity_id :: string
  au_reason :: "string option"

record control_db =
  app_users :: "user_row list"
  backend_services :: "backend_service_row list"
  forwarding_policies :: "forwarding_policy_row list"
  whitelist_entries :: "whitelist_row list"
  manual_blacklist_entries :: "blacklist_row list"
  udp_source_port_blocks :: "udp_block_row list"
  rules :: "rule_row list"
  feed_sources :: "feed_source_row list"
  reputation_entries :: "reputation_row list"
  policy_snapshots :: "policy_snapshot_row list"
  audit_events :: "audit_row list"
  user_sessions :: "session_row list"
  feed_runs :: "feed_run_row list"
  feed_conflicts :: "feed_conflict_row list"
  agents :: "agent_row list"
  agent_interfaces :: "agent_interface_row list"
  policy_apply_status :: "apply_status_row list"
  telegram_configs :: "telegram_config_row list"
  alert_policies :: "alert_policy_row list"
  alerts :: "alert_row list"
  alert_deliveries :: "alert_delivery_row list"
  security_events :: "security_event_row list"

subsection \<open>Calls, errors, transactions\<close>

datatype db_call =
  BeginTx | SetOwnerSetting | CommitTx | QueryUsers | QueryServiceOwner | QueryFeedOwner
| QueryRules | QueryForwardingPolicies | QueryBackendServices | QueryWhitelist | QueryBlacklist
| QueryUDPBlocks | QueryLatestSnapshot | QuerySnapshot | QuerySnapshots | InsertSnapshot
| NewUUID | InsertAudit | ReadTable string | WriteTable string | HashPassword

datatype control_error =
  AuthenticationRequired | Forbidden string | OwnerContextRequired | OwnerIDOrNameRequired
| ReasonRequired | TargetVersionRequired | SnapshotVersionRequired | NoSnapshots
| ScopeTypeNotAllowed
| DatabaseError db_call | NoRows | ScanOutOfRange int | UniqueViolation | NotNullViolation
| EntryCIDR string u32 addr_error | NotAHost string
| ResolvedIfindexRequired | ResolvedSrcMACRequired
| ForwardingTarget u32 control_error | BackendTarget string control_error
| ForwardingService u32 string control_error | BackendService string control_error
| SnapshotInvalid "policy_error list" | SnapshotUndecodable
| InputInvalid "input_error list" | ForeignKeyViolation | EncodeOutOfRange int | NotInet string
| ErrorText string

record store_env =
  se_fails :: "db_call \<Rightarrow> string \<Rightarrow> bool"
  se_now :: int
  se_clock :: int
  se_object :: "string option"
  se_digest :: digest
  se_Marshal :: "PolicySnapshot \<Rightarrow> string"
  se_Unmarshal :: "string \<Rightarrow> PolicySnapshot option"
  se_uuid :: "nat \<Rightarrow> string"
  se_identity :: "string \<Rightarrow> control_db \<Rightarrow> int"
  se_inet :: "string \<Rightarrow> string option"

record transaction =
  tx_owner :: string
  tx_db :: control_db

definition db_guard :: "store_env \<Rightarrow> db_call \<Rightarrow> string \<Rightarrow> control_error + unit" where
  "db_guard env call owner = (if se_fails env call owner then Inl (DatabaseError call) else Inr ())"

definition tx_Commit :: "store_env \<Rightarrow> transaction \<Rightarrow> control_error + control_db" where
  "tx_Commit env tx =
     (if se_fails env CommitTx (tx_owner tx) then Inl (DatabaseError CommitTx) else Inr (tx_db tx))"

text \<open>Encoding of a Go integer for an \<^verbatim>\<open>integer\<close> column (32 bits, signed).\<close>

definition int4 :: "int \<Rightarrow> control_error + int" where
  "int4 i = (if - (2 ^ 31) \<le> i \<and> i < 2 ^ 31 then Inr i else Inl (EncodeOutOfRange i))"

lemma int4_Inr [simp]: "int4 i = Inr j \<longleftrightarrow> j = i \<and> - (2 ^ 31) \<le> i \<and> i < 2 ^ 31"
  by (auto simp: int4_def)

text \<open>\<^verbatim>\<open>rows.Scan\<close> into an \<^verbatim>\<open>uint32\<close>.\<close>

definition scan_u32 :: "int \<Rightarrow> control_error + u32" where
  "scan_u32 i = (if 0 \<le> i \<and> i < 2 ^ 32 then Inr (word_of_int i) else Inl (ScanOutOfRange i))"

lemma scan_u32_Inr: "scan_u32 i = Inr w \<longleftrightarrow> 0 \<le> i \<and> i < 2 ^ 32 \<and> w = word_of_int i"
  by (auto simp: scan_u32_def)

lemma scan_u32_uint: "scan_u32 i = Inr w \<Longrightarrow> uint w = i"
  by (auto simp: scan_u32_Inr uint_word_of_int)

subsection \<open>SQL predicates\<close>

text \<open>
  SQL truth values: \<open>None\<close> is \<^verbatim>\<open>NULL\<close>. A \<^verbatim>\<open>WHERE\<close> clause keeps the rows on which it is true.
\<close>

definition sql_and :: "bool option \<Rightarrow> bool option \<Rightarrow> bool option" where
  "sql_and a b = (if a = Some False \<or> b = Some False then Some False
                  else if a = None \<or> b = None then None else Some True)"

definition sql_or :: "bool option \<Rightarrow> bool option \<Rightarrow> bool option" where
  "sql_or a b = (if a = Some True \<or> b = Some True then Some True
                 else if a = None \<or> b = None then None else Some False)"

definition sql_eq :: "'a option \<Rightarrow> 'a option \<Rightarrow> bool option" where
  "sql_eq a b = (case (a, b) of (Some x, Some y) \<Rightarrow> Some (x = y) | _ \<Rightarrow> None)"

lemma sql_and_true [simp]: "sql_and a b = Some True \<longleftrightarrow> a = Some True \<and> b = Some True"
  by (auto simp: sql_and_def)

lemma sql_or_true [simp]: "sql_or a b = Some True \<longleftrightarrow> a = Some True \<or> b = Some True"
  by (auto simp: sql_or_def)

lemma sql_eq_true [simp]: "sql_eq a b = Some True \<longleftrightarrow> a = b \<and> a \<noteq> None"
  by (auto simp: sql_eq_def split: option.splits)

definition nullif_empty :: "string \<Rightarrow> string option" where
  "nullif_empty v = (if v = [] then None else Some v)"

text \<open>\<^verbatim>\<open>NULLIF(current_setting('anti_ddos.owner_user_id', true), '')::uuid\<close>\<close>

definition ownerValueSQL :: "string \<Rightarrow> string option" where
  "ownerValueSQL setting = nullif_empty setting"

definition ownerSQL :: "string \<Rightarrow> string option \<Rightarrow> bool option" where
  "ownerSQL setting owner_user_id = sql_eq owner_user_id (ownerValueSQL setting)"

lemma ownerSQL_true: "ownerSQL setting owner = Some True \<longleftrightarrow> setting \<noteq> [] \<and> owner = Some setting"
  by (auto simp: ownerSQL_def ownerValueSQL_def nullif_empty_def)

text \<open>\<^verbatim>\<open>expires_at IS NULL OR expires_at > now()\<close>\<close>

definition not_expired :: "int \<Rightarrow> int option \<Rightarrow> bool" where
  "not_expired now expires_at = (case expires_at of None \<Rightarrow> True | Some t \<Rightarrow> now < t)"

subsection \<open>Loops over rows\<close>

text \<open>A loop that stops at the first error, and its results when it does not.\<close>

fun map_rows :: "('r \<Rightarrow> 'e + 'a) \<Rightarrow> 'r list \<Rightarrow> 'e + 'a list" where
  "map_rows f [] = Inr []"
| "map_rows f (r # rs) = (case f r of
     Inl e \<Rightarrow> Inl e
   | Inr a \<Rightarrow> (case map_rows f rs of Inl e \<Rightarrow> Inl e | Inr as \<Rightarrow> Inr (a # as)))"

lemma map_rows_Inr: "map_rows f rs = Inr as \<longleftrightarrow> map f rs = map Inr as"
proof (induction rs arbitrary: as)
  case Nil
  then show ?case by auto
next
  case (Cons r rs)
  show ?case by (cases as) (auto simp: Cons.IH [symmetric] split: sum.splits)
qed

lemma map_rows_length: "map_rows f rs = Inr as \<Longrightarrow> length as = length rs"
  by (metis length_map map_rows_Inr)

lemma map_rows_mem: "map_rows f rs = Inr as \<Longrightarrow> a \<in> set as \<Longrightarrow> \<exists>r\<in>set rs. f r = Inr a"
  unfolding map_rows_Inr by (metis imageE imageI set_map)

lemma map_rows_mem': "map_rows f rs = Inr as \<Longrightarrow> r \<in> set rs \<Longrightarrow> \<exists>a\<in>set as. f r = Inr a"
  unfolding map_rows_Inr by (metis imageE imageI set_map)

abbreviation bind_ok :: "'e + 'a \<Rightarrow> ('a \<Rightarrow> 'e + 'b) \<Rightarrow> 'e + 'b" where
  "bind_ok m f \<equiv> (case m of Inl e \<Rightarrow> Inl e | Inr a \<Rightarrow> f a)"

end
