(* ===== verification/PolicyScope.thy ===== *)
theory PolicyScope
  imports ControlDB
begin

section \<open>Who may change which policy\<close>

text \<open>
  \<^verbatim>\<open>internal/control/owner.go\<close> and \<^verbatim>\<open>policy_scope.go\<close>: the owner of a session and of a
  transaction, the roles, the scope of a policy mutation, and the SQL conditions that restrict
  listing and mutation. A condition that the source assembles as text is a function to SQL
  truth values of the setting of the transaction and the columns \<^verbatim>\<open>scope_type\<close> and
  \<^verbatim>\<open>owner_user_id\<close> of the row. A context is the owner it carries, if any.
\<close>

subsection \<open>Actors\<close>

record ViewingUser =
  vu_ID :: string
  vu_Username :: string

record User =
  user_ID :: string
  user_Username :: string
  user_Role :: string
  user_Status :: string
  user_ForcePasswordChange :: bool
  user_ViewingUser :: "ViewingUser option"
  user_ReadOnly :: bool

record Actor = User +
  actor_ViewOwnerUserID :: string

type_synonym go_context = "string option"

definition authorizationError :: "string \<Rightarrow> control_error" where
  "authorizationError message = Forbidden message"

definition contextWithOwner :: "go_context \<Rightarrow> string \<Rightarrow> go_context" where
  "contextWithOwner ctx ownerUserID =
     (let o' = TrimSpace ownerUserID in if o' = [] then ctx else Some o')"

definition ownerUserIDFromContext :: "go_context \<Rightarrow> string" where
  "ownerUserIDFromContext ctx = (case ctx of Some owner \<Rightarrow> TrimSpace owner | None \<Rightarrow> [])"

definition actorOwnerUserID :: "Actor option \<Rightarrow> string" where
  "actorOwnerUserID actor = (case actor of
     None \<Rightarrow> []
   | Some a \<Rightarrow>
       if TrimSpace (actor_ViewOwnerUserID a) \<noteq> [] then TrimSpace (actor_ViewOwnerUserID a)
       else (case user_ViewingUser a of
           Some v \<Rightarrow> if TrimSpace (vu_ID v) \<noteq> [] then TrimSpace (vu_ID v) else TrimSpace (user_ID a)
         | None \<Rightarrow> TrimSpace (user_ID a)))"

definition actorCanMutateConfig :: "Actor option \<Rightarrow> bool" where
  "actorCanMutateConfig actor = (case actor of
     None \<Rightarrow> False
   | Some a \<Rightarrow> user_Role a = RoleUser \<and> actorOwnerUserID actor = user_ID a)"

definition requireConfigMutation :: "Actor option \<Rightarrow> control_error option" where
  "requireConfigMutation actor =
     (if actor = None then Some AuthenticationRequired
      else if \<not> actorCanMutateConfig actor
      then Some (authorizationError ''user role required for config changes'')
      else None)"

definition requireAdmin :: "Actor option \<Rightarrow> control_error option" where
  "requireAdmin actor = (case actor of
     None \<Rightarrow> Some AuthenticationRequired
   | Some a \<Rightarrow>
       if user_Role a \<noteq> RoleAdmin then Some (authorizationError ''admin role required'') else None)"

definition requireGlobalFeedAdmin :: "Actor option \<Rightarrow> control_error option" where
  "requireGlobalFeedAdmin actor = (case requireAdmin actor of
     Some e \<Rightarrow> Some e
   | None \<Rightarrow> (case actor of
       None \<Rightarrow> None
     | Some a \<Rightarrow>
         if user_ReadOnly a \<or> user_ViewingUser a \<noteq> None
         then Some (authorizationError ''normal admin session required'') else None))"

definition validUserRole :: "string \<Rightarrow> bool" where
  "validUserRole role \<longleftrightarrow> role = RoleAdmin \<or> role = RoleUser"

subsection \<open>Transactions of an owner\<close>

definition begin_with_setting ::
    "store_env \<Rightarrow> control_db \<Rightarrow> string \<Rightarrow> control_error + transaction" where
  "begin_with_setting env db setting =
     bind_ok (db_guard env BeginTx setting) (\<lambda>_.
     bind_ok (db_guard env SetOwnerSetting setting) (\<lambda>_.
     Inr \<lparr>tx_owner = setting, tx_db = db\<rparr>))"

definition beginOwnerTx ::
    "store_env \<Rightarrow> control_db \<Rightarrow> string \<Rightarrow> control_error + transaction" where
  "beginOwnerTx env db ownerUserID =
     (let owner = TrimSpace ownerUserID in
      if owner = [] then Inl OwnerContextRequired else begin_with_setting env db owner)"

definition beginUnscopedTx :: "store_env \<Rightarrow> control_db \<Rightarrow> control_error + transaction" where
  "beginUnscopedTx env db = begin_with_setting env db []"

definition beginContextOwnerTx ::
    "store_env \<Rightarrow> control_db \<Rightarrow> go_context \<Rightarrow> control_error + transaction" where
  "beginContextOwnerTx env db ctx = beginOwnerTx env db (ownerUserIDFromContext ctx)"

definition beginContextOrUnscopedTx ::
    "store_env \<Rightarrow> control_db \<Rightarrow> go_context \<Rightarrow> control_error + transaction" where
  "beginContextOrUnscopedTx env db ctx =
     (if ownerUserIDFromContext ctx \<noteq> [] then beginOwnerTx env db (ownerUserIDFromContext ctx)
      else beginUnscopedTx env db)"

text \<open>The source also records the owner in the actor it is given; the updated actor is returned.\<close>

definition beginActorOwnerTx ::
    "store_env \<Rightarrow> control_db \<Rightarrow> Actor option \<Rightarrow> Actor option \<times> (control_error + transaction)" where
  "beginActorOwnerTx env db actor = (case actor of
     None \<Rightarrow> (None, Inl AuthenticationRequired)
   | Some a \<Rightarrow>
       (let owner = actorOwnerUserID actor;
            a' = (if owner \<noteq> [] then a\<lparr>actor_ViewOwnerUserID := owner\<rparr> else a)
        in (Some a', beginOwnerTx env db owner)))"

subsection \<open>Scope of a mutation\<close>

record policyMutationScope =
  pms_ScopeType :: string
  pms_OwnerUserID :: string
  pms_Owner :: string
  pms_AdminGlobal :: bool

definition admin_session :: "Actor \<Rightarrow> bool" where
  "admin_session a \<longleftrightarrow> user_Role a = RoleAdmin \<and> \<not> user_ReadOnly a \<and> user_ViewingUser a = None"

definition requirePolicyMutation ::
    "Actor option \<Rightarrow> string \<Rightarrow> string \<Rightarrow> string \<Rightarrow> control_error + policyMutationScope" where
  "requirePolicyMutation actor requestedScopeType legacyScope serviceID = (case actor of
     None \<Rightarrow> Inl AuthenticationRequired
   | Some a \<Rightarrow>
       (let scopeType = normalizeScopeType requestedScopeType in
        if admin_session a then
          (let scopeType = (if scopeType = [] then ScopeTypeAdminGlobal else scopeType) in
           if scopeType \<noteq> ScopeTypeAdminGlobal
           then Inl (authorizationError ''admin can only mutate admin_global policy config'')
           else Inr \<lparr>pms_ScopeType = ScopeTypeAdminGlobal, pms_OwnerUserID = user_ID a,
                  pms_Owner = user_Username a, pms_AdminGlobal = True\<rparr>)
        else if \<not> actorCanMutateConfig actor
        then Inl (authorizationError ''user role required for config changes'')
        else
          (let scopeType = effectiveScopeType scopeType legacyScope serviceID in
           if scopeType \<noteq> ScopeTypeUserGlobal \<and> scopeType \<noteq> ScopeTypeService
           then Inl ScopeTypeNotAllowed
           else Inr \<lparr>pms_ScopeType = scopeType, pms_OwnerUserID = actorOwnerUserID actor,
                  pms_Owner = user_Username a, pms_AdminGlobal = False\<rparr>)))"

subsection \<open>Conditions on rows\<close>

abbreviation is_admin_session :: "Actor option \<Rightarrow> bool" where
  "is_admin_session actor \<equiv> (case actor of None \<Rightarrow> False | Some a \<Rightarrow> admin_session a)"

definition policyListWhere ::
    "Actor option \<Rightarrow> string \<Rightarrow> string \<Rightarrow> string option \<Rightarrow> bool option" where
  "policyListWhere actor setting scope_type owner_user_id =
     (if is_admin_session actor then Some (scope_type = ScopeTypeAdminGlobal)
      else sql_or (Some (scope_type = ScopeTypeAdminGlobal)) (ownerSQL setting owner_user_id))"

definition policyEditableSQL ::
    "Actor option \<Rightarrow> string \<Rightarrow> string \<Rightarrow> string option \<Rightarrow> bool option" where
  "policyEditableSQL actor setting scope_type owner_user_id =
     (if is_admin_session actor then Some (scope_type = ScopeTypeAdminGlobal)
      else if actorCanMutateConfig actor
      then sql_and (Some (scope_type \<noteq> ScopeTypeAdminGlobal)) (ownerSQL setting owner_user_id)
      else Some False)"

definition policyMutationWhere ::
    "policyMutationScope \<Rightarrow> string \<Rightarrow> string \<Rightarrow> string option \<Rightarrow> bool option" where
  "policyMutationWhere scope setting scope_type owner_user_id =
     (if pms_AdminGlobal scope then Some (scope_type = ScopeTypeAdminGlobal)
      else sql_and (Some (scope_type \<noteq> ScopeTypeAdminGlobal)) (ownerSQL setting owner_user_id))"

definition beginPolicyMutationTx ::
    "store_env \<Rightarrow> control_db \<Rightarrow> Actor option \<Rightarrow> policyMutationScope \<Rightarrow>
     Actor option \<times> (control_error + transaction)" where
  "beginPolicyMutationTx env db actor scope =
     (if pms_AdminGlobal scope then (actor, beginUnscopedTx env db)
      else beginActorOwnerTx env db actor)"

subsection \<open>Owners in the database\<close>

definition activeOwnerUserIDs :: "store_env \<Rightarrow> control_db \<Rightarrow> control_error + string list" where
  "activeOwnerUserIDs env db =
     bind_ok (beginUnscopedTx env db) (\<lambda>tx.
     bind_ok (db_guard env QueryUsers (tx_owner tx)) (\<lambda>_.
     bind_ok (tx_Commit env tx) (\<lambda>_.
     Inr (map usr_id
       (sort_slice (\<lambda>u v. usr_username u < usr_username v)
         (filter (\<lambda>u. usr_role u = ''user'' \<and> usr_status u = ''active'') (app_users (tx_db tx))))))))"

definition first_row :: "('r \<Rightarrow> bool) \<Rightarrow> 'r list \<Rightarrow> control_error + 'r" where
  "first_row P rows = (case find P rows of None \<Rightarrow> Inl NoRows | Some r \<Rightarrow> Inr r)"

definition ResolveOwnerUserID ::
    "store_env \<Rightarrow> control_db \<Rightarrow> string \<Rightarrow> string \<Rightarrow> control_error + string" where
  "ResolveOwnerUserID env db userID username =
     (let userID = TrimSpace userID; username = TrimSpace username in
      if userID = [] \<and> username = [] then Inl OwnerIDOrNameRequired
      else
        bind_ok (beginUnscopedTx env db) (\<lambda>tx.
        bind_ok (db_guard env QueryUsers (tx_owner tx)) (\<lambda>_.
        bind_ok (first_row (\<lambda>u. (if userID \<noteq> [] then usr_id u = userID else usr_username u = username)
            \<and> usr_role u = ''user'' \<and> usr_status u = ''active'') (app_users (tx_db tx))) (\<lambda>u.
        bind_ok (tx_Commit env tx) (\<lambda>_. Inr (usr_id u))))))"

definition ownerContextForService ::
    "store_env \<Rightarrow> control_db \<Rightarrow> go_context \<Rightarrow> string \<Rightarrow> control_error + go_context" where
  "ownerContextForService env db ctx serviceID =
     (if ownerUserIDFromContext ctx \<noteq> [] then Inr ctx
      else let serviceID = TrimSpace serviceID in
        if serviceID = [] then Inl OwnerContextRequired
        else
          bind_ok (beginUnscopedTx env db) (\<lambda>tx.
          bind_ok (db_guard env QueryServiceOwner (tx_owner tx)) (\<lambda>_.
          bind_ok (first_row (\<lambda>r. bs_id r = serviceID) (backend_services (tx_db tx))) (\<lambda>r.
          bind_ok (tx_Commit env tx) (\<lambda>_.
          Inr (contextWithOwner ctx (bs_owner_user_id r)))))))"

definition ownerContextForFeedSource ::
    "store_env \<Rightarrow> control_db \<Rightarrow> go_context \<Rightarrow> string \<Rightarrow> control_error + go_context" where
  "ownerContextForFeedSource env db ctx sourceID =
     (if ownerUserIDFromContext ctx \<noteq> [] then Inr ctx
      else let sourceID = TrimSpace sourceID in
        if sourceID = [] then Inl OwnerContextRequired
        else
          bind_ok (beginUnscopedTx env db) (\<lambda>tx.
          bind_ok (db_guard env QueryFeedOwner (tx_owner tx)) (\<lambda>_.
          bind_ok (first_row (\<lambda>r. fs_id r = sourceID) (feed_sources (tx_db tx))) (\<lambda>r.
          bind_ok (tx_Commit env tx) (\<lambda>_.
          (case fs_owner_user_id r of
             None \<Rightarrow> Inr ctx
           | Some owner \<Rightarrow> if owner = [] then Inr ctx else Inr (contextWithOwner ctx owner)))))))"

text \<open>
  The row that \<^verbatim>\<open>insertAudit\<close> of \<^verbatim>\<open>store.go\<close> writes; the images of the entity before and after the
  change are left out.
\<close>

definition insertAudit ::
    "store_env \<Rightarrow> go_context \<Rightarrow> transaction \<Rightarrow> Actor option \<Rightarrow> string \<Rightarrow> string \<Rightarrow> string \<Rightarrow> string \<Rightarrow>
     control_error + transaction" where
  "insertAudit env ctx tx actor action entityType entityID reason =
     bind_ok (db_guard env NewUUID (tx_owner tx)) (\<lambda>_.
     bind_ok (db_guard env InsertAudit (tx_owner tx)) (\<lambda>_.
     (let ownerUserID = (if ownerUserIDFromContext ctx = [] then actorOwnerUserID actor
                         else ownerUserIDFromContext ctx);
          row = \<lparr>au_owner_user_id = nullif_empty ownerUserID,
                 au_actor_id = map_option user_ID actor,
                 au_actor_username = (case actor of None \<Rightarrow> [] | Some a \<Rightarrow> user_Username a),
                 au_action = action, au_entity_type = entityType, au_entity_id = entityID,
                 au_reason = nullif_empty (TrimSpace reason)\<rparr>
      in Inr (tx\<lparr>tx_db := (tx_db tx)\<lparr>audit_events := audit_events (tx_db tx) @ [row]\<rparr>\<rparr>))))"

end
