(* ===== verification/SnapshotBuild.thy ===== *)
theory SnapshotBuild
  imports PolicyScope ForwardingResolver
begin

section \<open>Building the effective snapshot of an owner\<close>

text \<open>
  \<^verbatim>\<open>buildEffectiveSnapshot\<close> of \<^verbatim>\<open>internal/control/snapshot.go\<close> and everything below it: the
  queries over the policy tables, the choice of one entry per map key where several rows
  compete, the services with their default rules, and the feature flags.

  A query is a filter and an order on a table. Go maps that the code fills and then ranges over
  are association lists; the result is sorted afterwards. Each loop over \<^verbatim>\<open>rows.Next()\<close> that
  stops at the first bad row is \<open>map_rows\<close> followed by the rest of the loop body.
\<close>

subsection \<open>Competing candidates\<close>

text \<open>
  \<^verbatim>\<open>if current, ok := byKey[key]; !ok || preferred(next, current) { byKey[key] = next }\<close>
\<close>

definition keep_preferred ::
    "('c \<Rightarrow> 'c \<Rightarrow> bool) \<Rightarrow> ('k \<times> 'c) list \<Rightarrow> 'k \<times> 'c \<Rightarrow> ('k \<times> 'c) list" where
  "keep_preferred preferred byKey kc = (case kc of (k, c) \<Rightarrow>
     (case map_of byKey k of
        None \<Rightarrow> upd k c byKey
      | Some current \<Rightarrow> if preferred c current then upd k c byKey else byKey))"

definition pick :: "('c \<Rightarrow> 'c \<Rightarrow> bool) \<Rightarrow> ('k \<times> 'c) list \<Rightarrow> ('k \<times> 'c) list" where
  "pick preferred cands = foldl (keep_preferred preferred) [] cands"

record 'e snapshotCandidate =
  cand_rank :: int
  cand_entry :: 'e

record blacklistSnapshotCandidate =
  bc_manual :: bool
  bc_rank :: int
  bc_entry :: PolicyCIDREntry

definition cidrCandidatePreferred ::
    "int \<Rightarrow> PolicyCIDREntry \<Rightarrow> int \<Rightarrow> PolicyCIDREntry \<Rightarrow> bool" where
  "cidrCandidatePreferred nextRank next currentRank current =
     (if nextRank \<noteq> currentRank then nextRank > currentRank
      else if ce_Priority next \<noteq> ce_Priority current then ce_Priority next < ce_Priority current
      else ce_EntryID next < ce_EntryID current)"

definition udpBlockCandidatePreferred ::
    "int \<Rightarrow> PolicyUDPSourcePortBlock \<Rightarrow> int \<Rightarrow> PolicyUDPSourcePortBlock \<Rightarrow> bool" where
  "udpBlockCandidatePreferred nextRank next currentRank current =
     (if nextRank \<noteq> currentRank then nextRank > currentRank
      else ub_EntryID next < ub_EntryID current)"

definition blacklistCandidatePreferred ::
    "blacklistSnapshotCandidate \<Rightarrow> blacklistSnapshotCandidate \<Rightarrow> bool" where
  "blacklistCandidatePreferred next current =
     (if bc_rank next \<noteq> bc_rank current then bc_rank next > bc_rank current
      else if bc_manual next \<noteq> bc_manual current then bc_manual next
      else if ce_Score (bc_entry next) \<noteq> ce_Score (bc_entry current)
      then ce_Score (bc_entry next) > ce_Score (bc_entry current)
      else ce_EntryID (bc_entry next) < ce_EntryID (bc_entry current))"

definition rulePreferred :: "PolicyRule \<Rightarrow> PolicyRule \<Rightarrow> bool" where
  "rulePreferred next current =
     (if scopeTypeRank (pr_ScopeType next) \<noteq> scopeTypeRank (pr_ScopeType current)
      then scopeTypeRank (pr_ScopeType next) > scopeTypeRank (pr_ScopeType current)
      else if pr_Priority next \<noteq> pr_Priority current then pr_Priority next < pr_Priority current
      else pr_RuleID next < pr_RuleID current)"

definition cidrEntrySnapshotLess :: "PolicyCIDREntry \<Rightarrow> PolicyCIDREntry \<Rightarrow> bool" where
  "cidrEntrySnapshotLess left right =
     (if ce_CIDR left \<noteq> ce_CIDR right then ce_CIDR left < ce_CIDR right
      else if ce_Scope left \<noteq> ce_Scope right then ce_Scope left < ce_Scope right
      else if ce_ServiceID left \<noteq> ce_ServiceID right then ce_ServiceID left < ce_ServiceID right
      else ce_EntryID left < ce_EntryID right)"

definition udpSnapshotLess :: "PolicyUDPSourcePortBlock \<Rightarrow> PolicyUDPSourcePortBlock \<Rightarrow> bool" where
  "udpSnapshotLess left right =
     (if ub_Port left \<noteq> ub_Port right then ub_Port left < ub_Port right
      else if ub_Scope left \<noteq> ub_Scope right then ub_Scope left < ub_Scope right
      else if ub_ServiceID left \<noteq> ub_ServiceID right then ub_ServiceID left < ub_ServiceID right
      else ub_EntryID left < ub_EntryID right)"

subsection \<open>Shared parts of the queries\<close>

text \<open>\<^verbatim>\<open>LEFT JOIN backend_services bs ON bs.id = service_id\<close> and \<^verbatim>\<open>COALESCE(bs.ebpf_id, 0)\<close>.\<close>

definition service_ebpf :: "control_db \<Rightarrow> string option \<Rightarrow> int" where
  "service_ebpf db service_id =
     (case find (\<lambda>bs. service_id = Some (bs_id bs)) (backend_services db) of
        None \<Rightarrow> 0 | Some bs \<Rightarrow> bs_ebpf_id bs)"

definition rule_ebpf :: "control_db \<Rightarrow> string option \<Rightarrow> int" where
  "rule_ebpf db rule_id =
     (case find (\<lambda>r. rule_id = Some (rl_id r)) (rules db) of
        None \<Rightarrow> 0 | Some r \<Rightarrow> rl_ebpf_id r)"

definition in_scope :: "string \<Rightarrow> string \<Rightarrow> string \<Rightarrow> bool" where
  "in_scope setting scope_type owner \<longleftrightarrow>
     sql_or (Some (scope_type = ScopeTypeAdminGlobal)) (ownerSQL setting (Some owner)) = Some True"

definition by_two_keys :: "('r \<Rightarrow> int) \<Rightarrow> ('r \<Rightarrow> int) \<Rightarrow> 'r list \<Rightarrow> 'r list" where
  "by_two_keys f g = sort_slice (\<lambda>a b. if f a \<noteq> f b then f a < f b else g a < g b)"

definition expires_ns :: "int option \<Rightarrow> u64" where
  "expires_ns expires = (case expires of None \<Rightarrow> 0 | Some t \<Rightarrow> word_of_int t)"

definition zero_entry :: PolicyCIDREntry where
  "zero_entry = \<lparr>ce_EntryID = 0, ce_CIDR = [], ce_Priority = 0, ce_Action = 0, ce_SourceType = 0,
     ce_Scope = 0, ce_ServiceID = 0, ce_Score = 0, ce_RuleID = 0, ce_ExpiresAtUnixNS = 0\<rparr>"

text \<open>The part of the two CIDR loops that fills scope, service and expiry and forms the key.\<close>

definition scoped_entry ::
    "string \<Rightarrow> u32 \<Rightarrow> int option \<Rightarrow> PolicyCIDREntry \<Rightarrow> string \<times> PolicyCIDREntry" where
  "scoped_entry scopeType serviceID expires entry =
     (let e = entry\<lparr>ce_SourceType := 1, ce_Scope := PolicyScopeGlobal,
                     ce_ExpiresAtUnixNS := expires_ns expires\<rparr>
      in if scopeType = ScopeTypeService
         then (''service:'' @ dec (unat serviceID) @ '':'' @ ce_CIDR e,
               e\<lparr>ce_Scope := PolicyScopeService, ce_ServiceID := serviceID\<rparr>)
         else (''global:'' @ ce_CIDR e, e))"

subsection \<open>Whitelist\<close>

definition whitelist_rows :: "store_env \<Rightarrow> transaction \<Rightarrow> whitelist_row list" where
  "whitelist_rows env tx = by_two_keys wl_priority wl_ebpf_id
     (filter (\<lambda>w. wl_enabled w \<and> in_scope (tx_owner tx) (wl_scope_type w) (wl_owner_user_id w)
        \<and> not_expired (se_now env) (wl_expires_at w)) (whitelist_entries (tx_db tx)))"

definition whitelist_candidate ::
    "control_db \<Rightarrow> whitelist_row \<Rightarrow> control_error + (string \<times> PolicyCIDREntry snapshotCandidate)" where
  "whitelist_candidate db w =
     bind_ok (scan_u32 (wl_ebpf_id w)) (\<lambda>entryID.
     bind_ok (scan_u32 (wl_priority w)) (\<lambda>priority.
     bind_ok (scan_u32 (service_ebpf db (wl_service_id w))) (\<lambda>serviceID.
     (case parseCIDR (wl_ip_or_cidr w) of
        Inl e \<Rightarrow> Inl (EntryCIDR ''whitelist'' entryID e)
      | Inr pfx \<Rightarrow>
          (case scoped_entry (wl_scope_type w) serviceID (wl_expires_at w)
               (zero_entry\<lparr>ce_EntryID := entryID, ce_CIDR := Prefix_String pfx,
                           ce_Priority := priority, ce_Action := ActionPass\<rparr>) of
             (key, entry) \<Rightarrow>
               Inr (key, \<lparr>cand_rank = scopeTypeRank (wl_scope_type w), cand_entry = entry\<rparr>))))))"

definition whitelist_preferred ::
    "PolicyCIDREntry snapshotCandidate \<Rightarrow> PolicyCIDREntry snapshotCandidate \<Rightarrow> bool" where
  "whitelist_preferred next current =
     cidrCandidatePreferred (cand_rank next) (cand_entry next) (cand_rank current) (cand_entry current)"

definition snapshotWhitelist ::
    "store_env \<Rightarrow> transaction \<Rightarrow> control_error + PolicyCIDREntry list" where
  "snapshotWhitelist env tx =
     bind_ok (db_guard env QueryWhitelist (tx_owner tx)) (\<lambda>_.
     bind_ok (map_rows (whitelist_candidate (tx_db tx)) (whitelist_rows env tx)) (\<lambda>cands.
     Inr (sort_slice cidrEntrySnapshotLess
       (map (\<lambda>kc. cand_entry (snd kc)) (pick whitelist_preferred cands)))))"

subsection \<open>Blacklist\<close>

record blacklist_query_row =
  bq_manual :: bool
  bq_scope_type :: string
  bq_service_ebpf :: int
  bq_ebpf_id :: int
  bq_ip_or_cidr :: string
  bq_score :: int
  bq_rule_ebpf :: int
  bq_expires_at :: "int option"

definition manual_blacklist_rows :: "store_env \<Rightarrow> transaction \<Rightarrow> blacklist_query_row list" where
  "manual_blacklist_rows env tx =
     map (\<lambda>b. \<lparr>bq_manual = True, bq_scope_type = bl_scope_type b,
               bq_service_ebpf = service_ebpf (tx_db tx) (bl_service_id b),
               bq_ebpf_id = bl_ebpf_id b, bq_ip_or_cidr = bl_ip_or_cidr b, bq_score = bl_score b,
               bq_rule_ebpf = rule_ebpf (tx_db tx) (bl_rule_id b), bq_expires_at = bl_expires_at b\<rparr>)
       (filter (\<lambda>b. bl_enabled b \<and> in_scope (tx_owner tx) (bl_scope_type b) (bl_owner_user_id b)
          \<and> not_expired (se_now env) (bl_expires_at b)) (manual_blacklist_entries (tx_db tx)))"

definition global_feed_enabled :: "control_db \<Rightarrow> string \<Rightarrow> bool" where
  "global_feed_enabled db source_id \<longleftrightarrow>
     list_ex (\<lambda>fs. fs_id fs = source_id \<and> fs_enabled fs \<and> fs_owner_user_id fs = None) (feed_sources db)"

definition reputation_rows :: "store_env \<Rightarrow> transaction \<Rightarrow> blacklist_query_row list" where
  "reputation_rows env tx =
     map (\<lambda>r. \<lparr>bq_manual = False, bq_scope_type = ''admin_global'', bq_service_ebpf = 0,
               bq_ebpf_id = re_ebpf_id r, bq_ip_or_cidr = re_ip_or_cidr r, bq_score = re_score r,
               bq_rule_ebpf = 0, bq_expires_at = re_expires_at r\<rparr>)
       (filter (\<lambda>r. global_feed_enabled (tx_db tx) (re_source_id r) \<and> re_owner_user_id r = None
          \<and> re_status r = ''active'' \<and> re_action r = ''drop''
          \<and> not_expired (se_now env) (re_expires_at r)) (reputation_entries (tx_db tx)))"

text \<open>\<^verbatim>\<open>UNION ALL \<dots> ORDER BY 1\<close>: \<^verbatim>\<open>false\<close> sorts before \<^verbatim>\<open>true\<close>.\<close>

definition blacklist_rows :: "store_env \<Rightarrow> transaction \<Rightarrow> blacklist_query_row list" where
  "blacklist_rows env tx = reputation_rows env tx @ manual_blacklist_rows env tx"

definition blacklist_candidate ::
    "blacklist_query_row \<Rightarrow> control_error + (string \<times> blacklistSnapshotCandidate)" where
  "blacklist_candidate b =
     bind_ok (scan_u32 (bq_service_ebpf b)) (\<lambda>serviceID.
     bind_ok (scan_u32 (bq_ebpf_id b)) (\<lambda>entryID.
     bind_ok (scan_u32 (bq_score b)) (\<lambda>score.
     bind_ok (scan_u32 (bq_rule_ebpf b)) (\<lambda>ruleID.
     (case parseCIDR (bq_ip_or_cidr b) of
        Inl e \<Rightarrow> Inl (EntryCIDR ''blacklist'' entryID e)
      | Inr pfx \<Rightarrow>
          (case scoped_entry (bq_scope_type b) serviceID (bq_expires_at b)
               (zero_entry\<lparr>ce_EntryID := entryID, ce_CIDR := Prefix_String pfx, ce_Score := score,
                           ce_RuleID := ruleID, ce_Action := ActionDrop\<rparr>) of
             (key, entry) \<Rightarrow>
               Inr (key, \<lparr>bc_manual = bq_manual b, bc_rank = scopeTypeRank (bq_scope_type b),
                          bc_entry = entry\<rparr>)))))))"

definition snapshotBlacklist ::
    "store_env \<Rightarrow> transaction \<Rightarrow> control_error + PolicyCIDREntry list" where
  "snapshotBlacklist env tx =
     bind_ok (db_guard env QueryBlacklist (tx_owner tx)) (\<lambda>_.
     bind_ok (map_rows blacklist_candidate (blacklist_rows env tx)) (\<lambda>cands.
     Inr (sort_slice cidrEntrySnapshotLess
       (map (\<lambda>kc. bc_entry (snd kc)) (pick blacklistCandidatePreferred cands)))))"

subsection \<open>UDP source ports\<close>

definition udp_block_rows :: "store_env \<Rightarrow> transaction \<Rightarrow> udp_block_row list" where
  "udp_block_rows env tx = by_two_keys ubr_port ubr_ebpf_id
     (filter (\<lambda>u. ubr_enabled u \<and> in_scope (tx_owner tx) (ubr_scope_type u) (ubr_owner_user_id u)
        \<and> not_expired (se_now env) (ubr_expires_at u)) (udp_source_port_blocks (tx_db tx)))"

definition udp_block_candidate ::
    "control_db \<Rightarrow> udp_block_row \<Rightarrow>
     control_error + (string \<times> PolicyUDPSourcePortBlock snapshotCandidate)" where
  "udp_block_candidate db u =
     bind_ok (scan_u32 (ubr_ebpf_id u)) (\<lambda>entryID.
     bind_ok (scan_u32 (service_ebpf db (ubr_service_id u))) (\<lambda>serviceID.
     (let port = word_of_int (ubr_port u) :: u16;
          entry = \<lparr>ub_EntryID = entryID, ub_Port = port, ub_Scope = PolicyScopeGlobal,
                   ub_ServiceID = 0, ub_ExpiresAtUnixNS = expires_ns (ubr_expires_at u)\<rparr>;
          rank = scopeTypeRank (ubr_scope_type u)
      in Inr (if ubr_scope_type u = ScopeTypeService
           then (''service:'' @ dec (unat serviceID) @ '':'' @ dec (unat port),
                 \<lparr>cand_rank = rank, cand_entry =
                   entry\<lparr>ub_Scope := PolicyScopeService, ub_ServiceID := serviceID\<rparr>\<rparr>)
           else (''global:'' @ dec (unat port), \<lparr>cand_rank = rank, cand_entry = entry\<rparr>)))))"

definition udp_preferred ::
    "PolicyUDPSourcePortBlock snapshotCandidate \<Rightarrow> PolicyUDPSourcePortBlock snapshotCandidate \<Rightarrow> bool" where
  "udp_preferred next current =
     udpBlockCandidatePreferred (cand_rank next) (cand_entry next) (cand_rank current) (cand_entry current)"

definition snapshotUDPSourcePortBlocks ::
    "store_env \<Rightarrow> transaction \<Rightarrow> control_error + PolicyUDPSourcePortBlock list" where
  "snapshotUDPSourcePortBlocks env tx =
     bind_ok (db_guard env QueryUDPBlocks (tx_owner tx)) (\<lambda>_.
     bind_ok (map_rows (udp_block_candidate (tx_db tx)) (udp_block_rows env tx)) (\<lambda>cands.
     Inr (sort_slice udpSnapshotLess
       (map (\<lambda>kc. cand_entry (snd kc)) (pick udp_preferred cands)))))"

subsection \<open>Rules\<close>

definition rule_rows :: "store_env \<Rightarrow> transaction \<Rightarrow> rule_row list" where
  "rule_rows env tx = by_two_keys rl_priority rl_ebpf_id
     (filter (\<lambda>r. rl_enabled r \<and> in_scope (tx_owner tx) (rl_scope_type r) (rl_owner_user_id r)
        \<and> not_expired (se_now env) (rl_expires_at r)) (rules (tx_db tx)))"

definition scan_rule :: "control_db \<Rightarrow> rule_row \<Rightarrow> control_error + PolicyRule" where
  "scan_rule db r =
     bind_ok (scan_u32 (rl_ebpf_id r)) (\<lambda>ruleID.
     bind_ok (scan_u32 (service_ebpf db (rl_service_id r))) (\<lambda>serviceID.
     bind_ok (scan_u32 (rl_priority r)) (\<lambda>priority.
     bind_ok (scan_u32 (rl_threshold_pps r)) (\<lambda>pps.
     bind_ok (scan_u32 (rl_threshold_bps r)) (\<lambda>bps.
     bind_ok (scan_u32 (rl_threshold_cps r)) (\<lambda>cps.
     bind_ok (scan_u32 (rl_burst_packets r)) (\<lambda>burst_packets.
     bind_ok (scan_u32 (rl_burst_bytes r)) (\<lambda>burst_bytes.
     bind_ok (scan_u32 (rl_sample_denom r)) (\<lambda>sample_denom.
     Inr \<lparr>pr_RuleID = ruleID, pr_ScopeType = rl_scope_type r, pr_Priority = priority,
          pr_Action = ruleActionNumber (rl_action r), pr_Mode = ruleModeNumber (rl_mode r),
          pr_ServiceID = serviceID, pr_Dimension = ruleDimensionNumber (rl_dimension r),
          pr_ThresholdPPS = pps, pr_ThresholdBPS = bps, pr_ThresholdCPS = cps,
          pr_BurstPackets = burst_packets, pr_BurstBytes = burst_bytes,
          pr_SampleDenom = sample_denom,
          pr_ExpiresAtUnixNS = expires_ns (rl_expires_at r)\<rparr>)))))))))"

definition snapshotRules :: "store_env \<Rightarrow> transaction \<Rightarrow> control_error + PolicyRule list" where
  "snapshotRules env tx =
     bind_ok (db_guard env QueryRules (tx_owner tx)) (\<lambda>_.
     map_rows (scan_rule (tx_db tx)) (rule_rows env tx))"

text \<open>The two variables of \<^verbatim>\<open>assignDefaultRules\<close>, and its loops.\<close>

fun default_rules ::
    "PolicyRule list \<Rightarrow> PolicyRule option \<Rightarrow> (u32 \<rightharpoonup> PolicyRule) \<Rightarrow>
     PolicyRule option \<times> (u32 \<rightharpoonup> PolicyRule)" where
  "default_rules [] global serviceRules = (global, serviceRules)"
| "default_rules (rule # rest) global serviceRules =
     (if pr_RuleID rule = 0 then default_rules rest global serviceRules
      else if pr_ServiceID rule = 0 then
        default_rules rest
          (case global of
             None \<Rightarrow> Some rule
           | Some g \<Rightarrow> if rulePreferred rule g then Some rule else global) serviceRules
      else default_rules rest global
        (case serviceRules (pr_ServiceID rule) of
           None \<Rightarrow> serviceRules(pr_ServiceID rule \<mapsto> rule)
         | Some current \<Rightarrow>
             if rulePreferred rule current then serviceRules(pr_ServiceID rule \<mapsto> rule)
             else serviceRules))"

definition assignDefaultRules :: "PolicyService list \<Rightarrow> PolicyRule list \<Rightarrow> PolicyService list" where
  "assignDefaultRules services policyRules = (case default_rules policyRules None Map.empty of
     (global, serviceRules) \<Rightarrow>
       map (\<lambda>s. case serviceRules (ps_ServiceID s) of
                  Some rule \<Rightarrow> s\<lparr>ps_DefaultRuleID := pr_RuleID rule\<rparr>
                | None \<Rightarrow> (case global of
                    Some g \<Rightarrow> s\<lparr>ps_DefaultRuleID := pr_RuleID g\<rparr>
                  | None \<Rightarrow> s)) services)"

subsection \<open>Services\<close>

definition hostV4 :: "string \<Rightarrow> control_error + string" where
  "hostV4 v = (case parseCIDR v of
     Inl e \<Rightarrow> Inl (EntryCIDR ''host'' 0 e)
   | Inr pfx \<Rightarrow> if pfx_bits pfx \<noteq> 32 then Inl (NotAHost v) else Inr (Addr_String (pfx_addr pfx)))"

definition mustProto :: "string \<Rightarrow> u8" where
  "mustProto proto = (case policyProtoNumber proto of Inl _ \<Rightarrow> 0 | Inr v \<Rightarrow> v)"

definition devmapKeyOrDefault :: "u32 \<Rightarrow> u32 \<Rightarrow> u32" where
  "devmapKeyOrDefault v seed =
     (if v \<noteq> 0 then v else let key = seed mod 128 in if key = 0 then 1 else key)"

definition makePolicyService ::
    "ServiceResolveRequest \<Rightarrow> u32 \<Rightarrow> string \<Rightarrow> string \<Rightarrow> control_error + PolicyService" where
  "makePolicyService req ifindex dstMAC srcMAC =
     (let dstMAC = TrimSpace dstMAC; srcMAC = TrimSpace srcMAC in
      if dstMAC \<noteq> [] then
        if ifindex = 0 then Inl ResolvedIfindexRequired
        else if srcMAC = [] then Inl ResolvedSrcMACRequired
        else Inr \<lparr>ps_ServiceID = req_ServiceID req, ps_ForwardingPolicyID = req_ForwardingPolicyID req,
               ps_DstV4 = req_DstV4 req, ps_DstPort = req_DstPort req, ps_Proto = req_Proto req,
               ps_Action = ActionRedirect, ps_Priority = req_Priority req, ps_DefaultRuleID = 0,
               ps_OutputInterface = req_OutputInterface req, ps_OutputIfindex = ifindex,
               ps_DevmapKey = req_DevmapKey req, ps_NeighborStatus = NeighborResolved,
               ps_DstMAC = dstMAC, ps_SrcMAC = srcMAC\<rparr>
      else Inr \<lparr>ps_ServiceID = req_ServiceID req, ps_ForwardingPolicyID = req_ForwardingPolicyID req,
             ps_DstV4 = req_DstV4 req, ps_DstPort = req_DstPort req, ps_Proto = req_Proto req,
             ps_Action = ActionRedirect, ps_Priority = req_Priority req,
             ps_DefaultRuleID = req_DefaultRuleID req,
             ps_OutputInterface = req_OutputInterface req, ps_OutputIfindex = 0,
             ps_DevmapKey = req_DevmapKey req, ps_NeighborStatus = 0, ps_DstMAC = [], ps_SrcMAC = []\<rparr>)"

definition forwarding_rows ::
    "transaction \<Rightarrow> (forwarding_policy_row \<times> backend_service_row) list" where
  "forwarding_rows tx = by_two_keys (\<lambda>r. fp_priority (fst r)) (\<lambda>r. fp_ebpf_id (fst r))
     (filter (\<lambda>(fp, bs). bs_id bs = fp_service_id fp \<and> fp_enabled fp \<and> bs_enabled bs
         \<and> bs_deleted_at bs = None
         \<and> ownerSQL (tx_owner tx) (Some (fp_owner_user_id fp)) = Some True
         \<and> bs_owner_user_id bs = fp_owner_user_id fp)
       (List.product (forwarding_policies (tx_db tx)) (backend_services (tx_db tx))))"

definition forwarding_service ::
    "forwarding_policy_row \<times> backend_service_row \<Rightarrow> control_error + PolicyService" where
  "forwarding_service row = (case row of (fp, bs) \<Rightarrow>
     bind_ok (scan_u32 (fp_ebpf_id fp)) (\<lambda>policyID.
     bind_ok (scan_u32 (bs_ebpf_id bs)) (\<lambda>serviceID.
     bind_ok (scan_u32 (fp_match_dst_port fp)) (\<lambda>port.
     bind_ok (scan_u32 (fp_resolved_ifindex fp)) (\<lambda>ifindex.
     bind_ok (scan_u32 (fp_devmap_key fp)) (\<lambda>devmapKey.
     bind_ok (scan_u32 (fp_priority fp)) (\<lambda>priority.
     (case hostV4 (fp_backend_target fp) of
        Inl e \<Rightarrow> Inl (ForwardingTarget policyID e)
      | Inr host \<Rightarrow>
          (case makePolicyService
               \<lparr>req_ServiceID = serviceID, req_ForwardingPolicyID = policyID, req_DstV4 = host,
                req_DstPort = ucast port, req_Proto = mustProto (fp_match_protocol fp),
                req_Priority = priority, req_DefaultRuleID = 0,
                req_OutputInterface = fp_output_interface fp,
                req_DevmapKey = devmapKeyOrDefault devmapKey policyID\<rparr>
               ifindex (fp_resolved_dst_mac fp) (fp_resolved_src_mac fp) of
             Inl e \<Rightarrow> Inl (ForwardingService policyID (bs_id bs) e)
           | Inr service \<Rightarrow> Inr service)))))))))"

definition snapshotServicesFromForwardingPolicies ::
    "store_env \<Rightarrow> transaction \<Rightarrow> control_error + PolicyService list" where
  "snapshotServicesFromForwardingPolicies env tx =
     bind_ok (db_guard env QueryForwardingPolicies (tx_owner tx)) (\<lambda>_.
     map_rows forwarding_service (forwarding_rows tx))"

definition backend_rows :: "transaction \<Rightarrow> backend_service_row list" where
  "backend_rows tx = by_two_keys bs_priority bs_ebpf_id
     (filter (\<lambda>bs. bs_enabled bs \<and> bs_deleted_at bs = None
         \<and> ownerSQL (tx_owner tx) (Some (bs_owner_user_id bs)) = Some True
         \<and> \<not> list_ex (\<lambda>fp. fp_service_id fp = bs_id bs \<and> fp_enabled fp) (forwarding_policies (tx_db tx)))
       (backend_services (tx_db tx)))"

definition backend_row_services :: "backend_service_row \<Rightarrow> control_error + PolicyService list" where
  "backend_row_services bs =
     bind_ok (scan_u32 (bs_ebpf_id bs)) (\<lambda>serviceID.
     bind_ok (scan_u32 (bs_resolved_ifindex bs)) (\<lambda>ifindex.
     bind_ok (scan_u32 (bs_priority bs)) (\<lambda>priority.
     (case hostV4 (bs_backend_cidr bs) of
        Inl e \<Rightarrow> Inl (BackendTarget (bs_id bs) e)
      | Inr host \<Rightarrow>
          map_rows (\<lambda>port.
            (case makePolicyService
                 \<lparr>req_ServiceID = serviceID, req_ForwardingPolicyID = serviceID, req_DstV4 = host,
                  req_DstPort = word_of_int port, req_Proto = mustProto (bs_protocol bs),
                  req_Priority = priority, req_DefaultRuleID = 0,
                  req_OutputInterface = bs_output_interface bs,
                  req_DevmapKey = devmapKeyOrDefault 0 serviceID\<rparr>
                 ifindex (bs_resolved_next_hop_mac bs) (bs_resolved_src_mac bs) of
               Inl e \<Rightarrow> Inl (BackendService (bs_id bs) e)
             | Inr service \<Rightarrow> Inr service))
            (if bs_protocol bs = ''icmp'' \<and> bs_allowed_ports bs = [] then [0]
             else bs_allowed_ports bs)))))"

definition snapshotServicesFromBackendServices ::
    "store_env \<Rightarrow> transaction \<Rightarrow> control_error + PolicyService list" where
  "snapshotServicesFromBackendServices env tx =
     bind_ok (db_guard env QueryBackendServices (tx_owner tx)) (\<lambda>_.
     bind_ok (map_rows backend_row_services (backend_rows tx)) (\<lambda>services.
     Inr (concat services)))"

definition servicePortLess :: "PolicyService \<Rightarrow> PolicyService \<Rightarrow> bool" where
  "servicePortLess left right =
     (if ps_DstV4 left \<noteq> ps_DstV4 right then ps_DstV4 left < ps_DstV4 right
      else if ps_Proto left \<noteq> ps_Proto right then ps_Proto left < ps_Proto right
      else ps_DstPort left < ps_DstPort right)"

definition snapshotServices ::
    "store_env \<Rightarrow> transaction \<Rightarrow> PolicyRule list \<Rightarrow> control_error + PolicyService list" where
  "snapshotServices env tx policyRules =
     bind_ok (snapshotServicesFromForwardingPolicies env tx) (\<lambda>fromPolicies.
     bind_ok (snapshotServicesFromBackendServices env tx) (\<lambda>fallback.
     Inr (assignDefaultRules (sort_slice servicePortLess (fromPolicies @ fallback)) policyRules)))"

subsection \<open>The snapshot\<close>

definition effective_flags ::
    "PolicyCIDREntry list \<Rightarrow> PolicyCIDREntry list \<Rightarrow> PolicyUDPSourcePortBlock list \<Rightarrow> string list" where
  "effective_flags whitelist blacklist udp =
     [''policy_snapshot_v1'', ''ipv4'', ''ab_policy_maps'', ''tx_devmap'']
     @ (if udp \<noteq> [] then [''udp_src_port_block''] else [])
     @ (if list_ex (\<lambda>e. ce_Scope e = PolicyScopeService) whitelist
        then [''service_scoped_whitelist_v4''] else [])
     @ (if list_ex (\<lambda>e. ce_Scope e = PolicyScopeService) blacklist
        then [''service_scoped_blacklist_v4''] else [])
     @ (if list_ex (\<lambda>e. ub_Scope e = PolicyScopeService) udp
        then [''service_scoped_udp_src_port_block''] else [])"

definition buildEffectiveSnapshot ::
    "store_env \<Rightarrow> transaction \<Rightarrow> u32 \<Rightarrow> control_error + PolicySnapshot" where
  "buildEffectiveSnapshot env tx version =
     bind_ok (snapshotRules env tx) (\<lambda>rules.
     bind_ok (snapshotServices env tx rules) (\<lambda>services.
     bind_ok (snapshotWhitelist env tx) (\<lambda>whitelist.
     bind_ok (snapshotBlacklist env tx) (\<lambda>blacklist.
     bind_ok (snapshotUDPSourcePortBlocks env tx) (\<lambda>udp.
     Inr \<lparr>snap_SchemaVersion = 1, snap_Version = version, snap_Checksum = [],
          snap_ObjectChecksum =
            (case se_object env of None \<Rightarrow> ''control-object-unavailable'' | Some c \<Rightarrow> c),
          snap_FeatureFlags = effective_flags whitelist blacklist udp,
          snap_Runtime = \<lparr>prc_MalformedPolicy = ActionDrop, prc_SampleDenom = 0\<rparr>,
          snap_WhitelistV4 = whitelist, snap_BlacklistV4 = blacklist,
          snap_UDPSourcePortBlocks = udp, snap_Services = services, snap_Rules = rules\<rparr>)))))"

definition policyContentFingerprint :: "digest \<Rightarrow> PolicySnapshot \<Rightarrow> string" where
  "policyContentFingerprint digest s =
     CanonicalPolicyChecksum digest (s\<lparr>snap_Version := 0, snap_Checksum := []\<rparr>)"

end
