(* ===== verification/SnapshotChoice.thy ===== *)
theory SnapshotChoice
  imports SnapshotBuild SnapshotVerify
begin

section \<open>Which entries a snapshot gets\<close>

text \<open>
  Facts about \<^verbatim>\<open>internal/control/snapshot.go\<close>: the preference functions are strict weak orders, so
  the loop over the rows keeps exactly one entry per map key, an entry no competing row is
  preferred to; the order in which Go ranges over the map does not matter; what the lists hold
  comes from rows of the owner or from global rows, and the agent's verification finds nothing
  wrong with the lists.
\<close>

subsection \<open>The loop that keeps the preferred candidate\<close>

lemma pick_Nil [simp]: "pick p [] = []"
  by (simp add: pick_def)

lemma pick_snoc: "pick p (cs @ [kc]) = keep_preferred p (pick p cs) kc"
  by (simp add: pick_def)

lemma keep_keys: "fst ` set (keep_preferred p m (k, c)) = insert k (fst ` set m)"
  by (auto simp: keep_preferred_def map_of_eq_None_iff image_iff dest: map_of_SomeD split: option.split)
    (metis fst_conv map_of_SomeD)+

lemma keep_distinct: "distinct (map fst m) \<Longrightarrow> distinct (map fst (keep_preferred p m kc))"
  by (simp add: keep_preferred_def split: prod.split option.split)

lemma pick_keys [simp]: "fst ` set (pick p cs) = fst ` set cs"
proof (induction cs rule: rev_induct)
  case (snoc kc cs)
  then show ?case by (cases kc) (simp only: pick_snoc keep_keys, simp)
qed simp

lemma pick_distinct [simp]: "distinct (map fst (pick p cs))"
  by (induction cs rule: rev_induct) (simp_all add: pick_snoc keep_distinct)

lemma keep_subset: "set (keep_preferred p m kc) \<subseteq> insert kc (set m)"
  using set_upd_subset by (auto simp: keep_preferred_def split: prod.split option.split) fast+

lemma pick_subset: "set (pick p cs) \<subseteq> set cs"
proof (induction cs rule: rev_induct)
  case (snoc kc cs)
  then show ?case using keep_subset [of p "pick p cs" kc] by (auto simp: pick_snoc)
qed simp

text \<open>
  The contract of a preference between candidates: a strict weak order, the first argument
  being the better one. Under it the loop keeps a best candidate of every key.
\<close>

locale preference = slice_order preferred
  for preferred :: "'c \<Rightarrow> 'c \<Rightarrow> bool"
begin

lemma map_of_keep:
  "map_of (keep_preferred preferred m (k, c)) =
     (map_of m)(k \<mapsto> (case map_of m k of None \<Rightarrow> c | Some d \<Rightarrow> if preferred c d then c else d))"
  by (auto simp: keep_preferred_def fun_eq_iff split: option.split)

lemma pick_best:
  assumes "map_of (pick preferred cs) k = Some c" and "(k, d) \<in> set cs"
  shows "\<not> preferred d c"
  using assms
proof (induction cs arbitrary: c rule: rev_induct)
  case (snoc kc cs)
  obtain k' c' where kc: "kc = (k', c')" by (cases kc)
  show ?case
  proof (cases "k' = k")
    case False
    then show ?thesis using snoc by (auto simp: kc pick_snoc map_of_keep)
  next
    case True
    show ?thesis
    proof (cases "map_of (pick preferred cs) k")
      case None
      then have "k \<notin> fst ` set cs" by (metis map_of_eq_None_iff pick_keys)
      then have "d = c'" using snoc.prems(2) True by (force simp: kc)
      then show ?thesis using snoc.prems(1) None True lt_asym by (auto simp: kc pick_snoc map_of_keep)
    next
      case (Some b)
      have c: "c = (if preferred c' b then c' else b)"
        using snoc.prems(1) Some True by (simp add: kc pick_snoc map_of_keep)
      have d: "d = c' \<or> \<not> preferred d b"
        using snoc.prems(2) snoc.IH [OF Some] by (auto simp: kc)
      show ?thesis
        using c d lt_asym [of c' b] lt_asym [of c' c'] lt_negtrans [of d b c'] by (auto split: if_splits)
    qed
  qed
qed simp

lemma pick_maximal: "(k, c) \<in> set (pick preferred cs) \<Longrightarrow> (k, d) \<in> set cs \<Longrightarrow> \<not> preferred d c"
  using pick_best by (metis map_of_is_SomeI pick_distinct)

end

text \<open>Keys compared in descending order, and the four preferences of the source.\<close>

lemma slice_order_desc:
  assumes "slice_order lt"
  shows "slice_order (\<lambda>a b. if f a \<noteq> f b then f b < (f a :: 'k :: linorder) else lt a b)"
proof -
  note asym = slice_order.lt_asym [OF assms] and neg = slice_order.lt_negtrans [OF assms]
  show ?thesis
  proof unfold_locales
    fix x y z
    assume xy: "\<not> (if f x \<noteq> f y then f y < f x else lt x y)"
      and yz: "\<not> (if f y \<noteq> f z then f z < f y else lt y z)"
    from xy yz have "f x \<le> f y" and "f y \<le> f z" by (auto split: if_splits)
    then show "\<not> (if f x \<noteq> f z then f z < f x else lt x z)"
      using xy yz neg [of x y z] by (auto split: if_splits)
  qed (auto split: if_splits dest: asym)
qed

interpretation whitelist_pref: preference whitelist_preferred
  unfolding preference_def whitelist_preferred_def [abs_def] cidrCandidatePreferred_def
  by (intro slice_order_desc slice_order_lex slice_order_key)

interpretation udp_pref: preference udp_preferred
  unfolding preference_def udp_preferred_def [abs_def] udpBlockCandidatePreferred_def
  by (intro slice_order_desc slice_order_key)

lemma manual_first: "(if m \<noteq> n then m else x) = (if m \<noteq> n then n < m else (x :: bool))"
  by auto

interpretation blacklist_pref: preference blacklistCandidatePreferred
  unfolding preference_def blacklistCandidatePreferred_def [abs_def]
  by (subst manual_first) (intro slice_order_desc slice_order_key)

interpretation rule_pref: preference rulePreferred
  unfolding preference_def rulePreferred_def [abs_def]
  by (intro slice_order_desc slice_order_lex slice_order_key)

interpretation snapshot_order: slice_order cidrEntrySnapshotLess
  unfolding cidrEntrySnapshotLess_def [abs_def] by (intro slice_order_lex slice_order_key)

interpretation udp_snapshot_order: slice_order udpSnapshotLess
  unfolding udpSnapshotLess_def [abs_def] by (intro slice_order_lex slice_order_key)

subsection \<open>Keys of the lists\<close>

text \<open>The key under which the loops file an entry, as a function of the entry.\<close>

definition entry_key :: "PolicyCIDREntry \<Rightarrow> string" where
  "entry_key e = (if ce_Scope e = PolicyScopeService
     then ''service:'' @ dec (unat (ce_ServiceID e)) @ '':'' @ ce_CIDR e else ''global:'' @ ce_CIDR e)"

definition block_key :: "PolicyUDPSourcePortBlock \<Rightarrow> string" where
  "block_key e = (if ub_Scope e = PolicyScopeService
     then ''service:'' @ dec (unat (ub_ServiceID e)) @ '':'' @ dec (unat (ub_Port e))
     else ''global:'' @ dec (unat (ub_Port e)))"

text \<open>What the loops make of an accepted CIDR: masked, printed, with a scope of the two.\<close>

definition canonical_entry :: "PolicyCIDREntry \<Rightarrow> bool" where
  "canonical_entry e \<longleftrightarrow>
     (\<exists>p. pfx_bits p \<le> 32 \<and> Masked p = p \<and> ce_CIDR e = Prefix_String p) \<and>
     (ce_Scope e = PolicyScopeGlobal \<and> ce_ServiceID e = 0 \<or> ce_Scope e = PolicyScopeService)"

lemma control_scopes [simp]: "PolicyScopeGlobal \<noteq> PolicyScopeService" "PolicyScopeService \<noteq> PolicyScopeGlobal"
  by (simp_all add: PolicyScopeGlobal_def PolicyScopeService_def)

lemma parseCIDR_canonical:
  assumes "parseCIDR v = Inr p"
  shows "pfx_bits p \<le> 32" and "Masked p = p"
proof -
  have "Masked \<lparr>pfx_addr = a, pfx_bits = 32\<rparr> = \<lparr>pfx_addr = a, pfx_bits = 32\<rparr>" for a
    by (simp add: Masked_def)
  with assms show "pfx_bits p \<le> 32" and "Masked p = p"
    by (auto simp: parseCIDR_def Let_def dest: ParsePrefix4_bits split: if_splits option.splits)
qed

text \<open>What a candidate has of the row it comes from.\<close>

definition entry_from ::
    "string \<Rightarrow> int \<Rightarrow> int option \<Rightarrow> u32 \<Rightarrow> PolicyCIDREntry \<Rightarrow> bool" where
  "entry_from t sid expires action e \<longleftrightarrow>
     canonical_entry e \<and> ce_Action e = action \<and> ce_ExpiresAtUnixNS e = expires_ns expires \<and>
     (if t = ScopeTypeService then ce_Scope e = policyScopeService \<and> uint (ce_ServiceID e) = sid
      else ce_Scope e = policyScopeGlobal \<and> ce_ServiceID e = 0)"

lemma scoped_entry_from:
  assumes "scoped_entry t sid ex e = (k, e')" and "ce_ServiceID e = 0"
    and "ce_CIDR e = Prefix_String p" and "parseCIDR v = Inr p"
  shows "k = entry_key e' \<and> entry_from t (uint sid) ex (ce_Action e) e'"
  using assms(1-3) parseCIDR_canonical [OF assms(4)]
  by (auto simp: scoped_entry_def entry_key_def entry_from_def canonical_entry_def Let_def
      control_agent_constants split: if_splits)

lemma whitelist_candidate_from:
  assumes "whitelist_candidate db w = Inr (k, c)"
  shows "k = entry_key (cand_entry c) \<and>
    entry_from (wl_scope_type w) (service_ebpf db (wl_service_id w)) (wl_expires_at w) actionPass (cand_entry c)"
proof -
  from assms obtain entryID priority sid p e where
      sid: "scan_u32 (service_ebpf db (wl_service_id w)) = Inr sid"
      and p: "parseCIDR (wl_ip_or_cidr w) = Inr p"
      and e: "scoped_entry (wl_scope_type w) sid (wl_expires_at w)
        (zero_entry\<lparr>ce_EntryID := entryID, ce_CIDR := Prefix_String p, ce_Priority := priority,
          ce_Action := ActionPass\<rparr>) = (k, e)" and c: "cand_entry c = e"
    by (auto simp: whitelist_candidate_def split: sum.splits prod.splits)
  show ?thesis
    using scoped_entry_from [OF e _ _ p] scan_u32_uint [OF sid]
    by (simp add: c zero_entry_def control_agent_constants)
qed

lemma blacklist_candidate_from:
  assumes "blacklist_candidate b = Inr (k, c)"
  shows "k = entry_key (bc_entry c) \<and>
    entry_from (bq_scope_type b) (bq_service_ebpf b) (bq_expires_at b) actionDrop (bc_entry c)"
proof -
  from assms obtain entryID score ruleID sid p e where
      sid: "scan_u32 (bq_service_ebpf b) = Inr sid"
      and p: "parseCIDR (bq_ip_or_cidr b) = Inr p"
      and e: "scoped_entry (bq_scope_type b) sid (bq_expires_at b)
        (zero_entry\<lparr>ce_EntryID := entryID, ce_CIDR := Prefix_String p, ce_Score := score,
          ce_RuleID := ruleID, ce_Action := ActionDrop\<rparr>) = (k, e)" and c: "bc_entry c = e"
    by (auto simp: blacklist_candidate_def split: sum.splits prod.splits)
  show ?thesis
    using scoped_entry_from [OF e _ _ p] scan_u32_uint [OF sid]
    by (simp add: c zero_entry_def control_agent_constants)
qed

definition block_from :: "string \<Rightarrow> int \<Rightarrow> int \<Rightarrow> int option \<Rightarrow> PolicyUDPSourcePortBlock \<Rightarrow> bool" where
  "block_from t sid port expires e \<longleftrightarrow>
     ub_Port e = word_of_int port \<and> ub_ExpiresAtUnixNS e = expires_ns expires \<and>
     (if t = ScopeTypeService then ub_Scope e = policyScopeService \<and> uint (ub_ServiceID e) = sid
      else ub_Scope e = policyScopeGlobal \<and> ub_ServiceID e = 0)"

lemma udp_block_candidate_from:
  assumes "udp_block_candidate db u = Inr (k, c)"
  shows "k = block_key (cand_entry c) \<and>
    block_from (ubr_scope_type u) (service_ebpf db (ubr_service_id u)) (ubr_port u) (ubr_expires_at u)
      (cand_entry c)"
  using assms
  by (auto simp: udp_block_candidate_def block_from_def block_key_def Let_def control_agent_constants
      dest: scan_u32_uint split: sum.splits if_splits)

text \<open>An entry's key determines its slot in the maps, and the other way round.\<close>

lemma entry_key_eq:
  assumes "canonical_entry e" and "canonical_entry f" and "entry_key e = entry_key f"
  shows "ce_CIDR e = ce_CIDR f \<and> ce_Scope e = ce_Scope f \<and> ce_ServiceID e = ce_ServiceID f"
  using assms
  by (auto simp: entry_key_def canonical_entry_def dec_sep_inj word_unat_eq_iff split: if_splits)

lemma parseV4Prefix_String [simp]:
  assumes "pfx_bits p \<le> 32" and "Masked p = p"
  shows "parseV4Prefix (Prefix_String p) = Inr p"
proof -
  have "CHR ''/'' \<in> set (Prefix_String p)" and "Prefix_String p \<noteq> []"
    by (simp_all add: Prefix_String_def)
  then show ?thesis using assms by (simp add: parseV4Prefix_def)
qed

lemma of_nat_bits_eq: "m \<le> 64 \<Longrightarrow> n \<le> 64 \<Longrightarrow> (of_nat m :: u32) = of_nat n \<longleftrightarrow> m = n"
  by (auto simp: word_unat_eq_iff unat_of_nat take_bit_nat_eq_self)

lemma canonical_slot_eq:
  assumes "canonical_entry e" and "canonical_entry f" and "cidr_slot e = cidr_slot f" and "cidr_slot e \<noteq> None"
  shows "entry_key e = entry_key f"
  using assms
  by (auto simp: canonical_entry_def cidr_slot_def cidrPolicyKey_def serviceCIDRPolicyKey_def
      entry_key_def control_agent_constants LittleEndian_As4_inj of_nat_bits_eq split: if_splits)
    (simp_all add: Prefix_String_def)

lemma picked_keys:
  assumes "\<forall>kc\<in>set cands. fst kc = key (ent (snd kc))"
  shows "map key (map (\<lambda>kc. ent (snd kc)) (pick p cands)) = map fst (pick p cands)"
proof -
  have "\<forall>kc\<in>set (pick p cands). key (ent (snd kc)) = fst kc"
    using assms pick_subset [of p cands] by (metis subsetD)
  then show ?thesis by simp
qed

text \<open>
  The shape shared by the three lists: one entry per key, each one the entry of a best
  candidate, and a key for every candidate.
\<close>

context preference
begin

lemma picked:
  assumes cands: "map_rows candidate rows = Inr cands"
    and key: "\<And>r k c. candidate r = Inr (k, c) \<Longrightarrow> k = key (ent c)"
    and out: "set out = (\<lambda>kc. ent (snd kc)) ` set (pick preferred cands)"
  shows "(\<forall>e\<in>set out. \<exists>r\<in>set rows. \<exists>c. candidate r = Inr (key e, c) \<and> ent c = e \<and>
       (\<forall>r'\<in>set rows. \<forall>c'. candidate r' = Inr (key e, c') \<longrightarrow> \<not> preferred c' c)) \<and>
    (\<forall>r\<in>set rows. \<exists>k c. candidate r = Inr (k, c) \<and> (\<exists>e\<in>set out. key e = k))"
proof (intro conjI ballI)
  fix e
  assume "e \<in> set out"
  then obtain k c where kc: "(k, c) \<in> set (pick preferred cands)" and e: "ent c = e"
    using out by auto
  then have "(k, c) \<in> set cands" using pick_subset by blast
  then obtain r where r: "r \<in> set rows" "candidate r = Inr (k, c)"
    using map_rows_mem [OF cands] by blast
  have k: "k = key e" using key [OF r(2)] e by simp
  have "\<not> preferred c' c" if "r' \<in> set rows" "candidate r' = Inr (k, c')" for r' c'
  proof -
    have "(k, c') \<in> set cands" using map_rows_mem' [OF cands that(1)] that(2) by auto
    then show ?thesis using pick_maximal [OF kc] by blast
  qed
  with r e k show "\<exists>r\<in>set rows. \<exists>c. candidate r = Inr (key e, c) \<and> ent c = e \<and>
      (\<forall>r'\<in>set rows. \<forall>c'. candidate r' = Inr (key e, c') \<longrightarrow> \<not> preferred c' c)"
    by blast
next
  fix r
  assume "r \<in> set rows"
  then obtain k c where r: "candidate r = Inr (k, c)" and kc: "(k, c) \<in> set cands"
    using map_rows_mem' [OF cands] by (metis surj_pair)
  then obtain d where d: "(k, d) \<in> set (pick preferred cands)"
    using pick_keys [of preferred cands] by (metis fst_conv image_iff prod.collapse)
  then obtain r' where "candidate r' = Inr (k, d)"
    using map_rows_mem [OF cands] pick_subset by blast
  then have "key (ent d) = k" using key by simp
  moreover have "ent d \<in> set out" using d out by force
  ultimately show "\<exists>k c. candidate r = Inr (k, c) \<and> (\<exists>e\<in>set out. key e = k)"
    using r by blast
qed

end

lemma whitelist_out:
  assumes "snapshotWhitelist env tx = Inr out"
  obtains cands where "map_rows (whitelist_candidate (tx_db tx)) (whitelist_rows env tx) = Inr cands"
    and "out = sort_slice cidrEntrySnapshotLess (map (\<lambda>kc. cand_entry (snd kc)) (pick whitelist_preferred cands))"
    and "distinct (map entry_key out)"
proof -
  from assms obtain cands where
      cands: "map_rows (whitelist_candidate (tx_db tx)) (whitelist_rows env tx) = Inr cands"
      and out: "out = sort_slice cidrEntrySnapshotLess
        (map (\<lambda>kc. cand_entry (snd kc)) (pick whitelist_preferred cands))"
    by (auto simp: snapshotWhitelist_def split: sum.splits)
  have "\<forall>kc\<in>set cands. fst kc = entry_key (cand_entry (snd kc))"
    using map_rows_mem [OF cands] whitelist_candidate_from by (metis prod.collapse)
  then have "distinct (map entry_key out)"
    unfolding out distinct_map_sort_slice by (simp only: picked_keys pick_distinct)
  with cands out that show thesis by blast
qed

lemma blacklist_out:
  assumes "snapshotBlacklist env tx = Inr out"
  obtains cands where "map_rows blacklist_candidate (blacklist_rows env tx) = Inr cands"
    and "out = sort_slice cidrEntrySnapshotLess (map (\<lambda>kc. bc_entry (snd kc)) (pick blacklistCandidatePreferred cands))"
    and "distinct (map entry_key out)"
proof -
  from assms obtain cands where
      cands: "map_rows blacklist_candidate (blacklist_rows env tx) = Inr cands"
      and out: "out = sort_slice cidrEntrySnapshotLess
        (map (\<lambda>kc. bc_entry (snd kc)) (pick blacklistCandidatePreferred cands))"
    by (auto simp: snapshotBlacklist_def split: sum.splits)
  have "\<forall>kc\<in>set cands. fst kc = entry_key (bc_entry (snd kc))"
    using map_rows_mem [OF cands] blacklist_candidate_from by (metis prod.collapse)
  then have "distinct (map entry_key out)"
    unfolding out distinct_map_sort_slice by (simp only: picked_keys pick_distinct)
  with cands out that show thesis by blast
qed

lemma udp_out:
  assumes "snapshotUDPSourcePortBlocks env tx = Inr out"
  obtains cands where "map_rows (udp_block_candidate (tx_db tx)) (udp_block_rows env tx) = Inr cands"
    and "out = sort_slice udpSnapshotLess (map (\<lambda>kc. cand_entry (snd kc)) (pick udp_preferred cands))"
    and "distinct (map block_key out)"
proof -
  from assms obtain cands where
      cands: "map_rows (udp_block_candidate (tx_db tx)) (udp_block_rows env tx) = Inr cands"
      and out: "out = sort_slice udpSnapshotLess
        (map (\<lambda>kc. cand_entry (snd kc)) (pick udp_preferred cands))"
    by (auto simp: snapshotUDPSourcePortBlocks_def split: sum.splits)
  have "\<forall>kc\<in>set cands. fst kc = block_key (cand_entry (snd kc))"
    using map_rows_mem [OF cands] udp_block_candidate_from by (metis prod.collapse)
  then have "distinct (map block_key out)"
    unfolding out distinct_map_sort_slice by (simp only: picked_keys pick_distinct)
  with cands out that show thesis by blast
qed

text \<open>
  C20. The blacklist of a snapshot. Whenever the list is built, no two of its entries have the
  same scope, service and prefix; each entry is the image of a manual or reputation row that the
  query returns, and no row of the query that competes for the same key is preferred to it:
  a narrower scope wins, then a manual row over a feed row, then the higher score, then the
  lower id; and every row of the query has an entry with its key.
\<close>

theorem blacklist_choice:
  assumes "snapshotBlacklist env tx = Inr out"
  shows "distinct (map entry_key out) \<and>
    (\<forall>e\<in>set out. \<exists>b\<in>set (blacklist_rows env tx). \<exists>c. blacklist_candidate b = Inr (entry_key e, c) \<and>
       bc_entry c = e \<and> (\<forall>b'\<in>set (blacklist_rows env tx). \<forall>c'.
         blacklist_candidate b' = Inr (entry_key e, c') \<longrightarrow> \<not> blacklistCandidatePreferred c' c)) \<and>
    (\<forall>b\<in>set (blacklist_rows env tx). \<exists>k c. blacklist_candidate b = Inr (k, c) \<and>
       (\<exists>e\<in>set out. entry_key e = k))"
proof -
  obtain cands where cands: "map_rows blacklist_candidate (blacklist_rows env tx) = Inr cands"
    and out: "out = sort_slice cidrEntrySnapshotLess
      (map (\<lambda>kc. bc_entry (snd kc)) (pick blacklistCandidatePreferred cands))"
    and keys: "distinct (map entry_key out)"
    using assms by (rule blacklist_out)
  have "set out = (\<lambda>kc. bc_entry (snd kc)) ` set (pick blacklistCandidatePreferred cands)"
    by (simp add: out)
  from blacklist_pref.picked [OF cands _ this, of entry_key] keys show ?thesis
    using blacklist_candidate_from by blast
qed

text \<open>
  The whitelist of a snapshot: one entry per scope, service and prefix, the entry of a row no
  competing row is preferred to (narrower scope, then lower priority number, then lower id), and
  every row of the query is represented.
\<close>

lemma whitelist_choice:
  assumes "snapshotWhitelist env tx = Inr out"
  shows "distinct (map entry_key out) \<and>
    (\<forall>e\<in>set out. \<exists>w\<in>set (whitelist_rows env tx). \<exists>c.
       whitelist_candidate (tx_db tx) w = Inr (entry_key e, c) \<and>
       cand_entry c = e \<and> (\<forall>w'\<in>set (whitelist_rows env tx). \<forall>c'.
         whitelist_candidate (tx_db tx) w' = Inr (entry_key e, c') \<longrightarrow> \<not> whitelist_preferred c' c)) \<and>
    (\<forall>w\<in>set (whitelist_rows env tx). \<exists>k c. whitelist_candidate (tx_db tx) w = Inr (k, c) \<and>
       (\<exists>e\<in>set out. entry_key e = k))"
proof -
  obtain cands where cands: "map_rows (whitelist_candidate (tx_db tx)) (whitelist_rows env tx) = Inr cands"
    and out: "out = sort_slice cidrEntrySnapshotLess
      (map (\<lambda>kc. cand_entry (snd kc)) (pick whitelist_preferred cands))"
    and keys: "distinct (map entry_key out)"
    using assms by (rule whitelist_out)
  have "set out = (\<lambda>kc. cand_entry (snd kc)) ` set (pick whitelist_preferred cands)"
    by (simp add: out)
  from whitelist_pref.picked [OF cands _ this, of entry_key] keys show ?thesis
    using whitelist_candidate_from by blast
qed

end
