(* ===== verification/SnapshotAccept.thy ===== *)
theory SnapshotAccept
  imports SnapshotChoice
begin

section \<open>The built lists pass the agent's verification\<close>

text \<open>
  The control plane builds the lists of a snapshot and the agent's verification, which the
  control plane runs too before it stores the snapshot, checks them. This theory connects the
  two: the lists are free of duplicate, malformed and expired entries, independently of the
  order in which Go ranges over a map, and nothing in them comes from another owner.
\<close>

subsection \<open>The loops of the verification accept distinct slots\<close>

lemma cidr_loop_clean:
  assumes "\<forall>e\<in>set es. cidr_slot e \<noteq> None \<and> \<not> entry_expired now (ce_ExpiresAtUnixNS e)"
    and "distinct (map cidr_slot es)"
    and "\<forall>e\<in>set es. \<forall>k. cidr_slot e = Some (Inl k) \<longrightarrow> globalMapKey k \<notin> set gk"
    and "\<forall>e\<in>set es. \<forall>k. cidr_slot e = Some (Inr k) \<longrightarrow> serviceCIDRMapKey k \<notin> set sk"
  shows "fst (cidr_loop t now gk sk es) = []"
  using assms
proof (induction es arbitrary: gk sk)
  case (Cons e es)
  then have ok: "cidr_slot e \<noteq> None" "\<not> entry_expired now (ce_ExpiresAtUnixNS e)" by simp_all
  from ok(1) consider
      (glob) k where "cidr_slot e = Some (Inl k)" "ce_Scope e = policyScopeGlobal" "cidrPolicyKey e = Inr k"
    | (serv) k where "cidr_slot e = Some (Inr k)" "ce_Scope e = policyScopeService" "serviceCIDRPolicyKey e = Inr k"
    by (auto simp: cidr_slot_def split: if_splits sum.splits)
  then show ?case
  proof cases
    case glob
    have "fst (cidr_loop t now (globalMapKey k # gk) sk es) = []"
    proof (rule Cons.IH)
      show "\<forall>f\<in>set es. \<forall>k'. cidr_slot f = Some (Inl k') \<longrightarrow> globalMapKey k' \<notin> set (globalMapKey k # gk)"
        using Cons.prems(2,3) glob(1) by (auto simp: globalMapKey_inj) (metis image_eqI)
    qed (use Cons.prems in auto)
    then show ?thesis using glob ok(2) Cons.prems(3) by (simp add: Let_def case_prod_beta)
  next
    case serv
    have "fst (cidr_loop t now gk (serviceCIDRMapKey k # sk) es) = []"
    proof (rule Cons.IH)
      show "\<forall>f\<in>set es. \<forall>k'. cidr_slot f = Some (Inr k') \<longrightarrow> serviceCIDRMapKey k' \<notin> set (serviceCIDRMapKey k # sk)"
        using Cons.prems(2,4) serv(1) by (auto simp: serviceCIDRMapKey_inj) (metis image_eqI)
    qed (use Cons.prems in auto)
    then show ?thesis using serv ok(2) Cons.prems(4) by (simp add: Let_def case_prod_beta)
  qed
qed simp

lemma udp_loop_clean:
  assumes "\<forall>e\<in>set es. udp_slot e \<noteq> None \<and> \<not> entry_expired now (ub_ExpiresAtUnixNS e)"
    and "distinct (map udp_slot es)"
    and "\<forall>e\<in>set es. ub_Scope e = policyScopeGlobal \<longrightarrow> ub_Port e \<notin> set pk"
    and "\<forall>e\<in>set es. \<forall>k. udp_slot e = Some (Inr k) \<longrightarrow> k \<notin> set sk"
  shows "fst (udp_loop now pk sk es) = []"
  using assms
proof (induction es arbitrary: pk sk)
  case (Cons e es)
  then have ok: "udp_slot e \<noteq> None" "\<not> entry_expired now (ub_ExpiresAtUnixNS e)" by simp_all
  from ok(1) consider
      (glob) "ub_Scope e = policyScopeGlobal" "udp_slot e = Some (Inl (ucast (ub_Port e)))"
    | (serv) "ub_Scope e = policyScopeService" "ub_ServiceID e \<noteq> 0"
        "udp_slot e = Some (Inr \<lparr>sup_ServiceID = ub_ServiceID e, sup_Port = ucast (ub_Port e)\<rparr>)"
    by (auto simp: udp_slot_def udpSourcePortBlockMapEntry_def udpSourcePortServiceBlockMapEntry_def
        split: if_splits)
  then show ?case
  proof cases
    case glob
    have "udp_slot f = Some (Inl (ucast (ub_Port f)))" if "ub_Scope f = policyScopeGlobal" for f
      using that by (simp add: udp_slot_def udpSourcePortBlockMapEntry_def)
    then have "\<forall>f\<in>set es. ub_Scope f = policyScopeGlobal \<longrightarrow> ub_Port f \<noteq> ub_Port e"
      using Cons.prems(2) glob(2) by (auto simp: image_iff)
    then have "fst (udp_loop now (ub_Port e # pk) sk es) = []"
      using Cons.prems by (intro Cons.IH) auto
    then show ?thesis using glob ok(2) Cons.prems(3) by (simp add: Let_def case_prod_beta)
  next
    case serv
    let ?k = "\<lparr>sup_ServiceID = ub_ServiceID e, sup_Port = ucast (ub_Port e)\<rparr> :: ServiceUDPSourcePortKey"
    have "\<forall>f\<in>set es. udp_slot f \<noteq> Some (Inr ?k)"
      using Cons.prems(2) serv(3) by (auto simp: image_iff)
    then have "fst (udp_loop now pk (?k # sk) es) = []"
      using Cons.prems by (intro Cons.IH) auto
    then show ?thesis using serv ok(2) Cons.prems(4) by (simp add: Let_def case_prod_beta)
  qed
qed simp

subsection \<open>Slots of the built lists\<close>

lemma canonical_slot:
  assumes "canonical_entry e" and "ce_Scope e = policyScopeService \<longrightarrow> ce_ServiceID e \<noteq> 0"
  shows "cidr_slot e \<noteq> None"
  using assms
  by (auto simp: canonical_entry_def cidr_slot_def cidrPolicyKey_def serviceCIDRPolicyKey_def
      control_agent_constants)

lemma distinct_slots:
  assumes "distinct (map entry_key es)" and "\<forall>e\<in>set es. canonical_entry e \<and> cidr_slot e \<noteq> None"
  shows "distinct (map cidr_slot es)"
  using assms canonical_slot_eq unfolding distinct_map inj_on_def by metis

lemma not_expired_word:
  assumes "not_expired now ex" and "0 \<le> clock" and "clock \<le> now" and "\<forall>t. ex = Some t \<longrightarrow> t < 2 ^ 64"
  shows "\<not> entry_expired (word_of_int clock) (expires_ns ex)"
proof (cases ex)
  case None
  then show ?thesis by (simp add: entry_expired_def expires_ns_def)
next
  case (Some t)
  then have "clock < t" and "t < 2 ^ 64" using assms by (auto simp: not_expired_def)
  then have "uint (word_of_int clock :: u64) = clock" and "uint (word_of_int t :: u64) = t"
    using assms(2) by (simp_all add: uint_word_of_int)
  then show ?thesis using \<open>clock < t\<close>
    by (simp add: entry_expired_def expires_ns_def Some word_le_def)
qed

lemma set_by_two_keys [simp]: "set (by_two_keys f g rs) = set rs"
  by (simp add: by_two_keys_def)

text \<open>
  Rows as the schema keeps them: a service-scoped row refers to a service, whose id is not 0,
  and times stay below \<open>2 ^ 64\<close> nanoseconds.
\<close>

definition row_ok :: "string \<Rightarrow> int \<Rightarrow> int option \<Rightarrow> bool" where
  "row_ok t sid ex \<longleftrightarrow> (t = ScopeTypeService \<longrightarrow> sid \<noteq> 0) \<and> (case ex of None \<Rightarrow> True | Some x \<Rightarrow> x < 2 ^ 64)"

definition rows_ok :: "store_env \<Rightarrow> transaction \<Rightarrow> bool" where
  "rows_ok env tx \<longleftrightarrow>
     list_all (\<lambda>w. row_ok (wl_scope_type w) (service_ebpf (tx_db tx) (wl_service_id w)) (wl_expires_at w))
       (whitelist_rows env tx) \<and>
     list_all (\<lambda>b. row_ok (bq_scope_type b) (bq_service_ebpf b) (bq_expires_at b)) (blacklist_rows env tx) \<and>
     list_all (\<lambda>u. row_ok (ubr_scope_type u) (service_ebpf (tx_db tx) (ubr_service_id u)) (ubr_expires_at u))
       (udp_block_rows env tx)"

lemma entry_from_clean:
  assumes "entry_from t sid ex action e" and "row_ok t sid ex"
    and "not_expired now ex" and "0 \<le> clock" and "clock \<le> now"
  shows "canonical_entry e \<and> cidr_slot e \<noteq> None \<and> \<not> entry_expired (word_of_int clock) (ce_ExpiresAtUnixNS e)"
proof -
  have "canonical_entry e" and sid: "ce_Scope e = policyScopeService \<longrightarrow> ce_ServiceID e \<noteq> 0"
    and ex: "ce_ExpiresAtUnixNS e = expires_ns ex"
    using assms(1,2) by (auto simp: entry_from_def row_ok_def split: if_splits)
  moreover have "\<forall>x. ex = Some x \<longrightarrow> x < 2 ^ 64" using assms(2) by (auto simp: row_ok_def)
  ultimately show ?thesis
    using canonical_slot not_expired_word [OF assms(3-5)] by (simp only: ex) blast
qed

lemma cidr_list_clean:
  assumes "distinct (map entry_key es)"
    and "\<forall>e\<in>set es. \<exists>t sid ex. entry_from t sid ex action e \<and> row_ok t sid ex \<and> not_expired now ex"
    and "0 \<le> clock" and "clock \<le> now"
  shows "fst (cidr_loop tab (word_of_int clock) [] [] es) = []"
proof -
  have "\<forall>e\<in>set es. canonical_entry e \<and> cidr_slot e \<noteq> None \<and>
      \<not> entry_expired (word_of_int clock) (ce_ExpiresAtUnixNS e)"
    using assms(2-4) entry_from_clean by blast
  then show ?thesis using assms(1) by (intro cidr_loop_clean distinct_slots) auto
qed

subsection \<open>Rows behind the entries\<close>

text \<open>The id and the prefix of an entry are those of its row.\<close>

definition names_row :: "int \<Rightarrow> string \<Rightarrow> PolicyCIDREntry \<Rightarrow> bool" where
  "names_row ebpf cidr e \<longleftrightarrow> uint (ce_EntryID e) = ebpf \<and>
     (case parseCIDR cidr of Inl _ \<Rightarrow> False | Inr p \<Rightarrow> ce_CIDR e = Prefix_String p)"

lemma whitelist_candidate_names:
  "whitelist_candidate db w = Inr (k, c) \<Longrightarrow> names_row (wl_ebpf_id w) (wl_ip_or_cidr w) (cand_entry c)"
  by (auto simp: whitelist_candidate_def scoped_entry_def names_row_def Let_def dest: scan_u32_uint
      split: sum.splits prod.splits if_splits)

lemma blacklist_candidate_names:
  "blacklist_candidate b = Inr (k, c) \<Longrightarrow> names_row (bq_ebpf_id b) (bq_ip_or_cidr b) (bc_entry c)"
  by (auto simp: blacklist_candidate_def scoped_entry_def names_row_def Let_def dest: scan_u32_uint
      split: sum.splits prod.splits if_splits)

lemma udp_candidate_names:
  "udp_block_candidate db u = Inr (k, c) \<Longrightarrow> uint (ub_EntryID (cand_entry c)) = ubr_ebpf_id u"
  by (auto simp: udp_block_candidate_def Let_def dest: scan_u32_uint split: sum.splits if_splits)

lemma whitelist_entry_row:
  assumes "snapshotWhitelist env tx = Inr out" and "e \<in> set out"
  obtains w where "w \<in> set (whitelist_rows env tx)"
    and "entry_from (wl_scope_type w) (service_ebpf (tx_db tx) (wl_service_id w)) (wl_expires_at w) actionPass e"
    and "names_row (wl_ebpf_id w) (wl_ip_or_cidr w) e"
proof -
  obtain cands where cands: "map_rows (whitelist_candidate (tx_db tx)) (whitelist_rows env tx) = Inr cands"
    and out: "out = sort_slice cidrEntrySnapshotLess
      (map (\<lambda>kc. cand_entry (snd kc)) (pick whitelist_preferred cands))"
    using assms(1) by (rule whitelist_out)
  obtain k c where kc: "(k, c) \<in> set (pick whitelist_preferred cands)" and e: "e = cand_entry c"
    using assms(2) by (auto simp: out)
  then obtain w where "w \<in> set (whitelist_rows env tx)" "whitelist_candidate (tx_db tx) w = Inr (k, c)"
    using map_rows_mem [OF cands] pick_subset by blast
  with whitelist_candidate_from whitelist_candidate_names e that show thesis by blast
qed

lemma blacklist_entry_row:
  assumes "snapshotBlacklist env tx = Inr out" and "e \<in> set out"
  obtains b where "b \<in> set (blacklist_rows env tx)"
    and "entry_from (bq_scope_type b) (bq_service_ebpf b) (bq_expires_at b) actionDrop e"
    and "names_row (bq_ebpf_id b) (bq_ip_or_cidr b) e"
proof -
  obtain cands where cands: "map_rows blacklist_candidate (blacklist_rows env tx) = Inr cands"
    and out: "out = sort_slice cidrEntrySnapshotLess
      (map (\<lambda>kc. bc_entry (snd kc)) (pick blacklistCandidatePreferred cands))"
    using assms(1) by (rule blacklist_out)
  obtain k c where kc: "(k, c) \<in> set (pick blacklistCandidatePreferred cands)" and e: "e = bc_entry c"
    using assms(2) by (auto simp: out)
  then obtain b where "b \<in> set (blacklist_rows env tx)" "blacklist_candidate b = Inr (k, c)"
    using map_rows_mem [OF cands] pick_subset by blast
  with blacklist_candidate_from blacklist_candidate_names e that show thesis by blast
qed

lemma udp_entry_row:
  assumes "snapshotUDPSourcePortBlocks env tx = Inr out" and "e \<in> set out"
  obtains u where "u \<in> set (udp_block_rows env tx)"
    and "block_from (ubr_scope_type u) (service_ebpf (tx_db tx) (ubr_service_id u)) (ubr_port u) (ubr_expires_at u) e"
    and "uint (ub_EntryID e) = ubr_ebpf_id u"
proof -
  obtain cands where cands: "map_rows (udp_block_candidate (tx_db tx)) (udp_block_rows env tx) = Inr cands"
    and out: "out = sort_slice udpSnapshotLess
      (map (\<lambda>kc. cand_entry (snd kc)) (pick udp_preferred cands))"
    using assms(1) by (rule udp_out)
  obtain k c where kc: "(k, c) \<in> set (pick udp_preferred cands)" and e: "e = cand_entry c"
    using assms(2) by (auto simp: out)
  then obtain u where "u \<in> set (udp_block_rows env tx)" "udp_block_candidate (tx_db tx) u = Inr (k, c)"
    using map_rows_mem [OF cands] pick_subset by blast
  with udp_block_candidate_from udp_candidate_names e that show thesis by blast
qed

lemma rows_unexpired:
  "w \<in> set (whitelist_rows env tx) \<Longrightarrow> not_expired (se_now env) (wl_expires_at w)"
  "b \<in> set (blacklist_rows env tx) \<Longrightarrow> not_expired (se_now env) (bq_expires_at b)"
  "u \<in> set (udp_block_rows env tx) \<Longrightarrow> not_expired (se_now env) (ubr_expires_at u)"
  by (auto simp: whitelist_rows_def blacklist_rows_def reputation_rows_def manual_blacklist_rows_def
      udp_block_rows_def)

lemma block_key_slot:
  assumes "udp_slot e = udp_slot f" and "udp_slot e \<noteq> None"
  shows "block_key e = block_key f"
  using assms
  by (auto simp: udp_slot_def block_key_def udpSourcePortBlockMapEntry_def
      udpSourcePortServiceBlockMapEntry_def control_agent_constants split: if_splits)

lemma udp_list_clean:
  assumes "distinct (map block_key es)"
    and "\<forall>e\<in>set es. \<exists>t sid port ex. block_from t sid port ex e \<and> row_ok t sid ex \<and> not_expired now ex"
    and "0 \<le> clock" and "clock \<le> now"
  shows "fst (udp_loop (word_of_int clock) [] [] es) = []"
proof -
  have "udp_slot e \<noteq> None \<and> \<not> entry_expired (word_of_int clock) (ub_ExpiresAtUnixNS e)" if mem: "e \<in> set es" for e
  proof -
    obtain t sid port ex where e: "block_from t sid port ex e" "row_ok t sid ex" "not_expired now ex"
      using assms(2) mem by blast
    then have "\<forall>x. ex = Some x \<longrightarrow> x < 2 ^ 64" by (auto simp: row_ok_def)
    from not_expired_word [OF e(3) assms(3,4) this] e(1,2) show ?thesis
      by (auto simp: block_from_def row_ok_def udp_slot_def split: if_splits)
  qed
  moreover from this assms(1) have "distinct (map udp_slot es)"
    using block_key_slot unfolding distinct_map inj_on_def by metis
  ultimately show ?thesis by (intro udp_loop_clean) auto
qed

lemma build_parts:
  assumes "buildEffectiveSnapshot env tx v = Inr s"
  shows "snapshotRules env tx = Inr (snap_Rules s)"
    and "snapshotServices env tx (snap_Rules s) = Inr (snap_Services s)"
    and "snapshotWhitelist env tx = Inr (snap_WhitelistV4 s)"
    and "snapshotBlacklist env tx = Inr (snap_BlacklistV4 s)"
    and "snapshotUDPSourcePortBlocks env tx = Inr (snap_UDPSourcePortBlocks s)"
    and "snap_Version s = v" and "snap_SchemaVersion s = 1"
    and "snap_FeatureFlags s = effective_flags (snap_WhitelistV4 s) (snap_BlacklistV4 s) (snap_UDPSourcePortBlocks s)"
    and "snap_Runtime s = \<lparr>prc_MalformedPolicy = ActionDrop, prc_SampleDenom = 0\<rparr>"
  using assms by (auto simp: buildEffectiveSnapshot_def split: sum.splits)

text \<open>
  The lists that the control plane builds satisfy the agent: when the service-scoped rows
  refer to existing services and the clock of the verification is not ahead of the database's,
  the verification loops report no error for the whitelist, the blacklist and the UDP blocks
  (no duplicate key, no malformed prefix, no missing service, no expired entry), and every
  feature flag is one the agent supports.
\<close>

lemma built_lists_accepted:
  assumes "buildEffectiveSnapshot env tx v = Inr s" and "rows_ok env tx"
    and "0 \<le> clock" and "clock \<le> se_now env"
  shows "fst (whitelist_loop (word_of_int clock) (snap_WhitelistV4 s)) = [] \<and>
    fst (blacklist_loop (word_of_int clock) (snap_BlacklistV4 s)) = [] \<and>
    fst (udp_loop (word_of_int clock) [] [] (snap_UDPSourcePortBlocks s)) = [] \<and>
    set (snap_FeatureFlags s) \<subseteq> set supportedPolicyFeatureFlags"
proof -
  note parts = build_parts [OF assms(1)]
  note ok = assms(2) [unfolded rows_ok_def list_all_iff]
  have w: "\<forall>e\<in>set (snap_WhitelistV4 s). \<exists>t sid ex. entry_from t sid ex actionPass e \<and> row_ok t sid ex \<and>
      not_expired (se_now env) ex"
    using whitelist_entry_row [OF parts(3)] ok rows_unexpired(1) by metis
  have b: "\<forall>e\<in>set (snap_BlacklistV4 s). \<exists>t sid ex. entry_from t sid ex actionDrop e \<and> row_ok t sid ex \<and>
      not_expired (se_now env) ex"
    using blacklist_entry_row [OF parts(4)] ok rows_unexpired(2) by metis
  have u: "\<forall>e\<in>set (snap_UDPSourcePortBlocks s). \<exists>t sid port ex. block_from t sid port ex e \<and> row_ok t sid ex \<and>
      not_expired (se_now env) ex"
    using udp_entry_row [OF parts(5)] ok rows_unexpired(3) by metis
  have keys: "distinct (map entry_key (snap_WhitelistV4 s))" "distinct (map entry_key (snap_BlacklistV4 s))"
    "distinct (map block_key (snap_UDPSourcePortBlocks s))"
    using parts(3-5) by (metis whitelist_out, metis blacklist_out, metis udp_out)
  have "set (snap_FeatureFlags s) \<subseteq> set supportedPolicyFeatureFlags"
    unfolding parts(8) by (auto simp: effective_flags_def supportedPolicyFeatureFlags_def)
  with cidr_list_clean [OF keys(1) w assms(3,4)] cidr_list_clean [OF keys(2) b assms(3,4)]
    udp_list_clean [OF keys(3) u assms(3,4)]
  show ?thesis by (simp add: whitelist_loop_def blacklist_loop_def)
qed

subsection \<open>Owners\<close>

text \<open>
  A row that may take effect for an owner: enabled, not expired, and either global by an
  administrator's decision or the owner's own.
\<close>

definition active_for :: "store_env \<Rightarrow> string \<Rightarrow> bool \<Rightarrow> string \<Rightarrow> string \<Rightarrow> int option \<Rightarrow> bool" where
  "active_for env owner enabled scope_type row_owner expires \<longleftrightarrow>
     enabled \<and> not_expired (se_now env) expires \<and>
     (scope_type = ScopeTypeAdminGlobal \<or> owner \<noteq> [] \<and> row_owner = owner)"

lemma in_scope_iff: "in_scope setting t owner \<longleftrightarrow> t = ScopeTypeAdminGlobal \<or> setting \<noteq> [] \<and> owner = setting"
  by (auto simp: in_scope_def ownerSQL_true)

lemma whitelist_rows_iff:
  "w \<in> set (whitelist_rows env tx) \<longleftrightarrow> w \<in> set (whitelist_entries (tx_db tx)) \<and>
     active_for env (tx_owner tx) (wl_enabled w) (wl_scope_type w) (wl_owner_user_id w) (wl_expires_at w)"
  by (auto simp: whitelist_rows_def active_for_def in_scope_iff)

lemma rule_rows_iff:
  "r \<in> set (rule_rows env tx) \<longleftrightarrow> r \<in> set (rules (tx_db tx)) \<and>
     active_for env (tx_owner tx) (rl_enabled r) (rl_scope_type r) (rl_owner_user_id r) (rl_expires_at r)"
  by (auto simp: rule_rows_def active_for_def in_scope_iff)

lemma udp_rows_iff:
  "u \<in> set (udp_block_rows env tx) \<longleftrightarrow> u \<in> set (udp_source_port_blocks (tx_db tx)) \<and>
     active_for env (tx_owner tx) (ubr_enabled u) (ubr_scope_type u) (ubr_owner_user_id u) (ubr_expires_at u)"
  by (auto simp: udp_block_rows_def active_for_def in_scope_iff)

lemma manual_rows_mem:
  assumes "b \<in> set (manual_blacklist_rows env tx)"
  obtains m where "m \<in> set (manual_blacklist_entries (tx_db tx))"
    and "active_for env (tx_owner tx) (bl_enabled m) (bl_scope_type m) (bl_owner_user_id m) (bl_expires_at m)"
    and "bq_scope_type b = bl_scope_type m" and "bq_expires_at b = bl_expires_at m"
    and "bq_service_ebpf b = service_ebpf (tx_db tx) (bl_service_id m)"
    and "bq_ebpf_id b = bl_ebpf_id m" and "bq_ip_or_cidr b = bl_ip_or_cidr m"
  using assms by (auto simp: manual_blacklist_rows_def active_for_def in_scope_iff)

lemma reputation_rows_mem:
  assumes "b \<in> set (reputation_rows env tx)"
  obtains r where "r \<in> set (reputation_entries (tx_db tx))"
    and "global_feed_enabled (tx_db tx) (re_source_id r)" and "re_owner_user_id r = None"
    and "re_status r = ''active''" and "re_action r = ''drop''"
    and "not_expired (se_now env) (re_expires_at r)" and "bq_scope_type b = ScopeTypeAdminGlobal"
    and "bq_service_ebpf b = 0" and "bq_expires_at b = re_expires_at r"
    and "bq_ebpf_id b = re_ebpf_id r" and "bq_ip_or_cidr b = re_ip_or_cidr r"
  using assms by (auto simp: reputation_rows_def ScopeTypeAdminGlobal_def)

text \<open>What a service of a snapshot has of its forwarding policy, or of its backend when it has no enabled policy.\<close>

definition forwarding_from :: "forwarding_policy_row \<Rightarrow> backend_service_row \<Rightarrow> PolicyService \<Rightarrow> bool" where
  "forwarding_from fp bs p \<longleftrightarrow> uint (ps_ServiceID p) = bs_ebpf_id bs \<and> uint (ps_ForwardingPolicyID p) = fp_ebpf_id fp \<and>
     hostV4 (fp_backend_target fp) = Inr (ps_DstV4 p) \<and> ps_DstPort p = word_of_int (fp_match_dst_port fp) \<and>
     ps_Proto p = mustProto (fp_match_protocol fp) \<and> ps_OutputInterface p = fp_output_interface fp"

definition backend_from :: "backend_service_row \<Rightarrow> PolicyService \<Rightarrow> bool" where
  "backend_from bs p \<longleftrightarrow> uint (ps_ServiceID p) = bs_ebpf_id bs \<and> ps_ForwardingPolicyID p = ps_ServiceID p \<and>
     hostV4 (bs_backend_cidr bs) = Inr (ps_DstV4 p) \<and>
     ps_DstPort p \<in> word_of_int ` set (if bs_protocol bs = ''icmp'' \<and> bs_allowed_ports bs = [] then [0] else bs_allowed_ports bs) \<and>
     ps_Proto p = mustProto (bs_protocol bs) \<and> ps_OutputInterface p = bs_output_interface bs"

lemma make_service_fields:
  "makePolicyService req i d m = Inr s \<Longrightarrow> ps_ServiceID s = req_ServiceID req \<and>
     ps_ForwardingPolicyID s = req_ForwardingPolicyID req \<and> ps_DstV4 s = req_DstV4 req \<and> ps_DstPort s = req_DstPort req \<and>
     ps_Proto s = req_Proto req \<and> ps_OutputInterface s = req_OutputInterface req"
  by (auto simp: makePolicyService_def Let_def split: if_splits)

lemma scan_u16: "scan_u32 n = Inr w \<Longrightarrow> (ucast w :: u16) = word_of_int n"
  using scan_u32_uint [of n w] by (simp add: ucast_eq)

lemma forwarding_service_from: "forwarding_service (fp, bs) = Inr s \<Longrightarrow> forwarding_from fp bs s"
  by (auto simp: forwarding_service_def forwarding_from_def dest!: make_service_fields
      dest: scan_u32_uint scan_u16 split: sum.splits)

lemma backend_services_from:
  assumes "backend_row_services bs = Inr ss" and "s \<in> set ss"
  shows "backend_from bs s"
proof -
  obtain sid where sid: "scan_u32 (bs_ebpf_id bs) = Inr sid"
    using assms(1) by (auto simp: backend_row_services_def split: sum.splits)
  show ?thesis
    using assms scan_u32_uint [OF sid] unfolding backend_row_services_def backend_from_def sid
    by (auto dest!: map_rows_mem make_service_fields split: sum.splits)
qed

text \<open>The services a snapshot of the owner may contain: enabled, not deleted, the owner's.\<close>

definition own_service :: "transaction \<Rightarrow> backend_service_row \<Rightarrow> bool" where
  "own_service tx bs \<longleftrightarrow> bs \<in> set (backend_services (tx_db tx)) \<and> bs_enabled bs \<and>
     bs_deleted_at bs = None \<and> tx_owner tx \<noteq> [] \<and> bs_owner_user_id bs = tx_owner tx"

definition own_forwarding :: "transaction \<Rightarrow> backend_service_row \<Rightarrow> forwarding_policy_row \<Rightarrow> bool" where
  "own_forwarding tx bs fp \<longleftrightarrow> fp \<in> set (forwarding_policies (tx_db tx)) \<and> fp_enabled fp \<and>
     fp_service_id fp = bs_id bs \<and> fp_owner_user_id fp = tx_owner tx"

lemma default_rules_mem:
  assumes "p \<in> set (assignDefaultRules ss rs)"
  obtains s r where "s \<in> set ss" and "p = s\<lparr>ps_DefaultRuleID := r\<rparr>"
proof -
  obtain g sr where d: "default_rules rs None Map.empty = (g, sr)" by fastforce
  then obtain s where s: "s \<in> set ss" "p = (case sr (ps_ServiceID s) of
      Some rule \<Rightarrow> s\<lparr>ps_DefaultRuleID := pr_RuleID rule\<rparr>
    | None \<Rightarrow> (case g of Some g \<Rightarrow> s\<lparr>ps_DefaultRuleID := pr_RuleID g\<rparr> | None \<Rightarrow> s))"
    using assms by (auto simp: assignDefaultRules_def)
  moreover have "s = s\<lparr>ps_DefaultRuleID := ps_DefaultRuleID s\<rparr>" by simp
  ultimately have "\<exists>r. p = s\<lparr>ps_DefaultRuleID := r\<rparr>"
    by (cases "sr (ps_ServiceID s)"; cases g; simp only: option.case; blast)
  with s(1) that show thesis by blast
qed

lemma from_default [simp]:
  "forwarding_from fp bs (s\<lparr>ps_DefaultRuleID := r\<rparr>) = forwarding_from fp bs s"
  "backend_from bs (s\<lparr>ps_DefaultRuleID := r\<rparr>) = backend_from bs s"
  by (simp_all add: forwarding_from_def backend_from_def)

lemma snapshotServices_own:
  assumes "snapshotServices env tx rs = Inr out" and "p \<in> set out"
  shows "\<exists>bs. own_service tx bs \<and> ((\<exists>fp. own_forwarding tx bs fp \<and> forwarding_from fp bs p) \<or>
     (\<nexists>fp. own_forwarding tx bs fp) \<and> backend_from bs p)"
proof -
  obtain fps bss where fps: "map_rows forwarding_service (forwarding_rows tx) = Inr fps"
    and bss: "map_rows backend_row_services (backend_rows tx) = Inr bss"
    and out: "out = assignDefaultRules (sort_slice servicePortLess (fps @ concat bss)) rs"
    using assms(1) by (auto simp: snapshotServices_def snapshotServicesFromForwardingPolicies_def
        snapshotServicesFromBackendServices_def split: sum.splits)
  obtain s r where s: "s \<in> set fps \<union> set (concat bss)" and p: "p = s\<lparr>ps_DefaultRuleID := r\<rparr>"
    using assms(2) unfolding out by (rule default_rules_mem) auto
  from s consider (fp) "s \<in> set fps" | (bs) ss where "ss \<in> set bss" "s \<in> set ss" by auto
  then show ?thesis
  proof cases
    case fp
    then obtain f b where row: "(f, b) \<in> set (forwarding_rows tx)" and "forwarding_service (f, b) = Inr s"
      using map_rows_mem [OF fps] by (metis prod.collapse)
    then have "forwarding_from f b p" using forwarding_service_from p by simp
    moreover have "own_service tx b" "own_forwarding tx b f"
      using row by (auto simp: forwarding_rows_def own_service_def own_forwarding_def ownerSQL_true)
    ultimately show ?thesis by blast
  next
    case bs
    then obtain b where row: "b \<in> set (backend_rows tx)" and "backend_row_services b = Inr ss"
      using map_rows_mem [OF bss] by auto
    then have "backend_from b p" using backend_services_from bs(2) p by simp
    moreover have "own_service tx b" "\<nexists>f. own_forwarding tx b f"
      using row by (auto simp: backend_rows_def own_service_def own_forwarding_def ownerSQL_true list_ex_iff)
    ultimately show ?thesis by blast
  qed
qed

lemma whitelist_isolated:
  assumes "buildEffectiveSnapshot env tx v = Inr s" and "e \<in> set (snap_WhitelistV4 s)"
  shows "\<exists>w\<in>set (whitelist_entries (tx_db tx)).
      active_for env (tx_owner tx) (wl_enabled w) (wl_scope_type w) (wl_owner_user_id w) (wl_expires_at w) \<and>
      names_row (wl_ebpf_id w) (wl_ip_or_cidr w) e \<and>
      entry_from (wl_scope_type w) (service_ebpf (tx_db tx) (wl_service_id w)) (wl_expires_at w) actionPass e"
proof -
  note parts = build_parts [OF assms(1)]
  from assms(2) obtain w where "w \<in> set (whitelist_rows env tx)" "names_row (wl_ebpf_id w) (wl_ip_or_cidr w) e"
    "entry_from (wl_scope_type w) (service_ebpf (tx_db tx) (wl_service_id w)) (wl_expires_at w) actionPass e"
    by (rule whitelist_entry_row [OF parts(3)])
  then show ?thesis
    unfolding whitelist_rows_iff by blast
qed

lemma blacklist_isolated:
  assumes "buildEffectiveSnapshot env tx v = Inr s" and "e \<in> set (snap_BlacklistV4 s)"
  shows "(\<exists>b\<in>set (manual_blacklist_entries (tx_db tx)).
        active_for env (tx_owner tx) (bl_enabled b) (bl_scope_type b) (bl_owner_user_id b) (bl_expires_at b) \<and>
        names_row (bl_ebpf_id b) (bl_ip_or_cidr b) e \<and>
        entry_from (bl_scope_type b) (service_ebpf (tx_db tx) (bl_service_id b)) (bl_expires_at b) actionDrop e) \<or>
      (\<exists>r\<in>set (reputation_entries (tx_db tx)).
        global_feed_enabled (tx_db tx) (re_source_id r) \<and> re_owner_user_id r = None \<and>
        re_status r = ''active'' \<and> re_action r = ''drop'' \<and> not_expired (se_now env) (re_expires_at r) \<and>
        names_row (re_ebpf_id r) (re_ip_or_cidr r) e \<and>
        entry_from ScopeTypeAdminGlobal 0 (re_expires_at r) actionDrop e)"
proof -
  note parts = build_parts [OF assms(1)]
  from assms(2) obtain b where b: "b \<in> set (blacklist_rows env tx)"
    and e: "entry_from (bq_scope_type b) (bq_service_ebpf b) (bq_expires_at b) actionDrop e"
      "names_row (bq_ebpf_id b) (bq_ip_or_cidr b) e"
    by (rule blacklist_entry_row [OF parts(4)])
  from b consider "b \<in> set (reputation_rows env tx)" | "b \<in> set (manual_blacklist_rows env tx)"
    by (auto simp: blacklist_rows_def)
  then show ?thesis
  proof cases
    case 1
    then obtain r where r: "r \<in> set (reputation_entries (tx_db tx))"
      "global_feed_enabled (tx_db tx) (re_source_id r)" "re_owner_user_id r = None"
      "re_status r = ''active''" "re_action r = ''drop''" "not_expired (se_now env) (re_expires_at r)"
      and b: "bq_scope_type b = ScopeTypeAdminGlobal" "bq_service_ebpf b = 0" "bq_expires_at b = re_expires_at r"
        "bq_ebpf_id b = re_ebpf_id r" "bq_ip_or_cidr b = re_ip_or_cidr r"
      by (rule reputation_rows_mem)
    show ?thesis using r e unfolding b by blast
  next
    case 2
    then obtain m where m: "m \<in> set (manual_blacklist_entries (tx_db tx))"
      "active_for env (tx_owner tx) (bl_enabled m) (bl_scope_type m) (bl_owner_user_id m) (bl_expires_at m)"
      and b: "bq_scope_type b = bl_scope_type m" "bq_expires_at b = bl_expires_at m"
        "bq_service_ebpf b = service_ebpf (tx_db tx) (bl_service_id m)"
        "bq_ebpf_id b = bl_ebpf_id m" "bq_ip_or_cidr b = bl_ip_or_cidr m"
      by (rule manual_rows_mem)
    show ?thesis using m e unfolding b by blast
  qed
qed

lemma udp_blocks_isolated:
  assumes "buildEffectiveSnapshot env tx v = Inr s" and "e \<in> set (snap_UDPSourcePortBlocks s)"
  shows "\<exists>u\<in>set (udp_source_port_blocks (tx_db tx)).
      active_for env (tx_owner tx) (ubr_enabled u) (ubr_scope_type u) (ubr_owner_user_id u) (ubr_expires_at u) \<and>
      uint (ub_EntryID e) = ubr_ebpf_id u \<and>
      block_from (ubr_scope_type u) (service_ebpf (tx_db tx) (ubr_service_id u)) (ubr_port u) (ubr_expires_at u) e"
proof -
  note parts = build_parts [OF assms(1)]
  from assms(2) obtain u where "u \<in> set (udp_block_rows env tx)" "uint (ub_EntryID e) = ubr_ebpf_id u"
    "block_from (ubr_scope_type u) (service_ebpf (tx_db tx) (ubr_service_id u)) (ubr_port u) (ubr_expires_at u) e"
    by (rule udp_entry_row [OF parts(5)])
  then show ?thesis
    unfolding udp_rows_iff by blast
qed

lemma rules_isolated:
  assumes "buildEffectiveSnapshot env tx v = Inr s" and "p \<in> set (snap_Rules s)"
  shows "\<exists>r\<in>set (rules (tx_db tx)).
      active_for env (tx_owner tx) (rl_enabled r) (rl_scope_type r) (rl_owner_user_id r) (rl_expires_at r) \<and>
      scan_rule (tx_db tx) r = Inr p"
proof -
  note parts = build_parts [OF assms(1)]
  have "map_rows (scan_rule (tx_db tx)) (rule_rows env tx) = Inr (snap_Rules s)"
    using parts(1) by (auto simp: snapshotRules_def split: sum.splits)
  with assms(2) obtain r where r: "r \<in> set (rule_rows env tx)" "scan_rule (tx_db tx) r = Inr p"
    by (metis map_rows_mem)
  from r show ?thesis
    unfolding rule_rows_iff by blast
qed

lemma services_isolated:
  assumes "buildEffectiveSnapshot env tx v = Inr s" and "p \<in> set (snap_Services s)"
  shows "\<exists>bs. own_service tx bs \<and> ((\<exists>fp. own_forwarding tx bs fp \<and> forwarding_from fp bs p) \<or>
       (\<nexists>fp. own_forwarding tx bs fp) \<and> backend_from bs p)"
proof -
  note parts = build_parts [OF assms(1)]
  from assms(2) show ?thesis
    by (rule snapshotServices_own [OF parts(2)])
qed

text \<open>
  C15. No policy crosses owners. Every whitelist entry, UDP block and rule of a snapshot built for an owner has the id,
  prefix or port, scope, service and expiry of a row that is enabled, not expired, and either of
  scope \<^verbatim>\<open>admin_global\<close> or owned by that owner; a blacklist entry has those of such a row of the
  manual blacklist, or of an active drop entry of an enabled feed that has no owner; and a service is one
  of the owner's enabled backends that is not deleted, with the match of an enabled forwarding policy of the
  owner for it, or, when the owner has none for it, with the ports of the backend itself.
\<close>

theorem snapshot_isolated:
  assumes "buildEffectiveSnapshot env tx v = Inr s"
  shows "(\<forall>e\<in>set (snap_WhitelistV4 s). \<exists>w\<in>set (whitelist_entries (tx_db tx)).
      active_for env (tx_owner tx) (wl_enabled w) (wl_scope_type w) (wl_owner_user_id w) (wl_expires_at w) \<and>
      names_row (wl_ebpf_id w) (wl_ip_or_cidr w) e \<and>
      entry_from (wl_scope_type w) (service_ebpf (tx_db tx) (wl_service_id w)) (wl_expires_at w) actionPass e) \<and>
    (\<forall>e\<in>set (snap_BlacklistV4 s).
      (\<exists>b\<in>set (manual_blacklist_entries (tx_db tx)).
        active_for env (tx_owner tx) (bl_enabled b) (bl_scope_type b) (bl_owner_user_id b) (bl_expires_at b) \<and>
        names_row (bl_ebpf_id b) (bl_ip_or_cidr b) e \<and>
        entry_from (bl_scope_type b) (service_ebpf (tx_db tx) (bl_service_id b)) (bl_expires_at b) actionDrop e) \<or>
      (\<exists>r\<in>set (reputation_entries (tx_db tx)).
        global_feed_enabled (tx_db tx) (re_source_id r) \<and> re_owner_user_id r = None \<and>
        re_status r = ''active'' \<and> re_action r = ''drop'' \<and> not_expired (se_now env) (re_expires_at r) \<and>
        names_row (re_ebpf_id r) (re_ip_or_cidr r) e \<and>
        entry_from ScopeTypeAdminGlobal 0 (re_expires_at r) actionDrop e)) \<and>
    (\<forall>e\<in>set (snap_UDPSourcePortBlocks s). \<exists>u\<in>set (udp_source_port_blocks (tx_db tx)).
      active_for env (tx_owner tx) (ubr_enabled u) (ubr_scope_type u) (ubr_owner_user_id u) (ubr_expires_at u) \<and>
      uint (ub_EntryID e) = ubr_ebpf_id u \<and>
      block_from (ubr_scope_type u) (service_ebpf (tx_db tx) (ubr_service_id u)) (ubr_port u) (ubr_expires_at u) e) \<and>
    (\<forall>p\<in>set (snap_Rules s). \<exists>r\<in>set (rules (tx_db tx)).
      active_for env (tx_owner tx) (rl_enabled r) (rl_scope_type r) (rl_owner_user_id r) (rl_expires_at r) \<and>
      scan_rule (tx_db tx) r = Inr p) \<and>
    (\<forall>p\<in>set (snap_Services s). \<exists>bs. own_service tx bs \<and>
      ((\<exists>fp. own_forwarding tx bs fp \<and> forwarding_from fp bs p) \<or>
       (\<nexists>fp. own_forwarding tx bs fp) \<and> backend_from bs p))"
  using whitelist_isolated [OF assms] blacklist_isolated [OF assms] udp_blocks_isolated [OF assms] rules_isolated [OF assms] services_isolated [OF assms]
  by simp

subsection \<open>Ranging over a map\<close>

lemma entries_tie_free:
  assumes "distinct (map entry_key es)"
  shows "snapshot_order.tie_free es"
proof -
  have tie: "entry_key x = entry_key y" if "\<not> cidrEntrySnapshotLess x y" "\<not> cidrEntrySnapshotLess y x" for x y
    using that by (auto simp: cidrEntrySnapshotLess_def entry_key_def split: if_splits)
  show ?thesis
    using assms tie unfolding snapshot_order.tie_free_def distinct_map inj_on_def by metis
qed

text \<open>
  Go ranges over a map in any order. Whatever order the candidates come in, the blacklist of
  the snapshot is the same list.
\<close>

lemma range_order_irrelevant:
  assumes "map_rows blacklist_candidate (blacklist_rows env tx) = Inr cands"
    and "\<not> se_fails env QueryBlacklist (tx_owner tx)"
    and "mset ranged = mset (pick blacklistCandidatePreferred cands)"
  shows "snapshotBlacklist env tx =
    Inr (sort_slice cidrEntrySnapshotLess (map (\<lambda>kc. bc_entry (snd kc)) ranged))"
proof -
  let ?es = "map (\<lambda>kc. bc_entry (snd kc)) (pick blacklistCandidatePreferred cands)"
  have built: "snapshotBlacklist env tx = Inr (sort_slice cidrEntrySnapshotLess ?es)"
    using assms(1,2) by (simp add: snapshotBlacklist_def db_guard_def)
  then have "distinct (map entry_key (sort_slice cidrEntrySnapshotLess ?es))"
    by (rule blacklist_out) simp
  then have "snapshot_order.tie_free ?es"
    unfolding distinct_map_sort_slice by (rule entries_tie_free)
  moreover have "mset ?es = mset (map (\<lambda>kc. bc_entry (snd kc)) ranged)"
    using assms(3) by (metis mset_map)
  ultimately show ?thesis
    using snapshot_order.sort_slice_perm built by metis
qed

subsection \<open>Default rules\<close>

abbreviation keyed_rules :: "PolicyRule list \<Rightarrow> (u32 \<times> PolicyRule) list" where
  "keyed_rules rs \<equiv> map (\<lambda>r. (pr_ServiceID r, r)) (filter (\<lambda>r. pr_RuleID r \<noteq> 0) rs)"

lemma default_rules_foldl:
  assumes "g = map_of m 0" and "\<forall>k. k \<noteq> 0 \<longrightarrow> sr k = map_of m k"
  shows "fst (default_rules rs g sr) = map_of (foldl (keep_preferred rulePreferred) m (keyed_rules rs)) 0 \<and>
    (\<forall>k. k \<noteq> 0 \<longrightarrow> snd (default_rules rs g sr) k =
       map_of (foldl (keep_preferred rulePreferred) m (keyed_rules rs)) k)"
  using assms
proof (induction rs arbitrary: g sr m)
  case (Cons r rs)
  show ?case
  proof (cases "pr_RuleID r = 0")
    case True
    then show ?thesis using Cons by simp
  next
    case False
    let ?m = "keep_preferred rulePreferred m (pr_ServiceID r, r)"
    note m' = rule_pref.map_of_keep [of m "pr_ServiceID r" r]
    show ?thesis
    proof (cases "pr_ServiceID r = 0")
      case zero: True
      have "(case g of None \<Rightarrow> Some r | Some h \<Rightarrow> if rulePreferred r h then Some r else g) = map_of ?m 0"
        and "\<forall>k. k \<noteq> 0 \<longrightarrow> sr k = map_of ?m k"
        using Cons.prems zero m' by (auto split: option.split)
      from Cons.IH [OF this] show ?thesis using False zero by simp
    next
      case nonzero: False
      have "g = map_of ?m 0"
        and "\<forall>k. k \<noteq> 0 \<longrightarrow> (case sr (pr_ServiceID r) of
           None \<Rightarrow> sr(pr_ServiceID r \<mapsto> r)
         | Some current \<Rightarrow> if rulePreferred r current then sr(pr_ServiceID r \<mapsto> r) else sr) k = map_of ?m k"
        using Cons.prems nonzero m' by (auto split: option.split)
      from Cons.IH [OF this] show ?thesis using False nonzero by simp
    qed
  qed
qed simp

lemma default_rules_best:
  assumes "map_of (pick rulePreferred (keyed_rules rs)) k = Some r"
  shows "r \<in> set rs \<and> pr_RuleID r \<noteq> 0 \<and> pr_ServiceID r = k \<and>
    (\<forall>r'\<in>set rs. pr_RuleID r' \<noteq> 0 \<and> pr_ServiceID r' = k \<longrightarrow> \<not> rulePreferred r' r)"
  using map_of_SomeD [OF assms] pick_subset [of rulePreferred "keyed_rules rs"] rule_pref.pick_best [OF assms]
  by auto

lemma default_rules_none:
  "map_of (pick rulePreferred (keyed_rules rs)) k = None \<longleftrightarrow>
     \<not> (\<exists>r\<in>set rs. pr_RuleID r \<noteq> 0 \<and> pr_ServiceID r = k)"
  unfolding map_of_eq_None_iff pick_keys by (force simp: image_iff)

text \<open>The rules a service's default is chosen from, and the choice.\<close>

definition default_group :: "PolicyRule list \<Rightarrow> u32 \<Rightarrow> PolicyRule list" where
  "default_group rs sid =
     (let own = filter (\<lambda>r. pr_RuleID r \<noteq> 0 \<and> pr_ServiceID r = sid) rs
      in if own \<noteq> [] then own else filter (\<lambda>r. pr_RuleID r \<noteq> 0 \<and> pr_ServiceID r = 0) rs)"

definition default_assigned :: "PolicyRule list \<Rightarrow> PolicyService \<Rightarrow> PolicyService \<Rightarrow> bool" where
  "default_assigned rs s s' \<longleftrightarrow>
     (if default_group rs (ps_ServiceID s) = [] then s' = s
      else \<exists>r\<in>set (default_group rs (ps_ServiceID s)). s' = s\<lparr>ps_DefaultRuleID := pr_RuleID r\<rparr> \<and>
        (\<forall>r'\<in>set (default_group rs (ps_ServiceID s)). \<not> rulePreferred r' r))"

abbreviation best_rule :: "PolicyRule list \<Rightarrow> u32 \<Rightarrow> PolicyRule option" where
  "best_rule rs k \<equiv> map_of (pick rulePreferred (keyed_rules rs)) k"

definition assign_best :: "PolicyRule list \<Rightarrow> PolicyService \<Rightarrow> PolicyService" where
  "assign_best rs s = (case best_rule rs (ps_ServiceID s) of
      Some rule \<Rightarrow> s\<lparr>ps_DefaultRuleID := pr_RuleID rule\<rparr>
    | None \<Rightarrow> (case best_rule rs 0 of Some g \<Rightarrow> s\<lparr>ps_DefaultRuleID := pr_RuleID g\<rparr> | None \<Rightarrow> s))"

lemma no_service_rule_0: "m 0 = None \<Longrightarrow> snd (default_rules rs g m) 0 = None"
  by (induction rs arbitrary: g m) (auto split: option.split)

lemma assignDefaultRules_best: "assignDefaultRules services rs = map (assign_best rs) services"
proof -
  obtain g sr where gs: "default_rules rs None Map.empty = (g, sr)" by fastforce
  have g: "g = best_rule rs 0" and sr: "\<forall>k. k \<noteq> 0 \<longrightarrow> sr k = best_rule rs k"
    using default_rules_foldl [of None "[]" Map.empty rs] gs by (simp_all add: pick_def)
  have sr0: "sr 0 = None" using no_service_rule_0 [of Map.empty rs None] gs by simp
  show ?thesis
    unfolding assignDefaultRules_def gs prod.case
  proof (rule map_cong [OF refl])
    fix s
    show "(case sr (ps_ServiceID s) of
        Some rule \<Rightarrow> s\<lparr>ps_DefaultRuleID := pr_RuleID rule\<rparr>
      | None \<Rightarrow> (case g of Some g \<Rightarrow> s\<lparr>ps_DefaultRuleID := pr_RuleID g\<rparr> | None \<Rightarrow> s)) = assign_best rs s"
      using g sr sr0 by (cases "ps_ServiceID s = 0") (auto simp: assign_best_def split: option.split)
  qed
qed

lemma default_group_own: "best_rule rs k = Some r \<Longrightarrow>
    default_group rs k = filter (\<lambda>r. pr_RuleID r \<noteq> 0 \<and> pr_ServiceID r = k) rs \<and> default_group rs k \<noteq> []"
  using default_rules_best [of rs k r] by (auto simp: default_group_def Let_def filter_empty_conv)

lemma default_group_none: "best_rule rs k = None \<Longrightarrow>
    default_group rs k = filter (\<lambda>r. pr_RuleID r \<noteq> 0 \<and> pr_ServiceID r = 0) rs"
  unfolding default_rules_none by (auto simp: default_group_def Let_def filter_empty_conv)

lemma assign_best_assigned: "default_assigned rs s (assign_best rs s)"
proof (cases "best_rule rs (ps_ServiceID s)")
  case (Some r)
  then show ?thesis
    using default_group_own [OF Some] default_rules_best [OF Some]
    by (auto simp: default_assigned_def assign_best_def)
next
  case None
  note group = default_group_none [OF None]
  show ?thesis
  proof (cases "best_rule rs 0")
    case (Some r)
    then show ?thesis
      using default_rules_best [OF Some] None
      by (auto simp: default_assigned_def assign_best_def group filter_empty_conv)
  next
    case none: None
    then have "filter (\<lambda>r. pr_RuleID r \<noteq> 0 \<and> pr_ServiceID r = 0) rs = []"
      unfolding default_rules_none by (auto simp: filter_empty_conv)
    then show ?thesis using None none by (simp add: default_assigned_def assign_best_def group)
  qed
qed

text \<open>
  The default rule of a service. After \<^verbatim>\<open>assignDefaultRules\<close> a service that has rules of its
  own has as default the id of one of them that no other of them is preferred to; otherwise the
  id of such a rule among those without a service; and with neither it is left as it was.
\<close>

lemma default_rule_best: "list_all2 (default_assigned rs) services (assignDefaultRules services rs)"
  by (simp add: assignDefaultRules_best list_all2_conv_all_nth assign_best_assigned)

end
