(* ===== verification/SnapshotStore.thy ===== *)
theory SnapshotStore
  imports SnapshotAccept
begin

section \<open>The history of snapshots\<close>

text \<open>
  The operations of \<^verbatim>\<open>internal/control/snapshot.go\<close> on the table \<^verbatim>\<open>policy_snapshots\<close>, whose primary
  key is the owner and the version: rebuild, roll back, list, fetch; and from \<^verbatim>\<open>feed.go\<close> and
  \<^verbatim>\<open>policy_scope.go\<close> the rebuild for all active users and the two ends of a policy mutation. A
  public operation returns the tables after it and its result; a transaction that does not
  commit leaves the tables alone.
\<close>

subsection \<open>Reading\<close>

record SnapshotMetadata =
  sm_Version :: u32
  sm_Checksum :: string
  sm_ObjectChecksum :: string
  sm_RollbackFrom :: "u32 option"
  sm_CreatedBy :: string
  sm_Snapshot :: string

definition scanSnapshot :: "policy_snapshot_row \<Rightarrow> bool \<Rightarrow> control_error + SnapshotMetadata" where
  "scanSnapshot row includeSnapshot =
     bind_ok (scan_u32 (psr_version row)) (\<lambda>version.
     bind_ok (case psr_rollback_from row of
                None \<Rightarrow> Inr None
              | Some r \<Rightarrow> (case scan_u32 r of Inl e \<Rightarrow> Inl e | Inr v \<Rightarrow> Inr (Some v))) (\<lambda>rollback.
     Inr \<lparr>sm_Version = version, sm_Checksum = psr_checksum row,
          sm_ObjectChecksum = psr_object_checksum row, sm_RollbackFrom = rollback,
          sm_CreatedBy = (case psr_created_by row of None \<Rightarrow> [] | Some c \<Rightarrow> c),
          sm_Snapshot = (if includeSnapshot then psr_snapshot row else [])\<rparr>))"

definition owned_snapshots :: "transaction \<Rightarrow> policy_snapshot_row list" where
  "owned_snapshots tx =
     filter (\<lambda>r. ownerSQL (tx_owner tx) (Some (psr_owner_user_id r)) = Some True) (policy_snapshots (tx_db tx))"

text \<open>\<^verbatim>\<open>ORDER BY version DESC\<close>\<close>

definition newest_first :: "policy_snapshot_row list \<Rightarrow> policy_snapshot_row list" where
  "newest_first = sort_slice (\<lambda>a b. psr_version b < psr_version a)"

definition latestSnapshot ::
    "store_env \<Rightarrow> transaction \<Rightarrow> control_error + (SnapshotMetadata \<times> string) option" where
  "latestSnapshot env tx =
     bind_ok (db_guard env QueryLatestSnapshot (tx_owner tx)) (\<lambda>_.
     (case newest_first (owned_snapshots tx) of
        [] \<Rightarrow> Inr None
      | row # _ \<Rightarrow> bind_ok (scanSnapshot row True) (\<lambda>meta. Inr (Some (meta, sm_Snapshot meta)))))"

definition snapshotRaw :: "store_env \<Rightarrow> transaction \<Rightarrow> u32 \<Rightarrow> control_error + string" where
  "snapshotRaw env tx version =
     bind_ok (db_guard env QuerySnapshot (tx_owner tx)) (\<lambda>_.
     bind_ok (first_row (\<lambda>r. psr_version r = uint version) (owned_snapshots tx)) (\<lambda>row.
     Inr (psr_snapshot row)))"

definition ListSnapshots ::
    "store_env \<Rightarrow> control_db \<Rightarrow> go_context \<Rightarrow> bool \<Rightarrow> control_error + SnapshotMetadata list" where
  "ListSnapshots env db ctx includeSnapshot =
     bind_ok (beginContextOwnerTx env db ctx) (\<lambda>tx.
     bind_ok (db_guard env QuerySnapshots (tx_owner tx)) (\<lambda>_.
     bind_ok (map_rows (\<lambda>row. scanSnapshot row includeSnapshot) (newest_first (owned_snapshots tx))) (\<lambda>out.
     bind_ok (tx_Commit env tx) (\<lambda>_. Inr out))))"

definition LatestPolicyVersion :: "store_env \<Rightarrow> control_db \<Rightarrow> go_context \<Rightarrow> control_error + u32" where
  "LatestPolicyVersion env db ctx =
     bind_ok (beginContextOwnerTx env db ctx) (\<lambda>tx.
     bind_ok (db_guard env QueryLatestSnapshot (tx_owner tx)) (\<lambda>_.
     bind_ok (scan_u32 (fold max (map psr_version (owned_snapshots tx)) 0)) (\<lambda>version.
     bind_ok (tx_Commit env tx) (\<lambda>_. Inr version))))"

definition FetchSnapshot ::
    "store_env \<Rightarrow> control_db \<Rightarrow> go_context \<Rightarrow> u32 \<Rightarrow> control_error + PolicySnapshot option" where
  "FetchSnapshot env db ctx activeVersion =
     bind_ok (beginContextOwnerTx env db ctx) (\<lambda>tx.
     bind_ok (db_guard env QueryLatestSnapshot (tx_owner tx)) (\<lambda>_.
     (case newest_first (owned_snapshots tx) of
        [] \<Rightarrow> Inr None
      | row # _ \<Rightarrow>
          bind_ok (scan_u32 (psr_version row)) (\<lambda>version.
          if version \<le> activeVersion then Inr None
          else (case se_Unmarshal env (psr_snapshot row) of
              None \<Rightarrow> Inl SnapshotUndecodable
            | Some s \<Rightarrow> bind_ok (tx_Commit env tx) (\<lambda>_. Inr (Some s)))))))"

definition GetSnapshotMetadata ::
    "store_env \<Rightarrow> control_db \<Rightarrow> go_context \<Rightarrow> u32 \<Rightarrow> bool \<Rightarrow> control_error + SnapshotMetadata" where
  "GetSnapshotMetadata env db ctx version includeSnapshot =
     (if version = 0 then Inl SnapshotVersionRequired
      else
        bind_ok (beginContextOwnerTx env db ctx) (\<lambda>tx.
        bind_ok (db_guard env QuerySnapshot (tx_owner tx)) (\<lambda>_.
        bind_ok (first_row (\<lambda>r. psr_version r = uint version) (owned_snapshots tx)) (\<lambda>row.
        bind_ok (scanSnapshot row includeSnapshot) (\<lambda>meta.
        bind_ok (tx_Commit env tx) (\<lambda>_. Inr meta))))))"

subsection \<open>Writing\<close>

text \<open>\<^verbatim>\<open>INSERT INTO policy_snapshots\<close> under the primary key \<^verbatim>\<open>(owner_user_id, version)\<close>.\<close>

definition insert_snapshot ::
    "store_env \<Rightarrow> transaction \<Rightarrow> PolicySnapshot \<Rightarrow> string \<Rightarrow> u32 option \<Rightarrow> Actor option \<Rightarrow>
     control_error + transaction" where
  "insert_snapshot env tx sealed raw rollback actor =
     bind_ok (db_guard env InsertSnapshot (tx_owner tx)) (\<lambda>_.
     (case ownerValueSQL (tx_owner tx) of
        None \<Rightarrow> Inl NotNullViolation
      | Some owner \<Rightarrow>
          if list_ex (\<lambda>r. psr_owner_user_id r = owner \<and> psr_version r = uint (snap_Version sealed))
               (policy_snapshots (tx_db tx))
          then Inl UniqueViolation
          else Inr (tx\<lparr>tx_db := (tx_db tx)\<lparr>policy_snapshots := policy_snapshots (tx_db tx) @
            [\<lparr>psr_owner_user_id = owner, psr_version = uint (snap_Version sealed),
              psr_checksum = snap_Checksum sealed, psr_object_checksum = snap_ObjectChecksum sealed,
              psr_snapshot = raw, psr_rollback_from = map_option uint rollback,
              psr_created_by = map_option user_ID actor\<rparr>]\<rparr>\<rparr>)))"

definition snapshot_meta :: "PolicySnapshot \<Rightarrow> string \<Rightarrow> u32 option \<Rightarrow> SnapshotMetadata" where
  "snapshot_meta sealed raw rollback =
     \<lparr>sm_Version = snap_Version sealed, sm_Checksum = snap_Checksum sealed,
      sm_ObjectChecksum = snap_ObjectChecksum sealed, sm_RollbackFrom = rollback,
      sm_CreatedBy = [], sm_Snapshot = raw\<rparr>"

definition store_verify_options :: "store_env \<Rightarrow> PolicySnapshotVerifyOptions" where
  "store_verify_options env =
     \<lparr>vo_CurrentVersion = 0, vo_ObjectChecksum = [], vo_Now = Some (se_clock env),
      vo_CapacityOverrides = Map.empty, vo_MemoryBudgetBytes = 0, vo_AllowUnresolvedServices = True\<rparr>"

definition same_content :: "store_env \<Rightarrow> string option \<Rightarrow> PolicySnapshot \<Rightarrow> bool" where
  "same_content env latestRaw sealed = (case latestRaw of
     None \<Rightarrow> False
   | Some raw \<Rightarrow> (case se_Unmarshal env raw of
       None \<Rightarrow> False
     | Some previous \<Rightarrow>
         policyContentFingerprint (se_digest env) previous = policyContentFingerprint (se_digest env) sealed))"

definition rebuildSnapshotInTx ::
    "store_env \<Rightarrow> go_context \<Rightarrow> transaction \<Rightarrow> Actor option \<Rightarrow> u32 option \<Rightarrow> string \<Rightarrow>
     control_error + (transaction \<times> SnapshotMetadata option)" where
  "rebuildSnapshotInTx env ctx tx actor rollbackFrom reason =
     bind_ok (latestSnapshot env tx) (\<lambda>latest.
     (let nextVersion = (case latest of None \<Rightarrow> 1 | Some (meta, _) \<Rightarrow> sm_Version meta + 1) in
      bind_ok (buildEffectiveSnapshot env tx nextVersion) (\<lambda>snapshot.
      (let sealed = SignPolicySnapshot (se_digest env) snapshot;
           errs = snd (VerifyPolicySnapshot (se_digest env) (se_clock env) sealed (store_verify_options env))
       in if errs \<noteq> [] then Inl (SnapshotInvalid errs)
          else if rollbackFrom = None \<and> same_content env (map_option snd latest) sealed
          then Inr (tx, None)
          else
            (let raw = se_Marshal env sealed in
             bind_ok (insert_snapshot env tx sealed raw rollbackFrom actor) (\<lambda>tx.
             bind_ok (insertAudit env ctx tx actor
                 (if rollbackFrom = None then ''create_snapshot'' else ''rollback_snapshot'')
                 ''policy_snapshot'' (dec (unat (snap_Version sealed))) reason) (\<lambda>tx.
             Inr (tx, Some (snapshot_meta sealed raw rollbackFrom)))))))))"

text \<open>The pattern of a public operation: run on a transaction, commit or drop it.\<close>

definition commit_or_drop ::
    "store_env \<Rightarrow> control_db \<Rightarrow> control_error + (transaction \<times> 'a) \<Rightarrow> control_db \<times> (control_error + 'a)" where
  "commit_or_drop env db r = (case r of
     Inl e \<Rightarrow> (db, Inl e)
   | Inr (tx, a) \<Rightarrow> (case tx_Commit env tx of Inl e \<Rightarrow> (db, Inl e) | Inr db' \<Rightarrow> (db', Inr a)))"

definition RebuildSnapshot ::
    "store_env \<Rightarrow> control_db \<Rightarrow> go_context \<Rightarrow> Actor option \<Rightarrow> string \<Rightarrow>
     control_db \<times> (control_error + SnapshotMetadata option)" where
  "RebuildSnapshot env db ctx actor reason = (case requireConfigMutation actor of
     Some e \<Rightarrow> (db, Inl e)
   | None \<Rightarrow>
       if TrimSpace reason = [] then (db, Inl ReasonRequired)
       else (case beginActorOwnerTx env db actor of (actor, began) \<Rightarrow>
         commit_or_drop env db (bind_ok began (\<lambda>tx. rebuildSnapshotInTx env ctx tx actor None reason))))"

definition rollback_in_tx ::
    "store_env \<Rightarrow> go_context \<Rightarrow> transaction \<Rightarrow> Actor option \<Rightarrow> u32 \<Rightarrow> string \<Rightarrow>
     control_error + (transaction \<times> SnapshotMetadata)" where
  "rollback_in_tx env ctx tx actor targetVersion reason =
     bind_ok (latestSnapshot env tx) (\<lambda>latest.
     (case latest of
        None \<Rightarrow> Inl NoSnapshots
      | Some (meta, _) \<Rightarrow>
          bind_ok (snapshotRaw env tx targetVersion) (\<lambda>targetRaw.
          (case se_Unmarshal env targetRaw of
             None \<Rightarrow> Inl SnapshotUndecodable
           | Some target \<Rightarrow>
               (let sealed = SignPolicySnapshot (se_digest env)
                      (target\<lparr>snap_Version := sm_Version meta + 1, snap_Checksum := []\<rparr>);
                    errs = snd (VerifyPolicySnapshot (se_digest env) (se_clock env) sealed
                      (store_verify_options env));
                    raw = se_Marshal env sealed
                in if errs \<noteq> [] then Inl (SnapshotInvalid errs)
                   else
                     bind_ok (insert_snapshot env tx sealed raw (Some (sm_Version meta)) actor) (\<lambda>tx.
                     bind_ok (insertAudit env ctx tx actor ''rollback_snapshot'' ''policy_snapshot''
                         (dec (unat (snap_Version sealed))) reason) (\<lambda>tx.
                     Inr (tx, snapshot_meta sealed raw (Some (sm_Version meta))))))))))"

definition RollbackSnapshot ::
    "store_env \<Rightarrow> control_db \<Rightarrow> go_context \<Rightarrow> Actor option \<Rightarrow> u32 \<Rightarrow> string \<Rightarrow>
     control_db \<times> (control_error + SnapshotMetadata)" where
  "RollbackSnapshot env db ctx actor targetVersion reason = (case requireConfigMutation actor of
     Some e \<Rightarrow> (db, Inl e)
   | None \<Rightarrow>
       if targetVersion = 0 then (db, Inl TargetVersionRequired)
       else if TrimSpace reason = [] then (db, Inl ReasonRequired)
       else (case beginActorOwnerTx env db actor of (actor, began) \<Rightarrow>
         commit_or_drop env db (bind_ok began (\<lambda>tx. rollback_in_tx env ctx tx actor targetVersion reason))))"

subsection \<open>All active users\<close>

text \<open>The loop commits owner by owner and stops at the first error; earlier commits stay.\<close>

fun rebuild_owners ::
    "store_env \<Rightarrow> go_context \<Rightarrow> Actor option \<Rightarrow> string \<Rightarrow> string list \<Rightarrow> control_db \<Rightarrow> u32 \<Rightarrow>
     control_db \<times> (control_error + u32)" where
  "rebuild_owners env ctx actor reason [] db maxVersion = (db, Inr maxVersion)"
| "rebuild_owners env ctx actor reason (ownerID # rest) db maxVersion =
     (let ownerCtx = contextWithOwner ctx ownerID in
      case commit_or_drop env db (bind_ok (beginOwnerTx env db ownerID)
          (\<lambda>tx. rebuildSnapshotInTx env ownerCtx tx actor None reason)) of
        (db', Inl e) \<Rightarrow> (db', Inl e)
      | (db', Inr meta) \<Rightarrow>
          rebuild_owners env ctx actor reason rest db'
            (case meta of
               None \<Rightarrow> maxVersion
             | Some m \<Rightarrow> if sm_Version m > maxVersion then sm_Version m else maxVersion))"

definition rebuildAllActiveUserSnapshots ::
    "store_env \<Rightarrow> control_db \<Rightarrow> go_context \<Rightarrow> Actor option \<Rightarrow> string \<Rightarrow>
     control_db \<times> (control_error + u32)" where
  "rebuildAllActiveUserSnapshots env db ctx actor reason = (case activeOwnerUserIDs env db of
     Inl e \<Rightarrow> (db, Inl e)
   | Inr ownerIDs \<Rightarrow> rebuild_owners env ctx actor reason ownerIDs db 0)"

definition rebuildPolicyMutationInTx ::
    "store_env \<Rightarrow> go_context \<Rightarrow> transaction \<Rightarrow> Actor option \<Rightarrow> policyMutationScope \<Rightarrow> string \<Rightarrow>
     control_error + transaction" where
  "rebuildPolicyMutationInTx env ctx tx actor scope reason =
     (if pms_AdminGlobal scope then Inr tx
      else bind_ok (rebuildSnapshotInTx env ctx tx actor None reason) (\<lambda>r. Inr (fst r)))"

definition commitPolicyMutation ::
    "store_env \<Rightarrow> control_db \<Rightarrow> go_context \<Rightarrow> transaction \<Rightarrow> Actor option \<Rightarrow> policyMutationScope \<Rightarrow> string \<Rightarrow>
     control_db \<times> control_error option" where
  "commitPolicyMutation env db ctx tx actor scope reason = (case tx_Commit env tx of
     Inl e \<Rightarrow> (db, Some e)
   | Inr db' \<Rightarrow>
       if pms_AdminGlobal scope
       then (case rebuildAllActiveUserSnapshots env db' ctx actor reason of
           (db'', Inl e) \<Rightarrow> (db'', Some e)
         | (db'', Inr _) \<Rightarrow> (db'', None))
       else (db', None))"

end
