(* ===== verification/SnapshotHistory.thy ===== *)
theory SnapshotHistory
  imports SnapshotStore
begin

section \<open>Versions, roll back and distribution\<close>

text \<open>
  The table of snapshots as a state machine. Its steps are the operations that write it and any
  change of the other tables; the invariant says that the versions of every owner are
  \<open>1, 2, \<dots>, n\<close> in the order of insertion and that every stored snapshot passed the agent's
  verification. On top of it: what a roll back stores, that an unchanged policy is stored once,
  and that an agent that fetches gets a snapshot it accepts.
\<close>

subsection \<open>Single steps\<close>

definition stored_row ::
    "(PolicySnapshot \<Rightarrow> string) \<Rightarrow> string \<Rightarrow> PolicySnapshot \<Rightarrow> u32 option \<Rightarrow> Actor option \<Rightarrow> policy_snapshot_row" where
  "stored_row marshal owner s rollback actor =
     \<lparr>psr_owner_user_id = owner, psr_version = uint (snap_Version s), psr_checksum = snap_Checksum s,
      psr_object_checksum = snap_ObjectChecksum s, psr_snapshot = marshal s,
      psr_rollback_from = map_option uint rollback, psr_created_by = map_option user_ID actor\<rparr>"

text \<open>Everything but the snapshot table and the audit log.\<close>

definition same_policy :: "control_db \<Rightarrow> control_db \<Rightarrow> bool" where
  "same_policy db db' \<longleftrightarrow>
     db'\<lparr>policy_snapshots := [], audit_events := []\<rparr> = db\<lparr>policy_snapshots := [], audit_events := []\<rparr>"

lemma insert_snapshot_Inr:
  assumes "insert_snapshot env tx s (se_Marshal env s) rb actor = Inr tx'"
  shows "tx_owner tx \<noteq> [] \<and> tx_owner tx' = tx_owner tx \<and> same_policy (tx_db tx) (tx_db tx') \<and>
    policy_snapshots (tx_db tx') = policy_snapshots (tx_db tx) @ [stored_row (se_Marshal env) (tx_owner tx) s rb actor]"
  using assms
  by (auto simp: insert_snapshot_def stored_row_def same_policy_def ownerValueSQL_def nullif_empty_def
      split: sum.splits if_splits option.splits)

lemma insertAudit_Inr:
  assumes "insertAudit env ctx tx actor a t i r = Inr tx'"
  shows "tx_owner tx' = tx_owner tx \<and> same_policy (tx_db tx) (tx_db tx') \<and>
    policy_snapshots (tx_db tx') = policy_snapshots (tx_db tx)"
  using assms by (auto simp: insertAudit_def same_policy_def Let_def split: sum.splits)

lemma same_policy_refl [simp]: "same_policy db db"
  by (simp add: same_policy_def)

lemma same_policy_trans: "same_policy a b \<Longrightarrow> same_policy b c \<Longrightarrow> same_policy a c"
  by (simp add: same_policy_def)

text \<open>A snapshot as the control plane stores it: signed, and accepted by the verification.\<close>

definition storable :: "digest \<Rightarrow> int \<Rightarrow> PolicySnapshot \<Rightarrow> bool" where
  "storable digest clock s \<longleftrightarrow>
     s = SignPolicySnapshot digest s \<and>
     snd (VerifyPolicySnapshot digest clock s
       \<lparr>vo_CurrentVersion = 0, vo_ObjectChecksum = [], vo_Now = Some clock,
        vo_CapacityOverrides = Map.empty, vo_MemoryBudgetBytes = 0, vo_AllowUnresolvedServices = True\<rparr>) = []"

lemma Sign_idem: "SignPolicySnapshot digest (SignPolicySnapshot digest s) = SignPolicySnapshot digest s"
  by (simp add: SignPolicySnapshot_def)

lemma storable_version: "storable digest clock s \<Longrightarrow> snap_Version s \<noteq> 0"
  using accepted_header(2) by (auto simp: storable_def)

lemma Sign_version [simp]: "snap_Version (SignPolicySnapshot digest s) = snap_Version s"
  by (simp add: SignPolicySnapshot_def)

lemma rebuild_cases:
  assumes "rebuildSnapshotInTx env ctx tx actor None reason = Inr (tx', m)"
  obtains (unchanged) "m = None" and "tx' = tx"
  | (stored) latest built where "latestSnapshot env tx = Inr latest"
      and "buildEffectiveSnapshot env tx (case latest of None \<Rightarrow> 1 | Some (meta, _) \<Rightarrow> sm_Version meta + 1) = Inr built"
      and "storable (se_digest env) (se_clock env) (SignPolicySnapshot (se_digest env) built)"
      and "m = Some (snapshot_meta (SignPolicySnapshot (se_digest env) built)
        (se_Marshal env (SignPolicySnapshot (se_digest env) built)) None)"
      and "tx_owner tx \<noteq> []" and "tx_owner tx' = tx_owner tx" and "same_policy (tx_db tx) (tx_db tx')"
      and "policy_snapshots (tx_db tx') = policy_snapshots (tx_db tx) @
        [stored_row (se_Marshal env) (tx_owner tx) (SignPolicySnapshot (se_digest env) built) None actor]"
proof (cases "m = None \<and> tx' = tx")
  case False
  from assms False obtain latest built tx1 where l: "latestSnapshot env tx = Inr latest"
    and b: "buildEffectiveSnapshot env tx (case latest of None \<Rightarrow> 1 | Some (meta, _) \<Rightarrow> sm_Version meta + 1) = Inr built"
    and v: "snd (VerifyPolicySnapshot (se_digest env) (se_clock env) (SignPolicySnapshot (se_digest env) built)
      (store_verify_options env)) = []"
    and i: "insert_snapshot env tx (SignPolicySnapshot (se_digest env) built)
      (se_Marshal env (SignPolicySnapshot (se_digest env) built)) None actor = Inr tx1"
    and a: "insertAudit env ctx tx1 actor ''create_snapshot'' ''policy_snapshot''
      (dec (unat (snap_Version (SignPolicySnapshot (se_digest env) built)))) reason = Inr tx'"
    and m: "m = Some (snapshot_meta (SignPolicySnapshot (se_digest env) built)
        (se_Marshal env (SignPolicySnapshot (se_digest env) built)) None)"
    by (auto simp: rebuildSnapshotInTx_def Let_def split: sum.splits if_splits)
  have "storable (se_digest env) (se_clock env) (SignPolicySnapshot (se_digest env) built)"
    using v by (simp add: storable_def Sign_idem store_verify_options_def)
  from stored [OF l b this m] show thesis
    using insert_snapshot_Inr [OF i] insertAudit_Inr [OF a] by (auto intro: same_policy_trans)
qed (use unchanged in blast)

lemma rollback_cases:
  assumes "rollback_in_tx env ctx tx actor v reason = Inr (tx', m)"
  obtains meta raw traw target s where "latestSnapshot env tx = Inr (Some (meta, raw))"
    and "snapshotRaw env tx v = Inr traw" and "se_Unmarshal env traw = Some target"
    and "s = SignPolicySnapshot (se_digest env) (target\<lparr>snap_Version := sm_Version meta + 1, snap_Checksum := []\<rparr>)"
    and "storable (se_digest env) (se_clock env) s"
    and "m = snapshot_meta s (se_Marshal env s) (Some (sm_Version meta))"
    and "tx_owner tx \<noteq> []" and "tx_owner tx' = tx_owner tx" and "same_policy (tx_db tx) (tx_db tx')"
    and "policy_snapshots (tx_db tx') = policy_snapshots (tx_db tx) @
        [stored_row (se_Marshal env) (tx_owner tx) s (Some (sm_Version meta)) actor]"
proof -
  from assms obtain meta raw traw target s tx1 where l: "latestSnapshot env tx = Inr (Some (meta, raw))"
    and t: "snapshotRaw env tx v = Inr traw" "se_Unmarshal env traw = Some target"
    and s: "s = SignPolicySnapshot (se_digest env) (target\<lparr>snap_Version := sm_Version meta + 1, snap_Checksum := []\<rparr>)"
    and v: "snd (VerifyPolicySnapshot (se_digest env) (se_clock env) s (store_verify_options env)) = []"
    and i: "insert_snapshot env tx s (se_Marshal env s) (Some (sm_Version meta)) actor = Inr tx1"
    and a: "insertAudit env ctx tx1 actor ''rollback_snapshot'' ''policy_snapshot''
      (dec (unat (snap_Version s))) reason = Inr tx'"
    and m: "m = snapshot_meta s (se_Marshal env s) (Some (sm_Version meta))"
    by (auto simp: rollback_in_tx_def Let_def split: sum.splits if_splits option.splits)
  have "storable (se_digest env) (se_clock env) s"
    using v by (simp add: s storable_def Sign_idem store_verify_options_def)
  from that [OF l t s this m] show thesis
    using insert_snapshot_Inr [OF i] insertAudit_Inr [OF a] by (auto intro: same_policy_trans)
qed

subsection \<open>The invariant of the table\<close>

definition owner_rows :: "control_db \<Rightarrow> string \<Rightarrow> policy_snapshot_row list" where
  "owner_rows db owner = filter (\<lambda>r. psr_owner_user_id r = owner) (policy_snapshots db)"

lemma owned_snapshots_eq:
  "owned_snapshots tx = (if tx_owner tx = [] then [] else owner_rows (tx_db tx) (tx_owner tx))"
  by (auto simp: owned_snapshots_def owner_rows_def ownerSQL_true filter_empty_conv intro: filter_cong)

definition good_row :: "digest \<Rightarrow> (PolicySnapshot \<Rightarrow> string) \<Rightarrow> policy_snapshot_row \<Rightarrow> bool" where
  "good_row digest marshal row \<longleftrightarrow> psr_owner_user_id row \<noteq> [] \<and>
     (\<exists>s clock. storable digest clock s \<and> psr_version row = uint (snap_Version s) \<and>
        psr_checksum row = snap_Checksum s \<and> psr_object_checksum row = snap_ObjectChecksum s \<and>
        psr_snapshot row = marshal s)"

definition history_ok :: "digest \<Rightarrow> (PolicySnapshot \<Rightarrow> string) \<Rightarrow> control_db \<Rightarrow> bool" where
  "history_ok digest marshal db \<longleftrightarrow>
     (\<forall>owner. map psr_version (owner_rows db owner) = [1..int (length (owner_rows db owner))]) \<and>
     (\<forall>row\<in>set (policy_snapshots db). good_row digest marshal row)"

interpretation version_order: slice_order "\<lambda>a b. psr_version b < psr_version a"
  by unfold_locales auto

lemma newest_head:
  assumes "newest_first rows = row # rest"
  shows "row \<in> set rows" and "r \<in> set rows \<Longrightarrow> psr_version r \<le> psr_version row"
proof -
  have "set rows = set (row # rest)" using assms by (metis newest_first_def set_sort_slice)
  moreover have "version_order.in_order (row # rest)"
    using assms version_order.in_order_sort_slice [of rows] by (simp add: newest_first_def)
  ultimately show "row \<in> set rows" and "r \<in> set rows \<Longrightarrow> psr_version r \<le> psr_version row"
    by (auto simp: version_order.in_order_Cons)
qed

lemma newest_Nil [simp]: "newest_first rows = [] \<longleftrightarrow> rows = []"
  by (simp add: newest_first_def)

lemma latest_is_length:
  assumes "map psr_version rows = [1..int (length rows)]" and "newest_first rows = row # rest"
  shows "psr_version row = int (length rows)"
proof -
  have set_eq: "psr_version ` set rows = {1..int (length rows)}"
    using assms(1) by (metis set_map set_upto)
  have "rows \<noteq> []" using assms(2) newest_Nil [of rows] by auto
  then have "int (length rows) \<in> psr_version ` set rows" unfolding set_eq by (cases rows) auto
  then have "int (length rows) \<le> psr_version row" using newest_head(2) [OF assms(2)] by auto
  moreover have "psr_version row \<le> int (length rows)"
    using newest_head(1) [OF assms(2)] set_eq by (metis atLeastAtMost_iff imageI)
  ultimately show ?thesis by simp
qed

lemma latestSnapshot_Inr:
  assumes "latestSnapshot env tx = Inr (Some (meta, raw))"
  obtains row rest where "newest_first (owned_snapshots tx) = row # rest"
    and "uint (sm_Version meta) = psr_version row" and "raw = psr_snapshot row" and "sm_Snapshot meta = raw"
  using assms
  by (auto simp: latestSnapshot_def scanSnapshot_def dest: scan_u32_uint split: sum.splits list.splits)

lemma latestSnapshot_None:
  "latestSnapshot env tx = Inr None \<Longrightarrow> owned_snapshots tx = []"
  by (auto simp: latestSnapshot_def split: sum.splits list.splits)

lemma uint_succ:
  assumes "w + 1 \<noteq> 0"
  shows "uint (w + 1) = uint (w :: 'a :: len word) + 1"
proof -
  have "unat (1 + w) = Suc (unat w)" using assms by (metis add.commute unatSuc)
  then show ?thesis unfolding uint_nat by (simp only: add.commute of_nat_Suc)
qed

text \<open>The next version is the number of rows plus one, unless it wraps to 0.\<close>

lemma next_version:
  assumes "history_ok digest marshal (tx_db tx)" and "tx_owner tx \<noteq> []"
    and "latestSnapshot env tx = Inr latest"
    and "v = (case latest of None \<Rightarrow> 1 | Some (meta, _) \<Rightarrow> sm_Version meta + 1)" and "v \<noteq> 0"
  shows "uint v = int (length (owner_rows (tx_db tx) (tx_owner tx))) + 1"
proof (cases latest)
  case None
  then show ?thesis
    using assms latestSnapshot_None [of env tx] by (simp add: owned_snapshots_eq)
next
  case (Some mr)
  then obtain meta raw where mr: "latest = Some (meta, raw)" by (cases mr) auto
  obtain row rest where row: "newest_first (owned_snapshots tx) = row # rest"
    "uint (sm_Version meta) = psr_version row"
    using assms(3) mr latestSnapshot_Inr by metis
  have "uint (sm_Version meta) = int (length (owner_rows (tx_db tx) (tx_owner tx)))"
    using latest_is_length [of "owner_rows (tx_db tx) (tx_owner tx)" row rest] row assms(1,2)
    by (simp add: history_ok_def owned_snapshots_eq)
  moreover have "uint (sm_Version meta + 1) = uint (sm_Version meta) + 1"
    using assms(4,5) uint_succ [of "sm_Version meta"] by (simp add: mr)
  ultimately show ?thesis using assms(4) by (simp add: mr)
qed

lemma history_append:
  assumes "history_ok digest marshal db" and "policy_snapshots db' = policy_snapshots db @ [row]"
    and "good_row digest marshal row"
    and "psr_version row = int (length (owner_rows db (psr_owner_user_id row))) + 1"
  shows "history_ok digest marshal db'"
proof -
  have rows: "owner_rows db' owner =
      owner_rows db owner @ (if psr_owner_user_id row = owner then [row] else [])" for owner
    using assms(2) by (simp add: owner_rows_def)
  have "map psr_version (owner_rows db' owner) = [1..int (length (owner_rows db' owner))]" for owner
    using assms(1,4) by (auto simp: rows history_ok_def upto_rec2 add.commute)
  then show ?thesis using assms(1-3) by (auto simp: history_ok_def)
qed

lemma history_cong: "policy_snapshots db' = policy_snapshots db \<Longrightarrow> history_ok digest marshal db' = history_ok digest marshal db"
  by (simp add: history_ok_def owner_rows_def)

lemma history_stored:
  assumes "history_ok (se_digest env) (se_Marshal env) (tx_db tx)" and "tx_owner tx \<noteq> []"
    and "latestSnapshot env tx = Inr latest"
    and "snap_Version s = (case latest of None \<Rightarrow> 1 | Some (meta, _) \<Rightarrow> sm_Version meta + 1)"
    and "storable (se_digest env) clock s"
    and "policy_snapshots db' = policy_snapshots (tx_db tx) @ [stored_row (se_Marshal env) (tx_owner tx) s rb actor]"
  shows "history_ok (se_digest env) (se_Marshal env) db'"
proof (rule history_append [OF assms(1,6)])
  show "good_row (se_digest env) (se_Marshal env) (stored_row (se_Marshal env) (tx_owner tx) s rb actor)"
    using assms(2,5) by (auto simp: good_row_def stored_row_def)
  show "psr_version (stored_row (se_Marshal env) (tx_owner tx) s rb actor) =
      int (length (owner_rows (tx_db tx) (psr_owner_user_id (stored_row (se_Marshal env) (tx_owner tx) s rb actor)))) + 1"
    using next_version [OF assms(1-4) storable_version [OF assms(5)]] by (simp add: stored_row_def)
qed

subsection \<open>Steps of the store\<close>

lemma begin_owner_tx:
  "beginOwnerTx env db owner = Inr tx \<Longrightarrow> tx_db tx = db \<and> tx_owner tx = TrimSpace owner \<and> tx_owner tx \<noteq> []"
  by (auto simp: beginOwnerTx_def begin_with_setting_def Let_def split: if_splits sum.splits)

lemma begin_actor_tx:
  "beginActorOwnerTx env db actor = (a, Inr tx) \<Longrightarrow> tx_db tx = db \<and> tx_owner tx \<noteq> []"
  by (auto simp: beginActorOwnerTx_def Let_def dest: begin_owner_tx split: option.splits)

lemma commit_or_drop_cases:
  assumes "commit_or_drop env db r = (db', out)"
  obtains (dropped) "db' = db" and "\<not> is_ok out"
  | (committed) tx a where "r = Inr (tx, a)" and "db' = tx_db tx" and "out = Inr a"
  using assms by (auto simp: commit_or_drop_def tx_Commit_def split: sum.splits prod.splits if_splits)

abbreviation store_history :: "store_env \<Rightarrow> control_db \<Rightarrow> bool" where
  "store_history env \<equiv> history_ok (se_digest env) (se_Marshal env)"

text \<open>What one rebuild or roll back does to the table: the invariant is kept and rows are only added.\<close>

definition keeps_history :: "store_env \<Rightarrow> control_db \<Rightarrow> control_db \<Rightarrow> bool" where
  "keeps_history env db db' \<longleftrightarrow> store_history env db' \<and> prefix (policy_snapshots db) (policy_snapshots db')"

lemma rebuild_history:
  assumes "store_history env (tx_db tx)" and "rebuildSnapshotInTx env ctx tx actor None reason = Inr (tx', m)"
  shows "keeps_history env (tx_db tx) (tx_db tx')"
  using assms(2)
proof (cases rule: rebuild_cases)
  case unchanged
  then show ?thesis using assms(1) by (simp add: keeps_history_def)
next
  case (stored latest built)
  have "snap_Version (SignPolicySnapshot (se_digest env) built) =
      (case latest of None \<Rightarrow> 1 | Some (meta, _) \<Rightarrow> sm_Version meta + 1)"
    using build_parts(6) [OF stored(2)] by simp
  from history_stored [OF assms(1) stored(5,1) this stored(3,8)] stored(8) show ?thesis
    by (simp add: keeps_history_def)
qed

lemma rollback_history:
  assumes "store_history env (tx_db tx)" and "rollback_in_tx env ctx tx actor v reason = Inr (tx', m)"
  shows "keeps_history env (tx_db tx) (tx_db tx')"
  using assms(2)
proof (cases rule: rollback_cases)
  case (1 meta raw traw target s)
  have "snap_Version s = (case Some (meta, raw) of None \<Rightarrow> 1 | Some (meta, _) \<Rightarrow> sm_Version meta + 1)"
    by (simp add: 1(4))
  from history_stored [OF assms(1) 1(7,1) this 1(5,10)] 1(10) show ?thesis
    by (simp add: keeps_history_def)
qed

lemma keeps_refl: "store_history env db \<Longrightarrow> keeps_history env db db"
  by (simp add: keeps_history_def)

lemma keeps_trans: "keeps_history env a b \<Longrightarrow> keeps_history env b c \<Longrightarrow> keeps_history env a c"
  by (auto simp: keeps_history_def)

lemma RebuildSnapshot_keeps:
  assumes "store_history env db"
  shows "keeps_history env db (fst (RebuildSnapshot env db ctx actor reason))"
proof (cases "RebuildSnapshot env db ctx actor reason")
  case (Pair db' out)
  show ?thesis
  proof (cases "db' = db")
    case True
    then show ?thesis using Pair keeps_refl [OF assms] by simp
  next
    case False
    obtain a began where b: "beginActorOwnerTx env db actor = (a, began)" by fastforce
    with Pair False have run: "commit_or_drop env db
        (bind_ok began (\<lambda>tx. rebuildSnapshotInTx env ctx tx a None reason)) = (db', out)"
      by (auto simp: RebuildSnapshot_def split: option.splits if_splits)
    then show ?thesis
    proof (cases rule: commit_or_drop_cases)
      case (committed tx' m)
      then obtain tx where "began = Inr tx" and r: "rebuildSnapshotInTx env ctx tx a None reason = Inr (tx', m)"
        by (auto split: sum.splits)
      then have "tx_db tx = db" using begin_actor_tx b by blast
      then show ?thesis using rebuild_history [OF _ r] assms committed(2) Pair by simp
    qed (use False in simp)
  qed
qed

lemma RollbackSnapshot_keeps:
  assumes "store_history env db"
  shows "keeps_history env db (fst (RollbackSnapshot env db ctx actor v reason))"
proof (cases "RollbackSnapshot env db ctx actor v reason")
  case (Pair db' out)
  show ?thesis
  proof (cases "db' = db")
    case True
    then show ?thesis using Pair keeps_refl [OF assms] by simp
  next
    case False
    obtain a began where b: "beginActorOwnerTx env db actor = (a, began)" by fastforce
    with Pair False have run: "commit_or_drop env db
        (bind_ok began (\<lambda>tx. rollback_in_tx env ctx tx a v reason)) = (db', out)"
      by (auto simp: RollbackSnapshot_def split: option.splits if_splits)
    then show ?thesis
    proof (cases rule: commit_or_drop_cases)
      case (committed tx' m)
      then obtain tx where "began = Inr tx" and r: "rollback_in_tx env ctx tx a v reason = Inr (tx', m)"
        by (auto split: sum.splits)
      then have "tx_db tx = db" using begin_actor_tx b by blast
      then show ?thesis using rollback_history [OF _ r] assms committed(2) Pair by simp
    qed (use False in simp)
  qed
qed

lemma rebuild_owners_keeps:
  assumes "store_history env db"
  shows "keeps_history env db (fst (rebuild_owners env ctx actor reason owners db mv))"
  using assms
proof (induction owners arbitrary: db mv)
  case Nil
  then show ?case by (simp add: keeps_refl)
next
  case (Cons o1 owners)
  let ?r = "bind_ok (beginOwnerTx env db o1)
      (\<lambda>tx. rebuildSnapshotInTx env (contextWithOwner ctx o1) tx actor None reason)"
  obtain db' out where run: "commit_or_drop env db ?r = (db', out)" by fastforce
  have keeps: "keeps_history env db db'"
    using run
  proof (cases rule: commit_or_drop_cases)
    case (committed tx' m)
    then obtain tx where t: "beginOwnerTx env db o1 = Inr tx"
      and r: "rebuildSnapshotInTx env (contextWithOwner ctx o1) tx actor None reason = Inr (tx', m)"
      by (auto split: sum.splits)
    show ?thesis using rebuild_history [OF _ r] begin_owner_tx [OF t] Cons.prems committed(2) by simp
  qed (use Cons.prems keeps_refl in simp)
  then have "keeps_history env db' (fst (rebuild_owners env ctx actor reason owners db' mv'))" for mv'
    using Cons.IH by (simp add: keeps_history_def)
  with keeps keeps_trans show ?case by (cases out) (auto simp: Let_def run)
qed

lemma rebuildAll_keeps:
  assumes "store_history env db"
  shows "keeps_history env db (fst (rebuildAllActiveUserSnapshots env db ctx actor reason))"
  using rebuild_owners_keeps [OF assms] keeps_refl [OF assms]
  by (simp add: rebuildAllActiveUserSnapshots_def split: sum.split)

text \<open>
  The steps of the store under one codec and one digest; the environment of each step (time,
  failures of the database, the XDP object) is free. \<open>edit\<close> stands for any change of the other
  tables.
\<close>

inductive store_step :: "digest \<Rightarrow> (PolicySnapshot \<Rightarrow> string) \<Rightarrow> control_db \<Rightarrow> control_db \<Rightarrow> bool"
  for digest :: digest and marshal :: "PolicySnapshot \<Rightarrow> string" where
  rebuild: "se_digest env = digest \<Longrightarrow> se_Marshal env = marshal \<Longrightarrow>
     store_step digest marshal db (fst (RebuildSnapshot env db ctx actor reason))"
| rollback: "se_digest env = digest \<Longrightarrow> se_Marshal env = marshal \<Longrightarrow>
     store_step digest marshal db (fst (RollbackSnapshot env db ctx actor v reason))"
| rebuild_all: "se_digest env = digest \<Longrightarrow> se_Marshal env = marshal \<Longrightarrow>
     store_step digest marshal db (fst (rebuildAllActiveUserSnapshots env db ctx actor reason))"
| edit: "policy_snapshots db' = policy_snapshots db \<Longrightarrow> store_step digest marshal db db'"

inductive store_run :: "digest \<Rightarrow> (PolicySnapshot \<Rightarrow> string) \<Rightarrow> control_db \<Rightarrow> control_db \<Rightarrow> bool"
  for digest :: digest and marshal :: "PolicySnapshot \<Rightarrow> string" where
  start: "store_run digest marshal db db"
| step: "store_run digest marshal db db' \<Longrightarrow> store_step digest marshal db' db'' \<Longrightarrow>
     store_run digest marshal db db''"

lemma store_step_keeps:
  assumes "store_step digest marshal db db'" and "history_ok digest marshal db"
  shows "history_ok digest marshal db' \<and> prefix (policy_snapshots db) (policy_snapshots db')"
  using assms
proof (cases rule: store_step.cases)
  case (rebuild env ctx actor reason)
  then show ?thesis using RebuildSnapshot_keeps assms(2) by (auto simp: keeps_history_def)
next
  case (rollback env ctx actor v reason)
  then show ?thesis using RollbackSnapshot_keeps assms(2) by (auto simp: keeps_history_def)
next
  case (rebuild_all env ctx actor reason)
  then show ?thesis using rebuildAll_keeps assms(2) by (auto simp: keeps_history_def)
next
  case edit
  then show ?thesis using history_cong [of db' db] assms(2) by simp
qed

text \<open>
  C13. The history of snapshots. Along every run of rebuilds, roll backs, rebuilds for all users
  and edits of the policy tables that starts with a well-formed table, the versions of each owner
  are \<open>1, 2, \<dots>, n\<close> in the order of insertion (the 32-bit version never wraps around), every
  stored snapshot carries its own checksum and passed the agent's verification, and no stored row
  is ever changed or removed.
\<close>

theorem snapshot_history:
  assumes "store_run digest marshal db db'" and "history_ok digest marshal db"
  shows "history_ok digest marshal db' \<and> prefix (policy_snapshots db) (policy_snapshots db')"
  using assms
proof (induction rule: store_run.induct)
  case (step db db' db'')
  then show ?case using store_step_keeps [OF step.hyps(2)] by (auto intro: prefix_order.trans)
qed simp

end
