(* ===== verification/ControlSql.thy ===== *)
theory ControlSql
  imports SnapshotHistory
begin

section \<open>Statements on one table\<close>

text \<open>
  The shapes of SQL statement that the stores of the control plane use, on one table of
  \<open>control_db\<close>. A table is given by its selector and its update function. \<open>locale table\<close>
  is what the statements rely on: an update changes the selected list by the given function. The
  lemmas say what a statement leaves in the table; every table of the database is an instance.
\<close>

subsection \<open>Checks\<close>

definition fail_if :: "bool \<Rightarrow> string \<Rightarrow> control_error + unit" where
  "fail_if b message = (if b then Inl (ErrorText message) else Inr ())"

lemma fail_if_Inr [simp]: "fail_if b m = Inr u \<longleftrightarrow> \<not> b"
  by (simp add: fail_if_def)

abbreviation require_ok :: "control_error option \<Rightarrow> control_error + unit" where
  "require_ok r \<equiv> (case r of Some e \<Rightarrow> Inl e | None \<Rightarrow> Inr ())"

definition require_reason :: "string \<Rightarrow> control_error + unit" where
  "require_reason reason = (if reason = [] then Inl ReasonRequired else Inr ())"

lemma require_reason_Inr [simp]: "require_reason r = Inr u \<longleftrightarrow> r \<noteq> []"
  by (simp add: require_reason_def)

definition valid_input :: "input_error list \<Rightarrow> control_error + unit" where
  "valid_input errors = (if errors = [] then Inr () else Inl (InputInvalid errors))"

lemma valid_input_Inr [simp]: "valid_input es = Inr u \<longleftrightarrow> es = []"
  by (simp add: valid_input_def)

text \<open>Text for an \<^verbatim>\<open>inet\<close> column, as the database gives it back.\<close>

definition to_inet :: "store_env \<Rightarrow> string \<Rightarrow> control_error + string" where
  "to_inet env t = (case se_inet env t of None \<Rightarrow> Inl (NotInet t) | Some s \<Rightarrow> Inr s)"

text \<open>\<^verbatim>\<open>REFERENCES app_users(id)\<close>\<close>

definition references_user :: "transaction \<Rightarrow> string \<Rightarrow> control_error + unit" where
  "references_user tx uid =
     (if list_ex (\<lambda>u. usr_id u = uid) (app_users (tx_db tx)) then Inr () else Inl ForeignKeyViolation)"

lemma references_user_Inr: "references_user tx uid = Inr u \<longleftrightarrow> uid \<in> usr_id ` set (app_users (tx_db tx))"
  by (auto simp: references_user_def list_ex_iff)

subsection \<open>Statements\<close>

text \<open>\<^verbatim>\<open>SELECT \<dots> WHERE P\<close> for one row.\<close>

definition sql_get ::
    "store_env \<Rightarrow> string \<Rightarrow> (control_db \<Rightarrow> 'r list) \<Rightarrow> ('r \<Rightarrow> bool) \<Rightarrow> transaction \<Rightarrow> control_error + 'r" where
  "sql_get env name sel P tx =
     bind_ok (db_guard env (ReadTable name) (tx_owner tx)) (\<lambda>_. first_row P (sel (tx_db tx)))"

text \<open>\<^verbatim>\<open>SELECT \<dots> WHERE P\<close> for all rows, in table order.\<close>

definition sql_select ::
    "store_env \<Rightarrow> string \<Rightarrow> (control_db \<Rightarrow> 'r list) \<Rightarrow> ('r \<Rightarrow> bool) \<Rightarrow> transaction \<Rightarrow> control_error + 'r list" where
  "sql_select env name sel P tx =
     bind_ok (db_guard env (ReadTable name) (tx_owner tx)) (\<lambda>_. Inr (filter P (sel (tx_db tx))))"

text \<open>\<^verbatim>\<open>INSERT\<close> of a row; \<open>clash\<close> is the union of the primary key and the unique indexes.\<close>

definition sql_insert ::
    "store_env \<Rightarrow> string \<Rightarrow> (control_db \<Rightarrow> 'r list) \<Rightarrow> (('r list \<Rightarrow> 'r list) \<Rightarrow> control_db \<Rightarrow> control_db) \<Rightarrow>
     ('r \<Rightarrow> 'r \<Rightarrow> bool) \<Rightarrow> 'r \<Rightarrow> transaction \<Rightarrow> control_error + transaction" where
  "sql_insert env name sel put clash row tx =
     bind_ok (db_guard env (WriteTable name) (tx_owner tx)) (\<lambda>_.
     if list_ex (\<lambda>r. clash r row) (sel (tx_db tx)) then Inl UniqueViolation
     else Inr (tx\<lparr>tx_db := put (\<lambda>rows. rows @ [row]) (tx_db tx)\<rparr>))"

text \<open>\<^verbatim>\<open>UPDATE \<dots> WHERE P\<close>.\<close>

definition sql_exec ::
    "store_env \<Rightarrow> string \<Rightarrow> (('r list \<Rightarrow> 'r list) \<Rightarrow> control_db \<Rightarrow> control_db) \<Rightarrow> ('r \<Rightarrow> bool) \<Rightarrow> ('r \<Rightarrow> 'r) \<Rightarrow>
     transaction \<Rightarrow> control_error + transaction" where
  "sql_exec env name put P f tx =
     bind_ok (db_guard env (WriteTable name) (tx_owner tx)) (\<lambda>_.
     Inr (tx\<lparr>tx_db := put (map (\<lambda>r. if P r then f r else r)) (tx_db tx)\<rparr>))"

text \<open>
  \<^verbatim>\<open>UPDATE \<dots> WHERE P RETURNING\<close> for one row: without a row the scan of the result fails. \<open>clash\<close>
  is the union of the unique indexes, checked against the other rows.
\<close>

definition sql_update ::
    "store_env \<Rightarrow> string \<Rightarrow> (control_db \<Rightarrow> 'r list) \<Rightarrow> (('r list \<Rightarrow> 'r list) \<Rightarrow> control_db \<Rightarrow> control_db) \<Rightarrow>
     ('r \<Rightarrow> 'r \<Rightarrow> bool) \<Rightarrow> ('r \<Rightarrow> bool) \<Rightarrow> ('r \<Rightarrow> 'r) \<Rightarrow> transaction \<Rightarrow> control_error + (transaction \<times> 'r)" where
  "sql_update env name sel put clash P f tx =
     bind_ok (db_guard env (WriteTable name) (tx_owner tx)) (\<lambda>_.
     (case find P (sel (tx_db tx)) of
        None \<Rightarrow> Inl NoRows
      | Some r \<Rightarrow>
          if list_ex (\<lambda>q. \<not> P q \<and> clash q (f r)) (sel (tx_db tx)) then Inl UniqueViolation
          else Inr (tx\<lparr>tx_db := put (map (\<lambda>r. if P r then f r else r)) (tx_db tx)\<rparr>, f r)))"

text \<open>
  \<^verbatim>\<open>INSERT \<dots> ON CONFLICT (key) DO UPDATE\<close>: \<open>same\<close> compares the columns of the conflict, \<open>f\<close> is the
  update of the row that is there, \<open>clash\<close> the union of the other unique indexes.
\<close>

definition sql_upsert ::
    "store_env \<Rightarrow> string \<Rightarrow> (control_db \<Rightarrow> 'r list) \<Rightarrow> (('r list \<Rightarrow> 'r list) \<Rightarrow> control_db \<Rightarrow> control_db) \<Rightarrow>
     ('r \<Rightarrow> 'r \<Rightarrow> bool) \<Rightarrow> ('r \<Rightarrow> 'r \<Rightarrow> bool) \<Rightarrow> ('r \<Rightarrow> 'r) \<Rightarrow> 'r \<Rightarrow> transaction \<Rightarrow> control_error + (transaction \<times> 'r)" where
  "sql_upsert env name sel put same clash f row tx =
     bind_ok (db_guard env (WriteTable name) (tx_owner tx)) (\<lambda>_.
     (case find (\<lambda>r. same r row) (sel (tx_db tx)) of
        Some r \<Rightarrow> Inr (tx\<lparr>tx_db := put (map (\<lambda>r. if same r row then f r else r)) (tx_db tx)\<rparr>, f r)
      | None \<Rightarrow>
          if list_ex (\<lambda>r. clash r row) (sel (tx_db tx)) then Inl UniqueViolation
          else Inr (tx\<lparr>tx_db := put (\<lambda>rows. rows @ [row]) (tx_db tx)\<rparr>, row)))"

text \<open>\<^verbatim>\<open>DELETE \<dots> WHERE P\<close>.\<close>

definition sql_delete ::
    "store_env \<Rightarrow> string \<Rightarrow> (('r list \<Rightarrow> 'r list) \<Rightarrow> control_db \<Rightarrow> control_db) \<Rightarrow> ('r \<Rightarrow> bool) \<Rightarrow>
     transaction \<Rightarrow> control_error + transaction" where
  "sql_delete env name put P tx =
     bind_ok (db_guard env (WriteTable name) (tx_owner tx)) (\<lambda>_.
     Inr (tx\<lparr>tx_db := put (filter (\<lambda>r. \<not> P r)) (tx_db tx)\<rparr>))"

subsection \<open>What a statement leaves\<close>

lemma find_mem: "find P xs = Some x \<Longrightarrow> x \<in> set xs \<and> P x"
  by (metis find_Some_iff nth_mem)

lemma first_row_mem: "first_row P rows = Inr r \<Longrightarrow> r \<in> set rows \<and> P r"
  by (auto simp: first_row_def dest: find_mem split: option.splits)

lemma sql_get_Inr: "sql_get env name sel P tx = Inr r \<Longrightarrow> r \<in> set (sel (tx_db tx)) \<and> P r"
  by (auto simp: sql_get_def dest: first_row_mem split: sum.splits)

lemma sql_select_Inr: "sql_select env name sel P tx = Inr rs \<Longrightarrow> rs = filter P (sel (tx_db tx))"
  by (auto simp: sql_select_def split: sum.splits)

lemma sql_owner [simp]:
  "sql_insert env name sel put clash row tx = Inr tx' \<Longrightarrow> tx_owner tx' = tx_owner tx"
  "sql_exec env name put P f tx = Inr tx' \<Longrightarrow> tx_owner tx' = tx_owner tx"
  "sql_update env name sel put clash P f tx = Inr (tx', r) \<Longrightarrow> tx_owner tx' = tx_owner tx"
  by (auto simp: sql_insert_def sql_exec_def sql_update_def split: sum.splits if_splits option.splits)

text \<open>Which update function was applied, for the facts about the other tables.\<close>

lemma sql_insert_db:
  "sql_insert env name sel put clash row tx = Inr tx' \<Longrightarrow>
     tx_db tx' = put (\<lambda>rows. rows @ [row]) (tx_db tx) \<and> (\<forall>r\<in>set (sel (tx_db tx)). \<not> clash r row)"
  unfolding sql_insert_def
  by (cases "db_guard env (WriteTable name) (tx_owner tx)") (clarsimp simp: list_ex_iff split: if_splits)+

lemma sql_exec_db:
  "sql_exec env name put P f tx = Inr tx' \<Longrightarrow>
     tx_db tx' = put (map (\<lambda>r. if P r then f r else r)) (tx_db tx)"
  unfolding sql_exec_def by (cases "db_guard env (WriteTable name) (tx_owner tx)") clarsimp+

lemma sql_update_db:
  assumes "sql_update env name sel put clash P f tx = Inr (tx', r)"
  shows "\<exists>q\<in>set (sel (tx_db tx)). P q \<and> r = f q"
    and "tx_db tx' = put (map (\<lambda>r. if P r then f r else r)) (tx_db tx)"
    and "\<forall>q\<in>set (sel (tx_db tx)). \<not> P q \<longrightarrow> \<not> clash q r"
proof -
  let ?find = "find P (sel (tx_db tx))"
  have some: "?find \<noteq> None" and q: "r = f (the ?find)"
    and tx: "tx' = tx\<lparr>tx_db := put (map (\<lambda>r. if P r then f r else r)) (tx_db tx)\<rparr>"
    and clash: "\<not> list_ex (\<lambda>q. \<not> P q \<and> clash q (f (the ?find))) (sel (tx_db tx))"
    using assms unfolding sql_update_def
    by (cases "db_guard env (WriteTable name) (tx_owner tx)"; cases ?find; simp split: if_splits)+
  have "the ?find \<in> set (sel (tx_db tx)) \<and> P (the ?find)"
    using some find_mem [of P "sel (tx_db tx)"] by auto
  then show "\<exists>q\<in>set (sel (tx_db tx)). P q \<and> r = f q" using q by blast
  show "tx_db tx' = put (map (\<lambda>r. if P r then f r else r)) (tx_db tx)" by (simp add: tx)
  show "\<forall>q\<in>set (sel (tx_db tx)). \<not> P q \<longrightarrow> \<not> clash q r" using clash by (auto simp: list_ex_iff q)
qed

lemma sql_upsert_db:
  assumes "sql_upsert env name sel put same clash f row tx = Inr (tx', r)"
  shows "tx_owner tx' = tx_owner tx"
    and "(tx_db tx' = put (map (\<lambda>r. if same r row then f r else r)) (tx_db tx) \<and>
        (\<exists>q\<in>set (sel (tx_db tx)). same q row \<and> r = f q)) \<or>
      (tx_db tx' = put (\<lambda>rows. rows @ [row]) (tx_db tx) \<and> r = row \<and>
        (\<forall>q\<in>set (sel (tx_db tx)). \<not> same q row \<and> \<not> clash q row))"
  using assms unfolding sql_upsert_def
  by (cases "db_guard env (WriteTable name) (tx_owner tx)"; cases "find (\<lambda>r. same r row) (sel (tx_db tx))";
      auto simp: find_None_iff list_ex_iff dest!: find_mem split: if_splits)+

lemma sql_delete_db:
  "sql_delete env name put P tx = Inr tx' \<Longrightarrow>
     tx_db tx' = put (filter (\<lambda>r. \<not> P r)) (tx_db tx) \<and> tx_owner tx' = tx_owner tx"
  unfolding sql_delete_def by (cases "db_guard env (WriteTable name) (tx_owner tx)") clarsimp+

locale table =
  fixes sel :: "control_db \<Rightarrow> 'r list"
    and put :: "('r list \<Rightarrow> 'r list) \<Rightarrow> control_db \<Rightarrow> control_db"
  assumes sel_put: "sel (put f db) = f (sel db)"
begin

lemma insert_rows:
  "sql_insert env name sel put clash row tx = Inr tx' \<Longrightarrow> sel (tx_db tx') = sel (tx_db tx) @ [row]"
  by (simp add: sql_insert_db sel_put)

lemma exec_rows:
  "sql_exec env name put P f tx = Inr tx' \<Longrightarrow>
     sel (tx_db tx') = map (\<lambda>r. if P r then f r else r) (sel (tx_db tx))"
  by (simp add: sql_exec_db sel_put)

lemma update_rows:
  "sql_update env name sel put clash P f tx = Inr (tx', r) \<Longrightarrow>
     sel (tx_db tx') = map (\<lambda>r. if P r then f r else r) (sel (tx_db tx))"
  by (simp add: sql_update_db sel_put)

text \<open>A key column that no update changes stays distinct.\<close>

lemma insert_distinct:
  assumes "sql_insert env name sel put clash row tx = Inr tx'" and "distinct (map key (sel (tx_db tx)))"
    and "\<And>r. key r = key row \<Longrightarrow> clash r row"
  shows "distinct (map key (sel (tx_db tx')))"
proof -
  have "key row \<notin> key ` set (sel (tx_db tx))"
    using assms(3) sql_insert_db [OF assms(1)] by fastforce
  then show ?thesis using assms(2) by (simp add: insert_rows [OF assms(1)])
qed

lemma keep_key:
  assumes "\<And>r. key (f r) = key r"
  shows "map key (map (\<lambda>r. if P r then f r else r) rows) = map key rows"
  using assms by simp

end

interpretation users: table app_users app_users_update
  by unfold_locales simp

interpretation sessions: table user_sessions user_sessions_update
  by unfold_locales simp

interpretation services: table backend_services backend_services_update
  by unfold_locales simp

interpretation forwardings: table forwarding_policies forwarding_policies_update
  by unfold_locales simp

interpretation whitelists: table whitelist_entries whitelist_entries_update
  by unfold_locales simp

interpretation blacklists: table manual_blacklist_entries manual_blacklist_entries_update
  by unfold_locales simp

interpretation udp_blocks: table udp_source_port_blocks udp_source_port_blocks_update
  by unfold_locales simp

interpretation rule_rows: table rules rules_update
  by unfold_locales simp

interpretation feeds: table feed_sources feed_sources_update
  by unfold_locales simp

interpretation reputations: table reputation_entries reputation_entries_update
  by unfold_locales simp

interpretation runs: table feed_runs feed_runs_update
  by unfold_locales simp

interpretation conflicts: table feed_conflicts feed_conflicts_update
  by unfold_locales simp

interpretation agent_rows: table agents agents_update
  by unfold_locales simp

interpretation interface_rows: table agent_interfaces agent_interfaces_update
  by unfold_locales simp

interpretation apply_rows: table policy_apply_status policy_apply_status_update
  by unfold_locales simp

interpretation telegram_rows: table telegram_configs telegram_configs_update
  by unfold_locales simp

interpretation alert_rows: table alerts alerts_update
  by unfold_locales simp

interpretation delivery_rows: table alert_deliveries alert_deliveries_update
  by unfold_locales simp

interpretation event_rows: table security_events security_events_update
  by unfold_locales simp

subsection \<open>Results of a statement sequence\<close>

text \<open>Elimination of a successful sequence, one statement at a time.\<close>

lemma bind_okE:
  assumes "bind_ok m f = Inr b"
  obtains a where "m = Inr a" and "f a = Inr b"
  using assms by (cases m) auto

lemma db_guard_Inr [simp]: "db_guard env call owner = Inr u \<longleftrightarrow> \<not> se_fails env call owner"
  by (simp add: db_guard_def)

lemma begin_unscoped:
  "beginUnscopedTx env db = Inr tx \<Longrightarrow> tx_db tx = db \<and> tx_owner tx = []"
  by (auto simp: beginUnscopedTx_def begin_with_setting_def split: sum.splits)

lemma insertAudit_db:
  assumes "insertAudit env ctx tx actor a t i r = Inr tx'"
  shows "\<exists>row. tx_db tx' = (tx_db tx)\<lparr>audit_events := audit_events (tx_db tx) @ [row]\<rparr> \<and>
      au_action row = a \<and> au_entity_type row = t \<and> au_entity_id row = i \<and>
      au_actor_id row = map_option user_ID actor \<and> au_reason row = nullif_empty (TrimSpace r)"
    and "tx_owner tx' = tx_owner tx"
  using assms by (force simp: insertAudit_def Let_def split: sum.splits)+

lemma commit_invariant:
  "I db \<Longrightarrow> (\<And>tx a. r = Inr (tx, a) \<Longrightarrow> I (tx_db tx)) \<Longrightarrow> I (fst (commit_or_drop env db r))"
  by (auto simp: commit_or_drop_def tx_Commit_def split: sum.splits if_splits)

lemma commit_result:
  "commit_or_drop env db r = (db', Inr a) \<Longrightarrow> (\<And>tx. r = Inr (tx, a) \<Longrightarrow> Q (tx_db tx)) \<Longrightarrow> Q db'"
  by (auto simp: commit_or_drop_def tx_Commit_def split: sum.splits if_splits)

end
