(* ===== verification/PolicyStore.thy ===== *)
theory PolicyStore
  imports ControlSql
begin

section \<open>Policy objects\<close>

text \<open>
  \<^verbatim>\<open>internal/control/policy_store.go\<close> and the policy part of \<^verbatim>\<open>admin_console.go\<close>: services, forwarding
  policies, white list, rules, black list and UDP source port blocks. An operation checks the
  actor and the input, opens a transaction of the owner, reads what it refers to, writes one row,
  adds an audit row and rebuilds the owner's snapshot before it commits. A change of an
  \<^verbatim>\<open>admin_global\<close> object is committed first and then all active users' snapshots are rebuilt.

  Integers are encoded for their column (\<open>int4\<close> fails above the signed 32-bit range), addresses
  pass through the database's \<^verbatim>\<open>inet\<close> type, and the columns of a returned row are scanned into the
  Go type, which fails outside its range. Identifiers in requests are taken in canonical form.
  The confidence of a rule, a float that is stored and never read, is left out.
\<close>

subsection \<open>Types and scans\<close>

record Service =
  svc_ID :: string
  svc_EBPFID :: u32
  svc_Name :: string
  svc_Description :: string
  svc_BackendCIDR :: string
  svc_Protocol :: string
  svc_AllowedPorts :: "u16 list"
  svc_OutputInterface :: string
  svc_Owner :: string
  svc_Criticality :: string
  svc_ProtectionMode :: string
  svc_Enabled :: bool
  svc_Priority :: u32
  svc_Tags :: "string list"
  svc_SyncStatus :: string
  svc_ResolvedIfindex :: u32
  svc_ResolvedNextHopMAC :: string
  svc_ResolvedSourceMAC :: string
  svc_NeighborResolutionStatus :: string
  svc_CreatedAt :: int
  svc_UpdatedAt :: int

record ForwardingPolicy =
  fpo_ID :: string
  fpo_EBPFID :: u32
  fpo_ServiceID :: string
  fpo_MatchProtocol :: string
  fpo_MatchDstPort :: u16
  fpo_BackendTarget :: string
  fpo_OutputInterface :: string
  fpo_ResolvedIfindex :: u32
  fpo_ResolvedDstMAC :: string
  fpo_ResolvedSrcMAC :: string
  fpo_DevmapKey :: u32
  fpo_Action :: string
  fpo_Priority :: u32
  fpo_Enabled :: bool
  fpo_Owner :: string
  fpo_CreatedAt :: int
  fpo_UpdatedAt :: int

record WhitelistEntry =
  we_ID :: string
  we_EBPFID :: u32
  we_CIDR :: string
  we_Scope :: string
  we_ScopeType :: string
  we_ServiceID :: string
  we_Label :: string
  we_Reason :: string
  we_Owner :: string
  we_Priority :: u32
  we_ExpiresAt :: "int option"
  we_Enabled :: bool
  we_Editable :: bool
  we_CreatedAt :: int
  we_UpdatedAt :: int

record Rule =
  ru_ID :: string
  ru_EBPFID :: u32
  ru_ServiceID :: string
  ru_ScopeType :: string
  ru_Name :: string
  ru_Priority :: u32
  ru_MatchExpr :: string
  ru_Action :: string
  ru_Mode :: string
  ru_ThresholdPPS :: u32
  ru_ThresholdBPS :: u32
  ru_ThresholdCPS :: u32
  ru_Dimension :: string
  ru_BurstPackets :: u32
  ru_BurstBytes :: u32
  ru_SampleDenom :: u32
  ru_TTLSeconds :: u32
  ru_ExpiresAt :: "int option"
  ru_Evidence :: string
  ru_Enabled :: bool
  ru_Owner :: string
  ru_Editable :: bool
  ru_CreatedAt :: int
  ru_UpdatedAt :: int

record BlacklistEntry =
  be_ID :: string
  be_EBPFID :: u32
  be_CIDR :: string
  be_ScopeType :: string
  be_ServiceID :: string
  be_Score :: u32
  be_Action :: string
  be_Source :: string
  be_RuleID :: string
  be_Reason :: string
  be_Owner :: string
  be_ExpiresAt :: "int option"
  be_Enabled :: bool
  be_Editable :: bool
  be_CreatedAt :: int
  be_UpdatedAt :: int

record UDPSourcePortBlock =
  ub_ID :: string
  ub_EBPFID :: u32
  ub_Port :: u16
  ub_ScopeType :: string
  ub_ServiceID :: string
  ub_Label :: string
  ub_Reason :: string
  ub_Owner :: string
  ub_ExpiresAt :: "int option"
  ub_Enabled :: bool
  ub_Editable :: bool
  ub_CreatedAt :: int
  ub_UpdatedAt :: int

text \<open>\<^verbatim>\<open>COALESCE(column::text, '')\<close>\<close>

definition coalesce_text :: "string option \<Rightarrow> string" where
  "coalesce_text v = (case v of None \<Rightarrow> [] | Some s \<Rightarrow> s)"

text \<open>\<^verbatim>\<open>row.Scan\<close> into a \<^verbatim>\<open>uint16\<close>.\<close>

definition scan_u16 :: "int \<Rightarrow> control_error + u16" where
  "scan_u16 i = (if 0 \<le> i \<and> i < 2 ^ 16 then Inr (word_of_int i) else Inl (ScanOutOfRange i))"

definition scanService :: "backend_service_row \<Rightarrow> control_error + Service" where
  "scanService r =
     bind_ok (scan_u32 (bs_ebpf_id r)) (\<lambda>ebpf.
     bind_ok (scan_u32 (bs_priority r)) (\<lambda>priority.
     bind_ok (scan_u32 (bs_resolved_ifindex r)) (\<lambda>ifindex.
     Inr \<lparr>svc_ID = bs_id r, svc_EBPFID = ebpf, svc_Name = bs_name r, svc_Description = bs_description r,
       svc_BackendCIDR = bs_backend_cidr r, svc_Protocol = bs_protocol r,
       svc_AllowedPorts = uint16Ports (map word_of_int (bs_allowed_ports r)),
       svc_OutputInterface = bs_output_interface r, svc_Owner = bs_owner r, svc_Criticality = bs_criticality r,
       svc_ProtectionMode = bs_protection_mode r, svc_Enabled = bs_enabled r, svc_Priority = priority,
       svc_Tags = bs_tags r, svc_SyncStatus = bs_sync_status r, svc_ResolvedIfindex = ifindex,
       svc_ResolvedNextHopMAC = bs_resolved_next_hop_mac r, svc_ResolvedSourceMAC = bs_resolved_src_mac r,
       svc_NeighborResolutionStatus = bs_neighbor_resolution_status r,
       svc_CreatedAt = bs_created_at r, svc_UpdatedAt = bs_updated_at r\<rparr>)))"

definition scanForwardingPolicy :: "forwarding_policy_row \<Rightarrow> control_error + ForwardingPolicy" where
  "scanForwardingPolicy r =
     bind_ok (scan_u32 (fp_ebpf_id r)) (\<lambda>ebpf.
     bind_ok (scan_u16 (fp_match_dst_port r)) (\<lambda>port.
     bind_ok (scan_u32 (fp_resolved_ifindex r)) (\<lambda>ifindex.
     bind_ok (scan_u32 (fp_devmap_key r)) (\<lambda>key.
     bind_ok (scan_u32 (fp_priority r)) (\<lambda>priority.
     Inr \<lparr>fpo_ID = fp_id r, fpo_EBPFID = ebpf, fpo_ServiceID = fp_service_id r,
       fpo_MatchProtocol = fp_match_protocol r, fpo_MatchDstPort = port, fpo_BackendTarget = fp_backend_target r,
       fpo_OutputInterface = fp_output_interface r, fpo_ResolvedIfindex = ifindex,
       fpo_ResolvedDstMAC = fp_resolved_dst_mac r, fpo_ResolvedSrcMAC = fp_resolved_src_mac r,
       fpo_DevmapKey = key, fpo_Action = fp_action r, fpo_Priority = priority, fpo_Enabled = fp_enabled r,
       fpo_Owner = fp_owner r, fpo_CreatedAt = fp_created_at r, fpo_UpdatedAt = fp_updated_at r\<rparr>)))))"

text \<open>The scan of a row takes the value of the column \<^verbatim>\<open>editable\<close> of the query.\<close>

definition scanWhitelistEntry :: "bool \<Rightarrow> whitelist_row \<Rightarrow> control_error + WhitelistEntry" where
  "scanWhitelistEntry editable r =
     bind_ok (scan_u32 (wl_ebpf_id r)) (\<lambda>ebpf.
     bind_ok (scan_u32 (wl_priority r)) (\<lambda>priority.
     Inr \<lparr>we_ID = wl_id r, we_EBPFID = ebpf, we_CIDR = wl_ip_or_cidr r, we_Scope = wl_scope r,
       we_ScopeType = wl_scope_type r, we_ServiceID = coalesce_text (wl_service_id r), we_Label = wl_label r,
       we_Reason = wl_reason r, we_Owner = wl_owner r, we_Priority = priority, we_ExpiresAt = wl_expires_at r,
       we_Enabled = wl_enabled r, we_Editable = editable, we_CreatedAt = wl_created_at r,
       we_UpdatedAt = wl_updated_at r\<rparr>))"

definition scanRule :: "bool \<Rightarrow> rule_row \<Rightarrow> control_error + Rule" where
  "scanRule editable r =
     bind_ok (scan_u32 (rl_ebpf_id r)) (\<lambda>ebpf.
     bind_ok (scan_u32 (rl_priority r)) (\<lambda>priority.
     bind_ok (scan_u32 (rl_threshold_pps r)) (\<lambda>pps.
     bind_ok (scan_u32 (rl_threshold_bps r)) (\<lambda>bps.
     bind_ok (scan_u32 (rl_threshold_cps r)) (\<lambda>cps.
     bind_ok (scan_u32 (rl_burst_packets r)) (\<lambda>packets.
     bind_ok (scan_u32 (rl_burst_bytes r)) (\<lambda>bytes.
     bind_ok (scan_u32 (rl_sample_denom r)) (\<lambda>denom.
     bind_ok (scan_u32 (rl_ttl_seconds r)) (\<lambda>ttl.
     Inr \<lparr>ru_ID = rl_id r, ru_EBPFID = ebpf, ru_ServiceID = coalesce_text (rl_service_id r),
       ru_ScopeType = rl_scope_type r, ru_Name = rl_name r, ru_Priority = priority, ru_MatchExpr = rl_match_expr r,
       ru_Action = rl_action r, ru_Mode = rl_mode r, ru_ThresholdPPS = pps, ru_ThresholdBPS = bps,
       ru_ThresholdCPS = cps, ru_Dimension = rl_dimension r, ru_BurstPackets = packets, ru_BurstBytes = bytes,
       ru_SampleDenom = denom, ru_TTLSeconds = ttl, ru_ExpiresAt = rl_expires_at r, ru_Evidence = rl_evidence r,
       ru_Enabled = rl_enabled r, ru_Owner = rl_owner r, ru_Editable = editable,
       ru_CreatedAt = rl_created_at r, ru_UpdatedAt = rl_updated_at r\<rparr>)))))))))"

definition scanBlacklistEntry :: "bool \<Rightarrow> blacklist_row \<Rightarrow> control_error + BlacklistEntry" where
  "scanBlacklistEntry editable r =
     bind_ok (scan_u32 (bl_ebpf_id r)) (\<lambda>ebpf.
     bind_ok (scan_u32 (bl_score r)) (\<lambda>score.
     Inr \<lparr>be_ID = bl_id r, be_EBPFID = ebpf, be_CIDR = bl_ip_or_cidr r, be_ScopeType = bl_scope_type r,
       be_ServiceID = coalesce_text (bl_service_id r), be_Score = score, be_Action = bl_action r,
       be_Source = bl_source r, be_RuleID = coalesce_text (bl_rule_id r), be_Reason = bl_reason r,
       be_Owner = bl_owner r, be_ExpiresAt = bl_expires_at r, be_Enabled = bl_enabled r, be_Editable = editable,
       be_CreatedAt = bl_created_at r, be_UpdatedAt = bl_updated_at r\<rparr>))"

text \<open>The port is scanned into an \<^verbatim>\<open>int32\<close> and truncated.\<close>

definition scanUDPSourcePortBlock :: "bool \<Rightarrow> udp_block_row \<Rightarrow> control_error + UDPSourcePortBlock" where
  "scanUDPSourcePortBlock editable r =
     bind_ok (scan_u32 (ubr_ebpf_id r)) (\<lambda>ebpf.
     Inr \<lparr>ub_ID = ubr_id r, ub_EBPFID = ebpf, ub_Port = word_of_int (ubr_port r),
       ub_ScopeType = ubr_scope_type r, ub_ServiceID = coalesce_text (ubr_service_id r), ub_Label = ubr_label r,
       ub_Reason = ubr_reason r, ub_Owner = ubr_owner r, ub_ExpiresAt = ubr_expires_at r,
       ub_Enabled = ubr_enabled r, ub_Editable = editable, ub_CreatedAt = ubr_created_at r,
       ub_UpdatedAt = ubr_updated_at r\<rparr>)"

subsection \<open>Shape of a mutation\<close>

text \<open>
  A mutation of an owner's object: transaction of the owner, the statements, the rebuild of the
  snapshot, commit. The transaction of the actor may record the owner in the actor.
\<close>

definition owner_mutation ::
    "store_env \<Rightarrow> control_db \<Rightarrow> go_context \<Rightarrow> Actor option \<Rightarrow> string \<Rightarrow>
     (Actor option \<Rightarrow> transaction \<Rightarrow> control_error + (transaction \<times> 'a)) \<Rightarrow>
     control_db \<times> (control_error + 'a)" where
  "owner_mutation env db ctx actor reason body = (case beginActorOwnerTx env db actor of
     (actor, began) \<Rightarrow>
       commit_or_drop env db (
         bind_ok began (\<lambda>tx.
         bind_ok (body actor tx) (\<lambda>(tx, a).
         bind_ok (rebuildSnapshotInTx env ctx tx actor None reason) (\<lambda>(tx, _).
         Inr (tx, a))))))"

text \<open>A mutation of a scoped object, with the transaction and the rebuild of its scope.\<close>

definition scoped_mutation ::
    "store_env \<Rightarrow> control_db \<Rightarrow> go_context \<Rightarrow> Actor option \<Rightarrow> policyMutationScope \<Rightarrow> string \<Rightarrow>
     (Actor option \<Rightarrow> transaction \<Rightarrow> control_error + (transaction \<times> 'a)) \<Rightarrow>
     control_db \<times> (control_error + 'a)" where
  "scoped_mutation env db ctx actor scope reason body = (case beginPolicyMutationTx env db actor scope of
     (actor, began) \<Rightarrow>
       (case bind_ok began (\<lambda>tx.
             bind_ok (body actor tx) (\<lambda>(tx, a).
             bind_ok (rebuildPolicyMutationInTx env ctx tx actor scope reason) (\<lambda>tx.
             Inr (tx, a)))) of
          Inl e \<Rightarrow> (db, Inl e)
        | Inr (tx, a) \<Rightarrow>
            (case commitPolicyMutation env db ctx tx actor scope reason of
               (db', Some e) \<Rightarrow> (db', Inl e) | (db', None) \<Rightarrow> (db', Inr a))))"

definition or_fail :: "control_db \<Rightarrow> control_error + 'b \<Rightarrow> ('b \<Rightarrow> control_db \<times> (control_error + 'a)) \<Rightarrow>
    control_db \<times> (control_error + 'a)" where
  "or_fail db checks run = (case checks of Inl e \<Rightarrow> (db, Inl e) | Inr b \<Rightarrow> run b)"

subsection \<open>Services\<close>

definition owned :: "transaction \<Rightarrow> string \<Rightarrow> bool" where
  "owned tx owner_user_id \<longleftrightarrow> ownerSQL (tx_owner tx) (Some owner_user_id) = Some True"

definition getService :: "store_env \<Rightarrow> transaction \<Rightarrow> string \<Rightarrow> control_error + Service" where
  "getService env tx sid =
     bind_ok (sql_get env ''service'' backend_services
         (\<lambda>r. bs_id r = sid \<and> owned tx (bs_owner_user_id r)) tx) scanService"

text \<open>Primary key, identity, and unique name per owner.\<close>

definition service_clash :: "backend_service_row \<Rightarrow> backend_service_row \<Rightarrow> bool" where
  "service_clash a b \<longleftrightarrow> bs_id a = bs_id b \<or> bs_ebpf_id a = bs_ebpf_id b \<or>
     (bs_owner_user_id a = bs_owner_user_id b \<and> bs_name a = bs_name b)"

text \<open>The columns that creation and update of a service set.\<close>

definition service_columns ::
    "store_env \<Rightarrow> ServiceInput \<Rightarrow> bool \<Rightarrow> control_error + (backend_service_row \<Rightarrow> backend_service_row)" where
  "service_columns env input enabled =
     bind_ok (to_inet env (si_BackendCIDR input)) (\<lambda>cidr.
     bind_ok (int4 (uint (defaultPriority (si_Priority input)))) (\<lambda>priority.
     bind_ok (int4 (uint (si_ResolvedIfindex input))) (\<lambda>ifindex.
     Inr (\<lambda>r. r\<lparr>bs_name := si_Name input, bs_description := si_Description input, bs_backend_cidr := cidr,
       bs_protocol := normalizeProtocol (si_Protocol input),
       bs_allowed_ports := map uint (int32Ports (si_AllowedPorts input)),
       bs_output_interface := si_OutputInterface input, bs_owner := si_Owner input,
       bs_criticality := si_Criticality input,
       bs_protection_mode := ToLower (TrimSpace (si_ProtectionMode input)), bs_enabled := enabled,
       bs_priority := priority, bs_tags := si_Tags input, bs_resolved_ifindex := ifindex,
       bs_resolved_next_hop_mac := TrimSpace (si_ResolvedNextHopMAC input),
       bs_resolved_src_mac := TrimSpace (si_ResolvedSourceMAC input),
       bs_neighbor_resolution_status := neighborStatus (si_NeighborResolutionStatus input)\<rparr>))))"

definition new_service_row :: "store_env \<Rightarrow> control_db \<Rightarrow> string \<Rightarrow> backend_service_row" where
  "new_service_row env db owner =
     \<lparr>bs_id = se_uuid env 0, bs_ebpf_id = se_identity env ''backend_services'' db, bs_owner_user_id = owner,
      bs_name = [], bs_backend_cidr = [], bs_protocol = [], bs_allowed_ports = [], bs_output_interface = [],
      bs_enabled = True, bs_priority = 100, bs_resolved_ifindex = 0, bs_resolved_next_hop_mac = [],
      bs_resolved_src_mac = [], bs_deleted_at = None, bs_description = [], bs_owner = [], bs_criticality = [],
      bs_protection_mode = [], bs_tags = [], bs_sync_status = ''pending'',
      bs_neighbor_resolution_status = ''unresolved'', bs_created_at = se_now env, bs_updated_at = se_now env\<rparr>"

definition CreateService ::
    "store_env \<Rightarrow> control_db \<Rightarrow> go_context \<Rightarrow> Actor option \<Rightarrow> ServiceInput \<Rightarrow> string \<Rightarrow>
     control_db \<times> (control_error + Service)" where
  "CreateService env db ctx actor input reason0 =
     (let reason = mutationReason reason0 (si_Reason input) in
      or_fail db (
        bind_ok (require_ok (requireConfigMutation actor)) (\<lambda>_.
        bind_ok (valid_input (validateServiceInput input)) (\<lambda>_.
        bind_ok (require_reason reason) (\<lambda>_. db_guard env NewUUID [])))) (\<lambda>_.
      owner_mutation env db ctx actor reason (\<lambda>actor tx.
        bind_ok (service_columns env input (boolDefault (si_Enabled input) True)) (\<lambda>set_columns.
        (let row = set_columns (new_service_row env (tx_db tx) (actorOwnerUserID actor)) in
        bind_ok (references_user tx (bs_owner_user_id row)) (\<lambda>_.
        bind_ok (sql_insert env ''backend_services'' backend_services backend_services_update service_clash row tx) (\<lambda>tx.
        bind_ok (scanService row) (\<lambda>service.
        bind_ok (insertAudit env ctx tx actor ''create_service'' ''backend_service'' (svc_ID service) reason) (\<lambda>tx.
        Inr (tx, service))))))))))"

definition UpdateService ::
    "store_env \<Rightarrow> control_db \<Rightarrow> go_context \<Rightarrow> Actor option \<Rightarrow> string \<Rightarrow> ServiceInput \<Rightarrow> string \<Rightarrow>
     control_db \<times> (control_error + Service)" where
  "UpdateService env db ctx actor sid input reason0 =
     (let reason = mutationReason reason0 (si_Reason input) in
      or_fail db (
        bind_ok (require_ok (requireConfigMutation actor)) (\<lambda>_.
        bind_ok (valid_input (validateServiceInput input)) (\<lambda>_. require_reason reason))) (\<lambda>_.
      owner_mutation env db ctx actor reason (\<lambda>actor tx.
        bind_ok (getService env tx sid) (\<lambda>before.
        bind_ok (service_columns env input (boolDefault (si_Enabled input) (svc_Enabled before))) (\<lambda>set_columns.
        bind_ok (sql_update env ''backend_services'' backend_services backend_services_update service_clash
            (\<lambda>r. bs_id r = sid \<and> owned tx (bs_owner_user_id r))
            (\<lambda>r. (set_columns r)\<lparr>bs_sync_status := ''pending'', bs_updated_at := se_now env\<rparr>) tx) (\<lambda>(tx, row).
        bind_ok (scanService row) (\<lambda>after.
        bind_ok (insertAudit env ctx tx actor ''update_service'' ''backend_service'' sid reason) (\<lambda>tx.
        Inr (tx, after)))))))))"

definition DeleteService ::
    "store_env \<Rightarrow> control_db \<Rightarrow> go_context \<Rightarrow> Actor option \<Rightarrow> string \<Rightarrow> string \<Rightarrow>
     control_db \<times> (control_error + Service)" where
  "DeleteService env db ctx actor sid reason =
     or_fail db (
       bind_ok (require_ok (requireConfigMutation actor)) (\<lambda>_. require_reason (TrimSpace reason))) (\<lambda>_.
     owner_mutation env db ctx actor reason (\<lambda>actor tx.
       bind_ok (getService env tx sid) (\<lambda>before.
       bind_ok (sql_update env ''backend_services'' backend_services backend_services_update service_clash
           (\<lambda>r. bs_id r = sid \<and> owned tx (bs_owner_user_id r))
           (\<lambda>r. r\<lparr>bs_enabled := False, bs_deleted_at := Some (se_now env), bs_sync_status := ''pending'',
              bs_updated_at := se_now env\<rparr>) tx) (\<lambda>(tx, row).
       bind_ok (scanService row) (\<lambda>after.
       bind_ok (insertAudit env ctx tx actor ''disable_service'' ''backend_service'' sid reason) (\<lambda>tx.
       Inr (tx, after)))))))"

definition ListServices :: "store_env \<Rightarrow> control_db \<Rightarrow> go_context \<Rightarrow> control_error + Service list" where
  "ListServices env db ctx =
     bind_ok (beginContextOwnerTx env db ctx) (\<lambda>tx.
     bind_ok (sql_select env ''backend_services'' backend_services
         (\<lambda>r. bs_deleted_at r = None \<and> owned tx (bs_owner_user_id r)) tx) (\<lambda>rows.
     bind_ok (map_rows scanService (sort_slice (\<lambda>a b. bs_name a < bs_name b) rows)) (\<lambda>out.
     bind_ok (tx_Commit env tx) (\<lambda>_. Inr out))))"

subsection \<open>Forwarding policies\<close>

definition forwarding_clash :: "forwarding_policy_row \<Rightarrow> forwarding_policy_row \<Rightarrow> bool" where
  "forwarding_clash a b \<longleftrightarrow> fp_id a = fp_id b \<or> fp_ebpf_id a = fp_ebpf_id b \<or>
     (fp_enabled a \<and> fp_enabled b \<and> fp_service_id a = fp_service_id b \<and>
      fp_match_protocol a = fp_match_protocol b \<and> fp_match_dst_port a = fp_match_dst_port b)"

definition forwarding_row ::
    "store_env \<Rightarrow> control_db \<Rightarrow> string \<Rightarrow> ForwardingPolicyInput \<Rightarrow> control_error + forwarding_policy_row" where
  "forwarding_row env db owner input =
     bind_ok (to_inet env (fi_BackendTarget input)) (\<lambda>target.
     bind_ok (int4 (uint (fi_ResolvedIfindex input))) (\<lambda>ifindex.
     bind_ok (int4 (uint (fi_DevmapKey input))) (\<lambda>key.
     bind_ok (int4 (uint (defaultPriority (fi_Priority input)))) (\<lambda>priority.
     Inr \<lparr>fp_id = se_uuid env 0, fp_ebpf_id = se_identity env ''forwarding_policies'' db,
       fp_owner_user_id = owner, fp_service_id = fi_ServiceID input,
       fp_match_protocol = normalizeProtocol (fi_MatchProtocol input),
       fp_match_dst_port = uint (fi_MatchDstPort input), fp_backend_target = target,
       fp_output_interface = fi_OutputInterface input, fp_resolved_ifindex = ifindex,
       fp_resolved_dst_mac = TrimSpace (fi_ResolvedDstMAC input),
       fp_resolved_src_mac = TrimSpace (fi_ResolvedSrcMAC input), fp_devmap_key = key, fp_priority = priority,
       fp_enabled = boolDefault (fi_Enabled input) True, fp_action = normalizeForwardingAction (fi_Action input),
       fp_owner = fi_Owner input, fp_created_at = se_now env, fp_updated_at = se_now env\<rparr>))))"

definition CreateForwardingPolicy ::
    "store_env \<Rightarrow> control_db \<Rightarrow> go_context \<Rightarrow> Actor option \<Rightarrow> ForwardingPolicyInput \<Rightarrow> string \<Rightarrow>
     control_db \<times> (control_error + ForwardingPolicy)" where
  "CreateForwardingPolicy env db ctx actor input reason0 =
     (let reason = mutationReason reason0 (fi_Reason input) in
      or_fail db (
        bind_ok (require_ok (requireConfigMutation actor)) (\<lambda>_.
        bind_ok (valid_input (validateForwardingPolicyInput input)) (\<lambda>_.
        bind_ok (require_reason reason) (\<lambda>_. db_guard env NewUUID [])))) (\<lambda>_.
      owner_mutation env db ctx actor reason (\<lambda>actor tx.
        bind_ok (getService env tx (fi_ServiceID input)) (\<lambda>_.
        bind_ok (forwarding_row env (tx_db tx) (actorOwnerUserID actor) input) (\<lambda>row.
        bind_ok (references_user tx (fp_owner_user_id row)) (\<lambda>_.
        bind_ok (sql_insert env ''forwarding_policies'' forwarding_policies forwarding_policies_update
            forwarding_clash row tx) (\<lambda>tx.
        bind_ok (scanForwardingPolicy row) (\<lambda>policy.
        bind_ok (insertAudit env ctx tx actor ''create_forwarding_policy'' ''forwarding_policy'' (fpo_ID policy)
            reason) (\<lambda>tx.
        Inr (tx, policy))))))))))"

definition ListForwardingPolicies ::
    "store_env \<Rightarrow> control_db \<Rightarrow> go_context \<Rightarrow> control_error + ForwardingPolicy list" where
  "ListForwardingPolicies env db ctx =
     bind_ok (beginContextOwnerTx env db ctx) (\<lambda>tx.
     bind_ok (sql_select env ''forwarding_policies'' forwarding_policies
         (\<lambda>r. owned tx (fp_owner_user_id r)) tx) (\<lambda>rows.
     bind_ok (map_rows scanForwardingPolicy (sort_slice (\<lambda>a b. fp_created_at b < fp_created_at a) rows)) (\<lambda>out.
     bind_ok (tx_Commit env tx) (\<lambda>_. Inr out))))"

end
