(* ===== verification/ScopedPolicyStore.thy ===== *)
theory ScopedPolicyStore
  imports PolicyStore
begin

section \<open>Scoped policy objects\<close>

text \<open>
  White list entries, rules, black list entries and UDP source port blocks: creation
  (\<^verbatim>\<open>policy_store.go\<close>), update and disabling (\<^verbatim>\<open>admin_console.go\<close>), and the expiry of rules with a time
  to live. The scope that \<^verbatim>\<open>requirePolicyMutation\<close> grants decides the transaction, the rows an update can
  reach (\<^verbatim>\<open>policyMutationWhere\<close>) and which snapshots are rebuilt.
\<close>

subsection \<open>Shared steps\<close>

definition mutable :: "policyMutationScope \<Rightarrow> transaction \<Rightarrow> string \<Rightarrow> string \<Rightarrow> bool" where
  "mutable scope tx scope_type owner_user_id \<longleftrightarrow>
     policyMutationWhere scope (tx_owner tx) scope_type (Some owner_user_id) = Some True"

text \<open>The service an object refers to, read in the transaction of the mutation.\<close>

definition service_reference ::
    "store_env \<Rightarrow> transaction \<Rightarrow> string \<Rightarrow> control_error + string option" where
  "service_reference env tx serviceID = (let sid = TrimSpace serviceID in
     if sid \<noteq> [] then bind_ok (getService env tx sid) (\<lambda>_. Inr (Some sid)) else Inr None)"

text \<open>Only an object of scope \<^verbatim>\<open>service\<close> keeps its service.\<close>

definition scoped_service :: "policyMutationScope \<Rightarrow> string \<Rightarrow> string" where
  "scoped_service scope serviceID = (if pms_ScopeType scope \<noteq> ScopeTypeService then [] else serviceID)"

subsection \<open>White list\<close>

definition scoped_whitelist :: "policyMutationScope \<Rightarrow> WhitelistInput \<Rightarrow> WhitelistInput" where
  "scoped_whitelist scope input = input\<lparr>wi_ScopeType := pms_ScopeType scope,
     wi_Scope := legacyScopeForScopeType (pms_ScopeType scope),
     wi_ServiceID := scoped_service scope (wi_ServiceID input)\<rparr>"

definition whitelist_clash :: "whitelist_row \<Rightarrow> whitelist_row \<Rightarrow> bool" where
  "whitelist_clash a b \<longleftrightarrow> wl_id a = wl_id b \<or> wl_ebpf_id a = wl_ebpf_id b"

definition whitelist_columns ::
    "store_env \<Rightarrow> policyMutationScope \<Rightarrow> WhitelistInput \<Rightarrow> string option \<Rightarrow> string \<Rightarrow> bool \<Rightarrow>
     control_error + (whitelist_row \<Rightarrow> whitelist_row)" where
  "whitelist_columns env scope input serviceID reason enabled =
     bind_ok (to_inet env (wi_CIDR input)) (\<lambda>cidr.
     bind_ok (int4 (uint (defaultPriority (wi_Priority input)))) (\<lambda>priority.
     Inr (\<lambda>r. r\<lparr>wl_ip_or_cidr := cidr, wl_scope := normalizeScope (wi_Scope input),
       wl_scope_type := pms_ScopeType scope, wl_service_id := serviceID, wl_label := wi_Label input,
       wl_reason := reason, wl_priority := priority, wl_expires_at := wi_ExpiresAt input,
       wl_enabled := enabled\<rparr>)))"

definition new_whitelist_row :: "store_env \<Rightarrow> control_db \<Rightarrow> policyMutationScope \<Rightarrow> whitelist_row" where
  "new_whitelist_row env db scope =
     \<lparr>wl_id = se_uuid env 0, wl_ebpf_id = se_identity env ''whitelist_entries'' db,
      wl_owner_user_id = pms_OwnerUserID scope, wl_ip_or_cidr = [], wl_scope_type = [], wl_service_id = None,
      wl_priority = 100, wl_expires_at = None, wl_enabled = True, wl_scope = [], wl_label = [], wl_reason = [],
      wl_owner = pms_Owner scope, wl_created_at = se_now env, wl_updated_at = se_now env\<rparr>"

definition getWhitelistEntry ::
    "store_env \<Rightarrow> transaction \<Rightarrow> string \<Rightarrow> policyMutationScope \<Rightarrow> control_error + WhitelistEntry" where
  "getWhitelistEntry env tx wid scope =
     bind_ok (sql_get env ''whitelist entry'' whitelist_entries
         (\<lambda>r. wl_id r = wid \<and> mutable scope tx (wl_scope_type r) (wl_owner_user_id r)) tx)
       (scanWhitelistEntry True)"

definition CreateWhitelistEntry ::
    "store_env \<Rightarrow> control_db \<Rightarrow> go_context \<Rightarrow> Actor option \<Rightarrow> WhitelistInput \<Rightarrow> string \<Rightarrow>
     control_db \<times> (control_error + WhitelistEntry)" where
  "CreateWhitelistEntry env db ctx actor input0 reason0 =
     or_fail db (requirePolicyMutation actor (wi_ScopeType input0) (wi_Scope input0) (wi_ServiceID input0)) (\<lambda>scope.
     (let input = scoped_whitelist scope input0; reason = mutationReason reason0 (wi_Reason input) in
     or_fail db (
       bind_ok (valid_input (validateWhitelistInput input)) (\<lambda>_.
       bind_ok (require_reason reason) (\<lambda>_. db_guard env NewUUID []))) (\<lambda>_.
     scoped_mutation env db ctx actor scope reason (\<lambda>actor tx.
       bind_ok (service_reference env tx (wi_ServiceID input)) (\<lambda>serviceID.
       bind_ok (whitelist_columns env scope input serviceID reason (boolDefault (wi_Enabled input) True)) (\<lambda>set_columns.
       (let row = set_columns (new_whitelist_row env (tx_db tx) scope) in
       bind_ok (references_user tx (wl_owner_user_id row)) (\<lambda>_.
       bind_ok (sql_insert env ''whitelist_entries'' whitelist_entries whitelist_entries_update whitelist_clash row tx) (\<lambda>tx.
       bind_ok (scanWhitelistEntry True row) (\<lambda>entry.
       bind_ok (insertAudit env ctx tx actor ''create_whitelist'' ''whitelist_entry'' (we_ID entry) reason) (\<lambda>tx.
       Inr (tx, entry))))))))))))"

definition UpdateWhitelistEntry ::
    "store_env \<Rightarrow> control_db \<Rightarrow> go_context \<Rightarrow> Actor option \<Rightarrow> string \<Rightarrow> WhitelistInput \<Rightarrow> string \<Rightarrow>
     control_db \<times> (control_error + WhitelistEntry)" where
  "UpdateWhitelistEntry env db ctx actor wid input0 reason0 =
     or_fail db (requirePolicyMutation actor (wi_ScopeType input0) (wi_Scope input0) (wi_ServiceID input0)) (\<lambda>scope.
     (let input = scoped_whitelist scope input0; reason = mutationReason reason0 (wi_Reason input) in
     or_fail db (bind_ok (valid_input (validateWhitelistInput input)) (\<lambda>_. require_reason reason)) (\<lambda>_.
     scoped_mutation env db ctx actor scope reason (\<lambda>actor tx.
       bind_ok (getWhitelistEntry env tx wid scope) (\<lambda>before.
       bind_ok (service_reference env tx (wi_ServiceID input)) (\<lambda>serviceID.
       bind_ok (whitelist_columns env scope input serviceID reason
           (boolDefault (wi_Enabled input) (we_Enabled before))) (\<lambda>set_columns.
       bind_ok (sql_update env ''whitelist_entries'' whitelist_entries whitelist_entries_update whitelist_clash
           (\<lambda>r. wl_id r = wid \<and> mutable scope tx (wl_scope_type r) (wl_owner_user_id r))
           (\<lambda>r. (set_columns r)\<lparr>wl_updated_at := se_now env\<rparr>) tx) (\<lambda>(tx, row).
       bind_ok (scanWhitelistEntry True row) (\<lambda>entry.
       bind_ok (insertAudit env ctx tx actor ''update_whitelist'' ''whitelist_entry'' wid reason) (\<lambda>tx.
       Inr (tx, entry)))))))))))"

definition DisableWhitelistEntry ::
    "store_env \<Rightarrow> control_db \<Rightarrow> go_context \<Rightarrow> Actor option \<Rightarrow> string \<Rightarrow> string \<Rightarrow>
     control_db \<times> (control_error + WhitelistEntry)" where
  "DisableWhitelistEntry env db ctx actor wid reason =
     or_fail db (requirePolicyMutation actor [] [] []) (\<lambda>scope.
     or_fail db (require_reason (TrimSpace reason)) (\<lambda>_.
     scoped_mutation env db ctx actor scope reason (\<lambda>actor tx.
       bind_ok (getWhitelistEntry env tx wid scope) (\<lambda>before.
       bind_ok (sql_update env ''whitelist_entries'' whitelist_entries whitelist_entries_update whitelist_clash
           (\<lambda>r. wl_id r = wid \<and> mutable scope tx (wl_scope_type r) (wl_owner_user_id r))
           (\<lambda>r. r\<lparr>wl_enabled := False, wl_reason := TrimSpace reason, wl_updated_at := se_now env\<rparr>) tx) (\<lambda>(tx, row).
       bind_ok (scanWhitelistEntry True row) (\<lambda>entry.
       bind_ok (insertAudit env ctx tx actor ''disable_whitelist'' ''whitelist_entry'' wid (TrimSpace reason)) (\<lambda>tx.
       Inr (tx, entry))))))))"

subsection \<open>Rules\<close>

definition scoped_rule :: "policyMutationScope \<Rightarrow> RuleInput \<Rightarrow> RuleInput" where
  "scoped_rule scope input = input\<lparr>ri_ScopeType := pms_ScopeType scope,
     ri_ServiceID := scoped_service scope (ri_ServiceID input)\<rparr>"

definition rule_clash :: "rule_row \<Rightarrow> rule_row \<Rightarrow> bool" where
  "rule_clash a b \<longleftrightarrow> rl_id a = rl_id b \<or> rl_ebpf_id a = rl_ebpf_id b"

text \<open>A time to live without an explicit end gives the end from the clock of the process.\<close>

definition rule_expires :: "store_env \<Rightarrow> RuleInput \<Rightarrow> int option" where
  "rule_expires env input =
     (if 0 < ri_TTLSeconds input \<and> ri_ExpiresAt input = None
      then Some (se_clock env + uint (ri_TTLSeconds input) * 10 ^ 9) else ri_ExpiresAt input)"

definition rule_columns ::
    "store_env \<Rightarrow> policyMutationScope \<Rightarrow> RuleInput \<Rightarrow> string option \<Rightarrow> bool \<Rightarrow>
     control_error + (rule_row \<Rightarrow> rule_row)" where
  "rule_columns env scope input serviceID enabled =
     bind_ok (int4 (uint (defaultPriority (ri_Priority input)))) (\<lambda>priority.
     bind_ok (int4 (uint (ri_SampleDenom input))) (\<lambda>denom.
     bind_ok (int4 (uint (ri_TTLSeconds input))) (\<lambda>ttl.
     Inr (\<lambda>r. r\<lparr>rl_scope_type := pms_ScopeType scope, rl_service_id := serviceID, rl_name := ri_Name input,
       rl_priority := priority, rl_match_expr := defaultJSON (ri_MatchExpr input),
       rl_action := normalizeRuleAction (ri_Action input), rl_mode := normalizeMode (ri_Mode input),
       rl_threshold_pps := uint (ri_ThresholdPPS input), rl_threshold_bps := uint (ri_ThresholdBPS input),
       rl_threshold_cps := uint (ri_ThresholdCPS input),
       rl_dimension := normalizeRuleDimension (ri_Dimension input),
       rl_burst_packets := uint (ri_BurstPackets input), rl_burst_bytes := uint (ri_BurstBytes input),
       rl_sample_denom := denom, rl_ttl_seconds := ttl, rl_expires_at := rule_expires env input,
       rl_evidence := defaultJSON (ri_Evidence input), rl_enabled := enabled\<rparr>))))"

definition new_rule_row :: "store_env \<Rightarrow> control_db \<Rightarrow> policyMutationScope \<Rightarrow> rule_row" where
  "new_rule_row env db scope =
     \<lparr>rl_id = se_uuid env 0, rl_ebpf_id = se_identity env ''rules'' db, rl_owner_user_id = pms_OwnerUserID scope,
      rl_service_id = None, rl_scope_type = [], rl_priority = 100, rl_action = [], rl_mode = [],
      rl_dimension = [], rl_threshold_pps = 0, rl_threshold_bps = 0, rl_threshold_cps = 0, rl_burst_packets = 0,
      rl_burst_bytes = 0, rl_sample_denom = 0, rl_expires_at = None, rl_enabled = True, rl_name = [],
      rl_match_expr = [], rl_ttl_seconds = 0, rl_evidence = [], rl_owner = pms_Owner scope,
      rl_created_at = se_now env, rl_updated_at = se_now env\<rparr>"

definition getRule ::
    "store_env \<Rightarrow> transaction \<Rightarrow> string \<Rightarrow> policyMutationScope \<Rightarrow> control_error + Rule" where
  "getRule env tx rid scope =
     bind_ok (sql_get env ''rule'' rules
         (\<lambda>r. rl_id r = rid \<and> mutable scope tx (rl_scope_type r) (rl_owner_user_id r)) tx)
       (scanRule True)"

definition CreateRule ::
    "store_env \<Rightarrow> control_db \<Rightarrow> go_context \<Rightarrow> Actor option \<Rightarrow> RuleInput \<Rightarrow> string \<Rightarrow>
     control_db \<times> (control_error + Rule)" where
  "CreateRule env db ctx actor input0 reason0 =
     or_fail db (requirePolicyMutation actor (ri_ScopeType input0) [] (ri_ServiceID input0)) (\<lambda>scope.
     (let input = scoped_rule scope input0; reason = mutationReason reason0 (ri_Reason input) in
     or_fail db (
       bind_ok (valid_input (validateRuleInput input)) (\<lambda>_.
       bind_ok (require_reason reason) (\<lambda>_. db_guard env NewUUID []))) (\<lambda>_.
     scoped_mutation env db ctx actor scope reason (\<lambda>actor tx.
       bind_ok (service_reference env tx (ri_ServiceID input)) (\<lambda>serviceID.
       bind_ok (rule_columns env scope input serviceID (boolDefault (ri_Enabled input) True)) (\<lambda>set_columns.
       (let row = set_columns (new_rule_row env (tx_db tx) scope) in
       bind_ok (references_user tx (rl_owner_user_id row)) (\<lambda>_.
       bind_ok (sql_insert env ''rules'' rules rules_update rule_clash row tx) (\<lambda>tx.
       bind_ok (scanRule True row) (\<lambda>rule.
       bind_ok (insertAudit env ctx tx actor ''create_rule'' ''rule'' (ru_ID rule) reason) (\<lambda>tx.
       Inr (tx, rule))))))))))))"

definition UpdateRule ::
    "store_env \<Rightarrow> control_db \<Rightarrow> go_context \<Rightarrow> Actor option \<Rightarrow> string \<Rightarrow> RuleInput \<Rightarrow> string \<Rightarrow>
     control_db \<times> (control_error + Rule)" where
  "UpdateRule env db ctx actor rid input0 reason0 =
     or_fail db (requirePolicyMutation actor (ri_ScopeType input0) [] (ri_ServiceID input0)) (\<lambda>scope.
     (let input = scoped_rule scope input0; reason = mutationReason reason0 (ri_Reason input) in
     or_fail db (bind_ok (valid_input (validateRuleInput input)) (\<lambda>_. require_reason reason)) (\<lambda>_.
     scoped_mutation env db ctx actor scope reason (\<lambda>actor tx.
       bind_ok (getRule env tx rid scope) (\<lambda>before.
       bind_ok (service_reference env tx (ri_ServiceID input)) (\<lambda>serviceID.
       bind_ok (rule_columns env scope input serviceID (boolDefault (ri_Enabled input) (ru_Enabled before))) (\<lambda>set_columns.
       bind_ok (sql_update env ''rules'' rules rules_update rule_clash
           (\<lambda>r. rl_id r = rid \<and> mutable scope tx (rl_scope_type r) (rl_owner_user_id r))
           (\<lambda>r. (set_columns r)\<lparr>rl_updated_at := se_now env\<rparr>) tx) (\<lambda>(tx, row).
       bind_ok (scanRule True row) (\<lambda>rule.
       bind_ok (insertAudit env ctx tx actor ''update_rule'' ''rule'' rid reason) (\<lambda>tx.
       Inr (tx, rule)))))))))))"

definition DisableRule ::
    "store_env \<Rightarrow> control_db \<Rightarrow> go_context \<Rightarrow> Actor option \<Rightarrow> string \<Rightarrow> string \<Rightarrow>
     control_db \<times> (control_error + Rule)" where
  "DisableRule env db ctx actor rid reason =
     or_fail db (requirePolicyMutation actor [] [] []) (\<lambda>scope.
     or_fail db (require_reason (TrimSpace reason)) (\<lambda>_.
     scoped_mutation env db ctx actor scope reason (\<lambda>actor tx.
       bind_ok (getRule env tx rid scope) (\<lambda>before.
       bind_ok (sql_update env ''rules'' rules rules_update rule_clash
           (\<lambda>r. rl_id r = rid \<and> mutable scope tx (rl_scope_type r) (rl_owner_user_id r))
           (\<lambda>r. r\<lparr>rl_enabled := False, rl_updated_at := se_now env\<rparr>) tx) (\<lambda>(tx, row).
       bind_ok (scanRule True row) (\<lambda>rule.
       bind_ok (insertAudit env ctx tx actor ''disable_rule'' ''rule'' rid (TrimSpace reason)) (\<lambda>tx.
       Inr (tx, rule))))))))"

subsection \<open>Black list\<close>

definition scoped_blacklist :: "policyMutationScope \<Rightarrow> BlacklistInput \<Rightarrow> BlacklistInput" where
  "scoped_blacklist scope input = input\<lparr>bi_ScopeType := pms_ScopeType scope,
     bi_ServiceID := scoped_service scope (bi_ServiceID input)\<rparr>"

definition blacklist_clash :: "blacklist_row \<Rightarrow> blacklist_row \<Rightarrow> bool" where
  "blacklist_clash a b \<longleftrightarrow> bl_id a = bl_id b \<or> bl_ebpf_id a = bl_ebpf_id b"

text \<open>The rule an entry refers to must be one the scope may change.\<close>

definition rule_reference ::
    "store_env \<Rightarrow> transaction \<Rightarrow> policyMutationScope \<Rightarrow> string \<Rightarrow> control_error + string option" where
  "rule_reference env tx scope ruleID = (let rid = TrimSpace ruleID in
     if rid \<noteq> [] then bind_ok (getRule env tx rid scope) (\<lambda>_. Inr (Some rid)) else Inr None)"

definition blacklist_columns ::
    "store_env \<Rightarrow> policyMutationScope \<Rightarrow> BlacklistInput \<Rightarrow> string option \<Rightarrow> string option \<Rightarrow> string \<Rightarrow> bool \<Rightarrow>
     control_error + (blacklist_row \<Rightarrow> blacklist_row)" where
  "blacklist_columns env scope input serviceID ruleID reason enabled =
     bind_ok (to_inet env (bi_CIDR input)) (\<lambda>cidr.
     bind_ok (int4 (uint (bi_Score input))) (\<lambda>score.
     Inr (\<lambda>r. r\<lparr>bl_scope_type := pms_ScopeType scope, bl_service_id := serviceID, bl_ip_or_cidr := cidr,
       bl_score := score, bl_action := normalizeBlacklistAction (bi_Action input), bl_source := bi_Source input,
       bl_rule_id := ruleID, bl_reason := reason, bl_expires_at := bi_ExpiresAt input, bl_enabled := enabled\<rparr>)))"

definition new_blacklist_row :: "store_env \<Rightarrow> control_db \<Rightarrow> policyMutationScope \<Rightarrow> blacklist_row" where
  "new_blacklist_row env db scope =
     \<lparr>bl_id = se_uuid env 0, bl_ebpf_id = se_identity env ''manual_blacklist_entries'' db,
      bl_owner_user_id = pms_OwnerUserID scope, bl_ip_or_cidr = [], bl_scope_type = [], bl_service_id = None,
      bl_rule_id = None, bl_score = 0, bl_expires_at = None, bl_enabled = True, bl_action = [], bl_source = [],
      bl_reason = [], bl_owner = pms_Owner scope, bl_created_at = se_now env, bl_updated_at = se_now env\<rparr>"

definition getBlacklistEntry ::
    "store_env \<Rightarrow> transaction \<Rightarrow> string \<Rightarrow> policyMutationScope \<Rightarrow> control_error + BlacklistEntry" where
  "getBlacklistEntry env tx bid scope =
     bind_ok (sql_get env ''blacklist entry'' manual_blacklist_entries
         (\<lambda>r. bl_id r = bid \<and> mutable scope tx (bl_scope_type r) (bl_owner_user_id r)) tx)
       (scanBlacklistEntry True)"

definition CreateBlacklistEntry ::
    "store_env \<Rightarrow> control_db \<Rightarrow> go_context \<Rightarrow> Actor option \<Rightarrow> BlacklistInput \<Rightarrow> string \<Rightarrow>
     control_db \<times> (control_error + BlacklistEntry)" where
  "CreateBlacklistEntry env db ctx actor input0 reason0 =
     or_fail db (requirePolicyMutation actor (bi_ScopeType input0) [] (bi_ServiceID input0)) (\<lambda>scope.
     (let input = scoped_blacklist scope input0; reason = mutationReason reason0 (bi_Reason input) in
     or_fail db (
       bind_ok (valid_input (validateBlacklistInput input)) (\<lambda>_.
       bind_ok (require_reason reason) (\<lambda>_. db_guard env NewUUID []))) (\<lambda>_.
     scoped_mutation env db ctx actor scope reason (\<lambda>actor tx.
       bind_ok (service_reference env tx (bi_ServiceID input)) (\<lambda>serviceID.
       bind_ok (rule_reference env tx scope (bi_RuleID input)) (\<lambda>ruleID.
       bind_ok (blacklist_columns env scope input serviceID ruleID reason (boolDefault (bi_Enabled input) True))
         (\<lambda>set_columns.
       (let row = set_columns (new_blacklist_row env (tx_db tx) scope) in
       bind_ok (references_user tx (bl_owner_user_id row)) (\<lambda>_.
       bind_ok (sql_insert env ''manual_blacklist_entries'' manual_blacklist_entries manual_blacklist_entries_update
           blacklist_clash row tx) (\<lambda>tx.
       bind_ok (scanBlacklistEntry True row) (\<lambda>entry.
       bind_ok (insertAudit env ctx tx actor ''create_blacklist'' ''manual_blacklist_entry'' (be_ID entry) reason) (\<lambda>tx.
       Inr (tx, entry)))))))))))))"

definition UpdateBlacklistEntry ::
    "store_env \<Rightarrow> control_db \<Rightarrow> go_context \<Rightarrow> Actor option \<Rightarrow> string \<Rightarrow> BlacklistInput \<Rightarrow> string \<Rightarrow>
     control_db \<times> (control_error + BlacklistEntry)" where
  "UpdateBlacklistEntry env db ctx actor bid input0 reason0 =
     or_fail db (requirePolicyMutation actor (bi_ScopeType input0) [] (bi_ServiceID input0)) (\<lambda>scope.
     (let input = scoped_blacklist scope input0; reason = mutationReason reason0 (bi_Reason input) in
     or_fail db (bind_ok (valid_input (validateBlacklistInput input)) (\<lambda>_. require_reason reason)) (\<lambda>_.
     scoped_mutation env db ctx actor scope reason (\<lambda>actor tx.
       bind_ok (getBlacklistEntry env tx bid scope) (\<lambda>before.
       bind_ok (rule_reference env tx scope (bi_RuleID input)) (\<lambda>ruleID.
       bind_ok (service_reference env tx (bi_ServiceID input)) (\<lambda>serviceID.
       bind_ok (blacklist_columns env scope input serviceID ruleID reason
           (boolDefault (bi_Enabled input) (be_Enabled before))) (\<lambda>set_columns.
       bind_ok (sql_update env ''manual_blacklist_entries'' manual_blacklist_entries manual_blacklist_entries_update
           blacklist_clash (\<lambda>r. bl_id r = bid \<and> mutable scope tx (bl_scope_type r) (bl_owner_user_id r))
           (\<lambda>r. (set_columns r)\<lparr>bl_updated_at := se_now env\<rparr>) tx) (\<lambda>(tx, row).
       bind_ok (scanBlacklistEntry True row) (\<lambda>entry.
       bind_ok (insertAudit env ctx tx actor ''update_blacklist'' ''manual_blacklist_entry'' bid reason) (\<lambda>tx.
       Inr (tx, entry))))))))))))"

definition DisableBlacklistEntry ::
    "store_env \<Rightarrow> control_db \<Rightarrow> go_context \<Rightarrow> Actor option \<Rightarrow> string \<Rightarrow> string \<Rightarrow>
     control_db \<times> (control_error + BlacklistEntry)" where
  "DisableBlacklistEntry env db ctx actor bid reason =
     or_fail db (requirePolicyMutation actor [] [] []) (\<lambda>scope.
     or_fail db (require_reason (TrimSpace reason)) (\<lambda>_.
     scoped_mutation env db ctx actor scope reason (\<lambda>actor tx.
       bind_ok (getBlacklistEntry env tx bid scope) (\<lambda>before.
       bind_ok (sql_update env ''manual_blacklist_entries'' manual_blacklist_entries manual_blacklist_entries_update
           blacklist_clash (\<lambda>r. bl_id r = bid \<and> mutable scope tx (bl_scope_type r) (bl_owner_user_id r))
           (\<lambda>r. r\<lparr>bl_enabled := False, bl_reason := TrimSpace reason, bl_updated_at := se_now env\<rparr>) tx) (\<lambda>(tx, row).
       bind_ok (scanBlacklistEntry True row) (\<lambda>entry.
       bind_ok (insertAudit env ctx tx actor ''disable_blacklist'' ''manual_blacklist_entry'' bid (TrimSpace reason))
         (\<lambda>tx.
       Inr (tx, entry))))))))"

subsection \<open>UDP source port blocks\<close>

definition scoped_udp :: "policyMutationScope \<Rightarrow> UDPSourcePortBlockInput \<Rightarrow> UDPSourcePortBlockInput" where
  "scoped_udp scope input = input\<lparr>ui_ScopeType := pms_ScopeType scope,
     ui_ServiceID := scoped_service scope (ui_ServiceID input)\<rparr>"

definition udp_clash :: "udp_block_row \<Rightarrow> udp_block_row \<Rightarrow> bool" where
  "udp_clash a b \<longleftrightarrow> ubr_id a = ubr_id b \<or> ubr_ebpf_id a = ubr_ebpf_id b"

definition udp_columns ::
    "policyMutationScope \<Rightarrow> UDPSourcePortBlockInput \<Rightarrow> string option \<Rightarrow> string \<Rightarrow> bool \<Rightarrow>
     udp_block_row \<Rightarrow> udp_block_row" where
  "udp_columns scope input serviceID reason enabled r =
     r\<lparr>ubr_scope_type := pms_ScopeType scope, ubr_service_id := serviceID, ubr_port := uint (ui_Port input),
       ubr_label := TrimSpace (ui_Label input), ubr_reason := reason, ubr_expires_at := ui_ExpiresAt input,
       ubr_enabled := enabled\<rparr>"

definition new_udp_row :: "store_env \<Rightarrow> control_db \<Rightarrow> policyMutationScope \<Rightarrow> udp_block_row" where
  "new_udp_row env db scope =
     \<lparr>ubr_id = se_uuid env 0, ubr_ebpf_id = se_identity env ''udp_source_port_blocks'' db,
      ubr_owner_user_id = pms_OwnerUserID scope, ubr_port = 0, ubr_scope_type = [], ubr_service_id = None,
      ubr_expires_at = None, ubr_enabled = False, ubr_label = [], ubr_reason = [], ubr_owner = pms_Owner scope,
      ubr_created_at = se_now env, ubr_updated_at = se_now env\<rparr>"

definition getUDPSourcePortBlock ::
    "store_env \<Rightarrow> transaction \<Rightarrow> string \<Rightarrow> policyMutationScope \<Rightarrow> control_error + UDPSourcePortBlock" where
  "getUDPSourcePortBlock env tx uid scope =
     bind_ok (sql_get env ''udp source port block'' udp_source_port_blocks
         (\<lambda>r. ubr_id r = uid \<and> mutable scope tx (ubr_scope_type r) (ubr_owner_user_id r)) tx)
       (scanUDPSourcePortBlock True)"

definition CreateUDPSourcePortBlock ::
    "store_env \<Rightarrow> control_db \<Rightarrow> go_context \<Rightarrow> Actor option \<Rightarrow> UDPSourcePortBlockInput \<Rightarrow> string \<Rightarrow>
     control_db \<times> (control_error + UDPSourcePortBlock)" where
  "CreateUDPSourcePortBlock env db ctx actor input0 reason0 =
     or_fail db (requirePolicyMutation actor (ui_ScopeType input0) [] (ui_ServiceID input0)) (\<lambda>scope.
     (let input = scoped_udp scope input0; reason = mutationReason reason0 (ui_Reason input) in
     or_fail db (
       bind_ok (valid_input (validateUDPSourcePortBlockInput input)) (\<lambda>_.
       bind_ok (require_reason reason) (\<lambda>_. db_guard env NewUUID []))) (\<lambda>_.
     scoped_mutation env db ctx actor scope reason (\<lambda>actor tx.
       bind_ok (service_reference env tx (ui_ServiceID input)) (\<lambda>serviceID.
       (let row = udp_columns scope input serviceID reason (boolDefault (ui_Enabled input) True)
              (new_udp_row env (tx_db tx) scope) in
       bind_ok (references_user tx (ubr_owner_user_id row)) (\<lambda>_.
       bind_ok (sql_insert env ''udp_source_port_blocks'' udp_source_port_blocks udp_source_port_blocks_update
           udp_clash row tx) (\<lambda>tx.
       bind_ok (scanUDPSourcePortBlock True row) (\<lambda>entry.
       bind_ok (insertAudit env ctx tx actor ''create_udp_source_port_block'' ''udp_source_port_block'' (ub_ID entry)
           reason) (\<lambda>tx.
       Inr (tx, entry)))))))))))"

definition UpdateUDPSourcePortBlock ::
    "store_env \<Rightarrow> control_db \<Rightarrow> go_context \<Rightarrow> Actor option \<Rightarrow> string \<Rightarrow> UDPSourcePortBlockInput \<Rightarrow> string \<Rightarrow>
     control_db \<times> (control_error + UDPSourcePortBlock)" where
  "UpdateUDPSourcePortBlock env db ctx actor uid input0 reason0 =
     or_fail db (requirePolicyMutation actor (ui_ScopeType input0) [] (ui_ServiceID input0)) (\<lambda>scope.
     (let input = scoped_udp scope input0; reason = mutationReason reason0 (ui_Reason input) in
     or_fail db (bind_ok (valid_input (validateUDPSourcePortBlockInput input)) (\<lambda>_. require_reason reason)) (\<lambda>_.
     scoped_mutation env db ctx actor scope reason (\<lambda>actor tx.
       bind_ok (getUDPSourcePortBlock env tx uid scope) (\<lambda>before.
       bind_ok (service_reference env tx (ui_ServiceID input)) (\<lambda>serviceID.
       bind_ok (sql_update env ''udp_source_port_blocks'' udp_source_port_blocks udp_source_port_blocks_update
           udp_clash (\<lambda>r. ubr_id r = uid \<and> mutable scope tx (ubr_scope_type r) (ubr_owner_user_id r))
           (\<lambda>r. (udp_columns scope input serviceID reason (boolDefault (ui_Enabled input) (ub_Enabled before)) r)
              \<lparr>ubr_updated_at := se_now env\<rparr>) tx) (\<lambda>(tx, row).
       bind_ok (scanUDPSourcePortBlock True row) (\<lambda>entry.
       bind_ok (insertAudit env ctx tx actor ''update_udp_source_port_block'' ''udp_source_port_block'' uid reason) (\<lambda>tx.
       Inr (tx, entry))))))))))"

definition DisableUDPSourcePortBlock ::
    "store_env \<Rightarrow> control_db \<Rightarrow> go_context \<Rightarrow> Actor option \<Rightarrow> string \<Rightarrow> string \<Rightarrow>
     control_db \<times> (control_error + UDPSourcePortBlock)" where
  "DisableUDPSourcePortBlock env db ctx actor uid reason =
     or_fail db (requirePolicyMutation actor [] [] []) (\<lambda>scope.
     or_fail db (require_reason (TrimSpace reason)) (\<lambda>_.
     scoped_mutation env db ctx actor scope reason (\<lambda>actor tx.
       bind_ok (getUDPSourcePortBlock env tx uid scope) (\<lambda>before.
       bind_ok (sql_update env ''udp_source_port_blocks'' udp_source_port_blocks udp_source_port_blocks_update
           udp_clash (\<lambda>r. ubr_id r = uid \<and> mutable scope tx (ubr_scope_type r) (ubr_owner_user_id r))
           (\<lambda>r. r\<lparr>ubr_enabled := False, ubr_reason := TrimSpace reason, ubr_updated_at := se_now env\<rparr>) tx)
         (\<lambda>(tx, row).
       bind_ok (scanUDPSourcePortBlock True row) (\<lambda>entry.
       bind_ok (insertAudit env ctx tx actor ''disable_udp_source_port_block'' ''udp_source_port_block'' uid
           (TrimSpace reason)) (\<lambda>tx.
       Inr (tx, entry))))))))"

subsection \<open>Rules with a time to live\<close>

definition rule_expired :: "int \<Rightarrow> rule_row \<Rightarrow> bool" where
  "rule_expired now r \<longleftrightarrow> rl_enabled r \<and> (case rl_expires_at r of None \<Rightarrow> False | Some t \<Rightarrow> t \<le> now)"

text \<open>Disables the rules in turn; \<open>P\<close> is the rest of the condition of the update.\<close>

fun expire_rules ::
    "store_env \<Rightarrow> go_context \<Rightarrow> (rule_row \<Rightarrow> bool) \<Rightarrow> rule_row list \<Rightarrow> transaction \<Rightarrow> control_error + transaction" where
  "expire_rules env ctx P [] tx = Inr tx"
| "expire_rules env ctx P (before # rest) tx =
     bind_ok (sql_update env ''rules'' rules rules_update rule_clash (\<lambda>r. rl_id r = rl_id before \<and> P r)
         (\<lambda>r. r\<lparr>rl_enabled := False, rl_updated_at := se_now env\<rparr>) tx) (\<lambda>(tx, row).
     bind_ok (scanRule False row) (\<lambda>_.
     bind_ok (insertAudit env ctx tx None ''expire_rule'' ''rule'' (rl_id before) ''ttl expired'') (\<lambda>tx.
     expire_rules env ctx P rest tx)))"

definition by_expiry :: "rule_row \<Rightarrow> rule_row \<Rightarrow> bool" where
  "by_expiry a b \<longleftrightarrow> the (rl_expires_at a) < the (rl_expires_at b)"

text \<open>The expiry of one owner. The count is returned also when the commit fails.\<close>

definition expireOwnerTTLRules ::
    "store_env \<Rightarrow> control_db \<Rightarrow> go_context \<Rightarrow> control_db \<times> nat \<times> control_error list" where
  "expireOwnerTTLRules env db ctx = (case beginContextOwnerTx env db ctx of
     Inl e \<Rightarrow> (db, 0, [e])
   | Inr tx \<Rightarrow>
       (case bind_ok (sql_select env ''rules'' rules (\<lambda>r. rule_expired (se_now env) r \<and> owned tx (rl_owner_user_id r)) tx)
          (\<lambda>rows. bind_ok (map_rows (scanRule False) (sort_slice by_expiry rows)) (\<lambda>_.
          Inr (sort_slice by_expiry rows))) of
          Inl e \<Rightarrow> (db, 0, [e])
        | Inr expired \<Rightarrow>
            (case (if expired = [] then Inr tx
                   else bind_ok (expire_rules env ctx (\<lambda>r. owned tx (rl_owner_user_id r)) expired tx) (\<lambda>tx.
                        bind_ok (rebuildSnapshotInTx env ctx tx None None ''ttl expired'') (\<lambda>(tx, _). Inr tx))) of
               Inl e \<Rightarrow> (db, 0, [e])
             | Inr tx \<Rightarrow> (case tx_Commit env tx of
                 Inl e \<Rightarrow> (db, length expired, [e]) | Inr db' \<Rightarrow> (db', length expired, [])))))"

definition expireAdminGlobalTTLRules ::
    "store_env \<Rightarrow> control_db \<Rightarrow> go_context \<Rightarrow> control_db \<times> nat \<times> control_error list" where
  "expireAdminGlobalTTLRules env db ctx = (case beginUnscopedTx env db of
     Inl e \<Rightarrow> (db, 0, [e])
   | Inr tx \<Rightarrow>
       (case bind_ok (sql_select env ''rules'' rules
            (\<lambda>r. rule_expired (se_now env) r \<and> rl_scope_type r = ''admin_global'') tx)
          (\<lambda>rows. bind_ok (map_rows (scanRule False) (sort_slice by_expiry rows)) (\<lambda>_.
          Inr (sort_slice by_expiry rows))) of
          Inl e \<Rightarrow> (db, 0, [e])
        | Inr expired \<Rightarrow>
            (case expire_rules env ctx (\<lambda>r. rl_scope_type r = ''admin_global'') expired tx of
               Inl e \<Rightarrow> (db, 0, [e])
             | Inr tx \<Rightarrow> (case tx_Commit env tx of
                 Inl e \<Rightarrow> (db, 0, [e])
               | Inr db' \<Rightarrow>
                   if expired = [] then (db', 0, [])
                   else (case rebuildAllActiveUserSnapshots env db' ctx None ''ttl expired'' of
                     (db'', Inl e) \<Rightarrow> (db'', length expired, [e])
                   | (db'', Inr _) \<Rightarrow> (db'', length expired, []))))))"

fun expire_owners ::
    "store_env \<Rightarrow> go_context \<Rightarrow> string list \<Rightarrow> control_db \<times> nat \<times> control_error list \<Rightarrow>
     control_db \<times> nat \<times> control_error list" where
  "expire_owners env ctx [] acc = acc"
| "expire_owners env ctx (owner # owners) (db, n, errors) =
     (case expireOwnerTTLRules env db (contextWithOwner ctx owner) of
        (db', k, e) \<Rightarrow> expire_owners env ctx owners (db', n + k, errors @ e))"

definition ExpireTTLRules ::
    "store_env \<Rightarrow> control_db \<Rightarrow> go_context \<Rightarrow> control_db \<times> nat \<times> control_error list" where
  "ExpireTTLRules env db ctx =
     (if ownerUserIDFromContext ctx = [] then
        (case expireAdminGlobalTTLRules env db ctx of
           (db', adminCount, adminErr) \<Rightarrow>
             (case activeOwnerUserIDs env db' of
                Inl e \<Rightarrow> (db', adminCount, adminErr @ [e])
              | Inr owners \<Rightarrow> expire_owners env ctx owners (db', adminCount, adminErr)))
      else expireOwnerTTLRules env db ctx)"

end
