(* ===== verification/SnapshotDistribution.thy ===== *)
theory SnapshotDistribution
  imports SnapshotHistory
begin

section \<open>Roll back, unchanged policies, and what an agent fetches\<close>

text \<open>
  Consequences of the invariant of \<^verbatim>\<open>policy_snapshots\<close> for the operations of
  \<^verbatim>\<open>internal/control/snapshot.go\<close> that users and agents call.
\<close>

subsection \<open>Content of a snapshot\<close>

text \<open>Everything that the canonical form has but the version.\<close>

definition content_of :: "PolicySnapshot \<Rightarrow> canonicalPolicySnapshot" where
  "content_of s = canonicalizePolicySnapshot (s\<lparr>snap_Version := 0, snap_Checksum := []\<rparr>)"

lemma fingerprint_content: "policyContentFingerprint digest s = digest (content_of s)"
  by (simp add: policyContentFingerprint_def CanonicalPolicyChecksum_def content_of_def)

lemma normalize_version:
  "normalizePolicySnapshot (s\<lparr>snap_Version := v\<rparr>) = (normalizePolicySnapshot s)\<lparr>snap_Version := v\<rparr>"
  by (simp add: normalizePolicySnapshot_def)

lemma content_version [simp]: "content_of (s\<lparr>snap_Version := v\<rparr>) = content_of s"
  by (simp add: content_of_def)

lemma content_checksum [simp]: "content_of (s\<lparr>snap_Checksum := c\<rparr>) = content_of s"
  by (simp add: content_of_def canonicalizePolicySnapshot_def normalizePolicySnapshot_def)

lemma content_normalize [simp]: "content_of (normalizePolicySnapshot s) = content_of s"
proof -
  have "(normalizePolicySnapshot s)\<lparr>snap_Version := 0, snap_Checksum := []\<rparr> =
      normalizePolicySnapshot (s\<lparr>snap_Version := 0, snap_Checksum := []\<rparr>)"
    by (simp add: normalizePolicySnapshot_def)
  then show ?thesis unfolding content_of_def by simp
qed

lemma content_Sign [simp]: "content_of (SignPolicySnapshot digest s) = content_of s"
  by (simp add: SignPolicySnapshot_def)

lemma first_row_Inr: "first_row P rows = Inr r \<Longrightarrow> r \<in> set rows \<and> P r"
  by (auto simp: first_row_def find_Some_iff split: option.splits)

text \<open>
  C21. A roll back stores the old policy again under a new version. When it succeeds, the table
  gains exactly one row: its snapshot has the content of the snapshot stored under the target
  version (of the same owner), its version is the latest version plus one, its origin is recorded,
  and the policy tables are unchanged; in every other case the tables are unchanged.
\<close>

theorem rollback_restores:
  "case RollbackSnapshot env db ctx actor v reason of
     (db', Inl e) \<Rightarrow> db' = db
   | (db', Inr meta) \<Rightarrow>
       (\<exists>owner actor' old latest target s.
          owner = TrimSpace (actorOwnerUserID actor) \<and>
          old \<in> set (owner_rows db owner) \<and> psr_version old = uint v \<and>
          se_Unmarshal env (psr_snapshot old) = Some target \<and>
          latest \<in> set (owner_rows db owner) \<and>
          (\<forall>r\<in>set (owner_rows db owner). psr_version r \<le> psr_version latest) \<and>
          policy_snapshots db' = policy_snapshots db @
            [stored_row (se_Marshal env) owner s (Some (snap_Version s - 1)) actor'] \<and>
          content_of s = content_of target \<and> uint (snap_Version s) = psr_version latest + 1 \<and>
          sm_Version meta = snap_Version s \<and> same_policy db db')"
proof (cases "RollbackSnapshot env db ctx actor v reason")
  case (Pair db' out)
  show ?thesis
  proof (cases out)
    case (Inl e)
    then have "db' = db"
      using Pair by (auto simp: RollbackSnapshot_def commit_or_drop_def split: option.splits if_splits prod.splits sum.splits)
    then show ?thesis using Pair Inl by simp
  next
    case (Inr meta)
    obtain a began where b: "beginActorOwnerTx env db actor = (a, began)" by fastforce
    with Pair Inr have "commit_or_drop env db
        (bind_ok began (\<lambda>tx. rollback_in_tx env ctx tx a v reason)) = (db', Inr meta)"
      by (auto simp: RollbackSnapshot_def split: option.splits if_splits)
    then obtain tx tx' where tx: "began = Inr tx" and r: "rollback_in_tx env ctx tx a v reason = Inr (tx', meta)"
      and db': "db' = tx_db tx'"
      by (cases rule: commit_or_drop_cases) (auto split: sum.splits)
    have owner: "tx_db tx = db" "tx_owner tx = TrimSpace (actorOwnerUserID actor)" "tx_owner tx \<noteq> []"
      using b tx by (auto simp: beginActorOwnerTx_def Let_def dest!: begin_owner_tx split: option.splits)
    from r show ?thesis
    proof (cases rule: rollback_cases)
      case (1 lmeta raw traw target s)
      obtain row rest where row: "newest_first (owned_snapshots tx) = row # rest"
        "uint (sm_Version lmeta) = psr_version row"
        using latestSnapshot_Inr [OF 1(1)] by metis
      obtain old where old: "old \<in> set (owned_snapshots tx)" "psr_version old = uint v" "traw = psr_snapshot old"
        using 1(2) by (auto simp: snapshotRaw_def dest!: first_row_Inr split: sum.splits)
      have sv: "snap_Version s = sm_Version lmeta + 1" by (simp add: 1(4))
      then have "uint (snap_Version s) = psr_version row + 1"
        using storable_version [OF 1(5)] uint_succ [of "sm_Version lmeta"] row(2) by simp
      moreover have "content_of s = content_of target"
        unfolding 1(4) content_Sign content_checksum content_version ..
      moreover have "sm_Version meta = snap_Version s" by (simp add: 1(6) snapshot_meta_def)
      moreover have "sm_Version lmeta = snap_Version s - 1" by (simp add: sv)
      moreover have rows: "owned_snapshots tx = owner_rows db (tx_owner tx)"
        using owner by (simp add: owned_snapshots_eq)
      moreover have "\<forall>r\<in>set (owner_rows db (tx_owner tx)). psr_version r \<le> psr_version row"
        using newest_head(2) [OF row(1)] rows by simp
      ultimately show ?thesis
        using newest_head(1) [OF row(1)] old 1(3,9,10) owner unfolding Pair Inr prod.case sum.case db'
        by (intro exI [of _ "tx_owner tx"] exI [of _ a] exI [of _ old] exI [of _ row] exI [of _ target]
            exI [of _ s]) simp
    qed
  qed
qed

subsection \<open>An unchanged policy is stored once\<close>

lemma same_policy_tables:
  assumes "same_policy db db'"
  shows "backend_services db' = backend_services db" and "forwarding_policies db' = forwarding_policies db"
    and "whitelist_entries db' = whitelist_entries db"
    and "manual_blacklist_entries db' = manual_blacklist_entries db"
    and "udp_source_port_blocks db' = udp_source_port_blocks db" and "rules db' = rules db"
    and "feed_sources db' = feed_sources db" and "reputation_entries db' = reputation_entries db"
  using assms unfolding same_policy_def by (cases db; cases db'; simp)+

lemma build_same_policy:
  assumes "same_policy (tx_db tx) (tx_db tx')" and "tx_owner tx' = tx_owner tx"
  shows "buildEffectiveSnapshot env tx' v = buildEffectiveSnapshot env tx v"
proof -
  note t = same_policy_tables [OF assms(1)]
  have e: "service_ebpf (tx_db tx') = service_ebpf (tx_db tx)" "rule_ebpf (tx_db tx') = rule_ebpf (tx_db tx)"
    by (simp_all add: service_ebpf_def rule_ebpf_def fun_eq_iff t)
  have "whitelist_candidate (tx_db tx') = whitelist_candidate (tx_db tx)"
    "udp_block_candidate (tx_db tx') = udp_block_candidate (tx_db tx)"
    "scan_rule (tx_db tx') = scan_rule (tx_db tx)"
    unfolding whitelist_candidate_def [abs_def] udp_block_candidate_def [abs_def] scan_rule_def [abs_def] e
    by (rule refl)+
  moreover have "whitelist_rows env tx' = whitelist_rows env tx" "udp_block_rows env tx' = udp_block_rows env tx"
    "rule_rows env tx' = rule_rows env tx" "forwarding_rows tx' = forwarding_rows tx"
    "backend_rows tx' = backend_rows tx"
    by (simp_all add: whitelist_rows_def udp_block_rows_def rule_rows_def forwarding_rows_def backend_rows_def
        t assms(2))
  moreover have "blacklist_rows env tx' = blacklist_rows env tx"
    by (simp add: blacklist_rows_def reputation_rows_def manual_blacklist_rows_def global_feed_enabled_def
        t e assms(2))
  ultimately have "snapshotRules env tx' = snapshotRules env tx"
    "snapshotServices env tx' = snapshotServices env tx" "snapshotWhitelist env tx' = snapshotWhitelist env tx"
    "snapshotBlacklist env tx' = snapshotBlacklist env tx"
    "snapshotUDPSourcePortBlocks env tx' = snapshotUDPSourcePortBlocks env tx"
    by (simp_all add: snapshotRules_def snapshotServices_def [abs_def] snapshotWhitelist_def
        snapshotBlacklist_def snapshotUDPSourcePortBlocks_def snapshotServicesFromForwardingPolicies_def
        snapshotServicesFromBackendServices_def assms(2) cong: sum.case_cong)
  then show ?thesis unfolding buildEffectiveSnapshot_def by (simp only:)
qed

lemma build_version:
  "buildEffectiveSnapshot env tx v = Inr s \<Longrightarrow>
    buildEffectiveSnapshot env tx w = Inr (s\<lparr>snap_Version := w\<rparr>)"
  by (auto simp: buildEffectiveSnapshot_def split: sum.splits)

lemma validate_version_update:
  "validatePolicyEntries (s\<lparr>snap_Version := v\<rparr>) opts now = validatePolicyEntries s opts now"
  by (simp add: validatePolicyEntries_def)

lemma err_if_Nil: "err_if b e = [] \<longleftrightarrow> \<not> b"
  by simp

lemma verify_header_Nil:
  "verify_header digest s opts = [] \<longleftrightarrow>
     snap_SchemaVersion s = 1 \<and> snap_Version s \<noteq> 0 \<and> TrimSpace (snap_ObjectChecksum s) \<noteq> [] \<and>
     (vo_CurrentVersion opts = 0 \<or> vo_CurrentVersion opts < snap_Version s) \<and>
     (vo_ObjectChecksum opts = [] \<or> snap_ObjectChecksum s = [] \<or> snap_ObjectChecksum s = vo_ObjectChecksum opts) \<and>
     snap_Checksum s \<noteq> [] \<and> CanonicalPolicyChecksum digest s = snap_Checksum s \<and>
     prc_MalformedPolicy (snap_Runtime s) = actionDrop \<and>
     prc_SampleDenom (snap_Runtime s) \<le> maxEventSampleDenom \<and>
     (\<forall>flag\<in>set (snap_FeatureFlags s). flag \<in> set supportedPolicyFeatureFlags)"
proof -
  have "(if snap_Checksum s = [] then [ChecksumRequired]
      else let expected = CanonicalPolicyChecksum digest s in
        if expected \<noteq> snap_Checksum s then [ChecksumMismatch expected (snap_Checksum s)] else []) = [] \<longleftrightarrow>
     snap_Checksum s \<noteq> [] \<and> CanonicalPolicyChecksum digest s = snap_Checksum s"
    by (simp add: Let_def)
  then show ?thesis
    unfolding verify_header_def append_is_Nil_conv map_is_Nil_conv filter_empty_conv err_if_Nil
    by (simp only: not_less not_le de_Morgan_conj not_not conj_assoc)
qed

text \<open>Acceptance depends on the version only through its tests against 0 and the current one.\<close>

lemma Verify_Sign_version:
  assumes "snd (VerifyPolicySnapshot digest clock (SignPolicySnapshot digest s) opts) = []"
    and "v \<noteq> 0" and "vo_CurrentVersion opts' = 0 \<or> vo_CurrentVersion opts' < v"
    and "\<forall>c. digest c \<noteq> []"
    and "opts' = opts\<lparr>vo_CurrentVersion := cur, vo_ObjectChecksum := oc\<rparr>"
    and "oc = [] \<or> oc = snap_ObjectChecksum s"
  shows "snd (VerifyPolicySnapshot digest clock (SignPolicySnapshot digest (s\<lparr>snap_Version := v\<rparr>)) opts') = []"
proof -
  let ?n = "normalizePolicySnapshot s"
  let ?now = "word_of_int (case vo_Now opts of None \<Rightarrow> clock | Some t \<Rightarrow> t)"
  have ne: "CanonicalPolicyChecksum digest x \<noteq> []" for x
    using assms(4) by (simp add: CanonicalPolicyChecksum_def)
  have checksum: "CanonicalPolicyChecksum digest (?n\<lparr>snap_Version := v, snap_Checksum := c\<rparr>) =
      CanonicalPolicyChecksum digest (s\<lparr>snap_Version := v\<rparr>)" for c
    by (simp add: normalize_version [symmetric])
  have "verify_header digest (?n\<lparr>snap_Checksum := CanonicalPolicyChecksum digest s\<rparr>) opts = []"
    and val: "snd (validatePolicyEntries ?n opts ?now) = []"
    using assms(1) by (simp_all add: snd_Verify Let_def validate_checksum_update)
  then have h: "verify_header digest (?n\<lparr>snap_Version := v, snap_Checksum :=
      CanonicalPolicyChecksum digest (s\<lparr>snap_Version := v\<rparr>)\<rparr>) opts' = []"
    using assms(2,3,6) ne checksum unfolding verify_header_Nil by (simp add: assms(5)) blast
  moreover have "validatePolicyEntries ?n opts' ?now = validatePolicyEntries ?n opts ?now"
  proof -
    have "vo_CapacityOverrides opts' = vo_CapacityOverrides opts"
      "vo_MemoryBudgetBytes opts' = vo_MemoryBudgetBytes opts"
      "vo_AllowUnresolvedServices opts' = vo_AllowUnresolvedServices opts"
      by (simp_all add: assms(5))
    then show ?thesis unfolding validatePolicyEntries_def by (simp only:)
  qed
  ultimately show ?thesis
    using val
    by (simp add: snd_Verify Let_def validate_checksum_update normalize_version validate_version_update
        SignPolicySnapshot_def assms(5))
qed

lemma newest_unique:
  assumes "r \<in> set rows" and "\<forall>r'\<in>set rows. r' \<noteq> r \<longrightarrow> psr_version r' < psr_version r"
  obtains rest where "newest_first rows = r # rest"
proof -
  have "newest_first rows \<noteq> []" using assms(1) by auto
  then obtain row rest where head: "newest_first rows = row # rest" by (metis list.exhaust)
  from newest_head [OF this] assms have "row = r" by force
  with head that show thesis by blast
qed

text \<open>
  The codec of the stored snapshots, on the texts of the table: a text that encodes a snapshot
  decodes to that snapshot.
\<close>

definition codec_inverts :: "store_env \<Rightarrow> control_db \<Rightarrow> bool" where
  "codec_inverts env db \<longleftrightarrow> (\<forall>row\<in>set (policy_snapshots db). \<forall>s.
     se_Marshal env s = psr_snapshot row \<longrightarrow> se_Unmarshal env (psr_snapshot row) = Some s)"

lemma latest_after_insert:
  assumes "latestSnapshot env tx = Inr latest" and "tx_owner tx \<noteq> []" and "tx_owner tx' = tx_owner tx"
    and "snap_Version s = (case latest of None \<Rightarrow> 1 | Some (meta, _) \<Rightarrow> sm_Version meta + 1)" and "snap_Version s \<noteq> 0"
    and "policy_snapshots (tx_db tx') = policy_snapshots (tx_db tx) @ [stored_row marshal (tx_owner tx) s None actor]"
  shows "\<exists>meta. latestSnapshot env tx' = Inr (Some (meta, marshal s)) \<and> sm_Version meta = snap_Version s"
proof -
  let ?row = "stored_row marshal (tx_owner tx) s None actor"
  have rows: "owned_snapshots tx' = owned_snapshots tx @ [?row]"
    using assms(2,3,6) by (simp add: owned_snapshots_eq owner_rows_def stored_row_def)
  have old: "psr_version r < uint (snap_Version s)" if "r \<in> set (owned_snapshots tx)" for r
  proof (cases latest)
    case None
    then show ?thesis using latestSnapshot_None assms(1) that by fastforce
  next
    case (Some mr)
    then obtain meta raw where mr: "latest = Some (meta, raw)" by (cases mr) auto
    obtain row rest where "newest_first (owned_snapshots tx) = row # rest"
      "uint (sm_Version meta) = psr_version row"
      using assms(1) mr latestSnapshot_Inr by metis
    then have "psr_version r \<le> uint (sm_Version meta)" using newest_head(2) that by metis
    also have "\<dots> < uint (snap_Version s)"
      using assms(4,5) uint_succ [of "sm_Version meta"] by (simp add: mr)
    finally show ?thesis .
  qed
  have "psr_version ?row = uint (snap_Version s)" by (simp add: stored_row_def)
  then obtain rest where head: "newest_first (owned_snapshots tx') = ?row # rest"
    using newest_unique [of ?row "owned_snapshots tx'"] old rows by auto
  have ok: "db_guard env QueryLatestSnapshot (tx_owner tx') = Inr ()"
    using assms(1,3) by (auto simp: latestSnapshot_def db_guard_def split: if_splits)
  have "scan_u32 (uint (snap_Version s)) = Inr (snap_Version s)"
    using uint_lt2p [of "snap_Version s"] by (simp add: scan_u32_def)
  then show ?thesis
    by (simp add: latestSnapshot_def ok head scanSnapshot_def) (simp add: stored_row_def)
qed

lemma rebuild_again:
  assumes "rebuildSnapshotInTx env ctx tx actor None reason = Inr (tx', Some meta)"
    and "codec_inverts env (tx_db tx')" and "sm_Version meta + 1 \<noteq> 0" and "\<forall>c. se_digest env c \<noteq> []"
  shows "rebuildSnapshotInTx env ctx tx' actor None reason = Inr (tx', None)"
  using assms(1)
proof (cases rule: rebuild_cases)
  case (stored latest built)
  let ?s = "SignPolicySnapshot (se_digest env) built"
  let ?v = "sm_Version meta + 1"
  let ?t = "SignPolicySnapshot (se_digest env) (built\<lparr>snap_Version := ?v\<rparr>)"
  have version: "snap_Version ?s = (case latest of None \<Rightarrow> 1 | Some (meta, _) \<Rightarrow> sm_Version meta + 1)"
    using build_parts(6) [OF stored(2)] by simp
  have sm: "sm_Version meta = snap_Version ?s" using stored(4) by (simp add: snapshot_meta_def)
  obtain lm where l: "latestSnapshot env tx' = Inr (Some (lm, se_Marshal env ?s))" and lm: "sm_Version lm = snap_Version ?s"
    using latest_after_insert [OF stored(1,5,6) version storable_version [OF stored(3)] stored(8)] by blast
  have b: "buildEffectiveSnapshot env tx' ?v = Inr (built\<lparr>snap_Version := ?v\<rparr>)"
    using build_version [OF stored(2)] build_same_policy [OF stored(7,6)] by simp
  have acc: "snd (VerifyPolicySnapshot (se_digest env) (se_clock env) ?s (store_verify_options env)) = []"
    using stored(3) by (simp add: storable_def store_verify_options_def)
  have v: "snd (VerifyPolicySnapshot (se_digest env) (se_clock env) ?t (store_verify_options env)) = []"
    by (rule Verify_Sign_version [where cur = 0 and oc = "[]", OF acc assms(3) _ assms(4)]) (simp_all add: store_verify_options_def)
  have "psr_snapshot (stored_row (se_Marshal env) (tx_owner tx) ?s None actor) = se_Marshal env ?s"
    by (simp add: stored_row_def)
  then have "se_Unmarshal env (se_Marshal env ?s) = Some ?s"
    using assms(2) stored(8) unfolding codec_inverts_def by (metis in_set_conv_decomp)
  then have "same_content env (Some (se_Marshal env ?s)) ?t"
    by (simp add: same_content_def fingerprint_content)
  then show ?thesis
    using l b v sm lm by (simp add: rebuildSnapshotInTx_def Let_def)
qed simp

text \<open>
  C12. A policy that did not change is not stored again. After a rebuild that stored a snapshot, a
  second rebuild for the same owner (same time and failures, digests not empty, the version below
  the maximum) stores nothing: it reports no new version and leaves the tables as they are.
\<close>

theorem rebuild_idempotent:
  assumes "RebuildSnapshot env db ctx actor reason = (db', Inr (Some meta))"
    and "codec_inverts env db'" and "sm_Version meta + 1 \<noteq> 0" and "\<forall>c. se_digest env c \<noteq> []"
  shows "RebuildSnapshot env db' ctx actor reason = (db', Inr None)"
proof -
  have pre: "requireConfigMutation actor = None" "TrimSpace reason \<noteq> []"
    using assms(1) by (auto simp: RebuildSnapshot_def split: option.splits if_splits)
  obtain a began where b: "beginActorOwnerTx env db actor = (a, began)" by fastforce
  with assms(1) pre have "commit_or_drop env db
      (bind_ok began (\<lambda>tx. rebuildSnapshotInTx env ctx tx a None reason)) = (db', Inr (Some meta))"
    by (simp add: RebuildSnapshot_def)
  then obtain tx tx' where tx: "began = Inr tx"
    and r: "rebuildSnapshotInTx env ctx tx a None reason = Inr (tx', Some meta)"
    and db': "tx_Commit env tx' = Inr db'"
    by (auto simp: commit_or_drop_def split: sum.splits)
  have d: "tx_db tx' = db'" using db' by (simp add: tx_Commit_def split: if_splits)
  have "tx_owner tx' = tx_owner tx" using r by (cases rule: rebuild_cases) simp_all
  then have begin': "beginActorOwnerTx env db' actor = (a, Inr tx')"
    using b tx d
    by (cases tx') (auto simp: beginActorOwnerTx_def beginOwnerTx_def begin_with_setting_def Let_def
        split: option.splits if_splits sum.splits)
  have "rebuildSnapshotInTx env ctx tx' a None reason = Inr (tx', None)"
    using rebuild_again [OF r] assms(2-4) d by simp
  then show ?thesis
    using pre begin' db' by (simp add: RebuildSnapshot_def commit_or_drop_def)
qed

subsection \<open>The clock and the capacities of another verification\<close>

text \<open>
  The control plane verifies a snapshot at its own clock with the default capacities, an agent at another clock with
  its own. The loops depend on the clock only through the entries that are expired.
\<close>

definition unexpired_at :: "u64 \<Rightarrow> PolicySnapshot \<Rightarrow> bool" where
  "unexpired_at now s \<longleftrightarrow>
     list_all (\<lambda>e. \<not> entry_expired now (ce_ExpiresAtUnixNS e)) (snap_WhitelistV4 s @ snap_BlacklistV4 s) \<and>
     list_all (\<lambda>u. \<not> entry_expired now (ub_ExpiresAtUnixNS u)) (snap_UDPSourcePortBlocks s) \<and>
     list_all (\<lambda>r. \<not> entry_expired now (pr_ExpiresAtUnixNS r)) (snap_Rules s)"

lemma never_expired_0 [simp]: "\<not> entry_expired 0 x"
  by (simp add: entry_expired_def)

lemma cidr_loop_clock:
  "fst (cidr_loop t now gk sk es) = [] \<longleftrightarrow>
     fst (cidr_loop t 0 gk sk es) = [] \<and> (\<forall>e\<in>set es. \<not> entry_expired now (ce_ExpiresAtUnixNS e))"
  "snd (cidr_loop t now gk sk es) = snd (cidr_loop t 0 gk sk es)"
  by (induction es arbitrary: gk sk) (auto simp: Let_def case_prod_beta split: sum.splits)

lemma udp_loop_clock:
  "fst (udp_loop now pk sk es) = [] \<longleftrightarrow>
     fst (udp_loop 0 pk sk es) = [] \<and> (\<forall>e\<in>set es. \<not> entry_expired now (ub_ExpiresAtUnixNS e))"
  "snd (udp_loop now pk sk es) = snd (udp_loop 0 pk sk es)"
  by (induction es arbitrary: pk sk) (auto simp: Let_def case_prod_beta)

lemma rule_loop_clock:
  assumes "rule_loop c now seen rs = []" and "0 < c" and "c \<le> c'"
  shows "rule_loop c' now' seen rs = [] \<longleftrightarrow> (\<forall>r\<in>set rs. \<not> entry_expired now' (pr_ExpiresAtUnixNS r))"
  using assms(1)
proof (induction rs arbitrary: seen)
  case (Cons r rs)
  then have "pr_RuleID r < c" using assms(2) by (simp split: if_splits)
  then have "\<not> c' \<le> pr_RuleID r" using assms(3) by simp
  then show ?case using Cons by (auto split: if_splits)
qed simp

lemma service_loop_own_keys:
  "snd (service_loop c' allow seen targets keys ss) = snd (service_loop c allow seen targets keys ss)"
  by (induction ss arbitrary: seen targets keys) (auto simp: Let_def case_prod_beta split: sum.splits)

lemma service_loop_room:
  assumes "fst (service_loop c allow seen targets keys ss) = []" and "0 < c" and "c \<le> c'"
  shows "fst (service_loop c' allow seen targets keys ss) = []"
  using assms(1)
proof (induction ss arbitrary: seen targets keys)
  case (Cons s ss)
  obtain key where key: "serviceMapKey s = Inr key"
    using Cons.prems by (auto simp: case_prod_beta split: sum.splits)
  have "\<not> (0 < c \<and> c \<le> ps_DevmapKey s)"
    using Cons.prems by (auto simp: key Let_def case_prod_beta split: if_splits sum.splits)
  then have "\<not> c' \<le> ps_DevmapKey s" using assms(2,3) by auto
  then show ?case
    using Cons.prems Cons.IH by (auto simp: key Let_def case_prod_beta split: if_splits sum.splits)
qed simp

text \<open>Capacities that are not below the default ones.\<close>

definition roomy :: "(string \<rightharpoonup> u32) \<Rightarrow> bool" where
  "roomy ov \<longleftrightarrow> (\<forall>name. policy_capacity Map.empty name \<le> policy_capacity ov name)"

definition within_budget :: "PolicySnapshotVerifyOptions \<Rightarrow> u64 \<Rightarrow> bool" where
  "within_budget opts used \<longleftrightarrow> vo_MemoryBudgetBytes opts = 0 \<or> used \<le> vo_MemoryBudgetBytes opts"

lemma validate_elsewhere:
  assumes clean: "snd (validatePolicyEntries s opts0 now0) = []"
    and "vo_CapacityOverrides opts0 = Map.empty" and "roomy (vo_CapacityOverrides opts)"
    and "vo_AllowUnresolvedServices opts = vo_AllowUnresolvedServices opts0"
  shows "snd (validatePolicyEntries s opts now) = [] \<longleftrightarrow>
     unexpired_at now s \<and> within_budget opts (stats_EstimatedMemoryBytes (fst (validatePolicyEntries s opts now)))"
proof -
  let ?ov = "vo_CapacityOverrides opts"
  have cap: "n \<le> policy_capacity Map.empty name \<Longrightarrow> n \<le> policy_capacity ?ov name" for n name
    using assms(3) unfolding roomy_def by (meson order_trans)
  have pos: "0 < policy_capacity Map.empty ''tx_devmap''" "0 < policy_capacity Map.empty ''rule_config''" by code_simp+
  note ge = assms(3) [unfolded roomy_def, rule_format]
  note parts = clean [unfolded validate_errs Let_def append_is_Nil_conv cap_err_Nil assms(2)]
  have rules: "rule_loop (policy_capacity ?ov ''rule_config'') now [] (snap_Rules s) = [] \<longleftrightarrow>
      (\<forall>r\<in>set (snap_Rules s). \<not> entry_expired now (pr_ExpiresAtUnixNS r))"
    using rule_loop_clock [OF _ pos(2) ge] parts by blast
  have services: "fst (run_services s opts) = []"
    using service_loop_room [OF _ pos(1) ge] parts unfolding assms(4) by blast
  have keys: "snd (run_services s opts) = snd (run_services s opts0)"
    unfolding assms(4) by (rule service_loop_own_keys)
  have lists: "fst (whitelist_loop now (snap_WhitelistV4 s)) = [] \<longleftrightarrow>
        (\<forall>e\<in>set (snap_WhitelistV4 s). \<not> entry_expired now (ce_ExpiresAtUnixNS e))"
      "fst (blacklist_loop now (snap_BlacklistV4 s)) = [] \<longleftrightarrow>
        (\<forall>e\<in>set (snap_BlacklistV4 s). \<not> entry_expired now (ce_ExpiresAtUnixNS e))"
      "fst (udp_loop now [] [] (snap_UDPSourcePortBlocks s)) = [] \<longleftrightarrow>
        (\<forall>e\<in>set (snap_UDPSourcePortBlocks s). \<not> entry_expired now (ub_ExpiresAtUnixNS e))"
    using parts cidr_loop_clock(1) udp_loop_clock(1) unfolding whitelist_loop_def blacklist_loop_def by metis+
  have sizes: "snd (whitelist_loop now (snap_WhitelistV4 s)) = snd (whitelist_loop now0 (snap_WhitelistV4 s))"
      "snd (blacklist_loop now (snap_BlacklistV4 s)) = snd (blacklist_loop now0 (snap_BlacklistV4 s))"
      "snd (udp_loop now [] [] (snap_UDPSourcePortBlocks s)) = snd (udp_loop now0 [] [] (snap_UDPSourcePortBlocks s))"
    using cidr_loop_clock(2) udp_loop_clock(2) unfolding whitelist_loop_def blacklist_loop_def by metis+
  have budget: "budget_err opts used = [] \<longleftrightarrow> within_budget opts used" for used
    by (auto simp: within_budget_def word_gt_0 not_less)
  have fits: "fst (snd (whitelist_loop now0 (snap_WhitelistV4 s))) \<le> policy_capacity ?ov ''whitelist_v4''"
      "snd (snd (whitelist_loop now0 (snap_WhitelistV4 s))) \<le> policy_capacity ?ov ''whitelist_service_v4''"
      "fst (snd (blacklist_loop now0 (snap_BlacklistV4 s))) \<le> policy_capacity ?ov ''blacklist_v4''"
      "snd (snd (blacklist_loop now0 (snap_BlacklistV4 s))) \<le> policy_capacity ?ov ''blacklist_service_v4''"
      "fst (snd (udp_loop now0 [] [] (snap_UDPSourcePortBlocks s))) \<le> policy_capacity ?ov ''udp_source_port_blocks''"
      "snd (snd (udp_loop now0 [] [] (snap_UDPSourcePortBlocks s))) \<le> policy_capacity ?ov ''udp_source_port_service_blocks''"
      "of_nat (length (snap_Services s)) \<le> policy_capacity ?ov ''service_allowlist''"
      "of_nat (length (snd (run_services s opts0))) \<le> policy_capacity ?ov ''tx_devmap''"
      "of_nat (length (snap_Rules s)) \<le> policy_capacity ?ov ''rule_config''"
    using parts by (intro cap; simp add: assms(2))+
  show ?thesis
    unfolding validate_errs [of s opts now] Let_def append_is_Nil_conv cap_err_Nil rules services keys lists sizes budget
    using fits by (auto simp: unexpired_at_def list_all_iff)
qed

lemma unexpired_normalize: "unexpired_at now ((normalizePolicySnapshot s)\<lparr>snap_Checksum := c\<rparr>) = unexpired_at now s"
  by (simp add: unexpired_at_def normalizePolicySnapshot_def list_all_iff ball_Un)

subsection \<open>Agents\<close>

text \<open>
  The first verification of an agent that runs version \<open>active\<close>: any clock, object, memory budget, and capacities
  not below the default ones.
\<close>

definition agent_options :: "u32 \<Rightarrow> PolicySnapshotVerifyOptions \<Rightarrow> bool" where
  "agent_options active opts \<longleftrightarrow>
     vo_CurrentVersion opts = active \<and> vo_AllowUnresolvedServices opts \<and> roomy (vo_CapacityOverrides opts)"

lemma storable_elsewhere:
  assumes "storable digest clock0 s" and "agent_options active opts" and "active < snap_Version s"
  shows "snd (VerifyPolicySnapshot digest clock s opts) = [] \<longleftrightarrow>
    vo_ObjectChecksum opts \<in> {[], snap_ObjectChecksum s} \<and> unexpired_at (verify_now clock opts) s \<and>
    within_budget opts (stats_EstimatedMemoryBytes (fst (VerifyPolicySnapshot digest clock s opts)))"
proof -
  let ?s = "(normalizePolicySnapshot s)\<lparr>snap_Checksum := snap_Checksum s\<rparr>" and ?now = "verify_now clock opts"
  let ?o = "\<lparr>vo_CurrentVersion = 0, vo_ObjectChecksum = [], vo_Now = Some clock0, vo_CapacityOverrides = Map.empty,
      vo_MemoryBudgetBytes = 0, vo_AllowUnresolvedServices = True\<rparr>"
  have "verify_header digest ?s ?o = []" and clean: "snd (validatePolicyEntries ?s ?o (word_of_int clock0)) = []"
    using assms(1) by (simp_all add: storable_def snd_Verify Let_def)
  then have "verify_header digest ?s opts = [] \<longleftrightarrow> vo_ObjectChecksum opts \<in> {[], snap_ObjectChecksum s}"
    using assms(2,3) unfolding verify_header_Nil by (auto simp: agent_options_def normalizePolicySnapshot_def)
  moreover have "snd (validatePolicyEntries ?s opts ?now) = [] \<longleftrightarrow> unexpired_at ?now s \<and>
      within_budget opts (stats_EstimatedMemoryBytes (fst (validatePolicyEntries ?s opts ?now)))"
    using validate_elsewhere [OF clean, of opts ?now] assms(2) unfolding unexpired_normalize by (simp add: agent_options_def)
  moreover have "fst (VerifyPolicySnapshot digest clock s opts) = fst (validatePolicyEntries ?s opts ?now)"
    by (simp add: VerifyPolicySnapshot_def Let_def case_prod_beta)
  ultimately show ?thesis by (simp add: snd_Verify Let_def)
qed

text \<open>
  C14. An agent is given the newest snapshot of its owner, and accepts it unless something in it expired. Under the
  invariant of the table, what \<^verbatim>\<open>FetchSnapshot\<close> returns to an agent that runs version \<open>activeVersion\<close> is the snapshot with
  the highest version of the owner, newer than \<open>activeVersion\<close>. The first verification of the agent, at any
  clock and with capacities not below the default ones, accepts it exactly when the agent's XDP object is
  the snapshot's (or none is configured), no entry or rule of it is expired at that clock, and it fits the memory
  budget, if there is one. When nothing is returned, the owner has no newer version.
\<close>

theorem fetch_newest_accepted:
  assumes "history_ok (se_digest env) (se_Marshal env) db" and "codec_inverts env db"
    and "FetchSnapshot env db ctx activeVersion = Inr fetched" and "agent_options activeVersion opts"
  shows "case fetched of
     None \<Rightarrow> int (length (owner_rows db (ownerUserIDFromContext ctx))) \<le> uint activeVersion
   | Some s \<Rightarrow>
       uint (snap_Version s) = int (length (owner_rows db (ownerUserIDFromContext ctx))) \<and>
       activeVersion < snap_Version s \<and>
       (snd (VerifyPolicySnapshot (se_digest env) clock s opts) = [] \<longleftrightarrow>
          vo_ObjectChecksum opts \<in> {[], snap_ObjectChecksum s} \<and> unexpired_at (verify_now clock opts) s \<and>
          within_budget opts (stats_EstimatedMemoryBytes (fst (VerifyPolicySnapshot (se_digest env) clock s opts))))"
proof -
  let ?owner = "ownerUserIDFromContext ctx" and ?rows = "owner_rows db (ownerUserIDFromContext ctx)"
  obtain tx where tx: "beginContextOwnerTx env db ctx = Inr tx"
    using assms(3) by (auto simp: FetchSnapshot_def split: sum.splits)
  have "TrimSpace ?owner = ?owner"
    by (simp add: ownerUserIDFromContext_def split: option.split)
  then have rows: "owned_snapshots tx = ?rows"
    using begin_owner_tx [of env db ?owner tx] tx by (auto simp: owned_snapshots_eq beginContextOwnerTx_def)
  have run: "(case newest_first ?rows of
        [] \<Rightarrow> Inr None
      | row # _ \<Rightarrow>
          bind_ok (scan_u32 (psr_version row)) (\<lambda>version.
          if version \<le> activeVersion then Inr None
          else (case se_Unmarshal env (psr_snapshot row) of
              None \<Rightarrow> Inl SnapshotUndecodable
            | Some s \<Rightarrow> bind_ok (tx_Commit env tx) (\<lambda>_. Inr (Some s))))) = Inr fetched"
    using assms(3) tx by (auto simp: FetchSnapshot_def rows split: sum.splits)
  show ?thesis
  proof (cases "newest_first ?rows")
    case Nil
    then have "fetched = None" and "?rows = []"
      using run newest_Nil [of ?rows] unfolding Nil list.case by simp_all
    then show ?thesis by simp
  next
    case (Cons row rest)
    have len: "psr_version row = int (length ?rows)"
      using latest_is_length [OF _ Cons] assms(1) by (simp add: history_ok_def)
    have mem: "row \<in> set (policy_snapshots db)"
      using newest_head(1) [OF Cons] by (simp add: owner_rows_def)
    then obtain s clock0 where s: "storable (se_digest env) clock0 s" "psr_version row = uint (snap_Version s)"
      "psr_snapshot row = se_Marshal env s"
      using assms(1) by (auto simp: history_ok_def good_row_def)
    have dec: "se_Unmarshal env (psr_snapshot row) = Some s"
      using assms(2) mem s(3) unfolding codec_inverts_def by metis
    have scan: "scan_u32 (psr_version row) = Inr (snap_Version s)"
      using uint_lt2p [of "snap_Version s"] by (simp add: scan_u32_def s(2))
    show ?thesis
    proof (cases "snap_Version s \<le> activeVersion")
      case True
      then have "fetched = None" using run by (simp add: Cons scan)
      then show ?thesis using True len s(2) by (simp add: word_le_def)
    next
      case False
      then have "fetched = Some s" using run by (auto simp: Cons scan dec split: sum.splits)
      moreover have "activeVersion < snap_Version s" using False by simp
      ultimately show ?thesis using storable_elsewhere [OF s(1) assms(4)] len s(2) by simp
    qed
  qed
qed

end
