(* ===== verification/ControlSamples.thy ===== *)
theory ControlSamples
  imports SnapshotDistribution
begin

section \<open>The control plane on a concrete database\<close>

text \<open>
  A small database (one administrator, two users, services, competing black list rows) on which the
  definitions of the control plane are evaluated, and the theorems about them applied.
\<close>

subsection \<open>Tables\<close>

definition sample_service_row :: "string \<Rightarrow> int \<Rightarrow> string \<Rightarrow> string \<Rightarrow> backend_service_row" where
  "sample_service_row i ebpf owner cidr =
     \<lparr>bs_id = i, bs_ebpf_id = ebpf, bs_owner_user_id = owner, bs_name = i, bs_backend_cidr = cidr,
      bs_protocol = ''tcp'', bs_allowed_ports = [443], bs_output_interface = ''eth1'', bs_enabled = True,
      bs_priority = 100, bs_resolved_ifindex = 0, bs_resolved_next_hop_mac = [],
      bs_resolved_src_mac = [], bs_deleted_at = None, bs_description = [], bs_owner = ''net'',
      bs_criticality = ''high'', bs_protection_mode = ''enforce'', bs_tags = [], bs_sync_status = ''pending'',
      bs_neighbor_resolution_status = ''unresolved'', bs_created_at = 10, bs_updated_at = 10\<rparr>"

definition sample_blacklist_row :: "int \<Rightarrow> string \<Rightarrow> string \<Rightarrow> string \<Rightarrow> int \<Rightarrow> blacklist_row" where
  "sample_blacklist_row ebpf owner cidr scope score =
     \<lparr>bl_id = dec (nat ebpf), bl_ebpf_id = ebpf, bl_owner_user_id = owner, bl_ip_or_cidr = cidr,
      bl_scope_type = scope, bl_service_id = None, bl_rule_id = None, bl_score = score,
      bl_expires_at = None, bl_enabled = True, bl_action = ''drop'', bl_source = ''manual'',
      bl_reason = ''scan'', bl_owner = ''net'', bl_created_at = 10, bl_updated_at = 10\<rparr>"

definition sample_user_row :: "string \<Rightarrow> string \<Rightarrow> string \<Rightarrow> user_row" where
  "sample_user_row i username role =
     \<lparr>usr_id = i, usr_username = username, usr_role = role, usr_status = ''active'',
      usr_password_hash = ''h-'' @ username, usr_force_password_change = False, usr_last_login_at = None\<rparr>"

definition sample_feed_row :: feed_source_row where
  "sample_feed_row = \<lparr>fs_id = ''f1'', fs_owner_user_id = None, fs_enabled = True, fs_name = ''drop list'',
     fs_type = ''spamhaus_drop'', fs_url = ''https://feed'', fs_credential_ref = [],
     fs_required_for_production = False, fs_interval_seconds = 3600, fs_license_note = [],
     fs_quota_metadata = ''{}'', fs_status = ''healthy'', fs_last_success_at = None,
     fs_last_error_at = None, fs_last_error = [], fs_next_run_at = None, fs_active_entries = 0,
     fs_conflict_count = 0, fs_parse_error_count = 0\<rparr>"

definition sample_db :: control_db where
  "sample_db = \<lparr>
     app_users = [sample_user_row ''u-root'' ''root'' ''admin'', sample_user_row ''u-ann'' ''ann'' ''user'',
       sample_user_row ''u-bob'' ''bob'' ''user''],
     backend_services = [sample_service_row ''s1'' 7 ''u-ann'' ''203.0.113.10/32'',
       sample_service_row ''s2'' 8 ''u-bob'' ''203.0.113.20/32''],
     forwarding_policies = [],
     whitelist_entries = [\<lparr>wl_id = ''w1'', wl_ebpf_id = 1, wl_owner_user_id = ''u-ann'',
       wl_ip_or_cidr = ''192.0.2.9/24'', wl_scope_type = ''service'', wl_service_id = Some ''s1'',
       wl_priority = 100, wl_expires_at = Some 5000, wl_enabled = True, wl_scope = ''service'',
       wl_label = [], wl_reason = ''partner'', wl_owner = ''ann'', wl_created_at = 10, wl_updated_at = 10\<rparr>],
     manual_blacklist_entries = [sample_blacklist_row 2 ''u-ann'' ''198.51.100.0/24'' ''user_global'' 10,
       sample_blacklist_row 3 ''u-bob'' ''198.51.100.0/24'' ''user_global'' 90],
     udp_source_port_blocks = [\<lparr>ubr_id = ''p1'', ubr_ebpf_id = 4, ubr_owner_user_id = ''u-root'', ubr_port = 53,
       ubr_scope_type = ''admin_global'', ubr_service_id = None, ubr_expires_at = None, ubr_enabled = True,
       ubr_label = ''DNS'', ubr_reason = ''reflection'', ubr_owner = ''root'', ubr_created_at = 10,
       ubr_updated_at = 10\<rparr>],
     rules = [\<lparr>rl_id = ''r1'', rl_ebpf_id = 3, rl_owner_user_id = ''u-ann'', rl_service_id = Some ''s1'',
       rl_scope_type = ''service'', rl_priority = 100, rl_action = ''drop'', rl_mode = ''enforce'',
       rl_dimension = ''source'', rl_threshold_pps = 1000, rl_threshold_bps = 0, rl_threshold_cps = 0,
       rl_burst_packets = 100, rl_burst_bytes = 0, rl_sample_denom = 0, rl_expires_at = None,
       rl_enabled = True, rl_name = ''limit'', rl_match_expr = ''{}'', rl_ttl_seconds = 0,
       rl_evidence = ''{}'', rl_owner = ''ann'', rl_created_at = 10, rl_updated_at = 10\<rparr>],
     feed_sources = [sample_feed_row],
     reputation_entries = [\<lparr>re_ebpf_id = 5, re_source_id = ''f1'', re_owner_user_id = None,
       re_ip_or_cidr = ''198.51.100.0/24'', re_score = 100, re_action = ''drop'', re_status = ''active'',
       re_expires_at = Some 9000, re_id = ''e1'', re_reason = [], re_ttl_seconds = 0, re_metadata = ''{}'',
       re_first_seen_at = 10, re_last_seen_at = 10\<rparr>],
     policy_snapshots = [], audit_events = [], user_sessions = [], feed_runs = [], feed_conflicts = [],
     agents = [], agent_interfaces = [], policy_apply_status = [], telegram_configs = [],
     alert_policies = [], alerts = [], alert_deliveries = [], security_events = []\<rparr>"

definition sample_actor :: Actor where
  "sample_actor = \<lparr>user_ID = ''u-ann'', user_Username = ''ann'', user_Role = ''user'', user_Status = ''active'',
     user_ForcePasswordChange = False, user_ViewingUser = None, user_ReadOnly = False,
     actor_ViewOwnerUserID = []\<rparr>"

definition sample_tx :: transaction where
  "sample_tx = \<lparr>tx_owner = ''u-ann'', tx_db = sample_db\<rparr>"

subsection \<open>The environment\<close>

definition plain_env :: "(PolicySnapshot \<Rightarrow> string) \<Rightarrow> (string \<Rightarrow> PolicySnapshot option) \<Rightarrow> store_env" where
  "plain_env marshal unmarshal = \<lparr>se_fails = (\<lambda>_ _. False), se_now = 1000, se_clock = 1000,
     se_object = Some ''0b'', se_digest = version_digest, se_Marshal = marshal, se_Unmarshal = unmarshal,
     se_uuid = (\<lambda>n. ''id-'' @ dec n), se_identity = (\<lambda>_ _. 50),
     se_inet = (\<lambda>s. case parseCIDR s of Inl _ \<Rightarrow> None | Inr p \<Rightarrow> Some (Prefix_String p))\<rparr>"

definition sample_built :: PolicySnapshot where
  "sample_built = \<lparr>snap_SchemaVersion = 1, snap_Version = 1, snap_Checksum = ''1'',
     snap_ObjectChecksum = ''0b'',
     snap_FeatureFlags = [''ab_policy_maps'', ''ipv4'', ''policy_snapshot_v1'',
       ''service_scoped_whitelist_v4'', ''tx_devmap'', ''udp_src_port_block''],
     snap_Runtime = \<lparr>prc_MalformedPolicy = 1, prc_SampleDenom = 0\<rparr>,
     snap_WhitelistV4 = [\<lparr>ce_EntryID = 1, ce_CIDR = ''192.0.2.0/24'', ce_Priority = 100, ce_Action = 0,
       ce_SourceType = 1, ce_Scope = 1, ce_ServiceID = 7, ce_Score = 0, ce_RuleID = 0,
       ce_ExpiresAtUnixNS = 5000\<rparr>],
     snap_BlacklistV4 = [\<lparr>ce_EntryID = 2, ce_CIDR = ''198.51.100.0/24'', ce_Priority = 0, ce_Action = 1,
       ce_SourceType = 1, ce_Scope = 0, ce_ServiceID = 0, ce_Score = 10, ce_RuleID = 0,
       ce_ExpiresAtUnixNS = 0\<rparr>],
     snap_UDPSourcePortBlocks = [\<lparr>ub_EntryID = 4, ub_Port = 53, ub_Scope = 0, ub_ServiceID = 0,
       ub_ExpiresAtUnixNS = 0\<rparr>],
     snap_Services = [\<lparr>ps_ServiceID = 7, ps_ForwardingPolicyID = 7, ps_DstV4 = ''203.0.113.10'',
       ps_DstPort = 443, ps_Proto = 6, ps_Action = 6, ps_Priority = 100, ps_DefaultRuleID = 3,
       ps_OutputInterface = ''eth1'', ps_OutputIfindex = 0, ps_DevmapKey = 7, ps_NeighborStatus = 0,
       ps_DstMAC = [], ps_SrcMAC = []\<rparr>],
     snap_Rules = [\<lparr>pr_RuleID = 3, pr_ScopeType = ''service'', pr_Priority = 100, pr_Action = 1, pr_Mode = 1,
       pr_ServiceID = 7, pr_Dimension = 0, pr_ThresholdPPS = 1000, pr_ThresholdBPS = 0,
       pr_ThresholdCPS = 0, pr_BurstPackets = 100, pr_BurstBytes = 0, pr_SampleDenom = 0,
       pr_ExpiresAtUnixNS = 0\<rparr>]\<rparr>"

text \<open>A codec that is exact on the sample snapshot.\<close>

definition sample_env :: store_env where
  "sample_env = plain_env (\<lambda>s. if s = sample_built then ''one'' else ''other'')
     (\<lambda>t. if t = ''one'' then Some sample_built else None)"

definition sample_db1 :: control_db where
  "sample_db1 = sample_db\<lparr>
     policy_snapshots := [\<lparr>psr_owner_user_id = ''u-ann'', psr_version = 1, psr_checksum = ''1'',
       psr_object_checksum = ''0b'', psr_snapshot = ''one'', psr_rollback_from = None,
       psr_created_by = Some ''u-ann''\<rparr>],
     audit_events := [\<lparr>au_owner_user_id = Some ''u-ann'', au_actor_id = Some ''u-ann'',
       au_actor_username = ''ann'', au_action = ''create_snapshot'', au_entity_type = ''policy_snapshot'',
       au_entity_id = ''1'', au_reason = Some ''go''\<rparr>]\<rparr>"

lemma sample_build: "buildEffectiveSnapshot sample_env sample_tx 1 =
    Inr (sample_built\<lparr>snap_Checksum := [], snap_FeatureFlags :=
      [''policy_snapshot_v1'', ''ipv4'', ''ab_policy_maps'', ''tx_devmap'', ''udp_src_port_block'',
       ''service_scoped_whitelist_v4'']\<rparr>)"
  by code_simp

lemma sample_rebuild: "RebuildSnapshot sample_env sample_db None (Some sample_actor) ''go'' =
    (sample_db1, Inr (Some \<lparr>sm_Version = 1, sm_Checksum = ''1'', sm_ObjectChecksum = ''0b'',
      sm_RollbackFrom = None, sm_CreatedBy = [], sm_Snapshot = ''one''\<rparr>))"
  by code_simp

subsection \<open>The theorems on the sample\<close>

lemma sample_blacklist: "snapshotBlacklist sample_env sample_tx = Inr (snap_BlacklistV4 sample_built)"
  using build_parts(4) [OF sample_build] by simp

theorem blacklist_choice_witness:
  "distinct (map entry_key (snap_BlacklistV4 sample_built)) \<and>
   (\<exists>b\<in>set (blacklist_rows sample_env sample_tx). \<exists>c. bc_entry c = hd (snap_BlacklistV4 sample_built) \<and>
     blacklist_candidate b = Inr (''global:198.51.100.0/24'', c))"
proof -
  have e: "hd (snap_BlacklistV4 sample_built) \<in> set (snap_BlacklistV4 sample_built)"
    "entry_key (hd (snap_BlacklistV4 sample_built)) = ''global:198.51.100.0/24''"
    by code_simp+
  show ?thesis using blacklist_choice [OF sample_blacklist] e by metis
qed

theorem snapshot_isolated_witness:
  "\<exists>bs. own_service sample_tx bs \<and> bs_ebpf_id bs = 7"
proof -
  have "\<exists>p\<in>set (snap_Services sample_built). uint (ps_ServiceID p) = 7" by code_simp
  then obtain p where p: "p \<in> set (snap_Services sample_built)" "uint (ps_ServiceID p) = 7" by blast
  with snapshot_isolated [OF sample_build] obtain bs where "own_service sample_tx bs"
    "(\<exists>fp. own_forwarding sample_tx bs fp \<and> forwarding_from fp bs p) \<or> backend_from bs p" by fastforce
  then show ?thesis using p(2) by (auto simp: forwarding_from_def backend_from_def)
qed

lemma sample_history_empty: "history_ok digest marshal sample_db"
  by (simp add: history_ok_def owner_rows_def sample_db_def)

lemma sample_step: "store_step version_digest (se_Marshal sample_env) sample_db sample_db1"
proof -
  have "se_digest sample_env = version_digest" by (simp add: sample_env_def plain_env_def)
  from store_step.rebuild [OF this refl, of sample_db None "Some sample_actor" "''go''"] show ?thesis
    by (simp add: sample_rebuild)
qed

theorem snapshot_history_witness:
  "history_ok version_digest (se_Marshal sample_env) sample_db1 \<and>
   prefix (policy_snapshots sample_db) (policy_snapshots sample_db1)"
  using snapshot_history [OF store_run.step [OF store_run.start sample_step] sample_history_empty] .

lemma sample_history: "history_ok version_digest (se_Marshal sample_env) sample_db1"
  using store_step_keeps [OF sample_step sample_history_empty] by blast

lemma sample_codec: "codec_inverts sample_env sample_db1"
  by (auto simp: codec_inverts_def sample_db1_def sample_env_def plain_env_def)

theorem rebuild_idempotent_witness:
  "RebuildSnapshot sample_env sample_db1 None (Some sample_actor) ''go'' = (sample_db1, Inr None)"
proof (rule rebuild_idempotent [OF sample_rebuild sample_codec])
  show "\<forall>c. se_digest sample_env c \<noteq> []"
    by (simp add: sample_env_def plain_env_def version_digest_def)
qed simp

theorem rollback_restores_witness:
  "\<exists>db' meta s. RollbackSnapshot sample_env sample_db1 None (Some sample_actor) 1 ''undo'' = (db', Inr meta) \<and>
     sm_Version meta = 2 \<and> content_of s = content_of sample_built \<and> snap_Version s = 2"
proof -
  have old: "target = sample_built" if "old \<in> set (owner_rows sample_db1 owner)"
      "se_Unmarshal sample_env (psr_snapshot old) = Some target" for old owner target
    using that by (auto simp: owner_rows_def sample_db1_def sample_env_def plain_env_def split: if_splits)
  obtain db' meta where r: "RollbackSnapshot sample_env sample_db1 None (Some sample_actor) 1 ''undo'' = (db', Inr meta)"
    and v: "sm_Version meta = 2"
  proof -
    have "(case RollbackSnapshot sample_env sample_db1 None (Some sample_actor) 1 ''undo'' of
        (db', Inr meta) \<Rightarrow> sm_Version meta = 2 | _ \<Rightarrow> False)"
      by code_simp
    with that show thesis by (auto split: prod.splits sum.splits)
  qed
  with rollback_restores [where env = sample_env and db = sample_db1 and ctx = None
      and actor = "Some sample_actor" and v = 1 and reason = "''undo''"] show ?thesis
    by (auto simp: r dest: old)
qed

lemma sample_fetch: "FetchSnapshot sample_env sample_db1 (Some ''u-ann'') 0 = Inr (Some sample_built)"
  by code_simp

text \<open>An agent with the object of the sample that runs no version, at the time \<open>now\<close>.\<close>

definition sample_agent :: "int \<Rightarrow> PolicySnapshotVerifyOptions" where
  "sample_agent now = \<lparr>vo_CurrentVersion = 0, vo_ObjectChecksum = ''0b'', vo_Now = Some now,
     vo_CapacityOverrides = Map.empty, vo_MemoryBudgetBytes = 0, vo_AllowUnresolvedServices = True\<rparr>"

lemma sample_agent_options: "agent_options 0 (sample_agent now)"
  by (simp add: agent_options_def roomy_def sample_agent_def)

theorem fetch_newest_accepted_witness:
  "uint (snap_Version sample_built) = int (length (owner_rows sample_db1 ''u-ann'')) \<and>
   0 < snap_Version sample_built \<and>
   snd (VerifyPolicySnapshot version_digest 0 sample_built (sample_agent 4000)) = [] \<and>
   snd (VerifyPolicySnapshot version_digest 0 sample_built (sample_agent 6000)) \<noteq> []"
proof -
  have d: "se_digest sample_env = version_digest" by (simp add: sample_env_def plain_env_def)
  have o: "ownerUserIDFromContext (Some ''u-ann'') = ''u-ann''" by code_simp
  have "unexpired_at 4000 sample_built" "\<not> unexpired_at 6000 sample_built" by code_simp+
  moreover have "snap_ObjectChecksum sample_built = ''0b''" by (simp add: sample_built_def)
  moreover note fetch_newest_accepted [OF sample_history [folded d] sample_codec sample_fetch sample_agent_options, where clock = 0]
  from this [of 4000] this [of 6000] calculation show ?thesis
    by (simp add: d o sample_agent_def within_budget_def)
qed

end
