(* ===== verification/ScopeSafety.thy ===== *)
theory ScopeSafety
  imports ControlSamples
begin

section \<open>Access control of policy mutations\<close>

text \<open>
  What the checks of \<^verbatim>\<open>owner.go\<close> and \<^verbatim>\<open>policy_scope.go\<close> guarantee together: the scope that
  \<^verbatim>\<open>requirePolicyMutation\<close> grants, the transaction that \<^verbatim>\<open>beginPolicyMutationTx\<close> opens for it, and the
  condition that \<^verbatim>\<open>policyMutationWhere\<close> puts on the rows.
\<close>

lemma actorOwner_trimmed [simp]: "TrimSpace (actorOwnerUserID actor) = actorOwnerUserID actor"
  by (simp add: actorOwnerUserID_def split: option.split)

lemma roles_differ [simp]: "RoleAdmin \<noteq> RoleUser" "RoleUser \<noteq> RoleAdmin"
  by (simp_all add: RoleAdmin_def RoleUser_def)

lemma canMutate_Some:
  "actorCanMutateConfig (Some a) \<longleftrightarrow> user_Role a = RoleUser \<and> actorOwnerUserID (Some a) = user_ID a"
  by (simp add: actorCanMutateConfig_def)

lemma admin_session_role: "admin_session a \<Longrightarrow> user_Role a = RoleAdmin"
  by (simp add: admin_session_def)

lemma mutation_scope_cases:
  assumes "requirePolicyMutation (Some a) t legacy sid = Inr scope"
  obtains (admin) "admin_session a" and "pms_AdminGlobal scope" and "pms_ScopeType scope = ScopeTypeAdminGlobal"
      and "pms_OwnerUserID scope = user_ID a"
  | (user) "\<not> admin_session a" and "actorCanMutateConfig (Some a)" and "\<not> pms_AdminGlobal scope"
      and "pms_ScopeType scope \<in> {ScopeTypeUserGlobal, ScopeTypeService}"
      and "pms_OwnerUserID scope = user_ID a"
  using assms by (auto simp: requirePolicyMutation_def Let_def canMutate_Some split: if_splits)

lemma mutation_tx_owner:
  assumes "beginPolicyMutationTx env db (Some a) scope = (actor', Inr tx)" and "\<not> pms_AdminGlobal scope"
  shows "tx_owner tx = actorOwnerUserID (Some a)" and "tx_owner tx \<noteq> []"
  using assms by (auto simp: beginPolicyMutationTx_def beginActorOwnerTx_def Let_def dest!: begin_owner_tx)

text \<open>
  A mutation reaches only the rows its actor is responsible for. When the mutation is granted
  and its transaction open, every row that the mutation's condition selects is of scope
  \<^verbatim>\<open>admin_global\<close> if the actor is an administrator in a normal session, and otherwise a row of a
  narrower scope that the actor owns; the scope of the mutation itself is \<^verbatim>\<open>admin_global\<close> in the first
  case and never in the second.
\<close>

lemma mutation_confined:
  assumes "requirePolicyMutation (Some a) t legacy sid = Inr scope"
    and "beginPolicyMutationTx env db (Some a) scope = (actor', Inr tx)"
    and "policyMutationWhere scope (tx_owner tx) scope_type owner = Some True"
  shows "if admin_session a then scope_type = ScopeTypeAdminGlobal \<and> pms_ScopeType scope = ScopeTypeAdminGlobal
    else user_Role a = RoleUser \<and> scope_type \<noteq> ScopeTypeAdminGlobal \<and> owner = Some (user_ID a) \<and>
      pms_OwnerUserID scope = user_ID a \<and> pms_ScopeType scope \<in> {ScopeTypeUserGlobal, ScopeTypeService}"
  using assms(1)
proof (cases rule: mutation_scope_cases)
  case admin
  then show ?thesis using assms(3) by (simp add: policyMutationWhere_def)
next
  case user
  then show ?thesis
    using assms(3) mutation_tx_owner(1) [OF assms(2)]
    by (auto simp: policyMutationWhere_def ownerSQL_true canMutate_Some)
qed

text \<open>
  What the lists mark as editable is what a mutation can change. For an actor whose mutation is
  granted, the column \<^verbatim>\<open>editable\<close> of a row has the same value as the condition of the mutation under
  the mutation's transaction, and every such row is also listed.
\<close>

lemma editable_is_mutable:
  assumes "requirePolicyMutation (Some a) t legacy sid = Inr scope"
    and "beginPolicyMutationTx env db (Some a) scope = (actor', Inr tx)"
  shows "policyEditableSQL (Some a) (tx_owner tx) scope_type owner =
      policyMutationWhere scope (tx_owner tx) scope_type owner \<and>
    (policyMutationWhere scope (tx_owner tx) scope_type owner = Some True \<longrightarrow>
      policyListWhere (Some a) (tx_owner tx) scope_type owner = Some True)"
  using assms(1)
  by (cases rule: mutation_scope_cases)
    (auto simp: policyEditableSQL_def policyMutationWhere_def policyListWhere_def)

text \<open>
  The checks refuse an administrator whose session views a user or is marked read only, and such a session sees no
  row as editable.
\<close>

lemma viewing_refused:
  assumes "user_Role a = RoleAdmin" and "user_ReadOnly a \<or> user_ViewingUser a \<noteq> None"
  shows "\<exists>e. requirePolicyMutation (Some a) t legacy sid = Inl e" and "\<exists>e. requireConfigMutation (Some a) = Some e"
    and "\<exists>e. requireGlobalFeedAdmin (Some a) = Some e" and "policyEditableSQL (Some a) setting scope_type owner = Some False"
  using assms
  by (auto simp: requirePolicyMutation_def requireConfigMutation_def requireGlobalFeedAdmin_def requireAdmin_def
      canMutate_Some admin_session_def policyEditableSQL_def Let_def)

end
