(* ===== verification/PolicySafety.thy ===== *)
theory PolicySafety
  imports ScopedPolicyStore ScopeSafety
begin

section \<open>Properties of policy mutations\<close>

text \<open>
  \<open>policy_change\<close> is the specification of what one mutation by an actor may do to the policy tables:
  nothing, add one row, or change one row, within the actor's reach and with valid references. Every
  operation of \<^verbatim>\<open>PolicyStore\<close> and \<^verbatim>\<open>ScopedPolicyStore\<close> refines it; isolation of users and
  well-formedness of the tables are proved of the specification.
\<close>

subsection \<open>Reach of an actor and valid references\<close>

definition reach :: "Actor option \<Rightarrow> string \<Rightarrow> string \<Rightarrow> bool" where
  "reach actor scope_type owner = (case actor of
     None \<Rightarrow> False
   | Some a \<Rightarrow> if admin_session a then scope_type = ScopeTypeAdminGlobal
              else scope_type \<noteq> ScopeTypeAdminGlobal \<and> owner = user_ID a)"

definition own_service_of :: "Actor option \<Rightarrow> string \<Rightarrow> bool" where
  "own_service_of actor owner = (case actor of
     None \<Rightarrow> False | Some a \<Rightarrow> \<not> admin_session a \<and> owner = user_ID a)"

text \<open>An object of scope \<^verbatim>\<open>service\<close> refers to a service of its owner, any other to none.\<close>

definition scope_ok :: "control_db \<Rightarrow> string \<Rightarrow> string \<Rightarrow> string option \<Rightarrow> bool" where
  "scope_ok db scope_type owner service_id \<longleftrightarrow>
     (if scope_type = ScopeTypeService
      then list_ex (\<lambda>s. service_id = Some (bs_id s) \<and> bs_owner_user_id s = owner) (backend_services db)
      else scope_type \<in> {ScopeTypeAdminGlobal, ScopeTypeUserGlobal} \<and> service_id = None)"

subsection \<open>Specification of a mutation\<close>

inductive policy_change :: "Actor option \<Rightarrow> control_db \<Rightarrow> control_db \<Rightarrow> bool"
  for actor :: "Actor option" and db db' :: control_db where
  nothing: "same_policy db db' \<Longrightarrow> policy_change actor db db'"
| add_service: "own_service_of actor (bs_owner_user_id row) \<Longrightarrow>
    \<forall>r\<in>set (backend_services db). \<not> service_clash r row \<Longrightarrow>
    same_policy (backend_services_update (\<lambda>rows. rows @ [row]) db) db' \<Longrightarrow> policy_change actor db db'"
| set_service: "\<forall>r. P r \<longrightarrow> own_service_of actor (bs_owner_user_id r) \<and> bs_id (f r) = bs_id r \<and>
      bs_ebpf_id (f r) = bs_ebpf_id r \<and> bs_owner_user_id (f r) = bs_owner_user_id r \<Longrightarrow>
    same_policy (backend_services_update (map (\<lambda>r. if P r then f r else r)) db) db' \<Longrightarrow> policy_change actor db db'"
| add_forwarding: "own_service_of actor (fp_owner_user_id row) \<Longrightarrow>
    list_ex (\<lambda>s. bs_id s = fp_service_id row \<and> bs_owner_user_id s = fp_owner_user_id row) (backend_services db) \<Longrightarrow>
    \<forall>r\<in>set (forwarding_policies db). \<not> forwarding_clash r row \<Longrightarrow>
    same_policy (forwarding_policies_update (\<lambda>rows. rows @ [row]) db) db' \<Longrightarrow> policy_change actor db db'"
| add_whitelist: "reach actor (wl_scope_type row) (wl_owner_user_id row) \<Longrightarrow>
    scope_ok db (wl_scope_type row) (wl_owner_user_id row) (wl_service_id row) \<Longrightarrow>
    \<forall>r\<in>set (whitelist_entries db). \<not> whitelist_clash r row \<Longrightarrow>
    same_policy (whitelist_entries_update (\<lambda>rows. rows @ [row]) db) db' \<Longrightarrow> policy_change actor db db'"
| set_whitelist: "\<forall>r. P r \<longrightarrow> reach actor (wl_scope_type r) (wl_owner_user_id r) \<and> wl_id (f r) = wl_id r \<and>
      wl_ebpf_id (f r) = wl_ebpf_id r \<and> wl_owner_user_id (f r) = wl_owner_user_id r \<and>
      reach actor (wl_scope_type (f r)) (wl_owner_user_id r) \<and>
      (scope_ok db (wl_scope_type r) (wl_owner_user_id r) (wl_service_id r) \<longrightarrow>
       scope_ok db (wl_scope_type (f r)) (wl_owner_user_id r) (wl_service_id (f r))) \<Longrightarrow>
    same_policy (whitelist_entries_update (map (\<lambda>r. if P r then f r else r)) db) db' \<Longrightarrow> policy_change actor db db'"
| add_rule: "reach actor (rl_scope_type row) (rl_owner_user_id row) \<Longrightarrow>
    scope_ok db (rl_scope_type row) (rl_owner_user_id row) (rl_service_id row) \<Longrightarrow>
    \<forall>r\<in>set (rules db). \<not> rule_clash r row \<Longrightarrow>
    same_policy (rules_update (\<lambda>rows. rows @ [row]) db) db' \<Longrightarrow> policy_change actor db db'"
| set_rule: "\<forall>r. P r \<longrightarrow> reach actor (rl_scope_type r) (rl_owner_user_id r) \<and> rl_id (f r) = rl_id r \<and>
      rl_ebpf_id (f r) = rl_ebpf_id r \<and> rl_owner_user_id (f r) = rl_owner_user_id r \<and>
      reach actor (rl_scope_type (f r)) (rl_owner_user_id r) \<and>
      (scope_ok db (rl_scope_type r) (rl_owner_user_id r) (rl_service_id r) \<longrightarrow>
       scope_ok db (rl_scope_type (f r)) (rl_owner_user_id r) (rl_service_id (f r))) \<Longrightarrow>
    same_policy (rules_update (map (\<lambda>r. if P r then f r else r)) db) db' \<Longrightarrow> policy_change actor db db'"
| add_blacklist: "reach actor (bl_scope_type row) (bl_owner_user_id row) \<Longrightarrow>
    scope_ok db (bl_scope_type row) (bl_owner_user_id row) (bl_service_id row) \<Longrightarrow>
    \<forall>r\<in>set (manual_blacklist_entries db). \<not> blacklist_clash r row \<Longrightarrow>
    same_policy (manual_blacklist_entries_update (\<lambda>rows. rows @ [row]) db) db' \<Longrightarrow> policy_change actor db db'"
| set_blacklist: "\<forall>r. P r \<longrightarrow> reach actor (bl_scope_type r) (bl_owner_user_id r) \<and> bl_id (f r) = bl_id r \<and>
      bl_ebpf_id (f r) = bl_ebpf_id r \<and> bl_owner_user_id (f r) = bl_owner_user_id r \<and>
      reach actor (bl_scope_type (f r)) (bl_owner_user_id r) \<and>
      (scope_ok db (bl_scope_type r) (bl_owner_user_id r) (bl_service_id r) \<longrightarrow>
       scope_ok db (bl_scope_type (f r)) (bl_owner_user_id r) (bl_service_id (f r))) \<Longrightarrow>
    same_policy (manual_blacklist_entries_update (map (\<lambda>r. if P r then f r else r)) db) db' \<Longrightarrow>
    policy_change actor db db'"
| add_udp: "reach actor (ubr_scope_type row) (ubr_owner_user_id row) \<Longrightarrow>
    scope_ok db (ubr_scope_type row) (ubr_owner_user_id row) (ubr_service_id row) \<Longrightarrow>
    \<forall>r\<in>set (udp_source_port_blocks db). \<not> udp_clash r row \<Longrightarrow>
    same_policy (udp_source_port_blocks_update (\<lambda>rows. rows @ [row]) db) db' \<Longrightarrow> policy_change actor db db'"
| set_udp: "\<forall>r. P r \<longrightarrow> reach actor (ubr_scope_type r) (ubr_owner_user_id r) \<and> ubr_id (f r) = ubr_id r \<and>
      ubr_ebpf_id (f r) = ubr_ebpf_id r \<and> ubr_owner_user_id (f r) = ubr_owner_user_id r \<and>
      reach actor (ubr_scope_type (f r)) (ubr_owner_user_id r) \<and>
      (scope_ok db (ubr_scope_type r) (ubr_owner_user_id r) (ubr_service_id r) \<longrightarrow>
       scope_ok db (ubr_scope_type (f r)) (ubr_owner_user_id r) (ubr_service_id (f r))) \<Longrightarrow>
    same_policy (udp_source_port_blocks_update (map (\<lambda>r. if P r then f r else r)) db) db' \<Longrightarrow>
    policy_change actor db db'"

lemma same_policy_sel:
  assumes "same_policy db db'"
  shows "backend_services db' = backend_services db \<and> forwarding_policies db' = forwarding_policies db \<and>
    whitelist_entries db' = whitelist_entries db \<and> rules db' = rules db \<and>
    manual_blacklist_entries db' = manual_blacklist_entries db \<and>
    udp_source_port_blocks db' = udp_source_port_blocks db \<and> app_users db' = app_users db \<and>
    feed_sources db' = feed_sources db \<and> reputation_entries db' = reputation_entries db \<and>
    user_sessions db' = user_sessions db"
  using assms by (cases db; cases db'; simp add: same_policy_def)

subsection \<open>Rebuilding leaves the policy tables alone\<close>

lemma rebuild_same_policy:
  "rebuildSnapshotInTx env ctx tx actor None reason = Inr (tx', m) \<Longrightarrow> same_policy (tx_db tx) (tx_db tx')"
  by (erule rebuild_cases) auto

lemma rebuild_owners_same_policy:
  "same_policy db (fst (rebuild_owners env ctx actor reason owners db mv))"
proof (induction owners arbitrary: db mv)
  case (Cons owner owners)
  let ?ctx = "contextWithOwner ctx owner"
  let ?step = "commit_or_drop env db (bind_ok (beginOwnerTx env db owner)
      (\<lambda>tx. rebuildSnapshotInTx env ?ctx tx actor None reason))"
  have "same_policy db (fst ?step)"
    by (rule commit_invariant [where I = "same_policy db"])
      (auto elim!: bind_okE dest!: begin_owner_tx rebuild_same_policy)
  then show ?case
    using Cons.IH by (auto simp: Let_def split: prod.split sum.split intro: same_policy_trans)
qed simp

lemma rebuildAll_same_policy: "same_policy db (fst (rebuildAllActiveUserSnapshots env db ctx actor reason))"
  by (simp add: rebuildAllActiveUserSnapshots_def rebuild_owners_same_policy split: sum.split)

lemma same_policy_change: "policy_change actor db db' \<Longrightarrow> same_policy db' db'' \<Longrightarrow> policy_change actor db db''"
  by (induction rule: policy_change.cases) (blast intro: policy_change.intros same_policy_trans)+

text \<open>A mutation is a change when its statements are, whatever fails and is rebuilt around them.\<close>

lemma owner_mutation_change:
  assumes "\<And>actor' tx tx' a. beginActorOwnerTx env db actor = (actor', Inr tx) \<Longrightarrow> body actor' tx = Inr (tx', a) \<Longrightarrow>
      policy_change actor db (tx_db tx')"
  shows "policy_change actor db (fst (owner_mutation env db ctx actor reason body))"
proof (cases "beginActorOwnerTx env db actor")
  case (Pair actor' began)
  show ?thesis unfolding owner_mutation_def Pair prod.case
    by (rule commit_invariant, simp add: policy_change.nothing)
      (auto elim!: bind_okE intro: same_policy_change [OF assms [unfolded Pair] rebuild_same_policy])
qed

lemma scoped_mutation_change:
  assumes "\<And>actor' tx tx' a. beginPolicyMutationTx env db actor scope = (actor', Inr tx) \<Longrightarrow>
      body actor' tx = Inr (tx', a) \<Longrightarrow> policy_change actor db (tx_db tx')"
  shows "policy_change actor db (fst (scoped_mutation env db ctx actor scope reason body))"
proof (cases "beginPolicyMutationTx env db actor scope")
  case (Pair actor' began)
  let ?run = "bind_ok began (\<lambda>tx. bind_ok (body actor' tx) (\<lambda>(tx, a).
      bind_ok (rebuildPolicyMutationInTx env ctx tx actor' scope reason) (\<lambda>tx. Inr (tx, a))))"
  have body: "policy_change actor db (tx_db tx)" if "?run = Inr (tx, a)" for tx a
  proof -
    from that obtain tx0 tx1 where "began = Inr tx0" "body actor' tx0 = Inr (tx1, a)"
      and r: "rebuildPolicyMutationInTx env ctx tx1 actor' scope reason = Inr tx"
      by (auto elim!: bind_okE)
    then have "policy_change actor db (tx_db tx1)" using assms Pair by blast
    moreover have "same_policy (tx_db tx1) (tx_db tx)"
      using r by (auto simp: rebuildPolicyMutationInTx_def elim!: bind_okE split: if_splits dest: rebuild_same_policy)
    ultimately show ?thesis by (rule same_policy_change)
  qed
  have "policy_change actor db (fst (commitPolicyMutation env db ctx tx actor' scope reason))"
    if "?run = Inr (tx, a)" for tx a
    using body [OF that] rebuildAll_same_policy [of "tx_db tx" env ctx actor' reason]
    by (auto simp: commitPolicyMutation_def tx_Commit_def policy_change.nothing intro: same_policy_change
        split: sum.splits prod.splits if_splits)
  then show ?thesis unfolding scoped_mutation_def Pair prod.case
    by (auto simp: policy_change.nothing split: sum.splits prod.splits option.splits)
qed

lemma or_fail_change:
  assumes "\<And>b. checks = Inr b \<Longrightarrow> policy_change actor db (fst (run b))"
  shows "policy_change actor db (fst (or_fail db checks run))"
  using assms by (simp add: or_fail_def policy_change.nothing split: sum.split)

subsection \<open>What a granted mutation may reach\<close>

lemma getService_Inr:
  assumes "getService env tx sid = Inr s"
  shows "list_ex (\<lambda>r. bs_id r = sid \<and> bs_owner_user_id r = tx_owner tx) (backend_services (tx_db tx))"
proof -
  obtain r where "sql_get env ''service'' backend_services
      (\<lambda>r. bs_id r = sid \<and> owned tx (bs_owner_user_id r)) tx = Inr r"
    using assms unfolding getService_def by (elim bind_okE)
  from sql_get_Inr [OF this] show ?thesis by (auto simp: list_ex_iff owned_def ownerSQL_true)
qed

lemma service_reference_Inr:
  assumes "service_reference env tx sid = Inr ref"
  shows "ref = (if TrimSpace sid = [] then None else Some (TrimSpace sid))"
    and "TrimSpace sid \<noteq> [] \<Longrightarrow> list_ex (\<lambda>r. bs_id r = TrimSpace sid \<and> bs_owner_user_id r = tx_owner tx)
      (backend_services (tx_db tx))"
  using assms by (auto simp: service_reference_def Let_def dest: getService_Inr split: if_splits sum.splits)

lemma begin_mutation_db:
  "beginPolicyMutationTx env db actor scope = (actor', Inr tx) \<Longrightarrow> tx_db tx = db"
  by (auto simp: beginPolicyMutationTx_def dest: begin_unscoped begin_actor_tx split: if_splits)

lemma begin_actor_owner:
  assumes "beginActorOwnerTx env db actor = (actor', Inr tx)" and "actorCanMutateConfig actor"
  shows "tx_db tx = db \<and> own_service_of actor (tx_owner tx) \<and> actorOwnerUserID actor' = tx_owner tx"
proof -
  obtain a where a: "actor = Some a" "user_Role a = RoleUser" "actorOwnerUserID actor = user_ID a"
    using assms(2) by (cases actor) (auto simp: actorCanMutateConfig_def)
  have "tx_owner tx = user_ID a" "tx_db tx = db"
    using assms(1) a(1,3) begin_owner_tx [of env db "user_ID a" tx] actorOwner_trimmed [of actor]
    by (auto simp: beginActorOwnerTx_def Let_def)
  moreover have "actorOwnerUserID actor' = user_ID a"
    using assms(1) a(1,3) actorOwner_trimmed [of actor]
    by (auto simp: beginActorOwnerTx_def Let_def actorOwnerUserID_def split: if_splits)
  ultimately show ?thesis using a(1,2) by (simp add: own_service_of_def admin_session_def)
qed

lemma granted_scope:
  assumes "requirePolicyMutation actor t legacy sid = Inr scope"
    and "beginPolicyMutationTx env db actor scope = (actor', Inr tx)"
  shows "pms_ScopeType scope \<in> {ScopeTypeAdminGlobal, ScopeTypeUserGlobal, ScopeTypeService}"
    and "reach actor (pms_ScopeType scope) (pms_OwnerUserID scope)"
    and "mutable scope tx st owner \<Longrightarrow> reach actor st owner \<and> reach actor (pms_ScopeType scope) owner"
    and "pms_ScopeType scope = ScopeTypeService \<Longrightarrow>
      pms_OwnerUserID scope = tx_owner tx \<and> (mutable scope tx st owner \<longrightarrow> owner = tx_owner tx)"
proof -
  obtain a where a: "actor = Some a"
    using assms(1) by (cases actor) (auto simp: requirePolicyMutation_def)
  have "pms_ScopeType scope \<in> {ScopeTypeAdminGlobal, ScopeTypeUserGlobal, ScopeTypeService} \<and>
    reach actor (pms_ScopeType scope) (pms_OwnerUserID scope) \<and>
    (mutable scope tx st owner \<longrightarrow> reach actor st owner \<and> reach actor (pms_ScopeType scope) owner) \<and>
    (pms_ScopeType scope = ScopeTypeService \<longrightarrow>
      pms_OwnerUserID scope = tx_owner tx \<and> (mutable scope tx st owner \<longrightarrow> owner = tx_owner tx))"
    using assms(1) [unfolded a]
  proof (cases rule: mutation_scope_cases)
    case admin
    then show ?thesis by (simp add: a reach_def mutable_def policyMutationWhere_def)
  next
    case user
    have "tx_owner tx = user_ID a"
      using mutation_tx_owner(1) [OF assms(2) [unfolded a]] user(2,3) by (simp add: canMutate_Some)
    then show ?thesis using user by (auto simp: a reach_def mutable_def policyMutationWhere_def ownerSQL_true)
  qed
  then show "pms_ScopeType scope \<in> {ScopeTypeAdminGlobal, ScopeTypeUserGlobal, ScopeTypeService}"
    and "reach actor (pms_ScopeType scope) (pms_OwnerUserID scope)"
    and "mutable scope tx st owner \<Longrightarrow> reach actor st owner \<and> reach actor (pms_ScopeType scope) owner"
    and "pms_ScopeType scope = ScopeTypeService \<Longrightarrow>
      pms_OwnerUserID scope = tx_owner tx \<and> (mutable scope tx st owner \<longrightarrow> owner = tx_owner tx)"
    by blast+
qed

lemma scope_type_normal:
  "st \<in> {ScopeTypeAdminGlobal, ScopeTypeUserGlobal, ScopeTypeService} \<Longrightarrow> normalizeScopeType st = st"
proof -
  have "normalizeScopeType ScopeTypeAdminGlobal = ScopeTypeAdminGlobal"
    "normalizeScopeType ScopeTypeUserGlobal = ScopeTypeUserGlobal"
    "normalizeScopeType ScopeTypeService = ScopeTypeService" by code_simp+
  then show "st \<in> {ScopeTypeAdminGlobal, ScopeTypeUserGlobal, ScopeTypeService} \<Longrightarrow> normalizeScopeType st = st" by auto
qed

lemma granted_reference:
  assumes "requirePolicyMutation actor t legacy sid = Inr scope"
    and "beginPolicyMutationTx env db actor scope = (actor', Inr tx)"
    and "service_reference env tx (scoped_service scope service) = Inr ref"
    and "scope_errors (effectiveScopeType (pms_ScopeType scope) l (scoped_service scope service))
      (scoped_service scope service) = []"
    and "owner = pms_OwnerUserID scope \<or> mutable scope tx st owner"
  shows "scope_ok db (pms_ScopeType scope) owner ref"
proof (cases "pms_ScopeType scope = ScopeTypeService")
  case True
  have "TrimSpace (scoped_service scope service) \<noteq> []"
    using assms(4) scope_type_normal [of "pms_ScopeType scope"] True
    by (auto simp: scope_errors_def effectiveScopeType_def validatePolicyScope_def Let_def split: if_splits)
  then obtain r where "r \<in> set (backend_services db)" "ref = Some (bs_id r)" "bs_owner_user_id r = tx_owner tx"
    using service_reference_Inr [OF assms(3)] begin_mutation_db [OF assms(2)] by (auto simp: list_ex_iff)
  moreover have "owner = tx_owner tx" using granted_scope(4) [OF assms(1,2) True, of st owner] assms(5) by blast
  ultimately show ?thesis using True by (auto simp: scope_ok_def list_ex_iff)
next
  case False
  then show ?thesis
    using granted_scope(1) [OF assms(1,2)] service_reference_Inr(1) [OF assms(3)]
    by (auto simp: scope_ok_def scoped_service_def)
qed

lemma audit_same_policy: "insertAudit env ctx tx actor a t i r = Inr tx' \<Longrightarrow> same_policy (tx_db tx) (tx_db tx')"
  using insertAudit_Inr by blast

subsection \<open>Refinement: services and forwarding policies\<close>

lemma config_mutation_user: "requireConfigMutation actor = None \<longleftrightarrow> actorCanMutateConfig actor"
  by (auto simp: requireConfigMutation_def actorCanMutateConfig_def)

lemma service_columns_keep:
  "service_columns env input enabled = Inr f \<Longrightarrow>
     bs_id (f r) = bs_id r \<and> bs_ebpf_id (f r) = bs_ebpf_id r \<and> bs_owner_user_id (f r) = bs_owner_user_id r"
  by (auto simp: service_columns_def elim!: bind_okE)

lemma CreateService_change: "policy_change actor db (fst (CreateService env db ctx actor input reason))"
  unfolding CreateService_def Let_def
proof (rule or_fail_change, rule owner_mutation_change, clarsimp elim!: bind_okE)
  fix actor' tx tx1 tx2 f s u
  assume checks: "require_ok (requireConfigMutation actor) = Inr ()"
    and began: "beginActorOwnerTx env db actor = (actor', Inr tx)"
    and f: "service_columns env input (boolDefault (si_Enabled input) True) = Inr f"
    and ins: "sql_insert env ''backend_services'' backend_services backend_services_update service_clash
      (f (new_service_row env (tx_db tx) (actorOwnerUserID actor'))) tx = Inr tx1"
    and audit: "insertAudit env ctx tx1 actor' ''create_service'' ''backend_service'' (svc_ID s)
      (mutationReason reason (si_Reason input)) = Inr tx2"
  have "actorCanMutateConfig actor" using checks by (simp add: config_mutation_user split: option.splits)
  from begin_actor_owner [OF began this] sql_insert_db [OF ins] audit_same_policy [OF audit]
    service_columns_keep [OF f, of "new_service_row env (tx_db tx) (actorOwnerUserID actor')"]
  show "policy_change actor db (tx_db tx2)"
    by (intro policy_change.add_service) (auto simp: new_service_row_def)
qed

lemma UpdateService_change: "policy_change actor db (fst (UpdateService env db ctx actor sid input reason))"
  unfolding UpdateService_def Let_def
proof (rule or_fail_change, rule owner_mutation_change, clarsimp elim!: bind_okE)
  fix actor' tx tx1 tx2 f row enabled
  assume checks: "require_ok (requireConfigMutation actor) = Inr ()"
    and began: "beginActorOwnerTx env db actor = (actor', Inr tx)"
    and f: "service_columns env input enabled = Inr f"
    and upd: "sql_update env ''backend_services'' backend_services backend_services_update service_clash
      (\<lambda>r. bs_id r = sid \<and> owned tx (bs_owner_user_id r))
      (\<lambda>r. f r\<lparr>bs_sync_status := ''pending'', bs_updated_at := se_now env\<rparr>) tx = Inr (tx1, row)"
    and audit: "insertAudit env ctx tx1 actor' ''update_service'' ''backend_service'' sid
      (mutationReason reason (si_Reason input)) = Inr tx2"
  have "actorCanMutateConfig actor" using checks by (simp add: config_mutation_user split: option.splits)
  from begin_actor_owner [OF began this] sql_update_db(2) [OF upd] audit_same_policy [OF audit]
    service_columns_keep [OF f]
  show "policy_change actor db (tx_db tx2)"
    by (intro policy_change.set_service [where P = "\<lambda>r. bs_id r = sid \<and> owned tx (bs_owner_user_id r)"])
      (auto simp: owned_def ownerSQL_true)
qed

lemma DeleteService_change: "policy_change actor db (fst (DeleteService env db ctx actor sid reason))"
  unfolding DeleteService_def
proof (rule or_fail_change, rule owner_mutation_change, clarsimp elim!: bind_okE)
  fix actor' tx tx1 tx2 row
  assume checks: "require_ok (requireConfigMutation actor) = Inr ()"
    and began: "beginActorOwnerTx env db actor = (actor', Inr tx)"
    and upd: "sql_update env ''backend_services'' backend_services backend_services_update service_clash
      (\<lambda>r. bs_id r = sid \<and> owned tx (bs_owner_user_id r))
      (\<lambda>r. r\<lparr>bs_enabled := False, bs_deleted_at := Some (se_now env), bs_sync_status := ''pending'',
        bs_updated_at := se_now env\<rparr>) tx = Inr (tx1, row)"
    and audit: "insertAudit env ctx tx1 actor' ''disable_service'' ''backend_service'' sid reason = Inr tx2"
  have "actorCanMutateConfig actor" using checks by (simp add: config_mutation_user split: option.splits)
  from begin_actor_owner [OF began this] sql_update_db(2) [OF upd] audit_same_policy [OF audit]
  show "policy_change actor db (tx_db tx2)"
    by (intro policy_change.set_service [where P = "\<lambda>r. bs_id r = sid \<and> owned tx (bs_owner_user_id r)"])
      (auto simp: owned_def ownerSQL_true)
qed

lemma CreateForwardingPolicy_change:
  "policy_change actor db (fst (CreateForwardingPolicy env db ctx actor input reason))"
  unfolding CreateForwardingPolicy_def Let_def
proof (rule or_fail_change, rule owner_mutation_change, clarsimp elim!: bind_okE)
  fix actor' tx tx1 tx2 row s policy
  assume checks: "require_ok (requireConfigMutation actor) = Inr ()"
    and began: "beginActorOwnerTx env db actor = (actor', Inr tx)"
    and svc: "getService env tx (fi_ServiceID input) = Inr s"
    and row: "forwarding_row env (tx_db tx) (actorOwnerUserID actor') input = Inr row"
    and ins: "sql_insert env ''forwarding_policies'' forwarding_policies forwarding_policies_update forwarding_clash row tx =
      Inr tx1"
    and audit: "insertAudit env ctx tx1 actor' ''create_forwarding_policy'' ''forwarding_policy'' (fpo_ID policy)
      (mutationReason reason (fi_Reason input)) = Inr tx2"
  have can: "actorCanMutateConfig actor" using checks by (simp add: config_mutation_user split: option.splits)
  have "fp_service_id row = fi_ServiceID input \<and> fp_owner_user_id row = actorOwnerUserID actor'"
    using row by (auto simp: forwarding_row_def elim!: bind_okE)
  with begin_actor_owner [OF began can] getService_Inr [OF svc] sql_insert_db [OF ins] audit_same_policy [OF audit]
  show "policy_change actor db (tx_db tx2)"
    by (intro policy_change.add_forwarding) (auto simp: list_ex_iff)
qed

subsection \<open>Refinement: white list\<close>

lemma whitelist_columns_keep:
  "whitelist_columns env scope input ref reason enabled = Inr f \<Longrightarrow>
     wl_id (f r) = wl_id r \<and> wl_ebpf_id (f r) = wl_ebpf_id r \<and> wl_owner_user_id (f r) = wl_owner_user_id r \<and>
     wl_scope_type (f r) = pms_ScopeType scope \<and> wl_service_id (f r) = ref"
  by (auto simp: whitelist_columns_def elim!: bind_okE)

lemma valid_whitelist_scope:
  "validateWhitelistInput (scoped_whitelist scope input) = [] \<Longrightarrow>
     scope_errors (effectiveScopeType (pms_ScopeType scope) (legacyScopeForScopeType (pms_ScopeType scope))
       (scoped_service scope (wi_ServiceID input))) (scoped_service scope (wi_ServiceID input)) = []"
  by (simp add: validateWhitelistInput_def scoped_whitelist_def)

lemma CreateWhitelistEntry_change:
  "policy_change actor db (fst (CreateWhitelistEntry env db ctx actor input reason))"
  unfolding CreateWhitelistEntry_def Let_def
proof (intro or_fail_change, rule scoped_mutation_change, clarsimp elim!: bind_okE)
  fix scope actor' tx tx1 tx2 f ref entry and enabled reason' :: "char list" and u
  assume scope: "requirePolicyMutation actor (wi_ScopeType input) (wi_Scope input) (wi_ServiceID input) = Inr scope"
    and valid: "validateWhitelistInput (scoped_whitelist scope input) = []"
    and began: "beginPolicyMutationTx env db actor scope = (actor', Inr tx)"
    and ref: "service_reference env tx (wi_ServiceID (scoped_whitelist scope input)) = Inr ref"
    and f: "whitelist_columns env scope (scoped_whitelist scope input) ref
      (mutationReason reason (wi_Reason (scoped_whitelist scope input)))
      (boolDefault (wi_Enabled (scoped_whitelist scope input)) True) = Inr f"
    and ins: "sql_insert env ''whitelist_entries'' whitelist_entries whitelist_entries_update whitelist_clash
      (f (new_whitelist_row env (tx_db tx) scope)) tx = Inr tx1"
    and audit: "insertAudit env ctx tx1 actor' ''create_whitelist'' ''whitelist_entry'' (we_ID entry)
      (mutationReason reason (wi_Reason (scoped_whitelist scope input))) = Inr tx2"
  have "scope_ok db (pms_ScopeType scope) (pms_OwnerUserID scope) ref"
    using granted_reference [OF scope began _ valid_whitelist_scope [OF valid]] ref
    by (simp add: scoped_whitelist_def)
  with granted_scope(2) [OF scope began] begin_mutation_db [OF began] sql_insert_db [OF ins] audit_same_policy [OF audit]
    whitelist_columns_keep [OF f, of "new_whitelist_row env (tx_db tx) scope"]
  show "policy_change actor db (tx_db tx2)"
    by (intro policy_change.add_whitelist) (auto simp: new_whitelist_row_def)
qed

lemma UpdateWhitelistEntry_change:
  "policy_change actor db (fst (UpdateWhitelistEntry env db ctx actor wid input reason))"
  unfolding UpdateWhitelistEntry_def Let_def
proof (intro or_fail_change, rule scoped_mutation_change, clarsimp elim!: bind_okE)
  fix scope actor' tx tx1 tx2 f ref row enabled reason'
  assume scope: "requirePolicyMutation actor (wi_ScopeType input) (wi_Scope input) (wi_ServiceID input) = Inr scope"
    and valid: "validateWhitelistInput (scoped_whitelist scope input) = []"
    and began: "beginPolicyMutationTx env db actor scope = (actor', Inr tx)"
    and ref: "service_reference env tx (wi_ServiceID (scoped_whitelist scope input)) = Inr ref"
    and f: "whitelist_columns env scope (scoped_whitelist scope input) ref reason' enabled = Inr f"
    and upd: "sql_update env ''whitelist_entries'' whitelist_entries whitelist_entries_update whitelist_clash
      (\<lambda>r. wl_id r = wid \<and> mutable scope tx (wl_scope_type r) (wl_owner_user_id r))
      (\<lambda>r. f r\<lparr>wl_updated_at := se_now env\<rparr>) tx = Inr (tx1, row)"
    and audit: "insertAudit env ctx tx1 actor' ''update_whitelist'' ''whitelist_entry'' wid reason' = Inr tx2"
  have "scope_ok db (pms_ScopeType scope) owner ref" if "mutable scope tx st owner" for st owner
    using granted_reference [OF scope began _ valid_whitelist_scope [OF valid]] ref that
    by (auto simp: scoped_whitelist_def)
  with granted_scope(3) [OF scope began] begin_mutation_db [OF began] sql_update_db(2) [OF upd]
    audit_same_policy [OF audit] whitelist_columns_keep [OF f]
  show "policy_change actor db (tx_db tx2)"
    by (intro policy_change.set_whitelist
        [where P = "\<lambda>r. wl_id r = wid \<and> mutable scope tx (wl_scope_type r) (wl_owner_user_id r)"]) auto
qed

lemma DisableWhitelistEntry_change:
  "policy_change actor db (fst (DisableWhitelistEntry env db ctx actor wid reason))"
  unfolding DisableWhitelistEntry_def
proof (intro or_fail_change, rule scoped_mutation_change, clarsimp elim!: bind_okE)
  fix scope actor' tx tx1 tx2 row
  assume scope: "requirePolicyMutation actor [] [] [] = Inr scope"
    and began: "beginPolicyMutationTx env db actor scope = (actor', Inr tx)"
    and upd: "sql_update env ''whitelist_entries'' whitelist_entries whitelist_entries_update whitelist_clash
      (\<lambda>r. wl_id r = wid \<and> mutable scope tx (wl_scope_type r) (wl_owner_user_id r))
      (\<lambda>r. r\<lparr>wl_enabled := False, wl_reason := TrimSpace reason, wl_updated_at := se_now env\<rparr>) tx = Inr (tx1, row)"
    and audit: "insertAudit env ctx tx1 actor' ''disable_whitelist'' ''whitelist_entry'' wid (TrimSpace reason) = Inr tx2"
  from granted_scope(3) [OF scope began] begin_mutation_db [OF began] sql_update_db(2) [OF upd] audit_same_policy [OF audit]
  show "policy_change actor db (tx_db tx2)"
    by (intro policy_change.set_whitelist
        [where P = "\<lambda>r. wl_id r = wid \<and> mutable scope tx (wl_scope_type r) (wl_owner_user_id r)"]) auto
qed

end
