(* ===== verification/PolicyRefinement.thy ===== *)
theory PolicyRefinement
  imports PolicySafety
begin

section \<open>Refinement of the remaining mutations\<close>

text \<open>Rules, black list entries and UDP source port blocks refine \<open>policy_change\<close>.\<close>

subsection \<open>Rules\<close>

lemma rule_columns_keep:
  "rule_columns env scope input ref enabled = Inr f \<Longrightarrow>
     rl_id (f r) = rl_id r \<and> rl_ebpf_id (f r) = rl_ebpf_id r \<and> rl_owner_user_id (f r) = rl_owner_user_id r \<and>
     rl_scope_type (f r) = pms_ScopeType scope \<and> rl_service_id (f r) = ref"
  by (auto simp: rule_columns_def elim!: bind_okE)

lemma valid_rule_scope:
  "validateRuleInput (scoped_rule scope input) = [] \<Longrightarrow>
     scope_errors (effectiveScopeType (pms_ScopeType scope) []
       (scoped_service scope (ri_ServiceID input))) (scoped_service scope (ri_ServiceID input)) = []"
  by (simp add: validateRuleInput_def scoped_rule_def)

lemma CreateRule_change:
  "policy_change actor db (fst (CreateRule env db ctx actor input reason))"
  unfolding CreateRule_def Let_def
proof (intro or_fail_change, rule scoped_mutation_change, clarsimp elim!: bind_okE)
  fix scope actor' tx tx1 tx2 f ref entry and enabled reason' :: "char list" and u
  assume scope: "requirePolicyMutation actor (ri_ScopeType input) [] (ri_ServiceID input) = Inr scope"
    and valid: "validateRuleInput (scoped_rule scope input) = []"
    and began: "beginPolicyMutationTx env db actor scope = (actor', Inr tx)"
    and ref: "service_reference env tx (ri_ServiceID (scoped_rule scope input)) = Inr ref"
    and f: "rule_columns env scope (scoped_rule scope input) ref
      (boolDefault (ri_Enabled (scoped_rule scope input)) True) = Inr f"
    and ins: "sql_insert env ''rules'' rules rules_update rule_clash
      (f (new_rule_row env (tx_db tx) scope)) tx = Inr tx1"
    and audit: "insertAudit env ctx tx1 actor' ''create_rule'' ''rule'' (ru_ID entry)
      (mutationReason reason (ri_Reason (scoped_rule scope input))) = Inr tx2"
  have "scope_ok db (pms_ScopeType scope) (pms_OwnerUserID scope) ref"
    using granted_reference [OF scope began _ valid_rule_scope [OF valid]] ref
    by (simp add: scoped_rule_def)
  with granted_scope(2) [OF scope began] begin_mutation_db [OF began] sql_insert_db [OF ins] audit_same_policy [OF audit]
    rule_columns_keep [OF f, of "new_rule_row env (tx_db tx) scope"]
  show "policy_change actor db (tx_db tx2)"
    by (intro policy_change.add_rule) (auto simp: new_rule_row_def)
qed

lemma UpdateRule_change:
  "policy_change actor db (fst (UpdateRule env db ctx actor rid input reason))"
  unfolding UpdateRule_def Let_def
proof (intro or_fail_change, rule scoped_mutation_change, clarsimp elim!: bind_okE)
  fix scope actor' tx tx1 tx2 f ref row enabled reason'
  assume scope: "requirePolicyMutation actor (ri_ScopeType input) [] (ri_ServiceID input) = Inr scope"
    and valid: "validateRuleInput (scoped_rule scope input) = []"
    and began: "beginPolicyMutationTx env db actor scope = (actor', Inr tx)"
    and ref: "service_reference env tx (ri_ServiceID (scoped_rule scope input)) = Inr ref"
    and f: "rule_columns env scope (scoped_rule scope input) ref enabled = Inr f"
    and upd: "sql_update env ''rules'' rules rules_update rule_clash
      (\<lambda>r. rl_id r = rid \<and> mutable scope tx (rl_scope_type r) (rl_owner_user_id r))
      (\<lambda>r. f r\<lparr>rl_updated_at := se_now env\<rparr>) tx = Inr (tx1, row)"
    and audit: "insertAudit env ctx tx1 actor' ''update_rule'' ''rule'' rid reason' = Inr tx2"
  have "scope_ok db (pms_ScopeType scope) owner ref" if "mutable scope tx st owner" for st owner
    using granted_reference [OF scope began _ valid_rule_scope [OF valid]] ref that
    by (auto simp: scoped_rule_def)
  with granted_scope(3) [OF scope began] begin_mutation_db [OF began] sql_update_db(2) [OF upd]
    audit_same_policy [OF audit] rule_columns_keep [OF f]
  show "policy_change actor db (tx_db tx2)"
    by (intro policy_change.set_rule
        [where P = "\<lambda>r. rl_id r = rid \<and> mutable scope tx (rl_scope_type r) (rl_owner_user_id r)"]) auto
qed

lemma DisableRule_change:
  "policy_change actor db (fst (DisableRule env db ctx actor rid reason))"
  unfolding DisableRule_def
proof (intro or_fail_change, rule scoped_mutation_change, clarsimp elim!: bind_okE)
  fix scope actor' tx tx1 tx2 row
  assume scope: "requirePolicyMutation actor [] [] [] = Inr scope"
    and began: "beginPolicyMutationTx env db actor scope = (actor', Inr tx)"
    and upd: "sql_update env ''rules'' rules rules_update rule_clash
      (\<lambda>r. rl_id r = rid \<and> mutable scope tx (rl_scope_type r) (rl_owner_user_id r))
      (\<lambda>r. r\<lparr>rl_enabled := False, rl_updated_at := se_now env\<rparr>) tx = Inr (tx1, row)"
    and audit: "insertAudit env ctx tx1 actor' ''disable_rule'' ''rule'' rid (TrimSpace reason) = Inr tx2"
  from granted_scope(3) [OF scope began] begin_mutation_db [OF began] sql_update_db(2) [OF upd] audit_same_policy [OF audit]
  show "policy_change actor db (tx_db tx2)"
    by (intro policy_change.set_rule
        [where P = "\<lambda>r. rl_id r = rid \<and> mutable scope tx (rl_scope_type r) (rl_owner_user_id r)"]) auto
qed

subsection \<open>Black list\<close>

lemma blacklist_columns_keep:
  "blacklist_columns env scope input ref rule reason enabled = Inr f \<Longrightarrow>
     bl_id (f r) = bl_id r \<and> bl_ebpf_id (f r) = bl_ebpf_id r \<and> bl_owner_user_id (f r) = bl_owner_user_id r \<and>
     bl_scope_type (f r) = pms_ScopeType scope \<and> bl_service_id (f r) = ref"
  by (auto simp: blacklist_columns_def elim!: bind_okE)

lemma valid_blacklist_scope:
  "validateBlacklistInput (scoped_blacklist scope input) = [] \<Longrightarrow>
     scope_errors (effectiveScopeType (pms_ScopeType scope) []
       (scoped_service scope (bi_ServiceID input))) (scoped_service scope (bi_ServiceID input)) = []"
  by (simp add: validateBlacklistInput_def scoped_blacklist_def)

lemma CreateBlacklistEntry_change:
  "policy_change actor db (fst (CreateBlacklistEntry env db ctx actor input reason))"
  unfolding CreateBlacklistEntry_def Let_def
proof (intro or_fail_change, rule scoped_mutation_change, clarsimp elim!: bind_okE)
  fix scope actor' tx tx1 tx2 f ref rule entry and enabled reason' :: "char list" and u
  assume scope: "requirePolicyMutation actor (bi_ScopeType input) [] (bi_ServiceID input) = Inr scope"
    and valid: "validateBlacklistInput (scoped_blacklist scope input) = []"
    and began: "beginPolicyMutationTx env db actor scope = (actor', Inr tx)"
    and ref: "service_reference env tx (bi_ServiceID (scoped_blacklist scope input)) = Inr ref"
    and f: "blacklist_columns env scope (scoped_blacklist scope input) ref rule
      (mutationReason reason (bi_Reason (scoped_blacklist scope input)))
      (boolDefault (bi_Enabled (scoped_blacklist scope input)) True) = Inr f"
    and ins: "sql_insert env ''manual_blacklist_entries'' manual_blacklist_entries manual_blacklist_entries_update blacklist_clash
      (f (new_blacklist_row env (tx_db tx) scope)) tx = Inr tx1"
    and audit: "insertAudit env ctx tx1 actor' ''create_blacklist'' ''manual_blacklist_entry'' (be_ID entry)
      (mutationReason reason (bi_Reason (scoped_blacklist scope input))) = Inr tx2"
  have "scope_ok db (pms_ScopeType scope) (pms_OwnerUserID scope) ref"
    using granted_reference [OF scope began _ valid_blacklist_scope [OF valid]] ref
    by (simp add: scoped_blacklist_def)
  with granted_scope(2) [OF scope began] begin_mutation_db [OF began] sql_insert_db [OF ins] audit_same_policy [OF audit]
    blacklist_columns_keep [OF f, of "new_blacklist_row env (tx_db tx) scope"]
  show "policy_change actor db (tx_db tx2)"
    by (intro policy_change.add_blacklist) (auto simp: new_blacklist_row_def)
qed

lemma UpdateBlacklistEntry_change:
  "policy_change actor db (fst (UpdateBlacklistEntry env db ctx actor bid input reason))"
  unfolding UpdateBlacklistEntry_def Let_def
proof (intro or_fail_change, rule scoped_mutation_change, clarsimp elim!: bind_okE)
  fix scope actor' tx tx1 tx2 f ref rule row enabled reason'
  assume scope: "requirePolicyMutation actor (bi_ScopeType input) [] (bi_ServiceID input) = Inr scope"
    and valid: "validateBlacklistInput (scoped_blacklist scope input) = []"
    and began: "beginPolicyMutationTx env db actor scope = (actor', Inr tx)"
    and ref: "service_reference env tx (bi_ServiceID (scoped_blacklist scope input)) = Inr ref"
    and f: "blacklist_columns env scope (scoped_blacklist scope input) ref rule reason' enabled = Inr f"
    and upd: "sql_update env ''manual_blacklist_entries'' manual_blacklist_entries manual_blacklist_entries_update blacklist_clash
      (\<lambda>r. bl_id r = bid \<and> mutable scope tx (bl_scope_type r) (bl_owner_user_id r))
      (\<lambda>r. f r\<lparr>bl_updated_at := se_now env\<rparr>) tx = Inr (tx1, row)"
    and audit: "insertAudit env ctx tx1 actor' ''update_blacklist'' ''manual_blacklist_entry'' bid reason' = Inr tx2"
  have "scope_ok db (pms_ScopeType scope) owner ref" if "mutable scope tx st owner" for st owner
    using granted_reference [OF scope began _ valid_blacklist_scope [OF valid]] ref that
    by (auto simp: scoped_blacklist_def)
  with granted_scope(3) [OF scope began] begin_mutation_db [OF began] sql_update_db(2) [OF upd]
    audit_same_policy [OF audit] blacklist_columns_keep [OF f]
  show "policy_change actor db (tx_db tx2)"
    by (intro policy_change.set_blacklist
        [where P = "\<lambda>r. bl_id r = bid \<and> mutable scope tx (bl_scope_type r) (bl_owner_user_id r)"]) auto
qed

lemma DisableBlacklistEntry_change:
  "policy_change actor db (fst (DisableBlacklistEntry env db ctx actor bid reason))"
  unfolding DisableBlacklistEntry_def
proof (intro or_fail_change, rule scoped_mutation_change, clarsimp elim!: bind_okE)
  fix scope actor' tx tx1 tx2 row
  assume scope: "requirePolicyMutation actor [] [] [] = Inr scope"
    and began: "beginPolicyMutationTx env db actor scope = (actor', Inr tx)"
    and upd: "sql_update env ''manual_blacklist_entries'' manual_blacklist_entries manual_blacklist_entries_update blacklist_clash
      (\<lambda>r. bl_id r = bid \<and> mutable scope tx (bl_scope_type r) (bl_owner_user_id r))
      (\<lambda>r. r\<lparr>bl_enabled := False, bl_reason := TrimSpace reason, bl_updated_at := se_now env\<rparr>) tx = Inr (tx1, row)"
    and audit: "insertAudit env ctx tx1 actor' ''disable_blacklist'' ''manual_blacklist_entry'' bid (TrimSpace reason) = Inr tx2"
  from granted_scope(3) [OF scope began] begin_mutation_db [OF began] sql_update_db(2) [OF upd] audit_same_policy [OF audit]
  show "policy_change actor db (tx_db tx2)"
    by (intro policy_change.set_blacklist
        [where P = "\<lambda>r. bl_id r = bid \<and> mutable scope tx (bl_scope_type r) (bl_owner_user_id r)"]) auto
qed

subsection \<open>UDP source port blocks\<close>

lemma udp_columns_keep [simp]:
  "ubr_id (udp_columns scope input ref reason enabled r) = ubr_id r"
  "ubr_ebpf_id (udp_columns scope input ref reason enabled r) = ubr_ebpf_id r"
  "ubr_owner_user_id (udp_columns scope input ref reason enabled r) = ubr_owner_user_id r"
  "ubr_scope_type (udp_columns scope input ref reason enabled r) = pms_ScopeType scope"
  "ubr_service_id (udp_columns scope input ref reason enabled r) = ref"
  by (simp_all add: udp_columns_def)

lemma valid_udp_scope:
  "validateUDPSourcePortBlockInput (scoped_udp scope input) = [] \<Longrightarrow>
     scope_errors (effectiveScopeType (pms_ScopeType scope) []
       (scoped_service scope (ui_ServiceID input))) (scoped_service scope (ui_ServiceID input)) = []"
  by (simp add: validateUDPSourcePortBlockInput_def scoped_udp_def)

lemma CreateUDPSourcePortBlock_change:
  "policy_change actor db (fst (CreateUDPSourcePortBlock env db ctx actor input reason))"
  unfolding CreateUDPSourcePortBlock_def Let_def
proof (intro or_fail_change, rule scoped_mutation_change, clarsimp elim!: bind_okE)
  fix scope actor' tx tx1 tx2 f ref entry and enabled reason' :: "char list" and u
  assume scope: "requirePolicyMutation actor (ui_ScopeType input) [] (ui_ServiceID input) = Inr scope"
    and valid: "validateUDPSourcePortBlockInput (scoped_udp scope input) = []"
    and began: "beginPolicyMutationTx env db actor scope = (actor', Inr tx)"
    and ref: "service_reference env tx (ui_ServiceID (scoped_udp scope input)) = Inr ref"
    and ins: "sql_insert env ''udp_source_port_blocks'' udp_source_port_blocks udp_source_port_blocks_update udp_clash
      (udp_columns scope (scoped_udp scope input) ref
        (mutationReason reason (ui_Reason (scoped_udp scope input)))
        (boolDefault (ui_Enabled (scoped_udp scope input)) True) (new_udp_row env (tx_db tx) scope)) tx = Inr tx1"
    and audit: "insertAudit env ctx tx1 actor' ''create_udp_source_port_block'' ''udp_source_port_block'' (ub_ID entry)
      (mutationReason reason (ui_Reason (scoped_udp scope input))) = Inr tx2"
  have "scope_ok db (pms_ScopeType scope) (pms_OwnerUserID scope) ref"
    using granted_reference [OF scope began _ valid_udp_scope [OF valid]] ref
    by (simp add: scoped_udp_def)
  with granted_scope(2) [OF scope began] begin_mutation_db [OF began] sql_insert_db [OF ins] audit_same_policy [OF audit]
    udp_columns_keep
  show "policy_change actor db (tx_db tx2)"
    by (intro policy_change.add_udp) (auto simp: new_udp_row_def)
qed

lemma UpdateUDPSourcePortBlock_change:
  "policy_change actor db (fst (UpdateUDPSourcePortBlock env db ctx actor uid input reason))"
  unfolding UpdateUDPSourcePortBlock_def Let_def
proof (intro or_fail_change, rule scoped_mutation_change, clarsimp elim!: bind_okE)
  fix scope actor' tx tx1 tx2 f ref row enabled reason'
  assume scope: "requirePolicyMutation actor (ui_ScopeType input) [] (ui_ServiceID input) = Inr scope"
    and valid: "validateUDPSourcePortBlockInput (scoped_udp scope input) = []"
    and began: "beginPolicyMutationTx env db actor scope = (actor', Inr tx)"
    and ref: "service_reference env tx (ui_ServiceID (scoped_udp scope input)) = Inr ref"
    and upd: "sql_update env ''udp_source_port_blocks'' udp_source_port_blocks udp_source_port_blocks_update udp_clash
      (\<lambda>r. ubr_id r = uid \<and> mutable scope tx (ubr_scope_type r) (ubr_owner_user_id r))
      (\<lambda>r. udp_columns scope (scoped_udp scope input) ref reason' enabled r\<lparr>ubr_updated_at := se_now env\<rparr>) tx = Inr (tx1, row)"
    and audit: "insertAudit env ctx tx1 actor' ''update_udp_source_port_block'' ''udp_source_port_block'' uid reason' = Inr tx2"
  have "scope_ok db (pms_ScopeType scope) owner ref" if "mutable scope tx st owner" for st owner
    using granted_reference [OF scope began _ valid_udp_scope [OF valid]] ref that
    by (auto simp: scoped_udp_def)
  with granted_scope(3) [OF scope began] begin_mutation_db [OF began] sql_update_db(2) [OF upd]
    audit_same_policy [OF audit] udp_columns_keep
  show "policy_change actor db (tx_db tx2)"
    by (intro policy_change.set_udp
        [where P = "\<lambda>r. ubr_id r = uid \<and> mutable scope tx (ubr_scope_type r) (ubr_owner_user_id r)"]) auto
qed

lemma DisableUDPSourcePortBlock_change:
  "policy_change actor db (fst (DisableUDPSourcePortBlock env db ctx actor uid reason))"
  unfolding DisableUDPSourcePortBlock_def
proof (intro or_fail_change, rule scoped_mutation_change, clarsimp elim!: bind_okE)
  fix scope actor' tx tx1 tx2 row
  assume scope: "requirePolicyMutation actor [] [] [] = Inr scope"
    and began: "beginPolicyMutationTx env db actor scope = (actor', Inr tx)"
    and upd: "sql_update env ''udp_source_port_blocks'' udp_source_port_blocks udp_source_port_blocks_update udp_clash
      (\<lambda>r. ubr_id r = uid \<and> mutable scope tx (ubr_scope_type r) (ubr_owner_user_id r))
      (\<lambda>r. r\<lparr>ubr_enabled := False, ubr_reason := TrimSpace reason, ubr_updated_at := se_now env\<rparr>) tx = Inr (tx1, row)"
    and audit: "insertAudit env ctx tx1 actor' ''disable_udp_source_port_block'' ''udp_source_port_block'' uid (TrimSpace reason) = Inr tx2"
  from granted_scope(3) [OF scope began] begin_mutation_db [OF began] sql_update_db(2) [OF upd] audit_same_policy [OF audit]
  show "policy_change actor db (tx_db tx2)"
    by (intro policy_change.set_udp
        [where P = "\<lambda>r. ubr_id r = uid \<and> mutable scope tx (ubr_scope_type r) (ubr_owner_user_id r)"]) auto
qed

end
