(* ===== verification/PolicyIsolation.thy ===== *)
theory PolicyIsolation
  imports PolicyRefinement
begin

section \<open>Isolation and well-formedness of policy\<close>

text \<open>
  \<open>policy_op\<close> names the mutations of policy with their arguments. From the refinement of
  \<open>policy_change\<close> follow, for every operation, every environment and every pattern of failures: which
  rows it can touch, and that the tables stay well-formed.
\<close>

subsection \<open>Operations\<close>

datatype policy_op =
  OpCreateService ServiceInput string
| OpUpdateService string ServiceInput string
| OpDeleteService string string
| OpCreateForwarding ForwardingPolicyInput string
| OpCreateWhitelist WhitelistInput string
| OpUpdateWhitelist string WhitelistInput string
| OpDisableWhitelist string string
| OpCreateRule RuleInput string
| OpUpdateRule string RuleInput string
| OpDisableRule string string
| OpCreateBlacklist BlacklistInput string
| OpUpdateBlacklist string BlacklistInput string
| OpDisableBlacklist string string
| OpCreateUDPBlock UDPSourcePortBlockInput string
| OpUpdateUDPBlock string UDPSourcePortBlockInput string
| OpDisableUDPBlock string string

text \<open>The tables after the operation, and whether it succeeded.\<close>

fun policy_exec ::
    "store_env \<Rightarrow> go_context \<Rightarrow> Actor option \<Rightarrow> policy_op \<Rightarrow> control_db \<Rightarrow> control_db \<times> bool" where
  "policy_exec env ctx actor (OpCreateService input r) db = apsnd is_ok (CreateService env db ctx actor input r)"
| "policy_exec env ctx actor (OpUpdateService i input r) db = apsnd is_ok (UpdateService env db ctx actor i input r)"
| "policy_exec env ctx actor (OpDeleteService i r) db = apsnd is_ok (DeleteService env db ctx actor i r)"
| "policy_exec env ctx actor (OpCreateForwarding input r) db =
     apsnd is_ok (CreateForwardingPolicy env db ctx actor input r)"
| "policy_exec env ctx actor (OpCreateWhitelist input r) db = apsnd is_ok (CreateWhitelistEntry env db ctx actor input r)"
| "policy_exec env ctx actor (OpUpdateWhitelist i input r) db =
     apsnd is_ok (UpdateWhitelistEntry env db ctx actor i input r)"
| "policy_exec env ctx actor (OpDisableWhitelist i r) db = apsnd is_ok (DisableWhitelistEntry env db ctx actor i r)"
| "policy_exec env ctx actor (OpCreateRule input r) db = apsnd is_ok (CreateRule env db ctx actor input r)"
| "policy_exec env ctx actor (OpUpdateRule i input r) db = apsnd is_ok (UpdateRule env db ctx actor i input r)"
| "policy_exec env ctx actor (OpDisableRule i r) db = apsnd is_ok (DisableRule env db ctx actor i r)"
| "policy_exec env ctx actor (OpCreateBlacklist input r) db = apsnd is_ok (CreateBlacklistEntry env db ctx actor input r)"
| "policy_exec env ctx actor (OpUpdateBlacklist i input r) db =
     apsnd is_ok (UpdateBlacklistEntry env db ctx actor i input r)"
| "policy_exec env ctx actor (OpDisableBlacklist i r) db = apsnd is_ok (DisableBlacklistEntry env db ctx actor i r)"
| "policy_exec env ctx actor (OpCreateUDPBlock input r) db =
     apsnd is_ok (CreateUDPSourcePortBlock env db ctx actor input r)"
| "policy_exec env ctx actor (OpUpdateUDPBlock i input r) db =
     apsnd is_ok (UpdateUDPSourcePortBlock env db ctx actor i input r)"
| "policy_exec env ctx actor (OpDisableUDPBlock i r) db = apsnd is_ok (DisableUDPSourcePortBlock env db ctx actor i r)"

fun policy_run ::
    "(store_env \<times> go_context \<times> Actor option \<times> policy_op) list \<Rightarrow> control_db \<Rightarrow> control_db" where
  "policy_run [] db = db"
| "policy_run ((env, ctx, actor, oper) # ops) db = policy_run ops (fst (policy_exec env ctx actor oper db))"

lemma policy_exec_change: "policy_change actor db (fst (policy_exec env ctx actor oper db))"
  by (cases oper) (simp_all add: CreateService_change UpdateService_change DeleteService_change
      CreateForwardingPolicy_change CreateWhitelistEntry_change UpdateWhitelistEntry_change
      DisableWhitelistEntry_change CreateRule_change UpdateRule_change DisableRule_change
      CreateBlacklistEntry_change UpdateBlacklistEntry_change DisableBlacklistEntry_change
      CreateUDPSourcePortBlock_change UpdateUDPSourcePortBlock_change DisableUDPSourcePortBlock_change)

subsection \<open>Touched rows\<close>

text \<open>
  \<open>touches M xs ys\<close>: the rows of \<open>xs\<close> are still there, in order, changed only where \<open>M\<close> holds before
  and after, followed by new rows that satisfy \<open>M\<close>.
\<close>

definition touches :: "('r \<Rightarrow> bool) \<Rightarrow> 'r list \<Rightarrow> 'r list \<Rightarrow> bool" where
  "touches M xs ys \<longleftrightarrow> length xs \<le> length ys \<and>
     list_all2 (\<lambda>x y. y = x \<or> (M x \<and> M y)) xs (take (length xs) ys) \<and> list_all M (drop (length xs) ys)"

lemma touches_refl [simp]: "touches M xs xs"
  by (simp add: touches_def list_all2_refl)

lemma touches_append [simp]: "touches M xs (xs @ [r]) \<longleftrightarrow> M r"
  by (simp add: touches_def list_all2_refl)

lemma touches_map: "(\<And>r. P r \<Longrightarrow> M r \<and> M (f r)) \<Longrightarrow> touches M xs (map (\<lambda>r. if P r then f r else r) xs)"
  by (simp add: touches_def list_all2_conv_all_nth)

definition confined :: "Actor option \<Rightarrow> control_db \<Rightarrow> control_db \<Rightarrow> bool" where
  "confined actor db db' \<longleftrightarrow>
     touches (\<lambda>r. own_service_of actor (bs_owner_user_id r)) (backend_services db) (backend_services db') \<and>
     touches (\<lambda>r. own_service_of actor (fp_owner_user_id r)) (forwarding_policies db) (forwarding_policies db') \<and>
     touches (\<lambda>r. reach actor (wl_scope_type r) (wl_owner_user_id r)) (whitelist_entries db) (whitelist_entries db') \<and>
     touches (\<lambda>r. reach actor (rl_scope_type r) (rl_owner_user_id r)) (rules db) (rules db') \<and>
     touches (\<lambda>r. reach actor (bl_scope_type r) (bl_owner_user_id r))
       (manual_blacklist_entries db) (manual_blacklist_entries db') \<and>
     touches (\<lambda>r. reach actor (ubr_scope_type r) (ubr_owner_user_id r))
       (udp_source_port_blocks db) (udp_source_port_blocks db') \<and>
     app_users db' = app_users db \<and> user_sessions db' = user_sessions db \<and>
     feed_sources db' = feed_sources db \<and> reputation_entries db' = reputation_entries db"

lemma change_confined:
  assumes "policy_change actor db db'"
  shows "confined actor db db'"
  using assms
proof cases
  case nothing
  then show ?thesis by (simp add: confined_def same_policy_sel)
qed (drule same_policy_sel; clarsimp simp: confined_def touches_map)+

text \<open>
  C16. No mutation reaches beyond its actor. Whatever the operation, its arguments, the environment and
  the failures, the only rows of the policy tables that can change or appear are admin-global objects when
  the actor is an administrator in a normal session, and otherwise objects of the acting user that are not
  admin-global; no row disappears; users, sessions, feeds and reputation entries stay as they are.
\<close>

theorem policy_mutations_isolated: "confined actor db (fst (policy_exec env ctx actor oper db))"
  by (rule change_confined [OF policy_exec_change])

subsection \<open>Well-formed tables\<close>

definition table_wf :: "('r \<Rightarrow> 'k) \<Rightarrow> ('r \<Rightarrow> int) \<Rightarrow> ('r \<Rightarrow> bool) \<Rightarrow> 'r list \<Rightarrow> bool" where
  "table_wf key ebpf ok rows \<longleftrightarrow> distinct (map key rows) \<and> distinct (map ebpf rows) \<and> list_all ok rows"

definition service_ref :: "control_db \<Rightarrow> string \<Rightarrow> string \<Rightarrow> bool" where
  "service_ref db sid owner \<longleftrightarrow> list_ex (\<lambda>s. bs_id s = sid \<and> bs_owner_user_id s = owner) (backend_services db)"

definition policy_wf :: "control_db \<Rightarrow> bool" where
  "policy_wf db \<longleftrightarrow>
     table_wf bs_id bs_ebpf_id (\<lambda>_. True) (backend_services db) \<and>
     table_wf fp_id fp_ebpf_id (\<lambda>r. service_ref db (fp_service_id r) (fp_owner_user_id r)) (forwarding_policies db) \<and>
     table_wf wl_id wl_ebpf_id (\<lambda>r. scope_ok db (wl_scope_type r) (wl_owner_user_id r) (wl_service_id r))
       (whitelist_entries db) \<and>
     table_wf rl_id rl_ebpf_id (\<lambda>r. scope_ok db (rl_scope_type r) (rl_owner_user_id r) (rl_service_id r)) (rules db) \<and>
     table_wf bl_id bl_ebpf_id (\<lambda>r. scope_ok db (bl_scope_type r) (bl_owner_user_id r) (bl_service_id r))
       (manual_blacklist_entries db) \<and>
     table_wf ubr_id ubr_ebpf_id (\<lambda>r. scope_ok db (ubr_scope_type r) (ubr_owner_user_id r) (ubr_service_id r))
       (udp_source_port_blocks db)"

lemma table_wf_append:
  assumes "table_wf key ebpf ok rows" and "ok row" and "\<forall>r\<in>set rows. \<not> clash r row"
    and "\<And>r. key r = key row \<or> ebpf r = ebpf row \<Longrightarrow> clash r row"
  shows "table_wf key ebpf ok (rows @ [row])"
proof -
  have "key row \<notin> key ` set rows" "ebpf row \<notin> ebpf ` set rows" using assms(3,4) by (metis imageE)+
  then show ?thesis using assms(1,2) by (simp add: table_wf_def)
qed

lemma table_wf_map:
  assumes "table_wf key ebpf ok rows"
    and "\<And>r. P r \<Longrightarrow> key (f r) = key r \<and> ebpf (f r) = ebpf r \<and> (ok r \<longrightarrow> ok (f r))"
  shows "table_wf key ebpf ok (map (\<lambda>r. if P r then f r else r) rows)"
proof -
  have keys: "map key (map (\<lambda>r. if P r then f r else r) rows) = map key rows"
    "map ebpf (map (\<lambda>r. if P r then f r else r) rows) = map ebpf rows"
    using assms(2) by simp_all
  have "list_all ok (map (\<lambda>r. if P r then f r else r) rows)"
    using assms by (auto simp: table_wf_def list_all_iff)
  then show ?thesis using assms(1) unfolding table_wf_def keys by blast
qed

lemma table_wf_mono: "table_wf key ebpf ok rows \<Longrightarrow> (\<And>r. ok r \<Longrightarrow> ok' r) \<Longrightarrow> table_wf key ebpf ok' rows"
  by (auto simp: table_wf_def list_all_iff)

text \<open>References need of the services only that none loses its identifier or owner.\<close>

definition keeps_services :: "control_db \<Rightarrow> control_db \<Rightarrow> bool" where
  "keeps_services db db' \<longleftrightarrow> (\<forall>sid owner. service_ref db sid owner \<longrightarrow> service_ref db' sid owner)"

lemma scope_ok_ref:
  "scope_ok db st owner ref \<longleftrightarrow> (if st = ScopeTypeService then (\<exists>i. ref = Some i \<and> service_ref db i owner)
     else st \<in> {ScopeTypeAdminGlobal, ScopeTypeUserGlobal} \<and> ref = None)"
  by (auto simp: scope_ok_def service_ref_def list_ex_iff)

lemma keeps_scope_ok: "keeps_services db db' \<Longrightarrow> scope_ok db st owner ref \<Longrightarrow> scope_ok db' st owner ref"
  by (auto simp: keeps_services_def scope_ok_ref split: if_splits)

lemma same_services_ok:
  "backend_services db' = backend_services db \<Longrightarrow> service_ref db' = service_ref db \<and> scope_ok db' = scope_ok db"
  by (simp add: service_ref_def scope_ok_def fun_eq_iff)

lemma list_ex_map_if:
  "(\<And>r. P r \<Longrightarrow> Q (f r) = Q r) \<Longrightarrow> list_ex Q (map (\<lambda>r. if P r then f r else r) xs) = list_ex Q xs"
  by (induction xs) auto

text \<open>Changes of the services.\<close>

lemma services_change_wf:
  assumes "policy_wf db" and "table_wf bs_id bs_ebpf_id (\<lambda>_. True) (backend_services db')" and "keeps_services db db'"
    and "forwarding_policies db' = forwarding_policies db \<and> whitelist_entries db' = whitelist_entries db \<and>
      rules db' = rules db \<and> manual_blacklist_entries db' = manual_blacklist_entries db \<and>
      udp_source_port_blocks db' = udp_source_port_blocks db"
  shows "policy_wf db'"
  using assms unfolding policy_wf_def
  by (auto intro: keeps_scope_ok elim!: table_wf_mono simp: keeps_services_def)

lemma change_wf:
  assumes "policy_change actor db db'" and "policy_wf db"
  shows "policy_wf db'"
  using assms(1)
proof cases
  case nothing
  then show ?thesis using assms(2) same_services_ok [of db' db] by (simp add: policy_wf_def same_policy_sel)
next
  case (add_service row)
  note sel = same_policy_sel [OF add_service(3)]
  have "table_wf bs_id bs_ebpf_id (\<lambda>_. True) (backend_services db')"
    unfolding conjunct1 [OF sel] using assms(2) add_service(2)
    by (auto simp: policy_wf_def service_clash_def intro!: table_wf_append [where clash = service_clash])
  moreover have "keeps_services db db'" using sel by (auto simp: keeps_services_def service_ref_def)
  ultimately show ?thesis using sel by (intro services_change_wf [OF assms(2)]) auto
next
  case (set_service P f)
  note sel = same_policy_sel [OF set_service(2)]
  have "table_wf bs_id bs_ebpf_id (\<lambda>_. True) (backend_services db')"
    using assms(2) sel set_service(1) by (auto simp: policy_wf_def intro: table_wf_map)
  moreover have "keeps_services db db'"
    unfolding keeps_services_def service_ref_def conjunct1 [OF sel] using set_service(1) by (simp add: list_ex_map_if)
  ultimately show ?thesis using sel by (intro services_change_wf [OF assms(2)]) auto
next
  case (add_forwarding row)
  note sel = same_policy_sel [OF add_forwarding(4)]
  have "table_wf fp_id fp_ebpf_id (\<lambda>r. service_ref db (fp_service_id r) (fp_owner_user_id r))
      (forwarding_policies db @ [row])"
    using assms(2) add_forwarding(2,3)
    by (auto simp: policy_wf_def forwarding_clash_def service_ref_def intro!: table_wf_append [where clash = forwarding_clash])
  then show ?thesis using assms(2) sel same_services_ok [of db' db] by (simp add: policy_wf_def)
next
  case (add_whitelist row)
  have "table_wf wl_id wl_ebpf_id (\<lambda>r. scope_ok db (wl_scope_type r) (wl_owner_user_id r) (wl_service_id r))
      (whitelist_entries db @ [row])"
    using assms(2) add_whitelist(2,3)
    by (auto simp: policy_wf_def whitelist_clash_def intro!: table_wf_append [where clash = whitelist_clash])
  then show ?thesis using assms(2) same_policy_sel [OF add_whitelist(4)] same_services_ok [of db' db]
    by (simp add: policy_wf_def)
next
  case (set_whitelist P f)
  have "table_wf wl_id wl_ebpf_id (\<lambda>r. scope_ok db (wl_scope_type r) (wl_owner_user_id r) (wl_service_id r))
      (map (\<lambda>r. if P r then f r else r) (whitelist_entries db))"
    using assms(2) set_whitelist(1) by (auto simp: policy_wf_def intro!: table_wf_map)
  then show ?thesis using assms(2) same_policy_sel [OF set_whitelist(2)] same_services_ok [of db' db]
    by (simp add: policy_wf_def)
next
  case (add_rule row)
  have "table_wf rl_id rl_ebpf_id (\<lambda>r. scope_ok db (rl_scope_type r) (rl_owner_user_id r) (rl_service_id r))
      (rules db @ [row])"
    using assms(2) add_rule(2,3)
    by (auto simp: policy_wf_def rule_clash_def intro!: table_wf_append [where clash = rule_clash])
  then show ?thesis using assms(2) same_policy_sel [OF add_rule(4)] same_services_ok [of db' db]
    by (simp add: policy_wf_def)
next
  case (set_rule P f)
  have "table_wf rl_id rl_ebpf_id (\<lambda>r. scope_ok db (rl_scope_type r) (rl_owner_user_id r) (rl_service_id r))
      (map (\<lambda>r. if P r then f r else r) (rules db))"
    using assms(2) set_rule(1) by (auto simp: policy_wf_def intro!: table_wf_map)
  then show ?thesis using assms(2) same_policy_sel [OF set_rule(2)] same_services_ok [of db' db]
    by (simp add: policy_wf_def)
next
  case (add_blacklist row)
  have "table_wf bl_id bl_ebpf_id (\<lambda>r. scope_ok db (bl_scope_type r) (bl_owner_user_id r) (bl_service_id r))
      (manual_blacklist_entries db @ [row])"
    using assms(2) add_blacklist(2,3)
    by (auto simp: policy_wf_def blacklist_clash_def intro!: table_wf_append [where clash = blacklist_clash])
  then show ?thesis using assms(2) same_policy_sel [OF add_blacklist(4)] same_services_ok [of db' db]
    by (simp add: policy_wf_def)
next
  case (set_blacklist P f)
  have "table_wf bl_id bl_ebpf_id (\<lambda>r. scope_ok db (bl_scope_type r) (bl_owner_user_id r) (bl_service_id r))
      (map (\<lambda>r. if P r then f r else r) (manual_blacklist_entries db))"
    using assms(2) set_blacklist(1) by (auto simp: policy_wf_def intro!: table_wf_map)
  then show ?thesis using assms(2) same_policy_sel [OF set_blacklist(2)] same_services_ok [of db' db]
    by (simp add: policy_wf_def)
next
  case (add_udp row)
  have "table_wf ubr_id ubr_ebpf_id (\<lambda>r. scope_ok db (ubr_scope_type r) (ubr_owner_user_id r) (ubr_service_id r))
      (udp_source_port_blocks db @ [row])"
    using assms(2) add_udp(2,3)
    by (auto simp: policy_wf_def udp_clash_def intro!: table_wf_append [where clash = udp_clash])
  then show ?thesis using assms(2) same_policy_sel [OF add_udp(4)] same_services_ok [of db' db]
    by (simp add: policy_wf_def)
next
  case (set_udp P f)
  have "table_wf ubr_id ubr_ebpf_id (\<lambda>r. scope_ok db (ubr_scope_type r) (ubr_owner_user_id r) (ubr_service_id r))
      (map (\<lambda>r. if P r then f r else r) (udp_source_port_blocks db))"
    using assms(2) set_udp(1) by (auto simp: policy_wf_def intro!: table_wf_map)
  then show ?thesis using assms(2) same_policy_sel [OF set_udp(2)] same_services_ok [of db' db]
    by (simp add: policy_wf_def)
qed

lemma policy_run_wf: "policy_wf db \<Longrightarrow> policy_wf (policy_run ops db)"
  by (induction ops db rule: policy_run.induct) (auto intro: change_wf [OF policy_exec_change])

text \<open>
  C17. Along every run of mutations, by any actors in any order, the policy tables stay well-formed: keys and
  data plane identifiers are distinct, every forwarding policy and every object of scope \<^verbatim>\<open>service\<close> refers to
  a stored service of its own owner, and every other object has scope \<^verbatim>\<open>admin_global\<close> or \<^verbatim>\<open>user_global\<close> and no
  service.
\<close>

theorem policy_tables_well_formed: "policy_wf db \<Longrightarrow> policy_wf (policy_run ops db)"
  by (rule policy_run_wf)

text \<open>The statement on the sample: ann takes two of her objects out of service and blocks a port.\<close>

definition sample_policy_ops :: "(store_env \<times> go_context \<times> Actor option \<times> policy_op) list" where
  "sample_policy_ops = map (\<lambda>oper. (sample_env, None, Some sample_actor, oper))
     [OpDeleteService ''s1'' ''retired'', OpDisableRule ''r1'' ''retired'',
      OpCreateUDPBlock \<lparr>ui_Reason = ''reflection'', ui_Port = 123, ui_ScopeType = ''user_global'',
        ui_ServiceID = [], ui_Label = ''NTP'', ui_Owner = [], ui_ExpiresAt = None, ui_Enabled = None\<rparr> []]"

theorem policy_tables_well_formed_witness: "policy_wf (policy_run sample_policy_ops sample_db)"
proof -
  have "policy_wf sample_db" by code_simp
  then show ?thesis by (rule policy_tables_well_formed)
qed

end
