(* ===== verification/PolicyAudit.thy ===== *)
theory PolicyAudit
  imports PolicyIsolation
begin

section \<open>Audit of policy mutations\<close>

text \<open>
  A mutation of policy is all or nothing and leaves an audit row: a successful one extends the audit
  log by a row of its actor with a reason, a failed one changes nothing. The only exception is an
  administrator's change of an admin-global object, which \<^verbatim>\<open>commitPolicyMutation\<close> commits before it
  rebuilds the snapshots of all users, so that an error of the rebuild is reported although the change
  is in place.
\<close>

subsection \<open>Audited results\<close>

definition audit_row_of :: "Actor option \<Rightarrow> audit_row \<Rightarrow> bool" where
  "audit_row_of actor row \<longleftrightarrow> au_actor_id row = map_option user_ID actor \<and> au_reason row \<noteq> None"

text \<open>\<open>extends actor db db'\<close>: the audit log got longer, and one of the new rows is the actor's.\<close>

definition extends :: "Actor option \<Rightarrow> control_db \<Rightarrow> control_db \<Rightarrow> bool" where
  "extends actor db db' \<longleftrightarrow> (\<exists>rows. audit_events db' = audit_events db @ rows \<and> list_ex (audit_row_of actor) rows)"

text \<open>
  A change of a global object that is in place although the operation failed: an administrator's, with its audit row in
  the tables \<open>db1\<close> that were committed, when the rebuild of the snapshots that follows the commit failed.
\<close>

definition committed_before_failure ::
    "store_env \<Rightarrow> go_context \<Rightarrow> Actor option \<Rightarrow> control_db \<Rightarrow> control_db \<Rightarrow> bool" where
  "committed_before_failure env ctx actor db db' \<longleftrightarrow> is_admin_session actor \<and>
     (\<exists>db1 reason e. tx_Commit env \<lparr>tx_owner = [], tx_db = db1\<rparr> = Inr db1 \<and> extends actor db db1 \<and>
        rebuildAllActiveUserSnapshots env db1 ctx actor reason = (db', Inl e))"

definition audited ::
    "store_env \<Rightarrow> go_context \<Rightarrow> Actor option \<Rightarrow> control_db \<Rightarrow> control_db \<times> bool \<Rightarrow> bool" where
  "audited env ctx actor db res \<longleftrightarrow>
     (if snd res then extends actor db (fst res)
      else fst res = db \<or> committed_before_failure env ctx actor db (fst res))"

text \<open>The statements of an operation: the audit row is written in the transaction that began.\<close>

definition extends_tx :: "Actor option \<Rightarrow> control_db \<Rightarrow> transaction \<Rightarrow> transaction \<Rightarrow> bool" where
  "extends_tx actor db tx tx' \<longleftrightarrow> extends actor db (tx_db tx') \<and> tx_owner tx' = tx_owner tx"

lemma extends_more:
  "extends actor db db' \<Longrightarrow> prefix (audit_events db') (audit_events db'') \<Longrightarrow> extends actor db db''"
  by (auto simp: extends_def prefix_def)

lemma rebuild_audit:
  assumes "rebuildSnapshotInTx env ctx tx actor rb reason = Inr (tx', m)"
  shows "prefix (audit_events (tx_db tx)) (audit_events (tx_db tx'))"
proof -
  have insert: "audit_events (tx_db b) = audit_events (tx_db a)"
    if "insert_snapshot env a sealed raw old actor = Inr b" for a b sealed raw old
    using that by (auto simp: insert_snapshot_def split: if_splits option.splits sum.splits)
  have audit: "prefix (audit_events (tx_db a)) (audit_events (tx_db b))"
    if "insertAudit env ctx a actor act ty i reason = Inr b" for a b act ty i
    using insertAudit_db(1) [OF that] by auto
  show ?thesis using assms unfolding rebuildSnapshotInTx_def Let_def
    by (elim bind_okE) (auto split: if_splits sum.splits dest!: insert audit)
qed

lemma rebuild_owners_audit: "prefix (audit_events db) (audit_events (fst (rebuild_owners env ctx actor reason owners db mv)))"
proof (induction owners arbitrary: db mv)
  case (Cons owner owners)
  let ?ctx = "contextWithOwner ctx owner"
  let ?step = "commit_or_drop env db (bind_ok (beginOwnerTx env db owner)
      (\<lambda>tx. rebuildSnapshotInTx env ?ctx tx actor None reason))"
  have "prefix (audit_events db) (audit_events (fst ?step))"
    by (rule commit_invariant [where I = "\<lambda>d. prefix (audit_events db) (audit_events d)"])
      (auto elim!: bind_okE dest!: begin_owner_tx rebuild_audit)
  then show ?case
    using Cons.IH by (auto simp: Let_def split: prod.split sum.split intro: prefix_order.trans)
qed simp

lemma rebuildAll_audit:
  "prefix (audit_events db) (audit_events (fst (rebuildAllActiveUserSnapshots env db ctx actor reason)))"
  by (simp add: rebuildAllActiveUserSnapshots_def rebuild_owners_audit split: sum.split)

lemma owner_mutation_audited:
  assumes "\<And>actor' tx tx' a. beginActorOwnerTx env db actor = (actor', Inr tx) \<Longrightarrow> body actor' tx = Inr (tx', a) \<Longrightarrow>
      extends_tx actor db tx tx'"
  shows "audited env ctx actor db (apsnd is_ok (owner_mutation env db ctx actor reason body))"
proof (cases "beginActorOwnerTx env db actor")
  case (Pair actor' began)
  let ?run = "bind_ok began (\<lambda>tx. bind_ok (body actor' tx) (\<lambda>(tx, a).
      bind_ok (rebuildSnapshotInTx env ctx tx actor' None reason) (\<lambda>(tx, _). Inr (tx, a))))"
  have "extends actor db (tx_db tx)" if "?run = Inr (tx, a)" for tx a
  proof -
    from that obtain tx0 tx1 m where "began = Inr tx0" "body actor' tx0 = Inr (tx1, a)"
      and r: "rebuildSnapshotInTx env ctx tx1 actor' None reason = Inr (tx, m)"
      by (auto elim!: bind_okE)
    then have "extends actor db (tx_db tx1)" using assms Pair unfolding extends_tx_def by blast
    then show ?thesis using rebuild_audit [OF r] by (rule extends_more)
  qed
  then show ?thesis unfolding owner_mutation_def Pair prod.case
    by (auto simp: audited_def commit_or_drop_def tx_Commit_def split: sum.splits)
qed

lemma scoped_mutation_audited:
  assumes body: "\<And>actor' tx tx' a. beginPolicyMutationTx env db actor scope = (actor', Inr tx) \<Longrightarrow>
      body actor' tx = Inr (tx', a) \<Longrightarrow> extends_tx actor db tx tx'"
    and admin: "pms_AdminGlobal scope \<Longrightarrow> is_admin_session actor"
  shows "audited env ctx actor db (apsnd is_ok (scoped_mutation env db ctx actor scope reason body))"
proof (cases "beginPolicyMutationTx env db actor scope")
  case (Pair actor' began)
  let ?run = "bind_ok began (\<lambda>tx. bind_ok (body actor' tx) (\<lambda>(tx, a).
      bind_ok (rebuildPolicyMutationInTx env ctx tx actor' scope reason) (\<lambda>tx. Inr (tx, a))))"
  have run: "extends actor db (tx_db tx) \<and> (pms_AdminGlobal scope \<longrightarrow> actor' = actor \<and> tx_owner tx = [])"
    if "?run = Inr (tx, a)" for tx a
  proof -
    from that obtain tx0 tx1 where began: "began = Inr tx0" and "body actor' tx0 = Inr (tx1, a)"
      and r: "rebuildPolicyMutationInTx env ctx tx1 actor' scope reason = Inr tx"
      by (auto elim!: bind_okE)
    then have ext: "extends_tx actor db tx0 tx1" using body Pair by blast
    have "prefix (audit_events (tx_db tx1)) (audit_events (tx_db tx))"
      using r by (auto simp: rebuildPolicyMutationInTx_def elim!: bind_okE split: if_splits dest: rebuild_audit)
    then have "extends actor db (tx_db tx)" using ext extends_more unfolding extends_tx_def by blast
    moreover have "actor' = actor \<and> tx_owner tx = []" if "pms_AdminGlobal scope"
      using that r ext Pair began
      by (auto simp: rebuildPolicyMutationInTx_def beginPolicyMutationTx_def extends_tx_def dest: begin_unscoped)
    ultimately show ?thesis by blast
  qed
  have "audited env ctx actor db (db', e = None)"
    if ran: "?run = Inr (tx, a)" and commit: "commitPolicyMutation env db ctx tx actor' scope reason = (db', e)" for tx a db' e
  proof (cases "tx_Commit env tx")
    case (Inl err)
    then show ?thesis using commit by (auto simp: commitPolicyMutation_def audited_def)
  next
    case (Inr db1)
    then have db1: "tx_db tx = db1" by (simp add: tx_Commit_def split: if_splits)
    show ?thesis
    proof (cases "pms_AdminGlobal scope")
      case True
      then obtain out where out: "rebuildAllActiveUserSnapshots env db1 ctx actor reason = (db', out)" "e = None \<longleftrightarrow> is_ok out"
        using commit run [OF ran] Inr by (auto simp: commitPolicyMutation_def split: prod.splits sum.splits)
      have tx: "tx = \<lparr>tx_owner = [], tx_db = db1\<rparr>" and ext: "extends actor db db1"
        using db1 run [OF ran] True by (cases tx; simp)+
      show ?thesis
      proof (cases out)
        case (Inl err)
        then have "committed_before_failure env ctx actor db db'"
          using admin [OF True] Inr out(1) ext unfolding tx committed_before_failure_def by blast
        then show ?thesis using Inl out(2) by (auto simp: audited_def)
      next
        case ok: (Inr n)
        then show ?thesis using out ext rebuildAll_audit [of db1 env ctx actor reason] extends_more [OF ext]
          by (simp add: audited_def)
      qed
    next
      case False
      then have "db' = db1" "e = None" using commit Inr by (simp_all add: commitPolicyMutation_def)
      then show ?thesis using run [OF ran] db1 by (simp add: audited_def)
    qed
  qed
  then show ?thesis unfolding scoped_mutation_def Pair prod.case
    by (force simp: audited_def split: sum.splits prod.splits option.splits)
qed

lemma or_fail_audited:
  assumes "\<And>b. checks = Inr b \<Longrightarrow> audited env ctx actor db (apsnd is_ok (run b))"
  shows "audited env ctx actor db (apsnd is_ok (or_fail db checks run))"
  using assms by (cases checks) (simp_all add: or_fail_def audited_def)

subsection \<open>Operations\<close>

lemma same_user_tx:
  "beginActorOwnerTx env db actor = (actor', Inr tx) \<Longrightarrow>
     tx_db tx = db \<and> map_option user_ID actor' = map_option user_ID actor"
  "beginPolicyMutationTx env db actor scope = (actor', Inr tx) \<Longrightarrow>
     tx_db tx = db \<and> map_option user_ID actor' = map_option user_ID actor"
  by (auto simp: beginPolicyMutationTx_def beginActorOwnerTx_def Let_def dest: begin_unscoped begin_owner_tx
      split: option.splits if_splits)

lemma extends_audit:
  assumes "insertAudit env ctx tx actor' a t i r = Inr tx'" and "audit_events (tx_db tx) = audit_events db"
    and "map_option user_ID actor' = map_option user_ID actor" and "TrimSpace r \<noteq> []"
  shows "extends actor db (tx_db tx')"
  using insertAudit_db(1) [OF assms(1)] assms(2-4)
  by (auto simp: extends_def audit_row_of_def nullif_empty_def)

lemma mutationReason_trimmed: "mutationReason h b \<noteq> [] \<Longrightarrow> TrimSpace (mutationReason h b) \<noteq> []"
  by (auto simp: mutationReason_def Let_def split: if_splits)

lemma granted_admin:
  assumes "requirePolicyMutation actor t l s = Inr scope" and "pms_AdminGlobal scope"
  shows "is_admin_session actor"
proof (cases actor)
  case None
  then show ?thesis using assms(1) by (simp add: requirePolicyMutation_def)
next
  case (Some a)
  show ?thesis using assms(1) [unfolded Some] by (cases rule: mutation_scope_cases) (use assms(2) Some in simp_all)
qed

text \<open>The last statements of every operation: one write of another table, a scan, the audit row.\<close>

lemma sql_insert_owner: "sql_insert env name sel put clash row tx = Inr tx' \<Longrightarrow> tx_owner tx' = tx_owner tx"
  unfolding sql_insert_def by (cases "db_guard env (WriteTable name) (tx_owner tx)") (auto split: if_splits)

lemma sql_update_owner: "sql_update env name sel put clash P f tx = Inr (tx', r) \<Longrightarrow> tx_owner tx' = tx_owner tx"
  unfolding sql_update_def
  by (cases "db_guard env (WriteTable name) (tx_owner tx)"; cases "find P (sel (tx_db tx))") (auto split: if_splits)

lemma extends_insert:
  assumes "sql_insert env name sel put clash row tx = Inr tx1" and "insertAudit env ctx tx1 actor' a t i r = Inr tx2"
    and "tx_db tx = db \<and> map_option user_ID actor' = map_option user_ID actor" and "TrimSpace r \<noteq> []"
    and "\<And>f d. audit_events (put f d) = audit_events d"
  shows "extends_tx actor db tx tx2"
proof -
  have "tx_owner tx2 = tx_owner tx" using insertAudit_db(2) [OF assms(2)] sql_insert_owner [OF assms(1)] by simp
  then show ?thesis
    using assms unfolding extends_tx_def by (intro conjI extends_audit [OF assms(2)]) (simp_all add: sql_insert_db)
qed

lemma extends_update:
  assumes "sql_update env name sel put clash P f tx = Inr (tx1, row)" and "insertAudit env ctx tx1 actor' a t i r = Inr tx2"
    and "tx_db tx = db \<and> map_option user_ID actor' = map_option user_ID actor" and "TrimSpace r \<noteq> []"
    and "\<And>f d. audit_events (put f d) = audit_events d"
  shows "extends_tx actor db tx tx2"
proof -
  have "tx_owner tx2 = tx_owner tx" using insertAudit_db(2) [OF assms(2)] sql_update_owner [OF assms(1)] by simp
  then show ?thesis
    using assms unfolding extends_tx_def by (intro conjI extends_audit [OF assms(2)]) (simp_all add: sql_update_db(2))
qed

lemma CreateService_audited: "audited env ctx actor db (apsnd is_ok (CreateService env db ctx actor input reason))"
  unfolding CreateService_def Let_def
  by (intro or_fail_audited owner_mutation_audited)
    (auto elim!: bind_okE extends_insert dest: granted_admin intro!: same_user_tx(1) simp: mutationReason_trimmed)

lemma UpdateService_audited: "audited env ctx actor db (apsnd is_ok (UpdateService env db ctx actor sid input reason))"
  unfolding UpdateService_def Let_def
  by (intro or_fail_audited owner_mutation_audited)
    (auto elim!: bind_okE extends_update dest: granted_admin intro!: same_user_tx(1) simp: mutationReason_trimmed)

lemma DeleteService_audited: "audited env ctx actor db (apsnd is_ok (DeleteService env db ctx actor sid reason))"
  unfolding DeleteService_def
  by (intro or_fail_audited owner_mutation_audited)
    (auto elim!: bind_okE extends_update dest: granted_admin intro!: same_user_tx(1) simp: mutationReason_trimmed)

lemma CreateForwardingPolicy_audited: "audited env ctx actor db (apsnd is_ok (CreateForwardingPolicy env db ctx actor input reason))"
  unfolding CreateForwardingPolicy_def Let_def
  by (intro or_fail_audited owner_mutation_audited)
    (auto elim!: bind_okE extends_insert dest: granted_admin intro!: same_user_tx(1) simp: mutationReason_trimmed)

lemma CreateWhitelistEntry_audited: "audited env ctx actor db (apsnd is_ok (CreateWhitelistEntry env db ctx actor input reason))"
  unfolding CreateWhitelistEntry_def Let_def
  by (intro or_fail_audited scoped_mutation_audited)
    (auto elim!: bind_okE extends_insert dest: granted_admin intro!: same_user_tx(2) simp: mutationReason_trimmed)

lemma UpdateWhitelistEntry_audited: "audited env ctx actor db (apsnd is_ok (UpdateWhitelistEntry env db ctx actor i input reason))"
  unfolding UpdateWhitelistEntry_def Let_def
  by (intro or_fail_audited scoped_mutation_audited)
    (auto elim!: bind_okE extends_update dest: granted_admin intro!: same_user_tx(2) simp: mutationReason_trimmed)

lemma DisableWhitelistEntry_audited: "audited env ctx actor db (apsnd is_ok (DisableWhitelistEntry env db ctx actor i reason))"
  unfolding DisableWhitelistEntry_def
  by (intro or_fail_audited scoped_mutation_audited)
    (auto elim!: bind_okE extends_update dest: granted_admin intro!: same_user_tx(2) simp: mutationReason_trimmed)

lemma CreateRule_audited: "audited env ctx actor db (apsnd is_ok (CreateRule env db ctx actor input reason))"
  unfolding CreateRule_def Let_def
  by (intro or_fail_audited scoped_mutation_audited)
    (auto elim!: bind_okE extends_insert dest: granted_admin intro!: same_user_tx(2) simp: mutationReason_trimmed)

lemma UpdateRule_audited: "audited env ctx actor db (apsnd is_ok (UpdateRule env db ctx actor i input reason))"
  unfolding UpdateRule_def Let_def
  by (intro or_fail_audited scoped_mutation_audited)
    (auto elim!: bind_okE extends_update dest: granted_admin intro!: same_user_tx(2) simp: mutationReason_trimmed)

lemma DisableRule_audited: "audited env ctx actor db (apsnd is_ok (DisableRule env db ctx actor i reason))"
  unfolding DisableRule_def
  by (intro or_fail_audited scoped_mutation_audited)
    (auto elim!: bind_okE extends_update dest: granted_admin intro!: same_user_tx(2) simp: mutationReason_trimmed)

lemma CreateBlacklistEntry_audited: "audited env ctx actor db (apsnd is_ok (CreateBlacklistEntry env db ctx actor input reason))"
  unfolding CreateBlacklistEntry_def Let_def
  by (intro or_fail_audited scoped_mutation_audited)
    (auto elim!: bind_okE extends_insert dest: granted_admin intro!: same_user_tx(2) simp: mutationReason_trimmed)

lemma UpdateBlacklistEntry_audited: "audited env ctx actor db (apsnd is_ok (UpdateBlacklistEntry env db ctx actor i input reason))"
  unfolding UpdateBlacklistEntry_def Let_def
  by (intro or_fail_audited scoped_mutation_audited)
    (auto elim!: bind_okE extends_update dest: granted_admin intro!: same_user_tx(2) simp: mutationReason_trimmed)

lemma DisableBlacklistEntry_audited: "audited env ctx actor db (apsnd is_ok (DisableBlacklistEntry env db ctx actor i reason))"
  unfolding DisableBlacklistEntry_def
  by (intro or_fail_audited scoped_mutation_audited)
    (auto elim!: bind_okE extends_update dest: granted_admin intro!: same_user_tx(2) simp: mutationReason_trimmed)

lemma CreateUDPSourcePortBlock_audited: "audited env ctx actor db (apsnd is_ok (CreateUDPSourcePortBlock env db ctx actor input reason))"
  unfolding CreateUDPSourcePortBlock_def Let_def
  by (intro or_fail_audited scoped_mutation_audited)
    (auto elim!: bind_okE extends_insert dest: granted_admin intro!: same_user_tx(2) simp: mutationReason_trimmed)

lemma UpdateUDPSourcePortBlock_audited: "audited env ctx actor db (apsnd is_ok (UpdateUDPSourcePortBlock env db ctx actor i input reason))"
  unfolding UpdateUDPSourcePortBlock_def Let_def
  by (intro or_fail_audited scoped_mutation_audited)
    (auto elim!: bind_okE extends_update dest: granted_admin intro!: same_user_tx(2) simp: mutationReason_trimmed)

lemma DisableUDPSourcePortBlock_audited: "audited env ctx actor db (apsnd is_ok (DisableUDPSourcePortBlock env db ctx actor i reason))"
  unfolding DisableUDPSourcePortBlock_def
  by (intro or_fail_audited scoped_mutation_audited)
    (auto elim!: bind_okE extends_update dest: granted_admin intro!: same_user_tx(2) simp: mutationReason_trimmed)

text \<open>
  C18. Every mutation is audited and atomic. If an operation succeeds, the audit log is the old one with new
  rows, one of them of the actor and with a non-empty reason. If it fails, whatever statement failed, the
  database is as before; the only exception is an administrator's change of a global object, with its audit row, that
  was committed without error and whose operation failed only in the rebuild of the users' snapshots that follows the commit.
\<close>

theorem policy_mutations_audited: "audited env ctx actor db (policy_exec env ctx actor oper db)"
  by (cases oper) (simp_all add: CreateService_audited UpdateService_audited DeleteService_audited
      CreateForwardingPolicy_audited CreateWhitelistEntry_audited UpdateWhitelistEntry_audited
      DisableWhitelistEntry_audited CreateRule_audited UpdateRule_audited DisableRule_audited
      CreateBlacklistEntry_audited UpdateBlacklistEntry_audited DisableBlacklistEntry_audited
      CreateUDPSourcePortBlock_audited UpdateUDPSourcePortBlock_audited DisableUDPSourcePortBlock_audited)

end
