(* ===== verification/RuleExpiry.thy ===== *)
theory RuleExpiry
  imports PolicySafety ControlSamples
begin

section \<open>Expiry of rules\<close>

text \<open>
  What \<^verbatim>\<open>ExpireTTLRules\<close> leaves: the set of enabled rules whose time has passed only shrinks, and a
  run without an error leaves none of an administrator or of an active user.
\<close>

definition expired_rules :: "int \<Rightarrow> control_db \<Rightarrow> rule_row set" where
  "expired_rules now db = {r \<in> set (rules db). rule_expired now r}"

lemma same_policy_expired: "same_policy db db' \<Longrightarrow> expired_rules now db' = expired_rules now db \<and> app_users db' = app_users db"
  by (drule same_policy_sel) (simp add: expired_rules_def)

lemma expire_rules_left:
  assumes "expire_rules env ctx P bs tx = Inr tx'"
  shows "app_users (tx_db tx') = app_users (tx_db tx) \<and>
    expired_rules now (tx_db tx') \<subseteq> {r \<in> expired_rules now (tx_db tx). \<not> (rl_id r \<in> rl_id ` set bs \<and> P r)}"
  using assms
proof (induction bs arbitrary: tx)
  case (Cons b bs)
  from Cons.prems obtain tx1 row tx2
    where step: "sql_update env ''rules'' rules rules_update rule_clash (\<lambda>r. rl_id r = rl_id b \<and> P r)
        (\<lambda>r. r\<lparr>rl_enabled := False, rl_updated_at := se_now env\<rparr>) tx = Inr (tx1, row)"
      and audit: "insertAudit env ctx tx1 None ''expire_rule'' ''rule'' (rl_id b) ''ttl expired'' = Inr tx2"
      and rest: "expire_rules env ctx P bs tx2 = Inr tx'"
    by (auto elim!: bind_okE)
  have "app_users (tx_db tx1) = app_users (tx_db tx) \<and>
      expired_rules now (tx_db tx1) \<subseteq> {r \<in> expired_rules now (tx_db tx). \<not> (rl_id r = rl_id b \<and> P r)}"
    by (auto simp: sql_update_db(2) [OF step] expired_rules_def rule_expired_def split: if_splits)
  then show ?case
    using Cons.IH [OF rest] same_policy_expired [OF audit_same_policy [OF audit], of now] by auto
qed simp

text \<open>
  \<open>pass_ok now Q db res\<close>: the pass adds no expired rule, and without an error it leaves none with \<open>Q\<close>.
\<close>

definition pass_ok :: "int \<Rightarrow> (rule_row \<Rightarrow> bool) \<Rightarrow> control_db \<Rightarrow> control_db \<times> nat \<times> control_error list \<Rightarrow> bool" where
  "pass_ok now Q db res \<longleftrightarrow> app_users (fst res) = app_users db \<and> expired_rules now (fst res) \<subseteq> expired_rules now db \<and>
     (snd (snd res) = [] \<longrightarrow> (\<forall>r\<in>expired_rules now (fst res). \<not> Q r))"

lemma pass_failed [simp]: "e \<noteq> [] \<Longrightarrow> pass_ok now Q db (db, n, e)"
  by (simp add: pass_ok_def)

text \<open>The rules that the pass selects, expired one by one and followed by a rebuild, leave none behind.\<close>

lemma expired_pass:
  assumes "sql_select env ''rules'' rules (\<lambda>r. rule_expired now r \<and> Q r) tx = Inr rows"
    and "expire_rules env ctx Q (sort_slice by_expiry rows) tx = Inr tx'" and "same_policy (tx_db tx') db'"
  shows "pass_ok now Q (tx_db tx) (db', n, errs)"
proof -
  have "rl_id r \<in> rl_id ` set (sort_slice by_expiry rows) \<and> Q r" if "r \<in> expired_rules now (tx_db tx)" "Q r" for r
    using that sql_select_Inr [OF assms(1)] by (auto simp: expired_rules_def)
  then show ?thesis
    using expire_rules_left [OF assms(2), of now] same_policy_expired [OF assms(3), of now]
    by (auto simp: pass_ok_def)
qed

lemma no_expired_pass:
  assumes "sql_select env ''rules'' rules (\<lambda>r. rule_expired now r \<and> Q r) tx = Inr []"
  shows "pass_ok now Q (tx_db tx) (tx_db tx, n, errs)"
  using sql_select_Inr [OF assms] by (auto simp: pass_ok_def expired_rules_def filter_empty_conv eq_commute [of "[]"])

lemma expireOwner_pass:
  "pass_ok (se_now env) (\<lambda>r. rl_owner_user_id r = ownerUserIDFromContext ctx) db (expireOwnerTTLRules env db ctx)"
proof (cases "beginContextOwnerTx env db ctx")
  case (Inl e)
  then show ?thesis by (simp add: expireOwnerTTLRules_def)
next
  case (Inr tx)
  then have tx: "tx_db tx = db" "\<And>o'. owned tx o' \<longleftrightarrow> o' = ownerUserIDFromContext ctx"
    by (auto simp: beginContextOwnerTx_def owned_def ownerSQL_true ownerUserIDFromContext_def split: option.splits
      dest!: begin_owner_tx)
  let ?Q = "\<lambda>r. rl_owner_user_id r = ownerUserIDFromContext ctx"
  let ?rows = "sql_select env ''rules'' rules (\<lambda>r. rule_expired (se_now env) r \<and> ?Q r) tx"
  show ?thesis
  proof (cases ?rows)
    case Inl
    then show ?thesis using Inr tx by (simp add: expireOwnerTTLRules_def)
  next
    case rows: (Inr rows)
    have "pass_ok (se_now env) ?Q db (tx_db tx', n, errs)"
      if "expire_rules env ctx ?Q (sort_slice by_expiry rows) tx = Inr tx1"
        "rebuildSnapshotInTx env ctx tx1 None None ''ttl expired'' = Inr (tx', m)" for tx1 tx' m n errs
      using expired_pass [OF rows that(1) rebuild_same_policy [OF that(2)]] tx(1) by simp
    moreover have "pass_ok (se_now env) ?Q db (db, n, errs)" if "rows = []" for n errs
      using no_expired_pass [OF rows [unfolded that]] tx(1) by simp
    ultimately show ?thesis using Inr tx rows
      by (auto simp: expireOwnerTTLRules_def tx_Commit_def split: sum.splits prod.splits)
  qed
qed

lemma expireAdminGlobal_pass:
  "pass_ok (se_now env) (\<lambda>r. rl_scope_type r = ''admin_global'') db (expireAdminGlobalTTLRules env db ctx)"
proof (cases "beginUnscopedTx env db")
  case (Inl e)
  then show ?thesis by (simp add: expireAdminGlobalTTLRules_def)
next
  case (Inr tx)
  then have tx: "tx_db tx = db" by (auto dest: begin_unscoped)
  let ?Q = "\<lambda>r. rl_scope_type r = ''admin_global''"
  show ?thesis
  proof (cases "sql_select env ''rules'' rules (\<lambda>r. rule_expired (se_now env) r \<and> ?Q r) tx")
    case Inl
    then show ?thesis using Inr tx by (simp add: expireAdminGlobalTTLRules_def)
  next
    case rows: (Inr rows)
    have "pass_ok (se_now env) ?Q db (db', n, errs)"
      if "expire_rules env ctx ?Q (sort_slice by_expiry rows) tx = Inr tx1" "same_policy (tx_db tx1) db'" for tx1 db' n errs
      using expired_pass [OF rows that] tx by simp
    moreover have "same_policy d d'" if "rebuildAllActiveUserSnapshots env d ctx None ''ttl expired'' = (d', x)" for d d' x
      using rebuildAll_same_policy [of d env ctx None "''ttl expired''"] that by simp
    ultimately show ?thesis using Inr tx rows
      by (auto simp: expireAdminGlobalTTLRules_def tx_Commit_def same_policy_refl split: sum.splits prod.splits)
  qed
qed

lemma expire_owners_pass:
  assumes "expire_owners env ctx owners (db, n, errs) = (db', n', errs')"
  shows "app_users db' = app_users db \<and> expired_rules (se_now env) db' \<subseteq> expired_rules (se_now env) db \<and>
    (errs' = [] \<longrightarrow> errs = [] \<and>
      (\<forall>r\<in>expired_rules (se_now env) db'. \<forall>owner\<in>set owners. TrimSpace owner = [] \<or> rl_owner_user_id r \<noteq> TrimSpace owner))"
  using assms
proof (induction owners arbitrary: db n errs)
  case (Cons owner owners)
  obtain db1 k e where one: "expireOwnerTTLRules env db (contextWithOwner ctx owner) = (db1, k, e)"
    by (cases "expireOwnerTTLRules env db (contextWithOwner ctx owner)") auto
  have "pass_ok (se_now env) (\<lambda>r. rl_owner_user_id r = ownerUserIDFromContext (contextWithOwner ctx owner)) db (db1, k, e)"
    using expireOwner_pass [of env "contextWithOwner ctx owner" db] by (simp add: one)
  moreover have "TrimSpace owner = [] \<or> ownerUserIDFromContext (contextWithOwner ctx owner) = TrimSpace owner"
    by (simp add: contextWithOwner_def ownerUserIDFromContext_def Let_def)
  ultimately show ?case
    using Cons.IH [of db1 "n + k" "errs @ e"] Cons.prems one by (auto simp: pass_ok_def)
qed simp

definition active_owner :: "control_db \<Rightarrow> string \<Rightarrow> bool" where
  "active_owner db owner \<longleftrightarrow>
     list_ex (\<lambda>u. usr_id u = owner \<and> usr_role u = ''user'' \<and> usr_status u = ''active'') (app_users db)"

definition plain_ids :: "control_db \<Rightarrow> bool" where
  "plain_ids db \<longleftrightarrow> list_all (\<lambda>u. usr_id u \<noteq> [] \<and> TrimSpace (usr_id u) = usr_id u) (app_users db)"

text \<open>
  C19. A pass of \<^verbatim>\<open>ExpireTTLRules\<close> over all owners that reports no error leaves no enabled rule with a passed
  time that is admin-global or belongs to an active user (user identifiers being free of blanks, as UUIDs are).
\<close>

theorem expiry_complete:
  assumes "ExpireTTLRules env db ctx = (db', n, [])" and "ownerUserIDFromContext ctx = []" and "plain_ids db"
  shows "\<not> list_ex (\<lambda>r. rule_expired (se_now env) r \<and>
      (rl_scope_type r = ''admin_global'' \<or> active_owner db' (rl_owner_user_id r))) (rules db')"
proof -
  obtain db1 k e where admin: "expireAdminGlobalTTLRules env db ctx = (db1, k, e)"
    by (cases "expireAdminGlobalTTLRules env db ctx") auto
  have pass: "pass_ok (se_now env) (\<lambda>r. rl_scope_type r = ''admin_global'') db (db1, k, e)"
    using expireAdminGlobal_pass [of env db ctx] by (simp add: admin)
  obtain owners where owners: "activeOwnerUserIDs env db1 = Inr owners"
    and run: "expire_owners env ctx owners (db1, k, e) = (db', n, [])"
    using assms(1,2) admin by (auto simp: ExpireTTLRules_def split: sum.splits)
  note all = expire_owners_pass [OF run]
  have users: "app_users db' = app_users db1" "app_users db1 = app_users db" using all pass by (simp_all add: pass_ok_def)
  have ids: "set owners = usr_id ` {u \<in> set (app_users db1). usr_role u = ''user'' \<and> usr_status u = ''active''}"
    using owners by (auto simp: activeOwnerUserIDs_def tx_Commit_def elim!: bind_okE dest!: begin_unscoped split: if_splits)
  have "owner \<in> set owners \<and> TrimSpace owner = owner \<and> owner \<noteq> []" if "active_owner db' owner" for owner
    using that assms(3) unfolding ids users active_owner_def plain_ids_def list_ex_iff list_all_iff by auto
  then have "rl_owner_user_id r \<noteq> owner" if "active_owner db' owner" "r \<in> expired_rules (se_now env) db'" for owner r
    using all that by metis
  moreover have "rl_scope_type r \<noteq> ''admin_global''" if "r \<in> expired_rules (se_now env) db'" for r
    using all pass that by (auto simp: pass_ok_def)
  ultimately show ?thesis by (auto simp: list_ex_iff expired_rules_def)
qed

subsection \<open>The expiry on the sample\<close>

definition ttl_db :: control_db where
  "ttl_db = sample_db\<lparr>rules := map (\<lambda>r. r\<lparr>rl_expires_at := Some 500\<rparr>) (rules sample_db)\<rparr>"

lemma ttl_run: "snd (ExpireTTLRules sample_env ttl_db None) = (1, [])"
  by code_simp

theorem expiry_complete_witness:
  "list_ex (rule_expired (se_now sample_env)) (rules ttl_db) \<and>
   \<not> list_ex (\<lambda>r. rule_expired (se_now sample_env) r \<and> rl_owner_user_id r = ''u-ann'')
      (rules (fst (ExpireTTLRules sample_env ttl_db None)))"
proof -
  have run: "ExpireTTLRules sample_env ttl_db None = (fst (ExpireTTLRules sample_env ttl_db None), 1, [])"
    by (metis ttl_run prod.collapse)
  have "plain_ids ttl_db" "ownerUserIDFromContext None = []"
    "active_owner (fst (ExpireTTLRules sample_env ttl_db None)) ''u-ann''"
    "list_ex (rule_expired (se_now sample_env)) (rules ttl_db)" by code_simp+
  then show ?thesis using expiry_complete [OF run] by (auto simp: list_ex_iff)
qed

end
