(* ===== verification/SnapshotDiff.thy ===== *)
theory SnapshotDiff
  imports SnapshotStore
begin

section \<open>Differences between two snapshots\<close>

text \<open>
  \<^verbatim>\<open>internal/control/snapshot_diff.go\<close>. The encoding of an item by \<^verbatim>\<open>json.Marshal\<close>, which for the types
  of a snapshot does not fail, is the parameter \<open>marshal\<close>; the code compares two items by their
  encodings.
\<close>

record SnapshotDiffValue =
  dv_From :: string
  dv_To :: string
  dv_Changed :: bool

record SnapshotDiffItem =
  di_Key :: string
  di_Item :: string

record SnapshotDiffChange =
  dc_Key :: string
  dc_Before :: string
  dc_After :: string

record SnapshotCollectionDiff =
  cd_Added :: "SnapshotDiffItem list"
  cd_Removed :: "SnapshotDiffItem list"
  cd_Changed :: "SnapshotDiffChange list"
  cd_Unchanged :: u32

record SnapshotDiff =
  sd_FromVersion :: u32
  sd_ToVersion :: u32
  sd_ObjectChecksum :: SnapshotDiffValue
  sd_Runtime :: "SnapshotDiffChange option"
  sd_Services :: SnapshotCollectionDiff
  sd_WhitelistV4 :: SnapshotCollectionDiff
  sd_BlacklistV4 :: SnapshotCollectionDiff
  sd_UDPSourcePortBlocks :: SnapshotCollectionDiff
  sd_Rules :: SnapshotCollectionDiff

definition jsonEqual :: "('a \<Rightarrow> string) \<Rightarrow> 'a \<Rightarrow> 'a \<Rightarrow> bool" where
  "jsonEqual marshal left right \<longleftrightarrow> marshal left = marshal right"

definition cidrEntryKey :: "PolicyCIDREntry \<Rightarrow> string" where
  "cidrEntryKey item = dec (unat (ce_EntryID item))"

definition serviceDiffKey :: "PolicyService \<Rightarrow> string" where
  "serviceDiffKey item = dec (unat (ps_ServiceID item))"

definition udpDiffKey :: "PolicyUDPSourcePortBlock \<Rightarrow> string" where
  "udpDiffKey item = dec (unat (ub_Port item))"

definition ruleDiffKey :: "PolicyRule \<Rightarrow> string" where
  "ruleDiffKey item = dec (unat (pr_RuleID item))"

text \<open>The map by key that the two loops fill: a later item replaces an earlier one.\<close>

definition by_key :: "('a \<Rightarrow> string) \<Rightarrow> 'a list \<Rightarrow> (string \<times> 'a) list" where
  "by_key keyFn items = foldl (\<lambda>m item. upd (keyFn item) item m) [] items"

text \<open>The loop over the ordered keys.\<close>

definition diff_key ::
    "('a \<Rightarrow> string) \<Rightarrow> (string \<rightharpoonup> 'a) \<Rightarrow> (string \<rightharpoonup> 'a) \<Rightarrow> SnapshotCollectionDiff \<Rightarrow> string \<Rightarrow> SnapshotCollectionDiff" where
  "diff_key marshal fromByKey toByKey out key = (case (fromByKey key, toByKey key) of
     (None, Some after) \<Rightarrow>
       out\<lparr>cd_Added := cd_Added out @ [\<lparr>di_Key = key, di_Item = marshal after\<rparr>]\<rparr>
   | (Some before, None) \<Rightarrow>
       out\<lparr>cd_Removed := cd_Removed out @ [\<lparr>di_Key = key, di_Item = marshal before\<rparr>]\<rparr>
   | (Some before, Some after) \<Rightarrow>
       if \<not> jsonEqual marshal before after
       then out\<lparr>cd_Changed := cd_Changed out @
         [\<lparr>dc_Key = key, dc_Before = marshal before, dc_After = marshal after\<rparr>]\<rparr>
       else out\<lparr>cd_Unchanged := cd_Unchanged out + 1\<rparr>
   | (None, None) \<Rightarrow> out)"

definition collectionDiff ::
    "('a \<Rightarrow> string) \<Rightarrow> ('a \<Rightarrow> string) \<Rightarrow> 'a list \<Rightarrow> 'a list \<Rightarrow> SnapshotCollectionDiff" where
  "collectionDiff marshal keyFn from_items to_items =
     (let fromByKey = by_key keyFn from_items;
          toByKey = by_key keyFn to_items;
          keys = map fst (by_key keyFn (from_items @ to_items))
      in foldl (diff_key marshal (map_of fromByKey) (map_of toByKey))
           \<lparr>cd_Added = [], cd_Removed = [], cd_Changed = [], cd_Unchanged = 0\<rparr>
           (sort_slice (<) keys))"

record diff_codec =
  jc_Service :: "PolicyService \<Rightarrow> string"
  jc_CIDR :: "PolicyCIDREntry \<Rightarrow> string"
  jc_UDP :: "PolicyUDPSourcePortBlock \<Rightarrow> string"
  jc_Rule :: "PolicyRule \<Rightarrow> string"
  jc_Runtime :: "PolicyRuntimeConfig \<Rightarrow> string"

definition DiffSnapshots ::
    "store_env \<Rightarrow> diff_codec \<Rightarrow> control_db \<Rightarrow> go_context \<Rightarrow> u32 \<Rightarrow> u32 \<Rightarrow> control_error + SnapshotDiff" where
  "DiffSnapshots env jc db ctx fromVersion toVersion =
     (if fromVersion = 0 \<or> toVersion = 0 then Inl SnapshotVersionRequired
      else
        bind_ok (beginContextOwnerTx env db ctx) (\<lambda>tx.
        bind_ok (snapshotRaw env tx fromVersion) (\<lambda>fromRaw.
        bind_ok (snapshotRaw env tx toVersion) (\<lambda>toRaw.
        (case se_Unmarshal env fromRaw of None \<Rightarrow> Inl SnapshotUndecodable | Some f \<Rightarrow>
        (case se_Unmarshal env toRaw of None \<Rightarrow> Inl SnapshotUndecodable | Some t \<Rightarrow>
          bind_ok (tx_Commit env tx) (\<lambda>_.
          Inr \<lparr>sd_FromVersion = fromVersion, sd_ToVersion = toVersion,
               sd_ObjectChecksum = \<lparr>dv_From = snap_ObjectChecksum f, dv_To = snap_ObjectChecksum t,
                 dv_Changed = (snap_ObjectChecksum f \<noteq> snap_ObjectChecksum t)\<rparr>,
               sd_Runtime = (if jsonEqual (jc_Runtime jc) (snap_Runtime f) (snap_Runtime t) then None
                 else Some \<lparr>dc_Key = ''runtime'', dc_Before = jc_Runtime jc (snap_Runtime f),
                   dc_After = jc_Runtime jc (snap_Runtime t)\<rparr>),
               sd_Services = collectionDiff (jc_Service jc) serviceDiffKey (snap_Services f) (snap_Services t),
               sd_WhitelistV4 = collectionDiff (jc_CIDR jc) cidrEntryKey (snap_WhitelistV4 f) (snap_WhitelistV4 t),
               sd_BlacklistV4 = collectionDiff (jc_CIDR jc) cidrEntryKey (snap_BlacklistV4 f) (snap_BlacklistV4 t),
               sd_UDPSourcePortBlocks = collectionDiff (jc_UDP jc) udpDiffKey
                 (snap_UDPSourcePortBlocks f) (snap_UDPSourcePortBlocks t),
               sd_Rules = collectionDiff (jc_Rule jc) ruleDiffKey (snap_Rules f) (snap_Rules t)\<rparr>)))))))"

subsection \<open>The difference is complete\<close>

text \<open>
  The view of a collection that the difference works on: per key the encoding of its last item.
\<close>

definition encoded :: "('a \<Rightarrow> string) \<Rightarrow> ('a \<Rightarrow> string) \<Rightarrow> 'a list \<Rightarrow> string \<rightharpoonup> string" where
  "encoded marshal keyFn items = map_option marshal \<circ> map_of (by_key keyFn items)"

text \<open>Applying a difference: removed keys go, changed and added keys get their new encoding.\<close>

definition patch :: "SnapshotCollectionDiff \<Rightarrow> (string \<rightharpoonup> string) \<Rightarrow> string \<rightharpoonup> string" where
  "patch d m key =
     (if key \<in> di_Key ` set (cd_Removed d) then None
      else case map_of (map (\<lambda>c. (dc_Key c, dc_After c)) (cd_Changed d)) key of
        Some after \<Rightarrow> Some after
      | None \<Rightarrow> (case map_of (map (\<lambda>i. (di_Key i, di_Item i)) (cd_Added d)) key of
          Some item \<Rightarrow> Some item
        | None \<Rightarrow> m key))"

lemma by_key_snoc: "by_key keyFn (xs @ [x]) = upd (keyFn x) x (by_key keyFn xs)"
  by (simp add: by_key_def)

lemma by_key_keys: "fst ` set (by_key keyFn xs) = keyFn ` set xs"
  by (induction xs rule: rev_induct) (simp_all add: by_key_snoc, simp add: by_key_def)

lemma by_key_distinct [simp]: "distinct (map fst (by_key keyFn xs))"
  by (induction xs rule: rev_induct) (simp_all add: by_key_snoc, simp add: by_key_def)

lemma by_key_None: "map_of (by_key keyFn xs) k = None \<longleftrightarrow> k \<notin> keyFn ` set xs"
  by (metis map_of_eq_None_iff by_key_keys)

abbreviation empty_diff :: SnapshotCollectionDiff where
  "empty_diff \<equiv> \<lparr>cd_Added = [], cd_Removed = [], cd_Changed = [], cd_Unchanged = 0\<rparr>"

lemma diff_fold:
  assumes "distinct ks"
  shows "foldl (diff_key marshal f t) empty_diff ks =
    \<lparr>cd_Added = map (\<lambda>k. \<lparr>di_Key = k, di_Item = marshal (the (t k))\<rparr>)
        (filter (\<lambda>k. f k = None \<and> t k \<noteq> None) ks),
     cd_Removed = map (\<lambda>k. \<lparr>di_Key = k, di_Item = marshal (the (f k))\<rparr>)
        (filter (\<lambda>k. f k \<noteq> None \<and> t k = None) ks),
     cd_Changed = map (\<lambda>k. \<lparr>dc_Key = k, dc_Before = marshal (the (f k)), dc_After = marshal (the (t k))\<rparr>)
        (filter (\<lambda>k. f k \<noteq> None \<and> t k \<noteq> None \<and> marshal (the (f k)) \<noteq> marshal (the (t k))) ks),
     cd_Unchanged = of_nat (length
        (filter (\<lambda>k. f k \<noteq> None \<and> t k \<noteq> None \<and> marshal (the (f k)) = marshal (the (t k))) ks))\<rparr>"
  using assms
  by (induction ks rule: rev_induct) (auto simp: diff_key_def jsonEqual_def split: option.splits)

lemma collectionDiff_keys:
  fixes marshal keyFn :: "'a \<Rightarrow> string"
  assumes "f = map_of (by_key keyFn xs)" and "t = map_of (by_key keyFn ys)"
  obtains ks where "distinct ks" and "set ks = keyFn ` set xs \<union> keyFn ` set ys"
    and "collectionDiff marshal keyFn xs ys = foldl (diff_key marshal f t) empty_diff ks"
proof
  let ?ks = "sort_slice (<) (map fst (by_key keyFn (xs @ ys)))"
  show "distinct ?ks" by (metis by_key_distinct distinct_map_sort_slice list.map_ident)
  show "set ?ks = keyFn ` set xs \<union> keyFn ` set ys"
    by (simp add: by_key_keys image_Un)
  show "collectionDiff marshal keyFn xs ys = foldl (diff_key marshal f t) empty_diff ?ks"
    by (simp add: collectionDiff_def Let_def assms)
qed

lemma map_of_keyed: "map_of (map (\<lambda>k. (k, g k)) ks) k = (if k \<in> set ks then Some (g k) else None)"
  by (induction ks) auto

lemma partition_keys:
  assumes "\<forall>k\<in>set ks. f k \<noteq> None \<or> t k \<noteq> None"
  shows "length ks = length (filter (\<lambda>k. f k = None \<and> t k \<noteq> None) ks) +
    length (filter (\<lambda>k. f k \<noteq> None \<and> t k = None) ks) +
    length (filter (\<lambda>k. f k \<noteq> None \<and> t k \<noteq> None \<and> \<not> same k) ks) +
    length (filter (\<lambda>k. f k \<noteq> None \<and> t k \<noteq> None \<and> same k) ks)"
  using assms by (induction ks) auto

text \<open>
  C32. The difference of two collections is complete key by key. In the view the code has of a collection, which knows
  an item by its key and its encoding and keeps the last item of a key, applying the difference to the first
  collection gives the second; and every key of either collection is counted exactly once, as added,
  removed, changed or unchanged.
\<close>

theorem diff_patches:
  "patch (collectionDiff marshal keyFn xs ys) (encoded marshal keyFn xs) = encoded marshal keyFn ys \<and>
   of_nat (card (keyFn ` set xs \<union> keyFn ` set ys)) =
     of_nat (length (cd_Added (collectionDiff marshal keyFn xs ys))) +
     of_nat (length (cd_Removed (collectionDiff marshal keyFn xs ys))) +
     of_nat (length (cd_Changed (collectionDiff marshal keyFn xs ys))) +
     cd_Unchanged (collectionDiff marshal keyFn xs ys)"
proof -
  define f t where "f = map_of (by_key keyFn xs)" and "t = map_of (by_key keyFn ys)"
  obtain ks where d: "distinct ks" and ks: "set ks = keyFn ` set xs \<union> keyFn ` set ys"
    and diff: "collectionDiff marshal keyFn xs ys = foldl (diff_key marshal f t) empty_diff ks"
    using collectionDiff_keys [OF f_def t_def] by metis
  note out = diff [unfolded diff_fold [OF d]]
  have none: "f k = None \<longleftrightarrow> k \<notin> keyFn ` set xs" "t k = None \<longleftrightarrow> k \<notin> keyFn ` set ys" for k
    by (simp_all add: f_def t_def by_key_None)
  have "patch (collectionDiff marshal keyFn xs ys) (map_option marshal \<circ> f) k = (map_option marshal \<circ> t) k" for k
    using none [of k] ks
    by (cases "f k"; cases "t k") (auto simp: out patch_def map_of_keyed comp_def image_iff split: option.splits)
  then have "patch (collectionDiff marshal keyFn xs ys) (encoded marshal keyFn xs) = encoded marshal keyFn ys"
    by (simp add: encoded_def fun_eq_iff f_def t_def)
  moreover have "\<forall>k\<in>set ks. f k \<noteq> None \<or> t k \<noteq> None" using none ks by auto
  from partition_keys [OF this, of "\<lambda>k. marshal (the (f k)) = marshal (the (t k))"] d ks
  have "card (keyFn ` set xs \<union> keyFn ` set ys) = length (filter (\<lambda>k. f k = None \<and> t k \<noteq> None) ks) +
      length (filter (\<lambda>k. f k \<noteq> None \<and> t k = None) ks) +
      length (filter (\<lambda>k. f k \<noteq> None \<and> t k \<noteq> None \<and> marshal (the (f k)) \<noteq> marshal (the (t k))) ks) +
      length (filter (\<lambda>k. f k \<noteq> None \<and> t k \<noteq> None \<and> marshal (the (f k)) = marshal (the (t k))) ks)"
    by (metis distinct_card)
  then show ?thesis using calculation by (simp add: out)
qed

text \<open>The view of a collection does not depend on an item that a later item of the same key replaces.\<close>

lemma by_key_last: "map_of (by_key keyFn xs) k = find (\<lambda>x. keyFn x = k) (rev xs)"
proof (induction xs rule: rev_induct)
  case Nil
  then show ?case by (simp add: by_key_def)
next
  case (snoc x xs)
  then show ?case by (simp add: by_key_snoc)
qed

lemma find_append: "find P (xs @ ys) = (case find P xs of None \<Rightarrow> find P ys | Some x \<Rightarrow> Some x)"
  by (induction xs) auto

lemma replaced_item:
  assumes "keyFn x = keyFn y" and "y \<in> set ys"
  shows "map_of (by_key keyFn (xs @ x # ys)) = map_of (by_key keyFn (xs @ ys))"
proof
  fix k
  have "find (\<lambda>x. keyFn x = k) (rev ys) \<noteq> None" if "keyFn x = k"
    using assms that by (auto simp: find_None_iff)
  then show "map_of (by_key keyFn (xs @ x # ys)) k = map_of (by_key keyFn (xs @ ys)) k"
    by (cases "keyFn x = k") (auto simp: by_key_last find_append split: option.splits)
qed

lemma same_view_no_diff:
  assumes "map_of (by_key keyFn xs) = map_of (by_key keyFn ys)"
  shows "cd_Added (collectionDiff marshal keyFn xs ys) = [] \<and> cd_Removed (collectionDiff marshal keyFn xs ys) = [] \<and>
    cd_Changed (collectionDiff marshal keyFn xs ys) = []"
proof -
  define f t where "f = map_of (by_key keyFn xs)" and "t = map_of (by_key keyFn ys)"
  obtain ks where d: "distinct ks"
    and diff: "collectionDiff marshal keyFn xs ys = foldl (diff_key marshal f t) empty_diff ks"
    using collectionDiff_keys [OF f_def t_def] by metis
  have "f = t" using assms by (simp add: f_def t_def)
  then show ?thesis unfolding diff diff_fold [OF d] by (auto simp: filter_empty_conv)
qed

text \<open>
  C33. The difference hides lost ports. A service has one item per port, all with the id of the service as their key.
  Whatever the two snapshots hold otherwise, when the second lacks an item of a service that a later item
  of the same service follows, the difference reports nothing added, removed or changed, although the
  port of that item is gone.
\<close>

theorem diff_hides_lost_port:
  assumes "serviceDiffKey lost = serviceDiffKey kept" and "kept \<in> set later"
  shows "cd_Added (collectionDiff marshal serviceDiffKey (earlier @ lost # later) (earlier @ later)) = [] \<and>
    cd_Removed (collectionDiff marshal serviceDiffKey (earlier @ lost # later) (earlier @ later)) = [] \<and>
    cd_Changed (collectionDiff marshal serviceDiffKey (earlier @ lost # later) (earlier @ later)) = []"
  by (rule same_view_no_diff [OF replaced_item [OF assms]])

definition port_item :: "u16 \<Rightarrow> PolicyService" where
  "port_item port = \<lparr>ps_ServiceID = 7, ps_ForwardingPolicyID = 7, ps_DstV4 = ''203.0.113.10'', ps_DstPort = port, ps_Proto = 6,
     ps_Action = 6, ps_Priority = 100, ps_DefaultRuleID = 0, ps_OutputInterface = ''eth1'', ps_OutputIfindex = 0,
     ps_DevmapKey = 7, ps_NeighborStatus = 0, ps_DstMAC = [], ps_SrcMAC = []\<rparr>"

theorem diff_hides_lost_port_witness:
  "cd_Removed (collectionDiff (\<lambda>s. dec (unat (ps_DstPort s))) serviceDiffKey [port_item 80, port_item 443] [port_item 443]) = []"
  using diff_hides_lost_port [of "port_item 80" "port_item 443" "[port_item 443]" _ "[]"]
  by (simp add: serviceDiffKey_def port_item_def)

end
