(* ===== verification/UserStore.thy ===== *)
theory UserStore
  imports ControlSql
begin

section \<open>Users and sessions\<close>

text \<open>
  \<^verbatim>\<open>internal/control/store.go\<close>, the user operations of \<^verbatim>\<open>admin_console.go\<close>, and \<^verbatim>\<open>admin_view.go\<close>: the
  first administrator, log in, bearer tokens, creation, change and revocation of users, passwords,
  and the read-only view of a user by an administrator.

  Parameters (\<open>auth_env\<close>): the bcrypt package (\<open>ae_hash\<close> fails on passwords it cannot
  hash), the hash of a bearer token, and the random token of a log in.
\<close>

subsection \<open>Types\<close>

record UserUpdateInput =
  uu_Reason :: string
  uu_Role :: string
  uu_Status :: string
  uu_ForcePasswordChange :: "bool option"

record PasswordResetInput =
  pri_Reason :: string
  pri_Password :: string
  pri_ForcePasswordChange :: "bool option"

record OwnPasswordInput =
  op_Reason :: string
  op_CurrentPassword :: string
  op_NewPassword :: string

record Session =
  ss_Token :: string
  ss_ExpiresAt :: int
  ss_User :: User

record auth_env =
  ae_hash :: "string \<Rightarrow> string option"
  ae_matches :: "string \<Rightarrow> string \<Rightarrow> bool"
  ae_hashToken :: "string \<Rightarrow> string"
  ae_token :: string

definition scan_user :: "user_row \<Rightarrow> User" where
  "scan_user r = \<lparr>user_ID = usr_id r, user_Username = usr_username r, user_Role = usr_role r,
     user_Status = usr_status r, user_ForcePasswordChange = usr_force_password_change r,
     user_ViewingUser = None, user_ReadOnly = False\<rparr>"

definition getUser :: "store_env \<Rightarrow> transaction \<Rightarrow> string \<Rightarrow> control_error + User" where
  "getUser env tx uid =
     bind_ok (sql_get env ''user'' app_users (\<lambda>r. usr_id r = uid) tx) (\<lambda>r. Inr (scan_user r))"

text \<open>Statements that run on the pool see no owner setting.\<close>

definition pool_tx :: "control_db \<Rightarrow> transaction" where
  "pool_tx db = \<lparr>tx_owner = [], tx_db = db\<rparr>"

definition userSummary :: "store_env \<Rightarrow> control_db \<Rightarrow> string \<Rightarrow> control_error + ViewingUser" where
  "userSummary env db uid =
     bind_ok (sql_get env ''user summary'' app_users
         (\<lambda>r. usr_id r = TrimSpace uid \<and> usr_status r = ''active'') (pool_tx db)) (\<lambda>r.
     Inr \<lparr>vu_ID = usr_id r, vu_Username = usr_username r\<rparr>)"

definition hash_password :: "store_env \<Rightarrow> auth_env \<Rightarrow> string \<Rightarrow> control_error + string" where
  "hash_password env auth password = (case ae_hash auth password of
     None \<Rightarrow> Inl (DatabaseError HashPassword) | Some h \<Rightarrow> Inr h)"

subsection \<open>Default UDP source port blocks of a new user\<close>

definition defaultUDPSourcePortSeedReason :: string where
  "defaultUDPSourcePortSeedReason =
     ''seeded UDP reflection source-port candidate from CISA/Cloudflare guidance''"

definition defaultUDPSourcePortSeeds :: "(int \<times> string) list" where
  "defaultUDPSourcePortSeeds =
     [(0, ''reserved source port''), (19, ''CHARGEN''), (53, ''DNS''), (69, ''TFTP''), (111, ''SunRPC''),
      (123, ''NTP''), (137, ''NetBIOS''), (161, ''SNMP''), (162, ''SNMP trap''), (389, ''CLDAP''),
      (427, ''SLP''), (520, ''RIP''), (1194, ''OpenVPN''), (1900, ''SSDP''), (3702, ''WS-Discovery''),
      (5353, ''mDNS''), (10001, ''Ubiquiti discovery''), (11211, ''Memcached''), (20800, ''Call of Duty''),
      (27005, ''SRCDS'')]"

definition seed_row :: "store_env \<Rightarrow> control_db \<Rightarrow> string \<Rightarrow> string \<Rightarrow> int \<Rightarrow> string \<Rightarrow> udp_block_row" where
  "seed_row env db i owner port label =
     \<lparr>ubr_id = i, ubr_ebpf_id = se_identity env ''udp_source_port_blocks'' db, ubr_owner_user_id = owner,
      ubr_port = port, ubr_scope_type = ''user_global'', ubr_service_id = None, ubr_expires_at = None,
      ubr_enabled = False, ubr_label = label, ubr_reason = defaultUDPSourcePortSeedReason,
      ubr_owner = ''system'', ubr_created_at = se_now env, ubr_updated_at = se_now env\<rparr>"

text \<open>\<^verbatim>\<open>ON CONFLICT (id) DO NOTHING\<close>; \<open>k\<close> counts the calls of \<^verbatim>\<open>newUUID\<close>.\<close>

fun seed_loop ::
    "store_env \<Rightarrow> string \<Rightarrow> (int \<times> string) list \<Rightarrow> nat \<Rightarrow> transaction \<Rightarrow> control_error + transaction" where
  "seed_loop env owner [] k tx = Inr tx"
| "seed_loop env owner ((port, label) # seeds) k tx =
     bind_ok (db_guard env NewUUID (tx_owner tx)) (\<lambda>_.
     if list_ex (\<lambda>r. ubr_id r = se_uuid env k) (udp_source_port_blocks (tx_db tx))
     then seed_loop env owner seeds (Suc k) tx
     else
       bind_ok (sql_insert env ''udp_source_port_blocks'' udp_source_port_blocks udp_source_port_blocks_update
           (\<lambda>a b. ubr_ebpf_id a = ubr_ebpf_id b)
           (seed_row env (tx_db tx) (se_uuid env k) owner port label) tx) (\<lambda>tx.
       seed_loop env owner seeds (Suc k) tx))"

definition seedDefaultUDPSourcePortBlocks ::
    "store_env \<Rightarrow> transaction \<Rightarrow> string \<Rightarrow> nat \<Rightarrow> control_error + transaction" where
  "seedDefaultUDPSourcePortBlocks env tx ownerUserID k =
     (let owner = TrimSpace ownerUserID in
      if owner = [] then Inl (ErrorText ''owner user id is required'')
      else seed_loop env owner defaultUDPSourcePortSeeds k tx)"

subsection \<open>The first administrator\<close>

definition active_admin :: "user_row \<Rightarrow> bool" where
  "active_admin r \<longleftrightarrow> usr_role r = ''admin'' \<and> usr_status r = ''active''"

definition same_user :: "user_row \<Rightarrow> user_row \<Rightarrow> bool" where
  "same_user a b \<longleftrightarrow> usr_id a = usr_id b \<or> usr_username a = usr_username b"

definition new_user_row :: "string \<Rightarrow> string \<Rightarrow> string \<Rightarrow> string \<Rightarrow> user_row" where
  "new_user_row i username hash role =
     \<lparr>usr_id = i, usr_username = username, usr_role = role, usr_status = ''active'',
      usr_password_hash = hash, usr_force_password_change = True, usr_last_login_at = None\<rparr>"

definition BootstrapAdmin ::
    "store_env \<Rightarrow> auth_env \<Rightarrow> control_db \<Rightarrow> go_context \<Rightarrow> string \<Rightarrow> string \<Rightarrow>
     control_db \<times> (control_error + User)" where
  "BootstrapAdmin env auth db ctx username password =
     commit_or_drop env db (let username = TrimSpace username in
       bind_ok (fail_if (username = []) ''username is required'') (\<lambda>_.
       bind_ok (fail_if (length password < 12) ''admin password must be at least 12 characters'') (\<lambda>_.
       bind_ok (beginUnscopedTx env db) (\<lambda>tx.
       bind_ok (sql_select env ''admins'' app_users active_admin tx) (\<lambda>admins.
       bind_ok (fail_if (admins \<noteq> []) ''admin user already exists'') (\<lambda>_.
       bind_ok (db_guard env NewUUID (tx_owner tx)) (\<lambda>_.
       bind_ok (hash_password env auth password) (\<lambda>hash.
       (let row = new_user_row (se_uuid env 0) username hash ''admin'' in
        bind_ok (sql_insert env ''app_users'' app_users app_users_update same_user row tx) (\<lambda>tx.
        bind_ok (insertAudit env ctx tx None ''bootstrap_admin'' ''user'' (usr_id row)
            ''one-time bootstrap admin'') (\<lambda>tx.
        Inr (tx, scan_user row))))))))))))"

subsection \<open>Log in and tokens\<close>

definition Authenticate ::
    "store_env \<Rightarrow> auth_env \<Rightarrow> control_db \<Rightarrow> string \<Rightarrow> string \<Rightarrow> int \<Rightarrow> control_db \<times> (control_error + Session)" where
  "Authenticate env auth db username password ttl =
     commit_or_drop env db (case sql_get env ''user by name'' app_users
         (\<lambda>r. usr_username r = TrimSpace username) (pool_tx db) of
       Inl e \<Rightarrow> Inl (if e = NoRows then ErrorText ''invalid username or password'' else e)
     | Inr r \<Rightarrow>
         bind_ok (fail_if (usr_status r \<noteq> StatusActive) ''user is not active'') (\<lambda>_.
         bind_ok (fail_if (\<not> ae_matches auth (usr_password_hash r) password)
             ''invalid username or password'') (\<lambda>_.
         bind_ok (db_guard env NewUUID []) (\<lambda>_.
         bind_ok (db_guard env BeginTx []) (\<lambda>_.
         (let expiresAt = se_clock env + ttl in
          bind_ok (sql_insert env ''user_sessions'' user_sessions user_sessions_update
              (\<lambda>a b. us_token_hash a = us_token_hash b)
              \<lparr>us_user_id = usr_id r, us_token_hash = ae_hashToken auth (ae_token auth),
               us_expires_at = expiresAt, us_revoked_at = None, us_view_owner_user_id = None\<rparr>
              (pool_tx db)) (\<lambda>tx.
          bind_ok (sql_exec env ''last_login_at'' app_users_update (\<lambda>u. usr_id u = usr_id r)
              (\<lambda>u. u\<lparr>usr_last_login_at := Some (se_now env)\<rparr>) tx) (\<lambda>tx.
          Inr (tx, \<lparr>ss_Token = ae_token auth, ss_ExpiresAt = expiresAt, ss_User = scan_user r\<rparr>)))))))))"

text \<open>The join of sessions and users: the first session that satisfies the condition, with its user.\<close>

definition session_user :: "control_db \<Rightarrow> string \<Rightarrow> int \<Rightarrow> (session_row \<times> user_row) option" where
  "session_user db tokenHash now =
     find (\<lambda>(s, u). us_token_hash s = tokenHash \<and> us_revoked_at s = None \<and> now < us_expires_at s \<and>
         usr_status u = ''active'')
       (concat (map (\<lambda>s. map (Pair s) (filter (\<lambda>u. usr_id u = us_user_id s) (app_users db))) (user_sessions db)))"

definition user_actor :: "user_row \<Rightarrow> ViewingUser option \<Rightarrow> bool \<Rightarrow> string \<Rightarrow> Actor" where
  "user_actor u viewing readOnly viewOwner =
     \<lparr>user_ID = usr_id u, user_Username = usr_username u, user_Role = usr_role u,
      user_Status = usr_status u, user_ForcePasswordChange = usr_force_password_change u,
      user_ViewingUser = viewing, user_ReadOnly = readOnly, actor_ViewOwnerUserID = viewOwner\<rparr>"

definition AuthenticateToken ::
    "store_env \<Rightarrow> auth_env \<Rightarrow> control_db \<Rightarrow> string \<Rightarrow> control_error + Actor" where
  "AuthenticateToken env auth db token0 = (let token = TrimSpace token0 in
     bind_ok (fail_if (token = []) ''missing bearer token'') (\<lambda>_.
     bind_ok (db_guard env (ReadTable ''session'') []) (\<lambda>_.
     (case session_user db (ae_hashToken auth token) (se_now env) of
        None \<Rightarrow> Inl (ErrorText ''invalid or expired session'')
      | Some (s, u) \<Rightarrow>
          (case us_view_owner_user_id s of
             Some view \<Rightarrow>
               if usr_role u = RoleAdmin \<and> TrimSpace view \<noteq> [] then
                 bind_ok (userSummary env db view) (\<lambda>target.
                 Inr (user_actor u (Some target) True (vu_ID target)))
               else Inr (user_actor u None False (usr_id u))
           | None \<Rightarrow> Inr (user_actor u None False (usr_id u)))))))"

definition RevokeToken ::
    "store_env \<Rightarrow> auth_env \<Rightarrow> control_db \<Rightarrow> string \<Rightarrow> control_db \<times> control_error option" where
  "RevokeToken env auth db token = (case sql_exec env ''user_sessions'' user_sessions_update
       (\<lambda>s. us_token_hash s = ae_hashToken auth token \<and> us_revoked_at s = None)
       (\<lambda>s. s\<lparr>us_revoked_at := Some (se_now env)\<rparr>) (pool_tx db) of
     Inl e \<Rightarrow> (db, Some e) | Inr tx \<Rightarrow> (tx_db tx, None))"

subsection \<open>Creating and revoking users\<close>

definition ensureUserIdentity ::
    "store_env \<Rightarrow> auth_env \<Rightarrow> transaction \<Rightarrow> string \<Rightarrow> string \<Rightarrow> string \<Rightarrow>
     control_error + (transaction \<times> User \<times> bool)" where
  "ensureUserIdentity env auth tx username password role =
     bind_ok (db_guard env NewUUID (tx_owner tx)) (\<lambda>_.
     bind_ok (hash_password env auth password) (\<lambda>hash.
     (let row = new_user_row (se_uuid env 0) username hash role in
      if list_ex (\<lambda>r. usr_username r = username) (app_users (tx_db tx)) then
        bind_ok (sql_update env ''app_users'' app_users app_users_update (\<lambda>_ _. False)
            (\<lambda>r. usr_username r = username)
            (\<lambda>r. r\<lparr>usr_password_hash := hash, usr_role := role, usr_status := ''active'',
                usr_force_password_change := True\<rparr>) tx) (\<lambda>(tx, r).
        Inr (tx, scan_user r, False))
      else
        bind_ok (sql_insert env ''app_users'' app_users app_users_update same_user row tx) (\<lambda>tx.
        Inr (tx, scan_user row, True)))))"

definition CreateUser ::
    "store_env \<Rightarrow> auth_env \<Rightarrow> control_db \<Rightarrow> go_context \<Rightarrow> Actor option \<Rightarrow> string \<Rightarrow> string \<Rightarrow> string \<Rightarrow> string \<Rightarrow>
     control_db \<times> (control_error + User)" where
  "CreateUser env auth db ctx actor username0 password role0 reason =
     commit_or_drop env db (let username = TrimSpace username0; role = TrimSpace (ToLower role0) in
       bind_ok (fail_if (username = []) ''username is required'') (\<lambda>_.
       bind_ok (fail_if (\<not> validUserRole role) ''unsupported role'') (\<lambda>_.
       bind_ok (require_ok (requireAdmin actor)) (\<lambda>_.
       bind_ok (fail_if (length password < 12) ''password must be at least 12 characters'') (\<lambda>_.
       bind_ok (fail_if (TrimSpace reason = []) ''reason is required'') (\<lambda>_.
       bind_ok (beginUnscopedTx env db) (\<lambda>tx.
       bind_ok (ensureUserIdentity env auth tx username password role) (\<lambda>(tx, user, created).
       bind_ok (getUser env tx (user_ID user)) (\<lambda>user.
       bind_ok (if user_Role user = RoleUser
                then seedDefaultUDPSourcePortBlocks env tx (user_ID user) 1 else Inr tx) (\<lambda>tx.
       bind_ok (insertAudit env ctx tx actor (if created then ''create_user'' else ''reactivate_user'')
           ''user'' (user_ID user) reason) (\<lambda>tx.
       Inr (tx, user))))))))))))"

definition ListUsers :: "store_env \<Rightarrow> control_db \<Rightarrow> control_error + User list" where
  "ListUsers env db =
     bind_ok (beginUnscopedTx env db) (\<lambda>tx.
     bind_ok (sql_select env ''users'' app_users (\<lambda>_. True) tx) (\<lambda>rows.
     bind_ok (tx_Commit env tx) (\<lambda>_.
     Inr (map scan_user (sort_slice (\<lambda>a b. usr_username a < usr_username b) rows)))))"

definition ensureActiveAdminRemains ::
    "store_env \<Rightarrow> transaction \<Rightarrow> User \<Rightarrow> string \<Rightarrow> string \<Rightarrow> control_error + unit" where
  "ensureActiveAdminRemains env tx before role status =
     (if user_Role before \<noteq> RoleAdmin \<or> (role = RoleAdmin \<and> status = StatusActive) then Inr ()
      else
        bind_ok (sql_select env ''remaining admins'' app_users
            (\<lambda>r. usr_id r \<noteq> user_ID before \<and> active_admin r) tx) (\<lambda>rest.
        fail_if (rest = []) ''at least one active admin is required''))"

definition revoke_sessions ::
    "store_env \<Rightarrow> (session_row \<Rightarrow> bool) \<Rightarrow> transaction \<Rightarrow> control_error + transaction" where
  "revoke_sessions env P tx =
     sql_exec env ''user_sessions'' user_sessions_update (\<lambda>s. P s \<and> us_revoked_at s = None)
       (\<lambda>s. s\<lparr>us_revoked_at := Some (se_now env)\<rparr>) tx"

definition RevokeUser ::
    "store_env \<Rightarrow> control_db \<Rightarrow> go_context \<Rightarrow> Actor option \<Rightarrow> string \<Rightarrow> string \<Rightarrow>
     control_db \<times> (control_error + User)" where
  "RevokeUser env db ctx actor uid reason =
     commit_or_drop env db (
       bind_ok (fail_if (TrimSpace reason = []) ''reason is required'') (\<lambda>_.
       bind_ok (require_ok (requireAdmin actor)) (\<lambda>_.
       bind_ok (beginUnscopedTx env db) (\<lambda>tx.
       bind_ok (getUser env tx uid) (\<lambda>before.
       bind_ok (ensureActiveAdminRemains env tx before (user_Role before) StatusRevoked) (\<lambda>_.
       bind_ok (sql_exec env ''app_users'' app_users_update (\<lambda>r. usr_id r = uid)
           (\<lambda>r. r\<lparr>usr_status := ''revoked''\<rparr>) tx) (\<lambda>tx.
       bind_ok (revoke_sessions env (\<lambda>s. us_user_id s = uid) tx) (\<lambda>tx.
       bind_ok (getUser env tx uid) (\<lambda>after.
       bind_ok (insertAudit env ctx tx actor ''revoke_user'' ''user'' uid reason) (\<lambda>tx.
       Inr (tx, after)))))))))))"

subsection \<open>Changing users\<close>

definition validateUserRoleStatus :: "string \<Rightarrow> string \<Rightarrow> control_error + unit" where
  "validateUserRoleStatus role status =
     bind_ok (fail_if (role \<noteq> RoleAdmin \<and> role \<noteq> RoleUser) ''role must be admin or user'') (\<lambda>_.
     fail_if (status \<noteq> StatusActive \<and> status \<noteq> StatusRevoked) ''status must be active or revoked'')"

definition or_lower :: "string \<Rightarrow> string \<Rightarrow> string" where
  "or_lower v fallback = (if TrimSpace v \<noteq> [] then ToLower (TrimSpace v) else fallback)"

definition UpdateUser ::
    "store_env \<Rightarrow> control_db \<Rightarrow> go_context \<Rightarrow> Actor option \<Rightarrow> string \<Rightarrow> UserUpdateInput \<Rightarrow> string \<Rightarrow>
     control_db \<times> (control_error + User)" where
  "UpdateUser env db ctx actor uid input reason0 =
     commit_or_drop env db (
       bind_ok (require_ok (requireAdmin actor)) (\<lambda>_.
       (let reason = mutationReason reason0 (uu_Reason input) in
       bind_ok (fail_if (reason = []) ''reason is required'') (\<lambda>_.
       bind_ok (beginUnscopedTx env db) (\<lambda>tx.
       bind_ok (getUser env tx uid) (\<lambda>before.
       (let role = or_lower (uu_Role input) (user_Role before);
            status = or_lower (uu_Status input) (user_Status before);
            force = (case uu_ForcePasswordChange input of
                       Some b \<Rightarrow> b | None \<Rightarrow> user_ForcePasswordChange before) in
       bind_ok (validateUserRoleStatus role status) (\<lambda>_.
       bind_ok (ensureActiveAdminRemains env tx before role status) (\<lambda>_.
       bind_ok (sql_update env ''app_users'' app_users app_users_update (\<lambda>_ _. False) (\<lambda>r. usr_id r = uid)
           (\<lambda>r. r\<lparr>usr_role := role, usr_status := status, usr_force_password_change := force\<rparr>) tx)
         (\<lambda>(tx, after).
       bind_ok (if status \<noteq> StatusActive then revoke_sessions env (\<lambda>s. us_user_id s = uid) tx
                else Inr tx) (\<lambda>tx.
       bind_ok (if role = RoleUser then seedDefaultUDPSourcePortBlocks env tx uid 0 else Inr tx) (\<lambda>tx.
       bind_ok (if role \<noteq> RoleAdmin then
                  sql_exec env ''user_sessions'' user_sessions_update
                    (\<lambda>s. us_view_owner_user_id s = Some uid) (\<lambda>s. s\<lparr>us_view_owner_user_id := None\<rparr>) tx
                else Inr tx) (\<lambda>tx.
       bind_ok (insertAudit env ctx tx actor ''update_user'' ''user'' uid reason) (\<lambda>tx.
       Inr (tx, scan_user after)))))))))))))))"

definition set_password ::
    "store_env \<Rightarrow> string \<Rightarrow> string \<Rightarrow> bool \<Rightarrow> transaction \<Rightarrow> control_error + (transaction \<times> user_row)" where
  "set_password env uid hash force tx =
     sql_update env ''app_users'' app_users app_users_update (\<lambda>_ _. False) (\<lambda>r. usr_id r = uid)
       (\<lambda>r. r\<lparr>usr_password_hash := hash, usr_force_password_change := force\<rparr>) tx"

definition ResetUserPassword ::
    "store_env \<Rightarrow> auth_env \<Rightarrow> control_db \<Rightarrow> go_context \<Rightarrow> Actor option \<Rightarrow> string \<Rightarrow> PasswordResetInput \<Rightarrow> string \<Rightarrow>
     control_db \<times> (control_error + User)" where
  "ResetUserPassword env auth db ctx actor uid input reason0 =
     commit_or_drop env db (
       bind_ok (require_ok (requireAdmin actor)) (\<lambda>_.
       (let reason = mutationReason reason0 (pri_Reason input);
            force = (case pri_ForcePasswordChange input of Some b \<Rightarrow> b | None \<Rightarrow> True) in
       bind_ok (fail_if (reason = []) ''reason is required'') (\<lambda>_.
       bind_ok (fail_if (length (pri_Password input) < 12) ''password must be at least 12 characters'') (\<lambda>_.
       bind_ok (hash_password env auth (pri_Password input)) (\<lambda>hash.
       bind_ok (beginUnscopedTx env db) (\<lambda>tx.
       bind_ok (getUser env tx uid) (\<lambda>before.
       bind_ok (set_password env uid hash force tx) (\<lambda>(tx, _).
       bind_ok (revoke_sessions env (\<lambda>s. us_user_id s = uid) tx) (\<lambda>tx.
       bind_ok (getUser env tx uid) (\<lambda>after.
       bind_ok (insertAudit env ctx tx actor ''reset_user_password'' ''user'' uid reason) (\<lambda>tx.
       Inr (tx, after)))))))))))))"

definition RevokeUserSessions ::
    "store_env \<Rightarrow> control_db \<Rightarrow> go_context \<Rightarrow> Actor option \<Rightarrow> string \<Rightarrow> string \<Rightarrow>
     control_db \<times> (control_error + User)" where
  "RevokeUserSessions env db ctx actor uid reason =
     commit_or_drop env db (
       bind_ok (require_ok (requireAdmin actor)) (\<lambda>_.
       bind_ok (fail_if (TrimSpace reason = []) ''reason is required'') (\<lambda>_.
       bind_ok (beginUnscopedTx env db) (\<lambda>tx.
       bind_ok (getUser env tx uid) (\<lambda>user.
       bind_ok (revoke_sessions env (\<lambda>s. us_user_id s = uid) tx) (\<lambda>tx.
       bind_ok (insertAudit env ctx tx actor ''revoke_user_sessions'' ''user'' uid (TrimSpace reason)) (\<lambda>tx.
       Inr (tx, user))))))))"

definition ChangeOwnPassword ::
    "store_env \<Rightarrow> auth_env \<Rightarrow> control_db \<Rightarrow> go_context \<Rightarrow> Actor option \<Rightarrow> OwnPasswordInput \<Rightarrow> string \<Rightarrow>
     control_db \<times> (control_error + User)" where
  "ChangeOwnPassword env auth db ctx actor input currentToken =
     commit_or_drop env db (case actor of
       None \<Rightarrow> Inl AuthenticationRequired
     | Some a \<Rightarrow>
         (let reason = TrimSpace (op_Reason input); uid = user_ID a in
         bind_ok (fail_if (reason = []) ''reason is required'') (\<lambda>_.
         bind_ok (fail_if (length (op_NewPassword input) < 12)
             ''new_password must be at least 12 characters'') (\<lambda>_.
         bind_ok (sql_get env ''password_hash'' app_users (\<lambda>r. usr_id r = uid) (pool_tx db)) (\<lambda>r.
         bind_ok (fail_if (\<not> ae_matches auth (usr_password_hash r) (op_CurrentPassword input))
             ''current password is invalid'') (\<lambda>_.
         bind_ok (hash_password env auth (op_NewPassword input)) (\<lambda>hash.
         bind_ok (beginUnscopedTx env db) (\<lambda>tx.
         bind_ok (getUser env tx uid) (\<lambda>before.
         bind_ok (set_password env uid hash False tx) (\<lambda>(tx, after).
         bind_ok (revoke_sessions env
             (\<lambda>s. us_user_id s = uid \<and> us_token_hash s \<noteq> ae_hashToken auth currentToken) tx) (\<lambda>tx.
         bind_ok (insertAudit env ctx tx actor ''change_own_password'' ''user'' uid reason) (\<lambda>tx.
         Inr (tx, scan_user after)))))))))))))"

subsection \<open>Viewing a user\<close>

definition ViewUserConfig ::
    "store_env \<Rightarrow> auth_env \<Rightarrow> control_db \<Rightarrow> go_context \<Rightarrow> Actor option \<Rightarrow> string \<Rightarrow> string \<Rightarrow>
     control_db \<times> (control_error + Session)" where
  "ViewUserConfig env auth db ctx actor token userID =
     commit_or_drop env db (case requireAdmin actor of
       Some e \<Rightarrow> Inl e
     | None \<Rightarrow>
         (let targetID = TrimSpace userID in
         bind_ok (fail_if (targetID = []) ''user_id is required'') (\<lambda>_.
         bind_ok (beginUnscopedTx env db) (\<lambda>tx.
         bind_ok (getUser env tx targetID) (\<lambda>target.
         bind_ok (fail_if (user_Status target \<noteq> StatusActive) ''target user is not active'') (\<lambda>_.
         bind_ok (fail_if (user_Role target \<noteq> RoleUser) ''admin can only view user config'') (\<lambda>_.
         bind_ok (sql_update env ''user_sessions'' user_sessions user_sessions_update (\<lambda>_ _. False)
             (\<lambda>s. us_token_hash s = ae_hashToken auth token \<and> us_revoked_at s = None \<and>
                  se_now env < us_expires_at s)
             (\<lambda>s. s\<lparr>us_view_owner_user_id := Some (user_ID target)\<rparr>) tx) (\<lambda>(tx, s).
         bind_ok (insertAudit env (contextWithOwner ctx (user_ID target)) tx actor ''view_user_config'' ''user''
             (user_ID target) ''view user config'') (\<lambda>tx.
         (case actor of
            None \<Rightarrow> Inl AuthenticationRequired
          | Some a \<Rightarrow>
              Inr (tx, \<lparr>ss_Token = token, ss_ExpiresAt = us_expires_at s,
                ss_User = \<lparr>user_ID = user_ID a, user_Username = user_Username a, user_Role = user_Role a,
                  user_Status = user_Status a, user_ForcePasswordChange = user_ForcePasswordChange a,
                  user_ViewingUser = Some \<lparr>vu_ID = user_ID target, vu_Username = user_Username target\<rparr>,
                  user_ReadOnly = True\<rparr>\<rparr>)))))))))))"

subsection \<open>The audit log of an owner\<close>

text \<open>Rows are appended in the order of \<^verbatim>\<open>created_at\<close>, so \<^verbatim>\<open>ORDER BY created_at DESC\<close> is the reverse.\<close>

definition ListAuditEvents ::
    "store_env \<Rightarrow> control_db \<Rightarrow> go_context \<Rightarrow> int \<Rightarrow> control_error + audit_row list" where
  "ListAuditEvents env db ctx limit0 =
     (let limit = (if limit0 \<le> 0 \<or> 500 < limit0 then 100 else limit0) in
      bind_ok (beginContextOwnerTx env db ctx) (\<lambda>tx.
      bind_ok (sql_select env ''audit_events'' audit_events
          (\<lambda>r. ownerSQL (tx_owner tx) (au_owner_user_id r) = Some True) tx) (\<lambda>rows.
      bind_ok (tx_Commit env tx) (\<lambda>_. Inr (take (nat limit) (rev rows))))))"

end
