(* ===== verification/UserSafety.thy ===== *)
theory UserSafety
  imports UserStore ControlSamples
begin

section \<open>Properties of users and sessions\<close>

text \<open>
  What the operations of \<^verbatim>\<open>UserStore\<close> keep. \<open>users_wf\<close> is the well-formedness of the two
  tables: keys are distinct, roles and states are among those the schema allows, sessions belong to
  users. \<open>user_op\<close> names the operations with their arguments and \<open>user_run\<close> composes them, each
  with its own environment, so that a property of a run covers every order of operations and
  every pattern of database failures.
\<close>

subsection \<open>Operations and runs\<close>

datatype user_op =
  OpBootstrap go_context string string
| OpAuthenticate string string int
| OpRevokeToken string
| OpCreateUser go_context "Actor option" string string string string
| OpRevokeUser go_context "Actor option" string string
| OpUpdateUser go_context "Actor option" string UserUpdateInput string
| OpResetPassword go_context "Actor option" string PasswordResetInput string
| OpRevokeSessions go_context "Actor option" string string
| OpChangeOwnPassword go_context "Actor option" OwnPasswordInput string
| OpViewUser go_context "Actor option" string string

fun user_exec :: "store_env \<Rightarrow> auth_env \<Rightarrow> user_op \<Rightarrow> control_db \<Rightarrow> control_db" where
  "user_exec env auth (OpBootstrap ctx username password) db = fst (BootstrapAdmin env auth db ctx username password)"
| "user_exec env auth (OpAuthenticate username password ttl) db = fst (Authenticate env auth db username password ttl)"
| "user_exec env auth (OpRevokeToken token) db = fst (RevokeToken env auth db token)"
| "user_exec env auth (OpCreateUser ctx actor username password role reason) db =
     fst (CreateUser env auth db ctx actor username password role reason)"
| "user_exec env auth (OpRevokeUser ctx actor uid reason) db = fst (RevokeUser env db ctx actor uid reason)"
| "user_exec env auth (OpUpdateUser ctx actor uid input reason) db = fst (UpdateUser env db ctx actor uid input reason)"
| "user_exec env auth (OpResetPassword ctx actor uid input reason) db =
     fst (ResetUserPassword env auth db ctx actor uid input reason)"
| "user_exec env auth (OpRevokeSessions ctx actor uid reason) db = fst (RevokeUserSessions env db ctx actor uid reason)"
| "user_exec env auth (OpChangeOwnPassword ctx actor input token) db =
     fst (ChangeOwnPassword env auth db ctx actor input token)"
| "user_exec env auth (OpViewUser ctx actor token uid) db = fst (ViewUserConfig env auth db ctx actor token uid)"

fun user_run :: "(store_env \<times> auth_env \<times> user_op) list \<Rightarrow> control_db \<Rightarrow> control_db" where
  "user_run [] db = db"
| "user_run ((env, auth, oper) # ops) db = user_run ops (user_exec env auth oper db)"

text \<open>An invariant of every operation is an invariant of every run.\<close>

lemma user_run_invariant:
  assumes "\<And>env auth oper db. (env, auth, oper) \<in> set ops \<Longrightarrow> I db \<Longrightarrow> I (user_exec env auth oper db)"
    and "I db"
  shows "I (user_run ops db)"
  using assms by (induction ops db rule: user_run.induct) auto

subsection \<open>Effect of the statements on users and sessions\<close>

lemma users_frame [simp]:
  "insertAudit env ctx tx actor a t i r = Inr tx' \<Longrightarrow> app_users (tx_db tx') = app_users (tx_db tx)"
  "insertAudit env ctx tx actor a t i r = Inr tx' \<Longrightarrow> user_sessions (tx_db tx') = user_sessions (tx_db tx)"
  using insertAudit_db(1) [of env ctx tx actor a t i r tx'] by auto

lemma seed_loop_frame:
  "seed_loop env owner seeds k tx = Inr tx' \<Longrightarrow>
     app_users (tx_db tx') = app_users (tx_db tx) \<and> user_sessions (tx_db tx') = user_sessions (tx_db tx)"
  by (induction env owner seeds k tx rule: seed_loop.induct)
    (auto split: sum.splits if_splits dest: sql_insert_db)

lemma seed_frame [simp]:
  "seedDefaultUDPSourcePortBlocks env tx uid k = Inr tx' \<Longrightarrow> app_users (tx_db tx') = app_users (tx_db tx)"
  "seedDefaultUDPSourcePortBlocks env tx uid k = Inr tx' \<Longrightarrow> user_sessions (tx_db tx') = user_sessions (tx_db tx)"
  by (auto simp: seedDefaultUDPSourcePortBlocks_def Let_def split: if_splits dest: seed_loop_frame)

lemma sessions_exec:
  assumes "sql_exec env name user_sessions_update P f tx = Inr tx'"
  shows "app_users (tx_db tx') = app_users (tx_db tx)"
    and "user_sessions (tx_db tx') = map (\<lambda>s. if P s then f s else s) (user_sessions (tx_db tx))"
  using sessions.exec_rows [OF assms] sql_exec_db [OF assms] by simp_all

lemma sessions_update:
  assumes "sql_update env name user_sessions user_sessions_update clash P f tx = Inr (tx', s)"
  shows "app_users (tx_db tx') = app_users (tx_db tx)"
    and "user_sessions (tx_db tx') = map (\<lambda>s. if P s then f s else s) (user_sessions (tx_db tx))"
  using sessions.update_rows [OF assms] sql_update_db(2) [OF assms] by simp_all

lemma sessions_insert:
  assumes "sql_insert env name user_sessions user_sessions_update clash row tx = Inr tx'"
  shows "app_users (tx_db tx') = app_users (tx_db tx)"
    and "user_sessions (tx_db tx') = user_sessions (tx_db tx) @ [row]"
  using sessions.insert_rows [OF assms] sql_insert_db [OF assms] by simp_all

lemma revoke_sessions_rows:
  assumes "revoke_sessions env P tx = Inr tx'"
  shows "app_users (tx_db tx') = app_users (tx_db tx)"
    and "user_sessions (tx_db tx') =
      map (\<lambda>s. if P s \<and> us_revoked_at s = None then s\<lparr>us_revoked_at := Some (se_now env)\<rparr> else s)
        (user_sessions (tx_db tx))"
  using sessions_exec [OF assms [unfolded revoke_sessions_def]] by simp_all

lemma users_exec:
  assumes "sql_exec env name app_users_update P f tx = Inr tx'"
  shows "user_sessions (tx_db tx') = user_sessions (tx_db tx)"
    and "app_users (tx_db tx') = map (\<lambda>r. if P r then f r else r) (app_users (tx_db tx))"
  using users.exec_rows [OF assms] sql_exec_db [OF assms] by simp_all

lemma users_update:
  assumes "sql_update env name app_users app_users_update clash P f tx = Inr (tx', r)"
  shows "user_sessions (tx_db tx') = user_sessions (tx_db tx)"
    and "app_users (tx_db tx') = map (\<lambda>r. if P r then f r else r) (app_users (tx_db tx))"
  using users.update_rows [OF assms] sql_update_db(2) [OF assms] by simp_all

lemma users_insert:
  assumes "sql_insert env name app_users app_users_update clash row tx = Inr tx'"
  shows "user_sessions (tx_db tx') = user_sessions (tx_db tx)"
    and "app_users (tx_db tx') = app_users (tx_db tx) @ [row]"
  using users.insert_rows [OF assms] sql_insert_db [OF assms] by simp_all

lemmas user_tables = sessions_exec sessions_update sessions_insert revoke_sessions_rows
  users_exec users_update users_insert

lemma getUser_Inr:
  "getUser env tx uid = Inr u \<Longrightarrow> \<exists>r\<in>set (app_users (tx_db tx)). usr_id r = uid \<and> u = scan_user r"
  unfolding getUser_def by (auto dest!: sql_get_Inr split: sum.splits)

subsection \<open>Well-formed users\<close>

definition user_ok :: "user_row \<Rightarrow> bool" where
  "user_ok r \<longleftrightarrow> usr_role r \<in> {RoleAdmin, RoleUser} \<and> usr_status r \<in> {StatusActive, StatusRevoked}"

definition users_wf :: "control_db \<Rightarrow> bool" where
  "users_wf db \<longleftrightarrow>
     distinct (map usr_id (app_users db)) \<and> distinct (map usr_username (app_users db)) \<and>
     list_all user_ok (app_users db) \<and> distinct (map us_token_hash (user_sessions db)) \<and>
     us_user_id ` set (user_sessions db) \<subseteq> usr_id ` set (app_users db)"

lemma users_wf_update_users:
  assumes "users_wf (tx_db tx)" and "user_sessions (tx_db tx') = user_sessions (tx_db tx)"
    and "app_users (tx_db tx') = map (\<lambda>r. if P r then f r else r) (app_users (tx_db tx))"
    and "\<And>r. usr_id (f r) = usr_id r" "\<And>r. usr_username (f r) = usr_username r" "\<And>r. user_ok r \<Longrightarrow> user_ok (f r)"
  shows "users_wf (tx_db tx')"
proof -
  have "map usr_id (app_users (tx_db tx')) = map usr_id (app_users (tx_db tx))"
    "map usr_username (app_users (tx_db tx')) = map usr_username (app_users (tx_db tx))"
    by (simp_all add: assms(3-5))
  moreover have "list_all user_ok (app_users (tx_db tx'))"
    using assms(1) by (auto simp: users_wf_def assms(3,6) list_all_iff)
  ultimately show ?thesis using assms(1) unfolding users_wf_def assms(2) by (metis image_set)
qed

lemma users_wf_update_sessions:
  assumes "users_wf (tx_db tx)" and "app_users (tx_db tx') = app_users (tx_db tx)"
    and "user_sessions (tx_db tx') = map (\<lambda>s. if P s then f s else s) (user_sessions (tx_db tx))"
    and "\<And>s. us_token_hash (f s) = us_token_hash s" "\<And>s. us_user_id (f s) = us_user_id s"
  shows "users_wf (tx_db tx')"
proof -
  have "map us_user_id (user_sessions (tx_db tx')) = map us_user_id (user_sessions (tx_db tx))"
    "map us_token_hash (user_sessions (tx_db tx')) = map us_token_hash (user_sessions (tx_db tx))"
    by (simp_all add: assms(3-5))
  then show ?thesis using assms(1) unfolding users_wf_def assms(2) by (metis image_set)
qed

lemma users_wf_frame:
  "users_wf (tx_db tx) \<Longrightarrow> app_users (tx_db tx') = app_users (tx_db tx) \<Longrightarrow>
     user_sessions (tx_db tx') = user_sessions (tx_db tx) \<Longrightarrow> users_wf (tx_db tx')"
  by (simp add: users_wf_def)

lemma users_wf_insert_user:
  assumes "users_wf (tx_db tx)" and "user_ok row"
    and "sql_insert env name app_users app_users_update same_user row tx = Inr tx'"
  shows "users_wf (tx_db tx')"
proof -
  have "distinct (map usr_id (app_users (tx_db tx')))" "distinct (map usr_username (app_users (tx_db tx')))"
    using assms(1) by (auto intro!: users.insert_distinct [OF assms(3)] simp: users_wf_def same_user_def)
  then show ?thesis using assms(1,2) by (auto simp: users_wf_def users_insert [OF assms(3)])
qed

lemma users_wf_insert_session:
  assumes "users_wf (tx_db tx)" and "us_user_id row \<in> usr_id ` set (app_users (tx_db tx))"
    and "sql_insert env name user_sessions user_sessions_update (\<lambda>a b. us_token_hash a = us_token_hash b) row tx = Inr tx'"
  shows "users_wf (tx_db tx')"
proof -
  have "distinct (map us_token_hash (user_sessions (tx_db tx')))"
    using assms(1) by (auto intro!: sessions.insert_distinct [OF assms(3)] simp: users_wf_def)
  then show ?thesis using assms(1,2) by (auto simp: users_wf_def sessions_insert [OF assms(3)])
qed

lemma users_wf_revoke: "revoke_sessions env P tx = Inr tx' \<Longrightarrow> users_wf (tx_db tx) \<Longrightarrow> users_wf (tx_db tx')"
  by (rule users_wf_update_sessions [OF _ revoke_sessions_rows]) auto

lemma users_wf_audit: "insertAudit env ctx tx actor a t i r = Inr tx' \<Longrightarrow> users_wf (tx_db tx) \<Longrightarrow> users_wf (tx_db tx')"
  by (rule users_wf_frame) auto

lemma users_wf_seed: "seedDefaultUDPSourcePortBlocks env tx uid k = Inr tx' \<Longrightarrow> users_wf (tx_db tx) \<Longrightarrow> users_wf (tx_db tx')"
  by (rule users_wf_frame) auto

lemma users_wf_begin: "beginUnscopedTx env db = Inr tx \<Longrightarrow> users_wf db \<Longrightarrow> users_wf (tx_db tx)"
  using begin_unscoped by blast

lemma users_wf_exec:
  "sql_exec env name app_users_update P f tx = Inr tx' \<Longrightarrow> users_wf (tx_db tx) \<Longrightarrow>
     (\<And>r. usr_id (f r) = usr_id r) \<Longrightarrow> (\<And>r. usr_username (f r) = usr_username r) \<Longrightarrow>
     (\<And>r. user_ok r \<Longrightarrow> user_ok (f r)) \<Longrightarrow> users_wf (tx_db tx')"
  by (rule users_wf_update_users [OF _ users_exec])

lemma users_wf_update:
  "sql_update env name app_users app_users_update clash P f tx = Inr (tx', r) \<Longrightarrow> users_wf (tx_db tx) \<Longrightarrow>
     (\<And>r. usr_id (f r) = usr_id r) \<Longrightarrow> (\<And>r. usr_username (f r) = usr_username r) \<Longrightarrow>
     (\<And>r. user_ok r \<Longrightarrow> user_ok (f r)) \<Longrightarrow> users_wf (tx_db tx')"
  by (rule users_wf_update_users [OF _ users_update])

lemma users_wf_sessions_exec:
  "sql_exec env name user_sessions_update P f tx = Inr tx' \<Longrightarrow> users_wf (tx_db tx) \<Longrightarrow>
     (\<And>s. us_token_hash (f s) = us_token_hash s) \<Longrightarrow> (\<And>s. us_user_id (f s) = us_user_id s) \<Longrightarrow>
     users_wf (tx_db tx')"
  by (rule users_wf_update_sessions [OF _ sessions_exec])

lemma users_wf_sessions_update:
  "sql_update env name user_sessions user_sessions_update clash P f tx = Inr (tx', s) \<Longrightarrow> users_wf (tx_db tx) \<Longrightarrow>
     (\<And>s. us_token_hash (f s) = us_token_hash s) \<Longrightarrow> (\<And>s. us_user_id (f s) = us_user_id s) \<Longrightarrow>
     users_wf (tx_db tx')"
  by (rule users_wf_update_sessions [OF _ sessions_update])

lemmas users_wf_statements = users_wf_begin users_wf_audit users_wf_seed users_wf_revoke users_wf_exec
  users_wf_update users_wf_sessions_exec users_wf_sessions_update

lemmas user_ok_simps = user_ok_def RoleAdmin_def RoleUser_def StatusActive_def StatusRevoked_def

lemma validateUserRoleStatus_ok:
  "validateUserRoleStatus role status = Inr u \<longleftrightarrow> role \<in> {RoleAdmin, RoleUser} \<and> status \<in> {StatusActive, StatusRevoked}"
  by (auto simp: validateUserRoleStatus_def fail_if_def split: sum.splits if_splits)

lemma wf_RevokeUser: "users_wf db \<Longrightarrow> users_wf (fst (RevokeUser env db ctx actor uid reason))"
  unfolding RevokeUser_def
  by (rule commit_invariant, assumption, clarsimp elim!: bind_okE split: if_splits)
    (erule users_wf_statements | simp add: user_ok_simps)+

lemma wf_UpdateUser: "users_wf db \<Longrightarrow> users_wf (fst (UpdateUser env db ctx actor uid input reason))"
  unfolding UpdateUser_def Let_def
  by (rule commit_invariant, assumption, (clarsimp elim!: bind_okE simp: validateUserRoleStatus_ok split: if_splits)+)
    (erule users_wf_statements | simp add: user_ok_def)+

lemma wf_ResetUserPassword: "users_wf db \<Longrightarrow> users_wf (fst (ResetUserPassword env auth db ctx actor uid input reason))"
  unfolding ResetUserPassword_def Let_def set_password_def
  by (rule commit_invariant, assumption, clarsimp elim!: bind_okE split: if_splits)
    (erule users_wf_statements | simp add: user_ok_def)+

lemma wf_RevokeUserSessions: "users_wf db \<Longrightarrow> users_wf (fst (RevokeUserSessions env db ctx actor uid reason))"
  unfolding RevokeUserSessions_def
  by (rule commit_invariant, assumption, clarsimp elim!: bind_okE split: if_splits)
    (erule users_wf_statements | simp add: user_ok_def)+

lemma wf_ChangeOwnPassword: "users_wf db \<Longrightarrow> users_wf (fst (ChangeOwnPassword env auth db ctx actor input token))"
  unfolding ChangeOwnPassword_def Let_def set_password_def
  by (rule commit_invariant, assumption, clarsimp elim!: bind_okE split: if_splits option.splits)
    (erule users_wf_statements | simp add: user_ok_def)+

lemma wf_ViewUserConfig: "users_wf db \<Longrightarrow> users_wf (fst (ViewUserConfig env auth db ctx actor token uid))"
  unfolding ViewUserConfig_def Let_def
  by (rule commit_invariant, assumption, clarsimp elim!: bind_okE split: if_splits option.splits)
    (erule users_wf_statements | simp add: user_ok_def)+

lemma wf_RevokeToken: "users_wf db \<Longrightarrow> users_wf (fst (RevokeToken env auth db token))"
  by (auto simp: RevokeToken_def pool_tx_def split: sum.splits elim!: users_wf_sessions_exec)

lemma wf_BootstrapAdmin: "users_wf db \<Longrightarrow> users_wf (fst (BootstrapAdmin env auth db ctx username password))"
  unfolding BootstrapAdmin_def Let_def
  by (rule commit_invariant, assumption, clarsimp elim!: bind_okE split: if_splits)
    (erule users_wf_audit, rule users_wf_insert_user, erule (1) users_wf_begin,
      auto simp: user_ok_simps new_user_row_def)

lemma wf_Authenticate: "users_wf db \<Longrightarrow> users_wf (fst (Authenticate env auth db username password ttl))"
  unfolding Authenticate_def Let_def
  by (rule commit_invariant, assumption, clarsimp elim!: bind_okE split: if_splits sum.splits)
    (erule users_wf_exec, rule users_wf_insert_session, auto simp: pool_tx_def user_ok_def dest: sql_get_Inr)

lemma wf_ensureUserIdentity:
  assumes "ensureUserIdentity env auth tx username password role = Inr (tx', u, created)"
    and "users_wf (tx_db tx)" and "validUserRole role"
  shows "users_wf (tx_db tx')"
proof (cases "list_ex (\<lambda>r. usr_username r = username) (app_users (tx_db tx))")
  case True
  then show ?thesis using assms unfolding ensureUserIdentity_def Let_def
    by (clarsimp elim!: bind_okE) (erule users_wf_update, auto simp: user_ok_simps validUserRole_def)
next
  case False
  then show ?thesis using assms unfolding ensureUserIdentity_def Let_def
    by (clarsimp elim!: bind_okE)
      (erule users_wf_insert_user [rotated 2], auto simp: user_ok_simps validUserRole_def new_user_row_def)
qed

lemma wf_CreateUser: "users_wf db \<Longrightarrow> users_wf (fst (CreateUser env auth db ctx actor username password role reason))"
  unfolding CreateUser_def Let_def
  by (rule commit_invariant, assumption, clarsimp elim!: bind_okE split: if_splits)
    (erule users_wf_statements wf_ensureUserIdentity | assumption)+

lemma wf_user_exec: "users_wf db \<Longrightarrow> users_wf (user_exec env auth oper db)"
  by (cases oper) (simp_all add: wf_BootstrapAdmin wf_Authenticate wf_RevokeToken wf_CreateUser wf_RevokeUser
    wf_UpdateUser wf_ResetUserPassword wf_RevokeUserSessions wf_ChangeOwnPassword wf_ViewUserConfig)

subsection \<open>An administrator remains\<close>

definition admin_left :: "control_db \<Rightarrow> bool" where
  "admin_left db \<longleftrightarrow> list_ex active_admin (app_users db)"

lemma admin_left_map:
  "admin_left (tx_db tx) \<Longrightarrow> app_users (tx_db tx') = map (\<lambda>r. if P r then f r else r) (app_users (tx_db tx)) \<Longrightarrow>
     (\<And>r. r \<in> set (app_users (tx_db tx)) \<Longrightarrow> active_admin r \<Longrightarrow> P r \<Longrightarrow> active_admin (f r)) \<Longrightarrow> admin_left (tx_db tx')"
  unfolding admin_left_def by (auto simp: list_ex_iff)

lemma admin_left_frame:
  "admin_left (tx_db tx) \<Longrightarrow> app_users (tx_db tx') = app_users (tx_db tx) \<Longrightarrow> admin_left (tx_db tx')"
  by (simp add: admin_left_def)

lemma admin_left_exec:
  "sql_exec env name app_users_update P f tx = Inr tx' \<Longrightarrow> admin_left (tx_db tx) \<Longrightarrow>
     (\<And>r. r \<in> set (app_users (tx_db tx)) \<Longrightarrow> active_admin r \<Longrightarrow> P r \<Longrightarrow> active_admin (f r)) \<Longrightarrow> admin_left (tx_db tx')"
  by (rule admin_left_map [OF _ users_exec(2)])

lemma admin_left_update:
  "sql_update env name app_users app_users_update clash P f tx = Inr (tx', r) \<Longrightarrow> admin_left (tx_db tx) \<Longrightarrow>
     (\<And>r. r \<in> set (app_users (tx_db tx)) \<Longrightarrow> active_admin r \<Longrightarrow> P r \<Longrightarrow> active_admin (f r)) \<Longrightarrow> admin_left (tx_db tx')"
  by (rule admin_left_map [OF _ users_update(2)])

lemma admin_left_insert:
  "sql_insert env name app_users app_users_update clash row tx = Inr tx' \<Longrightarrow> admin_left (tx_db tx) \<Longrightarrow> admin_left (tx_db tx')"
  by (simp add: admin_left_def users_insert)

lemma admin_left_others:
  "beginUnscopedTx env db = Inr tx \<Longrightarrow> admin_left db \<Longrightarrow> admin_left (tx_db tx)"
  "insertAudit env ctx tx actor a t i r = Inr tx' \<Longrightarrow> admin_left (tx_db tx) \<Longrightarrow> admin_left (tx_db tx')"
  "seedDefaultUDPSourcePortBlocks env tx uid k = Inr tx' \<Longrightarrow> admin_left (tx_db tx) \<Longrightarrow> admin_left (tx_db tx')"
  "revoke_sessions env Q tx = Inr tx' \<Longrightarrow> admin_left (tx_db tx) \<Longrightarrow> admin_left (tx_db tx')"
  "sql_exec env name user_sessions_update Q g tx = Inr tx' \<Longrightarrow> admin_left (tx_db tx) \<Longrightarrow> admin_left (tx_db tx')"
  "sql_update env name user_sessions user_sessions_update clash Q g tx = Inr (tx', s) \<Longrightarrow> admin_left (tx_db tx) \<Longrightarrow>
     admin_left (tx_db tx')"
  "sql_insert env name user_sessions user_sessions_update clash s tx = Inr tx' \<Longrightarrow> admin_left (tx_db tx) \<Longrightarrow>
     admin_left (tx_db tx')"
  using begin_unscoped by (blast | simp add: admin_left_def user_tables)+

lemmas admin_left_statements = admin_left_others admin_left_exec admin_left_update admin_left_insert

text \<open>The check of \<^verbatim>\<open>ensureActiveAdminRemains\<close> is enough for an update of one user.\<close>

lemma ensured_admin_left:
  assumes "ensureActiveAdminRemains env tx before role status = Inr u" and "getUser env tx uid = Inr before"
    and "users_wf (tx_db tx)" and "admin_left (tx_db tx)"
    and rows: "app_users (tx_db tx') = map (\<lambda>r. if usr_id r = uid then f r else r) (app_users (tx_db tx))"
    and f: "\<And>r. scan_user r = before \<Longrightarrow> usr_role (f r) = role \<and> usr_status (f r) = status"
  shows "admin_left (tx_db tx')"
proof -
  obtain r where r: "r \<in> set (app_users (tx_db tx))" "usr_id r = uid" "before = scan_user r"
    using getUser_Inr [OF assms(2)] by blast
  obtain a where a: "a \<in> set (app_users (tx_db tx))" "active_admin a"
    using assms(4) by (auto simp: admin_left_def list_ex_iff)
  show ?thesis
  proof (cases "a = r \<and> \<not> (role = RoleAdmin \<and> status = StatusActive)")
    case True
    then have "filter (\<lambda>q. usr_id q \<noteq> uid \<and> active_admin q) (app_users (tx_db tx)) \<noteq> []"
      using assms(1) a(2) r(2,3)
      by (auto simp: ensureActiveAdminRemains_def scan_user_def active_admin_def RoleAdmin_def
          split: sum.splits dest: sql_select_Inr)
    then obtain q where "q \<in> set (app_users (tx_db tx))" "usr_id q \<noteq> uid" "active_admin q"
      by (auto simp: filter_empty_conv)
    then show ?thesis by (auto simp: admin_left_def list_ex_iff rows)
  next
    case False
    have "usr_id a \<noteq> uid" if "a \<noteq> r"
      using that a(1) r(1,2) assms(3) by (metis distinct_map inj_on_def users_wf_def)
    then have "active_admin (if usr_id a = uid then f a else a)"
      using False f [of r] r a(2) by (auto simp: active_admin_def RoleAdmin_def StatusActive_def)
    then show ?thesis using a(1) unfolding admin_left_def list_ex_iff rows by (cases "usr_id a = uid") auto
  qed
qed

lemma left_RevokeUser:
  assumes "users_wf db" "admin_left db"
  shows "admin_left (fst (RevokeUser env db ctx actor uid reason))"
  unfolding RevokeUser_def using assms(2)
proof (rule commit_invariant, clarsimp elim!: bind_okE)
  fix tx1 tx2 tx3 tx4 before
  assume steps: "beginUnscopedTx env db = Inr tx1" "getUser env tx1 uid = Inr before"
    "ensureActiveAdminRemains env tx1 before (user_Role before) StatusRevoked = Inr ()"
    "sql_exec env ''app_users'' app_users_update (\<lambda>r. usr_id r = uid) (usr_status_update (\<lambda>_. ''revoked'')) tx1 = Inr tx2"
    "revoke_sessions env (\<lambda>s. us_user_id s = uid) tx2 = Inr tx3"
    "insertAudit env ctx tx3 actor ''revoke_user'' ''user'' uid reason = Inr tx4"
  have "admin_left (tx_db tx2)"
    by (rule ensured_admin_left [OF steps(3,2) users_wf_begin [OF steps(1) assms(1)]
          admin_left_others(1) [OF steps(1) assms(2)] users_exec(2) [OF steps(4)]])
      (auto simp: scan_user_def StatusRevoked_def)
  then show "admin_left (tx_db tx4)" using steps(5,6) by (blast intro: admin_left_others)
qed

lemma left_UpdateUser:
  assumes "users_wf db" "admin_left db"
  shows "admin_left (fst (UpdateUser env db ctx actor uid input reason))"
  unfolding UpdateUser_def Let_def using assms(2)
proof (rule commit_invariant, clarsimp elim!: bind_okE)
  fix tx1 tx2 tx3 tx4 tx5 tx6 after and before :: User
  let ?role = "or_lower (uu_Role input) (user_Role before)"
  let ?status = "or_lower (uu_Status input) (user_Status before)"
  assume steps: "beginUnscopedTx env db = Inr tx1" "getUser env tx1 uid = Inr before"
    "ensureActiveAdminRemains env tx1 before ?role ?status = Inr ()"
    "sql_update env ''app_users'' app_users app_users_update (\<lambda>_ _. False) (\<lambda>r. usr_id r = uid)
       (\<lambda>r. r\<lparr>usr_role := ?role, usr_status := ?status, usr_force_password_change :=
         case uu_ForcePasswordChange input of None \<Rightarrow> user_ForcePasswordChange before | Some b \<Rightarrow> b\<rparr>) tx1 =
       Inr (tx2, after)"
    "(if ?status \<noteq> StatusActive then revoke_sessions env (\<lambda>s. us_user_id s = uid) tx2 else Inr tx2) = Inr tx3"
    "(if ?role = RoleUser then seedDefaultUDPSourcePortBlocks env tx3 uid 0 else Inr tx3) = Inr tx4"
    "(if ?role \<noteq> RoleAdmin then sql_exec env ''user_sessions'' user_sessions_update
        (\<lambda>s. us_view_owner_user_id s = Some uid) (us_view_owner_user_id_update Map.empty) tx4
      else Inr tx4) = Inr tx5"
    "insertAudit env ctx tx5 actor ''update_user'' ''user'' uid (mutationReason reason (uu_Reason input)) = Inr tx6"
  have "admin_left (tx_db tx2)"
    by (rule ensured_admin_left [OF steps(3,2) users_wf_begin [OF steps(1) assms(1)]
          admin_left_others(1) [OF steps(1) assms(2)] users_update(2) [OF steps(4)]]) simp
  then have "admin_left (tx_db tx3)" using steps(5) admin_left_others(4) by (auto split: if_splits)
  then have "admin_left (tx_db tx4)" using steps(6) admin_left_others(3) by (auto split: if_splits)
  then have "admin_left (tx_db tx5)" using steps(7) admin_left_others(5) by (auto split: if_splits)
  then show "admin_left (tx_db tx6)" by (rule admin_left_others(2) [OF steps(8)])
qed

lemma left_ResetUserPassword: "admin_left db \<Longrightarrow> admin_left (fst (ResetUserPassword env auth db ctx actor uid input reason))"
  unfolding ResetUserPassword_def Let_def set_password_def
  by (rule commit_invariant, assumption, clarsimp elim!: bind_okE split: if_splits)
    (erule admin_left_statements | simp add: active_admin_def)+

lemma left_RevokeUserSessions: "admin_left db \<Longrightarrow> admin_left (fst (RevokeUserSessions env db ctx actor uid reason))"
  unfolding RevokeUserSessions_def
  by (rule commit_invariant, assumption, clarsimp elim!: bind_okE split: if_splits) (erule admin_left_statements | simp)+

lemma left_ChangeOwnPassword: "admin_left db \<Longrightarrow> admin_left (fst (ChangeOwnPassword env auth db ctx actor input token))"
  unfolding ChangeOwnPassword_def Let_def set_password_def
  by (rule commit_invariant, assumption, clarsimp elim!: bind_okE split: if_splits option.splits)
    (erule admin_left_statements | simp add: active_admin_def)+

lemma left_ViewUserConfig: "admin_left db \<Longrightarrow> admin_left (fst (ViewUserConfig env auth db ctx actor token uid))"
  unfolding ViewUserConfig_def Let_def
  by (rule commit_invariant, assumption, clarsimp elim!: bind_okE split: if_splits option.splits)
    (erule admin_left_statements | simp)+

lemma left_RevokeToken: "admin_left db \<Longrightarrow> admin_left (fst (RevokeToken env auth db token))"
  by (auto simp: RevokeToken_def pool_tx_def split: sum.splits elim!: admin_left_others)

lemma left_BootstrapAdmin: "admin_left db \<Longrightarrow> admin_left (fst (BootstrapAdmin env auth db ctx username password))"
  unfolding BootstrapAdmin_def Let_def
  by (rule commit_invariant, assumption, clarsimp elim!: bind_okE split: if_splits) (erule admin_left_statements | simp)+

lemma left_Authenticate: "admin_left db \<Longrightarrow> admin_left (fst (Authenticate env auth db username password ttl))"
  unfolding Authenticate_def Let_def
  by (rule commit_invariant, assumption, clarsimp elim!: bind_okE split: if_splits sum.splits)
    (erule admin_left_statements | simp add: active_admin_def pool_tx_def)+

text \<open>Creation of a user keeps an administrator when it creates a new name or an administrator.\<close>

definition keeps_admin_op :: "user_op \<Rightarrow> control_db \<Rightarrow> bool" where
  "keeps_admin_op oper db = (case oper of
     OpCreateUser ctx actor username password role reason \<Rightarrow>
       TrimSpace (ToLower role) = RoleAdmin \<or> TrimSpace username \<notin> usr_username ` set (filter active_admin (app_users db))
   | _ \<Rightarrow> True)"

lemma left_ensureUserIdentity:
  assumes "ensureUserIdentity env auth tx username password role = Inr (tx', u, created)"
    and "admin_left (tx_db tx)"
    and "role = RoleAdmin \<or> username \<notin> usr_username ` set (filter active_admin (app_users (tx_db tx)))"
  shows "admin_left (tx_db tx')"
proof (cases "list_ex (\<lambda>r. usr_username r = username) (app_users (tx_db tx))")
  case True
  obtain hash r where "sql_update env ''app_users'' app_users app_users_update (\<lambda>_ _. False)
      (\<lambda>r. usr_username r = username)
      (\<lambda>r. r\<lparr>usr_password_hash := hash, usr_role := role, usr_status := ''active'',
        usr_force_password_change := True\<rparr>) tx = Inr (tx', r)"
    using True assms(1) unfolding ensureUserIdentity_def Let_def by (clarsimp elim!: bind_okE)
  from admin_left_update [OF this assms(2)] assms(3) show ?thesis
    by (auto simp: active_admin_def RoleAdmin_def)
next
  case False
  then show ?thesis using assms(1,2) unfolding ensureUserIdentity_def Let_def
    by (clarsimp elim!: bind_okE) (erule (1) admin_left_insert)
qed

lemma left_CreateUser:
  assumes "admin_left db" and "keeps_admin_op (OpCreateUser ctx actor username password role reason) db"
  shows "admin_left (fst (CreateUser env auth db ctx actor username password role reason))"
  unfolding CreateUser_def Let_def using assms(1)
proof (rule commit_invariant, clarsimp elim!: bind_okE)
  fix tx1 tx2 tx3 tx4 and user user' :: User and created
  assume steps: "beginUnscopedTx env db = Inr tx1"
    "ensureUserIdentity env auth tx1 (TrimSpace username) password (TrimSpace (ToLower role)) = Inr (tx2, user, created)"
    "(if user_Role user' = RoleUser then seedDefaultUDPSourcePortBlocks env tx2 (user_ID user') 1 else Inr tx2) = Inr tx3"
    "insertAudit env ctx tx3 actor (if created then ''create_user'' else ''reactivate_user'') ''user'' (user_ID user') reason =
       Inr tx4"
  have "admin_left (tx_db tx2)"
    using left_ensureUserIdentity [OF steps(2)] assms begin_unscoped [OF steps(1)] by (simp add: keeps_admin_op_def)
  then show "admin_left (tx_db tx4)" using steps(3,4) by (auto intro: admin_left_others split: if_splits)
qed

lemma left_user_exec:
  "users_wf db \<Longrightarrow> admin_left db \<Longrightarrow> keeps_admin_op oper db \<Longrightarrow> admin_left (user_exec env auth oper db)"
  by (cases oper) (simp_all add: left_BootstrapAdmin left_Authenticate left_RevokeToken left_CreateUser left_RevokeUser
    left_UpdateUser left_ResetUserPassword left_RevokeUserSessions left_ChangeOwnPassword left_ViewUserConfig)

text \<open>Along a run, each creation is judged in the state it meets.\<close>

fun keeps_admin_run :: "(store_env \<times> auth_env \<times> user_op) list \<Rightarrow> control_db \<Rightarrow> bool" where
  "keeps_admin_run [] db \<longleftrightarrow> True"
| "keeps_admin_run ((env, auth, oper) # ops) db \<longleftrightarrow>
     keeps_admin_op oper db \<and> keeps_admin_run ops (user_exec env auth oper db)"

lemma left_user_run:
  "keeps_admin_run ops db \<Longrightarrow> users_wf db \<Longrightarrow> admin_left db \<Longrightarrow> admin_left (user_run ops db)"
  by (induction ops db rule: user_run.induct) (auto simp: wf_user_exec left_user_exec)

subsection \<open>A revoked user stays out\<close>

definition locked :: "string \<Rightarrow> string \<Rightarrow> control_db \<Rightarrow> bool" where
  "locked uid name db \<longleftrightarrow> uid \<in> usr_id ` set (app_users db) \<and>
     list_all (\<lambda>r. usr_id r = uid \<longrightarrow> usr_username r = name \<and> usr_status r \<noteq> StatusActive) (app_users db)"

lemma locked_frame:
  "locked uid name (tx_db tx) \<Longrightarrow> app_users (tx_db tx') = app_users (tx_db tx) \<Longrightarrow> locked uid name (tx_db tx')"
  by (simp add: locked_def)

lemma locked_map:
  assumes "locked uid name (tx_db tx)"
    and "app_users (tx_db tx') = map (\<lambda>r. if P r then f r else r) (app_users (tx_db tx))"
    and "\<And>r. P r \<Longrightarrow> usr_id (f r) = usr_id r \<and> usr_username (f r) = usr_username r"
    and "\<And>r. P r \<Longrightarrow> usr_status r \<noteq> StatusActive \<Longrightarrow> \<not> (usr_id r = uid \<and> usr_username r = name) \<or> usr_status (f r) \<noteq> StatusActive"
  shows "locked uid name (tx_db tx')"
proof -
  have "map usr_id (app_users (tx_db tx')) = map usr_id (app_users (tx_db tx))"
    using assms(3) by (simp add: assms(2))
  then have "usr_id ` set (app_users (tx_db tx')) = usr_id ` set (app_users (tx_db tx))" by (metis set_map)
  then show ?thesis using assms(1,3,4) by (auto simp: locked_def assms(2) list_all_iff)
qed

lemma locked_insert:
  assumes "sql_insert env n app_users app_users_update same_user row tx = Inr tx'" "locked uid name (tx_db tx)"
  shows "locked uid name (tx_db tx')"
proof -
  obtain r where "r \<in> set (app_users (tx_db tx))" "usr_id r = uid" using assms(2) by (auto simp: locked_def)
  then have "usr_id row \<noteq> uid" using sql_insert_db [OF assms(1)] unfolding same_user_def by metis
  then show ?thesis using assms(2) by (simp add: locked_def users_insert [OF assms(1)])
qed

lemma locked_exec:
  "sql_exec env n app_users_update P f tx = Inr tx' \<Longrightarrow> locked uid name (tx_db tx) \<Longrightarrow>
     (\<And>r. P r \<Longrightarrow> usr_id (f r) = usr_id r \<and> usr_username (f r) = usr_username r) \<Longrightarrow>
     (\<And>r. P r \<Longrightarrow> usr_status r \<noteq> StatusActive \<Longrightarrow> \<not> (usr_id r = uid \<and> usr_username r = name) \<or> usr_status (f r) \<noteq> StatusActive) \<Longrightarrow>
     locked uid name (tx_db tx')"
  by (rule locked_map [OF _ users_exec(2)])

lemma locked_update:
  "sql_update env n app_users app_users_update clash P f tx = Inr (tx', r) \<Longrightarrow> locked uid name (tx_db tx) \<Longrightarrow>
     (\<And>r. P r \<Longrightarrow> usr_id (f r) = usr_id r \<and> usr_username (f r) = usr_username r) \<Longrightarrow>
     (\<And>r. P r \<Longrightarrow> usr_status r \<noteq> StatusActive \<Longrightarrow> \<not> (usr_id r = uid \<and> usr_username r = name) \<or> usr_status (f r) \<noteq> StatusActive) \<Longrightarrow>
     locked uid name (tx_db tx')"
  by (rule locked_map [OF _ users_update(2)])

lemma locked_others:
  "beginUnscopedTx env db = Inr tx \<Longrightarrow> locked uid name db \<Longrightarrow> locked uid name (tx_db tx)"
  "insertAudit env ctx tx actor a t i r = Inr tx' \<Longrightarrow> locked uid name (tx_db tx) \<Longrightarrow> locked uid name (tx_db tx')"
  "seedDefaultUDPSourcePortBlocks env tx o' k = Inr tx' \<Longrightarrow> locked uid name (tx_db tx) \<Longrightarrow> locked uid name (tx_db tx')"
  "revoke_sessions env Q tx = Inr tx' \<Longrightarrow> locked uid name (tx_db tx) \<Longrightarrow> locked uid name (tx_db tx')"
  "sql_exec env n user_sessions_update Q g tx = Inr tx' \<Longrightarrow> locked uid name (tx_db tx) \<Longrightarrow> locked uid name (tx_db tx')"
  "sql_update env n user_sessions user_sessions_update clash Q g tx = Inr (tx', s) \<Longrightarrow> locked uid name (tx_db tx) \<Longrightarrow>
     locked uid name (tx_db tx')"
  "sql_insert env n user_sessions user_sessions_update clash s tx = Inr tx' \<Longrightarrow> locked uid name (tx_db tx) \<Longrightarrow>
     locked uid name (tx_db tx')"
  using begin_unscoped by (blast | simp add: locked_def user_tables)+

lemmas locked_statements = locked_others locked_exec locked_update locked_insert

text \<open>The operations that let a user in again: an update of the user, and a creation under its name.\<close>

definition reinstates :: "string \<Rightarrow> string \<Rightarrow> user_op \<Rightarrow> bool" where
  "reinstates uid name oper = (case oper of
     OpUpdateUser ctx actor i input reason \<Rightarrow> i = uid
   | OpCreateUser ctx actor username password role reason \<Rightarrow> TrimSpace username = name
   | _ \<Rightarrow> False)"

lemma locked_ensureUserIdentity:
  assumes "ensureUserIdentity env auth tx username password role = Inr (tx', u, created)"
    and "locked uid name (tx_db tx)" and "username \<noteq> name"
  shows "locked uid name (tx_db tx')"
proof (cases "list_ex (\<lambda>r. usr_username r = username) (app_users (tx_db tx))")
  case True
  then show ?thesis using assms unfolding ensureUserIdentity_def Let_def
    by (clarsimp elim!: bind_okE) (erule (1) locked_update, simp_all)
next
  case False
  then show ?thesis using assms unfolding ensureUserIdentity_def Let_def
    by (clarsimp elim!: bind_okE) (erule (1) locked_insert)
qed

lemma locked_CreateUser:
  "locked uid name db \<Longrightarrow> TrimSpace username \<noteq> name \<Longrightarrow>
     locked uid name (fst (CreateUser env auth db ctx actor username password role reason))"
  unfolding CreateUser_def Let_def
  by (rule commit_invariant, assumption, clarsimp elim!: bind_okE split: if_splits)
    (erule locked_others locked_ensureUserIdentity | assumption)+

lemma locked_UpdateUser:
  "locked uid name db \<Longrightarrow> i \<noteq> uid \<Longrightarrow> locked uid name (fst (UpdateUser env db ctx actor i input reason))"
  unfolding UpdateUser_def Let_def
  by (rule commit_invariant, assumption, (clarsimp elim!: bind_okE split: if_splits)+)
    (erule locked_statements | assumption | simp)+

lemma locked_RevokeUser: "locked uid name db \<Longrightarrow> locked uid name (fst (RevokeUser env db ctx actor i reason))"
  unfolding RevokeUser_def
  by (rule commit_invariant, assumption, clarsimp elim!: bind_okE)
    (erule locked_statements | assumption | simp add: StatusActive_def)+

lemma locked_passwords:
  "locked uid name db \<Longrightarrow> locked uid name (fst (ResetUserPassword env auth db ctx actor i pri reason))"
  "locked uid name db \<Longrightarrow> locked uid name (fst (ChangeOwnPassword env auth db ctx actor own token))"
  unfolding ResetUserPassword_def ChangeOwnPassword_def Let_def set_password_def
  by (rule commit_invariant, assumption, clarsimp elim!: bind_okE split: if_splits option.splits,
      (erule locked_statements | assumption | simp)+)+

lemma locked_sessions:
  "locked uid name db \<Longrightarrow> locked uid name (fst (RevokeUserSessions env db ctx actor i reason))"
  "locked uid name db \<Longrightarrow> locked uid name (fst (ViewUserConfig env auth db ctx actor token i))"
  "locked uid name db \<Longrightarrow> locked uid name (fst (RevokeToken env auth db token))"
  subgoal unfolding RevokeUserSessions_def
    by (rule commit_invariant, assumption, clarsimp elim!: bind_okE) (erule locked_statements | assumption | simp)+
  subgoal unfolding ViewUserConfig_def Let_def
    by (rule commit_invariant, assumption, clarsimp elim!: bind_okE split: option.splits)
      (erule locked_statements | assumption | simp)+
  by (auto simp: RevokeToken_def pool_tx_def split: sum.splits elim!: locked_others)

lemma locked_logins:
  "locked uid name db \<Longrightarrow> locked uid name (fst (BootstrapAdmin env auth db ctx username password))"
  "locked uid name db \<Longrightarrow> locked uid name (fst (Authenticate env auth db username password ttl))"
  unfolding BootstrapAdmin_def Authenticate_def Let_def
  by (rule commit_invariant, assumption, clarsimp elim!: bind_okE split: if_splits sum.splits,
      (erule locked_statements | assumption | simp add: pool_tx_def)+)+

lemma locked_user_exec:
  "locked uid name db \<Longrightarrow> \<not> reinstates uid name oper \<Longrightarrow> locked uid name (user_exec env auth oper db)"
  by (cases oper) (simp_all add: reinstates_def locked_CreateUser locked_UpdateUser locked_RevokeUser
    locked_passwords locked_sessions locked_logins)

lemma locked_no_token:
  assumes "locked uid name db" and "AuthenticateToken env auth db token = Inr a"
  shows "user_ID a \<noteq> uid"
proof -
  obtain s u where su: "session_user db (ae_hashToken auth (TrimSpace token)) (se_now env) = Some (s, u)"
    and a: "user_ID a = usr_id u"
    using assms(2) by (auto simp: AuthenticateToken_def Let_def user_actor_def split: sum.splits option.splits if_splits)
  have "u \<in> set (app_users db) \<and> usr_status u = StatusActive"
    using find_mem [OF su [unfolded session_user_def]] by (auto simp: StatusActive_def)
  then show ?thesis using assms(1) a by (auto simp: locked_def list_all_iff)
qed

lemma locked_no_login:
  assumes "users_wf db" and "locked uid name db"
  shows "snd (Authenticate env auth db username password ttl) = Inr session \<Longrightarrow> user_ID (ss_User session) \<noteq> uid"
  using assms(2) unfolding Authenticate_def Let_def commit_or_drop_def
  by (auto simp: locked_def list_all_iff scan_user_def fail_if_def pool_tx_def
      split: sum.splits prod.splits if_splits dest!: sql_get_Inr)

lemma revoked_locked:
  assumes "RevokeUser env db ctx actor uid reason = (db', Inr u)" and "users_wf db"
  shows "locked uid (user_Username u) db'"
  using assms(1) unfolding RevokeUser_def
proof (rule commit_result, clarsimp elim!: bind_okE)
  fix tx1 tx2 tx3 tx4
  assume steps: "beginUnscopedTx env db = Inr tx1"
    "sql_exec env ''app_users'' app_users_update (\<lambda>r. usr_id r = uid) (usr_status_update (\<lambda>_. ''revoked'')) tx1 = Inr tx2"
    "revoke_sessions env (\<lambda>s. us_user_id s = uid) tx2 = Inr tx3" "getUser env tx3 uid = Inr u"
    "insertAudit env ctx tx3 actor ''revoke_user'' ''user'' uid reason = Inr tx4"
  have wf: "users_wf (tx_db tx2)"
    using users_wf_begin [OF steps(1) assms(2)] by (rule users_wf_exec [OF steps(2)]) (auto simp: user_ok_simps)
  obtain r where r: "r \<in> set (app_users (tx_db tx2))" "usr_id r = uid" "usr_username r = user_Username u"
    using getUser_Inr [OF steps(4)] revoke_sessions_rows(1) [OF steps(3)] by (auto simp: scan_user_def)
  have names: "usr_username q = user_Username u" if "q \<in> set (app_users (tx_db tx2))" "usr_id q = uid" for q
    using that r wf by (metis distinct_map inj_on_def users_wf_def)
  have "list_all (\<lambda>q. usr_id q = uid \<longrightarrow> usr_status q \<noteq> StatusActive) (app_users (tx_db tx2))"
    by (simp add: users_exec [OF steps(2)] StatusActive_def list.pred_map comp_def list.pred_True)
  then have "locked uid (user_Username u) (tx_db tx2)" using r names by (auto simp: locked_def list_all_iff)
  then show "locked uid (user_Username u) (tx_db tx4)" using steps(3,5) by (blast intro: locked_others)
qed

subsection \<open>Log in and tokens\<close>

definition login_row :: "store_env \<Rightarrow> auth_env \<Rightarrow> user_row \<Rightarrow> int \<Rightarrow> session_row" where
  "login_row env auth r ttl = \<lparr>us_user_id = usr_id r, us_token_hash = ae_hashToken auth (ae_token auth),
     us_expires_at = se_clock env + ttl, us_revoked_at = None, us_view_owner_user_id = None\<rparr>"

definition logged_in :: "store_env \<Rightarrow> auth_env \<Rightarrow> control_db \<Rightarrow> int \<Rightarrow> user_row \<Rightarrow> control_db \<Rightarrow> bool" where
  "logged_in env auth db ttl r db' \<longleftrightarrow>
     r \<in> set (app_users db) \<and> usr_status r = StatusActive \<and>
     user_sessions db' = user_sessions db @ [login_row env auth r ttl] \<and>
     (\<forall>s\<in>set (user_sessions db). us_token_hash s \<noteq> ae_hashToken auth (ae_token auth)) \<and>
     app_users db' = map (\<lambda>u. if usr_id u = usr_id r then u\<lparr>usr_last_login_at := Some (se_now env)\<rparr> else u) (app_users db)"

lemma login_effect:
  assumes "Authenticate env auth db username password ttl = (db', Inr session)"
  shows "\<exists>r. logged_in env auth db ttl r db' \<and> usr_username r = TrimSpace username \<and>
      ae_matches auth (usr_password_hash r) password \<and>
      session = \<lparr>ss_Token = ae_token auth, ss_ExpiresAt = se_clock env + ttl, ss_User = scan_user r\<rparr>"
  using assms unfolding Authenticate_def Let_def
proof (rule commit_result, clarsimp elim!: bind_okE split: sum.splits)
  fix tx1 tx2 r
  assume steps: "sql_get env ''user by name'' app_users (\<lambda>r. usr_username r = TrimSpace username) (pool_tx db) = Inr r"
    "usr_status r = StatusActive"
    "sql_insert env ''user_sessions'' user_sessions user_sessions_update (\<lambda>a b. us_token_hash a = us_token_hash b)
       \<lparr>us_user_id = usr_id r, us_token_hash = ae_hashToken auth (ae_token auth),
        us_expires_at = se_clock env + ttl, us_revoked_at = None, us_view_owner_user_id = None\<rparr> (pool_tx db) = Inr tx1"
    "sql_exec env ''last_login_at'' app_users_update (\<lambda>u. usr_id u = usr_id r)
       (usr_last_login_at_update (\<lambda>_. Some (se_now env))) tx1 = Inr tx2"
    "ae_matches auth (usr_password_hash r) password"
  have "logged_in env auth db ttl r (tx_db tx2)"
    using sql_get_Inr [OF steps(1)] sql_insert_db [OF steps(3)] steps(2)
    by (simp add: logged_in_def login_row_def users_exec [OF steps(4)] sessions_insert [OF steps(3)] pool_tx_def)
  then show "\<exists>ra. logged_in env auth db ttl ra (tx_db tx2) \<and> usr_username ra = TrimSpace username \<and>
      ae_matches auth (usr_password_hash ra) password \<and> scan_user r = scan_user ra"
    using sql_get_Inr [OF steps(1)] steps(5) by blast
qed

lemma logged_in_session_user:
  assumes "logged_in env auth db ttl r db'" and "now < se_clock env + ttl"
  shows "\<exists>u. session_user db' (ae_hashToken auth (ae_token auth)) now = Some (login_row env auth r ttl, u) \<and>
      usr_id u = usr_id r \<and> usr_status u = StatusActive"
proof -
  let ?row = "login_row env auth r ttl" and ?hash = "ae_hashToken auth (ae_token auth)"
  let ?P = "\<lambda>(s, u). us_token_hash s = ?hash \<and> us_revoked_at s = None \<and> now < us_expires_at s \<and> usr_status u = ''active''"
  let ?join = "concat (map (\<lambda>s. map (Pair s) (filter (\<lambda>u. usr_id u = us_user_id s) (app_users db'))) (user_sessions db'))"
  have "\<exists>u\<in>set (app_users db'). usr_id u = usr_id r \<and> usr_status u = ''active''"
    using assms(1) by (intro bexI [of _ "r\<lparr>usr_last_login_at := Some (se_now env)\<rparr>"])
      (auto simp: logged_in_def StatusActive_def)
  then obtain u where u: "u \<in> set (app_users db')" "usr_id u = usr_id r" "usr_status u = ''active''" by blast
  have "?row \<in> set (user_sessions db')" using assms(1) by (simp add: logged_in_def)
  then have "(?row, u) \<in> set ?join" unfolding set_concat set_map image_image
    by (rule UN_I) (use u(1,2) in \<open>simp add: login_row_def\<close>)
  moreover have "?P (?row, u)" using u(3) assms(2) by (simp add: login_row_def)
  ultimately have "\<exists>x. x \<in> set ?join \<and> ?P x" by (intro exI conjI)
  then have "find ?P ?join \<noteq> None" by (simp only: find_None_iff not_not)
  then obtain s u where su: "find ?P ?join = Some (s, u)" by (cases "find ?P ?join") auto
  have "(s, u) \<in> set ?join" "?P (s, u)" using find_mem [OF su] by auto
  moreover from this have "s = ?row" using assms(1) by (auto simp: logged_in_def)
  ultimately show ?thesis
    using su unfolding session_user_def by (auto simp: login_row_def StatusActive_def)
qed

subsection \<open>Properties\<close>

text \<open>
  C35. Along every run of the user operations, in any order and whatever database calls fail, the users
  keep distinct ids and names and a known role and state, tokens stay distinct, and every
  session belongs to a user.
\<close>

theorem users_well_formed: "users_wf db \<Longrightarrow> users_wf (user_run ops db)"
  by (rule user_run_invariant [where I = users_wf]) (auto intro: wf_user_exec)

text \<open>
  C36. Along every run there is an active administrator, when every creation of a user creates an
  administrator or does not name an active administrator. The code checks it in RevokeUser and
  UpdateUser, not in CreateUser.
\<close>

theorem admin_remains:
  "users_wf db \<Longrightarrow> admin_left db \<Longrightarrow> keeps_admin_run ops db \<Longrightarrow> admin_left (user_run ops db)"
  by (rule left_user_run)

text \<open>
  C37. After a user is revoked, no bearer token authenticates as that user and no log in succeeds for it,
  after any further operations other than an update of the user or a creation under its name.
\<close>

theorem revoked_user_stays_out:
  assumes "RevokeUser env db ctx actor uid reason = (db', Inr u)" and "users_wf db"
    and "\<forall>(e, a, oper)\<in>set ops. \<not> reinstates uid (user_Username u) oper"
  shows "\<not> (AuthenticateToken env' auth (user_run ops db') token = Inr a \<and> user_ID a = uid) \<and>
      \<not> (snd (Authenticate env' auth (user_run ops db') name password ttl) = Inr session \<and>
        user_ID (ss_User session) = uid)"
proof -
  have wf: "users_wf db'" using wf_RevokeUser [OF assms(2), of env ctx actor uid reason] assms(1) by simp
  have "locked uid (user_Username u) (user_run ops db')"
    by (rule user_run_invariant [where I = "locked uid (user_Username u)"])
      (use assms(3) in \<open>auto intro: locked_user_exec revoked_locked [OF assms(1,2)]\<close>)
  moreover have "users_wf (user_run ops db')"
    by (rule user_run_invariant [where I = users_wf]) (auto intro: wf_user_exec wf)
  ultimately show ?thesis using locked_no_token locked_no_login by blast
qed

text \<open>
  C38. The token of a successful log in authenticates the user that logged in, with the user's own owner
  and with write access, until the session expires.
\<close>

theorem login_token_authenticates:
  assumes "Authenticate env auth db username password ttl = (db', Inr session)"
    and "ss_Token session = TrimSpace (ss_Token session)" and "ss_Token session \<noteq> []"
    and "se_now env' < ss_ExpiresAt session" and "\<not> se_fails env' (ReadTable ''session'') []"
  shows "\<exists>a. AuthenticateToken env' auth db' (ss_Token session) = Inr a \<and>
      user_ID a = user_ID (ss_User session) \<and> user_Status a = StatusActive \<and>
      actor_ViewOwnerUserID a = user_ID (ss_User session) \<and> \<not> user_ReadOnly a"
proof -
  obtain r where r: "logged_in env auth db ttl r db'"
    and s: "session = \<lparr>ss_Token = ae_token auth, ss_ExpiresAt = se_clock env + ttl, ss_User = scan_user r\<rparr>"
    using login_effect [OF assms(1)] by blast
  obtain u where "session_user db' (ae_hashToken auth (ae_token auth)) (se_now env') = Some (login_row env auth r ttl, u)"
    and "usr_id u = usr_id r" "usr_status u = StatusActive"
    using logged_in_session_user [OF r] assms(4) s by auto
  then show ?thesis using assms(2,3,5) s
    by (simp add: AuthenticateToken_def Let_def login_row_def user_actor_def scan_user_def db_guard_def fail_if_def)
qed

text \<open>
  C40. CreateUser does not keep an administrator: a creation that succeeds under the name of the only active
  administrator, with another role, leaves no active administrator. UpdateUser and RevokeUser refuse this.
\<close>

theorem create_user_demotes_admin:
  assumes "CreateUser env auth db ctx actor username password role reason = (db', Inr u)" and "admin_left db"
    and "TrimSpace (ToLower role) \<noteq> RoleAdmin"
    and "\<forall>r\<in>set (app_users db). active_admin r \<longrightarrow> usr_username r = TrimSpace username"
  shows "\<not> admin_left db'"
proof -
  let ?name = "TrimSpace username" and ?role = "TrimSpace (ToLower role)"
  obtain tx1 tx2 user created where tx1: "tx_db tx1 = db"
    and ensure: "ensureUserIdentity env auth tx1 ?name password ?role = Inr (tx2, user, created)"
    and users: "app_users db' = app_users (tx_db tx2)"
    using assms(1) unfolding CreateUser_def Let_def
    by (cases rule: commit_or_drop_cases) (auto elim!: bind_okE dest: begin_unscoped split: if_splits)
  have "list_ex (\<lambda>r. usr_username r = ?name) (app_users db)"
    using assms(2,4) unfolding admin_left_def list_ex_iff by blast
  then obtain hash r where "sql_update env ''app_users'' app_users app_users_update (\<lambda>_ _. False)
      (\<lambda>r. usr_username r = ?name)
      (\<lambda>r. r\<lparr>usr_password_hash := hash, usr_role := ?role, usr_status := ''active'',
        usr_force_password_change := True\<rparr>) tx1 = Inr (tx2, r)"
    using ensure tx1 unfolding ensureUserIdentity_def Let_def by (clarsimp elim!: bind_okE)
  from sql_update_db(2) [OF this] tx1 users show ?thesis
    using assms(3,4) by (auto simp: admin_left_def list_ex_iff active_admin_def RoleAdmin_def)
qed

subsection \<open>A concrete run\<close>

definition sample_auth :: auth_env where
  "sample_auth = \<lparr>ae_hash = (\<lambda>p. Some (CHR ''$'' # p)), ae_matches = (\<lambda>h p. h = CHR ''$'' # p),
     ae_hashToken = (\<lambda>t. CHR ''#'' # t), ae_token = ''token''\<rparr>"

definition sample_root :: Actor where
  "sample_root = \<lparr>user_ID = ''u-root'', user_Username = ''root'', user_Role = ''admin'', user_Status = ''active'',
     user_ForcePasswordChange = False, user_ViewingUser = None, user_ReadOnly = False,
     actor_ViewOwnerUserID = ''u-root''\<rparr>"

definition sample_users_db :: control_db where
  "sample_users_db = sample_db\<lparr>app_users :=
     map (\<lambda>u. u\<lparr>usr_password_hash := CHR ''$'' # usr_username u\<rparr>) (app_users sample_db)\<rparr>"

definition sample_ops :: "(store_env \<times> auth_env \<times> user_op) list" where
  "sample_ops = map (\<lambda>oper. (sample_env, sample_auth, oper))
     [OpAuthenticate ''ann'' ''ann'' 500, OpRevokeUser None (Some sample_root) ''u-root'' ''leave'',
      OpChangeOwnPassword None (Some sample_actor)
        \<lparr>op_Reason = ''new'', op_CurrentPassword = ''ann'', op_NewPassword = ''correct horse''\<rparr> ''token'']"

lemma sample_users_ok: "users_wf sample_users_db" "admin_left sample_users_db" "keeps_admin_run sample_ops sample_users_db"
  by code_simp+

lemma sample_snd: "snd p = b \<Longrightarrow> p = (fst p, b)"
  by (cases p) simp

lemma sample_revoke: "snd (RevokeUser sample_env sample_users_db None (Some sample_root) ''u-ann'' ''left'') =
    Inr \<lparr>user_ID = ''u-ann'', user_Username = ''ann'', user_Role = ''user'', user_Status = ''revoked'',
      user_ForcePasswordChange = False, user_ViewingUser = None, user_ReadOnly = False\<rparr>"
  by code_simp

lemma sample_login: "snd (Authenticate sample_env sample_auth sample_users_db ''ann'' ''ann'' 500) =
    Inr \<lparr>ss_Token = ''token'', ss_ExpiresAt = 1500, ss_User = scan_user (app_users sample_users_db ! 1)\<rparr>"
  by code_simp

theorem users_well_formed_witness: "users_wf (user_run sample_ops sample_users_db)"
  by (rule users_well_formed [OF sample_users_ok(1)])

theorem admin_remains_witness: "admin_left (user_run sample_ops sample_users_db)"
  by (rule admin_remains [OF sample_users_ok])

theorem revoked_user_stays_out_witness:
  "\<not> (\<exists>a. AuthenticateToken sample_env sample_auth (user_run sample_ops
      (fst (RevokeUser sample_env sample_users_db None (Some sample_root) ''u-ann'' ''left''))) ''token'' = Inr a \<and>
    user_ID a = ''u-ann'')"
proof -
  have "\<forall>(e, a, oper)\<in>set sample_ops. \<not> reinstates ''u-ann'' ''ann'' oper" by code_simp
  then show ?thesis
    using revoked_user_stays_out [OF sample_snd [OF sample_revoke] sample_users_ok(1)]
    by (metis User.select_convs(2))
qed

theorem login_token_authenticates_witness:
  "\<exists>a. AuthenticateToken sample_env sample_auth
      (fst (Authenticate sample_env sample_auth sample_users_db ''ann'' ''ann'' 500)) ''token'' = Inr a \<and> user_ID a = ''u-ann''"
proof -
  have "user_ID (scan_user (app_users sample_users_db ! 1)) = ''u-ann''" "''token'' = TrimSpace ''token''"
    "se_now sample_env < 1500" "\<not> se_fails sample_env (ReadTable ''session'') []" by code_simp+
  then show ?thesis
    using login_token_authenticates [OF sample_snd [OF sample_login], of sample_env] by fastforce
qed

lemma sample_create: "(case CreateUser (sample_env\<lparr>se_identity := \<lambda>_ db. 1000 + int (length (udp_source_port_blocks db))\<rparr>)
     sample_auth sample_users_db None (Some sample_root) ''root'' ''correct horse'' ''user'' ''new'' of (_, Inl _) \<Rightarrow> False | (_, Inr _) \<Rightarrow> True)"
  by code_simp

theorem create_user_demotes_admin_witness:
  "\<exists>db' u. CreateUser (sample_env\<lparr>se_identity := \<lambda>_ db. 1000 + int (length (udp_source_port_blocks db))\<rparr>) sample_auth
     sample_users_db None (Some sample_root) ''root'' ''correct horse'' ''user'' ''new'' = (db', Inr u) \<and>
   admin_left sample_users_db \<and> \<not> admin_left db'"
proof -
  obtain db' u where run: "CreateUser (sample_env\<lparr>se_identity := \<lambda>_ db. 1000 + int (length (udp_source_port_blocks db))\<rparr>)
      sample_auth sample_users_db None (Some sample_root) ''root'' ''correct horse'' ''user'' ''new'' = (db', Inr u)"
    using sample_create by (auto split: prod.splits sum.splits)
  have "TrimSpace (ToLower ''user'') \<noteq> RoleAdmin"
    "list_all (\<lambda>r. active_admin r \<longrightarrow> usr_username r = TrimSpace ''root'') (app_users sample_users_db)" by code_simp+
  with create_user_demotes_admin [OF run sample_users_ok(2)] sample_users_ok(2) run show ?thesis
    unfolding list_all_iff by blast
qed

text \<open>An administrator that views a user cannot authenticate once that user is revoked.\<close>

lemma revocation_strands_viewer:
  "AuthenticateToken sample_env sample_auth (user_run (map (\<lambda>oper. (sample_env, sample_auth, oper))
     [OpAuthenticate ''root'' ''root'' 500, OpViewUser None (Some sample_root) ''token'' ''u-ann'',
      OpRevokeUser None (Some sample_root) ''u-ann'' ''left'']) sample_users_db) ''token'' = Inl NoRows"
  by code_simp

end
