(* ===== verification/FeedParse.thy ===== *)
theory FeedParse
  imports PolicyScope
begin

section \<open>Threat feeds: sources, credentials, fetching and parsing\<close>

text \<open>
  The part of \<^verbatim>\<open>internal/control/feed.go\<close> before the database: feed types and defaults, the
  credentials of a source, the HTTP request and its retry, and the two payload formats.

  \<^verbatim>\<open>rawJSONMap\<close> and the decoding of an internal feed go through \<^verbatim>\<open>encoding/json\<close>; the decoder is a
  parameter (\<open>feed_json\<close>). A number of the quota metadata is given by what Go's conversion
  \<^verbatim>\<open>int(float64)\<close> makes of it. \<^verbatim>\<open>net/url\<close>, the HTTP client and the process environment are parameters
  as well.
\<close>

subsection \<open>Text functions\<close>

text \<open>\<^verbatim>\<open>strings.Split\<close> at a one-byte separator.\<close>

fun Split :: "char \<Rightarrow> string \<Rightarrow> string list" where
  "Split sep [] = [[]]"
| "Split sep (c # s) =
     (if c = sep then [] # Split sep s
      else case Split sep s of [] \<Rightarrow> [[c]] | l # ls \<Rightarrow> (c # l) # ls)"

text \<open>\<^verbatim>\<open>strings.Fields\<close>: the maximal runs without white space.\<close>

definition starts_with_space :: "string \<Rightarrow> bool" where
  "starts_with_space s \<longleftrightarrow> list_ex (\<lambda>p. prefix p s) space_seqs"

fun take_field :: "string \<Rightarrow> string \<times> string" where
  "take_field [] = ([], [])"
| "take_field (c # s) =
     (if starts_with_space (c # s) then ([], c # s)
      else case take_field s of (w, r) \<Rightarrow> (c # w, r))"

lemma take_field_length: "length (snd (take_field s)) \<le> length s"
  by (induction s) (auto split: prod.split)

lemma no_leading_space: "\<not> starts_with_space (strip space_seqs s)"
proof -
  have "[] \<notin> set space_seqs" by (simp add: space_seqs_def)
  then show ?thesis
    using strip_no_prefix [of _ space_seqs s] by (auto simp: starts_with_space_def list_ex_iff)
qed

text \<open>After \<open>strip\<close> the text does not begin with white space, so the word is not empty.\<close>

lemma take_field_strip:
  assumes "strip space_seqs s \<noteq> []"
  shows "fst (take_field (strip space_seqs s)) \<noteq> []"
    and "length (snd (take_field (strip space_seqs s))) < length s"
proof -
  obtain c t where t: "strip space_seqs s = c # t"
    using assms by (cases "strip space_seqs s") auto
  have rest: "take_field (strip space_seqs s) = (c # fst (take_field t), snd (take_field t))"
    using no_leading_space [of s] by (simp add: t split: prod.split)
  then show "fst (take_field (strip space_seqs s)) \<noteq> []" by simp
  have "length (c # t) \<le> length s"
    using strip_suffix [of space_seqs s] by (auto simp: t suffix_def)
  then show "length (snd (take_field (strip space_seqs s))) < length s"
    using take_field_length [of t] by (simp add: rest)
qed

function Fields :: "string \<Rightarrow> string list" where
  "Fields s =
     (if strip space_seqs s = [] then []
      else fst (take_field (strip space_seqs s)) # Fields (snd (take_field (strip space_seqs s))))"
  by pat_completeness auto
termination
  by (relation "measure length") (simp_all add: take_field_strip)

declare Fields.simps [simp del]

text \<open>\<^verbatim>\<open>strings.IndexAny\<close> with ASCII separators, as the text before and after the separator.\<close>

definition cut_any :: "char set \<Rightarrow> string \<Rightarrow> (string \<times> string) option" where
  "cut_any seps s = (case dropWhile (\<lambda>c. c \<notin> seps) s of
     [] \<Rightarrow> None | _ # after \<Rightarrow> Some (takeWhile (\<lambda>c. c \<notin> seps) s, after))"

text \<open>\<^verbatim>\<open>strconv.Atoi\<close> with 64-bit integers.\<close>

definition Atoi :: "string \<Rightarrow> int option" where
  "Atoi s =
     (let neg = (s \<noteq> [] \<and> hd s = CHR ''-'');
          ds = (if s \<noteq> [] \<and> (hd s = CHR ''-'' \<or> hd s = CHR ''+'') then tl s else s);
          v = int (dec_val ds)
      in if ds = [] \<or> \<not> list_all is_digit ds then None
         else if neg then (if v \<le> 2 ^ 63 then Some (- v) else None)
         else (if v < 2 ^ 63 then Some v else None))"

text \<open>\<^verbatim>\<open>fmt.Sprint\<close> of an \<^verbatim>\<open>int\<close>.\<close>

definition Sprint_int :: "int \<Rightarrow> string" where
  "Sprint_int i = (if i < 0 then CHR ''-'' # dec (nat (- i)) else dec (nat i))"

text \<open>The number of bytes of the first code point, as \<^verbatim>\<open>utf8.DecodeRune\<close> counts them.\<close>

definition is_cont :: "nat \<Rightarrow> bool" where
  "is_cont n \<longleftrightarrow> 0x80 \<le> n \<and> n \<le> 0xBF"

definition rune_len :: "string \<Rightarrow> nat" where
  "rune_len s =
     (let at = (\<lambda>i. if i < length s then of_char (s ! i) else (0 :: nat)); b = at 0 in
      if 0xC2 \<le> b \<and> b \<le> 0xDF \<and> is_cont (at 1) then 2
      else if 0xE0 \<le> b \<and> b \<le> 0xEF \<and> is_cont (at 1) \<and> is_cont (at 2) \<and>
              (b = 0xE0 \<longrightarrow> 0xA0 \<le> at 1) \<and> (b = 0xED \<longrightarrow> at 1 \<le> 0x9F) then 3
      else if 0xF0 \<le> b \<and> b \<le> 0xF4 \<and> is_cont (at 1) \<and> is_cont (at 2) \<and> is_cont (at 3) \<and>
              (b = 0xF0 \<longrightarrow> 0x90 \<le> at 1) \<and> (b = 0xF4 \<longrightarrow> at 1 \<le> 0x8F) then 4
      else 1)"

lemma rune_len_pos: "0 < rune_len s"
  by (simp add: rune_len_def Let_def)

subsection \<open>Constants and types\<close>

definition feedStatusHealthy :: string where "feedStatusHealthy = ''healthy''"
definition feedStatusError :: string where "feedStatusError = ''error''"
definition feedCredentialMask :: string where "feedCredentialMask = ''***''"

text \<open>In seconds: the source divides the duration by \<^verbatim>\<open>time.Second\<close>.\<close>

definition defaultFeedTTL :: int where "defaultFeedTTL = 24 * 3600"
definition maxFeedBodyBytes :: int where "maxFeedBodyBytes = 16 * 2 ^ 20"
definition defaultAbuseIPDBConfidenceMinimum :: int where "defaultAbuseIPDBConfidenceMinimum = 100"
definition defaultAbuseIPDBLimit :: int where "defaultAbuseIPDBLimit = 9999999"
definition defaultAbuseIPDBIPVersion :: int where "defaultAbuseIPDBIPVersion = 4"

record FeedSource =
  fd_ID :: string
  fd_Name :: string
  fd_Type :: string
  fd_URL :: string
  fd_CredentialRef :: string
  fd_RequiredForProduction :: bool
  fd_Enabled :: bool
  fd_IntervalSeconds :: u32
  fd_LicenseNote :: string
  fd_QuotaMetadata :: string
  fd_Status :: string
  fd_LastSuccessAt :: "int option"
  fd_LastErrorAt :: "int option"
  fd_LastError :: string
  fd_NextRunAt :: "int option"
  fd_ActiveEntries :: u32
  fd_ConflictCount :: u32
  fd_ParseErrorCount :: u32

record normalizedFeedEntry =
  ne_CIDR :: prefix4
  ne_Score :: u32
  ne_Action :: string
  ne_TTLSeconds :: u32
  ne_Reason :: string
  ne_Metadata :: string

record parsedFeed =
  pf_Fetched :: u32
  pf_ParseErrors :: u32
  pf_Entries :: "normalizedFeedEntry list"

record internalFeedItem =
  ii_IP :: string
  ii_CIDR :: string
  ii_Score :: u32
  ii_Action :: string
  ii_TTLSeconds :: u32
  ii_Reason :: string
  ii_Source :: string
  ii_Metadata :: string

datatype quota_value = QNumber int | QString string | QOther

text \<open>
  The decoders: the object form and the array form of an internal feed, and the metadata object
  (empty when the text is no JSON object).
\<close>

record feed_json =
  fj_payload :: "string \<Rightarrow> internalFeedItem list option"
  fj_array :: "string \<Rightarrow> internalFeedItem list option"
  fj_object :: "string \<Rightarrow> string \<Rightarrow> quota_value option"

definition rawJSONMap :: "feed_json \<Rightarrow> string \<Rightarrow> string \<Rightarrow> quota_value option" where
  "rawJSONMap js raw = fj_object js raw"

subsection \<open>Types and defaults of a source\<close>

definition normalizeFeedType :: "string \<Rightarrow> string" where
  "normalizeFeedType value0 = (let v = ToLower (TrimSpace value0) in
     if v \<in> set [''spamhaus_drop'', ''spamhaus''] then ''spamhaus_drop''
     else if v \<in> set [''team_cymru'', ''cymru'', ''bogon'', ''fullbogon''] then ''team_cymru''
     else if v \<in> set [''abuseipdb'', ''abuseipdb_v2''] then ''abuseipdb''
     else if v \<in> set [''internal'', ''internal_http_json'', ''json''] then ''internal_json''
     else v)"

definition intFromQuota :: "(string \<Rightarrow> quota_value option) \<Rightarrow> string \<Rightarrow> int \<Rightarrow> int" where
  "intFromQuota quota key fallback = (case quota key of
     None \<Rightarrow> fallback
   | Some (QNumber i) \<Rightarrow> i
   | Some (QString s) \<Rightarrow> (case Atoi (TrimSpace s) of Some i \<Rightarrow> i | None \<Rightarrow> fallback)
   | Some QOther \<Rightarrow> fallback)"

definition defaultTTLSeconds :: "feed_json \<Rightarrow> FeedSource \<Rightarrow> int \<Rightarrow> u32" where
  "defaultTTLSeconds js source fallback =
     (let ttl = intFromQuota (rawJSONMap js (fd_QuotaMetadata source)) ''ttl_seconds'' 0
      in if 0 < ttl then word_of_int ttl else word_of_int fallback)"

text \<open>The function reads the interval and the type of a source only.\<close>

definition effectiveFeedIntervalSeconds :: "u32 \<Rightarrow> string \<Rightarrow> u32" where
  "effectiveFeedIntervalSeconds intervalSeconds sourceType =
     (let interval = (if intervalSeconds = 0 then 3600 else intervalSeconds)
      in if normalizeFeedType sourceType = ''team_cymru'' \<and> interval < 4 * 3600 then 4 * 3600
         else interval)"

subsection \<open>Credentials\<close>

definition feedCredentialInputValue :: "string option \<Rightarrow> string" where
  "feedCredentialInputValue v = (case v of None \<Rightarrow> [] | Some s \<Rightarrow> TrimSpace s)"

definition feedCredentialChangeRequiresAdmin :: "string option \<Rightarrow> bool \<Rightarrow> bool" where
  "feedCredentialChangeRequiresAdmin v update =
     (if v = None then False
      else let trimmed = feedCredentialInputValue v in
        if trimmed = feedCredentialMask then False else if update then True else trimmed \<noteq> [])"

definition feedCredentialForCreate :: "string option \<Rightarrow> string" where
  "feedCredentialForCreate v = (let trimmed = feedCredentialInputValue v in
     if trimmed = feedCredentialMask then [] else trimmed)"

definition feedCredentialForUpdate :: "string \<Rightarrow> string option \<Rightarrow> string" where
  "feedCredentialForUpdate current v =
     (if v = None then current
      else let trimmed = feedCredentialInputValue v in
        if trimmed = feedCredentialMask then current else trimmed)"

definition maskFeedSourceCredential :: "FeedSource \<Rightarrow> FeedSource" where
  "maskFeedSourceCredential source =
     (if TrimSpace (fd_CredentialRef source) \<noteq> [] then source\<lparr>fd_CredentialRef := feedCredentialMask\<rparr>
      else source)"

definition maskFeedSourceCredentials :: "FeedSource list \<Rightarrow> FeedSource list" where
  "maskFeedSourceCredentials sources = map maskFeedSourceCredential sources"

definition maskFeedSourceCredentialForActor :: "FeedSource \<Rightarrow> Actor option \<Rightarrow> FeedSource" where
  "maskFeedSourceCredentialForActor source actor = (case actor of
     Some a \<Rightarrow> if user_Role a = RoleAdmin then maskFeedSourceCredential source
               else source\<lparr>fd_CredentialRef := []\<rparr>
   | None \<Rightarrow> source\<lparr>fd_CredentialRef := []\<rparr>)"

definition maskFeedSourceCredentialsForActor :: "FeedSource list \<Rightarrow> Actor option \<Rightarrow> FeedSource list" where
  "maskFeedSourceCredentialsForActor sources actor =
     map (\<lambda>source. maskFeedSourceCredentialForActor source actor) sources"

text \<open>
  \<^verbatim>\<open>envName\<close> ranges over the code points of the upper-cased text and writes one underscore for
  each that is no capital letter or digit. Outside ASCII, only U+0131 and U+017F have an ASCII
  upper case.
\<close>

definition upper_char :: "char \<Rightarrow> char" where
  "upper_char c =
     (if 97 \<le> (of_char c :: nat) \<and> (of_char c :: nat) \<le> 122 then char_of (of_char c - 32 :: nat) else c)"

definition env_char :: "char \<Rightarrow> bool" where
  "env_char c \<longleftrightarrow> is_digit c \<or> 65 \<le> (of_char c :: nat) \<and> (of_char c :: nat) \<le> 90"

definition env_rune :: "string \<Rightarrow> char" where
  "env_rune r =
     (if r = [CHR 0xC4, CHR 0xB1] then CHR ''I''
      else if r = [CHR 0xC5, CHR 0xBF] then CHR ''S''
      else if length r = 1 \<and> env_char (upper_char (hd r)) then upper_char (hd r)
      else CHR ''_'')"

function env_runes :: "string \<Rightarrow> string" where
  "env_runes s = (if s = [] then []
     else env_rune (take (rune_len s) s) # env_runes (drop (rune_len s) s))"
  by pat_completeness auto
termination by (relation "measure length") (auto simp: rune_len_pos)

declare env_runes.simps [simp del]

definition trim_underscores :: "string \<Rightarrow> string" where
  "trim_underscores s =
     rev (dropWhile (\<lambda>c. c = CHR ''_'') (rev (dropWhile (\<lambda>c. c = CHR ''_'') s)))"

definition envName :: "string \<Rightarrow> string" where
  "envName v = trim_underscores (env_runes v)"

text \<open>\<^verbatim>\<open>strings.Contains\<close>.\<close>

definition has_infix :: "string \<Rightarrow> string \<Rightarrow> bool" where
  "has_infix sub s \<longleftrightarrow> list_ex (\<lambda>t. prefix sub t) (suffixes s)"

definition resolveCredentialRef :: "(string \<Rightarrow> string) \<Rightarrow> string \<Rightarrow> string \<times> string" where
  "resolveCredentialRef Getenv ref0 =
     (let ref = TrimSpace ref0;
          lookup = (\<lambda>envKey. let v = TrimSpace (Getenv envKey) in
            if v = [] then ([], ''missing'') else (v, ''present''))
      in if ref = [] then ([], ''none'')
         else if ref = feedCredentialMask then ([], ''masked'')
         else if prefix ''env://'' ref then lookup (drop (length ''env://'') ref)
         else if prefix ''secret://anti-ddos/'' ref then
           lookup (''ANTI_DDOS_SECRET_'' @ envName (drop (length ''secret://anti-ddos/'') ref))
         else if has_infix ''://'' ref then ([], ''invalid'')
         else (ref, ''present''))"

subsection \<open>Fetching\<close>

record ('u, 'q) url_ops =
  uo_Parse :: "string \<Rightarrow> 'u option"
  uo_Query :: "'u \<Rightarrow> 'q"
  uo_Get :: "'q \<Rightarrow> string \<Rightarrow> string"
  uo_Set :: "'q \<Rightarrow> string \<Rightarrow> string \<Rightarrow> 'q"
  uo_SetRawQuery :: "'u \<Rightarrow> 'q \<Rightarrow> 'u"
  uo_String :: "'u \<Rightarrow> string"

definition set_if_empty :: "('u, 'q) url_ops \<Rightarrow> string \<Rightarrow> string \<Rightarrow> 'q \<Rightarrow> 'q" where
  "set_if_empty uo key v q = (if uo_Get uo q key = [] then uo_Set uo q key v else q)"

definition feedRequestURL ::
    "('u, 'q) url_ops \<Rightarrow> feed_json \<Rightarrow> FeedSource \<Rightarrow> string \<Rightarrow> string option" where
  "feedRequestURL uo js source endpoint = (case uo_Parse uo endpoint of
     None \<Rightarrow> None
   | Some u \<Rightarrow>
       Some (uo_String uo
         (if normalizeFeedType (fd_Type source) = ''abuseipdb'' then
            (let quota = rawJSONMap js (fd_QuotaMetadata source);
                 q = set_if_empty uo ''plaintext'' ''true'' (uo_Query uo u);
                 q = set_if_empty uo ''confidenceMinimum''
                       (Sprint_int (intFromQuota quota ''confidenceMinimum'' defaultAbuseIPDBConfidenceMinimum)) q;
                 q = set_if_empty uo ''limit''
                       (Sprint_int (intFromQuota quota ''limit'' defaultAbuseIPDBLimit)) q;
                 q = set_if_empty uo ''ipversion''
                       (Sprint_int (intFromQuota quota ''ipversion'' defaultAbuseIPDBIPVersion)) q
             in uo_SetRawQuery uo u q)
          else u)))"

text \<open>
  One attempt of the HTTP client: the request fails, or a status comes back with a body, which
  itself may fail while it is read (then \<open>None\<close>).
\<close>

record feed_request =
  fr_URL :: string
  fr_Headers :: "(string \<times> string) list"

datatype http_result = HttpFailed string | HttpResponse int "string option"

type_synonym http_client = "feed_request \<Rightarrow> nat \<Rightarrow> http_result"

datatype feed_error =
  FeedURLRequired | CredentialMissing | CredentialInvalid | CredentialMasked | AbuseIPDBKeyRequired
| FeedURLInvalid | FeedRequestInvalid | FeedHTTP string | FeedReadFailed | FeedTooLarge | FeedStatus int
| FeedNoError

text \<open>\<^verbatim>\<open>io.LimitReader\<close>\<close>

definition limit_read :: "int \<Rightarrow> string \<Rightarrow> string" where
  "limit_read n s = (if int (length s) \<le> n then s else take (nat n) s)"

lemma limit_read_short: "0 \<le> n \<Longrightarrow> \<not> n < int (length (limit_read (n + 1) s)) \<Longrightarrow> limit_read (n + 1) s = s"
  by (simp add: limit_read_def split: if_splits)

text \<open>
  The loop of at most two attempts; \<open>lastErr\<close> is \<^verbatim>\<open>lastErr\<close> (\<open>FeedNoError\<close> for its nil start value).
  \<^verbatim>\<open>io.LimitReader\<close> hands over at most one byte more than the limit.
\<close>

fun fetch_attempts ::
    "http_client \<Rightarrow> feed_request \<Rightarrow> nat \<Rightarrow> nat \<Rightarrow> feed_error \<Rightarrow> feed_error + string" where
  "fetch_attempts client req attempt 0 lastErr = Inl lastErr"
| "fetch_attempts client req attempt (Suc left) lastErr = (case client req attempt of
     HttpFailed e \<Rightarrow> fetch_attempts client req (Suc attempt) left (FeedHTTP e)
   | HttpResponse status None \<Rightarrow> fetch_attempts client req (Suc attempt) left FeedReadFailed
   | HttpResponse status (Some content) \<Rightarrow>
       (let body = limit_read (maxFeedBodyBytes + 1) content in
        if maxFeedBodyBytes < int (length body) then Inl FeedTooLarge
        else if status < 200 \<or> 300 \<le> status then
          fetch_attempts client req (Suc attempt) left (FeedStatus status)
        else Inr body))"

definition feed_headers :: "string \<Rightarrow> string \<Rightarrow> (string \<times> string) list" where
  "feed_headers sourceType credential =
     (''User-Agent'', ''anti-ddos-feed-sync/phase08'')
     # (if sourceType = ''abuseipdb'' then [(''Key'', credential), (''Accept'', ''text/plain'')]
        else if credential \<noteq> [] then [(''Authorization'', ''Bearer '' @ credential)] else [])"

record ('u, 'q) feed_net =
  fn_url :: "('u, 'q) url_ops"
  fn_request_ok :: "string \<Rightarrow> bool"
  fn_Getenv :: "string \<Rightarrow> string"
  fn_client :: http_client
  fn_json :: feed_json

definition fetchFeed :: "('u, 'q) feed_net \<Rightarrow> FeedSource \<Rightarrow> feed_error + string" where
  "fetchFeed net source =
     (let sourceType = normalizeFeedType (fd_Type source);
          url = TrimSpace (fd_URL source);
          endpoint = (if url = [] \<and> sourceType = ''abuseipdb''
                      then ''https://api.abuseipdb.com/api/v2/blacklist'' else url);
          (credential, credentialStatus) = resolveCredentialRef (fn_Getenv net) (fd_CredentialRef source)
      in if endpoint = [] then Inl FeedURLRequired
         else if credentialStatus = ''missing'' then Inl CredentialMissing
         else if credentialStatus = ''invalid'' then Inl CredentialInvalid
         else if credentialStatus = ''masked'' then Inl CredentialMasked
         else if sourceType = ''abuseipdb'' \<and> credential = [] then Inl AbuseIPDBKeyRequired
         else (case feedRequestURL (fn_url net) (fn_json net) source endpoint of
           None \<Rightarrow> Inl FeedURLInvalid
         | Some requestURL \<Rightarrow>
             if \<not> fn_request_ok net requestURL then Inl FeedRequestInvalid
             else fetch_attempts (fn_client net)
               \<lparr>fr_URL = requestURL, fr_Headers = feed_headers sourceType credential\<rparr> 0 2 FeedNoError))"

subsection \<open>Parsing\<close>

definition empty_feed :: parsedFeed where
  "empty_feed = \<lparr>pf_Fetched = 0, pf_ParseErrors = 0, pf_Entries = []\<rparr>"

text \<open>
  The body of the loop over the lines: \<open>None\<close> for a line without an entry, otherwise the text of
  the address (\<open>None\<close> when the line has no field) and the reason.
\<close>

definition feed_line :: "string \<Rightarrow> (string option \<times> string) option" where
  "feed_line rawLine = (let line = TrimSpace rawLine in
     if line = [] \<or> prefix ''#'' line \<or> prefix '';'' line then None
     else let (rest, reason) = (case cut_any {CHR '';'', CHR ''#''} line of
            None \<Rightarrow> (line, []) | Some (before, after) \<Rightarrow> (TrimSpace before, TrimSpace after))
       in Some (case Fields rest of [] \<Rightarrow> None | f # _ \<Rightarrow> Some f, reason))"

definition plain_step :: "u32 \<Rightarrow> u32 \<Rightarrow> parsedFeed \<Rightarrow> string \<Rightarrow> parsedFeed" where
  "plain_step defaultScore defaultTTL out rawLine = (case feed_line rawLine of
     None \<Rightarrow> out
   | Some (field, reason) \<Rightarrow>
       (let out = out\<lparr>pf_Fetched := pf_Fetched out + 1\<rparr> in
        case field of
          None \<Rightarrow> out
        | Some f \<Rightarrow> (case parseCIDR f of
            Inl _ \<Rightarrow> out\<lparr>pf_ParseErrors := pf_ParseErrors out + 1\<rparr>
          | Inr p \<Rightarrow> out\<lparr>pf_Entries := pf_Entries out @
              [\<lparr>ne_CIDR = p, ne_Score = defaultScore, ne_Action = ''drop'', ne_TTLSeconds = defaultTTL,
                ne_Reason = reason, ne_Metadata = ''{}''\<rparr>]\<rparr>)))"

definition parsePlainTextFeed :: "feed_json \<Rightarrow> FeedSource \<Rightarrow> string \<Rightarrow> parsedFeed" where
  "parsePlainTextFeed js source body =
     (let sourceType = normalizeFeedType (fd_Type source);
          defaultScore = (if sourceType = ''abuseipdb'' then
              word_of_int (intFromQuota (rawJSONMap js (fd_QuotaMetadata source)) ''confidenceMinimum''
                defaultAbuseIPDBConfidenceMinimum)
            else 100);
          defaultTTL = defaultTTLSeconds js source defaultFeedTTL
      in foldl (plain_step defaultScore defaultTTL) empty_feed (Split (CHR 0x0A) body))"

definition item_metadata :: "internalFeedItem \<Rightarrow> string" where
  "item_metadata item =
     (let metadata = (if ii_Metadata item = [] then ii_Source item else ii_Metadata item)
      in if metadata = [] \<or> \<not> json_Valid metadata then ''{}'' else metadata)"

definition json_step :: "u32 \<Rightarrow> parsedFeed \<Rightarrow> internalFeedItem \<Rightarrow> parsedFeed" where
  "json_step defaultTTL out0 item =
     (let out = out0\<lparr>pf_Fetched := pf_Fetched out0 + 1\<rparr>;
          v = (if TrimSpace (ii_CIDR item) = [] then ii_IP item else ii_CIDR item);
          action = normalizeBlacklistAction (ii_Action item)
      in case parseCIDR v of
           Inl _ \<Rightarrow> out\<lparr>pf_ParseErrors := pf_ParseErrors out + 1\<rparr>
         | Inr p \<Rightarrow>
             if action \<noteq> ''drop'' then out\<lparr>pf_ParseErrors := pf_ParseErrors out + 1\<rparr>
             else out\<lparr>pf_Entries := pf_Entries out @
               [\<lparr>ne_CIDR = p, ne_Score = (if ii_Score item = 0 then 80 else ii_Score item),
                 ne_Action = action,
                 ne_TTLSeconds = (if ii_TTLSeconds item = 0 then defaultTTL else ii_TTLSeconds item),
                 ne_Reason = TrimSpace (ii_Reason item), ne_Metadata = item_metadata item\<rparr>]\<rparr>)"

definition parseInternalJSONFeed :: "feed_json \<Rightarrow> FeedSource \<Rightarrow> string \<Rightarrow> parsedFeed" where
  "parseInternalJSONFeed js source body =
     (let items = (case fj_payload js body of Some es \<Rightarrow> Some es | None \<Rightarrow> fj_array js body)
      in case items of
           None \<Rightarrow> \<lparr>pf_Fetched = 1, pf_ParseErrors = 1, pf_Entries = []\<rparr>
         | Some es \<Rightarrow> foldl (json_step (defaultTTLSeconds js source defaultFeedTTL)) empty_feed es)"

definition parseFeedPayload :: "feed_json \<Rightarrow> FeedSource \<Rightarrow> string \<Rightarrow> parsedFeed" where
  "parseFeedPayload js source body =
     (let sourceType = normalizeFeedType (fd_Type source) in
      if sourceType = ''internal_json'' \<or> sourceType = ''internal'' then parseInternalJSONFeed js source body
      else parsePlainTextFeed js source body)"

subsection \<open>Credentials stay hidden\<close>

lemma TrimSpace_mask [simp]: "TrimSpace feedCredentialMask = feedCredentialMask"
  by code_simp

lemma resolve_trimmed: "resolveCredentialRef Getenv (TrimSpace ref) = resolveCredentialRef Getenv ref"
  by (simp add: resolveCredentialRef_def)

text \<open>
  What a reader of a feed source sees of its credential is the mask or blank text, whoever
  the reader is, and sending the shown value back with an update leaves the credential that
  fetches resolve as it was.
\<close>

lemma credential_mask_round_trip:
  "(let shown = fd_CredentialRef (maskFeedSourceCredentialForActor source actor)
    in shown = feedCredentialMask \<or> TrimSpace shown = []) \<and>
   resolveCredentialRef Getenv
     (feedCredentialForUpdate (fd_CredentialRef source)
        (Some (fd_CredentialRef (maskFeedSourceCredential source)))) =
   resolveCredentialRef Getenv (fd_CredentialRef source)"
proof
  show "let shown = fd_CredentialRef (maskFeedSourceCredentialForActor source actor)
    in shown = feedCredentialMask \<or> TrimSpace shown = []"
    by (auto simp: Let_def maskFeedSourceCredentialForActor_def maskFeedSourceCredential_def split: option.split)
  show "resolveCredentialRef Getenv
     (feedCredentialForUpdate (fd_CredentialRef source)
        (Some (fd_CredentialRef (maskFeedSourceCredential source)))) =
    resolveCredentialRef Getenv (fd_CredentialRef source)"
  proof (cases "TrimSpace (fd_CredentialRef source) = []")
    case True
    then have "feedCredentialForUpdate (fd_CredentialRef source)
        (Some (fd_CredentialRef (maskFeedSourceCredential source))) = TrimSpace (fd_CredentialRef source)"
      by (simp add: maskFeedSourceCredential_def feedCredentialForUpdate_def feedCredentialInputValue_def
          feedCredentialMask_def)
    then show ?thesis by (simp add: resolve_trimmed)
  next
    case False
    then show ?thesis
      by (simp add: maskFeedSourceCredential_def feedCredentialForUpdate_def feedCredentialInputValue_def)
  qed
qed

subsection \<open>A fetch is bounded\<close>

lemma maxFeedBodyBytes_pos: "0 \<le> maxFeedBodyBytes"
  by (simp add: maxFeedBodyBytes_def)

lemma fetch_attempts_Inr:
  assumes "fetch_attempts client req k n lastErr = Inr body"
  shows "\<exists>i status. k \<le> i \<and> i < k + n \<and> client req i = HttpResponse status (Some body) \<and>
    200 \<le> status \<and> status < 300 \<and> int (length body) \<le> maxFeedBodyBytes"
  using assms
proof (induction client req k n lastErr rule: fetch_attempts.induct)
  case (2 client req k n lastErr)
  show ?case
  proof (cases "\<exists>status. client req k = HttpResponse status (Some body) \<and> 200 \<le> status \<and> status < 300 \<and>
      int (length body) \<le> maxFeedBodyBytes")
    case True
    then show ?thesis by (metis add_Suc_right le_add1 le_imp_less_Suc order_refl)
  next
    case False
    then have "\<exists>e. fetch_attempts client req (Suc k) n e = Inr body"
      using 2(4) limit_read_short [OF maxFeedBodyBytes_pos]
      by (auto simp: Let_def split: http_result.splits option.splits if_splits) metis+
    then show ?thesis
      using 2(1-3) 2(4) False limit_read_short [OF maxFeedBodyBytes_pos]
      by (auto simp: Let_def split: http_result.splits option.splits if_splits) (metis Suc_leD)+
  qed
qed simp

text \<open>
  A fetched feed body has at most 16 MiB and is the whole body of a response with a success
  status to one of at most two attempts; a feed of AbuseIPDB is only asked for with a key, sent in
  the header \<^verbatim>\<open>Key\<close>.
\<close>

lemma fetch_bounded:
  assumes "fetchFeed net source = Inr body"
  shows "int (length body) \<le> maxFeedBodyBytes \<and>
    (\<exists>req i status. i < 2 \<and> fn_client net req i = HttpResponse status (Some body) \<and>
       200 \<le> status \<and> status < 300 \<and>
       (normalizeFeedType (fd_Type source) = ''abuseipdb'' \<longrightarrow>
          (\<exists>key. key \<noteq> [] \<and> map_of (fr_Headers req) ''Key'' = Some key)))"
proof -
  obtain credential st where cred:
    "resolveCredentialRef (fn_Getenv net) (fd_CredentialRef source) = (credential, st)" by force
  from assms obtain url where
    key: "normalizeFeedType (fd_Type source) = ''abuseipdb'' \<longrightarrow> credential \<noteq> []" and
    run: "fetch_attempts (fn_client net) \<lparr>fr_URL = url,
        fr_Headers = feed_headers (normalizeFeedType (fd_Type source)) credential\<rparr> 0 2 FeedNoError = Inr body"
    by (auto simp: fetchFeed_def Let_def cred split: if_splits option.splits)
  let ?req = "\<lparr>fr_URL = url, fr_Headers = feed_headers (normalizeFeedType (fd_Type source)) credential\<rparr>"
  obtain i status where "i < 2" "fn_client net ?req i = HttpResponse status (Some body)"
    "200 \<le> status" "status < 300" "int (length body) \<le> maxFeedBodyBytes"
    using fetch_attempts_Inr [OF run] unfolding add_0 by blast
  moreover have "normalizeFeedType (fd_Type source) = ''abuseipdb'' \<longrightarrow>
      map_of (fr_Headers ?req) ''Key'' = Some credential"
    by (simp add: feed_headers_def)
  ultimately show ?thesis using key by blast
qed

definition sample_feed_net :: "(unit, unit) feed_net" where
  "sample_feed_net = \<lparr>fn_url = \<lparr>uo_Parse = (\<lambda>_. Some ()), uo_Query = (\<lambda>_. ()), uo_Get = (\<lambda>_ _. ''x''),
       uo_Set = (\<lambda>_ _ _. ()), uo_SetRawQuery = (\<lambda>_ _. ()), uo_String = (\<lambda>_. ''https://feed'')\<rparr>,
     fn_request_ok = (\<lambda>_. True), fn_Getenv = (\<lambda>_. ''k''),
     fn_client = (\<lambda>_ i. if i = 0 then HttpFailed ''timeout'' else HttpResponse 200 (Some ''10.0.0.1'')),
     fn_json = \<lparr>fj_payload = (\<lambda>_. None), fj_array = (\<lambda>_. None), fj_object = (\<lambda>_ _. None)\<rparr>\<rparr>"

end
