(* ===== verification/Redaction.thy ===== *)
theory Redaction
  imports GoText
begin

section \<open>Redaction of secrets\<close>

text \<open>
  \<^verbatim>\<open>internal/agent/redaction.go\<close>: what is removed from the text of errors and of the environment before
  it is logged or stored. The four patterns are regular expressions of \<^verbatim>\<open>regexp\<close>; \<open>rx\<close> is the part of its
  language they use, with its leftmost-first choice among the matches. A repetition is of a
  class of characters only. Classes are over bytes: in the patterns a negated class accepts every byte
  above 127, and an expression that ignores case also accepts the long s and the Kelvin sign.
\<close>

subsection \<open>Regular expressions\<close>

datatype rx =
  Cls "char \<Rightarrow> bool"
| Many nat "char \<Rightarrow> bool"
| Seq rx rx
| Alt rx rx
| WordBoundary
| Empty

definition is_alpha :: "char \<Rightarrow> bool" where
  "is_alpha c \<longleftrightarrow> (65 \<le> (of_char c :: nat) \<and> (of_char c :: nat) \<le> 90) \<or> (97 \<le> (of_char c :: nat) \<and> (of_char c :: nat) \<le> 122)"

definition is_word :: "char option \<Rightarrow> bool" where
  "is_word p = (case p of None \<Rightarrow> False | Some c \<Rightarrow> is_alpha c \<or> is_digit c \<or> c = CHR ''_'')"

definition rx_space :: "char \<Rightarrow> bool" where
  "rx_space c \<longleftrightarrow> c \<in> set [CHR 0x20, CHR 0x09, CHR 0x0A, CHR 0x0C, CHR 0x0D]"

text \<open>A position: the byte before it and the rest of the text.\<close>

type_synonym position = "char option \<times> string"

definition advance :: "position \<Rightarrow> nat \<Rightarrow> position" where
  "advance st i = (if i = 0 then st else (Some (snd st ! (i - 1)), drop i (snd st)))"

text \<open>The ends of all matches from a position, the preferred one first.\<close>

primrec rx_runs :: "rx \<Rightarrow> position \<Rightarrow> position list" where
  "rx_runs (Cls c) st = (case snd st of [] \<Rightarrow> [] | x # xs \<Rightarrow> if c x then [(Some x, xs)] else [])"
| "rx_runs (Many n c) st = map (advance st) (rev [n ..< Suc (length (takeWhile c (snd st)))])"
| "rx_runs (Seq a b) st = concat (map (rx_runs b) (rx_runs a st))"
| "rx_runs (Alt a b) st = rx_runs a st @ rx_runs b st"
| "rx_runs WordBoundary st =
     (if is_word (fst st) \<noteq> is_word (case snd st of [] \<Rightarrow> None | x # _ \<Rightarrow> Some x) then [st] else [])"
| "rx_runs Empty st = [st]"

text \<open>A text, and a text in lower case whatever the case.\<close>

fun rx_text :: "string \<Rightarrow> rx" where
  "rx_text [] = Empty"
| "rx_text (c # cs) = Seq (Cls (\<lambda>x. x = c)) (rx_text cs)"

definition rx_fold :: "char \<Rightarrow> rx" where
  "rx_fold c = (let plain = Cls (\<lambda>x. lower_char x = c) in
     if c = CHR ''s'' then Alt plain (rx_text [CHR 0xC5, CHR 0xBF])
     else if c = CHR ''k'' then Alt plain (rx_text [CHR 0xE2, CHR 0x84, CHR 0xAA])
     else plain)"

fun rx_word :: "string \<Rightarrow> rx" where
  "rx_word [] = Empty"
| "rx_word (c # cs) = Seq (rx_fold c) (rx_word cs)"

fun rx_any :: "rx list \<Rightarrow> rx" where
  "rx_any [] = Empty"
| "rx_any [r] = r"
| "rx_any (r # rs) = Alt r (rx_any rs)"

subsection \<open>Replacement\<close>

text \<open>A pattern: a part that is kept, the part that is replaced, another part that is kept.\<close>

record rx_rule =
  rule_left :: rx
  rule_secret :: rx
  rule_right :: rx

definition redactedValue :: string where
  "redactedValue = ''[REDACTED]''"

definition rule_runs :: "rx_rule \<Rightarrow> position \<Rightarrow> (position \<times> position \<times> position) list" where
  "rule_runs rule st =
     concat (map (\<lambda>a. concat (map (\<lambda>b. map (\<lambda>c. (a, b, c)) (rx_runs (rule_right rule) b))
       (rx_runs (rule_secret rule) a))) (rx_runs (rule_left rule) st))"

definition text_between :: "string \<Rightarrow> string \<Rightarrow> string" where
  "text_between s rest = take (length s - length rest) s"

text \<open>
  \<^verbatim>\<open>ReplaceAllString\<close>. None of the patterns matches the empty text; the length test makes the
  recursion end for every pattern.
\<close>

function replace_rule :: "rx_rule \<Rightarrow> char option \<Rightarrow> string \<Rightarrow> string" where
  "replace_rule rule p s = (case rule_runs rule (p, s) of
     (a, b, c) # _ \<Rightarrow>
       if length (snd c) < length s then
         text_between s (snd a) @ redactedValue @ text_between (snd b) (snd c) @ replace_rule rule (fst c) (snd c)
       else []
   | [] \<Rightarrow> (case s of [] \<Rightarrow> [] | x # xs \<Rightarrow> x # replace_rule rule (Some x) xs))"
  by pat_completeness auto
termination by (relation "measure (\<lambda>(_, _, s). length s)") auto

declare replace_rule.simps [simp del] rx_word.simps [simp del]

definition telegramTokenRE :: rx_rule where
  "telegramTokenRE = \<lparr>rule_left = Empty,
     rule_secret = Seq WordBoundary (Seq (Many 6 is_digit) (Seq (rx_text '':'')
       (Seq (Many 20 (\<lambda>c. is_alpha c \<or> is_digit c \<or> c = CHR ''_'' \<or> c = CHR ''-'')) WordBoundary))),
     rule_right = Empty\<rparr>"

definition dsnRE :: rx_rule where
  "dsnRE = \<lparr>rule_left = Seq (Cls is_alpha)
       (Seq (Many 0 (\<lambda>c. is_alpha c \<or> is_digit c \<or> c \<in> set ''+.-''))
       (Seq (rx_text ''://'') (Seq (Many 1 (\<lambda>c. c \<notin> set '':/@'' \<and> \<not> rx_space c)) (rx_text '':'')))),
     rule_secret = Many 1 (\<lambda>c. c \<noteq> CHR ''@'' \<and> \<not> rx_space c),
     rule_right = rx_text ''@''\<rparr>"

definition querySecretRE :: rx_rule where
  "querySecretRE = \<lparr>rule_left = Seq (Cls (\<lambda>c. c = CHR ''?'' \<or> c = CHR ''&''))
       (Seq (rx_any (map rx_word [''token'', ''key'', ''api_key'', ''apikey'', ''password'', ''secret'']))
         (rx_text ''='')),
     rule_secret = Many 1 (\<lambda>c. c \<noteq> CHR ''&'' \<and> \<not> rx_space c),
     rule_right = Empty\<rparr>"

definition authHeaderRE :: rx_rule where
  "authHeaderRE = \<lparr>rule_left = Seq (rx_word ''authorization'') (Seq (rx_text '':'') (Many 0 rx_space)),
     rule_secret = Many 1 (\<lambda>c. c \<noteq> CHR 0x0D \<and> c \<noteq> CHR 0x0A),
     rule_right = Empty\<rparr>"

definition RedactString :: "string \<Rightarrow> string" where
  "RedactString text =
     (let text = replace_rule telegramTokenRE None text;
          text = replace_rule dsnRE None text;
          text = replace_rule querySecretRE None text
      in replace_rule authHeaderRE None text)"

definition sensitiveKeyParts :: "string list" where
  "sensitiveKeyParts = [''token'', ''secret'', ''password'', ''passwd'', ''dsn'', ''api_key'', ''apikey'',
     ''authorization'', ''cookie'', ''session'']"

definition IsSensitiveKey :: "string \<Rightarrow> bool" where
  "IsSensitiveKey key \<longleftrightarrow> list_ex (\<lambda>part. sublist part (ToLower key)) sensitiveKeyParts"

definition RedactKeyValue :: "string \<Rightarrow> string \<Rightarrow> string" where
  "RedactKeyValue key text = (if IsSensitiveKey key then redactedValue else RedactString text)"

text \<open>The environment is a map; its keys are distinct and come out in byte order.\<close>

definition RedactedEnvSnapshot :: "(string \<times> string) list \<Rightarrow> string list" where
  "RedactedEnvSnapshot env =
     map (\<lambda>(key, text). key @ ''='' @ RedactKeyValue key text) (sort_slice (\<lambda>a b. fst a < fst b) env)"

end
