(* ===== verification/AlertStore.thy ===== *)
theory AlertStore
  imports PolicyStore FeedParse Redaction
begin

section \<open>Alerts\<close>

text \<open>
  \<^verbatim>\<open>internal/control/alert.go\<close>: the Telegram configuration of a user, alerts, and their delivery with
  rate limit, retries and a record of every attempt. Each step of a delivery is a transaction of its own, so
  an operation maps the database to a database even when it ends in an error; the messages handed to
  the network are part of the result. Metrics and the log are left out, as are the times at which a
  configuration or an alert was changed or resolved, which are only shown.

  Parameters (\<open>telegram_net\<close>): the HTTP client, indexed by the attempt; whether a URL makes a
  request; the decoding of the answer's \<^verbatim>\<open>ok\<close>; the JSON string of a body that is no JSON; whether the context
  ends while the loop waits after an attempt; the process environment.
\<close>

subsection \<open>Types\<close>

definition alertStatusPending :: string where "alertStatusPending = ''pending''"
definition alertStatusSent :: string where "alertStatusSent = ''sent''"
definition alertStatusFailed :: string where "alertStatusFailed = ''failed''"
definition alertStatusDeduped :: string where "alertStatusDeduped = ''deduped''"
definition alertStatusRetrying :: string where "alertStatusRetrying = ''retrying''"

definition defaultAlertRateLimitSeconds :: u32 where "defaultAlertRateLimitSeconds = 300"
definition defaultAlertMaxAttempts :: u32 where "defaultAlertMaxAttempts = 3"
definition maxTelegramMessageBytes :: int where "maxTelegramMessageBytes = 4000"
definition telegramTokenMask :: string where "telegramTokenMask = ''*****''"
definition defaultTelegramAPI :: string where "defaultTelegramAPI = ''https://api.telegram.org''"

record alertPolicy =
  apo_RateLimitSeconds :: u32
  apo_MaxAttempts :: u32
  apo_Template :: string
  apo_Enabled :: bool

record telegramSendResult =
  tsr_Retryable :: bool
  tsr_Response :: string

record TelegramConfigInput =
  tci_Reason :: string
  tci_BotTokenRef :: string
  tci_ChatID :: string
  tci_ParseMode :: string
  tci_Enabled :: "bool option"

record TelegramConfig =
  tcf_BotTokenRef :: string
  tcf_BotTokenPresent :: bool
  tcf_ChatID :: string
  tcf_ParseMode :: string
  tcf_Enabled :: bool

record AlertInput =
  ain_Severity :: string
  ain_Type :: string
  ain_DedupeKey :: string
  ain_ServiceID :: string
  ain_AffectedService :: string
  ain_Vector :: string
  ain_Evidence :: string
  ain_RecommendedAction :: string

record AlertDelivery =
  dlv_ID :: string
  dlv_AlertID :: string
  dlv_Channel :: string
  dlv_Status :: string
  dlv_Attempt :: u32
  dlv_Error :: string
  dlv_Response :: string
  dlv_CreatedAt :: int
  dlv_SentAt :: "int option"

record Alert =
  alert_ID :: string
  alert_Severity :: string
  alert_Type :: string
  alert_DedupeKey :: string
  alert_ServiceID :: string
  alert_AffectedService :: string
  alert_Vector :: string
  alert_Evidence :: string
  alert_RecommendedAction :: string
  alert_Status :: string
  alert_CreatedBy :: string
  alert_CreatedAt :: int
  alert_Deliveries :: "AlertDelivery list"

subsection \<open>The Telegram client\<close>

record telegram_request =
  tr_URL :: string
  tr_ChatID :: string
  tr_Text :: string
  tr_ParseMode :: "string option"

datatype telegram_result = TelegramFailed string | TelegramUnreadable string | TelegramAnswer int string

record telegram_net =
  tn_baseURL :: string
  tn_request :: "string \<Rightarrow> string option"
  tn_Do :: "nat \<Rightarrow> telegram_request \<Rightarrow> telegram_result"
  tn_DecodeOK :: "string \<Rightarrow> string + bool"
  tn_bodyJSON :: "string \<Rightarrow> string"
  tn_cancelled :: "nat \<Rightarrow> string option"
  tn_Getenv :: "string \<Rightarrow> string"

definition trim_right_slashes :: "string \<Rightarrow> string" where
  "trim_right_slashes s = rev (dropWhile (\<lambda>c. c = CHR ''/'') (rev s))"

definition NewTelegramClient :: "string \<Rightarrow> string" where
  "NewTelegramClient baseURL =
     (let base = trim_right_slashes (TrimSpace baseURL) in if base = [] then defaultTelegramAPI else base)"

definition trimTelegramMessage :: "string \<Rightarrow> string" where
  "trimTelegramMessage text0 = (let text = TrimSpace text0 in
     if int (length text) \<le> maxTelegramMessageBytes then text
     else TrimSpace (take (nat (maxTelegramMessageBytes - 32)) text) @ [CHR 0x0A] @ ''[truncated]'')"

definition safeJSONResponse :: "telegram_net \<Rightarrow> string \<Rightarrow> string" where
  "safeJSONResponse net raw =
     (if TrimSpace raw = [] then ''{}'' else if json_Valid raw then raw else tn_bodyJSON net raw)"

definition telegram_status :: "int \<Rightarrow> string" where
  "telegram_status code = ''telegram status '' @ dec_signed code"

text \<open>The call of the client and what follows it: the result, and the text of the error.\<close>

definition telegram_call :: "telegram_net \<Rightarrow> nat \<Rightarrow> telegram_request \<Rightarrow> telegramSendResult \<times> string option" where
  "telegram_call net attempt req = (let again = \<lparr>tsr_Retryable = True, tsr_Response = []\<rparr> in
     case tn_Do net attempt req of
       TelegramFailed e \<Rightarrow> (again, Some e)
     | TelegramUnreadable e \<Rightarrow> (again, Some e)
     | TelegramAnswer code content \<Rightarrow>
         (let body = limit_read 65536 content;
              result = \<lparr>tsr_Retryable = False, tsr_Response = safeJSONResponse net body\<rparr>
          in if code = 429 \<or> 500 \<le> code then (result\<lparr>tsr_Retryable := True\<rparr>, Some (telegram_status code))
             else if code < 200 \<or> 300 \<le> code then (result, Some (telegram_status code))
             else (case tn_DecodeOK net body of
               Inl e \<Rightarrow> (result\<lparr>tsr_Retryable := True\<rparr>, Some e)
             | Inr ok \<Rightarrow>
                 if ok then (result, None)
                 else (result\<lparr>tsr_Retryable := True\<rparr>, Some ''telegram response ok=false''))))"

definition new_request :: "telegram_net \<Rightarrow> string \<Rightarrow> string \<Rightarrow> string \<Rightarrow> string \<Rightarrow> telegram_request" where
  "new_request net token chatID parseMode text =
     \<lparr>tr_URL = NewTelegramClient (tn_baseURL net) @ ''/bot'' @ token @ ''/sendMessage'', tr_ChatID = chatID,
      tr_Text = trimTelegramMessage text,
      tr_ParseMode = (if TrimSpace parseMode \<noteq> [] then Some (TrimSpace parseMode) else None)\<rparr>"

text \<open>With the requests handed to the client.\<close>

definition SendMessage ::
    "telegram_net \<Rightarrow> nat \<Rightarrow> string \<Rightarrow> string \<Rightarrow> string \<Rightarrow> string \<Rightarrow>
     telegram_request list \<times> telegramSendResult \<times> string option" where
  "SendMessage net attempt token0 chatID0 parseMode text =
     (let token = TrimSpace token0; chatID = TrimSpace chatID0;
          nothing = \<lparr>tsr_Retryable = False, tsr_Response = []\<rparr>;
          req = new_request net token chatID parseMode text
      in if token = [] then ([], nothing, Some ''telegram token is missing'')
         else if chatID = [] then ([], nothing, Some ''telegram chat_id is required'')
         else (case tn_request net (tr_URL req) of
           Some e \<Rightarrow> ([], nothing, Some e)
         | None \<Rightarrow> ([req], telegram_call net attempt req)))"

subsection \<open>Configuration\<close>

definition isLegacyCredentialRef :: "string \<Rightarrow> bool" where
  "isLegacyCredentialRef v \<longleftrightarrow> prefix ''env://'' v \<or> prefix ''secret://anti-ddos/'' v"

definition resolveTelegramBotToken :: "(string \<Rightarrow> string) \<Rightarrow> string \<Rightarrow> string \<times> string" where
  "resolveTelegramBotToken Getenv text = (let v = TrimSpace text in
     if v = [] then ([], ''none'')
     else if v = telegramTokenMask then ([], ''masked'')
     else if isLegacyCredentialRef v then resolveCredentialRef Getenv v
     else (v, ''present''))"

definition normalizeTelegramParseMode :: "string \<Rightarrow> string" where
  "normalizeTelegramParseMode text = (let v = TrimSpace text; l = ToLower v in
     if l = [] then [] else if l = ''html'' then ''HTML'' else if l = ''markdownv2'' then ''MarkdownV2''
     else if l = ''markdown'' then ''Markdown'' else v)"

definition validateTelegramConfigInput :: "TelegramConfigInput \<Rightarrow> control_error + unit" where
  "validateTelegramConfigInput input = (let mode = normalizeTelegramParseMode (tci_ParseMode input) in
     if TrimSpace (tci_ChatID input) = [] then Inl (ErrorText ''chat_id is required'')
     else if mode \<noteq> [] \<and> mode \<noteq> ''HTML'' \<and> mode \<noteq> ''MarkdownV2'' \<and> mode \<noteq> ''Markdown''
     then Inl (ErrorText ''unsupported telegram parse_mode'')
     else Inr ())"

definition maskTelegramConfig :: "TelegramConfig \<Rightarrow> TelegramConfig" where
  "maskTelegramConfig cfg =
     (if TrimSpace (tcf_BotTokenRef cfg) \<noteq> [] then cfg\<lparr>tcf_BotTokenRef := telegramTokenMask\<rparr> else cfg)"

definition scanTelegramConfig :: "telegram_net \<Rightarrow> telegram_config_row \<Rightarrow> TelegramConfig" where
  "scanTelegramConfig net r = \<lparr>tcf_BotTokenRef = tc_bot_token_ref r,
     tcf_BotTokenPresent = (snd (resolveTelegramBotToken (tn_Getenv net) (tc_bot_token_ref r)) = ''present''),
     tcf_ChatID = tc_chat_id r, tcf_ParseMode = tc_parse_mode r, tcf_Enabled = tc_enabled r\<rparr>"

definition empty_config :: TelegramConfig where
  "empty_config = \<lparr>tcf_BotTokenRef = [], tcf_BotTokenPresent = False, tcf_ChatID = [], tcf_ParseMode = [],
     tcf_Enabled = False\<rparr>"

definition get_config :: "store_env \<Rightarrow> telegram_net \<Rightarrow> transaction \<Rightarrow> control_error + TelegramConfig" where
  "get_config env net tx =
     bind_ok (sql_get env ''telegram_configs'' telegram_configs (\<lambda>r. owned tx (tc_owner_user_id r)) tx) (\<lambda>r.
     Inr (scanTelegramConfig net r))"

definition new_config_row :: "transaction \<Rightarrow> TelegramConfigInput \<Rightarrow> string \<Rightarrow> telegram_config_row" where
  "new_config_row tx input token =
     \<lparr>tc_owner_user_id = tx_owner tx, tc_bot_token_ref = token, tc_chat_id = TrimSpace (tci_ChatID input),
      tc_parse_mode = normalizeTelegramParseMode (tci_ParseMode input), tc_enabled = boolDefault (tci_Enabled input) True\<rparr>"

text \<open>The body of \<^verbatim>\<open>UpsertTelegramConfig\<close> once the transaction began.\<close>

definition update_config ::
    "store_env \<Rightarrow> telegram_net \<Rightarrow> go_context \<Rightarrow> Actor option \<Rightarrow> TelegramConfigInput \<Rightarrow> string \<Rightarrow> control_error + transaction \<Rightarrow>
     control_error + (transaction \<times> TelegramConfig)" where
  "update_config env net ctx actor input reason began =
     (let tokenInput = TrimSpace (tci_BotTokenRef input) in
     bind_ok began (\<lambda>tx.
     bind_ok (case get_config env net tx of Inl NoRows \<Rightarrow> Inr empty_config | r \<Rightarrow> r) (\<lambda>before.
     (let stored = TrimSpace (tcf_BotTokenRef before);
          token = (if tokenInput \<noteq> [] \<and> tokenInput \<noteq> telegramTokenMask then tokenInput else stored);
          row = new_config_row tx input token
      in
     bind_ok (fail_if (token = []) ''bot_token_ref is required'') (\<lambda>_.
     bind_ok (references_user tx (tx_owner tx)) (\<lambda>_.
     bind_ok (sql_upsert env ''telegram_configs'' telegram_configs telegram_configs_update
         (\<lambda>a b. tc_owner_user_id a = tc_owner_user_id b) (\<lambda>_ _. False) (\<lambda>_. row) row tx) (\<lambda>(tx, row).
     bind_ok (insertAudit env ctx tx actor ''configure_telegram'' ''telegram_config'' ''1'' reason) (\<lambda>tx.
     Inr (tx, maskTelegramConfig (scanTelegramConfig net row))))))))))"

definition UpsertTelegramConfig ::
    "store_env \<Rightarrow> telegram_net \<Rightarrow> control_db \<Rightarrow> go_context \<Rightarrow> Actor option \<Rightarrow> TelegramConfigInput \<Rightarrow> string \<Rightarrow>
     control_db \<times> (control_error + TelegramConfig)" where
  "UpsertTelegramConfig env net db ctx actor input reason0 =
     (let reason = mutationReason reason0 (tci_Reason input) in
      or_fail db (
        bind_ok (require_ok (requireConfigMutation actor)) (\<lambda>_.
        bind_ok (validateTelegramConfigInput input) (\<lambda>_. require_reason reason))) (\<lambda>_.
      (case beginActorOwnerTx env db actor of (actor, began) \<Rightarrow>
      commit_or_drop env db (update_config env net ctx actor input reason began))))"

definition getTelegramConfigRaw ::
    "store_env \<Rightarrow> telegram_net \<Rightarrow> control_db \<Rightarrow> go_context \<Rightarrow> control_error + TelegramConfig" where
  "getTelegramConfigRaw env net db ctx =
     bind_ok (beginContextOwnerTx env db ctx) (\<lambda>tx.
     bind_ok (get_config env net tx) (\<lambda>cfg.
     bind_ok (tx_Commit env tx) (\<lambda>_. Inr cfg)))"

definition GetTelegramConfig ::
    "store_env \<Rightarrow> telegram_net \<Rightarrow> control_db \<Rightarrow> go_context \<Rightarrow> control_error + TelegramConfig" where
  "GetTelegramConfig env net db ctx = (case getTelegramConfigRaw env net db ctx of
     Inl NoRows \<Rightarrow> Inr empty_config
   | Inl e \<Rightarrow> Inl e
   | Inr cfg \<Rightarrow> Inr (maskTelegramConfig cfg))"

subsection \<open>Rows\<close>

definition normalizeAlertSeverity :: "string \<Rightarrow> string" where
  "normalizeAlertSeverity text = (let v = ToLower (TrimSpace text) in
     if v = ''info'' \<or> v = ''warning'' \<or> v = ''critical'' then v else [])"

definition validateAlertInput :: "AlertInput \<Rightarrow> control_error + unit" where
  "validateAlertInput input =
     (if normalizeAlertSeverity (ain_Severity input) = [] then Inl (ErrorText ''severity is required'')
      else if TrimSpace (ain_Type input) = [] then Inl (ErrorText ''type is required'')
      else if TrimSpace (ain_DedupeKey input) = [] then Inl (ErrorText ''dedupe_key is required'')
      else Inr ())"

definition scanAlert :: "alert_row \<Rightarrow> Alert" where
  "scanAlert r = \<lparr>alert_ID = al_id r, alert_Severity = al_severity r, alert_Type = al_type r,
     alert_DedupeKey = al_dedupe_key r, alert_ServiceID = coalesce_text (al_service_id r),
     alert_AffectedService = al_affected_service r, alert_Vector = al_vector r, alert_Evidence = al_evidence r,
     alert_RecommendedAction = al_recommended_action r, alert_Status = al_status r,
     alert_CreatedBy = coalesce_text (al_created_by r), alert_CreatedAt = al_created_at r, alert_Deliveries = []\<rparr>"

definition scanAlertDelivery :: "alert_delivery_row \<Rightarrow> control_error + AlertDelivery" where
  "scanAlertDelivery r =
     bind_ok (scan_u32 (ad_attempt r)) (\<lambda>attempt.
     Inr \<lparr>dlv_ID = ad_id r, dlv_AlertID = ad_alert_id r, dlv_Channel = ad_channel r, dlv_Status = ad_status r,
       dlv_Attempt = attempt, dlv_Error = ad_error r, dlv_Response = ad_response r, dlv_CreatedAt = ad_created_at r,
       dlv_SentAt = ad_sent_at r\<rparr>)"

definition ListAlertDeliveries ::
    "store_env \<Rightarrow> control_db \<Rightarrow> go_context \<Rightarrow> string \<Rightarrow> control_error + AlertDelivery list" where
  "ListAlertDeliveries env db ctx alertID =
     bind_ok (beginContextOwnerTx env db ctx) (\<lambda>tx.
     bind_ok (sql_select env ''alert_deliveries'' alert_deliveries
         (\<lambda>r. ad_alert_id r = TrimSpace alertID \<and> owned tx (ad_owner_user_id r)) tx) (\<lambda>rows.
     bind_ok (map_rows scanAlertDelivery (sort_slice (\<lambda>a b. ad_created_at a < ad_created_at b) rows)) (\<lambda>out.
     bind_ok (tx_Commit env tx) (\<lambda>_. Inr out))))"

definition list_limit :: "int \<Rightarrow> nat" where
  "list_limit n = (if n \<le> 0 \<or> 200 < n then 50 else nat n)"

definition ListAlerts :: "store_env \<Rightarrow> control_db \<Rightarrow> go_context \<Rightarrow> int \<Rightarrow> control_error + Alert list" where
  "ListAlerts env db ctx n =
     bind_ok (beginContextOwnerTx env db ctx) (\<lambda>tx.
     bind_ok (sql_select env ''alerts'' alerts (\<lambda>r. owned tx (al_owner_user_id r)) tx) (\<lambda>rows.
     bind_ok (map_rows (\<lambda>r. bind_ok (ListAlertDeliveries env db ctx (al_id r)) (\<lambda>ds.
         Inr ((scanAlert r)\<lparr>alert_Deliveries := ds\<rparr>)))
       (take (list_limit n) (sort_slice (\<lambda>a b. al_created_at b < al_created_at a) rows))) (\<lambda>out.
     bind_ok (tx_Commit env tx) (\<lambda>_. Inr out))))"

definition setAlertStatus ::
    "store_env \<Rightarrow> control_db \<Rightarrow> go_context \<Rightarrow> string \<Rightarrow> string \<Rightarrow> control_db \<times> (control_error + Alert)" where
  "setAlertStatus env db ctx aid status =
     commit_or_drop env db (
       bind_ok (beginContextOwnerTx env db ctx) (\<lambda>tx.
       bind_ok (sql_update env ''alerts'' alerts alerts_update (\<lambda>_ _. False)
           (\<lambda>r. al_id r = aid \<and> owned tx (al_owner_user_id r)) (\<lambda>r. r\<lparr>al_status := status\<rparr>) tx) (\<lambda>(tx, row).
       Inr (tx, scanAlert row))))"

text \<open>\<open>n\<close> counts the identifiers drawn before.\<close>

definition new_delivery_row ::
    "store_env \<Rightarrow> nat \<Rightarrow> transaction \<Rightarrow> string \<Rightarrow> string \<Rightarrow> string \<Rightarrow> int \<Rightarrow> string \<Rightarrow> string \<Rightarrow> alert_delivery_row" where
  "new_delivery_row env n tx alertID channel status attempt errText response =
     \<lparr>ad_id = se_uuid env n, ad_owner_user_id = tx_owner tx, ad_alert_id = alertID, ad_channel = channel,
      ad_status = status, ad_attempt = attempt, ad_error = errText, ad_response = defaultJSON response,
      ad_created_at = se_now env, ad_sent_at = (if status = alertStatusSent then Some (se_clock env) else None)\<rparr>"

definition recordAlertDelivery ::
    "store_env \<Rightarrow> nat \<Rightarrow> control_db \<Rightarrow> go_context \<Rightarrow> string \<Rightarrow> string \<Rightarrow> string \<Rightarrow> u32 \<Rightarrow> string \<Rightarrow> string \<Rightarrow>
     control_db \<times> (control_error + AlertDelivery)" where
  "recordAlertDelivery env n db ctx alertID channel status attempt errText response =
     or_fail db (db_guard env NewUUID []) (\<lambda>_.
     commit_or_drop env db (
       bind_ok (beginContextOwnerTx env db ctx) (\<lambda>tx.
       bind_ok (int4 (uint attempt)) (\<lambda>attempt.
       (let row = new_delivery_row env n tx alertID channel status attempt errText response in
       bind_ok (references_user tx (tx_owner tx)) (\<lambda>_.
       bind_ok (if list_ex (\<lambda>a. al_id a = alertID) (alerts (tx_db tx)) then Inr () else Inl ForeignKeyViolation) (\<lambda>_.
       bind_ok (sql_insert env ''alert_deliveries'' alert_deliveries alert_deliveries_update
           (\<lambda>a b. ad_id a = ad_id b) row tx) (\<lambda>tx.
       bind_ok (scanAlertDelivery row) (\<lambda>delivery.
       Inr (tx, delivery))))))))))"

subsection \<open>Policy of a kind of alert\<close>

text \<open>The table holds the rows of channel \<^verbatim>\<open>telegram\<close>, to which the query restricts itself.\<close>

definition alert_policy ::
    "store_env \<Rightarrow> control_db \<Rightarrow> go_context \<Rightarrow> string \<Rightarrow> string \<Rightarrow> control_error + alertPolicy" where
  "alert_policy env db ctx alertType severity =
     bind_ok (beginContextOwnerTx env db ctx) (\<lambda>tx.
     (case sql_get env ''alert_policies'' alert_policies
         (\<lambda>r. ap_alert_type r = alertType \<and> ap_severity r = severity \<and> owned tx (ap_owner_user_id r)) tx of
        Inl NoRows \<Rightarrow> Inr \<lparr>apo_RateLimitSeconds = defaultAlertRateLimitSeconds,
          apo_MaxAttempts = defaultAlertMaxAttempts, apo_Template = [], apo_Enabled = True\<rparr>
      | Inl e \<Rightarrow> Inl e
      | Inr r \<Rightarrow>
          bind_ok (scan_u32 (ap_rate_limit_seconds r)) (\<lambda>rate.
          bind_ok (scan_u32 (ap_max_attempts r)) (\<lambda>attempts.
          bind_ok (tx_Commit env tx) (\<lambda>_.
          Inr \<lparr>apo_RateLimitSeconds = rate, apo_MaxAttempts = attempts, apo_Template = ap_template r,
            apo_Enabled = ap_enabled r\<rparr>)))))"

definition recentAlertSent ::
    "store_env \<Rightarrow> control_db \<Rightarrow> go_context \<Rightarrow> Alert \<Rightarrow> u32 \<Rightarrow> control_error + bool" where
  "recentAlertSent env db ctx alert seconds =
     (if seconds = 0 then Inr False
      else
        bind_ok (beginContextOwnerTx env db ctx) (\<lambda>tx.
        bind_ok (db_guard env (ReadTable ''alerts'') (tx_owner tx)) (\<lambda>_.
        bind_ok (tx_Commit env tx) (\<lambda>_.
        Inr (list_ex (\<lambda>a. al_id a \<noteq> alert_ID alert \<and> al_dedupe_key a = alert_DedupeKey alert \<and>
            owned tx (al_owner_user_id a) \<and>
            list_ex (\<lambda>d. ad_alert_id d = al_id a \<and> ad_owner_user_id d = al_owner_user_id a \<and>
                ad_status d = ''sent'' \<and> se_now env - uint seconds * 10 ^ 9 \<le> ad_created_at d)
              (alert_deliveries (tx_db tx)))
          (alerts (tx_db tx)))))))"

text \<open>Any failure counts as no alert; the transaction is not committed. The window is in nanoseconds.\<close>

definition RecentAlertExists :: "store_env \<Rightarrow> control_db \<Rightarrow> go_context \<Rightarrow> string \<Rightarrow> int \<Rightarrow> bool" where
  "RecentAlertExists env db ctx dedupeKey window \<longleftrightarrow> TrimSpace dedupeKey \<noteq> [] \<and> 0 < window \<and>
     (case bind_ok (beginContextOwnerTx env db ctx) (\<lambda>tx.
        bind_ok (db_guard env (ReadTable ''alerts'') (tx_owner tx)) (\<lambda>_.
        Inr (list_ex (\<lambda>a. al_dedupe_key a = TrimSpace dedupeKey \<and> owned tx (al_owner_user_id a) \<and>
            se_now env - window div 10 ^ 9 * 10 ^ 9 \<le> al_created_at a) (alerts (tx_db tx))))) of
        Inl _ \<Rightarrow> False | Inr b \<Rightarrow> b)"

subsection \<open>Messages\<close>

text \<open>\<^verbatim>\<open>strings.NewReplacer\<close>: at each position the first pair whose old text is there; none is empty.\<close>

function replacer :: "(string \<times> string) list \<Rightarrow> string \<Rightarrow> string" where
  "replacer pairs [] = []"
| "replacer pairs (c # s) =
     (case find (\<lambda>(old, _). old \<noteq> [] \<and> prefix old (c # s)) pairs of
        None \<Rightarrow> c # replacer pairs s
      | Some (old, new) \<Rightarrow> new @ replacer pairs (drop (length old - 1) s))"
  by pat_completeness auto
termination by (relation "measure (\<lambda>(_, s). length s)") auto

definition to_upper :: "string \<Rightarrow> string" where
  "to_upper s = map upper_char s"

definition line_if :: "string \<Rightarrow> string \<Rightarrow> string list" where
  "line_if label v = (if v \<noteq> [] then [label @ v] else [])"

fun join_lines :: "string list \<Rightarrow> string" where
  "join_lines [] = []"
| "join_lines [l] = l"
| "join_lines (l # ls) = l @ [CHR 0x0A] @ join_lines ls"

definition renderAlertMessage :: "Alert \<Rightarrow> string \<Rightarrow> string" where
  "renderAlertMessage alert template =
     (if TrimSpace template \<noteq> [] then
        trimTelegramMessage (replacer
          [(''{{severity}}'', to_upper (alert_Severity alert)), (''{{type}}'', alert_Type alert),
           (''{{affected_service}}'', alert_AffectedService alert), (''{{vector}}'', alert_Vector alert),
           (''{{recommended_action}}'', alert_RecommendedAction alert)] template)
      else
        trimTelegramMessage (join_lines (
          [''['' @ to_upper (alert_Severity alert) @ ''] '' @ alert_Type alert, ''dedupe: '' @ alert_DedupeKey alert]
          @ line_if ''service: '' (alert_AffectedService alert) @ line_if ''vector: '' (alert_Vector alert)
          @ line_if ''action: '' (alert_RecommendedAction alert)
          @ (if alert_Evidence alert \<noteq> [] \<and> alert_Evidence alert \<noteq> ''{}''
             then [''evidence: '' @ alert_Evidence alert] else []))))"

definition errorClass :: "string option \<Rightarrow> string" where
  "errorClass err = (case err of None \<Rightarrow> ''unknown''
   | Some e \<Rightarrow> (let text = ToLower e in
       if has_infix ''429'' text then ''rate_limited''
       else if has_infix ''timeout'' text \<or> has_infix ''deadline'' text then ''timeout''
       else if has_infix ''status 5'' text then ''server''
       else if has_infix ''status 4'' text then ''client''
       else ''error''))"

text \<open>The wait after an attempt, with the shift and the product of 64-bit durations.\<close>

definition alertRetryDelay :: "int \<Rightarrow> u32 \<Rightarrow> int" where
  "alertRetryDelay retryBase attempt =
     (let base = (if retryBase \<le> 0 then 10 ^ 9 else retryBase)
      in sint (word_of_int base * push_bit (unat (attempt - 1)) (1 :: 64 word)))"

subsection \<open>Delivery\<close>

definition record_and_set ::
    "store_env \<Rightarrow> control_db \<Rightarrow> go_context \<Rightarrow> Alert \<Rightarrow> string \<Rightarrow> string \<Rightarrow> control_db \<times> (control_error + Alert)" where
  "record_and_set env db ctx alert status errText =
     (case recordAlertDelivery env 1 db ctx (alert_ID alert) ''telegram'' status 0 errText [] of
        (db', Inl e) \<Rightarrow> (db', Inl e)
      | (db', Inr _) \<Rightarrow> setAlertStatus env db' ctx (alert_ID alert) status)"

text \<open>The loop over the attempts; \<open>left\<close> is how many are left after \<open>attempt\<close>. The wait between two attempts can be
  long: \<open>envs k\<close> is the environment at attempt \<open>k\<close>, \<open>envs 0\<close> the one outside the loop.\<close>

fun deliver_loop ::
    "(nat \<Rightarrow> store_env) \<Rightarrow> telegram_net \<Rightarrow> go_context \<Rightarrow> Alert \<Rightarrow> string \<Rightarrow> TelegramConfig \<Rightarrow> string \<Rightarrow> nat \<Rightarrow> nat \<Rightarrow>
     control_db \<Rightarrow> control_db \<times> telegram_request list \<times> (control_error + Alert)" where
  "deliver_loop envs net ctx alert token cfg text left attempt db =
     (case SendMessage net attempt token (tcf_ChatID cfg) (tcf_ParseMode cfg) text of
        (reqs, result, None) \<Rightarrow>
          (case recordAlertDelivery (envs attempt) attempt db ctx (alert_ID alert) ''telegram'' alertStatusSent
              (of_nat attempt) [] (tsr_Response result) of
             (db', Inl e) \<Rightarrow> (db', reqs, Inl e)
           | (db', Inr _) \<Rightarrow> (case setAlertStatus (envs attempt) db' ctx (alert_ID alert) alertStatusSent of
               (db'', r) \<Rightarrow> (db'', reqs, r)))
      | (reqs, result, Some err) \<Rightarrow>
          (case recordAlertDelivery (envs attempt) attempt db ctx (alert_ID alert) ''telegram''
              (if tsr_Retryable result \<and> left \<noteq> 0 then alertStatusRetrying else alertStatusFailed)
              (of_nat attempt) (RedactString err) (tsr_Response result) of
             (db', Inl e) \<Rightarrow> (db', reqs, Inl e)
           | (db', Inr _) \<Rightarrow>
               (case left of
                  0 \<Rightarrow> (case setAlertStatus (envs attempt) db' ctx (alert_ID alert) alertStatusFailed of
                    (db'', r) \<Rightarrow> (db'', reqs, r))
                | Suc left' \<Rightarrow>
                    if \<not> tsr_Retryable result then
                      (case setAlertStatus (envs attempt) db' ctx (alert_ID alert) alertStatusFailed of
                         (db'', r) \<Rightarrow> (db'', reqs, r))
                    else (case tn_cancelled net attempt of
                      Some e \<Rightarrow> (db', reqs, Inl (ErrorText e))
                    | None \<Rightarrow>
                        (case deliver_loop envs net ctx alert token cfg text left' (Suc attempt) db' of
                           (db'', reqs', r) \<Rightarrow> (db'', reqs @ reqs', r))))))"

definition deliverAlert ::
    "(nat \<Rightarrow> store_env) \<Rightarrow> telegram_net \<Rightarrow> control_db \<Rightarrow> go_context \<Rightarrow> Alert \<Rightarrow>
     control_db \<times> telegram_request list \<times> (control_error + Alert)" where
  "deliverAlert envs net db ctx alert =
     (case alert_policy (envs 0) db ctx (alert_Type alert) (alert_Severity alert) of
        Inl e \<Rightarrow> (db, [], Inl e)
      | Inr policy \<Rightarrow>
          if \<not> apo_Enabled policy then
            (case setAlertStatus (envs 0) db ctx (alert_ID alert) alertStatusDeduped of (db', r) \<Rightarrow> (db', [], r))
          else (case recentAlertSent (envs 0) db ctx alert (apo_RateLimitSeconds policy) of
            Inl e \<Rightarrow> (db, [], Inl e)
          | Inr True \<Rightarrow>
              (case record_and_set (envs 0) db ctx alert alertStatusDeduped ''dedupe window active'' of
                 (db', r) \<Rightarrow> (db', [], r))
          | Inr False \<Rightarrow>
              (case getTelegramConfigRaw (envs 0) net db ctx of
                 Inl e \<Rightarrow> (db, [], Inl e)
               | Inr cfg \<Rightarrow>
                   (case resolveTelegramBotToken (tn_Getenv net) (tcf_BotTokenRef cfg) of (token, status) \<Rightarrow>
                      if \<not> tcf_Enabled cfg \<or> status \<noteq> ''present'' then
                        (case record_and_set (envs 0) db ctx alert alertStatusFailed
                            ''telegram config is disabled or token is missing'' of
                           (db', r) \<Rightarrow> (db', [], r))
                      else
                        (let maxAttempts = (if apo_MaxAttempts policy = 0 then defaultAlertMaxAttempts
                                            else apo_MaxAttempts policy)
                         in deliver_loop envs net ctx alert token cfg (renderAlertMessage alert (apo_Template policy))
                              (unat maxAttempts - 1) 1 db)))))"

subsection \<open>Creation\<close>

definition new_alert_row :: "store_env \<Rightarrow> transaction \<Rightarrow> Actor option \<Rightarrow> AlertInput \<Rightarrow> alert_row" where
  "new_alert_row env tx actor input =
     \<lparr>al_id = se_uuid env 0, al_owner_user_id = tx_owner tx, al_severity = normalizeAlertSeverity (ain_Severity input),
      al_type = TrimSpace (ain_Type input), al_dedupe_key = TrimSpace (ain_DedupeKey input),
      al_service_id = nullif_empty (TrimSpace (ain_ServiceID input)),
      al_affected_service = TrimSpace (ain_AffectedService input), al_vector = TrimSpace (ain_Vector input),
      al_evidence = defaultJSON (ain_Evidence input), al_recommended_action = TrimSpace (ain_RecommendedAction input),
      al_status = alertStatusPending, al_created_by = map_option user_ID actor, al_created_at = se_now env\<rparr>"

definition alert_references :: "transaction \<Rightarrow> alert_row \<Rightarrow> control_error + unit" where
  "alert_references tx row =
     (if list_ex (\<lambda>u. usr_id u = al_owner_user_id row) (app_users (tx_db tx)) \<and>
         (case al_service_id row of None \<Rightarrow> True
          | Some s \<Rightarrow> list_ex (\<lambda>b. bs_id b = s) (backend_services (tx_db tx))) \<and>
         (case al_created_by row of None \<Rightarrow> True | Some a \<Rightarrow> list_ex (\<lambda>u. usr_id u = a) (app_users (tx_db tx)))
      then Inr () else Inl ForeignKeyViolation)"

definition insert_alert ::
    "store_env \<Rightarrow> control_db \<Rightarrow> go_context \<Rightarrow> Actor option \<Rightarrow> AlertInput \<Rightarrow> control_db \<times> (control_error + Alert)" where
  "insert_alert env db ctx actor input =
     or_fail db (bind_ok (validateAlertInput input) (\<lambda>_. db_guard env NewUUID [])) (\<lambda>_.
     commit_or_drop env db (
       bind_ok (beginContextOwnerTx env db ctx) (\<lambda>tx.
       (let row = new_alert_row env tx actor input in
       bind_ok (alert_references tx row) (\<lambda>_.
       bind_ok (sql_insert env ''alerts'' alerts alerts_update (\<lambda>a b. al_id a = al_id b) row tx) (\<lambda>tx.
       Inr (tx, scanAlert row)))))))"

definition createAlert ::
    "(nat \<Rightarrow> store_env) \<Rightarrow> telegram_net \<Rightarrow> control_db \<Rightarrow> go_context \<Rightarrow> Actor option \<Rightarrow> AlertInput \<Rightarrow>
     control_db \<times> telegram_request list \<times> (control_error + Alert)" where
  "createAlert envs net db ctx actor input = (case insert_alert (envs 0) db ctx actor input of
     (db1, Inl e) \<Rightarrow> (db1, [], Inl e)
   | (db1, Inr alert) \<Rightarrow>
       (case deliverAlert envs net db1 ctx alert of (db2, reqs, r) \<Rightarrow>
          (let delivered = (case r of Inl _ \<Rightarrow> alert | Inr a \<Rightarrow> a) in
           (db2, reqs, Inr (delivered\<lparr>alert_Deliveries :=
             (case ListAlertDeliveries (envs 0) db2 ctx (alert_ID delivered) of Inl _ \<Rightarrow> [] | Inr ds \<Rightarrow> ds)\<rparr>)))))"

definition CreateAlert ::
    "(nat \<Rightarrow> store_env) \<Rightarrow> telegram_net \<Rightarrow> control_db \<Rightarrow> go_context \<Rightarrow> Actor option \<Rightarrow> AlertInput \<Rightarrow>
     control_db \<times> telegram_request list \<times> (control_error + Alert)" where
  "CreateAlert envs net db ctx actor input = (case requireConfigMutation actor of
     Some e \<Rightarrow> (db, [], Inl e) | None \<Rightarrow> createAlert envs net db ctx actor input)"

definition CreateSystemAlert ::
    "(nat \<Rightarrow> store_env) \<Rightarrow> telegram_net \<Rightarrow> control_db \<Rightarrow> go_context \<Rightarrow> AlertInput \<Rightarrow>
     control_db \<times> telegram_request list \<times> (control_error + Alert)" where
  "CreateSystemAlert envs net db ctx input = createAlert envs net db ctx None input"

end
