(* ===== verification/FeedAggregate.thy ===== *)
theory FeedAggregate
  imports FeedParse
begin

section \<open>Threat feeds: removing duplicates and merging prefixes\<close>

text \<open>
  The list operations of \<^verbatim>\<open>internal/control/feed.go\<close> between parsing and the database:
  \<^verbatim>\<open>dedupeFeedEntries\<close>, \<^verbatim>\<open>aggregateFeedEntries\<close> with the prefix arithmetic below it, and the
  comparison with the white list. The result of the aggregation covers exactly the addresses of
  the parsed entries, and merges all it can.
\<close>

subsection \<open>Prefix arithmetic\<close>

definition addrToUint32 :: "u32 \<Rightarrow> u32" where
  "addrToUint32 addr = (case As4 addr of (b0, b1, b2, b3) \<Rightarrow>
     push_bit 24 (ucast b0) OR push_bit 16 (ucast b1) OR push_bit 8 (ucast b2) OR ucast b3)"

definition uint32ToAddr :: "u32 \<Rightarrow> u32" where
  "uint32ToAddr v =
     AddrFrom4 (ucast (drop_bit 24 v), ucast (drop_bit 16 v), ucast (drop_bit 8 v), ucast v)"

definition siblingPrefix :: "prefix4 \<Rightarrow> prefix4 option" where
  "siblingPrefix p = (let bits = pfx_bits p in
     if bits = 0 \<or> 32 < bits then None
     else let size = push_bit (32 - bits) 1; sibling = addrToUint32 (pfx_addr p) XOR size
       in Some (Masked \<lparr>pfx_addr = uint32ToAddr sibling, pfx_bits = bits\<rparr>))"

definition parentPrefix :: "prefix4 \<Rightarrow> prefix4 option" where
  "parentPrefix p = (let bits = pfx_bits p in
     if bits = 0 \<or> 32 < bits then None
     else Some (Masked \<lparr>pfx_addr = pfx_addr p, pfx_bits = bits - 1\<rparr>))"

lemma addrToUint32_id [simp]: "addrToUint32 a = a"
  using AddrFrom4_As4 [of a] by (simp add: addrToUint32_def AddrFrom4_def)

lemma uint32ToAddr_id [simp]: "uint32ToAddr a = a"
  using AddrFrom4_As4 [of a] by (simp add: uint32ToAddr_def As4_def)

lemma bit_size: "bit (push_bit n 1 :: u32) i \<longleftrightarrow> i = n \<and> n < 32"
  by (auto simp: bit_simps)

text \<open>A prefix and its sibling split their parent.\<close>

lemma parent_splits:
  assumes "siblingPrefix p = Some q" and "parentPrefix p = Some r"
  shows "Contains r a \<longleftrightarrow> Contains p a \<or> Contains q a"
proof -
  let ?k = "32 - pfx_bits p"
  from assms have bits: "0 < pfx_bits p" "pfx_bits p \<le> 32"
    and q: "q = Masked \<lparr>pfx_addr = pfx_addr p XOR push_bit ?k 1, pfx_bits = pfx_bits p\<rparr>"
    and r: "r = Masked \<lparr>pfx_addr = pfx_addr p, pfx_bits = pfx_bits p - 1\<rparr>"
    by (auto simp: siblingPrefix_def parentPrefix_def Let_def split: if_splits)
  have k: "?k < 32" "32 - (pfx_bits p - 1) = Suc ?k" using bits by auto
  have "Contains r a \<longleftrightarrow> (\<forall>i. ?k < i \<and> i < 32 \<longrightarrow> bit (pfx_addr p) i = bit a i)"
    unfolding r Contains_Masked by (simp only: Contains_iff_bits prefix4.select_convs k Suc_le_eq)
  moreover have "Contains q a \<longleftrightarrow>
      bit (pfx_addr p) ?k \<noteq> bit a ?k \<and> (\<forall>i. ?k < i \<and> i < 32 \<longrightarrow> bit (pfx_addr p) i = bit a i)"
    unfolding q Contains_Masked using k(1)
    by (auto simp: Contains_iff_bits bit_xor_iff bit_size order.order_iff_strict simp del: push_bit_of_1)
  moreover have "Contains p a \<longleftrightarrow>
      bit (pfx_addr p) ?k = bit a ?k \<and> (\<forall>i. ?k < i \<and> i < 32 \<longrightarrow> bit (pfx_addr p) i = bit a i)"
    using k(1) by (auto simp: Contains_iff_bits order.order_iff_strict)
  ultimately show ?thesis by blast
qed

lemma sibling_differs:
  assumes "siblingPrefix p = Some q"
  shows "q \<noteq> p"
proof
  assume "q = p"
  let ?k = "32 - pfx_bits p"
  from assms have bits: "0 < pfx_bits p" "pfx_bits p \<le> 32"
    and q: "q = Masked \<lparr>pfx_addr = pfx_addr p XOR push_bit ?k 1, pfx_bits = pfx_bits p\<rparr>"
    by (auto simp: siblingPrefix_def Let_def split: if_splits)
  have "bit (pfx_addr q) ?k \<noteq> bit (pfx_addr p) ?k"
    using bits unfolding q by (simp add: bit_Masked bit_xor_iff bit_size del: push_bit_of_1)
  with \<open>q = p\<close> show False by simp
qed

subsection \<open>White lists\<close>

record feedWhitelist =
  fw_ID :: string
  fw_OwnerUserID :: string
  fw_Prefix :: prefix4

record conflictMatch =
  cm_WhitelistID :: string
  cm_OwnerUserID :: string

definition prefixesOverlap :: "prefix4 \<Rightarrow> prefix4 \<Rightarrow> bool" where
  "prefixesOverlap a b \<longleftrightarrow> Contains a (pfx_addr b) \<or> Contains b (pfx_addr a)"

definition matchingWhitelists :: "prefix4 \<Rightarrow> feedWhitelist list \<Rightarrow> conflictMatch list" where
  "matchingWhitelists p whitelist =
     map (\<lambda>item. \<lparr>cm_WhitelistID = fw_ID item, cm_OwnerUserID = fw_OwnerUserID item\<rparr>)
       (filter (\<lambda>item. prefixesOverlap p (fw_Prefix item)) whitelist)"

definition prefixContainsAnyWhitelist :: "prefix4 \<Rightarrow> feedWhitelist list \<Rightarrow> bool" where
  "prefixContainsAnyWhitelist p whitelist =
     list_ex (\<lambda>item. Contains p (pfx_addr (fw_Prefix item))) whitelist"

subsection \<open>Duplicates\<close>

definition feedEntryLess :: "normalizedFeedEntry \<Rightarrow> normalizedFeedEntry \<Rightarrow> bool" where
  "feedEntryLess a b =
     (if Prefix_String (ne_CIDR a) \<noteq> Prefix_String (ne_CIDR b)
      then Prefix_String (ne_CIDR a) < Prefix_String (ne_CIDR b)
      else if ne_Score a \<noteq> ne_Score b then ne_Score b < ne_Score a
      else ne_TTLSeconds a < ne_TTLSeconds b)"

definition sortFeedEntries :: "normalizedFeedEntry list \<Rightarrow> normalizedFeedEntry list" where
  "sortFeedEntries = sort_slice feedEntryLess"

definition dedupe_key :: "normalizedFeedEntry \<Rightarrow> string" where
  "dedupe_key e = Prefix_String (ne_CIDR e) @ ''|'' @ ne_Action e @ ''|'' @ dec (unat (ne_Score e)) @ ''|''
     @ dec (unat (ne_TTLSeconds e))"

definition see_entry ::
    "(string \<times> normalizedFeedEntry) list \<Rightarrow> normalizedFeedEntry \<Rightarrow> (string \<times> normalizedFeedEntry) list" where
  "see_entry seen e =
     (if map_of seen (dedupe_key e) = None then seen @ [(dedupe_key e, e)] else seen)"

definition dedupeFeedEntries :: "normalizedFeedEntry list \<Rightarrow> normalizedFeedEntry list" where
  "dedupeFeedEntries es = sortFeedEntries (map snd (foldl see_entry [] es))"

subsection \<open>Aggregation\<close>

definition feedMergeCompatible :: "normalizedFeedEntry \<Rightarrow> normalizedFeedEntry \<Rightarrow> bool" where
  "feedMergeCompatible a b \<longleftrightarrow> ne_Action a = ne_Action b \<and> ne_Score a = ne_Score b \<and>
     ne_TTLSeconds a = ne_TTLSeconds b \<and> ne_Reason a = ne_Reason b"

text \<open>The map \<^verbatim>\<open>byPrefix\<close>: the last entry of each prefix.\<close>

definition byPrefix :: "normalizedFeedEntry list \<Rightarrow> prefix4 \<Rightarrow> normalizedFeedEntry option" where
  "byPrefix current = map_of (rev (map (\<lambda>e. (ne_CIDR e, e)) current))"

text \<open>What the loop body decides for one entry: the partner and the parent to merge into.\<close>

definition merge_of ::
    "feedWhitelist list \<Rightarrow> (prefix4 \<Rightarrow> normalizedFeedEntry option) \<Rightarrow> nat \<Rightarrow> normalizedFeedEntry \<Rightarrow>
     (normalizedFeedEntry \<times> prefix4) option" where
  "merge_of whitelist known bits left =
     (if pfx_bits (ne_CIDR left) \<noteq> bits then None
      else case siblingPrefix (ne_CIDR left) of
        None \<Rightarrow> None
      | Some rightPrefix \<Rightarrow> (case known rightPrefix of
          None \<Rightarrow> None
        | Some right \<Rightarrow>
            if \<not> feedMergeCompatible left right then None
            else (case parentPrefix (ne_CIDR left) of
              None \<Rightarrow> None
            | Some parent \<Rightarrow>
                if prefixContainsAnyWhitelist parent whitelist then None else Some (right, parent))))"

definition merge_into ::
    "normalizedFeedEntry \<Rightarrow> normalizedFeedEntry \<Rightarrow> prefix4 \<Rightarrow> normalizedFeedEntry list \<Rightarrow>
     normalizedFeedEntry list" where
  "merge_into left right parent current =
     filter (\<lambda>e. \<not> (ne_CIDR e = ne_CIDR left \<or> ne_CIDR e = ne_CIDR right)) current
     @ [left\<lparr>ne_CIDR := parent\<rparr>]"

text \<open>The loop over the entries of one length: the list after the first merge, if there is one.\<close>

fun merge_entries ::
    "feedWhitelist list \<Rightarrow> (prefix4 \<Rightarrow> normalizedFeedEntry option) \<Rightarrow> nat \<Rightarrow> normalizedFeedEntry list \<Rightarrow>
     normalizedFeedEntry list \<Rightarrow> normalizedFeedEntry list option" where
  "merge_entries whitelist known bits current [] = None"
| "merge_entries whitelist known bits current (left # rest) =
     (case merge_of whitelist known bits left of
        Some (right, parent) \<Rightarrow> Some (merge_into left right parent current)
      | None \<Rightarrow> merge_entries whitelist known bits current rest)"

text \<open>The loop over the lengths, from 32 down to 1; the flag is \<^verbatim>\<open>changed\<close>.\<close>

fun merge_lengths ::
    "feedWhitelist list \<Rightarrow> (prefix4 \<Rightarrow> normalizedFeedEntry option) \<Rightarrow> nat \<Rightarrow> normalizedFeedEntry list \<Rightarrow>
     normalizedFeedEntry list \<times> bool" where
  "merge_lengths whitelist known 0 current = (current, False)"
| "merge_lengths whitelist known (Suc b) current0 =
     (let current = sortFeedEntries current0 in
      case merge_entries whitelist known (Suc b) current current of
        Some next \<Rightarrow> (next, True)
      | None \<Rightarrow> merge_lengths whitelist known b current)"

definition merge_pass :: "feedWhitelist list \<Rightarrow> normalizedFeedEntry list \<Rightarrow> normalizedFeedEntry list \<times> bool" where
  "merge_pass whitelist current = merge_lengths whitelist (byPrefix current) 32 current"

lemma byPrefix_Some: "byPrefix es p = Some e \<Longrightarrow> e \<in> set es \<and> ne_CIDR e = p"
  by (auto simp: byPrefix_def dest!: map_of_SomeD)

lemma merge_of_Some:
  assumes "merge_of whitelist (byPrefix es) bits left = Some (right, parent)"
  shows "right \<in> set es" and "siblingPrefix (ne_CIDR left) = Some (ne_CIDR right)"
    and "parentPrefix (ne_CIDR left) = Some parent" and "feedMergeCompatible left right"
    and "\<not> prefixContainsAnyWhitelist parent whitelist"
  using assms by (auto simp: merge_of_def dest: byPrefix_Some split: if_splits option.splits)

lemma merge_entries_Some:
  assumes "merge_entries whitelist known bits current es = Some next"
  obtains left right parent where "left \<in> set es"
    and "merge_of whitelist known bits left = Some (right, parent)"
    and "next = merge_into left right parent current"
  using assms by (induction es) (force split: option.splits)+

lemma merge_entries_None:
  "merge_entries whitelist known bits current es = None \<longleftrightarrow>
     (\<forall>left\<in>set es. merge_of whitelist known bits left = None)"
  by (induction es) (auto split: option.split)

text \<open>A pass either merges two entries of the list or leaves it sorted with nothing to merge.\<close>

lemma merge_lengths_cases:
  assumes "merge_lengths whitelist known n es = (next, changed)" and "mset es = mset es0"
  obtains (merged) current left right parent bits where "changed" and "mset current = mset es0"
      and "left \<in> set es0" and "merge_of whitelist known bits left = Some (right, parent)"
      and "next = merge_into left right parent current"
  | (stable) "\<not> changed" and "mset next = mset es0"
      and "\<forall>left\<in>set es0. \<forall>bits. 0 < bits \<and> bits \<le> n \<longrightarrow> merge_of whitelist known bits left = None"
  using assms
proof (induction whitelist known n es arbitrary: thesis rule: merge_lengths.induct)
  case (1 whitelist known es)
  then show ?case by auto
next
  case (2 whitelist known b es)
  let ?current = "sortFeedEntries es"
  have same: "mset ?current = mset es0" using 2(5) by (simp add: sortFeedEntries_def)
  have mem: "set ?current = set es0" using same by (rule mset_eq_setD)
  show ?case
  proof (cases "merge_entries whitelist known (Suc b) ?current ?current")
    case (Some nxt)
    then have n: "next = nxt" "changed" using 2(4) by (auto simp: Let_def)
    from Some obtain left right parent where "left \<in> set ?current"
      and "merge_of whitelist known (Suc b) left = Some (right, parent)"
      and "nxt = merge_into left right parent ?current"
      by (rule merge_entries_Some)
    then show ?thesis using 2(2) same mem n by blast
  next
    case None
    then have step: "merge_lengths whitelist known b ?current = (next, changed)"
      using 2(4) by (simp add: Let_def)
    have top: "\<forall>left\<in>set es0. merge_of whitelist known (Suc b) left = None"
      using None by (simp add: merge_entries_None mem)
    show ?thesis
    proof (rule 2(1) [OF refl None _ _ step same])
      assume "\<not> changed" "mset next = mset es0"
        "\<forall>left\<in>set es0. \<forall>bits. 0 < bits \<and> bits \<le> b \<longrightarrow> merge_of whitelist known bits left = None"
      then show thesis using 2(3) top by (metis le_Suc_eq)
    qed (rule 2(2))
  qed
qed

text \<open>A merge makes the list shorter, which is why the aggregation ends.\<close>

lemma merge_into_shorter:
  assumes "left \<in> set current" and "right \<in> set current" and "ne_CIDR right \<noteq> ne_CIDR left"
  shows "length (merge_into left right parent current) < length current"
proof -
  let ?P = "\<lambda>e. ne_CIDR e = ne_CIDR left \<or> ne_CIDR e = ne_CIDR right"
  have "{left, right} \<subseteq> set (filter ?P current)" using assms(1,2) by auto
  then have "card {left, right} \<le> length (filter ?P current)"
    by (metis List.finite_set card_length card_mono le_trans)
  moreover have "card {left, right} = 2" using assms(3) by (auto simp: card_insert_if)
  ultimately show ?thesis
    using sum_length_filter_compl [of ?P current] by (simp add: merge_into_def)
qed

lemma merge_pass_cases:
  assumes "merge_pass whitelist es = (next, changed)"
  obtains (merged) current left right parent where "changed" and "set current = set es"
      and "length current = length es"
      and "left \<in> set es" and "right \<in> set es" and "siblingPrefix (ne_CIDR left) = Some (ne_CIDR right)"
      and "parentPrefix (ne_CIDR left) = Some parent" and "next = merge_into left right parent current"
  | (stable) "\<not> changed" and "set next = set es" and "length next = length es"
      and "\<forall>left\<in>set es. \<forall>bits. 0 < bits \<and> bits \<le> 32 \<longrightarrow> merge_of whitelist (byPrefix es) bits left = None"
  using merge_lengths_cases [OF assms [unfolded merge_pass_def] refl]
  by (smt (verit) merge_of_Some mset_eq_length mset_eq_setD)

lemma merge_pass_shorter:
  assumes "merge_pass whitelist es = (next, True)"
  shows "length next < length es"
  using assms
proof (cases rule: merge_pass_cases)
  case (merged current left right parent)
  then show ?thesis
    using merge_into_shorter [of left current right parent] sibling_differs by auto
qed simp

function aggregate_loop :: "feedWhitelist list \<Rightarrow> normalizedFeedEntry list \<Rightarrow> normalizedFeedEntry list" where
  "aggregate_loop whitelist current =
     (if snd (merge_pass whitelist current) then aggregate_loop whitelist (fst (merge_pass whitelist current))
      else sortFeedEntries (fst (merge_pass whitelist current)))"
  by pat_completeness auto
termination
  by (relation "measure (length \<circ> snd)") (auto intro: merge_pass_shorter simp: prod_eq_iff)

declare aggregate_loop.simps [simp del]

definition aggregateFeedEntries ::
    "normalizedFeedEntry list \<Rightarrow> feedWhitelist list \<Rightarrow> normalizedFeedEntry list" where
  "aggregateFeedEntries es whitelist = aggregate_loop whitelist (dedupeFeedEntries es)"

subsection \<open>What the aggregation keeps\<close>

definition covered :: "normalizedFeedEntry list \<Rightarrow> u32 \<Rightarrow> bool" where
  "covered es a = list_ex (\<lambda>e. Contains (ne_CIDR e) a) es"

text \<open>The columns of an entry other than its prefix.\<close>

definition entry_terms :: "normalizedFeedEntry \<Rightarrow> string \<times> u32 \<times> u32 \<times> string \<times> string" where
  "entry_terms e = (ne_Action e, ne_Score e, ne_TTLSeconds e, ne_Reason e, ne_Metadata e)"

lemma covered_iff: "covered es a \<longleftrightarrow> (\<exists>e\<in>set es. Contains (ne_CIDR e) a)"
  by (simp add: covered_def list_ex_iff)

lemma see_entry_fold:
  "set (map snd (foldl see_entry seen es)) \<subseteq> set (map snd seen) \<union> set es"
  "set (map snd seen) \<subseteq> set (map snd (foldl see_entry seen es))"
  "dedupe_key ` set es \<subseteq> set (map fst (foldl see_entry seen es))"
  "fst ` set seen \<subseteq> set (map fst (foldl see_entry seen es))"
  "\<forall>p\<in>set seen. fst p = dedupe_key (snd p) \<Longrightarrow> \<forall>p\<in>set (foldl see_entry seen es). fst p = dedupe_key (snd p)"
proof (induction es arbitrary: seen)
  case (Cons e es)
  {
    case 1
    show ?case using Cons(1) [of "see_entry seen e"] by (auto simp: see_entry_def split: if_splits)
  next
    case 2
    show ?case using Cons(2) [of "see_entry seen e"] by (auto simp: see_entry_def split: if_splits)
  next
    case 3
    have "dedupe_key e \<in> fst ` set (see_entry seen e)"
      by (auto simp: see_entry_def dom_map_of_fst [symmetric] map_of_eq_None_iff image_iff)
    then show ?case using Cons(3) [of "see_entry seen e"] Cons(4) [of "see_entry seen e"] by auto
  next
    case 4
    show ?case using Cons(4) [of "see_entry seen e"] by (auto simp: see_entry_def split: if_splits)
  next
    case 5
    then have "\<forall>p\<in>set (see_entry seen e). fst p = dedupe_key (snd p)"
      by (simp add: see_entry_def)
    then show ?case using Cons(5) [of "see_entry seen e"] by simp
  }
qed auto

lemma dedupe_key_CIDR:
  assumes "dedupe_key a = dedupe_key b"
  shows "ne_CIDR a = ne_CIDR b"
proof -
  have "is_digit c \<or> c = CHR ''.'' \<or> c = CHR ''/''" if "c \<in> set (Prefix_String p)" for c p
    using that dec_digits by (auto simp: Prefix_String_def dest: Addr_String_chars)
  then have bar: "CHR ''|'' \<notin> set (Prefix_String p)" for p
    using is_digit_def [of "CHR ''|''"] by fastforce
  have "Prefix_String (ne_CIDR a) = Prefix_String (ne_CIDR b)"
    using assms split_at_sep [OF bar bar] unfolding dedupe_key_def append_Cons append_Nil by blast
  then show ?thesis by (rule Prefix_String_inj)
qed

lemma dedupe_subset: "set (dedupeFeedEntries es) \<subseteq> set es"
  using see_entry_fold(1) [of "[]" es] by (auto simp: dedupeFeedEntries_def sortFeedEntries_def)

lemma dedupe_represents: "e \<in> set es \<Longrightarrow> \<exists>d\<in>set (dedupeFeedEntries es). dedupe_key d = dedupe_key e"
proof -
  assume "e \<in> set es"
  then have "dedupe_key e \<in> fst ` set (foldl see_entry [] es)"
    using see_entry_fold(3) [of es "[]"] by auto
  then obtain p where p: "p \<in> set (foldl see_entry [] es)" "fst p = dedupe_key e" by auto
  then have "dedupe_key (snd p) = dedupe_key e"
    using see_entry_fold(5) [of "[]" es] by simp
  then show ?thesis using p(1) by (auto simp: dedupeFeedEntries_def sortFeedEntries_def)
qed

lemma dedupe_covered: "covered (dedupeFeedEntries es) a = covered es a"
  unfolding covered_iff using dedupe_subset dedupe_represents dedupe_key_CIDR by (metis subsetD)

lemma merge_pass_covered:
  assumes "merge_pass whitelist es = (next, changed)"
  shows "covered next a = covered es a"
  using assms
proof (cases rule: merge_pass_cases)
  case (merged current left right parent)
  then show ?thesis
    using parent_splits [of "ne_CIDR left" "ne_CIDR right" parent a]
    by (auto simp: covered_iff merge_into_def)
next
  case stable
  then show ?thesis by (simp add: covered_iff)
qed

lemma merge_pass_terms:
  assumes "merge_pass whitelist es = (next, changed)"
  shows "entry_terms ` set next \<subseteq> entry_terms ` set es"
  using assms by (cases rule: merge_pass_cases) (auto simp: merge_into_def entry_terms_def)

lemma aggregate_loop_keeps:
  "covered (aggregate_loop whitelist es) a = covered es a \<and>
   entry_terms ` set (aggregate_loop whitelist es) \<subseteq> entry_terms ` set es"
proof (induction whitelist es rule: aggregate_loop.induct)
  case (1 whitelist es)
  obtain nxt changed where pass: "merge_pass whitelist es = (nxt, changed)" by force
  note keep = merge_pass_covered [OF pass, of a] merge_pass_terms [OF pass]
  show ?case
  proof (cases changed)
    case True
    then have "aggregate_loop whitelist es = aggregate_loop whitelist nxt"
      by (subst aggregate_loop.simps) (simp add: pass)
    moreover have "covered (aggregate_loop whitelist nxt) a = covered nxt a \<and>
        entry_terms ` set (aggregate_loop whitelist nxt) \<subseteq> entry_terms ` set nxt"
      using 1 pass True by simp
    ultimately show ?thesis
      using keep subset_trans [of _ "entry_terms ` set nxt" "entry_terms ` set es"] by simp
  next
    case False
    then have "aggregate_loop whitelist es = sortFeedEntries nxt"
      by (subst aggregate_loop.simps) (simp add: pass)
    then show ?thesis using keep by (simp add: covered_iff sortFeedEntries_def)
  qed
qed

text \<open>
  C34. Removing duplicates and merging sibling prefixes changes nothing about which addresses a
  feed blocks: an address lies in some prefix of the aggregated list if and only if it lies in
  some prefix of the parsed list, whatever the white list is. Action, score, time to live,
  reason and metadata of every aggregated entry are those of a parsed entry. The aggregation
  is a total function: every merge shortens the list.
\<close>

theorem aggregation_exact:
  "covered (aggregateFeedEntries (dedupeFeedEntries es) whitelist) a = covered es a \<and>
   entry_terms ` set (aggregateFeedEntries (dedupeFeedEntries es) whitelist) \<subseteq> entry_terms ` set es"
proof -
  have "entry_terms ` set (dedupeFeedEntries (dedupeFeedEntries es)) \<subseteq> entry_terms ` set es"
    using dedupe_subset [of es] dedupe_subset [of "dedupeFeedEntries es"] by blast
  then show ?thesis
    using aggregate_loop_keeps [of whitelist "dedupeFeedEntries (dedupeFeedEntries es)" a]
    unfolding aggregateFeedEntries_def dedupe_covered by blast
qed

subsection \<open>The aggregation is complete\<close>

lemma byPrefix_distinct:
  assumes "distinct (map ne_CIDR es)" and "e \<in> set es"
  shows "byPrefix es (ne_CIDR e) = Some e"
  using assms by (auto simp: byPrefix_def comp_def intro!: map_of_is_SomeI simp flip: rev_map)

lemma aggregate_loop_stable:
  obtains es' where "aggregate_loop whitelist es = sortFeedEntries (fst (merge_pass whitelist es'))"
    and "\<not> snd (merge_pass whitelist es')"
proof (induction whitelist es arbitrary: thesis rule: aggregate_loop.induct)
  case (1 whitelist es)
  show ?case
  proof (cases "snd (merge_pass whitelist es)")
    case True
    have "aggregate_loop whitelist es = aggregate_loop whitelist (fst (merge_pass whitelist es))"
      using True by (subst aggregate_loop.simps) simp
    then show ?thesis using 1(1) [OF True] 1(2) by metis
  next
    case False
    then show ?thesis using 1(2) by (subst (asm) aggregate_loop.simps) simp
  qed
qed

text \<open>
  C39. The aggregation stops only when it can merge nothing more: if two entries of the result
  have sibling prefixes and agree in action, score, time to live and reason, and every prefix
  occurs once, then the parent prefix contains the address of a white list entry.
\<close>

theorem aggregation_complete:
  assumes "left \<in> set (aggregateFeedEntries es whitelist)"
    and "right \<in> set (aggregateFeedEntries es whitelist)"
    and "distinct (map ne_CIDR (aggregateFeedEntries es whitelist))"
    and "siblingPrefix (ne_CIDR left) = Some (ne_CIDR right)" and "feedMergeCompatible left right"
    and "parentPrefix (ne_CIDR left) = Some parent"
  shows "prefixContainsAnyWhitelist parent whitelist"
proof (rule ccontr)
  assume none: "\<not> prefixContainsAnyWhitelist parent whitelist"
  obtain es' where out: "aggregateFeedEntries es whitelist = sortFeedEntries (fst (merge_pass whitelist es'))"
    and stop: "\<not> snd (merge_pass whitelist es')"
    unfolding aggregateFeedEntries_def by (rule aggregate_loop_stable)
  obtain nxt where pass: "merge_pass whitelist es' = (nxt, False)"
    using stop by (metis prod.collapse)
  then have same: "mset nxt = mset es'"
    unfolding merge_pass_def using merge_lengths_cases [OF _ refl] by metis
  have dist: "distinct (map ne_CIDR es')"
    using assms(3) distinct_map_mset_cong [OF same, of ne_CIDR] by (simp add: out pass sortFeedEntries_def)
  have mem: "left \<in> set es'" "right \<in> set es'"
    using assms(1,2) mset_eq_setD [OF same] by (simp_all add: out pass sortFeedEntries_def)
  have "merge_of whitelist (byPrefix es') (pfx_bits (ne_CIDR left)) left = Some (right, parent)"
    using assms(4,5,6) none byPrefix_distinct [OF dist mem(2)] by (simp add: merge_of_def)
  moreover have "0 < pfx_bits (ne_CIDR left) \<and> pfx_bits (ne_CIDR left) \<le> 32"
    using assms(6) by (auto simp: parentPrefix_def Let_def split: if_splits)
  ultimately show False
    using mem(1) by (cases rule: merge_pass_cases [OF pass]) auto
qed

subsection \<open>Examples\<close>

definition sample_feed_entry :: "u32 \<Rightarrow> nat \<Rightarrow> u32 \<Rightarrow> u32 \<Rightarrow> normalizedFeedEntry" where
  "sample_feed_entry addr bits score ttl =
     \<lparr>ne_CIDR = \<lparr>pfx_addr = addr, pfx_bits = bits\<rparr>, ne_Score = score, ne_Action = ''drop'',
      ne_TTLSeconds = ttl, ne_Reason = [], ne_Metadata = ''{}''\<rparr>"

text \<open>10.0.0.0 twice, for one hour with score 100 and for a day with score 90, and 10.0.0.1.\<close>

definition sample_two_ttls :: "normalizedFeedEntry list" where
  "sample_two_ttls = [sample_feed_entry 0x0A000000 32 100 3600, sample_feed_entry 0x0A000000 32 90 86400,
     sample_feed_entry 0x0A000001 32 100 3600]"

text \<open>
  A merge removes every entry that has one of the two merged prefixes, also those that do not
  agree in score or time to live: here 10.0.0.0 is listed for one hour and, with another score,
  for a day, and the aggregated list blocks it for one hour only.
\<close>

lemma aggregation_shortens_block:
  "list_ex (\<lambda>e. Contains (ne_CIDR e) 0x0A000000 \<and> ne_TTLSeconds e = 86400) sample_two_ttls \<and>
   aggregateFeedEntries (dedupeFeedEntries sample_two_ttls) [] = [sample_feed_entry 0x0A000000 31 100 3600]"
  by code_simp

text \<open>Two siblings that stay apart because the white list has one of the two addresses.\<close>

definition sample_allowed :: feedWhitelist where
  "sample_allowed = \<lparr>fw_ID = ''w1'', fw_OwnerUserID = ''u-ann'', fw_Prefix = \<lparr>pfx_addr = 0x0A000001, pfx_bits = 32\<rparr>\<rparr>"

definition sample_halves :: "normalizedFeedEntry list" where
  "sample_halves = [sample_feed_entry 0 1 100 3600, sample_feed_entry 0x80000000 1 100 3600]"

lemma sample_halves_stay:
  "dedupeFeedEntries sample_halves = sample_halves \<and> merge_pass [sample_allowed] sample_halves = (sample_halves, False) \<and>
   sortFeedEntries sample_halves = sample_halves \<and> distinct (map ne_CIDR sample_halves) \<and>
   siblingPrefix (ne_CIDR (sample_halves ! 0)) = Some (ne_CIDR (sample_halves ! 1)) \<and>
   feedMergeCompatible (sample_halves ! 0) (sample_halves ! 1) \<and>
   parentPrefix (ne_CIDR (sample_halves ! 0)) = Some \<lparr>pfx_addr = 0, pfx_bits = 0\<rparr>"
  by code_simp

theorem aggregation_complete_witness:
  "prefixContainsAnyWhitelist \<lparr>pfx_addr = 0, pfx_bits = 0\<rparr> [sample_allowed]"
proof -
  note stay = sample_halves_stay
  have "aggregateFeedEntries sample_halves [sample_allowed] = sample_halves"
    using stay by (simp add: aggregateFeedEntries_def aggregate_loop.simps [of _ sample_halves])
  moreover have "sample_halves ! 0 \<in> set sample_halves" "sample_halves ! 1 \<in> set sample_halves"
    by (simp_all add: sample_halves_def)
  ultimately show ?thesis
    using aggregation_complete [of "sample_halves ! 0" sample_halves "[sample_allowed]" "sample_halves ! 1"] stay by metis
qed

end
