(* ===== verification/FeedStore.thy ===== *)
theory FeedStore
  imports AlertStore FeedAggregate
begin

section \<open>Feed sources and their synchronisation\<close>

text \<open>
  The store part of \<^verbatim>\<open>internal/control/feed.go\<close> and the feed sources of \<^verbatim>\<open>policy_store.go\<close> and
  \<^verbatim>\<open>admin_console.go\<close>: feed sources, runs, and the synchronisation of a source, which fetches, parses and
  aggregates a feed, replaces the source's entries in one transaction, rebuilds all snapshots and
  records the run. A failed run raises an alert for every active user.

  A synchronisation is many transactions at different times: \<open>envs\<close> gives the environment of each; its second index counts
  the attempts of an alert's delivery. The
  text of an error (\<open>sn_Error\<close>) and the JSON of an alert's evidence (\<open>sn_evidence\<close>) are parameters; so is
  whether another synchronisation of the source holds its lock. Feed sources, runs and entries with an
  owner are left over from before feeds became global; runs are modelled without.
\<close>

subsection \<open>Types and scans\<close>

record FeedRun =
  frn_ID :: string
  frn_SourceID :: string
  frn_SourceName :: string
  frn_StartedAt :: int
  frn_FinishedAt :: "int option"
  frn_Status :: string
  frn_ItemsFetched :: u32
  frn_ItemsValid :: u32
  frn_ParseErrors :: u32
  frn_Error :: string
  frn_SnapshotVersion :: u32

record FeedConflict =
  fcf_ID :: string
  fcf_SourceID :: string
  fcf_SourceName :: string
  fcf_ReputationID :: string
  fcf_WhitelistID :: string
  fcf_ReputationCIDR :: string
  fcf_WhitelistCIDR :: string
  fcf_Status :: string
  fcf_DetectedAt :: int

definition scanFeedSource :: "feed_source_row \<Rightarrow> control_error + FeedSource" where
  "scanFeedSource r =
     bind_ok (scan_u32 (fs_interval_seconds r)) (\<lambda>interval.
     bind_ok (scan_u32 (fs_active_entries r)) (\<lambda>active.
     bind_ok (scan_u32 (fs_conflict_count r)) (\<lambda>conflicts.
     bind_ok (scan_u32 (fs_parse_error_count r)) (\<lambda>errors.
     Inr \<lparr>fd_ID = fs_id r, fd_Name = fs_name r, fd_Type = fs_type r, fd_URL = fs_url r,
       fd_CredentialRef = fs_credential_ref r, fd_RequiredForProduction = fs_required_for_production r,
       fd_Enabled = fs_enabled r, fd_IntervalSeconds = interval, fd_LicenseNote = fs_license_note r,
       fd_QuotaMetadata = fs_quota_metadata r, fd_Status = fs_status r, fd_LastSuccessAt = fs_last_success_at r,
       fd_LastErrorAt = fs_last_error_at r, fd_LastError = fs_last_error r, fd_NextRunAt = fs_next_run_at r,
       fd_ActiveEntries = active, fd_ConflictCount = conflicts, fd_ParseErrorCount = errors\<rparr>))))"

definition scan_run :: "string \<Rightarrow> feed_run_row \<Rightarrow> control_error + FeedRun" where
  "scan_run name r =
     bind_ok (scan_u32 (frr_items_fetched r)) (\<lambda>fetched.
     bind_ok (scan_u32 (frr_items_valid r)) (\<lambda>valid.
     bind_ok (scan_u32 (frr_parse_errors r)) (\<lambda>errors.
     bind_ok (scan_u32 (frr_snapshot_version r)) (\<lambda>version.
     Inr \<lparr>frn_ID = frr_id r, frn_SourceID = frr_source_id r, frn_SourceName = name, frn_StartedAt = frr_started_at r,
       frn_FinishedAt = frr_finished_at r, frn_Status = frr_status r, frn_ItemsFetched = fetched,
       frn_ItemsValid = valid, frn_ParseErrors = errors, frn_Error = frr_error r, frn_SnapshotVersion = version\<rparr>))))"

text \<open>Primary key, and one global source per name, whatever its case.\<close>

definition feed_clash :: "feed_source_row \<Rightarrow> feed_source_row \<Rightarrow> bool" where
  "feed_clash a b \<longleftrightarrow> fs_id a = fs_id b \<or>
     (fs_owner_user_id a = None \<and> fs_owner_user_id b = None \<and> ToLower (fs_name a) = ToLower (fs_name b))"

definition next_run :: "store_env \<Rightarrow> u32 \<Rightarrow> string \<Rightarrow> int" where
  "next_run env seconds kind = se_clock env + uint (effectiveFeedIntervalSeconds seconds kind) * 10 ^ 9"

subsection \<open>Feed sources\<close>

definition global_feed :: "string \<Rightarrow> feed_source_row \<Rightarrow> bool" where
  "global_feed sid r \<longleftrightarrow> fs_id r = sid \<and> fs_owner_user_id r = None"

definition GetFeedSource :: "store_env \<Rightarrow> control_db \<Rightarrow> string \<Rightarrow> control_error + FeedSource" where
  "GetFeedSource env db sid =
     bind_ok (beginUnscopedTx env db) (\<lambda>tx.
     bind_ok (sql_get env ''feed_sources'' feed_sources (global_feed (TrimSpace sid)) tx) (\<lambda>r.
     bind_ok (scanFeedSource r) (\<lambda>source.
     bind_ok (tx_Commit env tx) (\<lambda>_. Inr source))))"

definition CreateFeedSource ::
    "store_env \<Rightarrow> control_db \<Rightarrow> go_context \<Rightarrow> Actor option \<Rightarrow> FeedSourceInput \<Rightarrow> string \<Rightarrow>
     control_db \<times> (control_error + FeedSource)" where
  "CreateFeedSource env db ctx actor input reason0 =
     (let reason = mutationReason reason0 (fsi_Reason input) in
      or_fail db (
        bind_ok (require_ok (requireGlobalFeedAdmin actor)) (\<lambda>_.
        bind_ok (valid_input (validateFeedSourceInput input)) (\<lambda>_.
        bind_ok (require_reason reason) (\<lambda>_. db_guard env NewUUID [])))) (\<lambda>_.
      commit_or_drop env db (
        bind_ok (beginUnscopedTx env db) (\<lambda>tx.
        bind_ok (int4 (uint (effectiveFeedIntervalSeconds (defaultInterval (fsi_IntervalSeconds input)) (fsi_Type input)))) (\<lambda>interval.
        (let row = \<lparr>fs_id = se_uuid env 0, fs_owner_user_id = None, fs_enabled = boolDefault (fsi_Enabled input) False,
               fs_name = fsi_Name input, fs_type = normalizeFeedType (fsi_Type input), fs_url = fsi_URL input,
               fs_credential_ref = feedCredentialForCreate (fsi_CredentialRef input),
               fs_required_for_production = fsi_RequiredForProduction input, fs_interval_seconds = interval,
               fs_license_note = fsi_LicenseNote input, fs_quota_metadata = defaultJSON (fsi_QuotaMetadata input),
               fs_status = defaultString (fsi_Status input) ''placeholder'', fs_last_success_at = None,
               fs_last_error_at = None, fs_last_error = [], fs_next_run_at = None, fs_active_entries = 0,
               fs_conflict_count = 0, fs_parse_error_count = 0\<rparr>
         in
        bind_ok (sql_insert env ''feed_sources'' feed_sources feed_sources_update feed_clash row tx) (\<lambda>tx.
        bind_ok (scanFeedSource row) (\<lambda>source.
        bind_ok (insertAudit env ctx tx actor ''create_feed_source'' ''feed_source'' (fd_ID source) reason) (\<lambda>tx.
        Inr (tx, source))))))))))"

text \<open>The snapshots are rebuilt after the commit when the source was switched on or off.\<close>

definition rebuild_after ::
    "store_env \<Rightarrow> go_context \<Rightarrow> Actor option \<Rightarrow> string \<Rightarrow> (FeedSource \<Rightarrow> bool) \<Rightarrow>
     control_db \<times> (control_error + FeedSource) \<Rightarrow> control_db \<times> (control_error + FeedSource)" where
  "rebuild_after env ctx actor reason needed res = (case res of
     (db, Inl e) \<Rightarrow> (db, Inl e)
   | (db, Inr source) \<Rightarrow>
       if needed source then
         (case rebuildAllActiveUserSnapshots env db ctx actor reason of
            (db', Inl e) \<Rightarrow> (db', Inl e) | (db', Inr _) \<Rightarrow> (db', Inr source))
       else (db, Inr source))"

definition UpdateFeedSource ::
    "store_env \<Rightarrow> control_db \<Rightarrow> go_context \<Rightarrow> Actor option \<Rightarrow> string \<Rightarrow> FeedSourceInput \<Rightarrow> string \<Rightarrow>
     control_db \<times> (control_error + FeedSource)" where
  "UpdateFeedSource env db ctx actor sid input reason0 =
     (let reason = mutationReason reason0 (fsi_Reason input) in
      or_fail db (
        bind_ok (require_ok (requireGlobalFeedAdmin actor)) (\<lambda>_.
        bind_ok (valid_input (validateFeedSourceInput input)) (\<lambda>_.
        bind_ok (require_reason reason) (\<lambda>_. GetFeedSource env db sid)))) (\<lambda>before.
      (let interval = (if fsi_IntervalSeconds input = 0 then fd_IntervalSeconds before else fsi_IntervalSeconds input)
       in
      rebuild_after env ctx actor reason (\<lambda>source. fd_Enabled before \<noteq> fd_Enabled source) (
      commit_or_drop env db (
        bind_ok (beginUnscopedTx env db) (\<lambda>tx.
        bind_ok (int4 (uint interval)) (\<lambda>seconds.
        bind_ok (sql_update env ''feed_sources'' feed_sources feed_sources_update feed_clash (global_feed sid)
            (\<lambda>r. r\<lparr>fs_name := fsi_Name input, fs_type := normalizeFeedType (fsi_Type input), fs_url := fsi_URL input,
               fs_credential_ref := feedCredentialForUpdate (fd_CredentialRef before) (fsi_CredentialRef input),
               fs_required_for_production := fsi_RequiredForProduction input,
               fs_enabled := boolDefault (fsi_Enabled input) (fd_Enabled before), fs_interval_seconds := seconds,
               fs_license_note := fsi_LicenseNote input, fs_quota_metadata := defaultJSON (fsi_QuotaMetadata input),
               fs_status := defaultString (fsi_Status input) (fd_Status before),
               fs_next_run_at := Some (next_run env interval (fsi_Type input))\<rparr>) tx) (\<lambda>(tx, row).
        bind_ok (scanFeedSource row) (\<lambda>source.
        bind_ok (insertAudit env ctx tx actor ''update_feed_source'' ''feed_source'' (fd_ID source) reason) (\<lambda>tx.
        Inr (tx, source)))))))))))"

definition DisableFeedSource ::
    "store_env \<Rightarrow> control_db \<Rightarrow> go_context \<Rightarrow> Actor option \<Rightarrow> string \<Rightarrow> string \<Rightarrow>
     control_db \<times> (control_error + FeedSource)" where
  "DisableFeedSource env db ctx actor sid reason =
     or_fail db (
       bind_ok (require_ok (requireGlobalFeedAdmin actor)) (\<lambda>_.
       bind_ok (require_reason (TrimSpace reason)) (\<lambda>_. GetFeedSource env db sid))) (\<lambda>before.
     rebuild_after env ctx actor (TrimSpace reason) (\<lambda>_. fd_Enabled before) (
     commit_or_drop env db (
       bind_ok (beginUnscopedTx env db) (\<lambda>tx.
       bind_ok (sql_update env ''feed_sources'' feed_sources feed_sources_update feed_clash (global_feed sid)
           (\<lambda>r. r\<lparr>fs_enabled := False, fs_status := ''disabled'', fs_next_run_at := None\<rparr>) tx) (\<lambda>(tx, row).
       bind_ok (scanFeedSource row) (\<lambda>source.
       bind_ok (insertAudit env ctx tx actor ''disable_feed_source'' ''feed_source'' sid (TrimSpace reason)) (\<lambda>tx.
       Inr (tx, source))))))))"

definition ListFeedSources :: "store_env \<Rightarrow> control_db \<Rightarrow> control_error + FeedSource list" where
  "ListFeedSources env db =
     bind_ok (beginUnscopedTx env db) (\<lambda>tx.
     bind_ok (sql_select env ''feed_sources'' feed_sources (\<lambda>r. fs_owner_user_id r = None) tx) (\<lambda>rows.
     bind_ok (map_rows scanFeedSource (sort_slice (\<lambda>a b. fs_name a < fs_name b) rows)) (\<lambda>out.
     bind_ok (tx_Commit env tx) (\<lambda>_. Inr out))))"

definition source_names :: "control_db \<Rightarrow> string \<Rightarrow> string list" where
  "source_names db sid = map fs_name (filter (global_feed sid) (feed_sources db))"

definition ListFeedRuns :: "store_env \<Rightarrow> control_db \<Rightarrow> int \<Rightarrow> control_error + FeedRun list" where
  "ListFeedRuns env db n =
     bind_ok (beginUnscopedTx env db) (\<lambda>tx.
     bind_ok (sql_select env ''feed_runs'' feed_runs (\<lambda>_. True) tx) (\<lambda>rows.
     bind_ok (map_rows (\<lambda>(name, r). scan_run name r)
       (take (list_limit n) (concat (map (\<lambda>r. map (\<lambda>name. (name, r)) (source_names db (frr_source_id r)))
         (sort_slice (\<lambda>a b. frr_started_at b < frr_started_at a) rows))))) (\<lambda>out.
     bind_ok (tx_Commit env tx) (\<lambda>_. Inr out))))"

definition ListFeedConflicts :: "store_env \<Rightarrow> control_db \<Rightarrow> control_error + FeedConflict list" where
  "ListFeedConflicts env db =
     bind_ok (beginUnscopedTx env db) (\<lambda>tx.
     bind_ok (sql_select env ''feed_conflicts'' feed_conflicts (\<lambda>c. fc_status c = ''active'') tx) (\<lambda>rows.
     bind_ok (tx_Commit env tx) (\<lambda>_.
     Inr (concat (map (\<lambda>c. concat (map (\<lambda>name. concat (map (\<lambda>r. map (\<lambda>w.
         \<lparr>fcf_ID = fc_id c, fcf_SourceID = fc_source_id c, fcf_SourceName = name, fcf_ReputationID = fc_reputation_id c,
          fcf_WhitelistID = fc_whitelist_id c, fcf_ReputationCIDR = re_ip_or_cidr r, fcf_WhitelistCIDR = wl_ip_or_cidr w,
          fcf_Status = fc_status c, fcf_DetectedAt = fc_detected_at c\<rparr>)
         (filter (\<lambda>w. wl_id w = fc_whitelist_id c) (whitelist_entries db)))
         (filter (\<lambda>r. re_id r = fc_reputation_id c \<and> re_owner_user_id r = None) (reputation_entries db))))
         (source_names db (fc_source_id c))))
       (sort_slice (\<lambda>a b. fc_detected_at b < fc_detected_at a) rows))))))"

subsection \<open>Synchronisation\<close>

datatype sync_error = SyncFetch feed_error | SyncStore control_error | SyncRunning | SyncNoSource

record ('u, 'q) sync_net =
  sn_feed :: "('u, 'q) feed_net"
  sn_telegram :: telegram_net
  sn_Error :: "sync_error \<Rightarrow> string"
  sn_evidence :: "string \<Rightarrow> string \<Rightarrow> string \<Rightarrow> string"

definition loadFeedWhitelist :: "store_env \<Rightarrow> control_db \<Rightarrow> control_error + feedWhitelist list" where
  "loadFeedWhitelist env db =
     bind_ok (beginUnscopedTx env db) (\<lambda>tx.
     bind_ok (sql_select env ''whitelist_entries'' whitelist_entries
         (\<lambda>w. wl_enabled w \<and> not_expired (se_now env) (wl_expires_at w)) tx) (\<lambda>rows.
     bind_ok (map_rows (\<lambda>w. (case parseCIDR (wl_ip_or_cidr w) of
         Inl e \<Rightarrow> Inl (ErrorText ''invalid CIDR'')
       | Inr p \<Rightarrow> Inr \<lparr>fw_ID = wl_id w, fw_OwnerUserID = wl_owner_user_id w, fw_Prefix = p\<rparr>)) rows) (\<lambda>out.
     bind_ok (tx_Commit env tx) (\<lambda>_. Inr out))))"

definition startFeedRun :: "store_env \<Rightarrow> control_db \<Rightarrow> string \<Rightarrow> control_db \<times> (control_error + FeedRun)" where
  "startFeedRun env db sourceID =
     or_fail db (db_guard env NewUUID []) (\<lambda>_.
     commit_or_drop env db (
       bind_ok (beginUnscopedTx env db) (\<lambda>tx.
       (let row = \<lparr>frr_id = se_uuid env 0, frr_source_id = sourceID, frr_started_at = se_now env, frr_finished_at = None,
              frr_status = ''running'', frr_items_fetched = 0, frr_items_valid = 0, frr_parse_errors = 0,
              frr_error = [], frr_snapshot_version = 0\<rparr>
        in
       bind_ok (if list_ex (\<lambda>r. fs_id r = sourceID) (feed_sources (tx_db tx)) then Inr () else Inl ForeignKeyViolation) (\<lambda>_.
       bind_ok (sql_insert env ''feed_runs'' feed_runs feed_runs_update (\<lambda>a b. frr_id a = frr_id b) row tx) (\<lambda>tx.
       bind_ok (scan_run [] row) (\<lambda>run.
       Inr (tx, run))))))))"

definition entry_row ::
    "store_env \<Rightarrow> control_db \<Rightarrow> nat \<Rightarrow> string \<Rightarrow> normalizedFeedEntry \<Rightarrow> control_error + reputation_row" where
  "entry_row env db k sourceID entry =
     bind_ok (to_inet env (Prefix_String (ne_CIDR entry))) (\<lambda>cidr.
     bind_ok (int4 (uint (ne_Score entry))) (\<lambda>score.
     bind_ok (int4 (uint (ne_TTLSeconds entry))) (\<lambda>ttl.
     Inr \<lparr>re_ebpf_id = se_identity env ''reputation_entries'' db, re_source_id = sourceID, re_owner_user_id = None,
       re_ip_or_cidr = cidr, re_score = score, re_action = ne_Action entry, re_status = ''active'',
       re_expires_at = (if 0 < ne_TTLSeconds entry then Some (se_clock env + uint (ne_TTLSeconds entry) * 10 ^ 9) else None),
       re_id = se_uuid env k, re_reason = ne_Reason entry, re_ttl_seconds = ttl,
       re_metadata = defaultJSON (ne_Metadata entry), re_first_seen_at = se_now env, re_last_seen_at = se_now env\<rparr>)))"

definition same_entry :: "reputation_row \<Rightarrow> reputation_row \<Rightarrow> bool" where
  "same_entry a b \<longleftrightarrow> re_source_id a = re_source_id b \<and> re_ip_or_cidr a = re_ip_or_cidr b \<and>
     re_action a = re_action b \<and> re_score a = re_score b \<and> re_ttl_seconds a = re_ttl_seconds b"

definition entry_clash :: "reputation_row \<Rightarrow> reputation_row \<Rightarrow> bool" where
  "entry_clash a b \<longleftrightarrow> re_id a = re_id b \<or> re_ebpf_id a = re_ebpf_id b"

definition refresh_entry :: "store_env \<Rightarrow> reputation_row \<Rightarrow> reputation_row \<Rightarrow> reputation_row" where
  "refresh_entry env row r = r\<lparr>re_reason := re_reason row, re_expires_at := re_expires_at row,
     re_status := re_status row, re_metadata := re_metadata row, re_last_seen_at := se_now env\<rparr>"

text \<open>The conflicts of one entry with the white list; \<open>k\<close> counts the identifiers drawn.\<close>

fun record_conflicts ::
    "store_env \<Rightarrow> string \<Rightarrow> string \<Rightarrow> conflictMatch list \<Rightarrow> nat \<Rightarrow> transaction \<Rightarrow> control_error + transaction" where
  "record_conflicts env sourceID reputationID [] k tx = Inr tx"
| "record_conflicts env sourceID reputationID (m # ms) k tx =
     bind_ok (db_guard env NewUUID []) (\<lambda>_.
     bind_ok (references_user tx (cm_OwnerUserID m)) (\<lambda>_.
     bind_ok (if list_ex (\<lambda>w. wl_id w = cm_WhitelistID m) (whitelist_entries (tx_db tx)) then Inr ()
              else Inl ForeignKeyViolation) (\<lambda>_.
     bind_ok (sql_upsert env ''feed_conflicts'' feed_conflicts feed_conflicts_update
         (\<lambda>a b. fc_reputation_id a = fc_reputation_id b \<and> fc_whitelist_id a = fc_whitelist_id b)
         (\<lambda>a b. fc_id a = fc_id b)
         (\<lambda>c. c\<lparr>fc_status := ''active'', fc_resolved_at := None, fc_detected_at := se_now env\<rparr>)
         \<lparr>fc_id = se_uuid env k, fc_owner_user_id = cm_OwnerUserID m, fc_source_id = sourceID,
          fc_reputation_id = reputationID, fc_whitelist_id = cm_WhitelistID m, fc_status = ''active'',
          fc_detected_at = se_now env, fc_resolved_at = None\<rparr> tx) (\<lambda>(tx, _).
     record_conflicts env sourceID reputationID ms (Suc k) tx))))"

fun store_entries ::
    "store_env \<Rightarrow> string \<Rightarrow> feedWhitelist list \<Rightarrow> normalizedFeedEntry list \<Rightarrow> nat \<Rightarrow> transaction \<Rightarrow>
     control_error + transaction" where
  "store_entries env sourceID whitelist [] k tx = Inr tx"
| "store_entries env sourceID whitelist (entry # entries) k tx =
     (let matches = matchingWhitelists (ne_CIDR entry) whitelist in
     bind_ok (db_guard env NewUUID []) (\<lambda>_.
     bind_ok (entry_row env (tx_db tx) k sourceID entry) (\<lambda>row.
     bind_ok (if list_ex (\<lambda>s. fs_id s = sourceID) (feed_sources (tx_db tx)) then Inr () else Inl ForeignKeyViolation) (\<lambda>_.
     bind_ok (sql_upsert env ''reputation_entries'' reputation_entries reputation_entries_update same_entry entry_clash
         (refresh_entry env row) row tx) (\<lambda>(tx, stored).
     bind_ok (record_conflicts env sourceID (re_id stored) matches (Suc k) tx) (\<lambda>tx.
     store_entries env sourceID whitelist entries (Suc k + length matches) tx))))))"

definition conflict_total :: "normalizedFeedEntry list \<Rightarrow> feedWhitelist list \<Rightarrow> u32" where
  "conflict_total entries whitelist =
     of_nat (sum_list (map (\<lambda>e. length (matchingWhitelists (ne_CIDR e) whitelist)) entries))"

definition replace_in_tx ::
    "store_env \<Rightarrow> FeedSource \<Rightarrow> normalizedFeedEntry list \<Rightarrow> feedWhitelist list \<Rightarrow> transaction \<Rightarrow>
     control_error + transaction" where
  "replace_in_tx env source entries whitelist tx =
     bind_ok (sql_exec env ''reputation_entries'' reputation_entries_update
         (\<lambda>r. re_source_id r = fd_ID source \<and> re_owner_user_id r = None)
         (\<lambda>r. r\<lparr>re_status := ''inactive'', re_last_seen_at := se_now env\<rparr>) tx) (\<lambda>tx.
     bind_ok (sql_exec env ''feed_conflicts'' feed_conflicts_update
         (\<lambda>c. fc_source_id c = fd_ID source \<and> fc_status c = ''active'')
         (\<lambda>c. c\<lparr>fc_status := ''resolved'', fc_resolved_at := Some (se_now env)\<rparr>) tx) (\<lambda>tx.
     bind_ok (store_entries env (fd_ID source) whitelist entries 0 tx) (\<lambda>tx.
     bind_ok (int4 (uint (of_nat (length entries) :: u32))) (\<lambda>active.
     bind_ok (int4 (uint (conflict_total entries whitelist))) (\<lambda>conflicts.
     sql_exec env ''feed_sources'' feed_sources_update (global_feed (fd_ID source))
         (\<lambda>r. r\<lparr>fs_status := feedStatusHealthy, fs_active_entries := active, fs_conflict_count := conflicts,
            fs_next_run_at := Some (next_run env (fd_IntervalSeconds source) (fd_Type source))\<rparr>) tx)))))"

definition replaceFeedEntries ::
    "store_env \<Rightarrow> control_db \<Rightarrow> go_context \<Rightarrow> FeedSource \<Rightarrow> normalizedFeedEntry list \<Rightarrow> feedWhitelist list \<Rightarrow>
     Actor option \<Rightarrow> string \<Rightarrow> control_db \<times> (control_error + u32)" where
  "replaceFeedEntries env db ctx source entries whitelist actor reason =
     (case commit_or_drop env db (
        bind_ok (beginUnscopedTx env db) (\<lambda>tx.
        bind_ok (replace_in_tx env source entries whitelist tx) (\<lambda>tx. Inr (tx, ())))) of
        (db', Inl e) \<Rightarrow> (db', Inl e)
      | (db', Inr _) \<Rightarrow> rebuildAllActiveUserSnapshots env db' ctx actor (mutationReason [] reason))"

text \<open>The alerts of a failed run, one for every active user; failures are only logged.\<close>

fun feed_alerts ::
    "(nat \<Rightarrow> nat \<Rightarrow> store_env) \<Rightarrow> telegram_net \<Rightarrow> go_context \<Rightarrow> AlertInput \<Rightarrow> string list \<Rightarrow> nat \<Rightarrow> control_db \<Rightarrow>
     control_db \<times> telegram_request list" where
  "feed_alerts envs net ctx input [] k db = (db, [])"
| "feed_alerts envs net ctx input (owner # owners) k db =
     (case CreateSystemAlert (envs k) net db (contextWithOwner ctx owner) input of
        (db', reqs, _) \<Rightarrow>
          (case feed_alerts envs net ctx input owners (Suc k) db' of (db'', reqs') \<Rightarrow> (db'', reqs @ reqs')))"

definition createGlobalFeedFailureAlerts ::
    "(nat \<Rightarrow> nat \<Rightarrow> store_env) \<Rightarrow> ('u, 'q) sync_net \<Rightarrow> control_db \<Rightarrow> go_context \<Rightarrow> FeedSource \<Rightarrow> string \<Rightarrow>
     control_db \<times> telegram_request list" where
  "createGlobalFeedFailureAlerts envs net db ctx source errText =
     (case activeOwnerUserIDs (envs 0 0) db of
        Inl _ \<Rightarrow> (db, [])
      | Inr owners \<Rightarrow> feed_alerts envs (sn_telegram net) ctx
          \<lparr>ain_Severity = ''warning'', ain_Type = ''feed_failure'', ain_DedupeKey = ''feed_failure:'' @ fd_ID source,
           ain_ServiceID = [], ain_AffectedService = fd_Name source, ain_Vector = ''threat_feed_sync'',
           ain_Evidence = sn_evidence net (fd_ID source) (fd_Name source) errText,
           ain_RecommendedAction = ''check feed source connectivity and credentials; last valid entries remain active''\<rparr>
          owners 1 db)"

definition agentRedactedError :: "('u, 'q) sync_net \<Rightarrow> sync_error \<Rightarrow> string" where
  "agentRedactedError net e = RedactString (sn_Error net e)"

definition finish_in_tx ::
    "store_env \<Rightarrow> FeedSource \<Rightarrow> string \<Rightarrow> u32 option \<Rightarrow> u32 \<Rightarrow> u32 \<Rightarrow> u32 \<Rightarrow> string option \<Rightarrow> transaction \<Rightarrow>
     control_error + (transaction \<times> FeedRun)" where
  "finish_in_tx env source runID version fetched valid parseErrors errText tx =
     bind_ok (int4 (uint fetched)) (\<lambda>fetched.
     bind_ok (int4 (uint valid)) (\<lambda>valid.
     bind_ok (int4 (uint parseErrors)) (\<lambda>errors.
     bind_ok (sql_update env ''feed_runs'' feed_runs feed_runs_update (\<lambda>_ _. False) (\<lambda>r. frr_id r = runID)
         (\<lambda>r. r\<lparr>frr_finished_at := Some (se_now env),
            frr_status := (case errText of None \<Rightarrow> ''success'' | Some _ \<Rightarrow> ''error''), frr_items_fetched := fetched,
            frr_items_valid := valid, frr_parse_errors := errors,
            frr_error := (case errText of None \<Rightarrow> [] | Some t \<Rightarrow> t),
            frr_snapshot_version := (case version of None \<Rightarrow> 0 | Some v \<Rightarrow> uint v)\<rparr>) tx) (\<lambda>(tx, row).
     bind_ok (scan_run [] row) (\<lambda>run.
     bind_ok (sql_exec env ''feed_sources'' feed_sources_update (global_feed (fd_ID source))
         (\<lambda>r. (case errText of
              Some t \<Rightarrow> r\<lparr>fs_status := feedStatusError, fs_last_error_at := Some (se_now env), fs_last_error := t\<rparr>
            | None \<Rightarrow> r\<lparr>fs_status := feedStatusHealthy, fs_last_success_at := Some (se_now env), fs_last_error := []\<rparr>)
            \<lparr>fs_parse_error_count := errors, fs_next_run_at := Some (next_run env (fd_IntervalSeconds source) (fd_Type source))\<rparr>) tx) (\<lambda>tx.
     Inr (tx, run)))))))"

definition finishFeedRun ::
    "(nat \<Rightarrow> nat \<Rightarrow> store_env) \<Rightarrow> ('u, 'q) sync_net \<Rightarrow> control_db \<Rightarrow> go_context \<Rightarrow> FeedSource \<Rightarrow> string \<Rightarrow> u32 option \<Rightarrow>
     u32 \<Rightarrow> u32 \<Rightarrow> u32 \<Rightarrow> sync_error option \<Rightarrow> control_db \<times> telegram_request list \<times> (sync_error + FeedRun)" where
  "finishFeedRun envs net db ctx source runID version fetched valid parseErrors runErr =
     (let errText = map_option (agentRedactedError net) runErr in
     (case commit_or_drop (envs 0 0) db (
         bind_ok (beginUnscopedTx (envs 0 0) db) (\<lambda>tx.
         finish_in_tx (envs 0 0) source runID version fetched valid parseErrors errText tx)) of
        (db', Inl e) \<Rightarrow> (db', [], Inl (SyncStore e))
      | (db', Inr run) \<Rightarrow>
          (case runErr of
             None \<Rightarrow> (db', [], Inr run)
           | Some e \<Rightarrow>
               (case createGlobalFeedFailureAlerts (\<lambda>k. envs (Suc k)) net db' ctx source (agentRedactedError net e) of
                  (db'', reqs) \<Rightarrow> (db'', reqs, Inl e)))))"

definition SyncFeedSource ::
    "(nat \<Rightarrow> nat \<Rightarrow> store_env) \<Rightarrow> ('u, 'q) sync_net \<Rightarrow> (string \<Rightarrow> bool) \<Rightarrow> control_db \<Rightarrow> go_context \<Rightarrow> string \<Rightarrow>
     Actor option \<Rightarrow> string \<Rightarrow> control_db \<times> telegram_request list \<times> (sync_error + FeedRun)" where
  "SyncFeedSource envs net locked db ctx sourceID0 actor reason =
     (let sourceID = TrimSpace sourceID0 in
      if sourceID = [] then (db, [], Inl SyncNoSource)
      else if locked sourceID then (db, [], Inl SyncRunning)
      else (case GetFeedSource (envs 0 0) db sourceID of
        Inl e \<Rightarrow> (db, [], Inl (SyncStore e))
      | Inr source \<Rightarrow>
          (case startFeedRun (envs 1 0) db (fd_ID source) of
             (db1, Inl e) \<Rightarrow> (db1, [], Inl (SyncStore e))
           | (db1, Inr run) \<Rightarrow>
               (let finish = (\<lambda>db. finishFeedRun (\<lambda>k. envs (4 + k)) net db ctx source (frn_ID run)) in
               (case fetchFeed (sn_feed net) source of
                  Inl e \<Rightarrow> finish db1 None 0 0 0 (Some (SyncFetch e))
                | Inr body \<Rightarrow>
                    (let parsed = parseFeedPayload (fn_json (sn_feed net)) source body in
                    (case loadFeedWhitelist (envs 2 0) db1 of
                       Inl e \<Rightarrow> finish db1 None (pf_Fetched parsed) (of_nat (length (pf_Entries parsed)))
                           (pf_ParseErrors parsed) (Some (SyncStore e))
                     | Inr whitelist \<Rightarrow>
                         (let entries = aggregateFeedEntries (dedupeFeedEntries (pf_Entries parsed)) whitelist in
                         (case replaceFeedEntries (envs 3 0) db1 ctx source entries whitelist actor reason of
                            (db2, Inl e) \<Rightarrow> finish db2 None (pf_Fetched parsed) (of_nat (length entries))
                                (pf_ParseErrors parsed) (Some (SyncStore e))
                          | (db2, Inr version) \<Rightarrow> finish db2 (Some version) (pf_Fetched parsed)
                                (of_nat (length entries)) (pf_ParseErrors parsed) None)))))))))"

text \<open>The sources that are due, in order of their time and name, one after the other.\<close>

definition due_feed :: "store_env \<Rightarrow> feed_source_row \<Rightarrow> bool" where
  "due_feed env r \<longleftrightarrow> fs_enabled r \<and> fs_owner_user_id r = None \<and>
     (case fs_next_run_at r of None \<Rightarrow> True | Some t \<Rightarrow> t \<le> se_now env)"

definition due_time :: "store_env \<Rightarrow> feed_source_row \<Rightarrow> int" where
  "due_time env r = (case fs_next_run_at r of None \<Rightarrow> se_now env | Some t \<Rightarrow> t)"

definition due_before :: "store_env \<Rightarrow> feed_source_row \<Rightarrow> feed_source_row \<Rightarrow> bool" where
  "due_before env a b \<longleftrightarrow> due_time env a < due_time env b \<or> (due_time env a = due_time env b \<and> fs_name a < fs_name b)"

fun sync_feeds ::
    "(nat \<Rightarrow> nat \<Rightarrow> nat \<Rightarrow> store_env) \<Rightarrow> (nat \<Rightarrow> ('u, 'q) sync_net) \<Rightarrow> (string \<Rightarrow> bool) \<Rightarrow> go_context \<Rightarrow> string list \<Rightarrow> nat \<Rightarrow>
     control_db \<Rightarrow> control_db \<times> telegram_request list \<times> sync_error list" where
  "sync_feeds envs nets locked ctx [] k db = (db, [], [])"
| "sync_feeds envs nets locked ctx (sid # sids) k db =
     (case SyncFeedSource (envs k) (nets k) locked db ctx sid None ''scheduled feed sync'' of
        (db', reqs, r) \<Rightarrow>
          (case sync_feeds envs nets locked ctx sids (Suc k) db' of
             (db'', reqs', errs) \<Rightarrow> (db'', reqs @ reqs', (case r of Inl e \<Rightarrow> [e] | Inr _ \<Rightarrow> []) @ errs)))"

definition SyncDueFeeds ::
    "(nat \<Rightarrow> nat \<Rightarrow> nat \<Rightarrow> store_env) \<Rightarrow> (nat \<Rightarrow> ('u, 'q) sync_net) \<Rightarrow> (string \<Rightarrow> bool) \<Rightarrow> control_db \<Rightarrow> go_context \<Rightarrow>
     control_db \<times> telegram_request list \<times> nat \<times> sync_error list" where
  "SyncDueFeeds envs nets locked db ctx =
     (let env = envs 0 0 0 in
     (case bind_ok (beginUnscopedTx env db) (\<lambda>tx.
        bind_ok (sql_select env ''feed_sources'' feed_sources (due_feed env) tx) (\<lambda>rows.
        bind_ok (tx_Commit env tx) (\<lambda>_. Inr (map fs_id (sort_slice (due_before env) rows))))) of
        Inl e \<Rightarrow> (db, [], 0, [SyncStore e])
      | Inr feeds \<Rightarrow>
          (case sync_feeds envs nets locked ctx feeds 1 db of (db', reqs, errs) \<Rightarrow> (db', reqs, length feeds, errs))))"

end
