(* ===== verification/ViewingSafety.thy ===== *)
theory ViewingSafety
  imports PolicyIsolation FeedStore
begin

section \<open>Sessions that only look\<close>

text \<open>
  \<open>config_op\<close> names the operations of the store that are guarded by \<^verbatim>\<open>requirePolicyMutation\<close>, \<^verbatim>\<open>requireConfigMutation\<close> or
  \<^verbatim>\<open>requireGlobalFeedAdmin\<close>: the mutations of policy, the rebuild and the roll back of a snapshot, the Telegram
  configuration, the creation of an alert by a user and the feed sources. An administrator whose session views a user,
  or is read only, cannot change the database through any of them. The operations on users and
  sessions ask only for \<^verbatim>\<open>requireAdmin\<close> and are not among them.
\<close>

datatype config_op =
  PolicyOp policy_op
| OpRebuildSnapshot string
| OpRollbackSnapshot u32 string
| OpUpsertTelegramConfig TelegramConfigInput string
| OpCreateAlert AlertInput
| OpCreateFeedSource FeedSourceInput string
| OpUpdateFeedSource string FeedSourceInput string
| OpDisableFeedSource string string

abbreviation no_request :: "control_db \<times> ('e + 'a) \<Rightarrow> control_db \<times> telegram_request list \<times> bool" where
  "no_request res \<equiv> (fst res, [], is_ok (snd res))"

text \<open>The tables after the operation, the requests to Telegram, and whether the operation succeeded.\<close>

fun config_exec ::
    "(nat \<Rightarrow> store_env) \<Rightarrow> telegram_net \<Rightarrow> go_context \<Rightarrow> Actor option \<Rightarrow> config_op \<Rightarrow> control_db \<Rightarrow>
     control_db \<times> telegram_request list \<times> bool" where
  "config_exec envs net ctx actor (PolicyOp oper) db =
     (case policy_exec (envs 0) ctx actor oper db of (db', ok) \<Rightarrow> (db', [], ok))"
| "config_exec envs net ctx actor (OpRebuildSnapshot r) db = no_request (RebuildSnapshot (envs 0) db ctx actor r)"
| "config_exec envs net ctx actor (OpRollbackSnapshot v r) db = no_request (RollbackSnapshot (envs 0) db ctx actor v r)"
| "config_exec envs net ctx actor (OpUpsertTelegramConfig input r) db =
     no_request (UpsertTelegramConfig (envs 0) net db ctx actor input r)"
| "config_exec envs net ctx actor (OpCreateAlert input) db =
     (case CreateAlert envs net db ctx actor input of (db', reqs, r) \<Rightarrow> (db', reqs, is_ok r))"
| "config_exec envs net ctx actor (OpCreateFeedSource input r) db = no_request (CreateFeedSource (envs 0) db ctx actor input r)"
| "config_exec envs net ctx actor (OpUpdateFeedSource i input r) db =
     no_request (UpdateFeedSource (envs 0) db ctx actor i input r)"
| "config_exec envs net ctx actor (OpDisableFeedSource i r) db = no_request (DisableFeedSource (envs 0) db ctx actor i r)"

lemma policy_exec_refused:
  assumes "\<And>t l s. \<exists>e. requirePolicyMutation actor t l s = Inl e" and "\<exists>e. requireConfigMutation actor = Some e"
  shows "policy_exec env ctx actor oper db = (db, False)"
proof -
  have scope: "\<exists>e. requirePolicyMutation actor t l s = Inl e" for t l s by (rule assms(1))
  have or_fail: "apsnd is_ok (or_fail db checks run) = (db, False)" if "\<exists>e. checks = Inl e" for checks run
    using that by (auto simp: or_fail_def)
  show ?thesis
    by (cases oper; simp only: policy_exec.simps; (unfold CreateService_def UpdateService_def DeleteService_def
          CreateForwardingPolicy_def CreateWhitelistEntry_def UpdateWhitelistEntry_def DisableWhitelistEntry_def CreateRule_def
          UpdateRule_def DisableRule_def CreateBlacklistEntry_def UpdateBlacklistEntry_def DisableBlacklistEntry_def
          CreateUDPSourcePortBlock_def UpdateUDPSourcePortBlock_def DisableUDPSourcePortBlock_def Let_def)?;
        rule or_fail; use scope assms(2) in auto)
qed

text \<open>
  C22. Looking at a user's configuration is read only. Whatever the arguments, the environment and the network, an
  administrator whose session views a user or is marked read only fails in every mutation of policy, rebuild or
  roll back of a snapshot, change of the Telegram configuration, creation of an alert and change of a feed source;
  the database stays as it is and no message is sent. The operations on users and sessions are not covered: they ask
  only for the role of an administrator.
\<close>

theorem viewing_changes_nothing:
  assumes "user_Role a = RoleAdmin" and "user_ReadOnly a \<or> user_ViewingUser a \<noteq> None"
  shows "config_exec envs net ctx (Some a) oper db = (db, [], False)"
proof -
  note refused = viewing_refused [OF assms]
  obtain e1 e2 where e: "requireConfigMutation (Some a) = Some e1" "requireGlobalFeedAdmin (Some a) = Some e2"
    using refused(2,3) by blast
  show ?thesis
    by (cases oper) (simp_all add: e policy_exec_refused refused(1) RebuildSnapshot_def RollbackSnapshot_def
        UpsertTelegramConfig_def CreateAlert_def CreateFeedSource_def UpdateFeedSource_def DisableFeedSource_def or_fail_def Let_def)
qed

definition sample_viewer :: Actor where
  "sample_viewer = sample_actor\<lparr>user_Role := RoleAdmin, user_ViewingUser := Some \<lparr>vu_ID = ''u-bob'', vu_Username = ''bob''\<rparr>,
     user_ReadOnly := True\<rparr>"

theorem viewing_changes_nothing_witness:
  "\<forall>net. config_exec (\<lambda>_. sample_env) net None (Some sample_viewer) (OpRollbackSnapshot 1 ''undo'') sample_db1 = (sample_db1, [], False)"
proof -
  have "user_Role sample_viewer = RoleAdmin" "user_ReadOnly sample_viewer \<or> user_ViewingUser sample_viewer \<noteq> None"
    by (simp_all add: sample_viewer_def)
  from viewing_changes_nothing [OF this] show ?thesis by blast
qed

end
