(* ===== verification/RedactionSafety.thy ===== *)
theory RedactionSafety
  imports Redaction
begin

section \<open>What redaction removes\<close>

text \<open>
  The parameters of a query that carry a secret are removed from every text (\<open>query_secrets_redacted\<close>); the
  token of a Telegram bot that stands in the path of a URL is not (\<open>bot_error_redact\<close>).
\<close>

subsection \<open>What a pattern matches\<close>

text \<open>The texts of an expression without repetition and word boundary.\<close>

primrec rx_lang :: "rx \<Rightarrow> string set" where
  "rx_lang (Cls c) = {[x] |x. c x}"
| "rx_lang (Many n c) = {}"
| "rx_lang (Seq a b) = {u @ v |u v. u \<in> rx_lang a \<and> v \<in> rx_lang b}"
| "rx_lang (Alt a b) = rx_lang a \<union> rx_lang b"
| "rx_lang WordBoundary = {}"
| "rx_lang Empty = {[]}"

primrec rx_simple :: "rx \<Rightarrow> bool" where
  "rx_simple (Cls c) = True"
| "rx_simple (Many n c) = False"
| "rx_simple (Seq a b) = (rx_simple a \<and> rx_simple b)"
| "rx_simple (Alt a b) = (rx_simple a \<and> rx_simple b)"
| "rx_simple WordBoundary = False"
| "rx_simple Empty = True"

lemma rx_runs_lang:
  "rx_simple r \<Longrightarrow> (\<exists>q. (q, v) \<in> set (rx_runs r (p, s))) \<longleftrightarrow> (\<exists>k\<in>rx_lang r. s = k @ v)"
proof (induction r arbitrary: p s v)
  case (Cls c)
  then show ?case by (auto split: list.splits)
next
  case (Seq a b)
  have "(\<exists>q. (q, v) \<in> set (rx_runs (Seq a b) (p, s))) \<longleftrightarrow>
      (\<exists>w. (\<exists>q. (q, w) \<in> set (rx_runs a (p, s)) \<and> (\<exists>q'. (q', v) \<in> set (rx_runs b (q, w)))))" by auto
  also have "\<dots> \<longleftrightarrow> (\<exists>w. (\<exists>q. (q, w) \<in> set (rx_runs a (p, s))) \<and> (\<exists>k\<in>rx_lang b. w = k @ v))"
    using Seq.IH(2) Seq.prems by simp
  also have "\<dots> \<longleftrightarrow> (\<exists>w. (\<exists>j\<in>rx_lang a. s = j @ w) \<and> (\<exists>k\<in>rx_lang b. w = k @ v))"
    using Seq.IH(1) Seq.prems by simp
  also have "\<dots> \<longleftrightarrow> (\<exists>k\<in>rx_lang (Seq a b). s = k @ v)"
  proof
    assume "\<exists>w. (\<exists>j\<in>rx_lang a. s = j @ w) \<and> (\<exists>k\<in>rx_lang b. w = k @ v)"
    then obtain j k where "j \<in> rx_lang a" "k \<in> rx_lang b" "s = j @ k @ v" by blast
    then show "\<exists>k\<in>rx_lang (Seq a b). s = k @ v" by (intro bexI [of _ "j @ k"]) auto
  next
    assume "\<exists>k\<in>rx_lang (Seq a b). s = k @ v"
    then obtain j k where "j \<in> rx_lang a" "k \<in> rx_lang b" "s = (j @ k) @ v" by auto
    then show "\<exists>w. (\<exists>j\<in>rx_lang a. s = j @ w) \<and> (\<exists>k\<in>rx_lang b. w = k @ v)"
      by (intro exI [of _ "k @ v"]) auto
  qed
  finally show ?case .
next
  case (Alt a b)
  have "(\<exists>q. (q, v) \<in> set (rx_runs (Alt a b) (p, s))) \<longleftrightarrow>
      (\<exists>q. (q, v) \<in> set (rx_runs a (p, s))) \<or> (\<exists>q. (q, v) \<in> set (rx_runs b (p, s)))" by auto
  then show ?case using Alt by auto
qed auto

lemma rx_text_lang [simp]: "rx_simple (rx_text t)" "rx_lang (rx_text t) = {t}"
  by (induction t) auto

lemma rx_fold_simple [simp]: "rx_simple (rx_fold c)"
  by (simp add: rx_fold_def Let_def)

lemma rx_word_simple [simp]: "rx_simple (rx_word t)"
  by (induction t) (auto simp: rx_word.simps)

lemma many_runs_empty: "rx_runs (Many 1 c) (p, s) = [] \<longleftrightarrow> s = [] \<or> \<not> c (hd s)"
  by (cases s) auto

lemma rx_fold_chars:
  assumes "w \<in> rx_lang (rx_fold c)" and "x \<in> set w"
  shows "lower_char x = c \<or> x \<in> {CHR 0xC5, CHR 0xBF, CHR 0xE2, CHR 0x84, CHR 0xAA}"
  using assms by (auto simp: rx_fold_def Let_def split: if_splits)

lemma rx_word_chars:
  "w \<in> rx_lang (rx_word t) \<Longrightarrow> x \<in> set w \<Longrightarrow>
     lower_char x \<in> set t \<or> x \<in> {CHR 0xC5, CHR 0xBF, CHR 0xE2, CHR 0x84, CHR 0xAA}"
proof (induction t arbitrary: w)
  case (Cons c t)
  then obtain u v where "w = u @ v" "u \<in> rx_lang (rx_fold c)" "v \<in> rx_lang (rx_word t)"
    by (auto simp: rx_word.simps)
  then show ?case using Cons rx_fold_chars [of u c x] by auto
qed (simp add: rx_word.simps)

subsection \<open>Secrets in the query of a URL\<close>

abbreviation query_start :: "char \<Rightarrow> bool" where
  "query_start c \<equiv> c = CHR ''?'' \<or> c = CHR ''&''"

definition query_keys :: "string set" where
  "query_keys = rx_lang (rule_left querySecretRE)"

lemma query_left_runs: "(\<exists>q. (q, v) \<in> set (rx_runs (rule_left querySecretRE) (p, s))) \<longleftrightarrow> (\<exists>k\<in>query_keys. s = k @ v)"
  unfolding query_keys_def by (rule rx_runs_lang) (simp add: querySecretRE_def)

lemma query_key_shape:
  assumes "k \<in> query_keys"
  obtains q w where "k = q # w @ ''=''" and "query_start q" and "\<forall>x\<in>set w. \<not> query_start x \<and> x \<noteq> CHR ''=''"
proof -
  obtain q w where k: "k = q # w @ ''=''" "query_start q"
    and w: "\<exists>t\<in>{''token'', ''key'', ''api_key'', ''apikey'', ''password'', ''secret''}. w \<in> rx_lang (rx_word t)"
    using assms by (auto simp: query_keys_def querySecretRE_def)
  have "\<not> query_start x \<and> x \<noteq> CHR ''=''" if "x \<in> set w" for x
  proof -
    have "lower_char CHR ''?'' = CHR ''?''" "lower_char CHR ''&'' = CHR ''&''" "lower_char CHR ''='' = CHR ''=''"
      by code_simp+
    then show ?thesis using w rx_word_chars [OF _ that] by fastforce
  qed
  then show thesis using that k by blast
qed

text \<open>
  The value of a parameter ends before the next \<^verbatim>\<open>&\<close> or white space. A text whose secrets in query
  parameters are all replaced: the whole value after each key is the mark, or the value is empty.
\<close>

definition query_value :: "string \<Rightarrow> string" where
  "query_value v = takeWhile (\<lambda>c. c \<noteq> CHR ''&'' \<and> \<not> rx_space c) v"

definition query_hidden :: "string \<Rightarrow> bool" where
  "query_hidden t \<longleftrightarrow>
     (\<forall>u k v. t = u @ k @ v \<longrightarrow> k \<in> query_keys \<longrightarrow> query_value v = [] \<or> query_value v = redactedValue)"

definition value_end :: "string \<Rightarrow> bool" where
  "value_end v \<longleftrightarrow> v = [] \<or> hd v = CHR ''&'' \<or> rx_space (hd v)"

lemma query_value_empty: "query_value v = [] \<longleftrightarrow> value_end v"
  by (cases v) (auto simp: query_value_def value_end_def)

lemma value_end_drop: "value_end (dropWhile (\<lambda>c. c \<noteq> CHR ''&'' \<and> \<not> rx_space c) v)"
  by (induction v) (auto simp: value_end_def)

lemma query_value_mark: "query_value v = redactedValue \<longleftrightarrow> (\<exists>z. v = redactedValue @ z \<and> value_end z)"
proof
  assume v: "query_value v = redactedValue"
  let ?z = "dropWhile (\<lambda>c. c \<noteq> CHR ''&'' \<and> \<not> rx_space c) v"
  have "v = redactedValue @ ?z" using v by (metis query_value_def takeWhile_dropWhile_id)
  moreover have "value_end ?z" by (rule value_end_drop)
  ultimately show "\<exists>z. v = redactedValue @ z \<and> value_end z" by blast
next
  have mark: "\<And>c. c \<in> set redactedValue \<Longrightarrow> c \<noteq> CHR ''&'' \<and> \<not> rx_space c"
    by (auto simp: redactedValue_def rx_space_def)
  assume "\<exists>z. v = redactedValue @ z \<and> value_end z"
  then obtain z where z: "v = redactedValue @ z" "query_value z = []" unfolding query_value_empty by blast
  show "query_value v = redactedValue"
    using takeWhile_append2 [of redactedValue "\<lambda>c. c \<noteq> CHR ''&'' \<and> \<not> rx_space c" z] mark z
    unfolding query_value_def by simp
qed

text \<open>The steps of the pass over a text: a replaced parameter, or a byte that is copied.\<close>

lemma rule_runs_hd:
  assumes "rule_runs rule st = (a, b, c) # rest"
  shows "a \<in> set (rx_runs (rule_left rule) st)" and "b \<in> set (rx_runs (rule_secret rule) a)"
    and "c \<in> set (rx_runs (rule_right rule) b)"
proof -
  have "(a, b, c) \<in> set (rule_runs rule st)" by (simp add: assms)
  then show "a \<in> set (rx_runs (rule_left rule) st)" "b \<in> set (rx_runs (rule_secret rule) a)"
    "c \<in> set (rx_runs (rule_right rule) b)" by (auto simp: rule_runs_def)
qed

lemma many_run_shorter: "b \<in> set (rx_runs (Many n c) a) \<Longrightarrow> length (snd b) \<le> length (snd a)"
  by (auto simp: advance_def)

text \<open>The preferred match of a repetition is the longest.\<close>

lemma concat_first: "concat (map f xs) = y # ys \<Longrightarrow> \<exists>x\<in>set xs. \<exists>zs. f x = y # zs"
  by (induction xs) (auto simp: append_eq_Cons_conv)

lemma many_first:
  assumes "rx_runs (Many n c) a = b # bs"
  shows "snd b = dropWhile c (snd a)"
proof -
  let ?m = "length (takeWhile c (snd a))"
  have runs: "map (advance a) (rev [n ..< Suc ?m]) = b # bs" using assms by (simp only: rx_runs.simps)
  then have "n \<le> ?m" by (cases "n \<le> ?m") simp_all
  then have "[n ..< Suc ?m] = [n ..< ?m] @ [?m]" by (rule upt_Suc_append)
  with runs have "b = advance a ?m" by (simp only: rev_append rev.simps append.simps list.map list.inject)
  then show ?thesis by (simp add: advance_def dropWhile_eq_drop split: if_splits)
qed

lemma query_longest:
  assumes "rule_runs querySecretRE st = (a, b, c) # rest"
  shows "value_end (snd c)"
proof -
  let ?C = "\<lambda>c. c \<noteq> CHR ''&'' \<and> \<not> rx_space c"
  obtain a' zs where "concat (map (\<lambda>b. map (\<lambda>c. (a', b, c)) (rx_runs (rule_right querySecretRE) b))
      (rx_runs (rule_secret querySecretRE) a')) = (a, b, c) # zs"
    using concat_first [OF assms [unfolded rule_runs_def]] by blast
  then have "map (\<lambda>b. (a', b, b)) (rx_runs (Many 1 ?C) a') = (a, b, c) # zs"
    by (simp add: querySecretRE_def del: rx_runs.simps(2))
  then obtain bs where "rx_runs (Many 1 ?C) a' = c # bs" by (auto simp del: rx_runs.simps(2))
  from many_first [OF this] show ?thesis using value_end_drop by simp
qed

lemma query_match:
  assumes "rule_runs querySecretRE (p, s) = (a, b, c) # rest"
  obtains k where "k \<in> query_keys" and "s = k @ snd a" and "b = c" and "length (snd c) < length s"
proof -
  note r = rule_runs_hd [OF assms]
  obtain k where k: "k \<in> query_keys" "s = k @ snd a"
    using query_left_runs [of "snd a" p s] r(1) by (metis prod.collapse)
  have "k \<noteq> []" using k(1) by (auto elim: query_key_shape)
  moreover have "length (snd c) \<le> length (snd a)" "b = c"
    using r(2,3) many_run_shorter [of b 1 _ a] by (auto simp: querySecretRE_def)
  ultimately have "length (snd c) < length s" unfolding k(2) by (cases k) auto
  then show thesis using that [OF k] \<open>b = c\<close> by blast
qed

lemma rule_runs_empty:
  "rule_runs rule st = [] \<longleftrightarrow>
     (\<forall>a\<in>set (rx_runs (rule_left rule) st). \<forall>b\<in>set (rx_runs (rule_secret rule) a). rx_runs (rule_right rule) b = [])"
  by (simp add: rule_runs_def)

lemma query_no_match:
  assumes "rule_runs querySecretRE (p, s) = []" and "k \<in> query_keys" and "s = k @ v"
  shows "value_end v"
proof -
  obtain q where "(q, v) \<in> set (rx_runs (rule_left querySecretRE) (p, s))"
    using query_left_runs [of v p s] assms(2,3) by blast
  with assms(1) have "\<forall>b\<in>set (rx_runs (rule_secret querySecretRE) (q, v)). rx_runs (rule_right querySecretRE) b = []"
    unfolding rule_runs_empty by blast
  then have "rx_runs (Many 1 (\<lambda>c. c \<noteq> CHR ''&'' \<and> \<not> rx_space c)) (q, v) = []"
    unfolding querySecretRE_def by (simp only: rx_rule.simps rx_runs.simps(6)) (metis list.distinct(1) list.set_intros(1) neq_Nil_conv)
  then show ?thesis unfolding many_runs_empty value_end_def by blast
qed

abbreviation hide_query :: "char option \<Rightarrow> string \<Rightarrow> string" where
  "hide_query \<equiv> replace_rule querySecretRE"

lemma hide_query_cases:
  obtains (stop) "s = []" and "hide_query p s = []"
  | (copy) x xs where "s = x # xs" and "hide_query p s = x # hide_query (Some x) xs"
      and "rule_runs querySecretRE (p, s) = []"
  | (hide) k v q w where "k \<in> query_keys" and "s = k @ v" and "hide_query p s = k @ redactedValue @ hide_query q w"
      and "length w < length s" and "value_end w"
proof (cases "rule_runs querySecretRE (p, s)")
  case Nil
  then show thesis using that(1,2) by (cases s) (simp_all add: replace_rule.simps)
next
  case (Cons abc rest)
  obtain a b c where abc: "abc = (a, b, c)" by (cases abc)
  from query_match [OF Cons [unfolded abc]] obtain k where k: "k \<in> query_keys" "s = k @ snd a" "b = c"
    "length (snd c) < length s" .
  have "text_between s (snd a) = k" "text_between (snd b) (snd c) = []"
    using k(2,3) by (simp_all add: text_between_def)
  then have "hide_query p s = k @ redactedValue @ hide_query (fst c) (snd c)"
    using k(4) unfolding replace_rule.simps [of _ p s] Cons abc by simp
  then show thesis using that(3) k query_longest [OF Cons [unfolded abc]] by blast
qed

lemma hide_query_end:
  assumes "value_end w"
  shows "value_end (hide_query q w)"
proof (cases rule: hide_query_cases [of w q])
  case (hide k v q' w')
  moreover obtain c z where "k = c # z @ ''=''" using hide(1) by (rule query_key_shape)
  ultimately show ?thesis using assms by (simp add: value_end_def)
qed (use assms in \<open>auto simp: value_end_def\<close>)

text \<open>Up to the next parameter the output is the input.\<close>

lemma hide_query_copies:
  assumes "hide_query p s = w @ v" and "\<forall>x\<in>set w. \<not> query_start x"
  shows "\<exists>v'. s = w @ v' \<and> (v' = [] \<longleftrightarrow> v = []) \<and> (v \<noteq> [] \<longrightarrow> hd v' = hd v)"
  using assms
proof (induction w arbitrary: p s)
  case Nil
  show ?case
  proof (cases rule: hide_query_cases [of s p])
    case (hide k v' q w)
    obtain c z where "k = c # z @ ''=''" using hide(1) by (rule query_key_shape)
    then show ?thesis using Nil hide by auto
  next
    case (copy x xs)
    then show ?thesis using Nil by (intro exI [of _ s]) (metis append_Nil list.distinct(1) list.sel(1))
  qed (use Nil in auto)
next
  case (Cons x w)
  show ?case
  proof (cases rule: hide_query_cases [of s p])
    case (copy y ys)
    then show ?thesis using Cons.IH [of "Some y" ys] Cons.prems by auto
  next
    case (hide k v' q w)
    obtain c z where "k = c # z @ ''=''" "query_start c" using hide(1) by (rule query_key_shape)
    then show ?thesis using Cons.prems hide by auto
  qed (use Cons in auto)
qed

lemma key_unique:
  assumes "k \<in> query_keys" and "k' \<in> query_keys" and "k @ v = k' @ v'"
  shows "k = k' \<and> v = v'"
proof -
  from assms(1,2) obtain q w q' w' where "k = q # w @ ''=''" "k' = q' # w' @ ''=''"
    "\<forall>x\<in>set w. x \<noteq> CHR ''=''" "\<forall>x\<in>set w'. x \<noteq> CHR ''=''" by (metis query_key_shape)
  with assms(3) have "w @ CHR ''='' # v = w' @ CHR ''='' # v'" "q = q'" by simp_all
  then show ?thesis
    using split_at_sep [of "CHR ''=''" w w' v v'] \<open>\<forall>x\<in>set w. x \<noteq> CHR ''=''\<close> \<open>\<forall>x\<in>set w'. x \<noteq> CHR ''=''\<close>
      \<open>k = _\<close> \<open>k' = _\<close> by auto
qed

lemma skip_plain:
  "pre @ out = u @ q # z \<Longrightarrow> query_start q \<Longrightarrow> \<forall>x\<in>set pre. \<not> query_start x \<Longrightarrow> \<exists>u'. out = u' @ q # z"
proof (induction pre arbitrary: u)
  case (Cons x pre)
  then show ?case by (cases u) auto
qed auto

lemma query_hidden_copy:
  assumes "query_hidden (hide_query (Some x) xs)" and "rule_runs querySecretRE (p, x # xs) = []"
  shows "query_hidden (x # hide_query (Some x) xs)"
  unfolding query_hidden_def
proof (intro allI impI)
  fix u k v assume t: "x # hide_query (Some x) xs = u @ k @ v" and k: "k \<in> query_keys"
  show "query_value v = [] \<or> query_value v = redactedValue"
  proof (cases u)
    case Nil
    obtain q w where shape: "k = q # w @ ''=''" "\<forall>c\<in>set w. \<not> query_start c \<and> c \<noteq> CHR ''=''"
      using k by (rule query_key_shape)
    then have "hide_query (Some x) xs = (w @ ''='') @ v" "\<forall>c\<in>set (w @ ''=''). \<not> query_start c"
      using t Nil by auto
    from hide_query_copies [OF this] obtain v' where v': "xs = (w @ ''='') @ v'" "v' = [] \<longleftrightarrow> v = []"
      "v \<noteq> [] \<longrightarrow> hd v' = hd v" by blast
    then have "x # xs = k @ v'" using shape t Nil by simp
    from query_no_match [OF assms(2) k this] show ?thesis
      unfolding query_value_empty using v' by (auto simp: value_end_def)
  next
    case (Cons y u')
    then show ?thesis using assms(1) t k by (auto simp: query_hidden_def)
  qed
qed

lemma query_hidden_hide:
  assumes "query_hidden t" and "k0 \<in> query_keys" and "value_end t"
  shows "query_hidden (k0 @ redactedValue @ t)"
  unfolding query_hidden_def
proof (intro allI impI)
  fix u k v assume t: "k0 @ redactedValue @ t = u @ k @ v" and k: "k \<in> query_keys"
  obtain q w where shape: "k = q # w @ ''=''" "query_start q" using k by (rule query_key_shape)
  show "query_value v = [] \<or> query_value v = redactedValue"
  proof (cases u)
    case Nil
    then show ?thesis
      using key_unique [OF assms(2) k, of "redactedValue @ t" v] t assms(3) query_value_mark by auto
  next
    case (Cons y u')
    obtain q0 w0 where k0: "k0 = q0 # w0 @ ''=''" "\<forall>x\<in>set w0. \<not> query_start x \<and> x \<noteq> CHR ''=''"
      using assms(2) by (rule query_key_shape)
    have "\<forall>x\<in>set ((w0 @ ''='') @ redactedValue). \<not> query_start x" using k0(2) by (auto simp: redactedValue_def)
    moreover have "((w0 @ ''='') @ redactedValue) @ t = u' @ q # (w @ ''='' @ v)"
      using t unfolding Cons k0(1) shape(1) by simp
    ultimately obtain u'' where "t = u'' @ q # (w @ ''='' @ v)" using skip_plain [OF _ shape(2)] by meson
    then have "t = u'' @ k @ v" unfolding shape(1) by simp
    then show ?thesis using assms(1) k unfolding query_hidden_def by blast
  qed
qed

lemma hide_query_hides: "query_hidden (hide_query p s)"
proof (induction "length s" arbitrary: p s rule: less_induct)
  case less
  show ?case
  proof (cases rule: hide_query_cases [of s p])
    case stop
    have "k \<noteq> []" if "k \<in> query_keys" for k using that by (rule query_key_shape) simp
    then show ?thesis using stop by (auto simp: query_hidden_def)
  next
    case (copy x xs)
    then show ?thesis using less [of xs "Some x"] query_hidden_copy [of x xs p] by simp
  next
    case (hide k v q w)
    then show ?thesis using less [of w q] query_hidden_hide hide_query_end by simp
  qed
qed

subsection \<open>The header pass keeps what is hidden\<close>

abbreviation hide_header :: "char option \<Rightarrow> string \<Rightarrow> string" where
  "hide_header \<equiv> replace_rule authHeaderRE"

lemma header_name:
  assumes "h \<in> rx_lang (rx_word ''authorization'')"
  shows "\<forall>x\<in>set h. \<not> query_start x \<and> x \<noteq> CHR ''=''" and "\<exists>c d t. h = c # d # t \<and> lower_char c = CHR ''a'' \<and> lower_char d = CHR ''u''"
proof -
  have "lower_char CHR ''?'' = CHR ''?''" "lower_char CHR ''&'' = CHR ''&''" "lower_char CHR ''='' = CHR ''=''"
    by code_simp+
  then show "\<forall>x\<in>set h. \<not> query_start x \<and> x \<noteq> CHR ''=''"
    using rx_word_chars [OF assms] by fastforce
  show "\<exists>c d t. h = c # d # t \<and> lower_char c = CHR ''a'' \<and> lower_char d = CHR ''u''"
    using assms by (auto simp: rx_word.simps rx_fold_def)
qed

lemma letter_fold: "lower_char x = c \<Longrightarrow> is_alpha c \<Longrightarrow> is_alpha x"
  by (auto simp: lower_char_def is_alpha_def split: if_splits)

lemma rx_word_letters:
  "w \<in> rx_lang (rx_word t) \<Longrightarrow> \<forall>c\<in>set t. is_alpha c \<and> c \<noteq> CHR ''s'' \<and> c \<noteq> CHR ''k'' \<Longrightarrow> \<forall>x\<in>set w. is_alpha x"
proof (induction t arbitrary: w)
  case (Cons c t)
  then obtain x v where "w = x # v" "lower_char x = c" "v \<in> rx_lang (rx_word t)"
    by (auto simp: rx_word.simps rx_fold_def)
  then show ?case using Cons letter_fold by auto
qed (simp add: rx_word.simps)

lemma header_letters: "h \<in> rx_lang (rx_word ''authorization'') \<Longrightarrow> \<forall>x\<in>set h. is_alpha x"
  by (erule rx_word_letters) code_simp

lemma seq_run:
  assumes "a \<in> set (rx_runs (Seq r1 r2) st)"
  obtains q w where "(q, w) \<in> set (rx_runs r1 st)" and "a \<in> set (rx_runs r2 (q, w))"
  using assms by auto

lemma many_run_text:
  assumes "(q, v) \<in> set (rx_runs (Many n c) (p, s))"
  shows "\<exists>t. s = t @ v \<and> (\<forall>x\<in>set t. c x) \<and> n \<le> length t"
proof -
  from assms obtain i where i: "n \<le> i" "i \<le> length (takeWhile c s)" and "(q, v) = advance (p, s) i" by auto
  then have v: "v = drop i s" by (simp add: advance_def split: if_splits)
  have "take i s = take i (take (length (takeWhile c s)) s)" using i(2) by (simp add: min_absorb1)
  also have "\<dots> = take i (takeWhile c s)" by (simp only: takeWhile_eq_take [symmetric])
  finally have "\<forall>x\<in>set (take i s). c x" by (metis in_set_takeD set_takeWhileD)
  moreover have "i \<le> length s" using i(2) length_takeWhile_le le_trans by blast
  ultimately show ?thesis using i(1) v by (intro exI [of _ "take i s"]) auto
qed

lemma header_match:
  assumes "rule_runs authHeaderRE (p, s) = (a, b, c) # rest"
  obtains h sp sec where "h \<in> rx_lang (rx_word ''authorization'')" and "\<forall>x\<in>set sp. rx_space x"
    and "s = (h @ '':'' @ sp) @ snd a" and "snd a = sec @ snd b" and "b = c"
proof -
  note r = rule_runs_hd [OF assms]
  from r(1) obtain q1 w1 q2 w2 where
    1: "(q1, w1) \<in> set (rx_runs (rx_word ''authorization'') (p, s))" and 2: "(q2, w2) \<in> set (rx_runs (rx_text '':'') (q1, w1))"
    and 3: "a \<in> set (rx_runs (Many 0 rx_space) (q2, w2))"
    by (simp add: authHeaderRE_def del: rx_text.simps rx_runs.simps(2)) (metis surj_pair)
  obtain h where h: "h \<in> rx_lang (rx_word ''authorization'')" "s = h @ w1"
    using 1 rx_runs_lang [OF rx_word_simple] by blast
  have "w1 = '':'' @ w2" using 2 rx_runs_lang [OF rx_text_lang(1)] by (metis rx_text_lang(2) singletonD)
  moreover obtain sp where "w2 = sp @ snd a" "\<forall>x\<in>set sp. rx_space x" using many_run_text 3 by (metis prod.collapse)
  moreover obtain sec where "snd a = sec @ snd b"
    using r(2) many_run_text unfolding authHeaderRE_def by (metis prod.collapse rx_rule.select_convs(2))
  moreover have "b = c" using r(3) by (simp add: authHeaderRE_def)
  ultimately show thesis using that [OF h(1)] h(2) by simp
qed

lemma hide_header_cases:
  obtains (stop) "s = []" and "hide_header p s = []"
  | (copy) x xs where "s = x # xs" and "hide_header p s = x # hide_header (Some x) xs"
  | (hide) h sp sec q w where "h \<in> rx_lang (rx_word ''authorization'')" and "\<forall>x\<in>set sp. rx_space x"
      and "s = (h @ '':'' @ sp) @ sec @ w" and "hide_header p s = (h @ '':'' @ sp @ redactedValue) @ hide_header q w"
proof (cases "rule_runs authHeaderRE (p, s)")
  case Nil
  then show thesis using that(1,2) by (cases s) (simp_all add: replace_rule.simps)
next
  case (Cons abc rest)
  obtain a b c where abc: "abc = (a, b, c)" by (cases abc)
  from header_match [OF Cons [unfolded abc]] obtain h sp sec where m: "h \<in> rx_lang (rx_word ''authorization'')"
    "\<forall>x\<in>set sp. rx_space x" "s = (h @ '':'' @ sp) @ snd a" "snd a = sec @ snd b" "b = c" .
  have "text_between s (snd a) = h @ '':'' @ sp" "text_between (snd b) (snd c) = []" "length (snd c) < length s"
    using m(3,4,5) by (simp_all add: text_between_def)
  then have "hide_header p s = (h @ '':'' @ sp @ redactedValue) @ hide_header (fst c) (snd c)"
    unfolding replace_rule.simps [of _ p s] Cons abc by simp
  then show thesis using that(3) [OF m(1,2)] m(3,4,5) by metis
qed

text \<open>A text that ends in \<^verbatim>\<open>=\<close> and has no colon is not touched, nor is the mark itself.\<close>

lemma hide_header_copies:
  assumes "hide_header p s = w @ v" and "CHR '':'' \<notin> set w" and "w = [] \<or> last w = CHR ''=''"
  shows "\<exists>q v'. s = w @ v' \<and> hide_header q v' = v"
  using assms
proof (induction w arbitrary: p s)
  case (Cons x w)
  show ?case
  proof (cases rule: hide_header_cases [of s p])
    case (copy y ys)
    then have "hide_header (Some x) ys = w @ v" "y = x" using Cons.prems(1) by auto
    moreover have "w = [] \<or> last w = CHR ''=''" using Cons.prems(3) by (cases w) auto
    ultimately show ?thesis using Cons.IH [of "Some x" ys] Cons.prems(2) copy(1) by auto
  next
    case (hide h sp sec q u)
    have eq: "(x # w) @ v = (h @ '':'') @ (sp @ redactedValue @ hide_header q u)" using Cons.prems(1) hide(4) by simp
    have "CHR ''='' \<in> set (x # w)" using Cons.prems(3) by (metis last_in_set list.distinct(1))
    moreover have "CHR ''='' \<notin> set (h @ '':'')" using header_name(1) [OF hide(1)] by auto
    ultimately have "\<not> prefix (x # w) (h @ '':'')" by (meson set_mono_prefix subsetD)
    then have "prefix (h @ '':'') (x # w)" using eq by (metis prefixI prefix_same_cases)
    then show ?thesis using Cons.prems(2) by (metis in_set_conv_decomp set_mono_prefix subsetD)
  qed (use Cons.prems in auto)
qed auto

lemma hide_header_mark: "\<exists>q. hide_header p (redactedValue @ z) = redactedValue @ hide_header q z"
proof -
  have "hide_header p (x # y # t) = x # hide_header (Some x) (y # t)"
    if "lower_char x \<noteq> CHR ''a'' \<or> lower_char y \<noteq> CHR ''u''" for p x y t
  proof (cases rule: hide_header_cases [of "x # y # t" p])
    case (hide h sp sec q w)
    then show ?thesis using header_name(2) [OF hide(1)] that by auto
  qed auto
  moreover have "hide_header p (CHR '']'' # t) = CHR '']'' # hide_header (Some CHR '']'') t" for p t
  proof (cases rule: hide_header_cases [of "CHR '']'' # t" p])
    case (hide h sp sec q w)
    moreover have "lower_char CHR '']'' \<noteq> CHR ''a''" by code_simp
    ultimately show ?thesis using header_name(2) [OF hide(1)] by auto
  qed auto
  moreover have "lower_char CHR ''['' \<noteq> CHR ''a''" "lower_char CHR ''R'' \<noteq> CHR ''a''" "lower_char CHR ''E'' \<noteq> CHR ''a''"
    "lower_char CHR ''D'' \<noteq> CHR ''a''" "lower_char CHR ''C'' \<noteq> CHR ''a''" "lower_char CHR ''C'' \<noteq> CHR ''u''"
    "lower_char CHR ''T'' \<noteq> CHR ''a''" by code_simp+
  ultimately show ?thesis by (auto simp: redactedValue_def)
qed

lemma query_hidden_suffix: "query_hidden (u @ t) \<Longrightarrow> query_hidden t"
  unfolding query_hidden_def by (metis append.assoc)

lemma query_key_no_colon:
  assumes "k \<in> query_keys"
  shows "CHR '':'' \<notin> set k"
proof -
  obtain q w t where "k = q # w @ ''=''" "query_start q" and w: "w \<in> rx_lang (rx_word t)"
    and t: "t \<in> {''token'', ''key'', ''api_key'', ''apikey'', ''password'', ''secret''}"
    using assms by (auto simp: query_keys_def querySecretRE_def)
  moreover have "lower_char CHR '':'' = CHR '':''" by code_simp
  then have "CHR '':'' \<notin> set w" using t rx_word_chars [OF w, of "CHR '':''"] by auto
  ultimately show ?thesis by auto
qed

lemma hide_header_end:
  assumes "value_end v"
  shows "value_end (hide_header q v)"
proof (cases rule: hide_header_cases [of v q])
  case (hide h sp sec q w)
  then have "lower_char (hd v) = CHR ''a''" "v \<noteq> []" using header_name(2) [OF hide(1)] by auto
  then show ?thesis using assms by (auto simp: value_end_def rx_space_def lower_char_def)
qed (use assms in \<open>auto simp: value_end_def\<close>)

lemma hide_header_value:
  assumes "query_value v = [] \<or> query_value v = redactedValue"
  shows "query_value (hide_header q v) = [] \<or> query_value (hide_header q v) = redactedValue"
  using assms hide_header_end hide_header_mark [of q] unfolding query_value_empty query_value_mark by metis

lemma query_hidden_prepend:
  assumes "query_hidden t" and "\<forall>x\<in>set pre. \<not> query_start x"
  shows "query_hidden (pre @ t)"
  unfolding query_hidden_def
proof (intro allI impI)
  fix u k v assume t: "pre @ t = u @ k @ v" and k: "k \<in> query_keys"
  obtain q w where shape: "k = q # w @ ''=''" "query_start q" using k by (rule query_key_shape)
  then obtain u' where "t = u' @ q # (w @ ''='' @ v)" using skip_plain [OF _ shape(2) assms(2)] t by fastforce
  then have "t = u' @ k @ v" unfolding shape(1) by simp
  then show "query_value v = [] \<or> query_value v = redactedValue"
    using assms(1) k unfolding query_hidden_def by blast
qed

lemma space_no_query: "rx_space x \<Longrightarrow> \<not> query_start x"
  by (auto simp: rx_space_def)

lemma hide_header_hidden: "query_hidden s \<Longrightarrow> query_hidden (hide_header p s)"
proof (induction "length s" arbitrary: p s rule: less_induct)
  case less
  show ?case
  proof (cases rule: hide_header_cases [of s p])
    case stop
    then show ?thesis using less.prems by simp
  next
    case (copy x xs)
    have tail: "query_hidden (hide_header (Some x) xs)"
      using less.hyps [of xs "Some x"] less.prems copy(1) query_hidden_suffix [of "[x]" xs] by simp
    show ?thesis unfolding query_hidden_def
    proof (intro allI impI)
      fix u k v assume t: "hide_header p s = u @ k @ v" and k: "k \<in> query_keys"
      show "query_value v = [] \<or> query_value v = redactedValue"
      proof (cases u)
        case Nil
        obtain c z where "k = c # z @ ''=''" using k by (rule query_key_shape)
        then obtain q v' where "s = k @ v'" and v: "hide_header q v' = v"
          using hide_header_copies [of p s k v] t Nil query_key_no_colon [OF k] by auto
        then have "query_value v' = [] \<or> query_value v' = redactedValue"
          using less.prems k unfolding query_hidden_def by (metis append_Nil)
        then show ?thesis using hide_header_value [of v' q] v by simp
      next
        case (Cons y u')
        then have "hide_header (Some x) xs = u' @ k @ v" using t copy(2) by auto
        then show ?thesis using tail k unfolding query_hidden_def by blast
      qed
    qed
  next
    case (hide h sp sec q w)
    have "length w < length s" unfolding hide(3) by simp
    moreover have "query_hidden w"
      by (rule query_hidden_suffix [of "(h @ '':'' @ sp) @ sec"]) (use less.prems hide(3) in \<open>metis append.assoc\<close>)
    ultimately have "query_hidden (hide_header q w)" by (rule less.hyps)
    moreover have "\<forall>x\<in>set (h @ '':'' @ sp @ redactedValue). \<not> query_start x"
    proof -
      have "\<forall>x\<in>set sp. \<not> query_start x" using hide(2) space_no_query by blast
      moreover have "\<forall>x\<in>set h. \<not> query_start x" using header_name(1) [OF hide(1)] by blast
      moreover have "\<forall>x\<in>set ('':'' @ redactedValue). \<not> query_start x" by (simp add: redactedValue_def)
      ultimately show ?thesis by (simp only: set_append ball_Un) simp
    qed
    ultimately show ?thesis unfolding hide(4) by (rule query_hidden_prepend)
  qed
qed

text \<open>
  C30. No secret of a query parameter survives \<^verbatim>\<open>RedactString\<close>: whatever the text, each key in its output that
  names a secret (\<^verbatim>\<open>token\<close>, \<^verbatim>\<open>key\<close>, \<^verbatim>\<open>api_key\<close>, \<^verbatim>\<open>apikey\<close>, \<^verbatim>\<open>password\<close>, \<^verbatim>\<open>secret\<close>, in any case) has the
  mark as its whole value, up to the next \<^verbatim>\<open>&\<close> or white space, or has no value.
\<close>

theorem query_secrets_redacted: "query_hidden (RedactString text)"
  unfolding RedactString_def Let_def by (intro hide_header_hidden hide_query_hides)

subsection \<open>Texts without a match\<close>

text \<open>
  \<open>clear P p s z\<close>: in the text \<open>s @ z\<close>, \<open>P\<close> holds at every position of \<open>s\<close>, of the byte before the position and the rest of
  the text. A pattern with no match at any of them leaves \<open>s\<close> as it is, whatever follows it.
\<close>

fun clear :: "(char option \<Rightarrow> string \<Rightarrow> bool) \<Rightarrow> char option \<Rightarrow> string \<Rightarrow> string \<Rightarrow> bool" where
  "clear P p [] z = True"
| "clear P p (x # xs) z = (P p (x # xs @ z) \<and> clear P (Some x) xs z)"

abbreviation last_byte :: "char option \<Rightarrow> string \<Rightarrow> char option" where
  "last_byte p s \<equiv> (if s = [] then p else Some (last s))"

lemma clear_append: "clear P p (s @ t) z \<longleftrightarrow> clear P p s (t @ z) \<and> clear P (last_byte p s) t z"
  by (induction s arbitrary: p) auto

lemma clear_each: "(\<And>q x w. x \<in> set s \<Longrightarrow> P q (x # w)) \<Longrightarrow> clear P p s z"
  by (induction s arbitrary: p) auto

lemma clear_suffixes: "(\<And>q u x v. s = u @ x # v \<Longrightarrow> P q (x # v @ z)) \<Longrightarrow> clear P p s z"
proof (induction s arbitrary: p)
  case (Cons x s)
  have "P q (y # v @ z)" if "s = u @ y # v" for q u y v using Cons.prems [of "x # u" y v] that by simp
  then show ?case using Cons.IH Cons.prems [of "[]" x s] by simp
qed simp

lemma clear_same:
  assumes "clear P p s z" and "\<And>q t. P q t \<Longrightarrow> rule_runs rule (q, t) = []"
  shows "\<exists>q. replace_rule rule p (s @ z) = s @ replace_rule rule q z"
  using assms(1)
proof (induction s arbitrary: p)
  case (Cons x s)
  then have "rule_runs rule (p, x # s @ z) = []" using assms(2) by simp
  then show ?case using Cons by (simp add: replace_rule.simps [of rule p])
qed auto

lemma rule_runs_none:
  assumes "\<And>a b c rest. rule_runs rule st = (a, b, c) # rest \<Longrightarrow> False"
  shows "rule_runs rule st = []"
  using assms by (cases "rule_runs rule st") auto

text \<open>Each pattern needs a colon after a run of a class of its own, or a query.\<close>

definition no_colon :: "string \<Rightarrow> bool" where
  "no_colon t \<longleftrightarrow> (case t of [] \<Rightarrow> True | x # _ \<Rightarrow> x \<noteq> CHR '':'')"

lemma no_colon_run: "CHR '':'' \<notin> set s \<Longrightarrow> \<not> C x \<Longrightarrow> x \<noteq> CHR '':'' \<Longrightarrow> no_colon (dropWhile C (s @ x # w))"
  by (induction s) (auto simp: no_colon_def)

lemma drop_run: "\<forall>x\<in>set u. C x \<Longrightarrow> \<not> C y \<Longrightarrow> dropWhile C (u @ y # w) = y # w"
  by (induction u) auto

definition no_token :: "char option \<Rightarrow> string \<Rightarrow> bool" where
  "no_token p t \<longleftrightarrow> is_word p \<or> t = [] \<or> \<not> is_digit (hd t) \<or> no_colon (dropWhile is_digit t)"

lemma token_match:
  assumes "rule_runs telegramTokenRE (p, t) = (a, b, c) # rest"
  obtains ds w where "t = ds @ CHR '':'' # w" and "ds \<noteq> []" and "\<forall>x\<in>set ds. is_digit x"
    and "is_word p \<noteq> is_word (Some (hd t))"
proof -
  note r = rule_runs_hd [OF assms]
  have "a = (p, t)" using r(1) by (simp add: telegramTokenRE_def)
  with r(2) have "b \<in> set (rx_runs (Seq WordBoundary (Seq (Many 6 is_digit) (Seq (rx_text '':'')
       (Seq (Many 20 (\<lambda>c. is_alpha c \<or> is_digit c \<or> c = CHR ''_'' \<or> c = CHR ''-'')) WordBoundary)))) (p, t))"
    unfolding telegramTokenRE_def by (simp only: rx_rule.simps)
  then obtain q0 w0 q1 w1 q2 w2 where 0: "(q0, w0) \<in> set (rx_runs WordBoundary (p, t))"
    and 1: "(q1, w1) \<in> set (rx_runs (Many 6 is_digit) (q0, w0))" and 2: "(q2, w2) \<in> set (rx_runs (rx_text '':'') (q1, w1))"
    by (elim seq_run)
  have w: "w0 = t" "is_word p \<noteq> is_word (case t of [] \<Rightarrow> None | x # _ \<Rightarrow> Some x)" using 0 by (auto split: if_splits)
  obtain ds where ds: "t = ds @ w1" "\<forall>x\<in>set ds. is_digit x" "6 \<le> length ds" using many_run_text [OF 1] w(1) by blast
  have w1: "w1 = '':'' @ w2" using 2 rx_runs_lang [OF rx_text_lang(1)] by (metis rx_text_lang(2) singletonD)
  have "t \<noteq> []" "ds \<noteq> []" using ds by auto
  moreover from this have "is_word p \<noteq> is_word (Some (hd t))" using w(2) by (cases t) simp_all
  ultimately show thesis using that [of ds w2] ds w1 by simp
qed

lemma no_token_runs:
  assumes "no_token p t"
  shows "rule_runs telegramTokenRE (p, t) = []"
proof (rule rule_runs_none)
  fix a b c rest assume "rule_runs telegramTokenRE (p, t) = (a, b, c) # rest"
  then obtain ds w where t: "t = ds @ CHR '':'' # w" "ds \<noteq> []" "\<forall>x\<in>set ds. is_digit x"
    "is_word p \<noteq> is_word (Some (hd t))" by (rule token_match)
  have "is_digit (hd t)" using t(1,2,3) by simp
  then have "\<not> is_word p" using t(4) by (simp add: is_word_def)
  moreover have "\<not> is_digit CHR '':''" by code_simp
  then have "dropWhile is_digit t = CHR '':'' # w" using drop_run t(1,3) by metis
  ultimately show False using assms t(1,2) \<open>is_digit (hd t)\<close> by (auto simp: no_token_def no_colon_def)
qed

definition no_header :: "char option \<Rightarrow> string \<Rightarrow> bool" where
  "no_header p t \<longleftrightarrow> t = [] \<or> lower_char (hd t) \<noteq> CHR ''a'' \<or> no_colon (dropWhile is_alpha t)"

lemma no_header_runs:
  assumes "no_header p t"
  shows "rule_runs authHeaderRE (p, t) = []"
proof (rule rule_runs_none)
  fix a b c rest assume "rule_runs authHeaderRE (p, t) = (a, b, c) # rest"
  then obtain h sp where h: "h \<in> rx_lang (rx_word ''authorization'')" and t: "t = (h @ '':'' @ sp) @ snd a"
    by (rule header_match)
  obtain x y z where "h = x # y # z" "lower_char x = CHR ''a''" using header_name(2) [OF h] by blast
  then have "lower_char (hd t) = CHR ''a''" "t \<noteq> []" by (simp_all add: t)
  moreover have "\<forall>x\<in>set h. is_alpha x" using header_letters [OF h] by blast
  moreover have "\<not> is_alpha CHR '':''" by code_simp
  ultimately show False using assms drop_run [of h is_alpha "CHR '':''" "sp @ snd a"] by (simp add: no_header_def no_colon_def t)
qed

definition no_query :: "char option \<Rightarrow> string \<Rightarrow> bool" where
  "no_query p t \<longleftrightarrow> t = [] \<or> \<not> query_start (hd t)"

lemma no_query_runs:
  assumes "no_query p t"
  shows "rule_runs querySecretRE (p, t) = []"
proof (rule rule_runs_none)
  fix a b c rest assume "rule_runs querySecretRE (p, t) = (a, b, c) # rest"
  then obtain k where k: "k \<in> query_keys" "t = k @ snd a" by (rule query_match)
  obtain q w where "k = q # w @ ''=''" "query_start q" using k(1) by (rule query_key_shape)
  then show False using assms k(2) by (simp add: no_query_def)
qed

text \<open>No scheme, or a scheme and an authority without colon.\<close>

abbreviation scheme_char :: "char \<Rightarrow> bool" where
  "scheme_char c \<equiv> is_alpha c \<or> is_digit c \<or> c \<in> set ''+.-''"

abbreviation host_char :: "char \<Rightarrow> bool" where
  "host_char c \<equiv> c \<notin> set '':/@'' \<and> \<not> rx_space c"

definition no_dsn :: "char option \<Rightarrow> string \<Rightarrow> bool" where
  "no_dsn p t \<longleftrightarrow> (let r = dropWhile scheme_char t in
     \<not> prefix ''://'' r \<or> no_colon (dropWhile host_char (drop 3 r)))"

lemma no_dsn_runs:
  assumes "no_dsn p t"
  shows "rule_runs dsnRE (p, t) = []"
proof (rule rule_runs_none)
  fix a b c rest assume "rule_runs dsnRE (p, t) = (a, b, c) # rest"
  from rule_runs_hd(1) [OF this] have "a \<in> set (rx_runs (Seq (Cls is_alpha)
       (Seq (Many 0 scheme_char) (Seq (rx_text ''://'') (Seq (Many 1 host_char) (rx_text '':''))))) (p, t))"
    unfolding dsnRE_def by (simp only: rx_rule.simps)
  then obtain q1 xs q2 w2 q3 w3 q4 w4 where 1: "(q1, xs) \<in> set (rx_runs (Cls is_alpha) (p, t))"
    and 2: "(q2, w2) \<in> set (rx_runs (Many 0 scheme_char) (q1, xs))"
    and 3: "(q3, w3) \<in> set (rx_runs (rx_text ''://'') (q2, w2))"
    and 4: "(q4, w4) \<in> set (rx_runs (Many 1 host_char) (q3, w3))"
    and 5: "a \<in> set (rx_runs (rx_text '':'') (q4, w4))"
    by (elim seq_run)
  obtain x where x: "t = x # xs" "is_alpha x" using 1 by (auto split: list.splits if_splits)
  have w2: "w2 = ''://'' @ w3" using 3 rx_runs_lang [OF rx_text_lang(1)] by (metis rx_text_lang(2) singletonD)
  have w4: "w4 = '':'' @ snd a" using 5 rx_runs_lang [OF rx_text_lang(1)] by (metis prod.collapse rx_text_lang(2) singletonD)
  obtain u where u: "xs = u @ w2" "\<forall>c\<in>set u. scheme_char c" using many_run_text [OF 2] by blast
  obtain host where host: "w3 = host @ w4" "\<forall>c\<in>set host. host_char c" using many_run_text [OF 4] by blast
  have "\<not> scheme_char CHR '':''" "\<not> host_char CHR '':''" by code_simp+
  then have "dropWhile scheme_char t = ''://'' @ w3" "dropWhile host_char w3 = '':'' @ snd a"
    using drop_run [of "x # u" scheme_char "CHR '':''" "''//'' @ w3"] x u drop_run [of host host_char "CHR '':''" "snd a"] host
    by (simp_all add: w2 w4)
  then show False using assms by (simp add: no_dsn_def no_colon_def Let_def)
qed

text \<open>A text that no pattern matches stays, whatever follows it.\<close>

lemma clear_redact:
  assumes "\<And>z. clear no_token None s z" and "\<And>z. clear no_dsn None s z"
    and "\<And>z. clear no_query None s z" and "\<And>z. clear no_header None s z"
  shows "\<exists>z'. RedactString (s @ z) = s @ z'"
proof -
  obtain z1 where 1: "replace_rule telegramTokenRE None (s @ z) = s @ z1" using clear_same [OF assms(1) no_token_runs] by blast
  obtain z2 where 2: "replace_rule dsnRE None (s @ z1) = s @ z2" using clear_same [OF assms(2) no_dsn_runs] by blast
  obtain z3 where 3: "replace_rule querySecretRE None (s @ z2) = s @ z3" using clear_same [OF assms(3) no_query_runs] by blast
  obtain z4 where 4: "replace_rule authHeaderRE None (s @ z3) = s @ z4" using clear_same [OF assms(4) no_header_runs] by blast
  show ?thesis by (simp add: RedactString_def 1 2 3 4)
qed

subsection \<open>A bot token in the path of a URL\<close>

text \<open>
  A Telegram bot token is a number, a colon and a text of letters, digits, \<^verbatim>\<open>_\<close> and \<^verbatim>\<open>-\<close>. In the path of the request's
  URL it follows the letters \<^verbatim>\<open>bot\<close>, so that no word begins at it.
\<close>

definition bot_token :: "string \<Rightarrow> string \<Rightarrow> bool" where
  "bot_token ds cs \<longleftrightarrow> ds \<noteq> [] \<and> list_all is_digit ds \<and>
     list_all (\<lambda>c. is_alpha c \<or> is_digit c \<or> c = CHR ''_'' \<or> c = CHR ''-'') cs"

abbreviation bot_host :: string where
  "bot_host \<equiv> ''Post '' @ [CHR 0x22] @ ''https://api.telegram.org/''"

abbreviation bot_method :: string where
  "bot_method \<equiv> ''/sendMessage'' @ [CHR 0x22] @ '': ''"

definition bot_error :: "string \<Rightarrow> string \<Rightarrow> string" where
  "bot_error ds cs = bot_host @ (''bot'' @ ds) @ '':'' @ cs @ bot_method"

lemma bot_clear:
  assumes "\<And>w. clear P None bot_host w"
    and "\<And>w. clear P (Some CHR ''/'') (''bot'' @ ds) ('':'' @ cs @ ''/sendMessage'' @ w)"
    and "\<And>p w. clear P p '':'' (cs @ ''/sendMessage'' @ w)" and "\<And>p w. clear P p cs (''/sendMessage'' @ w)"
    and "\<And>p w. clear P p bot_method w"
  shows "clear P None (bot_error ds cs) z"
proof -
  have 1: "last_byte None bot_host = Some CHR ''/''" by simp
  show ?thesis unfolding bot_error_def
    by (simp only: clear_append [of P None bot_host] clear_append [of P "Some CHR ''/''" "''bot'' @ ds"]
        clear_append [of P _ "'':''"] clear_append [of P _ cs] 1) (use assms in \<open>simp only: append_assoc simp_thms\<close>)
qed

lemma bot_chars:
  assumes "bot_token ds cs"
  shows "\<forall>x\<in>set (''bot'' @ ds). scheme_char x" and "\<forall>x\<in>set ds. is_digit x" and "CHR '':'' \<notin> set cs" and "CHR ''/'' \<notin> set cs"
    and "\<forall>x\<in>set (ds @ cs). \<not> query_start x" and "\<forall>x\<in>set (''bot'' @ ds). lower_char x \<noteq> CHR ''a''"
proof -
  have "\<forall>x\<in>set ''bot''. scheme_char x \<and> lower_char x \<noteq> CHR ''a''" by code_simp
  moreover have "lower_char x \<noteq> CHR ''a''" if "is_digit x" for x
    using that by (auto simp: lower_char_def is_digit_def)
  moreover show "\<forall>x\<in>set ds. is_digit x" using assms by (simp add: bot_token_def list_all_iff)
  ultimately show "\<forall>x\<in>set (''bot'' @ ds). scheme_char x" "\<forall>x\<in>set (''bot'' @ ds). lower_char x \<noteq> CHR ''a''"
    unfolding set_append ball_Un by blast+
  have "\<not> (is_alpha x \<or> is_digit x \<or> x = CHR ''_'' \<or> x = CHR ''-'')" if "x \<in> set '':/?&''" for x
    using that by (auto simp: is_alpha_def is_digit_def)
  then show "CHR '':'' \<notin> set cs" "CHR ''/'' \<notin> set cs" "\<forall>x\<in>set (ds @ cs). \<not> query_start x"
    using assms unfolding bot_token_def list_all_iff by auto
qed

text \<open>A class that leaves out the slash and the colon: no run of it in the second part of a token ends at a colon.\<close>

lemma bot_run:
  assumes "bot_token ds cs" and "\<not> C CHR ''/''" and "\<And>q t. no_colon (dropWhile C t) \<Longrightarrow> P q t"
  shows "clear P p cs (''/sendMessage'' @ w)"
proof (rule clear_suffixes)
  fix q u x v assume "cs = u @ x # v"
  then have "CHR '':'' \<notin> set (x # v)" using bot_chars(3) [OF assms(1)] by simp
  then have "no_colon (dropWhile C ((x # v) @ CHR ''/'' # ''sendMessage'' @ w))"
    using assms(2) by (intro no_colon_run) simp_all
  from assms(3) [OF this] show "P q (x # v @ ''/sendMessage'' @ w)" by simp
qed

lemma bot_no_token:
  assumes "bot_token ds cs"
  shows "clear no_token None (bot_error ds cs) z"
proof (rule bot_clear)
  have plain: "clear no_token p s w" if "\<forall>x\<in>set s. \<not> is_digit x" for p s w
    using that by (intro clear_each) (simp add: no_token_def)
  have "clear no_token p s w" if "is_word p" "\<forall>x\<in>set s. is_digit x" for p s w
    using that by (induction s arbitrary: p) (auto simp: no_token_def is_word_def)
  moreover have "is_word (Some CHR ''t'')" by code_simp
  ultimately have "clear no_token (Some CHR ''t'') ds w" for w using bot_chars(2) [OF assms] by blast
  moreover have "clear no_token (Some CHR ''/'') ''bot'' w" for w by (rule plain) code_simp
  ultimately show "clear no_token (Some CHR ''/'') (''bot'' @ ds) w" for w unfolding clear_append by simp
  show "clear no_token None bot_host w" for w by (rule plain) code_simp
  show "clear no_token p '':'' w" for p w by (rule plain) code_simp
  show "clear no_token p bot_method w" for p w by (rule plain) code_simp
  have "\<not> is_digit CHR ''/''" by code_simp
  then show "clear no_token p cs (''/sendMessage'' @ w)" for p w
    by (rule bot_run [OF assms]) (simp add: no_token_def)
qed

lemma bot_no_header:
  assumes "bot_token ds cs"
  shows "clear no_header None (bot_error ds cs) z"
proof (rule bot_clear)
  have other: "clear no_header p s w" if "\<forall>x\<in>set s. lower_char x \<noteq> CHR ''a''" for p s w
    using that by (intro clear_each) (simp add: no_header_def)
  show "clear no_header (Some CHR ''/'') (''bot'' @ ds) w" for w by (rule other [OF bot_chars(6) [OF assms]])
  show "clear no_header None bot_host w" for w by code_simp
  show "clear no_header p '':'' w" for p w by (rule other) code_simp
  show "clear no_header p bot_method w" for p w by code_simp
  have "\<not> is_alpha CHR ''/''" by code_simp
  then show "clear no_header p cs (''/sendMessage'' @ w)" for p w
    by (rule bot_run [OF assms]) (simp add: no_header_def)
qed

lemma bot_no_query:
  assumes "bot_token ds cs"
  shows "clear no_query None (bot_error ds cs) z"
proof (rule clear_each)
  have "\<forall>x\<in>set (bot_host @ ''bot:'' @ bot_method). \<not> query_start x" by code_simp
  then have "\<forall>x\<in>set (bot_error ds cs). \<not> query_start x"
    using bot_chars(5) [OF assms] unfolding bot_error_def set_append ball_Un by auto
  then show "x \<in> set (bot_error ds cs) \<Longrightarrow> no_query q (x # w)" for q x w by (simp add: no_query_def)
qed

lemma bot_no_dsn:
  assumes "bot_token ds cs"
  shows "clear no_dsn None (bot_error ds cs) z"
proof (rule bot_clear)
  have slash: "\<not> prefix ''://'' (CHR '':'' # cs @ ''/sendMessage'' @ w)" for w
    using bot_chars(4) [OF assms] by (cases cs) auto
  show "clear no_dsn (Some CHR ''/'') (''bot'' @ ds) ('':'' @ cs @ ''/sendMessage'' @ w)" for w
  proof (rule clear_suffixes)
    fix q u x v assume "''bot'' @ ds = u @ x # v"
    then have "\<forall>c\<in>set (x # v). scheme_char c" using bot_chars(1) [OF assms] by simp
    moreover have "\<not> scheme_char CHR '':''" by code_simp
    ultimately have "dropWhile scheme_char ((x # v) @ CHR '':'' # cs @ ''/sendMessage'' @ w) = CHR '':'' # cs @ ''/sendMessage'' @ w"
      by (rule drop_run [where C = scheme_char and y = "CHR '':''" and u = "x # v"])
    then show "no_dsn q (x # v @ '':'' @ cs @ ''/sendMessage'' @ w)" using slash by (simp add: no_dsn_def)
  qed
  have "\<not> scheme_char CHR '':''" by code_simp
  from drop_run [where C = scheme_char and u = "[]", OF _ this] have "dropWhile scheme_char (CHR '':'' # w) = CHR '':'' # w" for w by simp
  then show "clear no_dsn p '':'' (cs @ ''/sendMessage'' @ w)" for p w using slash by (simp add: no_dsn_def)
  show "clear no_dsn None bot_host w" for w by code_simp
  show "clear no_dsn p bot_method w" for p w by code_simp
  have "no_dsn q t" if "no_colon (dropWhile scheme_char t)" for q t
    using that by (auto simp: no_dsn_def no_colon_def Let_def prefix_def)
  moreover have "\<not> scheme_char CHR ''/''" by code_simp
  ultimately show "clear no_dsn p cs (''/sendMessage'' @ w)" for p w by (intro bot_run [OF assms])
qed

text \<open>So the error keeps the token, whatever its cause.\<close>

lemma bot_error_redact:
  assumes "bot_token ds cs"
  shows "\<exists>rest. RedactString (bot_error ds cs @ cause) = bot_error ds cs @ rest"
  by (rule clear_redact)
    (rule bot_no_token [OF assms] bot_no_dsn [OF assms] bot_no_query [OF assms] bot_no_header [OF assms])+

end
