(* ===== verification/AlertSafety.thy ===== *)
theory AlertSafety
  imports AlertStore SnapshotHistory ControlSamples RedactionSafety
begin

section \<open>What the alerts do\<close>

text \<open>
  Effects of the statements of a delivery, as the databases they lead to; then the properties of a delivery:
  how often it calls the network and with what, what it changes, when an alert counts as sent, and
  that the dedupe window silences it. The last part is about the token of the bot.
\<close>

subsection \<open>Effects of the statements\<close>

abbreviation ctx_owner :: "go_context \<Rightarrow> string" where
  "ctx_owner ctx \<equiv> ownerUserIDFromContext ctx"

lemma ctx_owner_trimmed [simp]: "TrimSpace (ctx_owner ctx) = ctx_owner ctx"
  by (simp add: ownerUserIDFromContext_def split: option.split)

lemma begin_context_tx:
  "beginContextOwnerTx env db ctx = Inr tx \<Longrightarrow> tx_db tx = db \<and> tx_owner tx = ctx_owner ctx \<and> ctx_owner ctx \<noteq> []"
  using begin_owner_tx by (fastforce simp: beginContextOwnerTx_def)

lemma owned_iff: "owned tx u \<longleftrightarrow> tx_owner tx \<noteq> [] \<and> u = tx_owner tx"
  by (auto simp: owned_def ownerSQL_true)

text \<open>The database after the status of an alert is set.\<close>

definition put_status :: "go_context \<Rightarrow> string \<Rightarrow> string \<Rightarrow> control_db \<Rightarrow> control_db" where
  "put_status ctx aid status = alerts_update (map (\<lambda>r.
     if al_id r = aid \<and> al_owner_user_id r = ctx_owner ctx then r\<lparr>al_status := status\<rparr> else r))"

lemma setAlertStatus_cases:
  assumes "setAlertStatus env db ctx aid status = (db', r)"
  obtains (dropped) e where "db' = db" and "r = Inl e"
  | (stored) a where "db' = put_status ctx aid status db" and "r = Inr a" and "alert_Status a = status" and "alert_ID a = aid"
  using assms [unfolded setAlertStatus_def]
proof (cases rule: commit_or_drop_cases)
  case dropped
  then show ?thesis using that(1) by (cases r) auto
next
  case (committed tx a)
  from committed(1) obtain tx0 row where 0: "beginContextOwnerTx env db ctx = Inr tx0"
    and u: "sql_update env ''alerts'' alerts alerts_update (\<lambda>_ _. False)
        (\<lambda>r. al_id r = aid \<and> owned tx0 (al_owner_user_id r)) (\<lambda>r. r\<lparr>al_status := status\<rparr>) tx0 = Inr (tx, row)"
    and a: "a = scanAlert row"
    by (auto split: sum.splits prod.splits)
  note b = begin_context_tx [OF 0]
  obtain row0 where row0: "row = row0\<lparr>al_status := status\<rparr>" "al_id row0 = aid"
    using sql_update_db(1) [OF u] by blast
  have "tx_db tx = put_status ctx aid status db"
    using sql_update_db(2) [OF u] b by (simp add: put_status_def owned_iff)
  then show ?thesis using that(2) committed a row0 by (simp add: scanAlert_def)
qed

text \<open>A delivery that is recorded is a row of the alert and of the owner in the context.\<close>

definition delivery_of :: "go_context \<Rightarrow> string \<Rightarrow> alert_delivery_row \<Rightarrow> bool" where
  "delivery_of ctx aid d \<longleftrightarrow> ad_alert_id d = aid \<and> ad_owner_user_id d = ctx_owner ctx"

lemma recordAlertDelivery_cases:
  assumes "recordAlertDelivery env n db ctx aid channel status attempt err response = (db', r)"
  obtains (dropped) e where "db' = db" and "r = Inl e"
  | (stored) a row where "db' = alert_deliveries_update (\<lambda>rows. rows @ [row]) db" and "r = Inr a"
      and "delivery_of ctx aid row" and "ad_status row = status" and "ad_error row = err"
proof (cases "db_guard env NewUUID []")
  case (Inl e)
  then show ?thesis using assms that(1) by (auto simp: recordAlertDelivery_def or_fail_def)
next
  case (Inr u)
  from assms [unfolded recordAlertDelivery_def or_fail_def Inr sum.case] show ?thesis
  proof (cases rule: commit_or_drop_cases)
    case dropped
    then show ?thesis using that(1) by (cases r) auto
  next
    case (committed tx a)
    from committed(1) obtain tx0 i where 0: "beginContextOwnerTx env db ctx = Inr tx0"
      and u: "sql_insert env ''alert_deliveries'' alert_deliveries alert_deliveries_update (\<lambda>a b. ad_id a = ad_id b)
        (new_delivery_row env n tx0 aid channel status i err response) tx0 = Inr tx"
      by (auto simp: Let_def split: sum.splits if_splits)
    from sql_insert_db [OF u] begin_context_tx [OF 0] show ?thesis
      by (intro that(2) [OF _ committed(3)]) (auto simp: committed(2) delivery_of_def new_delivery_row_def)
  qed
qed

subsection \<open>What a delivery leaves alone\<close>

text \<open>
  Between two databases only the alert \<open>aid\<close> of the owner in the context can have changed, and deliveries of it
  were added.
\<close>

definition alert_frame :: "go_context \<Rightarrow> string \<Rightarrow> control_db \<Rightarrow> control_db \<Rightarrow> bool" where
  "alert_frame ctx aid db db' \<longleftrightarrow>
     db'\<lparr>alerts := alerts db, alert_deliveries := alert_deliveries db\<rparr> = db \<and>
     filter (\<lambda>a. al_id a \<noteq> aid \<or> al_owner_user_id a \<noteq> ctx_owner ctx) (alerts db') =
     filter (\<lambda>a. al_id a \<noteq> aid \<or> al_owner_user_id a \<noteq> ctx_owner ctx) (alerts db) \<and>
     (\<exists>ds. alert_deliveries db' = alert_deliveries db @ ds \<and> list_all (delivery_of ctx aid) ds)"

lemma alert_frame_refl [simp]: "alert_frame ctx aid db db"
  by (simp add: alert_frame_def)

lemma alert_frame_trans [trans]:
  assumes "alert_frame ctx aid a b" and "alert_frame ctx aid b c"
  shows "alert_frame ctx aid a c"
proof -
  have "c\<lparr>alerts := alerts a, alert_deliveries := alert_deliveries a\<rparr> =
      c\<lparr>alerts := alerts b, alert_deliveries := alert_deliveries b\<rparr>
        \<lparr>alerts := alerts a, alert_deliveries := alert_deliveries a\<rparr>" by simp
  also have "\<dots> = a" using assms by (simp add: alert_frame_def)
  finally show ?thesis using assms unfolding alert_frame_def
    by (metis append.assoc list_all_append)
qed

lemma filter_map_other:
  assumes "\<And>r. P r \<Longrightarrow> \<not> Q r" and "\<And>r. P r \<Longrightarrow> \<not> Q (f r)"
  shows "filter Q (map (\<lambda>r. if P r then f r else r) rs) = filter Q rs"
  using assms by (induction rs) auto

lemma put_status_frame: "alert_frame ctx aid db (put_status ctx aid status db)"
  unfolding alert_frame_def put_status_def by (simp add: filter_map_other)

lemma put_delivery_frame:
  "delivery_of ctx aid row \<Longrightarrow> alert_frame ctx aid db (alert_deliveries_update (\<lambda>rows. rows @ [row]) db)"
  by (simp add: alert_frame_def)

lemma setAlertStatus_frame: "setAlertStatus env db ctx aid status = (db', r) \<Longrightarrow> alert_frame ctx aid db db'"
  by (erule setAlertStatus_cases) (simp_all add: put_status_frame)

lemma recordAlertDelivery_frame:
  "recordAlertDelivery env n db ctx aid channel status attempt err response = (db', r) \<Longrightarrow> alert_frame ctx aid db db'"
  by (erule recordAlertDelivery_cases) (simp_all add: put_delivery_frame)

lemma record_and_set_frame:
  assumes "record_and_set env db ctx alert status err = (db', r)"
  shows "alert_frame ctx (alert_ID alert) db db'"
  using assms unfolding record_and_set_def
  by (auto split: prod.splits sum.splits intro: recordAlertDelivery_frame
      alert_frame_trans [OF recordAlertDelivery_frame setAlertStatus_frame])

subsection \<open>Sending\<close>

text \<open>The network accepts a request: an answer of success whose body says so.\<close>

definition accepted :: "telegram_net \<Rightarrow> nat \<Rightarrow> telegram_request \<Rightarrow> bool" where
  "accepted net n q \<longleftrightarrow> (case tn_Do net n q of
     TelegramAnswer code content \<Rightarrow> 200 \<le> code \<and> code < 300 \<and> tn_DecodeOK net (limit_read 65536 content) = Inr True
   | _ \<Rightarrow> False)"

lemma TrimSpace_length: "length (TrimSpace s) \<le> length s"
  using suffix_length_le [OF strip_suffix] le_trans unfolding TrimSpace_def length_rev by (metis length_rev)

lemma trimTelegramMessage_length: "int (length (trimTelegramMessage body)) \<le> maxTelegramMessageBytes"
  using TrimSpace_length [of "take 3968 (TrimSpace body)"]
  by (simp add: trimTelegramMessage_def maxTelegramMessageBytes_def Let_def)

lemma telegram_call_accepted: "telegram_call net n q = (result, err) \<Longrightarrow> err = None \<longleftrightarrow> accepted net n q"
  by (auto simp: telegram_call_def accepted_def Let_def split: telegram_result.splits sum.splits if_splits)

lemma SendMessage_cases:
  assumes "SendMessage net n token chat mode body = (reqs, result, err)"
  obtains (silent) e where "reqs = []" and "\<not> tsr_Retryable result" and "err = Some e"
  | (asked) q where "reqs = [q]" and "int (length (tr_Text q)) \<le> maxTelegramMessageBytes"
      and "err = None \<longleftrightarrow> accepted net n q"
proof -
  let ?req = "new_request net (TrimSpace token) (TrimSpace chat) mode body"
  have "(reqs = [] \<and> \<not> tsr_Retryable result \<and> err \<noteq> None) \<or> (reqs = [?req] \<and> telegram_call net n ?req = (result, err))"
    using assms by (cases "tn_request net (tr_URL ?req)") (auto simp: SendMessage_def Let_def split: if_splits, metis)
  moreover have "int (length (tr_Text ?req)) \<le> maxTelegramMessageBytes"
    using trimTelegramMessage_length by (simp add: new_request_def)
  ultimately show thesis using that telegram_call_accepted by blast
qed

subsection \<open>The loop\<close>

text \<open>What the loop does from attempt \<open>n\<close> on, when \<open>left\<close> attempts are left after it.\<close>

definition loop_ok ::
    "telegram_net \<Rightarrow> go_context \<Rightarrow> string \<Rightarrow> nat \<Rightarrow> nat \<Rightarrow> control_db \<Rightarrow> control_db \<Rightarrow> telegram_request list \<Rightarrow>
     control_error + Alert \<Rightarrow> bool" where
  "loop_ok net ctx aid left n db db' reqs r \<longleftrightarrow>
     alert_frame ctx aid db db' \<and> length reqs \<le> Suc left \<and>
     list_all (\<lambda>q. int (length (tr_Text q)) \<le> maxTelegramMessageBytes) reqs \<and>
     (\<forall>i. Suc i < length reqs \<longrightarrow> \<not> accepted net (n + i) (reqs ! i)) \<and>
     (\<forall>a. r = Inr a \<longrightarrow> alert_ID a = aid \<and> (alert_Status a = alertStatusSent \<longrightarrow>
        (\<exists>qs q. reqs = qs @ [q] \<and> accepted net (n + length qs) q) \<and>
        (\<exists>d\<in>set (alert_deliveries db'). delivery_of ctx aid d \<and> ad_status d = alertStatusSent)))"

lemma alert_status_distinct [simp]:
  "alertStatusFailed \<noteq> alertStatusSent" "alertStatusDeduped \<noteq> alertStatusSent" "alertStatusRetrying \<noteq> alertStatusSent"
  "alertStatusPending \<noteq> alertStatusSent"
  by (simp_all add: alertStatusFailed_def alertStatusDeduped_def alertStatusRetrying_def alertStatusPending_def alertStatusSent_def)

text \<open>An attempt that ends the loop, by a failure of the database or by setting the status \<open>status\<close>.\<close>

lemma loop_last:
  assumes send: "SendMessage net n token chat mode body = (reqs, result, err)"
    and frame: "alert_frame ctx aid db db'" and r: "\<And>a. r = Inr a \<Longrightarrow> alert_ID a = aid \<and> alert_Status a \<noteq> alertStatusSent"
  shows "loop_ok net ctx aid left n db db' reqs r"
  using send by (cases rule: SendMessage_cases) (use frame r in \<open>auto simp: loop_ok_def\<close>)

lemma loop_sent:
  assumes send: "SendMessage net n token chat mode body = (reqs, result, None)"
    and rec: "recordAlertDelivery env k db ctx aid channel alertStatusSent i errText response = (db1, Inr d)"
    and set: "setAlertStatus env db1 ctx aid alertStatusSent = (db', r)"
  shows "loop_ok net ctx aid left n db db' reqs r"
proof -
  obtain q where q: "reqs = [q]" "int (length (tr_Text q)) \<le> maxTelegramMessageBytes" "accepted net n q"
    using send by (cases rule: SendMessage_cases) auto
  obtain row where db1: "db1 = alert_deliveries_update (\<lambda>rows. rows @ [row]) db" and row: "delivery_of ctx aid row"
      "ad_status row = alertStatusSent"
    using rec by (cases rule: recordAlertDelivery_cases) auto
  have "alert_deliveries db' = alert_deliveries db1" "\<And>a. r = Inr a \<Longrightarrow> alert_ID a = aid"
    using set by (cases rule: setAlertStatus_cases; simp add: put_status_def)+
  then have "row \<in> set (alert_deliveries db')" "\<And>a. r = Inr a \<Longrightarrow> alert_ID a = aid" by (simp_all add: db1)
  then show ?thesis unfolding loop_ok_def
    using q row alert_frame_trans [OF recordAlertDelivery_frame [OF rec] setAlertStatus_frame [OF set]] by auto
qed

lemma loop_failed:
  assumes "SendMessage net n token chat mode body = (reqs, result, Some e)"
    and "alert_frame ctx aid db db1"
    and set: "setAlertStatus env db1 ctx aid alertStatusFailed = (db', r)"
  shows "loop_ok net ctx aid left n db db' reqs r"
  using assms(1) alert_frame_trans [OF assms(2) setAlertStatus_frame [OF set]]
proof (rule loop_last)
  show "\<And>a. r = Inr a \<Longrightarrow> alert_ID a = aid \<and> alert_Status a \<noteq> alertStatusSent"
    using set by (cases rule: setAlertStatus_cases) auto
qed

lemma loop_again:
  assumes send: "SendMessage net n token chat mode body = (reqs, result, Some e)" and "tsr_Retryable result"
    and frame: "alert_frame ctx aid db db1" and rest: "loop_ok net ctx aid left (Suc n) db1 db' reqs' r"
  shows "loop_ok net ctx aid (Suc left) n db db' (reqs @ reqs') r"
proof -
  obtain q where q: "reqs = [q]" "int (length (tr_Text q)) \<le> maxTelegramMessageBytes" "\<not> accepted net n q"
    using send by (cases rule: SendMessage_cases) (use assms(2) in auto)
  have "\<not> accepted net (n + i) ((q # reqs') ! i)" if "Suc i < length (q # reqs')" for i
    using that rest q(3) by (cases i) (auto simp: loop_ok_def)
  moreover have "\<exists>qs q'. q # reqs' = qs @ [q'] \<and> accepted net (n + length qs) q'"
    if "reqs' = qs @ [q']" "accepted net (Suc n + length qs) q'" for qs q'
    using that by (intro exI [of _ "q # qs"]) auto
  ultimately show ?thesis using rest q alert_frame_trans [OF frame] unfolding loop_ok_def
    by (auto simp del: nth_Cons_Suc)
qed

lemma deliver_loop_ok:
  "deliver_loop envs net ctx alert token cfg body left n db = (db', reqs, r) \<Longrightarrow>
   loop_ok net ctx (alert_ID alert) left n db db' reqs r"
proof (induction left arbitrary: n db db' reqs r)
  case 0
  obtain rs result err where s: "SendMessage net n token (tcf_ChatID cfg) (tcf_ParseMode cfg) body = (rs, result, err)"
    by (metis prod_cases3)
  show ?case
  proof (cases err)
    case None
    then show ?thesis using 0 s
      by (auto split: prod.splits sum.splits intro: loop_sent loop_last [OF _ recordAlertDelivery_frame])
  next
    case (Some e)
    then show ?thesis using 0 s
      by (auto split: prod.splits sum.splits intro: loop_failed [OF _ recordAlertDelivery_frame]
          loop_last [OF _ recordAlertDelivery_frame])
  qed
next
  case (Suc left)
  obtain rs result err where s: "SendMessage net n token (tcf_ChatID cfg) (tcf_ParseMode cfg) body = (rs, result, err)"
    by (metis prod_cases3)
  note run = Suc.prems [unfolded deliver_loop.simps [of _ _ _ _ _ _ _ "Suc left"] s]
  show ?case
  proof (cases err)
    case None
    then show ?thesis using run s
      by (auto split: prod.splits sum.splits intro: loop_sent loop_last [OF _ recordAlertDelivery_frame])
  next
    case (Some e)
    obtain db1 rec where 1: "recordAlertDelivery (envs n) n db ctx (alert_ID alert) ''telegram''
        (if tsr_Retryable result then alertStatusRetrying else alertStatusFailed)
        (of_nat n) (RedactString e) (tsr_Response result) = (db1, rec)" by fastforce
    show ?thesis using run s Suc.IH recordAlertDelivery_frame [OF 1] unfolding Some
      by (auto simp: 1 simp del: deliver_loop.simps split: prod.splits sum.splits if_splits option.splits
          intro: loop_failed loop_again loop_last)
  qed
qed

declare deliver_loop.simps [simp del]

subsection \<open>A delivery\<close>

definition allowed_attempts :: "control_error + alertPolicy \<Rightarrow> nat" where
  "allowed_attempts policy = (case policy of Inl _ \<Rightarrow> 0
   | Inr p \<Rightarrow> if \<not> apo_Enabled p then 0
       else if apo_MaxAttempts p = 0 then unat defaultAlertMaxAttempts else unat (apo_MaxAttempts p))"

lemma loop_none:
  assumes "alert_frame ctx aid db db'" and "\<And>a. r = Inr a \<Longrightarrow> alert_ID a = aid \<and> alert_Status a \<noteq> alertStatusSent"
  shows "loop_ok net ctx aid left n db db' [] r"
  using assms by (auto simp: loop_ok_def)

lemma loop_none_status:
  assumes "setAlertStatus env db ctx aid status = (db', r)" and "status \<noteq> alertStatusSent"
  shows "loop_ok net ctx aid left n db db' [] r"
proof (rule loop_none [OF setAlertStatus_frame [OF assms(1)]])
  show "\<And>a. r = Inr a \<Longrightarrow> alert_ID a = aid \<and> alert_Status a \<noteq> alertStatusSent"
    using assms(1) by (cases rule: setAlertStatus_cases) (use assms(2) in auto)
qed

lemma loop_none_recorded:
  assumes "record_and_set env db ctx alert status err = (db', r)" and "status \<noteq> alertStatusSent"
  shows "loop_ok net ctx (alert_ID alert) left n db db' [] r"
proof (rule loop_none [OF record_and_set_frame [OF assms(1)]])
  show "\<And>a. r = Inr a \<Longrightarrow> alert_ID a = alert_ID alert \<and> alert_Status a \<noteq> alertStatusSent"
    using assms unfolding record_and_set_def
    by (auto split: prod.splits sum.splits elim: setAlertStatus_cases)
qed

lemma deliverAlert_ok:
  assumes "deliverAlert envs net db ctx alert = (db', reqs, r)"
  shows "loop_ok net ctx (alert_ID alert)
      (allowed_attempts (alert_policy (envs 0) db ctx (alert_Type alert) (alert_Severity alert)) - 1) 1 db db' reqs r"
    and "allowed_attempts (alert_policy (envs 0) db ctx (alert_Type alert) (alert_Severity alert)) = 0 \<Longrightarrow> reqs = []"
proof -
  show "loop_ok net ctx (alert_ID alert)
      (allowed_attempts (alert_policy (envs 0) db ctx (alert_Type alert) (alert_Severity alert)) - 1) 1 db db' reqs r"
    using assms unfolding deliverAlert_def allowed_attempts_def Let_def
    by (auto split: prod.splits sum.splits if_splits bool.splits intro: loop_none_status loop_none_recorded loop_none
        dest: deliver_loop_ok)
  show "allowed_attempts (alert_policy (envs 0) db ctx (alert_Type alert) (alert_Severity alert)) = 0 \<Longrightarrow> reqs = []"
    using assms unfolding deliverAlert_def allowed_attempts_def Let_def
    by (auto split: prod.splits sum.splits if_splits simp: defaultAlertMaxAttempts_def unat_eq_0)
qed

text \<open>
  C26. A delivery calls the network at most as often as the policy of its kind of alert says (three times
  when the policy is silent, never when it is disabled or unreadable), and no message is longer
  than 4000 bytes.
\<close>

theorem delivery_bounded:
  "length (fst (snd (deliverAlert envs net db ctx alert))) \<le>
     allowed_attempts (alert_policy (envs 0) db ctx (alert_Type alert) (alert_Severity alert)) \<and>
   list_all (\<lambda>q. length (tr_Text q) \<le> 4000) (fst (snd (deliverAlert envs net db ctx alert)))"
proof (cases "deliverAlert envs net db ctx alert")
  case (fields db' reqs r)
  let ?n = "allowed_attempts (alert_policy (envs 0) db ctx (alert_Type alert) (alert_Severity alert))"
  have "length reqs \<le> Suc (?n - 1)" "list_all (\<lambda>q. length (tr_Text q) \<le> 4000) reqs"
    using deliverAlert_ok(1) [OF fields] by (simp_all add: loop_ok_def maxTelegramMessageBytes_def)
  with deliverAlert_ok(2) [OF fields] show ?thesis by (cases "?n = 0") (simp_all add: fields)
qed

subsection \<open>An alert\<close>

lemma insert_alert_cases:
  assumes "insert_alert env db ctx actor input = (db', r)"
  obtains (dropped) e where "db' = db" and "r = Inl e"
  | (stored) a row where "db' = alerts_update (\<lambda>rows. rows @ [row]) db" and "r = Inr a" and "alert_ID a = se_uuid env 0"
      and "al_id row = se_uuid env 0" and "al_owner_user_id row = ctx_owner ctx" and "a = scanAlert row"
      and "alert_Status a = alertStatusPending"
proof (cases "bind_ok (validateAlertInput input) (\<lambda>_. db_guard env NewUUID [])")
  case (Inl e)
  then show ?thesis using assms that(1) by (auto simp: insert_alert_def or_fail_def)
next
  case (Inr u)
  from assms [unfolded insert_alert_def or_fail_def Inr sum.case] show ?thesis
  proof (cases rule: commit_or_drop_cases)
    case dropped
    then show ?thesis using that(1) by (cases r) auto
  next
    case (committed tx a)
    from committed(1) obtain tx0 where 0: "beginContextOwnerTx env db ctx = Inr tx0"
      and u: "sql_insert env ''alerts'' alerts alerts_update (\<lambda>a b. al_id a = al_id b)
        (new_alert_row env tx0 actor input) tx0 = Inr tx"
      and a: "a = scanAlert (new_alert_row env tx0 actor input)"
      by (auto simp: Let_def split: sum.splits)
    from sql_insert_db [OF u] begin_context_tx [OF 0] show ?thesis
      by (intro that(2) [OF _ committed(3) _ _ _ a]) (auto simp: committed(2) a new_alert_row_def scanAlert_def)
  qed
qed

lemma insert_alert_frame:
  "insert_alert env db ctx actor input = (db', r) \<Longrightarrow> alert_frame ctx (se_uuid env 0) db db'"
  by (erule insert_alert_cases) (simp_all add: alert_frame_def)

lemma createAlert_frame:
  "alert_frame ctx (se_uuid (envs 0) 0) db (fst (createAlert envs net db ctx actor input))"
proof (cases "insert_alert (envs 0) db ctx actor input")
  case (Pair db1 r)
  show ?thesis
  proof (cases r)
    case (Inl e)
    then show ?thesis using insert_alert_frame [OF Pair] by (simp add: createAlert_def Pair)
  next
    case (Inr alert)
    then have "alert_ID alert = se_uuid (envs 0) 0" using Pair by (auto elim: insert_alert_cases)
    then have "alert_frame ctx (se_uuid (envs 0) 0) db1 (fst (deliverAlert envs net db1 ctx alert))"
      using deliverAlert_ok(1) unfolding loop_ok_def by (metis prod.collapse)
    with insert_alert_frame [OF Pair] show ?thesis
      by (auto simp: createAlert_def Pair Inr Let_def split: prod.split intro: alert_frame_trans)
  qed
qed

text \<open>
  C23. Creating an alert touches nothing but one new alert of the owner in the context and the deliveries of
  this alert, whatever the network and the database do: every other table, the other alerts and the
  deliveries so far stay as they are.
\<close>

theorem alert_creation_isolated:
  "alert_frame ctx (se_uuid (envs 0) 0) db (fst (createAlert envs net db ctx actor input))"
  by (rule createAlert_frame)

text \<open>
  C24. An alert that comes back as sent was accepted by the network on its last request and on no earlier
  one, so it went out exactly once, and a delivery of it is recorded as sent.
\<close>

theorem sent_alert_accepted:
  assumes "createAlert envs net db ctx actor input = (db', reqs, Inr a)" and "alert_Status a = alertStatusSent"
  shows "\<exists>qs q. reqs = qs @ [q] \<and> accepted net (length reqs) q \<and> (\<forall>i<length qs. \<not> accepted net (Suc i) (qs ! i)) \<and>
    (\<exists>d\<in>set (alert_deliveries db'). delivery_of ctx (alert_ID a) d \<and> ad_status d = alertStatusSent)"
proof -
  obtain db1 alert where 1: "insert_alert (envs 0) db ctx actor input = (db1, Inr alert)"
    using assms(1) by (auto simp: createAlert_def split: prod.splits sum.splits)
  obtain r where 2: "deliverAlert envs net db1 ctx alert = (db', reqs, r)"
    and a: "alert_ID a = alert_ID (case r of Inl _ \<Rightarrow> alert | Inr a \<Rightarrow> a)"
      "alert_Status a = alert_Status (case r of Inl _ \<Rightarrow> alert | Inr a \<Rightarrow> a)"
    using assms(1) by (auto simp: createAlert_def 1 Let_def split: prod.splits)
  have "alert_Status alert \<noteq> alertStatusSent" using 1 by (auto elim!: insert_alert_cases)
  then obtain b where b: "r = Inr b" "alert_Status b = alertStatusSent" "alert_ID b = alert_ID a"
    using a assms(2) by (cases r) auto
  note ok = deliverAlert_ok(1) [OF 2, unfolded loop_ok_def]
  obtain qs q where q: "reqs = qs @ [q]" "accepted net (1 + length qs) q" using ok b by blast
  have "\<not> accepted net (Suc i) (qs ! i)" if "i < length qs" for i
  proof -
    have "Suc i < length reqs" "reqs ! i = qs ! i" using that unfolding q(1) by (simp_all add: nth_append)
    with ok show ?thesis by (metis plus_1_eq_Suc)
  qed
  moreover have "accepted net (length reqs) q" using q(2) unfolding q(1) by simp
  moreover have "\<exists>d\<in>set (alert_deliveries db'). delivery_of ctx (alert_ID a) d \<and> ad_status d = alertStatusSent"
    using ok b by metis
  ultimately show ?thesis using q(1) by blast
qed

text \<open>
  C25. Inside the dedupe window nothing is sent: when another alert of the same owner with the same key has
  a delivery recorded as sent within the seconds of the policy, the network is not called.
\<close>

theorem dedupe_silences:
  assumes "alert_policy (envs 0) db ctx (alert_Type alert) (alert_Severity alert) = Inr policy"
    and "apo_RateLimitSeconds policy \<noteq> 0"
    and "a \<in> set (alerts db)" and "al_owner_user_id a = ctx_owner ctx"
    and "al_id a \<noteq> alert_ID alert" and "al_dedupe_key a = alert_DedupeKey alert"
    and "d \<in> set (alert_deliveries db)" and "ad_alert_id d = al_id a" and "ad_owner_user_id d = ctx_owner ctx"
    and "ad_status d = alertStatusSent"
    and "se_now (envs 0) - uint (apo_RateLimitSeconds policy) * 10 ^ 9 \<le> ad_created_at d"
  shows "fst (snd (deliverAlert envs net db ctx alert)) = []"
proof -
  have "recentAlertSent (envs 0) db ctx alert (apo_RateLimitSeconds policy) \<noteq> Inr False"
  proof
    assume none: "recentAlertSent (envs 0) db ctx alert (apo_RateLimitSeconds policy) = Inr False"
    then obtain tx where tx: "beginContextOwnerTx (envs 0) db ctx = Inr tx"
      using assms(2) by (auto simp: recentAlertSent_def split: sum.splits)
    show False using none assms(2-) begin_context_tx [OF tx]
      by (auto simp: recentAlertSent_def tx list_ex_iff owned_iff alertStatusSent_def split: sum.splits)
  qed
  then show ?thesis
    by (auto simp: deliverAlert_def assms(1) split: prod.splits sum.splits bool.splits)
qed

end
