(* ===== verification/AlertWitness.thy ===== *)
theory AlertWitness
  imports AlertSafety
begin

section \<open>Alerts on the sample database\<close>

text \<open>
  The sample database with a Telegram configuration, an accepting network and one that fails: the properties of the
  alerts applied, and the token of the bot in a recorded delivery.
\<close>

definition sample_telegram :: "string \<Rightarrow> telegram_config_row" where
  "sample_telegram token = \<lparr>tc_owner_user_id = ''u-ann'', tc_bot_token_ref = token, tc_chat_id = ''42'',
     tc_parse_mode = [], tc_enabled = True\<rparr>"

definition alert_db :: control_db where
  "alert_db = sample_db\<lparr>telegram_configs := [sample_telegram ''1:a'']\<rparr>"

definition answering :: "telegram_result \<Rightarrow> telegram_net" where
  "answering answer = \<lparr>tn_baseURL = [], tn_request = (\<lambda>_. None), tn_Do = (\<lambda>_ _. answer), tn_DecodeOK = (\<lambda>_. Inr True),
     tn_bodyJSON = (\<lambda>s. s), tn_cancelled = (\<lambda>_. None), tn_Getenv = (\<lambda>_. [])\<rparr>"

definition sample_alert_input :: AlertInput where
  "sample_alert_input = \<lparr>ain_Severity = ''critical'', ain_Type = ''cpu'', ain_DedupeKey = ''k'', ain_ServiceID = [],
     ain_AffectedService = [], ain_Vector = [], ain_Evidence = [], ain_RecommendedAction = []\<rparr>"

definition sample_alert_run :: "telegram_result \<Rightarrow> control_db \<times> telegram_request list \<times> (control_error + Alert)" where
  "sample_alert_run answer =
     createAlert (\<lambda>_. sample_env) (answering answer) alert_db (Some ''u-ann'') None sample_alert_input"

lemma sample_alert_sent:
  "(case sample_alert_run (TelegramAnswer 200 ''{}'') of (_, _, r) \<Rightarrow>
     case r of Inl _ \<Rightarrow> False | Inr a \<Rightarrow> alert_Status a = alertStatusSent)"
  by code_simp

theorem sent_alert_accepted_witness:
  "\<exists>qs q. fst (snd (sample_alert_run (TelegramAnswer 200 ''{}''))) = qs @ [q] \<and>
    accepted (answering (TelegramAnswer 200 ''{}'')) (Suc (length qs)) q"
proof -
  obtain db' reqs a where run: "createAlert (\<lambda>_. sample_env) (answering (TelegramAnswer 200 ''{}'')) alert_db (Some ''u-ann'')
      None sample_alert_input = (db', reqs, Inr a)" and sent: "alert_Status a = alertStatusSent"
    using sample_alert_sent unfolding sample_alert_run_def by (auto split: prod.splits sum.splits)
  from sent_alert_accepted [OF run sent] show ?thesis unfolding sample_alert_run_def run by force
qed

text \<open>The sample database once an alert was sent, and a second alert of the same kind.\<close>

definition sent_alert_row :: alert_row where
  "sent_alert_row = \<lparr>al_id = ''id-0'', al_owner_user_id = ''u-ann'', al_severity = ''critical'', al_type = ''cpu'',
     al_dedupe_key = ''k'', al_service_id = None, al_affected_service = [], al_vector = [], al_evidence = ''{}'',
     al_recommended_action = [], al_status = ''sent'', al_created_by = None, al_created_at = 1000\<rparr>"

definition sent_delivery_row :: alert_delivery_row where
  "sent_delivery_row = \<lparr>ad_id = ''id-1'', ad_owner_user_id = ''u-ann'', ad_alert_id = ''id-0'', ad_channel = ''telegram'',
     ad_status = ''sent'', ad_attempt = 1, ad_error = [], ad_response = ''{}'', ad_created_at = 1000, ad_sent_at = Some 1000\<rparr>"

definition sent_db :: control_db where
  "sent_db = alert_db\<lparr>alerts := [sent_alert_row], alert_deliveries := [sent_delivery_row]\<rparr>"

definition second_alert :: Alert where
  "second_alert = \<lparr>alert_ID = ''id-9'', alert_Severity = ''critical'', alert_Type = ''cpu'', alert_DedupeKey = ''k'',
     alert_ServiceID = [], alert_AffectedService = [], alert_Vector = [], alert_Evidence = [], alert_RecommendedAction = [],
     alert_Status = alertStatusPending, alert_CreatedBy = [], alert_CreatedAt = 1000, alert_Deliveries = []\<rparr>"

theorem dedupe_silences_witness:
  "fst (snd (deliverAlert (\<lambda>_. sample_env) (answering (TelegramAnswer 200 ''{}'')) sent_db (Some ''u-ann'') second_alert)) = []"
proof (rule dedupe_silences)
  let ?p = "\<lparr>apo_RateLimitSeconds = 300, apo_MaxAttempts = 3, apo_Template = [], apo_Enabled = True\<rparr>"
  show "alert_policy sample_env sent_db (Some ''u-ann'') (alert_Type second_alert) (alert_Severity second_alert) = Inr ?p"
    by code_simp
  show "sent_alert_row \<in> set (alerts sent_db)" "sent_delivery_row \<in> set (alert_deliveries sent_db)" by (simp_all add: sent_db_def)
  show "al_owner_user_id sent_alert_row = ctx_owner (Some ''u-ann'')" "ad_owner_user_id sent_delivery_row = ctx_owner (Some ''u-ann'')"
    by code_simp+
  show "al_id sent_alert_row \<noteq> alert_ID second_alert" "al_dedupe_key sent_alert_row = alert_DedupeKey second_alert"
    "ad_alert_id sent_delivery_row = al_id sent_alert_row" "ad_status sent_delivery_row = alertStatusSent"
    by (simp_all add: sent_alert_row_def sent_delivery_row_def second_alert_def alertStatusSent_def)
  show "se_now sample_env - uint (apo_RateLimitSeconds ?p) * 10 ^ 9 \<le> ad_created_at sent_delivery_row"
    by (simp add: sample_env_def plain_env_def sent_delivery_row_def)
  show "apo_RateLimitSeconds ?p \<noteq> 0" by simp
qed

subsection \<open>The token of the bot\<close>

text \<open>
  The error of \<^verbatim>\<open>http.Client.Do\<close> is a \<^verbatim>\<open>url.Error\<close>: its text has the method, the URL of the request in quotes and the
  cause. A URL of digits, letters and the other characters of a bot token is printed as it is.
\<close>

definition client_error :: "telegram_request \<Rightarrow> string \<Rightarrow> string" where
  "client_error q cause = ''Post '' @ [CHR 0x22] @ tr_URL q @ [CHR 0x22] @ '': '' @ cause"

lemma client_error_bot:
  assumes "token = ds @ '':'' @ cs" and "NewTelegramClient (tn_baseURL net) = defaultTelegramAPI"
  shows "client_error (new_request net token chat mode body) cause = bot_error ds cs @ cause"
  using assms by (simp add: client_error_def bot_error_def new_request_def defaultTelegramAPI_def)

lemma redacted_error_leaks:
  assumes "token = ds @ '':'' @ cs" and "bot_token ds cs"
  shows "sublist token (RedactString (bot_error ds cs @ cause))"
proof -
  obtain rest where "RedactString (bot_error ds cs @ cause) = bot_error ds cs @ rest"
    using bot_error_redact [OF assms(2)] by blast
  then have "RedactString (bot_error ds cs @ cause) = (bot_host @ ''bot'') @ token @ (bot_method @ rest)"
    by (simp add: bot_error_def assms(1))
  then show ?thesis by (metis sublist_appendI)
qed

text \<open>A token has no white space.\<close>

lemma bot_token_trimmed:
  assumes "token = ds @ '':'' @ cs" and "bot_token ds cs"
  shows "TrimSpace token = token"
proof (rule TrimSpace_plain)
  let ?tok = "\<lambda>c. is_alpha c \<or> is_digit c \<or> c = CHR ''_'' \<or> c = CHR ''-'' \<or> c = CHR '':''"
  have "list_all (\<lambda>c. \<not> ?tok c) (concat space_seqs)" by code_simp
  then have "plain_char c" if "?tok c" for c using that by (auto simp: plain_char_def list_all_iff)
  moreover have "\<forall>c\<in>set token. ?tok c" using assms by (auto simp: bot_token_def list_all_iff)
  ultimately show "\<forall>c\<in>set token. plain_char c" by blast
qed

text \<open>Every attempt of such a network fails with the error of the client, and can be tried again.\<close>

definition failing_client :: "telegram_net \<Rightarrow> bool" where
  "failing_client net \<longleftrightarrow> (\<forall>n q. \<exists>cause. tn_Do net n q = TelegramFailed (client_error q cause))"

lemma failing_send:
  assumes "token = ds @ '':'' @ cs" and "bot_token ds cs" and "NewTelegramClient (tn_baseURL net) = defaultTelegramAPI"
    and "failing_client net" and "fst (SendMessage net m token chat mode body) \<noteq> []"
  obtains q result cause where "SendMessage net n token chat mode body = ([q], result, Some (bot_error ds cs @ cause))"
    and "tsr_Retryable result"
proof -
  let ?q = "new_request net token (TrimSpace chat) mode body"
  obtain cause where "tn_Do net n ?q = TelegramFailed (client_error ?q cause)"
    using assms(4) unfolding failing_client_def by blast
  then have call: "telegram_call net n ?q = (\<lparr>tsr_Retryable = True, tsr_Response = []\<rparr>, Some (bot_error ds cs @ cause))"
    by (simp add: telegram_call_def client_error_bot [OF assms(1,3)])
  have "SendMessage net n token chat mode body = ([?q], telegram_call net n ?q)"
    using assms(5) bot_token_trimmed [OF assms(1,2)]
    by (auto simp: SendMessage_def Let_def split: if_splits option.splits)
  with that show thesis unfolding call by simp
qed

lemma deliver_silent:
  assumes "fst (SendMessage net n token (tcf_ChatID cfg) (tcf_ParseMode cfg) body) = []"
  shows "fst (snd (deliver_loop envs net ctx alert token cfg body left n db)) = []"
proof -
  obtain result err where send: "SendMessage net n token (tcf_ChatID cfg) (tcf_ParseMode cfg) body = ([], result, err)"
    using assms by (metis prod.collapse)
  then have "\<not> tsr_Retryable result" "err \<noteq> None" by (cases rule: SendMessage_cases; simp)+
  then show ?thesis unfolding deliver_loop.simps [of _ _ _ _ _ _ _ left] send
    by (auto split: prod.splits sum.splits nat.splits)
qed

lemma setAlertStatus_deliveries:
  "setAlertStatus env db ctx aid status = (db', r) \<Longrightarrow> alert_deliveries db' = alert_deliveries db"
  by (erule setAlertStatus_cases) (simp_all add: put_status_def)

definition leaks :: "string \<Rightarrow> control_db \<Rightarrow> control_db \<times> telegram_request list \<times> (control_error + Alert) \<Rightarrow> bool" where
  "leaks token db res \<longleftrightarrow> (case res of (db', reqs, r) \<Rightarrow>
     \<exists>rows. alert_deliveries db' = alert_deliveries db @ rows \<and> list_all (\<lambda>d. sublist token (ad_error d)) rows \<and>
       (is_ok r \<longrightarrow> length rows = length reqs))"

lemma deliver_loop_leaks:
  assumes token: "token = ds @ '':'' @ cs" "bot_token ds cs"
    and net: "NewTelegramClient (tn_baseURL net) = defaultTelegramAPI" "failing_client net"
    and asked: "fst (SendMessage net 1 token (tcf_ChatID cfg) (tcf_ParseMode cfg) body) \<noteq> []"
  shows "leaks token db (deliver_loop envs net ctx alert token cfg body left n db)"
proof (induction left arbitrary: n db)
  case (0 n db)
  obtain q result cause where send: "SendMessage net n token (tcf_ChatID cfg) (tcf_ParseMode cfg) body =
      ([q], result, Some (bot_error ds cs @ cause))" by (rule failing_send [OF token net asked])
  obtain db1 d where rec: "recordAlertDelivery (envs n) n db ctx (alert_ID alert) ''telegram'' alertStatusFailed (of_nat n)
      (RedactString (bot_error ds cs @ cause)) (tsr_Response result) = (db1, d)" by fastforce
  obtain db2 r where set: "setAlertStatus (envs n) db1 ctx (alert_ID alert) alertStatusFailed = (db2, r)" by fastforce
  from rec show ?case
  proof (cases rule: recordAlertDelivery_cases)
    case (dropped e)
    then show ?thesis using rec by (simp add: leaks_def deliver_loop.simps [of _ _ _ _ _ _ _ 0] send)
  next
    case (stored a row)
    then show ?thesis using rec setAlertStatus_deliveries [OF set] redacted_error_leaks [OF token]
      by (simp add: leaks_def deliver_loop.simps [of _ _ _ _ _ _ _ 0] send set [unfolded stored(1)])
  qed
next
  case (Suc left n db)
  obtain q result cause where send: "SendMessage net n token (tcf_ChatID cfg) (tcf_ParseMode cfg) body =
      ([q], result, Some (bot_error ds cs @ cause))" and again: "tsr_Retryable result"
    by (rule failing_send [OF token net asked])
  obtain db1 d where rec: "recordAlertDelivery (envs n) n db ctx (alert_ID alert) ''telegram'' alertStatusRetrying (of_nat n)
      (RedactString (bot_error ds cs @ cause)) (tsr_Response result) = (db1, d)" by fastforce
  note step = deliver_loop.simps [of envs net ctx alert token cfg body "Suc left" n db]
  from rec show ?case
  proof (cases rule: recordAlertDelivery_cases)
    case (dropped e)
    then show ?thesis using rec by (simp add: leaks_def step send again)
  next
    case (stored a row)
    have row: "sublist token (ad_error row)" using stored(5) redacted_error_leaks [OF token] by simp
    obtain db2 reqs2 r2 where rest: "deliver_loop envs net ctx alert token cfg body left (Suc n) db1 = (db2, reqs2, r2)"
      by (metis prod.collapse)
    from Suc.IH [of db1 "Suc n"] obtain rows where "alert_deliveries db2 = alert_deliveries db @ row # rows"
      "list_all (\<lambda>d. sublist token (ad_error d)) rows" "is_ok r2 \<longrightarrow> length rows = length reqs2"
      unfolding rest leaks_def by (auto simp: stored(1))
    then show ?thesis using rec stored(1,2) row rest
      by (cases "tn_cancelled net n") (auto simp: leaks_def step send again)
  qed
qed

text \<open>
  C31. A request that fails leaves the token of the bot in the database. When a delivery calls the network, the token has
  the form of a bot token, the client talks to the public API and its requests fail with the error that names the
  URL of the request, then every delivery that is recorded has the whole token in its error, whatever the
  cause of the failure: the path of the URL holds the token and the redaction of the error does not find it
  there. When the delivery of the alert ends without a database error, there is one such record per request.
\<close>

theorem telegram_token_leaks:
  assumes "deliverAlert envs net db ctx alert = (db', reqs, r)" and "reqs \<noteq> []"
    and "getTelegramConfigRaw (envs 0) net db ctx = Inr cfg"
    and "fst (resolveTelegramBotToken (tn_Getenv net) (tcf_BotTokenRef cfg)) = token"
    and "token = ds @ '':'' @ cs" and "bot_token ds cs"
    and "NewTelegramClient (tn_baseURL net) = defaultTelegramAPI" and "failing_client net"
  shows "\<exists>rows. alert_deliveries db' = alert_deliveries db @ rows \<and>
    (\<forall>d\<in>set rows. sublist token (ad_error d)) \<and> (is_ok r \<longrightarrow> length rows = length reqs)"
proof -
  obtain body left where run: "deliver_loop envs net ctx alert token cfg body left 1 db = (db', reqs, r)"
    using assms(1,2,3,4) unfolding deliverAlert_def Let_def
    by (auto split: prod.splits sum.splits if_splits bool.splits)
  have "fst (SendMessage net 1 token (tcf_ChatID cfg) (tcf_ParseMode cfg) body) \<noteq> []"
    using deliver_silent [of net 1 token cfg body envs ctx alert left db] run assms(2) by auto
  from deliver_loop_leaks [OF assms(5-8) this, of db envs ctx alert left 1] show ?thesis
    unfolding run leaks_def by (auto simp: list_all_iff)
qed

text \<open>The alert before its first attempt, with a policy of one attempt.\<close>

definition one_attempt_db :: control_db where
  "one_attempt_db = alert_db\<lparr>alerts := [sent_alert_row\<lparr>al_status := ''pending''\<rparr>],
     telegram_configs := [sample_telegram ''123456:abcdefghijklmnopqrstuv''],
     alert_policies := [\<lparr>ap_owner_user_id = ''u-ann'', ap_alert_type = ''cpu'', ap_severity = ''critical'',
       ap_rate_limit_seconds = 300, ap_max_attempts = 1, ap_template = [], ap_enabled = True\<rparr>]\<rparr>"

definition first_alert :: Alert where
  "first_alert = scanAlert (sent_alert_row\<lparr>al_status := ''pending''\<rparr>)"

definition failing_net :: telegram_net where
  "failing_net = (answering (TelegramFailed []))\<lparr>tn_Do := (\<lambda>_ q. TelegramFailed (client_error q ''EOF''))\<rparr>"

lemma first_alert_config:
  "getTelegramConfigRaw sample_env failing_net one_attempt_db (Some ''u-ann'') = Inr \<lparr>
     tcf_BotTokenRef = ''123456:abcdefghijklmnopqrstuv'', tcf_BotTokenPresent = True, tcf_ChatID = ''42'',
     tcf_ParseMode = [], tcf_Enabled = True\<rparr> \<and>
   fst (resolveTelegramBotToken (tn_Getenv failing_net) ''123456:abcdefghijklmnopqrstuv'') = ''123456:abcdefghijklmnopqrstuv'' \<and>
   bot_token ''123456'' ''abcdefghijklmnopqrstuv'' \<and> NewTelegramClient (tn_baseURL failing_net) = defaultTelegramAPI"
  by code_simp

lemma first_alert_steps:
  "alert_policy sample_env one_attempt_db (Some ''u-ann'') (alert_Type first_alert) (alert_Severity first_alert) =
     Inr \<lparr>apo_RateLimitSeconds = 300, apo_MaxAttempts = 1, apo_Template = [], apo_Enabled = True\<rparr> \<and>
   recentAlertSent sample_env one_attempt_db (Some ''u-ann'') first_alert 300 = Inr False \<and>
   resolveTelegramBotToken (tn_Getenv failing_net) ''123456:abcdefghijklmnopqrstuv'' = (''123456:abcdefghijklmnopqrstuv'', ''present'') \<and>
   (case recordAlertDelivery sample_env 1 one_attempt_db (Some ''u-ann'') (alert_ID first_alert) ''telegram'' alertStatusFailed 1 e [] of
      (db1, Inl _) \<Rightarrow> False
    | (db1, Inr _) \<Rightarrow> is_ok (snd (setAlertStatus sample_env db1 (Some ''u-ann'') (alert_ID first_alert) alertStatusFailed)))"
  by code_simp

lemma first_alert_send:
  "\<exists>q e. SendMessage failing_net 1 ''123456:abcdefghijklmnopqrstuv'' ''42'' [] body =
     ([q], \<lparr>tsr_Retryable = True, tsr_Response = []\<rparr>, Some e)"
proof -
  have "TrimSpace ''123456:abcdefghijklmnopqrstuv'' = ''123456:abcdefghijklmnopqrstuv''" "TrimSpace ''42'' = ''42''"
    by code_simp+
  then show ?thesis by (simp add: SendMessage_def telegram_call_def failing_net_def answering_def Let_def)
qed

lemma first_alert_run:
  "(case deliverAlert (\<lambda>_. sample_env) failing_net one_attempt_db (Some ''u-ann'') first_alert of (_, reqs, r) \<Rightarrow>
     length reqs = 1 \<and> is_ok r)"
proof -
  obtain q e where send: "SendMessage failing_net 1 ''123456:abcdefghijklmnopqrstuv'' ''42'' [] (renderAlertMessage first_alert []) =
      ([q], \<lparr>tsr_Retryable = True, tsr_Response = []\<rparr>, Some e)"
    using first_alert_send by blast
  show ?thesis using first_alert_steps [of "RedactString e"] first_alert_config
    by (auto simp: deliverAlert_def Let_def deliver_loop.simps [of _ _ _ _ _ _ _ 0] send [unfolded One_nat_def] send
        split: prod.splits sum.splits)
qed

theorem telegram_token_leaks_witness:
  "\<exists>d. alert_deliveries (fst (deliverAlert (\<lambda>_. sample_env) failing_net one_attempt_db (Some ''u-ann'') first_alert)) = [d] \<and>
     sublist ''123456:abcdefghijklmnopqrstuv'' (ad_error d)"
proof -
  obtain db' reqs r where run: "deliverAlert (\<lambda>_. sample_env) failing_net one_attempt_db (Some ''u-ann'') first_alert = (db', reqs, r)"
    and one: "length reqs = 1" "is_ok r" using first_alert_run by (auto split: prod.splits)
  have none: "alert_deliveries one_attempt_db = []" by (simp add: one_attempt_db_def alert_db_def sample_db_def)
  have "failing_client failing_net" by (auto simp: failing_client_def failing_net_def)
  moreover have "reqs \<noteq> []" using one(1) by auto
  moreover have "''123456:abcdefghijklmnopqrstuv'' = ''123456'' @ '':'' @ ''abcdefghijklmnopqrstuv''" by simp
  ultimately obtain rows where "alert_deliveries db' = alert_deliveries one_attempt_db @ rows"
      "\<forall>d\<in>set rows. sublist ''123456:abcdefghijklmnopqrstuv'' (ad_error d)" "is_ok r \<longrightarrow> length rows = length reqs"
    using telegram_token_leaks [OF run _ conjunct1 [OF first_alert_config],
        of "''123456:abcdefghijklmnopqrstuv''" "''123456''" "''abcdefghijklmnopqrstuv''"] conjunct2 [OF first_alert_config]
    unfolding TelegramConfig.select_convs by blast
  then have "length rows = 1" "alert_deliveries db' = rows"
      "\<forall>d\<in>set rows. sublist ''123456:abcdefghijklmnopqrstuv'' (ad_error d)"
    using one none by simp_all
  then show ?thesis unfolding run by (cases rows) auto
qed

end
