(* ===== verification/AlertConfig.thy ===== *)
theory AlertConfig
  imports AlertSafety PolicySafety ControlSamples
begin

section \<open>The Telegram configuration\<close>

text \<open>
  What the configuration shows of the token, and that a configuration that was read can be written back: the
  token is shown as a mask, and the mask stands for the token that is stored.
\<close>

lemma get_config_row:
  assumes "get_config env net tx = Inr cfg"
  shows "\<exists>r\<in>set (telegram_configs (tx_db tx)). owned tx (tc_owner_user_id r) \<and> tcf_BotTokenRef cfg = tc_bot_token_ref r"
  using assms unfolding get_config_def by (auto elim!: bind_okE dest!: sql_get_Inr simp: scanTelegramConfig_def)

lemma upsert_config_row:
  assumes "sql_upsert env name telegram_configs telegram_configs_update
      (\<lambda>a b. tc_owner_user_id a = tc_owner_user_id b) clash (\<lambda>_. row) row tx = Inr (tx', r')"
    and "r \<in> set (telegram_configs (tx_db tx'))" and "tc_owner_user_id r = tc_owner_user_id row"
  shows "r = row" and "r' = row"
proof -
  show "r' = row" using sql_upsert_db(2) [OF assms(1)] by auto
  show "r = row" using sql_upsert_db(2) [OF assms(1)] assms(2,3)
    by (elim disjE conjE) (auto split: if_splits)
qed

text \<open>
  C27. Writing a configuration back with its token masked or left out keeps the stored token: after it every
  configuration of the user holds the token that was stored, without the spaces around it, and
  what is returned shows only the mask.
\<close>

theorem masked_token_kept:
  assumes "UpsertTelegramConfig env net db ctx actor input reason = (db', Inr cfg)"
    and "TrimSpace (tci_BotTokenRef input) = [] \<or> TrimSpace (tci_BotTokenRef input) = telegramTokenMask"
    and "r \<in> set (telegram_configs db')" and "tc_owner_user_id r = TrimSpace (actorOwnerUserID actor)"
  shows "tcf_BotTokenRef cfg = telegramTokenMask \<and> (\<exists>r0\<in>set (telegram_configs db).
    tc_owner_user_id r0 = tc_owner_user_id r \<and> tc_bot_token_ref r = TrimSpace (tc_bot_token_ref r0) \<and> tc_bot_token_ref r \<noteq> [])"
proof -
  obtain actor' began where b: "beginActorOwnerTx env db actor = (actor', began)" by fastforce
  have "commit_or_drop env db (update_config env net ctx actor' input (mutationReason reason (tci_Reason input)) began)
      = (db', Inr cfg)"
    using assms(1) unfolding UpsertTelegramConfig_def Let_def or_fail_def b by (auto split: sum.splits)
  then obtain tx' where tx': "update_config env net ctx actor' input (mutationReason reason (tci_Reason input)) began = Inr (tx', cfg)"
    and db': "db' = tx_db tx'" by (cases rule: commit_or_drop_cases) auto
  from tx' obtain tx before tx1 row1 where tx: "began = Inr tx"
    and before: "(case get_config env net tx of Inl NoRows \<Rightarrow> Inr empty_config | r \<Rightarrow> r) = Inr before"
    and token: "TrimSpace (tcf_BotTokenRef before) \<noteq> []"
    and up: "sql_upsert env ''telegram_configs'' telegram_configs telegram_configs_update
        (\<lambda>a b. tc_owner_user_id a = tc_owner_user_id b) (\<lambda>_ _. False)
        (\<lambda>_. new_config_row tx input (TrimSpace (tcf_BotTokenRef before)))
        (new_config_row tx input (TrimSpace (tcf_BotTokenRef before))) tx = Inr (tx1, row1)"
    and audit: "insertAudit env ctx tx1 actor' ''configure_telegram'' ''telegram_config'' ''1''
        (mutationReason reason (tci_Reason input)) = Inr tx'"
    and cfg: "cfg = maskTelegramConfig (scanTelegramConfig net row1)"
    using assms(2) unfolding update_config_def by (auto simp: Let_def elim!: bind_okE split: prod.splits if_splits)
  have owner: "tx_db tx = db" "tx_owner tx = TrimSpace (actorOwnerUserID actor)"
    using b begin_owner_tx unfolding tx by (auto simp: beginActorOwnerTx_def Let_def split: option.splits)
  have "get_config env net tx = Inr before"
    using before token by (auto simp: empty_config_def split: sum.splits control_error.splits)
  from get_config_row [OF this] obtain r0 where r0: "r0 \<in> set (telegram_configs db)" "tc_owner_user_id r0 = tx_owner tx"
    "tcf_BotTokenRef before = tc_bot_token_ref r0" by (auto simp: owner owned_iff)
  have "r \<in> set (telegram_configs (tx_db tx1))" using assms(3) insertAudit_db(1) [OF audit] db' by auto
  then have "r = new_config_row tx input (TrimSpace (tcf_BotTokenRef before))" "row1 = r"
    using upsert_config_row [OF up, of r] assms(4) by (auto simp: new_config_row_def owner)
  then show ?thesis using r0 token owner cfg assms(4)
    by (auto simp: new_config_row_def maskTelegramConfig_def scanTelegramConfig_def)
qed

definition config_db :: control_db where
  "config_db = sample_db\<lparr>telegram_configs := [\<lparr>tc_owner_user_id = ''u-ann'', tc_bot_token_ref = ''1:a'', tc_chat_id = ''42'',
     tc_parse_mode = [], tc_enabled = True\<rparr>]\<rparr>"

definition config_net :: telegram_net where
  "config_net = \<lparr>tn_baseURL = [], tn_request = (\<lambda>_. None), tn_Do = (\<lambda>_ _. TelegramFailed []), tn_DecodeOK = (\<lambda>_. Inr True),
     tn_bodyJSON = (\<lambda>s. s), tn_cancelled = (\<lambda>_. None), tn_Getenv = (\<lambda>_. [])\<rparr>"

definition masked_input :: TelegramConfigInput where
  "masked_input = \<lparr>tci_Reason = [], tci_BotTokenRef = ''*****'', tci_ChatID = ''7'', tci_ParseMode = [], tci_Enabled = None\<rparr>"

definition masked_update :: "control_db \<times> (control_error + TelegramConfig)" where
  "masked_update = UpsertTelegramConfig sample_env config_net config_db None (Some sample_actor) masked_input ''go''"

definition masked_row :: telegram_config_row where
  "masked_row = \<lparr>tc_owner_user_id = ''u-ann'', tc_bot_token_ref = ''1:a'', tc_chat_id = ''7'', tc_parse_mode = [], tc_enabled = True\<rparr>"

lemma masked_update_row: "is_ok (snd masked_update) \<and> list_ex (\<lambda>r. r = masked_row) (telegram_configs (fst masked_update)) \<and>
    TrimSpace (tci_BotTokenRef masked_input) = telegramTokenMask \<and>
    tc_owner_user_id masked_row = TrimSpace (actorOwnerUserID (Some sample_actor))"
  by code_simp

theorem masked_token_kept_witness:
  "\<exists>r0\<in>set (telegram_configs config_db). tc_bot_token_ref masked_row = TrimSpace (tc_bot_token_ref r0)"
proof -
  obtain db' cfg where run: "UpsertTelegramConfig sample_env config_net config_db None (Some sample_actor) masked_input ''go'' =
      (db', Inr cfg)" and row: "masked_row \<in> set (telegram_configs db')"
    using masked_update_row unfolding masked_update_def
    by (cases "UpsertTelegramConfig sample_env config_net config_db None (Some sample_actor) masked_input ''go''")
      (auto simp: is_ok_def list_ex_iff split: sum.splits)
  from masked_token_kept [OF run _ row] masked_update_row show ?thesis by blast
qed

end
