(* ===== verification/FeedSafety.thy ===== *)
theory FeedSafety
  imports FeedStore AlertSafety PolicySafety
begin

section \<open>What a synchronisation does\<close>

text \<open>
  The effect of a synchronisation on the tables: which it leaves alone when the feed cannot be fetched, and what the
  active entries of a source are when it succeeds.
\<close>

subsection \<open>Tables left alone\<close>

text \<open>Only the runs, the row of the source \<open>sid\<close>, alerts and their deliveries may differ.\<close>

definition feed_frame :: "string \<Rightarrow> control_db \<Rightarrow> control_db \<Rightarrow> bool" where
  "feed_frame sid db db' \<longleftrightarrow>
     db'\<lparr>feed_runs := feed_runs db, feed_sources := feed_sources db, alerts := alerts db,
       alert_deliveries := alert_deliveries db\<rparr> = db \<and>
     filter (\<lambda>r. fs_id r \<noteq> sid) (feed_sources db') = filter (\<lambda>r. fs_id r \<noteq> sid) (feed_sources db)"

lemma feed_frame_refl [simp]: "feed_frame sid db db"
  by (simp add: feed_frame_def)

lemma feed_frame_trans [trans]:
  assumes "feed_frame sid a b" and "feed_frame sid b c"
  shows "feed_frame sid a c"
proof -
  have "c\<lparr>feed_runs := feed_runs a, feed_sources := feed_sources a, alerts := alerts a,
         alert_deliveries := alert_deliveries a\<rparr> =
      c\<lparr>feed_runs := feed_runs b, feed_sources := feed_sources b, alerts := alerts b,
         alert_deliveries := alert_deliveries b\<rparr>
       \<lparr>feed_runs := feed_runs a, feed_sources := feed_sources a, alerts := alerts a,
         alert_deliveries := alert_deliveries a\<rparr>" by simp
  also have "\<dots> = a" using assms by (simp add: feed_frame_def)
  finally show ?thesis using assms by (simp add: feed_frame_def)
qed

lemma feed_frame_sel: "feed_frame sid db db' \<Longrightarrow> reputation_entries db' = reputation_entries db"
  by (cases db; cases db'; simp add: feed_frame_def)

lemma feed_frame_whitelist: "feed_frame sid db db' \<Longrightarrow> whitelist_entries db' = whitelist_entries db"
  by (cases db; cases db'; simp add: feed_frame_def)

lemma loadFeedWhitelist_cong:
  "whitelist_entries a = whitelist_entries b \<Longrightarrow> loadFeedWhitelist env a = loadFeedWhitelist env b"
  by (simp add: loadFeedWhitelist_def beginUnscopedTx_def begin_with_setting_def sql_select_def tx_Commit_def db_guard_def
      split: sum.split)

lemma alert_feed_frame:
  assumes "alert_frame ctx aid db db'"
  shows "feed_frame sid db db'"
  using assms by (cases db; cases db'; simp add: alert_frame_def feed_frame_def)

lemma runs_frame: "feed_frame sid db (feed_runs_update f db)"
  by (simp add: feed_frame_def)

lemma sources_frame:
  assumes "\<And>r. P r \<Longrightarrow> fs_id r = sid" and "\<And>r. fs_id (f r) = fs_id r"
  shows "feed_frame sid db (feed_sources_update (map (\<lambda>r. if P r then f r else r)) db)"
  using filter_map_other [of P "\<lambda>r. fs_id r \<noteq> sid" f] assms by (simp add: feed_frame_def)

lemma or_fail_invariant:
  "I db \<Longrightarrow> (\<And>b. checks = Inr b \<Longrightarrow> I (fst (run b))) \<Longrightarrow> I (fst (or_fail db checks run))"
  by (simp add: or_fail_def split: sum.split)

lemma startFeedRun_frame:
  "feed_frame sid db (fst (startFeedRun env db source))"
  unfolding startFeedRun_def
  by (intro or_fail_invariant [where I = "feed_frame sid db"] commit_invariant [where I = "feed_frame sid db"])
    (auto simp: Let_def feed_frame_def elim!: bind_okE dest!: begin_unscoped sql_insert_db split: if_splits)

lemma finish_in_tx_frame:
  assumes "finish_in_tx env source run version fetched valid errors err tx = Inr (tx', a)"
  shows "feed_frame (fd_ID source) (tx_db tx) (tx_db tx')"
proof -
  from assms obtain P f tx1 row g where u: "sql_update env ''feed_runs'' feed_runs feed_runs_update (\<lambda>_ _. False) P f tx = Inr (tx1, row)"
    and 2: "sql_exec env ''feed_sources'' feed_sources_update (global_feed (fd_ID source)) g tx1 = Inr tx'"
    and g: "\<And>r. fs_id (g r) = fs_id r"
    unfolding finish_in_tx_def by (elim bind_okE) (fastforce split: prod.splits sum.splits option.splits)
  have 1: "tx_db tx1 = feed_runs_update (map (\<lambda>r. if P r then f r else r)) (tx_db tx)" by (rule sql_update_db(2) [OF u])
  show ?thesis unfolding sql_exec_db [OF 2] 1
    by (rule feed_frame_trans [OF runs_frame sources_frame]) (simp_all add: global_feed_def g)
qed

lemma feed_alerts_frame: "feed_frame sid db (fst (feed_alerts envs net ctx input owners k db))"
proof (induction owners arbitrary: k db)
  case (Cons owner owners)
  obtain db1 reqs r where a: "CreateSystemAlert (envs k) net db (contextWithOwner ctx owner) input = (db1, reqs, r)"
    by (metis prod_cases3)
  have "feed_frame sid db db1"
    using alert_feed_frame [OF createAlert_frame] a unfolding CreateSystemAlert_def by (metis fst_conv)
  also have "feed_frame sid db1 (fst (feed_alerts envs net ctx input owners (Suc k) db1))" by (rule Cons.IH)
  finally show ?case by (simp add: a case_prod_beta)
qed simp

lemma finishFeedRun_frame:
  "feed_frame (fd_ID source) db (fst (finishFeedRun envs net db ctx source run version fetched valid errors err))"
proof -
  let ?step = "commit_or_drop (envs 0 0) db (bind_ok (beginUnscopedTx (envs 0 0) db) (\<lambda>tx.
      finish_in_tx (envs 0 0) source run version fetched valid errors (map_option (agentRedactedError net) err) tx))"
  obtain db1 r where s: "?step = (db1, r)" by fastforce
  have "feed_frame (fd_ID source) db (fst ?step)"
    by (rule commit_invariant [where I = "feed_frame (fd_ID source) db"])
      (auto elim!: bind_okE dest!: begin_unscoped finish_in_tx_frame)
  then have 1: "feed_frame (fd_ID source) db db1" by (simp add: s)
  have "feed_frame (fd_ID source) db1 (fst (createGlobalFeedFailureAlerts (\<lambda>k. envs (Suc k)) net db1 ctx source errText))" for errText
    unfolding createGlobalFeedFailureAlerts_def by (simp add: feed_alerts_frame split: sum.split)
  from 1 feed_frame_trans [OF 1 this] show ?thesis unfolding finishFeedRun_def Let_def s
    by (cases r; cases err) (simp_all add: case_prod_beta)
qed

lemma finishFeedRun_entries:
  "finishFeedRun envs net db ctx source run version fetched valid errors err = (db', r) \<Longrightarrow>
    reputation_entries db' = reputation_entries db"
  using feed_frame_sel [OF finishFeedRun_frame] by (metis fst_conv)

lemma GetFeedSource_row:
  assumes "GetFeedSource env db sid = Inr source"
  shows "\<exists>r\<in>set (feed_sources db). global_feed (TrimSpace sid) r \<and> scanFeedSource r = Inr source"
    and "fd_ID source = TrimSpace sid"
proof -
  obtain tx r where 0: "beginUnscopedTx env db = Inr tx"
    and g: "sql_get env ''feed_sources'' feed_sources (global_feed (TrimSpace sid)) tx = Inr r"
    and s: "scanFeedSource r = Inr source"
    using assms unfolding GetFeedSource_def by (auto elim!: bind_okE)
  show "\<exists>r\<in>set (feed_sources db). global_feed (TrimSpace sid) r \<and> scanFeedSource r = Inr source"
    using sql_get_Inr [OF g] begin_unscoped [OF 0] s by auto
  show "fd_ID source = TrimSpace sid"
    using sql_get_Inr [OF g] s by (auto simp: scanFeedSource_def global_feed_def elim!: bind_okE)
qed

text \<open>
  C29. A feed that cannot be fetched does no harm: whatever the database and the network do, all tables but the
  runs, the row of the source, and the alerts with their deliveries stay as they are: the entries of the last
  good run remain active, and no snapshot is built.
\<close>

theorem failed_fetch_keeps_policy:
  assumes "GetFeedSource (envs 0 0) db (TrimSpace sid) = Inr source" and "fetchFeed (sn_feed net) source = Inl e"
  shows "feed_frame (TrimSpace sid) db (fst (SyncFeedSource envs net locked db ctx sid actor reason))"
proof -
  note sid = GetFeedSource_row(2) [OF assms(1), simplified]
  obtain db1 run where s: "startFeedRun (envs (Suc 0) 0) db (TrimSpace sid) = (db1, run)" by fastforce
  have 1: "feed_frame (TrimSpace sid) db db1" using startFeedRun_frame s by (metis fst_conv)
  have "feed_frame (TrimSpace sid) db1 (fst (finishFeedRun envs' net db1 ctx source r None 0 0 0 (Some (SyncFetch e))))" for envs' r
    using finishFeedRun_frame [of source] unfolding sid .
  with 1 show ?thesis
    by (auto simp: SyncFeedSource_def Let_def assms sid s split: sum.split intro: feed_frame_trans)
qed

subsection \<open>The entries of a source\<close>

text \<open>The columns of the conflict target, of a row and of an entry of the feed.\<close>

definition row_key :: "reputation_row \<Rightarrow> string \<times> string \<times> int \<times> int" where
  "row_key r = (re_ip_or_cidr r, re_action r, re_score r, re_ttl_seconds r)"

definition feed_key :: "store_env \<Rightarrow> normalizedFeedEntry \<Rightarrow> string \<times> string \<times> int \<times> int" where
  "feed_key env e = (the (se_inet env (Prefix_String (ne_CIDR e))), ne_Action e, uint (ne_Score e), uint (ne_TTLSeconds e))"

definition active_keys :: "string \<Rightarrow> reputation_row list \<Rightarrow> (string \<times> string \<times> int \<times> int) set" where
  "active_keys sid rows = row_key ` {r \<in> set rows. re_source_id r = sid \<and> re_status r = ''active''}"

abbreviation others :: "string \<Rightarrow> reputation_row list \<Rightarrow> reputation_row list" where
  "others sid \<equiv> filter (\<lambda>r. re_source_id r \<noteq> sid)"

lemma same_entry_iff: "same_entry a b \<longleftrightarrow> re_source_id a = re_source_id b \<and> row_key a = row_key b"
  by (auto simp: same_entry_def row_key_def)

lemma entry_row_key:
  assumes "entry_row env db k sid e = Inr row"
  shows "row_key row = feed_key env e" "re_source_id row = sid" "re_status row = ''active''"
  using assms by (auto simp: entry_row_def row_key_def feed_key_def to_inet_def elim!: bind_okE split: option.splits)

lemma upsert_keys:
  assumes "re_source_id row = sid" and "re_status row = ''active''"
    and "rows' = map (\<lambda>r. if same_entry r row then refresh_entry env row r else r) rows \<and> (\<exists>q\<in>set rows. same_entry q row) \<or>
      rows' = rows @ [row]"
  shows "active_keys sid rows' = insert (row_key row) (active_keys sid rows)" and "others sid rows' = others sid rows"
proof -
  have key: "row_key (refresh_entry env row r) = row_key r" "re_source_id (refresh_entry env row r) = re_source_id r"
    "re_status (refresh_entry env row r) = ''active''" for r
    using assms(2) by (simp_all add: refresh_entry_def row_key_def)
  let ?f = "\<lambda>r. if same_entry r row then refresh_entry env row r else r"
  have f: "row_key (?f r) = row_key r" "re_source_id (?f r) = re_source_id r" for r by (simp_all add: key)
  have "k \<in> active_keys sid (map ?f rows) \<longleftrightarrow> k = row_key row \<or> k \<in> active_keys sid rows"
    if q: "q \<in> set rows" "same_entry q row" for k q
  proof
    assume "k \<in> active_keys sid (map ?f rows)"
    then obtain r where "r \<in> set rows" "k = row_key (?f r)" "re_source_id (?f r) = sid" "re_status (?f r) = ''active''"
      unfolding active_keys_def set_map by blast
    then have r: "r \<in> set rows" "k = row_key r" "re_source_id r = sid" "re_status (?f r) = ''active''" unfolding f by blast+
    then show "k = row_key row \<or> k \<in> active_keys sid rows"
      by (cases "same_entry r row") (auto simp: active_keys_def same_entry_iff)
  next
    assume "k = row_key row \<or> k \<in> active_keys sid rows"
    then obtain r where r: "r \<in> set rows" "row_key r = k" "re_source_id r = sid" "same_entry r row \<or> re_status r = ''active''"
      using q assms(1) unfolding active_keys_def by (auto simp: same_entry_iff)
    then have "?f r \<in> set (map ?f rows)" "re_status (?f r) = ''active''" by (auto simp: key)
    then have "row_key (?f r) \<in> active_keys sid (map ?f rows)" unfolding active_keys_def
      by (intro imageI CollectI conjI) (simp_all only: f r)
    then show "k \<in> active_keys sid (map ?f rows)" by (simp only: f r)
  qed
  then show "active_keys sid rows' = insert (row_key row) (active_keys sid rows)"
    using assms(3)
  proof (elim disjE conjE bexE)
    assume "rows' = rows @ [row]"
    then show ?thesis using assms(1,2) by (auto simp: active_keys_def)
  qed blast
  show "others sid rows' = others sid rows" using assms(1,3)
    by (auto simp: key same_entry_iff intro: filter_map_other)
qed

lemma record_conflicts_entries:
  "record_conflicts env sid rid ms k tx = Inr tx' \<Longrightarrow> reputation_entries (tx_db tx') = reputation_entries (tx_db tx)"
proof (induction ms arbitrary: k tx)
  case (Cons m ms)
  from Cons.prems obtain tx1 r same clash f row where
    u: "sql_upsert env ''feed_conflicts'' feed_conflicts feed_conflicts_update same clash f row tx = Inr (tx1, r)"
    and rest: "record_conflicts env sid rid ms (Suc k) tx1 = Inr tx'"
    by (auto elim!: bind_okE split: prod.splits)
  have "reputation_entries (tx_db tx1) = reputation_entries (tx_db tx)" using sql_upsert_db(2) [OF u] by auto
  then show ?case using Cons.IH [OF rest] by simp
qed simp

lemma store_entries_keys:
  assumes "store_entries env sid whitelist entries k tx = Inr tx'"
  shows "active_keys sid (reputation_entries (tx_db tx')) =
      active_keys sid (reputation_entries (tx_db tx)) \<union> feed_key env ` set entries \<and>
    others sid (reputation_entries (tx_db tx')) = others sid (reputation_entries (tx_db tx))"
  using assms
proof (induction entries arbitrary: k tx)
  case (Cons e entries)
  let ?ms = "matchingWhitelists (ne_CIDR e) whitelist"
  from Cons.prems obtain row tx1 stored tx2 where row: "entry_row env (tx_db tx) k sid e = Inr row"
    and u: "sql_upsert env ''reputation_entries'' reputation_entries reputation_entries_update same_entry entry_clash
      (refresh_entry env row) row tx = Inr (tx1, stored)"
    and c: "record_conflicts env sid (re_id stored) ?ms (Suc k) tx1 = Inr tx2"
    and rest: "store_entries env sid whitelist entries (Suc k + length ?ms) tx2 = Inr tx'"
    by (auto simp: Let_def elim!: bind_okE split: prod.splits)
  note key = entry_row_key [OF row]
  note up = upsert_keys [OF key(2,3), of "reputation_entries (tx_db tx1)" env "reputation_entries (tx_db tx)"]
  have "reputation_entries (tx_db tx1) = map (\<lambda>r. if same_entry r row then refresh_entry env row r else r)
        (reputation_entries (tx_db tx)) \<and> (\<exists>q\<in>set (reputation_entries (tx_db tx)). same_entry q row) \<or>
      reputation_entries (tx_db tx1) = reputation_entries (tx_db tx) @ [row]"
    using sql_upsert_db(2) [OF u] by auto
  note up = up [OF this]
  show ?case using Cons.IH [OF rest] up record_conflicts_entries [OF c] key(1) by auto
qed simp

text \<open>Entries of a source that belong to a user are left over from before feeds became global.\<close>

definition global_entries :: "string \<Rightarrow> control_db \<Rightarrow> bool" where
  "global_entries sid db \<longleftrightarrow> list_all (\<lambda>r. re_source_id r = sid \<longrightarrow> re_owner_user_id r = None) (reputation_entries db)"

lemma replace_in_tx_keys:
  assumes "replace_in_tx env source entries whitelist tx = Inr tx'" and "global_entries (fd_ID source) (tx_db tx)"
  shows "active_keys (fd_ID source) (reputation_entries (tx_db tx')) = feed_key env ` set entries"
    and "others (fd_ID source) (reputation_entries (tx_db tx')) = others (fd_ID source) (reputation_entries (tx_db tx))"
proof -
  let ?sid = "fd_ID source"
  let ?P = "\<lambda>r. re_source_id r = ?sid \<and> re_owner_user_id r = None"
  let ?f = "\<lambda>r. r\<lparr>re_status := ''inactive'', re_last_seen_at := se_now env\<rparr>"
  let ?off = "map (\<lambda>r. if ?P r then ?f r else r) (reputation_entries (tx_db tx))"
  from assms(1) obtain tx1 tx2 tx3 where
    1: "sql_exec env ''reputation_entries'' reputation_entries_update ?P ?f tx = Inr tx1"
    and 2: "\<exists>g h. sql_exec env ''feed_conflicts'' feed_conflicts_update g h tx1 = Inr tx2"
    and 3: "store_entries env ?sid whitelist entries 0 tx2 = Inr tx3"
    and 4: "\<exists>k. sql_exec env ''feed_sources'' feed_sources_update (global_feed ?sid) k tx3 = Inr tx'"
    unfolding replace_in_tx_def by (elim bind_okE) blast
  have rows: "reputation_entries (tx_db tx2) = ?off" "reputation_entries (tx_db tx') = reputation_entries (tx_db tx3)"
    using sql_exec_db [OF 1] 2 4 by (auto dest!: sql_exec_db)
  have "active_keys ?sid ?off = {}" using assms(2) by (auto simp: active_keys_def global_entries_def list_all_iff)
  moreover have "others ?sid ?off = others ?sid (reputation_entries (tx_db tx))" by (rule filter_map_other) auto
  ultimately show "active_keys ?sid (reputation_entries (tx_db tx')) = feed_key env ` set entries"
    "others ?sid (reputation_entries (tx_db tx')) = others ?sid (reputation_entries (tx_db tx))"
    using store_entries_keys [OF 3] by (simp_all add: rows)
qed

lemma replaceFeedEntries_keys:
  assumes "replaceFeedEntries env db ctx source entries whitelist actor reason = (db', Inr v)"
    and "global_entries (fd_ID source) db"
  shows "active_keys (fd_ID source) (reputation_entries db') = feed_key env ` set entries"
    and "others (fd_ID source) (reputation_entries db') = others (fd_ID source) (reputation_entries db)"
proof -
  let ?step = "commit_or_drop env db (bind_ok (beginUnscopedTx env db) (\<lambda>tx.
      bind_ok (replace_in_tx env source entries whitelist tx) (\<lambda>tx. Inr (tx, ()))))"
  obtain db1 where s: "?step = (db1, Inr ())"
    and r: "rebuildAllActiveUserSnapshots env db1 ctx actor (mutationReason [] reason) = (db', Inr v)"
    using assms(1) unfolding replaceFeedEntries_def by (auto split: prod.splits sum.splits)
  have rows: "reputation_entries db' = reputation_entries db1"
    using same_policy_sel [OF rebuildAll_same_policy [of db1 env ctx actor "mutationReason [] reason"]] by (simp add: r)
  have "active_keys (fd_ID source) (reputation_entries db1) = feed_key env ` set entries \<and>
      others (fd_ID source) (reputation_entries db1) = others (fd_ID source) (reputation_entries db)"
  proof (rule commit_result [OF s, of "\<lambda>db1. active_keys (fd_ID source) (reputation_entries db1) = feed_key env ` set entries \<and>
      others (fd_ID source) (reputation_entries db1) = others (fd_ID source) (reputation_entries db)"])
    fix tx'
    assume "bind_ok (beginUnscopedTx env db) (\<lambda>tx.
      bind_ok (replace_in_tx env source entries whitelist tx) (\<lambda>tx. Inr (tx, ()))) = Inr (tx', ())"
    then obtain tx where "beginUnscopedTx env db = Inr tx" and rep: "replace_in_tx env source entries whitelist tx = Inr tx'"
      by (elim bind_okE) blast
    then show "active_keys (fd_ID source) (reputation_entries (tx_db tx')) = feed_key env ` set entries \<and>
      others (fd_ID source) (reputation_entries (tx_db tx')) = others (fd_ID source) (reputation_entries db)"
      using replace_in_tx_keys [OF rep] assms(2) begin_unscoped by metis
  qed
  then show "active_keys (fd_ID source) (reputation_entries db') = feed_key env ` set entries"
    "others (fd_ID source) (reputation_entries db') = others (fd_ID source) (reputation_entries db)" by (simp_all add: rows)
qed

text \<open>
  C28. After a run that succeeds the active entries of the source are exactly those of the fetched feed, parsed,
  without duplicates and aggregated against the white list; the entries of the other sources are
  what they were.
\<close>

theorem sync_installs_feed:
  assumes "SyncFeedSource envs net locked db ctx sid actor reason = (db', reqs, Inr run)"
    and "global_entries (TrimSpace sid) db"
  shows "\<exists>source body whitelist. GetFeedSource (envs 0 0) db (TrimSpace sid) = Inr source \<and>
    fetchFeed (sn_feed net) source = Inr body \<and> loadFeedWhitelist (envs 2 0) db = Inr whitelist \<and>
    active_keys (TrimSpace sid) (reputation_entries db') =
      feed_key (envs 3 0) ` set (aggregateFeedEntries
        (dedupeFeedEntries (pf_Entries (parseFeedPayload (fn_json (sn_feed net)) source body))) whitelist) \<and>
    others (TrimSpace sid) (reputation_entries db') = others (TrimSpace sid) (reputation_entries db)"
proof -
  obtain source where g: "GetFeedSource (envs 0 0) db (TrimSpace sid) = Inr source"
    using assms(1) unfolding SyncFeedSource_def Let_def by (auto split: if_splits sum.splits)
  note sid = GetFeedSource_row(2) [OF g, simplified]
  obtain db1 start where s: "startFeedRun (envs 1 0) db (TrimSpace sid) = (db1, start)" by fastforce
  have 1: "reputation_entries db1 = reputation_entries db"
    using feed_frame_sel [OF startFeedRun_frame [of sid db "envs 1 0" "TrimSpace sid"]] unfolding s by simp
  have load: "loadFeedWhitelist (envs 2 0) db1 = loadFeedWhitelist (envs 2 0) db"
    using feed_frame_whitelist [OF startFeedRun_frame [of sid db "envs 1 0" "TrimSpace sid"]] unfolding s
    by (intro loadFeedWhitelist_cong) simp
  have failed: False if "finishFeedRun envs' net db2 ctx source r v f n m (Some e) = (d, q, Inr run)" for envs' db2 r v f n m e d q
    using that by (auto simp: finishFeedRun_def Let_def split: prod.splits sum.splits)
  note run = assms(1) [unfolded SyncFeedSource_def Let_def g sum.case sid s prod.case]
  obtain body where b: "fetchFeed (sn_feed net) source = Inr body"
    using run by (auto split: if_splits sum.splits dest: failed)
  let ?parsed = "parseFeedPayload (fn_json (sn_feed net)) source body"
  obtain whitelist where w: "loadFeedWhitelist (envs 2 0) db1 = Inr whitelist"
    using run by (auto simp: b split: if_splits sum.splits dest: failed)
  note run = run [unfolded b sum.case w]
  let ?entries = "aggregateFeedEntries (dedupeFeedEntries (pf_Entries ?parsed)) whitelist"
  obtain db2 v where rep: "replaceFeedEntries (envs 3 0) db1 ctx source ?entries whitelist actor reason = (db2, Inr v)"
    using run by (auto split: if_splits sum.splits prod.splits dest: failed)
  have "reputation_entries db' = reputation_entries db2"
    using run unfolding rep by (auto split: if_splits sum.splits dest: finishFeedRun_entries)
  moreover have "global_entries (fd_ID source) db1" using assms(2) 1 sid by (simp add: global_entries_def)
  ultimately show ?thesis using replaceFeedEntries_keys [OF rep] 1 g b sid w load by metis
qed

end
