(* ===== verification/FeedWitness.thy ===== *)
theory FeedWitness
  imports FeedSafety
begin

section \<open>Synchronisation on a sample database\<close>

text \<open>The sample database without users, whose one feed source lists one address.\<close>

definition feed_db :: control_db where
  "feed_db = sample_db\<lparr>app_users := [], feed_sources := [sample_feed_row\<lparr>fs_name := ''d'', fs_type := ''t'', fs_url := ''u''\<rparr>],
     whitelist_entries := []\<rparr>"

definition sample_sync_net :: "http_result \<Rightarrow> (unit, unit) sync_net" where
  "sample_sync_net answer = \<lparr>sn_feed = sample_feed_net\<lparr>fn_client := \<lambda>_ _. answer\<rparr>,
     sn_telegram = \<lparr>tn_baseURL = [], tn_request = (\<lambda>_. None), tn_Do = (\<lambda>_ _. TelegramFailed []), tn_DecodeOK = (\<lambda>_. Inr True),
       tn_bodyJSON = (\<lambda>s. s), tn_cancelled = (\<lambda>_. None), tn_Getenv = (\<lambda>_. [])\<rparr>,
     sn_Error = (\<lambda>_. ''down''), sn_evidence = (\<lambda>_ _ _. ''{}'')\<rparr>"

definition sample_sync :: "http_result \<Rightarrow> control_db \<times> telegram_request list \<times> (sync_error + FeedRun)" where
  "sample_sync answer = SyncFeedSource (\<lambda>_ _. sample_env) (sample_sync_net answer) (\<lambda>_. False) feed_db None ''f1'' None ''go''"

abbreviation "sample_answer \<equiv> HttpResponse 200 (Some ''192.0.2.1'')"

lemma sample_sync_ok:
  "(case sample_sync sample_answer of (db', _, r) \<Rightarrow> is_ok r \<and>
     map (\<lambda>r. (re_ip_or_cidr r, re_status r)) (reputation_entries db') =
       [(''198.51.100.0/24'', ''inactive''), (''192.0.2.1/32'', ''active'')]) \<and> global_entries (TrimSpace ''f1'') feed_db"
  by code_simp

theorem sync_installs_feed_witness:
  "\<exists>source body whitelist. GetFeedSource sample_env feed_db (TrimSpace ''f1'') = Inr source \<and>
    fetchFeed (sn_feed (sample_sync_net sample_answer)) source = Inr body \<and>
    active_keys (TrimSpace ''f1'') (reputation_entries (fst (sample_sync sample_answer))) =
      feed_key sample_env ` set (aggregateFeedEntries (dedupeFeedEntries
        (pf_Entries (parseFeedPayload (fn_json (sn_feed (sample_sync_net sample_answer))) source body))) whitelist)"
proof -
  obtain db' reqs run where run: "SyncFeedSource (\<lambda>_ _. sample_env) (sample_sync_net sample_answer) (\<lambda>_. False) feed_db None
      ''f1'' None ''go'' = (db', reqs, Inr run)"
    using sample_sync_ok unfolding sample_sync_def by (auto simp: is_ok_def split: prod.splits sum.splits)
  from sync_installs_feed [OF run] sample_sync_ok show ?thesis unfolding sample_sync_def run fst_conv by blast
qed

lemma sample_fetch_failed:
  "(case GetFeedSource sample_env feed_db (TrimSpace ''f1'') of Inl _ \<Rightarrow> False
    | Inr source \<Rightarrow> \<not> is_ok (fetchFeed (sn_feed (sample_sync_net (HttpFailed ''timeout''))) source))"
  by code_simp

theorem failed_fetch_keeps_policy_witness: "feed_frame (TrimSpace ''f1'') feed_db (fst (sample_sync (HttpFailed ''timeout'')))"
proof -
  obtain source e where "GetFeedSource sample_env feed_db (TrimSpace ''f1'') = Inr source"
    "fetchFeed (sn_feed (sample_sync_net (HttpFailed ''timeout''))) source = Inl e"
    using sample_fetch_failed by (auto simp: is_ok_def split: sum.splits)
  from failed_fetch_keeps_policy [OF this] show ?thesis unfolding sample_sync_def .
qed

end
