(* ===== verification/Spec2Isabelle.thy ===== *)
theory Spec2Isabelle
  imports ApplySafety PolicyAudit RuleExpiry SnapshotDiff UserSafety ViewingSafety AlertWitness AlertConfig FeedWitness
    RedactionSafety
begin

text \<open>
  A verification development for anti-ddos: an XDP based filter that is configured from a central
  control plane.

  \<^bold>\<open>The program.\<close> An \<^emph>\<open>agent\<close> (\<^verbatim>\<open>internal/agent\<close>) runs on every protected node. It verifies policy snapshots, resolves
  the forwarding targets in them, writes them into the inactive half of the BPF maps of an XDP program,
  flips the active slot and keeps the last valid snapshot on disk. The \<^emph>\<open>control plane\<close>
  (\<^verbatim>\<open>internal/control\<close>) stores the objects of a policy per user in PostgreSQL, checks who may change what,
  collects threat feeds, builds and signs a snapshot for every user whenever something changes, hands
  snapshots to the agents, records their reports and events, and raises alerts over Telegram.

  \<^bold>\<open>Conventions.\<close> Go structs are records, whose fields carry a short prefix; enumerations are
  datatypes or the source's constants. Unsigned integers are words of their width; times and durations are
  integers in nanoseconds; columns of the database are integers, with the range checks of the driver
  (\<open>int4\<close>, \<open>int8\<close>, \<open>scan_u32\<close>). Strings are lists of bytes. Errors are values: \<open>Inl e\<close> is an error, \<open>Inr a\<close> a result. A Go map that is
  only ranged over is a list; \<^verbatim>\<open>sort.Slice\<close> is \<open>sort_slice\<close>, a stable sort,
  while Go leaves the order of tied elements open. State is passed explicitly.

  \<^bold>\<open>The agent.\<close>
  \<^item> \<open>Netaddr\<close>, \<open>GoText\<close>, \<open>GoJson\<close>: the parts of \<^verbatim>\<open>net/netip\<close>, \<^verbatim>\<open>net\<close>, \<^verbatim>\<open>strings\<close>, \<^verbatim>\<open>strconv\<close> and the validity check of
    \<^verbatim>\<open>encoding/json\<close> that the source uses, with the round trips of addresses, prefixes and numbers.
  \<^item> \<open>Contract\<close> (\<^verbatim>\<open>contract.go\<close>, \<^verbatim>\<open>contracts_bpf.go\<close>): keys, values and the table of expected maps.
  \<^item> \<open>PolicySnapshot\<close>, \<open>SnapshotVerify\<close> (\<^verbatim>\<open>policy_snapshot.go\<close>): normal form, checksum, signing, verification; what an accepted
    snapshot guarantees, and that the checksum binds its content.
  \<^item> \<open>LastValid\<close> (\<^verbatim>\<open>snapshot.go\<close>): the file of the last valid snapshot, its atomic save and its round trip.
  \<^item> \<open>ForwardingResolver\<close> (\<^verbatim>\<open>forwarding_resolver.go\<close>): routes, neighbours and the probe with its wait loop, which
    ends before its fuel \<open>wait_fuel\<close>, the number of ticks until the deadline, is used up.
  \<^item> \<open>EbpfKernel\<close>, \<open>PolicyApply\<close>, \<open>PolicyInstall\<close>, \<open>PolicyContents\<close>, \<open>ApplyOutcome\<close>, \<open>ApplyProps\<close>, \<open>ApplySafety\<close> (\<^verbatim>\<open>policy_apply.go\<close>):
    the interface of the kernel as a locale, a simulated kernel that satisfies it, the whole apply with its
    rollbacks, and the theorems on a successful apply, a failed one and a sequence of them.
  \<^item> \<open>Redaction\<close>, \<open>RedactionSafety\<close> (\<^verbatim>\<open>redaction.go\<close>): regular expressions with leftmost-first matching, and which secrets are
    removed.

  \<^bold>\<open>The control plane.\<close>
  \<^item> \<open>ControlDB\<close>, \<open>ControlSql\<close> (\<^verbatim>\<open>migrations.go\<close>, \<^verbatim>\<open>store.go\<close>): the tables as lists of rows after the last migration, a
    transaction as an owner and a working copy, and one definition per form of statement. The laws
    of a table are the locale \<open>table\<close>, interpreted for every table. Every statement may fail
    (\<open>se_fails\<close>), so the theorems hold for every pattern of failures of the database.
  \<^item> \<open>PolicyScope\<close>, \<open>ScopeSafety\<close>, \<open>ViewingSafety\<close> (\<^verbatim>\<open>owner.go\<close>, \<^verbatim>\<open>policy_scope.go\<close>): owners, roles and the scope of a mutation;
    which operations a session that only looks cannot perform.
  \<^item> \<open>PolicyInput\<close>, \<open>PolicyStore\<close>, \<open>ScopedPolicyStore\<close>, \<open>PolicySafety\<close>, \<open>PolicyRefinement\<close>, \<open>PolicyIsolation\<close>, \<open>PolicyAudit\<close>,
    \<open>RuleExpiry\<close> (\<^verbatim>\<open>types.go\<close>, \<^verbatim>\<open>policy_store.go\<close>, \<^verbatim>\<open>admin_console.go\<close>): services, forwarding policies, white list, black
    list, rules and UDP source port blocks: validation, every mutation, what an actor can reach,
    well-formedness along every run, the audit log, and the expiry of rules.
  \<^item> \<open>SnapshotBuild\<close>, \<open>SnapshotChoice\<close>, \<open>SnapshotAccept\<close>, \<open>SnapshotStore\<close>, \<open>SnapshotHistory\<close>, \<open>SnapshotDistribution\<close>, \<open>SnapshotDiff\<close>
    (\<^verbatim>\<open>snapshot.go\<close>, \<^verbatim>\<open>snapshot_diff.go\<close>): the effective snapshot of a user, its isolation from other
    users, the history of versions, roll back, what an agent fetches, and differences.
  \<^item> \<open>FeedParse\<close>, \<open>FeedAggregate\<close>, \<open>FeedStore\<close>, \<open>FeedSafety\<close>, \<open>FeedWitness\<close> (\<^verbatim>\<open>feed.go\<close>): fetching, parsing and aggregating a threat
    feed, and the synchronisation of a source.
  \<^item> \<open>AlertStore\<close>, \<open>AlertSafety\<close>, \<open>AlertConfig\<close>, \<open>AlertWitness\<close> (\<^verbatim>\<open>alert.go\<close>): the Telegram configuration, alerts and their
    delivery with retries and the dedupe window.
  \<^item> \<open>UserStore\<close>, \<open>UserSafety\<close> (\<^verbatim>\<open>store.go\<close>, \<^verbatim>\<open>admin_console.go\<close>, \<^verbatim>\<open>admin_view.go\<close>): users, sessions and the view of a user.
  \<^item> \<open>ControlSamples\<close>: a concrete database on which the definitions are evaluated and the theorems applied.

  \<^bold>\<open>Parameters.\<close> Code outside the repository is an argument: the eBPF library and the kernel (\<open>ebpf_ops\<close>), netlink and
  time in the resolver, the file system calls of a save, JSON encoding and decoding where a value depends on
  them, SHA-256 (\<open>digest\<close>), bcrypt and random tokens, the HTTP clients of feeds and of Telegram, the URL
  package, the process environment. Theorems that need more than their type say so in their hypotheses.

  \<^bold>\<open>Not modelled.\<close> The BPF program in C and the code generated from it; the loader of the program and the attachment of
  XDP; \<^verbatim>\<open>cmd\<close>, configuration and HTTP handlers (\<^verbatim>\<open>server.go\<close>), which only decode, call the operations modelled here
  and encode; Prometheus metrics and the dashboard, which mostly show floating-point rates; the agent's
  counters, event reader and HTTP client loops; the ingestion of security events, the escalation to an ISP and the
  registration of agents (\<^verbatim>\<open>events.go\<close>, \<^verbatim>\<open>agent_store.go\<close>), of which only the tables are declared; filtered lists of
  the policy objects; the web console. The migrations are not run: the rows are those after the last one.
\<close>

end
